(* ===== verification/Float64.thy ===== *)
theory Float64
  imports Complex_Main "HOL-Library.Log_Nat"
begin

text \<open>
  The finite values of Rust's \<open>f64\<close> and the arithmetic the directory does on them.

  A finite \<open>f64\<close> is a rational number. Every arithmetic operation of the source is the
  exact rational operation followed by \<open>round64\<close>, the IEEE~754 rounding of binary64
  (to nearest, ties to even, 53 bit significand, gradual underflow at \<open>2 powi -1074\<close>).
  A decimal literal of the source, such as \<open>0.01\<close>, is \<open>round64 (1/100)\<close>.
  Infinities, NaN and the sign of zero are not represented: \<open>round64\<close> does not overflow,
  so the definitions agree with the code as long as no intermediate result reaches
  \<open>2 powi 1024\<close>. The inputs of the directory are JSON numbers, which are finite.

  The locale \<open>rounding\<close> states what the clients rely on (monotone, odd, idempotent, exact
  at 0 and 1); \<open>round64\<close> is its interpretation.
\<close>

type_synonym f64 = rat

section \<open>The interface: what a rounding promises\<close>

locale rounding =
  fixes rnd :: "rat \<Rightarrow> rat"
  assumes rnd_mono: "x \<le> y \<Longrightarrow> rnd x \<le> rnd y"
    and rnd_zero: "rnd 0 = 0"
    and rnd_one: "rnd 1 = 1"
    and rnd_idem: "rnd (rnd x) = rnd x"
begin

lemma rnd_nonneg: "0 \<le> x \<Longrightarrow> 0 \<le> rnd x"
  using rnd_mono [of 0 x] by (simp add: rnd_zero)

lemma rnd_nonpos: "x \<le> 0 \<Longrightarrow> rnd x \<le> 0"
  using rnd_mono [of x 0] by (simp add: rnd_zero)

lemma rnd_le_one: "x \<le> 1 \<Longrightarrow> rnd x \<le> 1"
  using rnd_mono [of x 1] by (simp add: rnd_one)

lemma rnd_one_le: "1 \<le> x \<Longrightarrow> 1 \<le> rnd x"
  using rnd_mono [of 1 x] by (simp add: rnd_one)

lemma rnd_le_fixed: "rnd w = w \<Longrightarrow> x \<le> w \<Longrightarrow> rnd x \<le> w"
  using rnd_mono [of x w] by simp

lemma rnd_ge_fixed: "rnd w = w \<Longrightarrow> w \<le> x \<Longrightarrow> w \<le> rnd x"
  using rnd_mono [of w x] by simp

text \<open>A weight times a factor in \<open>[0, 1]\<close> stays between 0 and the weight.\<close>

lemma rnd_weight:
  assumes "rnd w = w" "0 \<le> w" "0 \<le> x" "x \<le> 1"
  shows "0 \<le> rnd (w * x)" and "rnd (w * x) \<le> w"
proof -
  show "0 \<le> rnd (w * x)" using assms by (intro rnd_nonneg) simp
  have "w * x \<le> w" using assms by (simp add: mult_left_le)
  then show "rnd (w * x) \<le> w" using assms(1) by (rule rnd_le_fixed [rotated])
qed

lemma rnd_add_mono: "x \<le> x' \<Longrightarrow> y \<le> y' \<Longrightarrow> rnd (x + y) \<le> rnd (x' + y')"
  by (intro rnd_mono add_mono)

end

section \<open>Rounding to the nearest integer\<close>

text \<open>Ties to even, as the hardware rounds the significand.\<close>

definition round_even :: "rat \<Rightarrow> int" where
  "round_even x =
     (let f = floor x; d = x - of_int f
      in if d < 1 / 2 then f
         else if 1 / 2 < d then f + 1
         else if even f then f else f + 1)"

lemma round_even_of_int [simp]: "round_even (of_int k) = k"
  by (simp add: round_even_def)

lemma round_even_bounds: "floor x \<le> round_even x" "round_even x \<le> floor x + 1"
  by (auto simp: round_even_def Let_def)

lemma round_even_mono: "x \<le> y \<Longrightarrow> round_even x \<le> round_even y"
proof (cases "floor x = floor y")
  case True
  then show "x \<le> y \<Longrightarrow> ?thesis"
    by (auto simp: round_even_def Let_def)
next
  case False
  assume "x \<le> y"
  then have "floor x \<le> floor y" by (rule floor_mono)
  with False have "floor x + 1 \<le> floor y" by simp
  then show ?thesis using round_even_bounds(2) [of x] round_even_bounds(1) [of y] by linarith
qed

lemma round_even_le_int: "x \<le> of_int k \<Longrightarrow> round_even x \<le> k"
  using round_even_mono [of x "of_int k"] by simp

lemma round_even_ge_int: "of_int k \<le> x \<Longrightarrow> k \<le> round_even x"
  using round_even_mono [of "of_int k" x] by simp

text \<open>\<open>f64::round\<close>: ties away from zero.\<close>

definition f64_round :: "f64 \<Rightarrow> int" where
  "f64_round x = (if 0 \<le> x then floor (x + 1 / 2) else ceiling (x - 1 / 2))"

lemma f64_round_of_int [simp]: "f64_round (of_int k) = k"
  by (auto simp: f64_round_def floor_eq_iff ceiling_eq_iff)

lemma f64_round_nonneg: "0 \<le> x \<Longrightarrow> 0 \<le> f64_round x"
  by (simp add: f64_round_def)

lemma f64_round_mono: "x \<le> y \<Longrightarrow> f64_round x \<le> f64_round y"
proof -
  assume xy: "x \<le> y"
  have pos: "0 \<le> floor (y + 1 / 2)" if "0 \<le> y" using that by simp
  have neg: "ceiling (x - 1 / 2) \<le> 0" if "x < 0" using that by (simp add: ceiling_le_iff)
  show ?thesis
    using xy pos neg
    by (auto simp: f64_round_def intro!: floor_mono ceiling_mono intro: order_trans [OF neg pos])
qed

section \<open>The exponent of a positive rational\<close>

definition ilog2 :: "rat \<Rightarrow> int" where
  "ilog2 x =
     (let (n, d) = quotient_of x; k = bitlen n - bitlen d
      in if 2 powi k \<le> x then k else k - 1)"

lemma powi_2_add: "(2::rat) powi (a + b) = 2 powi a * 2 powi b"
  by (simp add: power_int_add)

lemma powi_2_pos [simp]: "0 < (2::rat) powi k"
  by (simp add: zero_less_power_int)

lemma powi_2_mono: "a \<le> b \<Longrightarrow> (2::rat) powi a \<le> 2 powi b"
  by (simp add: power_int_increasing)

lemma powi_2_nat: "0 \<le> k \<Longrightarrow> (2::rat) powi k = of_int (2 ^ nat k)"
  by (simp add: power_int_def)

lemma powi_2_less_imp: "(2::rat) powi a < 2 powi b \<Longrightarrow> a < b"
  using powi_2_mono [of b a] by linarith

lemma powi_2_le_imp: "(2::rat) powi a \<le> 2 powi b \<Longrightarrow> a \<le> b"
  using power_int_strict_increasing [of b a "2::rat"] by (cases "a \<le> b") simp_all

lemma quotient_of_pos:
  assumes "0 < x" and "quotient_of x = (n, d)"
  shows "0 < n" "0 < d" "x = of_int n / of_int d"
proof -
  show x: "x = of_int n / of_int d" using assms(2) by (rule quotient_of_div)
  show d: "0 < d" using assms(2) by (rule quotient_of_denom_pos)
  show "0 < n" using assms(1) x d by (simp add: zero_less_divide_iff)
qed

lemma bitlen_powi:
  assumes "0 < n"
  shows "(2::rat) powi (bitlen n - 1) \<le> of_int n" and "of_int n < (2::rat) powi bitlen n"
proof -
  have b: "1 \<le> bitlen n" using assms by (simp add: bitlen_def floorlog_def)
  have "2 ^ nat (bitlen n - 1) \<le> n \<and> n < 2 ^ nat (bitlen n)"
    using bitlen_bounds [OF assms] .
  then have "(of_int (2 ^ nat (bitlen n - 1)) :: rat) \<le> of_int n"
    and "(of_int n :: rat) < of_int (2 ^ nat (bitlen n))"
    by (simp_all only: of_int_le_iff of_int_less_iff)
  then show "(2::rat) powi (bitlen n - 1) \<le> of_int n" and "of_int n < (2::rat) powi bitlen n"
    using b by (simp_all add: powi_2_nat)
qed

lemma ilog2_bounds:
  assumes "0 < x"
  shows "2 powi ilog2 x \<le> x" and "x < 2 powi (ilog2 x + 1)"
proof -
  obtain n d where q: "quotient_of x = (n, d)" by fastforce
  note pos = quotient_of_pos [OF assms q]
  let ?k = "bitlen n - bitlen d"
  have nd: "x * of_int d = of_int n" using pos by simp
  have up: "x < 2 powi (?k + 1)"
  proof -
    have "x * 2 powi (bitlen d - 1) \<le> x * of_int d"
      using bitlen_powi(1) [OF pos(2)] assms by (simp add: mult_left_mono)
    also have "\<dots> < 2 powi bitlen n" using nd bitlen_powi(2) [OF pos(1)] by simp
    also have "\<dots> = 2 powi (?k + 1) * 2 powi (bitlen d - 1)"
      by (simp flip: powi_2_add)
    finally show ?thesis by (simp add: mult_less_cancel_right)
  qed
  have low: "2 powi (?k - 1) \<le> x"
  proof -
    have "(2::rat) powi (?k - 1) * 2 powi bitlen d = 2 powi (bitlen n - 1)"
      by (simp flip: powi_2_add)
    also have "\<dots> \<le> x * of_int d" using nd bitlen_powi(1) [OF pos(1)] by simp
    also have "\<dots> \<le> x * 2 powi bitlen d"
      using bitlen_powi(2) [OF pos(2)] assms by (simp add: mult_left_mono)
    finally show ?thesis by (simp add: mult_le_cancel_right)
  qed
  show "2 powi ilog2 x \<le> x" and "x < 2 powi (ilog2 x + 1)"
    using up low by (auto simp: ilog2_def q Let_def)
qed

lemma ilog2_mono:
  assumes "0 < x" "x \<le> y"
  shows "ilog2 x \<le> ilog2 y"
proof -
  have "2 powi ilog2 x \<le> x" using assms by (simp add: ilog2_bounds)
  also have "\<dots> < 2 powi (ilog2 y + 1)" using assms ilog2_bounds(2) [of y] by simp
  finally show ?thesis using powi_2_less_imp by fastforce
qed

section \<open>Rounding to binary64\<close>

text \<open>The exponent of the unit in the last place of \<open>x\<close>: \<open>-1074\<close> for subnormal results.\<close>

definition ulp_exp :: "rat \<Rightarrow> int" where
  "ulp_exp x = max (ilog2 \<bar>x\<bar> - 52) (-1074)"

definition round64 :: "rat \<Rightarrow> f64" where
  "round64 x =
     (if x = 0 then 0 else of_int (round_even (x / 2 powi ulp_exp x)) * 2 powi ulp_exp x)"

definition is_f64 :: "rat \<Rightarrow> bool" where
  "is_f64 x \<longleftrightarrow> round64 x = x"

text \<open>The four operations of \<open>f64\<close>.\<close>

definition fadd :: "f64 \<Rightarrow> f64 \<Rightarrow> f64" where
  "fadd x y = round64 (x + y)"

definition fsub :: "f64 \<Rightarrow> f64 \<Rightarrow> f64" where
  "fsub x y = round64 (x - y)"

definition fmul :: "f64 \<Rightarrow> f64 \<Rightarrow> f64" where
  "fmul x y = round64 (x * y)"

definition fdiv :: "f64 \<Rightarrow> f64 \<Rightarrow> f64" where
  "fdiv x y = round64 (x / y)"

text \<open>\<open>f64::clamp\<close> on finite values.\<close>

definition fclamp :: "f64 \<Rightarrow> f64 \<Rightarrow> f64 \<Rightarrow> f64" where
  "fclamp lo hi x = (if x < lo then lo else if hi < x then hi else x)"

lemmas f64_ops = fadd_def fsub_def fmul_def fdiv_def

lemma fclamp_bounds: "lo \<le> hi \<Longrightarrow> lo \<le> fclamp lo hi x \<and> fclamp lo hi x \<le> hi"
  by (simp add: fclamp_def)

lemma fclamp_id: "lo \<le> x \<Longrightarrow> x \<le> hi \<Longrightarrow> fclamp lo hi x = x"
  by (simp add: fclamp_def)

lemma round64_zero [simp]: "round64 0 = 0"
  by (simp add: round64_def)

lemma round64_cases:
  assumes "x \<noteq> 0"
  shows "round64 x = of_int (round_even (x / 2 powi ulp_exp x)) * 2 powi ulp_exp x"
  using assms by (simp add: round64_def)

lemma round64_ge_multiple:
  assumes "of_int k * 2 powi q \<le> x" and "q = ulp_exp x" and "x \<noteq> 0"
  shows "of_int k * 2 powi q \<le> round64 x"
proof -
  have "of_int k \<le> x / 2 powi q" using assms(1) by (simp add: field_simps)
  then have "k \<le> round_even (x / 2 powi q)" by (rule round_even_ge_int)
  then show ?thesis using assms(2,3) by (simp add: round64_cases)
qed

lemma round64_le_multiple:
  assumes "x \<le> of_int k * 2 powi q" and "q = ulp_exp x" and "x \<noteq> 0"
  shows "round64 x \<le> of_int k * 2 powi q"
proof -
  have "x / 2 powi q \<le> of_int k" using assms(1) by (simp add: field_simps)
  then have "round_even (x / 2 powi q) \<le> k" by (rule round_even_le_int)
  then show ?thesis using assms(2,3) by (simp add: round64_cases)
qed

lemma powi_2_multiple:
  assumes "q \<le> e"
  shows "\<exists>k. (2::rat) powi e = of_int k * 2 powi q"
proof
  have "(2::rat) powi e = 2 powi (e - q) * 2 powi q" by (simp flip: powi_2_add)
  then show "(2::rat) powi e = of_int (2 ^ nat (e - q)) * 2 powi q"
    using assms by (simp add: powi_2_nat)
qed

lemma round64_le_powi:
  assumes "0 < x" "x \<le> 2 powi e" "ulp_exp x \<le> e"
  shows "round64 x \<le> 2 powi e"
  using powi_2_multiple [OF assms(3)] round64_le_multiple assms by fastforce

lemma round64_ge_powi:
  assumes "0 < x" "2 powi e \<le> x" "ulp_exp x \<le> e"
  shows "2 powi e \<le> round64 x"
  using powi_2_multiple [OF assms(3)] round64_ge_multiple assms by fastforce

lemma round64_mono_pos:
  assumes "0 < x" "x \<le> y"
  shows "round64 x \<le> round64 y"
proof (cases "ulp_exp x = ulp_exp y")
  case True
  have "x / 2 powi ulp_exp y \<le> y / 2 powi ulp_exp y"
    using assms by (simp add: divide_right_mono)
  then have "round_even (x / 2 powi ulp_exp y) \<le> round_even (y / 2 powi ulp_exp y)"
    by (rule round_even_mono)
  then show ?thesis using True assms by (simp add: round64_def)
next
  case False
  have y: "0 < y" using assms by simp
  have "ilog2 x \<le> ilog2 y" using assms by (rule ilog2_mono)
  with False assms y have less: "ilog2 x + 1 \<le> ilog2 y" and ul: "-1074 < ilog2 y - 52"
    by (auto simp: ulp_exp_def max_def split: if_splits)
  have "round64 x \<le> 2 powi (ilog2 y)"
  proof (rule round64_le_powi)
    have "x < 2 powi (ilog2 x + 1)" using assms(1) by (rule ilog2_bounds)
    also have "\<dots> \<le> 2 powi ilog2 y" using less by (rule powi_2_mono)
    finally show "x \<le> 2 powi ilog2 y" by simp
    show "ulp_exp x \<le> ilog2 y" using less ul assms by (simp add: ulp_exp_def)
  qed (use assms in simp)
  also have "\<dots> \<le> round64 y"
    using y ul by (intro round64_ge_powi) (simp_all add: ilog2_bounds ulp_exp_def)
  finally show ?thesis .
qed

lemma round_even_minus: "round_even (- x) = - round_even x"
proof (cases "x = of_int (floor x)")
  case True
  then have "round_even x = floor x" "round_even (- x) = - floor x"
    using round_even_of_int [of "floor x"] round_even_of_int [of "- floor x"] by simp_all
  then show ?thesis by simp
next
  case False
  then have f: "floor (- x) = - floor x - 1"
    by (auto simp: floor_minus ceiling_altdef)
  show ?thesis unfolding round_even_def f by (auto simp: Let_def)
qed

lemma round64_minus: "round64 (- x) = - round64 x"
  by (simp add: round64_def ulp_exp_def round_even_minus)

lemma round64_pos_nonneg: "0 \<le> x \<Longrightarrow> 0 \<le> round64 x"
proof (cases "x = 0")
  case False
  assume "0 \<le> x"
  then show ?thesis
    using False round64_ge_multiple [of 0 "ulp_exp x" x] by simp
qed simp

lemma round64_mono: "x \<le> y \<Longrightarrow> round64 x \<le> round64 y"
proof -
  assume xy: "x \<le> y"
  consider "0 < x" | "x \<le> 0" "0 \<le> y" | "y < 0" by linarith
  then show ?thesis
  proof cases
    case 1
    then show ?thesis using xy by (rule round64_mono_pos)
  next
    case 2
    then have "0 \<le> round64 (- x)" "0 \<le> round64 y" by (simp_all add: round64_pos_nonneg)
    then show ?thesis by (simp add: round64_minus)
  next
    case 3
    then have "round64 (- y) \<le> round64 (- x)" using xy by (intro round64_mono_pos) simp_all
    then show ?thesis by (simp add: round64_minus)
  qed
qed

text \<open>Every multiple of a power of two with at most 53 significant bits is represented exactly.\<close>

lemma round64_of_multiple:
  assumes "x = of_int k * 2 powi ulp_exp x"
  shows "round64 x = x"
proof (cases "x = 0")
  case False
  have "x / 2 powi ulp_exp x = of_int k" by (subst assms) simp
  then show ?thesis using False assms by (simp add: round64_def)
qed simp

lemma ulp_exp_exact:
  assumes "x = of_int m * 2 powi q" "m \<noteq> 0" "\<bar>m\<bar> \<le> 2 ^ 53" "-1074 \<le> q" "q < ulp_exp x"
  shows "ulp_exp x = q + 1" and "\<bar>m\<bar> = 2 ^ 53"
proof -
  have ax: "\<bar>x\<bar> = of_int \<bar>m\<bar> * 2 powi q" using assms(1) by (simp add: abs_mult)
  have pos: "0 < \<bar>x\<bar>" using assms(1,2) by simp
  have u: "ulp_exp x = ilog2 \<bar>x\<bar> - 52" using assms(4,5) by (auto simp: ulp_exp_def max_def split: if_splits)
  have low: "2 powi (ulp_exp x + 52) \<le> \<bar>x\<bar>" using ilog2_bounds(1) [OF pos] u by simp
  have "of_int \<bar>m\<bar> \<le> (of_int (2 ^ 53) :: rat)" using assms(3) by (simp only: of_int_le_iff)
  then have m: "of_int \<bar>m\<bar> \<le> (2::rat) powi 53" by (simp add: powi_2_nat)
  then have "\<bar>x\<bar> \<le> 2 powi 53 * 2 powi q" using ax by (simp add: mult_right_mono)
  then have "(2::rat) powi (ulp_exp x + 52) \<le> 2 powi (53 + q)" using low by (simp add: powi_2_add)
  then show uq: "ulp_exp x = q + 1"
    using powi_2_le_imp assms(5) by fastforce
  have "2 powi (53 + q) \<le> of_int \<bar>m\<bar> * (2::rat) powi q" using low ax uq by (simp add: add.commute)
  then have "(2::rat) powi 53 \<le> of_int \<bar>m\<bar>" by (simp add: powi_2_add)
  then have "(of_int (2 ^ 53) :: rat) \<le> of_int \<bar>m\<bar>" by (simp add: powi_2_nat)
  then have "2 ^ 53 \<le> \<bar>m\<bar>" by (simp only: of_int_le_iff)
  then show "\<bar>m\<bar> = 2 ^ 53" using assms(3) by simp
qed

lemma round64_exact:
  assumes "x = of_int m * 2 powi q" "\<bar>m\<bar> \<le> 2 ^ 53" "-1074 \<le> q"
  shows "round64 x = x"
proof (cases "m = 0")
  case True
  then show ?thesis using assms(1) by simp
next
  case m: False
  show ?thesis
  proof (cases "ulp_exp x \<le> q")
    case True
    then obtain k where "(2::rat) powi q = of_int k * 2 powi ulp_exp x" using powi_2_multiple by blast
    then have "x = of_int (m * k) * 2 powi ulp_exp x" using assms(1) by simp
    then show ?thesis by (rule round64_of_multiple)
  next
    case False
    then have "q < ulp_exp x" by simp
    from ulp_exp_exact [OF assms(1) m assms(2,3) this]
    have "ulp_exp x = q + 1" "m = 2 ^ 53 \<or> m = - (2 ^ 53)" by auto
    then have "x = of_int (if 0 \<le> m then 2 ^ 52 else - (2 ^ 52)) * 2 powi ulp_exp x"
      using assms(1) by (auto simp: powi_2_add)
    then show ?thesis by (rule round64_of_multiple)
  qed
qed

lemma round64_of_int: "\<bar>m\<bar> \<le> 2 ^ 53 \<Longrightarrow> round64 (of_int m) = of_int m"
  by (rule round64_exact [of _ m 0]) simp_all

lemma round_even_significand:
  assumes "x \<noteq> 0"
  shows "\<bar>round_even (x / 2 powi ulp_exp x)\<bar> \<le> 2 ^ 53"
proof -
  let ?q = "ulp_exp x"
  have q: "ilog2 \<bar>x\<bar> + 1 \<le> 53 + ?q" by (simp add: ulp_exp_def)
  have "\<bar>x\<bar> < 2 powi (ilog2 \<bar>x\<bar> + 1)" using assms by (simp add: ilog2_bounds)
  also have "\<dots> \<le> 2 powi (53 + ?q)" using q by (rule powi_2_mono)
  finally have "\<bar>x\<bar> / 2 powi ?q \<le> 2 powi 53" by (simp add: powi_2_add field_simps)
  then have "\<bar>x / 2 powi ?q\<bar> \<le> of_int (2 ^ 53)" by (simp add: powi_2_nat)
  then have "x / 2 powi ?q \<le> of_int (2 ^ 53)" "of_int (- (2 ^ 53)) \<le> x / 2 powi ?q"
    unfolding abs_le_iff by simp_all
  then show ?thesis using round_even_le_int round_even_ge_int by fastforce
qed

lemma round64_idem: "round64 (round64 x) = round64 x"
proof (cases "x = 0")
  case False
  show ?thesis
    by (rule round64_exact [OF round64_cases [OF False] round_even_significand [OF False]])
      (simp add: ulp_exp_def)
qed simp

interpretation f64: rounding round64
  by unfold_locales (use round64_mono round64_idem round64_of_int [of 1] in simp_all)

lemma is_f64_round64 [simp]: "is_f64 (round64 x)"
  by (simp add: is_f64_def round64_idem)

lemma round64_fixed: "is_f64 x \<Longrightarrow> round64 x = x"
  by (simp add: is_f64_def)

lemma is_f64_simps [simp]: "is_f64 0" "is_f64 1"
  by (simp_all add: is_f64_def f64.rnd_one)

lemma is_f64_of_nat: "n \<le> 2 ^ 53 \<Longrightarrow> is_f64 (of_nat n)"
  using round64_of_int [of "int n"] by (simp add: is_f64_def)

lemma is_f64_ops [simp]: "is_f64 (fadd x y)" "is_f64 (fsub x y)" "is_f64 (fmul x y)" "is_f64 (fdiv x y)"
  by (simp_all add: f64_ops)

lemma is_f64_fclamp: "is_f64 lo \<Longrightarrow> is_f64 hi \<Longrightarrow> is_f64 x \<Longrightarrow> is_f64 (fclamp lo hi x)"
  by (simp add: fclamp_def)

lemma fmul_mono_left: "0 \<le> w \<Longrightarrow> x \<le> y \<Longrightarrow> fmul x w \<le> fmul y w"
  unfolding fmul_def by (intro f64.rnd_mono mult_right_mono)

lemma fmul_mono_right: "0 \<le> w \<Longrightarrow> x \<le> y \<Longrightarrow> fmul w x \<le> fmul w y"
  unfolding fmul_def by (intro f64.rnd_mono mult_left_mono)

lemma fadd_mono: "x \<le> x' \<Longrightarrow> y \<le> y' \<Longrightarrow> fadd x y \<le> fadd x' y'"
  unfolding fadd_def by (rule f64.rnd_add_mono)

lemma fsub_mono: "x \<le> x' \<Longrightarrow> y' \<le> y \<Longrightarrow> fsub x y \<le> fsub x' y'"
  unfolding fsub_def by (intro f64.rnd_mono diff_mono)

lemma fdiv_mono: "0 < w \<Longrightarrow> x \<le> y \<Longrightarrow> fdiv x w \<le> fdiv y w"
  unfolding fdiv_def by (intro f64.rnd_mono divide_right_mono) simp_all

lemma fmul_nonneg: "0 \<le> x \<Longrightarrow> 0 \<le> y \<Longrightarrow> 0 \<le> fmul x y"
  unfolding fmul_def by (intro f64.rnd_nonneg mult_nonneg_nonneg)

lemma fadd_nonneg: "0 \<le> x \<Longrightarrow> 0 \<le> y \<Longrightarrow> 0 \<le> fadd x y"
  unfolding fadd_def by (intro f64.rnd_nonneg add_nonneg_nonneg)

lemmas f64_mono = fadd_mono fmul_mono_left fmul_mono_right fsub_mono fdiv_mono

end
