(* ===== verification/Prelude.thy ===== *)
theory Prelude
  imports Float64
    "HOL-Library.List_Lexorder" "HOL-Library.Char_ord"
    "HOL-Library.AList" "HOL-Library.Word" "HOL-Library.Multiset" "HOL-Library.Product_Lexorder"
begin

text \<open>
  What the components share: names for the machine types, the part of Rust's standard
  library that the source uses on strings, integers, vectors and hash maps, and the lemmas
  about it.

  A Rust \<open>str\<close> is the list of its UTF-8 bytes, a \<^typ>\<open>string\<close>: \<open>len\<close> counts
  bytes, comparison is bytewise, and a predicate that holds only of ASCII characters gives
  the same answer on bytes as on characters. A \<open>HashMap\<close> is an association list with
  distinct keys; its order stands for the iteration order of the hash map, which Rust leaves
  unspecified. Unsigned integers whose overflow matters are words.
\<close>

type_synonym u8 = "8 word"
type_synonym u16 = "16 word"
type_synonym u32 = "32 word"
type_synonym u64 = "64 word"
type_synonym i64 = int

text \<open>The rules that unfold the string operations of the standard library.\<close>

named_theorems str_defs

section \<open>ASCII characters\<close>

definition code :: "char \<Rightarrow> nat" where
  "code c = of_char c"

definition is_ascii_digit :: "char \<Rightarrow> bool" where
  "is_ascii_digit c \<longleftrightarrow> 48 \<le> code c \<and> code c \<le> 57"

definition is_ascii_lowercase :: "char \<Rightarrow> bool" where
  "is_ascii_lowercase c \<longleftrightarrow> 97 \<le> code c \<and> code c \<le> 122"

definition is_ascii_uppercase :: "char \<Rightarrow> bool" where
  "is_ascii_uppercase c \<longleftrightarrow> 65 \<le> code c \<and> code c \<le> 90"

definition is_ascii_alphanumeric :: "char \<Rightarrow> bool" where
  "is_ascii_alphanumeric c \<longleftrightarrow> is_ascii_digit c \<or> is_ascii_lowercase c \<or> is_ascii_uppercase c"

definition ascii_lower :: "char \<Rightarrow> char" where
  "ascii_lower c = (if is_ascii_uppercase c then char_of (code c + 32) else c)"

lemmas [str_defs] = code_def is_ascii_digit_def is_ascii_lowercase_def is_ascii_uppercase_def
  is_ascii_alphanumeric_def ascii_lower_def

section \<open>Strings\<close>

definition to_ascii_lowercase :: "string \<Rightarrow> string" where
  "to_ascii_lowercase s = map ascii_lower s"

definition starts_with :: "string \<Rightarrow> string \<Rightarrow> bool" where
  "starts_with s p \<longleftrightarrow> take (length p) s = p"

definition ends_with :: "string \<Rightarrow> string \<Rightarrow> bool" where
  "ends_with s p \<longleftrightarrow> starts_with (rev s) (rev p)"

definition strip_prefix :: "string \<Rightarrow> string \<Rightarrow> string option" where
  "strip_prefix s p = (if starts_with s p then Some (drop (length p) s) else None)"

fun str_contains :: "string \<Rightarrow> string \<Rightarrow> bool" where
  "str_contains [] p \<longleftrightarrow> p = []"
| "str_contains (c # s) p \<longleftrightarrow> starts_with (c # s) p \<or> str_contains s p"

text \<open>\<open>str::split\<close> on a character: never the empty list.\<close>

fun split_char :: "char \<Rightarrow> string \<Rightarrow> string list" where
  "split_char c [] = [[]]"
| "split_char c (x # xs) =
     (if x = c then [] # split_char c xs
      else (case split_char c xs of [] \<Rightarrow> [[x]] | y # ys \<Rightarrow> (x # y) # ys))"

fun join_char :: "char \<Rightarrow> string list \<Rightarrow> string" where
  "join_char c [] = []"
| "join_char c [x] = x"
| "join_char c (x # y # ys) = x @ c # join_char c (y # ys)"

definition split_once :: "char \<Rightarrow> string \<Rightarrow> (string \<times> string) option" where
  "split_once c s =
     (case dropWhile (\<lambda>x. x \<noteq> c) s of [] \<Rightarrow> None | _ # r \<Rightarrow> Some (takeWhile (\<lambda>x. x \<noteq> c) s, r))"

definition rsplit_once :: "char \<Rightarrow> string \<Rightarrow> (string \<times> string) option" where
  "rsplit_once c s =
     (case dropWhile (\<lambda>x. x \<noteq> c) (rev s) of
        [] \<Rightarrow> None
      | _ # r \<Rightarrow> Some (rev r, rev (takeWhile (\<lambda>x. x \<noteq> c) (rev s))))"

text \<open>\<open>str::trim\<close>: the UTF-8 encodings of the characters with Unicode property \<open>White_Space\<close>.\<close>

definition white_space :: "string list" where
  "white_space =
     map (map char_of)
       ([[9], [10], [11], [12], [13], [32], [194, 133], [194, 160], [225, 154, 128]]
        @ map (\<lambda>i. [226, 128, 128 + i]) [0..<11]
        @ [[226, 128, 168], [226, 128, 169], [226, 128, 175], [226, 129, 159], [227, 128, 128 :: nat]])"

function trim_start :: "string \<Rightarrow> string" where
  "trim_start s =
     (case find (\<lambda>w. starts_with s w) white_space of
        Some w \<Rightarrow> if w = [] then s else trim_start (drop (length w) s)
      | None \<Rightarrow> s)"
  by pat_completeness auto
termination
proof (relation "measure length")
  fix s w
  assume f: "find (\<lambda>w. starts_with s w) white_space = Some w" and w: "w \<noteq> []"
  then have "starts_with s w" by (auto simp: find_Some_iff)
  with w have "0 < length w" "length w \<le> length s"
    by (auto simp: starts_with_def dest: arg_cong [where f = length])
  then show "(drop (length w) s, s) \<in> measure length" by (simp del: length_greater_0_conv)
qed simp

declare trim_start.simps [simp del]

function trim_end :: "string \<Rightarrow> string" where
  "trim_end s =
     (case find (\<lambda>w. ends_with s w) white_space of
        Some w \<Rightarrow> if w = [] then s else trim_end (take (length s - length w) s)
      | None \<Rightarrow> s)"
  by pat_completeness auto
termination
proof (relation "measure length")
  fix s w
  assume f: "find (\<lambda>w. ends_with s w) white_space = Some w" and w: "w \<noteq> []"
  then have "ends_with s w" by (auto simp: find_Some_iff)
  with w have "0 < length w" "length w \<le> length s"
    by (auto simp: ends_with_def starts_with_def dest: arg_cong [where f = length])
  then show "(take (length s - length w) s, s) \<in> measure length" by (simp del: length_greater_0_conv)
qed simp

declare trim_end.simps [simp del]

definition trim :: "string \<Rightarrow> string" where
  "trim s = trim_end (trim_start s)"

lemmas [str_defs] = to_ascii_lowercase_def starts_with_def ends_with_def strip_prefix_def
  split_once_def rsplit_once_def

definition plain_char :: "char \<Rightarrow> bool" where
  "plain_char c \<longleftrightarrow> 32 < code c \<and> code c < 128"

lemma white_space_ends: "list_all (\<lambda>w. w \<noteq> [] \<and> \<not> plain_char (hd w) \<and> \<not> plain_char (last w)) white_space"
  by (simp add: white_space_def plain_char_def code_def upt_rec)

lemma trim_start_plain:
  assumes "s = [] \<or> plain_char (hd s)"
  shows "trim_start s = s"
proof -
  have "\<not> starts_with s w" if "w \<in> set white_space" for w
  proof -
    have "w \<noteq> []" "\<not> plain_char (hd w)" using that white_space_ends by (auto simp: list_all_iff)
    then show ?thesis using assms by (cases w; cases s) (auto simp: starts_with_def)
  qed
  then have "find (\<lambda>w. starts_with s w) white_space = None" by (simp add: find_None_iff)
  then show ?thesis by (subst trim_start.simps) simp
qed

lemma trim_end_plain:
  assumes "s = [] \<or> plain_char (last s)"
  shows "trim_end s = s"
proof -
  have "\<not> ends_with s w" if "w \<in> set white_space" for w
  proof -
    have "w \<noteq> []" "\<not> plain_char (last w)" using that white_space_ends by (auto simp: list_all_iff)
    then show ?thesis using assms by (cases w rule: rev_cases; cases s rule: rev_cases) (auto simp: ends_with_def starts_with_def)
  qed
  then have "find (\<lambda>w. ends_with s w) white_space = None" by (simp add: find_None_iff)
  then show ?thesis by (subst trim_end.simps) simp
qed

text \<open>A text that begins and ends with a visible ASCII character is its own trimmed form.\<close>

lemma trim_plain: "s = [] \<or> plain_char (hd s) \<and> plain_char (last s) \<Longrightarrow> trim s = s"
  by (auto simp: trim_def trim_start_plain trim_end_plain)

subsection \<open>Facts about prefixes, splitting and joining\<close>

lemma starts_with_append: "starts_with s p \<longleftrightarrow> (\<exists>r. s = p @ r)"
  by (metis append_eq_conv_conj append_take_drop_id starts_with_def)

lemma strip_prefix_Some: "strip_prefix s p = Some r \<longleftrightarrow> s = p @ r"
  by (auto simp: strip_prefix_def starts_with_def) (metis append_take_drop_id)

lemma split_char_not_Nil [simp]: "split_char c s \<noteq> []"
  by (induction s) (auto split: list.splits)

lemma join_split [simp]: "join_char c (split_char c s) = s"
proof (induction s)
  case (Cons x xs)
  obtain y ys where "split_char c xs = y # ys" by (cases "split_char c xs") auto
  with Cons show ?case by (cases ys) auto
qed simp

lemma split_char_no_sep: "s' \<in> set (split_char c s) \<Longrightarrow> c \<notin> set s'"
proof (induction s arbitrary: s')
  case (Cons x xs)
  then show ?case by (auto split: if_splits list.splits)
qed simp

lemma split_char_single: "c \<notin> set s \<Longrightarrow> split_char c s = [s]"
  by (induction s) auto

lemma split_char_append:
  "c \<notin> set p \<Longrightarrow> split_char c (p @ c # s) = p # split_char c s"
  by (induction p) auto

lemma split_join:
  "xs \<noteq> [] \<Longrightarrow> \<forall>x \<in> set xs. c \<notin> set x \<Longrightarrow> split_char c (join_char c xs) = xs"
proof (induction c xs rule: join_char.induct)
  case (3 c x y ys)
  then show ?case using split_char_append by simp
qed (simp_all add: split_char_single)

lemma rsplit_once_Some:
  assumes "rsplit_once c s = Some (a, b)"
  shows "s = a @ c # b" and "c \<notin> set b"
proof -
  let ?t = "takeWhile (\<lambda>x. x \<noteq> c) (rev s)"
  obtain x r where d: "dropWhile (\<lambda>x. x \<noteq> c) (rev s) = x # r"
    using assms by (auto simp: rsplit_once_def split: list.splits)
  with assms have ab: "a = rev r" "b = rev ?t" by (auto simp: rsplit_once_def)
  have "x = c" using d by (auto simp: dropWhile_eq_Cons_conv)
  have "rev s = ?t @ x # r" using d takeWhile_dropWhile_id [of "\<lambda>x. x \<noteq> c" "rev s"] by simp
  then have "s = rev (?t @ x # r)" by (metis rev_rev_ident)
  then show "s = a @ c # b" using ab \<open>x = c\<close> by simp
  show "c \<notin> set b" using ab by (auto dest: set_takeWhileD)
qed

section \<open>Integers in decimal\<close>

definition digit_value :: "char \<Rightarrow> int" where
  "digit_value c = int (code c) - 48"

definition digits_value :: "string \<Rightarrow> int" where
  "digits_value ds = foldl (\<lambda>n d. 10 * n + digit_value d) 0 ds"

text \<open>
  \<open>str::parse\<close> into an unsigned type with maximum \<open>mx\<close>: an optional leading plus sign, at
  least one digit, leading zeros allowed, an error when the value does not fit.
\<close>

definition parse_uint :: "int \<Rightarrow> string \<Rightarrow> int option" where
  "parse_uint mx s =
     (let ds = (case s of c # cs \<Rightarrow> if c = CHR ''+'' then cs else s | [] \<Rightarrow> [])
      in if ds = [] \<or> \<not> list_all is_ascii_digit ds then None
         else if digits_value ds \<le> mx then Some (digits_value ds) else None)"

lemma parse_uint_bound: "parse_uint mx s = Some n \<Longrightarrow> n \<le> mx"
  by (auto simp: parse_uint_def Let_def split: if_splits)

text \<open>\<open>as f64\<close> on an unsigned integer: rounded to the nearest \<open>f64\<close>, exact up to \<open>2 ^ 53\<close>.\<close>

definition f64_of_word :: "'a::len word \<Rightarrow> f64" where
  "f64_of_word w = round64 (of_nat (unat w))"

lemma f64_of_word_mono: "v \<le> w \<Longrightarrow> f64_of_word v \<le> f64_of_word w"
  unfolding f64_of_word_def word_le_nat_alt by (intro f64.rnd_mono) (simp only: of_nat_le_iff)

lemma f64_of_word_nonneg [simp]: "0 \<le> f64_of_word w"
  unfolding f64_of_word_def by (intro f64.rnd_nonneg) (simp only: of_nat_0_le_iff)

lemma f64_of_word_0 [simp]: "f64_of_word 0 = 0"
  by (simp add: f64_of_word_def)

lemma f64_of_u32: "f64_of_word (w :: u32) = of_nat (unat w)"
proof -
  have "unat w < 2 ^ LENGTH(32)" by (rule unsigned_less)
  then show ?thesis unfolding f64_of_word_def by (intro round64_fixed is_f64_of_nat) (simp add: less_imp_le)
qed

section \<open>Saturating arithmetic\<close>

definition saturating_add :: "'a::len word \<Rightarrow> 'a word \<Rightarrow> 'a word" where
  "saturating_add a b = (if uint a + uint b > uint (- 1 :: 'a word) then - 1 else a + b)"

lemma uint_max_word: "uint (- 1 :: 'a::len word) = 2 ^ LENGTH('a) - 1"
  by (simp add: unsigned_minus_1_eq_mask mask_eq_exp_minus_1)

lemma uint_saturating_add:
  "uint (saturating_add a (b :: 'a::len word)) = min (uint a + uint b) (2 ^ LENGTH('a) - 1)"
proof (cases "uint a + uint b < 2 ^ LENGTH('a)")
  case True
  then show ?thesis by (simp add: saturating_add_def uint_max_word uint_add_lem [THEN iffD1])
next
  case False
  then show ?thesis by (simp add: saturating_add_def uint_max_word)
qed

section \<open>Vectors\<close>

text \<open>\<open>sort\<close> followed by \<open>dedup\<close>.\<close>

definition sort_dedup :: "'a::linorder list \<Rightarrow> 'a list" where
  "sort_dedup xs = remdups_adj (sort xs)"

lemma set_sort_dedup [simp]: "set (sort_dedup xs) = set xs"
  by (simp add: sort_dedup_def)

lemma sorted_distinct_remdups_adj: "sorted xs \<Longrightarrow> distinct (remdups_adj xs)"
  by (induction xs rule: remdups_adj.induct) auto

lemma distinct_sort_dedup [simp]: "distinct (sort_dedup xs)"
  by (simp add: sort_dedup_def sorted_distinct_remdups_adj)

lemma sorted_sort_dedup [simp]: "sorted (sort_dedup xs)"
  by (simp add: sort_dedup_def)

text \<open>The result depends only on which elements occur: the order of a hash map does not show.\<close>

lemma sort_dedup_cong: "set xs = set ys \<Longrightarrow> sort_dedup xs = sort_dedup ys"
  by (rule sorted_distinct_set_unique) simp_all

text \<open>\<open>sort_by\<close> with a descending comparison on a key: stable.\<close>

definition sort_desc :: "('a \<Rightarrow> rat) \<Rightarrow> 'a list \<Rightarrow> 'a list" where
  "sort_desc key xs = sort_key (\<lambda>x. - key x) xs"

lemma set_sort_desc [simp]: "set (sort_desc key xs) = set xs"
  by (simp add: sort_desc_def)

lemma mset_sort_desc [simp]: "mset (sort_desc key xs) = mset xs"
  by (simp add: sort_desc_def)

lemma length_sort_desc [simp]: "length (sort_desc key xs) = length xs"
  by (simp add: sort_desc_def)

lemma sorted_wrt_sort_desc: "sorted_wrt (\<lambda>x y. key y \<le> key x) (sort_desc key xs)"
proof -
  have "sorted (map (\<lambda>x. - key x) (sort_desc key xs))" by (simp add: sort_desc_def)
  then show ?thesis by (simp add: sorted_map)
qed

lemma sort_desc_stable:
  "filter (\<lambda>x. key x = k) (sort_desc key xs) = filter (\<lambda>x. key x = k) xs"
  using sort_key_stable [of "\<lambda>x. - key x" "- k" xs] by (simp add: sort_desc_def)

text \<open>The elements a truncated descending sort leaves out are no better than those it keeps.\<close>

lemma sort_desc_take_best:
  assumes "x \<in> set (take n (sort_desc key xs))" and "y \<in> set (drop n (sort_desc key xs))"
  shows "key y \<le> key x"
  using sorted_wrt_sort_desc [of key xs] assms
  by (metis append_take_drop_id sorted_wrt_append)

section \<open>Hash maps\<close>

type_synonym ('k, 'v) hashmap = "('k \<times> 'v) list"

definition hm_insert :: "'k \<Rightarrow> 'v \<Rightarrow> ('k, 'v) hashmap \<Rightarrow> ('k, 'v) hashmap" where
  "hm_insert k v m = AList.update k v m"

definition hm_remove :: "'k \<Rightarrow> ('k, 'v) hashmap \<Rightarrow> ('k, 'v) hashmap" where
  "hm_remove k m = AList.delete k m"

definition hm_wf :: "('k, 'v) hashmap \<Rightarrow> bool" where
  "hm_wf m \<longleftrightarrow> distinct (map fst m)"

text \<open>\<open>*m.entry(k).or_default() += 1\<close> and \<open>m.entry(k).or_default().push(v)\<close>.\<close>

definition hm_bump :: "'k \<Rightarrow> ('k, 'v::{zero,one,plus}) hashmap \<Rightarrow> ('k, 'v) hashmap" where
  "hm_bump k m = hm_insert k ((case map_of m k of None \<Rightarrow> 0 | Some n \<Rightarrow> n) + 1) m"

definition hm_push :: "'k \<Rightarrow> 'v \<Rightarrow> ('k, 'v list) hashmap \<Rightarrow> ('k, 'v list) hashmap" where
  "hm_push k v m = hm_insert k (case map_of m k of None \<Rightarrow> [v] | Some vs \<Rightarrow> vs @ [v]) m"

lemma hm_lookup [simp]:
  "map_of (hm_insert k v m) = (map_of m)(k \<mapsto> v)"
  "map_of (hm_remove k m) = (map_of m)(k := None)"
  by (simp_all add: hm_insert_def hm_remove_def update_conv' delete_conv')

lemma hm_wf_simps [simp]:
  "hm_wf []" "hm_wf m \<Longrightarrow> hm_wf (hm_insert k v m)" "hm_wf m \<Longrightarrow> hm_wf (hm_remove k m)"
  by (simp_all add: hm_wf_def hm_insert_def hm_remove_def distinct_update distinct_delete)

lemma hm_wf_bump [simp]: "hm_wf m \<Longrightarrow> hm_wf (hm_bump k m)"
  by (simp add: hm_bump_def)

lemma hm_wf_push [simp]: "hm_wf m \<Longrightarrow> hm_wf (hm_push k v m)"
  by (simp add: hm_push_def)

lemma map_of_hm_bump:
  "map_of (hm_bump k m) = (map_of m)(k \<mapsto> (case map_of m k of None \<Rightarrow> 0 | Some n \<Rightarrow> n) + 1)"
  by (simp add: hm_bump_def)

lemma map_of_hm_push:
  "map_of (hm_push k v m) = (map_of m)(k \<mapsto> (case map_of m k of None \<Rightarrow> [v] | Some vs \<Rightarrow> vs @ [v]))"
  by (simp add: hm_push_def)

section \<open>Updating the first match in a vector\<close>

text \<open>
  \<open>guard.iter_mut().find(p)\<close> followed by an assignment through the reference: the first
  element that satisfies \<open>p\<close> is replaced.
\<close>

fun update_first :: "('a \<Rightarrow> bool) \<Rightarrow> ('a \<Rightarrow> 'a) \<Rightarrow> 'a list \<Rightarrow> 'a list" where
  "update_first p f [] = []"
| "update_first p f (x # xs) = (if p x then f x # xs else x # update_first p f xs)"

lemma update_first_no_match: "\<forall>x \<in> set xs. \<not> p x \<Longrightarrow> update_first p f xs = xs"
  by (induction xs) auto

lemma length_update_first [simp]: "length (update_first p f xs) = length xs"
  by (induction xs) auto

lemma find_None_set: "find p xs = None \<longleftrightarrow> (\<forall>x \<in> set xs. \<not> p x)"
  by (auto simp: find_None_iff)

lemma find_Some_set: "find p xs = Some x \<Longrightarrow> x \<in> set xs \<and> p x"
  by (auto simp: find_Some_iff)

lemma find_update_first:
  "(\<And>x. p x \<Longrightarrow> p (f x)) \<Longrightarrow> find p (update_first p f xs) = map_option f (find p xs)"
  by (induction xs) auto

lemma find_update_first_other:
  "(\<And>x. p x \<Longrightarrow> \<not> q x) \<Longrightarrow> (\<And>x. p x \<Longrightarrow> \<not> q (f x)) \<Longrightarrow>
     find q (update_first p f xs) = find q xs"
  by (induction xs) auto

lemma map_update_first:
  "(\<And>x. p x \<Longrightarrow> key (f x) = key x) \<Longrightarrow> map key (update_first p f xs) = map key xs"
  by (induction xs) auto

lemma set_update_first:
  "x \<in> set (update_first p f xs) \<Longrightarrow> x \<in> set xs \<or> (\<exists>y \<in> set xs. p y \<and> x = f y)"
  by (induction xs) (auto split: if_splits)

lemma find_append: "find p (xs @ ys) = (case find p xs of None \<Rightarrow> find p ys | Some x \<Rightarrow> Some x)"
  by (induction xs) auto

lemma find_filter: "find p (filter q xs) = find (\<lambda>x. q x \<and> p x) xs"
  by (induction xs) auto

end
