(* ===== verification/Reputation.thy ===== *)
theory Reputation
  imports Prelude
begin

text \<open>
  Reputation scoring, \<open>src/reputation.rs\<close>: the delta of one heartbeat with its cap (RT-01) and
  the clamped update of the score.
\<close>

definition DELTA_SUCCESS :: f64 where
  "DELTA_SUCCESS = round64 (1 / 100)"

definition DELTA_FAILURE :: f64 where
  "DELTA_FAILURE = - round64 (5 / 100)"

definition MAX_POSITIVE_DELTA_PER_HEARTBEAT :: f64 where
  "MAX_POSITIVE_DELTA_PER_HEARTBEAT = round64 (1 / 10)"

definition STARTING_SCORE :: f64 where
  "STARTING_SCORE = round64 (1 / 2)"

definition compute_delta :: "u32 \<Rightarrow> u32 \<Rightarrow> f64 \<Rightarrow> f64" where
  "compute_delta tasks_success tasks_failed avg_latency_ms =
     (let delta = fmul (f64_of_word tasks_success) DELTA_SUCCESS;
          delta = fadd delta (fmul (f64_of_word tasks_failed) DELTA_FAILURE)
      in if delta > MAX_POSITIVE_DELTA_PER_HEARTBEAT then MAX_POSITIVE_DELTA_PER_HEARTBEAT else delta)"

definition apply_delta :: "f64 \<Rightarrow> f64 \<Rightarrow> f64" where
  "apply_delta old_score delta = fclamp 0 1 (fadd old_score delta)"

section \<open>Bounds\<close>

lemma delta_consts:
  "0 \<le> DELTA_SUCCESS" "DELTA_FAILURE \<le> 0" "0 \<le> MAX_POSITIVE_DELTA_PER_HEARTBEAT"
  by (simp_all add: DELTA_SUCCESS_def DELTA_FAILURE_def MAX_POSITIVE_DELTA_PER_HEARTBEAT_def
      f64.rnd_nonneg)

lemma compute_delta_min:
  "compute_delta s f l =
     min (fadd (fmul (f64_of_word s) DELTA_SUCCESS) (fmul (f64_of_word f) DELTA_FAILURE))
         MAX_POSITIVE_DELTA_PER_HEARTBEAT"
  by (simp add: compute_delta_def min_def)

lemma compute_delta_le: "compute_delta s f l \<le> MAX_POSITIVE_DELTA_PER_HEARTBEAT"
  by (simp add: compute_delta_min)

lemma success_part_nonneg: "0 \<le> fmul (f64_of_word n) DELTA_SUCCESS"
  unfolding fmul_def by (intro f64.rnd_nonneg) (simp add: delta_consts)

lemma failure_part_nonpos: "fmul (f64_of_word n) DELTA_FAILURE \<le> 0"
  unfolding fmul_def by (intro f64.rnd_nonpos) (simp add: delta_consts mult_nonneg_nonpos)

lemma apply_delta_bounds: "0 \<le> apply_delta old d" "apply_delta old d \<le> 1"
  using fclamp_bounds [of 0 1] by (simp_all add: apply_delta_def)

lemma fclamp_mono: "lo \<le> hi \<Longrightarrow> x \<le> y \<Longrightarrow> fclamp lo hi x \<le> fclamp lo hi y"
  by (simp add: fclamp_def)

lemma apply_delta_mono: "old \<le> old' \<Longrightarrow> d \<le> d' \<Longrightarrow> apply_delta old d \<le> apply_delta old' d'"
  unfolding apply_delta_def fadd_def by (intro fclamp_mono f64.rnd_add_mono) simp_all

text \<open>
  Reputation delta (RT-01): one heartbeat's delta is at most
  \<open>MAX_POSITIVE_DELTA_PER_HEARTBEAT\<close>, is monotone in the reported successes, antitone in the
  reported failures, and is non-negative when no task failed, whatever the counts; all in
  binary64 arithmetic.
\<close>

theorem compute_delta_capped_monotone:
  assumes "s \<le> s'" and "f' \<le> f"
  shows "compute_delta s f l \<le> compute_delta s' f' l'
    \<and> compute_delta s' f' l' \<le> MAX_POSITIVE_DELTA_PER_HEARTBEAT
    \<and> 0 \<le> compute_delta s 0 l"
proof (intro conjI)
  have "f64_of_word s * DELTA_SUCCESS \<le> f64_of_word s' * DELTA_SUCCESS"
    using assms(1) delta_consts by (intro mult_right_mono) (simp_all add: f64_of_word_mono)
  then have s: "fmul (f64_of_word s) DELTA_SUCCESS \<le> fmul (f64_of_word s') DELTA_SUCCESS"
    unfolding fmul_def by (rule f64.rnd_mono)
  have "f64_of_word f * DELTA_FAILURE \<le> f64_of_word f' * DELTA_FAILURE"
    using assms(2) delta_consts by (intro mult_right_mono_neg) (simp_all add: f64_of_word_mono)
  then have "fmul (f64_of_word f) DELTA_FAILURE \<le> fmul (f64_of_word f') DELTA_FAILURE"
    unfolding fmul_def by (rule f64.rnd_mono)
  with s show "compute_delta s f l \<le> compute_delta s' f' l'"
    unfolding compute_delta_min fadd_def by (intro min.mono f64.rnd_add_mono) simp_all
  have "fmul 0 DELTA_FAILURE = 0" by (simp add: fmul_def)
  then show "0 \<le> compute_delta s 0 l"
    using success_part_nonneg [of s] delta_consts
    by (simp add: compute_delta_min fadd_def f64.rnd_nonneg)
qed (rule compute_delta_le)

theorem compute_delta_capped_monotone_witness:
  "(3::u32) \<le> 40 \<and> (1::u32) \<le> 2
    \<and> compute_delta 3 2 0 \<le> compute_delta 40 1 0
    \<and> compute_delta 40 1 0 \<le> MAX_POSITIVE_DELTA_PER_HEARTBEAT \<and> 0 \<le> compute_delta 3 0 0"
proof -
  have h: "(3::u32) \<le> 40" "(1::u32) \<le> 2" by simp_all
  show ?thesis using h compute_delta_capped_monotone [OF h, of 0 0] by simp
qed

text \<open>
  One heartbeat cannot saturate a fresh score: whatever counts a node reports, a score at
  the starting value 0.5 ends at no more than the binary64 value of 0.6, and every updated
  score lies in [0, 1].
\<close>

theorem one_heartbeat_bounded:
  "apply_delta STARTING_SCORE (compute_delta s f l) \<le> round64 (6 / 10)
    \<and> 0 \<le> apply_delta old d \<and> apply_delta old d \<le> 1"
proof -
  have "apply_delta STARTING_SCORE (compute_delta s f l)
      \<le> apply_delta STARTING_SCORE MAX_POSITIVE_DELTA_PER_HEARTBEAT"
    by (rule apply_delta_mono) (simp_all add: compute_delta_le)
  also have "\<dots> = round64 (6 / 10)" by code_simp
  finally show ?thesis by (simp add: apply_delta_bounds)
qed

text \<open>
  The comment on \<open>compute_delta\<close> says that only the positive component is capped and the
  failures are not. This is that reading.
\<close>

definition positive_part_capped :: "u32 \<Rightarrow> u32 \<Rightarrow> f64" where
  "positive_part_capped s f =
     fadd (min (fmul (f64_of_word s) DELTA_SUCCESS) MAX_POSITIVE_DELTA_PER_HEARTBEAT)
       (fmul (f64_of_word f) DELTA_FAILURE)"

text \<open>
  The cap is applied to the net delta. It is never below the value that capping the
  positive component alone would give, agrees with it when nothing failed, and is strictly
  above it for 20 successes and 1 failure, where the failure costs nothing: the delta is
  that of 10 successes and no failure.
\<close>

theorem cap_is_on_net_delta:
  "positive_part_capped s f \<le> compute_delta s f l
    \<and> positive_part_capped s 0 = compute_delta s 0 l
    \<and> positive_part_capped 20 1 < compute_delta 20 1 l
    \<and> compute_delta 20 1 l = compute_delta 10 0 l"
proof (intro conjI)
  let ?S = "fmul (f64_of_word s) DELTA_SUCCESS" and ?F = "fmul (f64_of_word f) DELTA_FAILURE"
  let ?M = "MAX_POSITIVE_DELTA_PER_HEARTBEAT"
  have M: "round64 ?M = ?M" by (simp add: MAX_POSITIVE_DELTA_PER_HEARTBEAT_def f64.rnd_idem)
  have "fadd (min ?S ?M) ?F \<le> ?M"
    unfolding fadd_def using failure_part_nonpos [of f]
    by (intro f64.rnd_le_fixed M) (simp add: min.coboundedI2 add_decreasing2)
  moreover have "fadd (min ?S ?M) ?F \<le> fadd ?S ?F"
    unfolding fadd_def by (intro f64.rnd_add_mono) simp_all
  ultimately show "positive_part_capped s f \<le> compute_delta s f l"
    by (simp add: positive_part_capped_def compute_delta_min)
  have "round64 ?S = ?S" by (simp add: fmul_def f64.rnd_idem)
  then show "positive_part_capped s 0 = compute_delta s 0 l"
    by (simp add: positive_part_capped_def compute_delta_min fadd_def fmul_def M min_def)
  show "positive_part_capped 20 1 < compute_delta 20 1 l"
    unfolding compute_delta_min positive_part_capped_def by code_simp
  show "compute_delta 20 1 l = compute_delta 10 0 l"
    unfolding compute_delta_min by code_simp
qed

end
