(* ===== verification/Validate.thy ===== *)
theory Validate
  imports Prelude
begin

text \<open>
  Registration validation, \<open>src/validate.rs\<close>: the intent URN grammar, the RoutableEndpoint
  guard (IICP-E035) with the address classification it rests on, and the reachability
  declaration (RT-04). Address literals are parsed as \<open>std::net\<close> does; the resolver of the
  operating system is the parameter \<open>resolve\<close>.
\<close>

unbundle bit_operations_syntax

section \<open>Addresses and their literals (std::net)\<close>

datatype Ipv4Addr = Ipv4Addr u8 u8 u8 u8

datatype Ipv6Addr = Ipv6Addr u16 u16 u16 u16 u16 u16 u16 u16

datatype IpAddr = V4 Ipv4Addr | V6 Ipv6Addr

fun v4_is_private :: "Ipv4Addr \<Rightarrow> bool" where
  "v4_is_private (Ipv4Addr a b c d) \<longleftrightarrow>
     a = 10 \<or> (a = 172 \<and> 16 \<le> b \<and> b \<le> 31) \<or> (a = 192 \<and> b = 168)"

fun v4_is_loopback :: "Ipv4Addr \<Rightarrow> bool" where
  "v4_is_loopback (Ipv4Addr a b c d) \<longleftrightarrow> a = 127"

fun v4_is_unspecified :: "Ipv4Addr \<Rightarrow> bool" where
  "v4_is_unspecified (Ipv4Addr a b c d) \<longleftrightarrow> a = 0 \<and> b = 0 \<and> c = 0 \<and> d = 0"

fun v4_is_link_local :: "Ipv4Addr \<Rightarrow> bool" where
  "v4_is_link_local (Ipv4Addr a b c d) \<longleftrightarrow> a = 169 \<and> b = 254"

fun v4_is_broadcast :: "Ipv4Addr \<Rightarrow> bool" where
  "v4_is_broadcast (Ipv4Addr a b c d) \<longleftrightarrow> a = 255 \<and> b = 255 \<and> c = 255 \<and> d = 255"

fun v4_is_multicast :: "Ipv4Addr \<Rightarrow> bool" where
  "v4_is_multicast (Ipv4Addr a b c d) \<longleftrightarrow> 224 \<le> a \<and> a \<le> 239"

fun v4_is_documentation :: "Ipv4Addr \<Rightarrow> bool" where
  "v4_is_documentation (Ipv4Addr a b c d) \<longleftrightarrow>
     (a = 192 \<and> b = 0 \<and> c = 2) \<or> (a = 198 \<and> b = 51 \<and> c = 100) \<or> (a = 203 \<and> b = 0 \<and> c = 113)"

fun v6_segments :: "Ipv6Addr \<Rightarrow> u16 list" where
  "v6_segments (Ipv6Addr a b c d e f g h) = [a, b, c, d, e, f, g, h]"

definition v6_is_loopback :: "Ipv6Addr \<Rightarrow> bool" where
  "v6_is_loopback v \<longleftrightarrow> v = Ipv6Addr 0 0 0 0 0 0 0 1"

definition v6_is_unspecified :: "Ipv6Addr \<Rightarrow> bool" where
  "v6_is_unspecified v \<longleftrightarrow> v = Ipv6Addr 0 0 0 0 0 0 0 0"

fun v6_first :: "Ipv6Addr \<Rightarrow> u16" where
  "v6_first (Ipv6Addr a b c d e f g h) = a"

definition v6_is_multicast :: "Ipv6Addr \<Rightarrow> bool" where
  "v6_is_multicast v \<longleftrightarrow> (v6_first v AND 0xff00) = 0xff00"

text \<open>\<open>is_unique_local\<close> and \<open>is_unicast_link_local\<close> of \<open>std\<close>, as used by \<open>blocked_ip\<close>.\<close>

definition v6_is_unique_local :: "Ipv6Addr \<Rightarrow> bool" where
  "v6_is_unique_local v \<longleftrightarrow> (v6_first v AND 0xfe00) = 0xfc00"

definition v6_is_unicast_link_local :: "Ipv6Addr \<Rightarrow> bool" where
  "v6_is_unicast_link_local v \<longleftrightarrow> (v6_first v AND 0xffc0) = 0xfe80"

fun to_ipv4_mapped :: "Ipv6Addr \<Rightarrow> Ipv4Addr option" where
  "to_ipv4_mapped (Ipv6Addr a b c d e f g h) =
     (if a = 0 \<and> b = 0 \<and> c = 0 \<and> d = 0 \<and> e = 0 \<and> f = 0xffff
      then Some (Ipv4Addr (ucast (drop_bit 8 g)) (ucast g) (ucast (drop_bit 8 h)) (ucast h))
      else None)"

subsection \<open>Parsing literals\<close>

text \<open>
  The parsers of \<open>std::net::parser\<close> take the remaining input and give the value read with the
  rest, or \<open>None\<close>, in which case nothing is consumed.
\<close>

type_synonym 'a reader = "string \<Rightarrow> ('a \<times> string) option"

definition hex_value :: "char \<Rightarrow> nat option" where
  "hex_value c =
     (if is_ascii_digit c then Some (code c - 48)
      else if 97 \<le> code c \<and> code c \<le> 102 then Some (code c - 87)
      else if 65 \<le> code c \<and> code c \<le> 70 then Some (code c - 55)
      else None)"

definition digit_of :: "nat \<Rightarrow> char \<Rightarrow> nat option" where
  "digit_of radix c = (case hex_value c of Some v \<Rightarrow> if v < radix then Some v else None | None \<Rightarrow> None)"

definition number_value :: "nat \<Rightarrow> string \<Rightarrow> int" where
  "number_value radix ds = foldl (\<lambda>n c. int radix * n + int (the (digit_of radix c))) 0 ds"

definition read_number :: "nat \<Rightarrow> nat \<Rightarrow> bool \<Rightarrow> int \<Rightarrow> int reader" where
  "read_number radix max_digits allow_zero_prefix mx s =
     (let ds = takeWhile (\<lambda>c. digit_of radix c \<noteq> None) s; v = number_value radix ds
      in if ds = [] \<or> max_digits < length ds \<or> mx < v then None
         else if \<not> allow_zero_prefix \<and> 1 < length ds \<and> take 1 ds = ''0'' then None
         else Some (v, drop (length ds) s))"

definition read_separator :: "char \<Rightarrow> nat \<Rightarrow> 'a reader \<Rightarrow> 'a reader" where
  "read_separator sep i inner s =
     (if 0 < i then (case s of c # r \<Rightarrow> if c = sep then inner r else None | [] \<Rightarrow> None) else inner s)"

definition read_ipv4_addr :: "Ipv4Addr reader" where
  "read_ipv4_addr s =
     (let oct = (\<lambda>i. read_separator CHR ''.'' i (read_number 10 3 False 255))
      in case oct 0 s of None \<Rightarrow> None | Some (a, s) \<Rightarrow>
         (case oct 1 s of None \<Rightarrow> None | Some (b, s) \<Rightarrow>
          (case oct 2 s of None \<Rightarrow> None | Some (c, s) \<Rightarrow>
           (case oct 3 s of None \<Rightarrow> None | Some (d, s) \<Rightarrow>
             Some (Ipv4Addr (of_int a) (of_int b) (of_int c) (of_int d), s)))))"

fun v4_groups :: "Ipv4Addr \<Rightarrow> u16 list" where
  "v4_groups (Ipv4Addr a b c d) =
     [push_bit 8 (ucast a) OR ucast b, push_bit 8 (ucast c) OR ucast d]"

text \<open>\<open>read_groups\<close>: at most \<open>limit\<close> groups from position \<open>i\<close>; the flag says that the last two came
  from an embedded IPv4 address.\<close>

fun read_groups :: "nat \<Rightarrow> nat \<Rightarrow> string \<Rightarrow> u16 list \<times> bool \<times> string" where
  "read_groups 0 i s = ([], False, s)"
| "read_groups (Suc left) i s =
     (case (if 0 < left then read_separator CHR '':'' i read_ipv4_addr s else None) of
        Some (v4, r) \<Rightarrow> (v4_groups v4, True, r)
      | None \<Rightarrow>
          (case read_separator CHR '':'' i (read_number 16 4 True 65535) s of
             Some (g, r) \<Rightarrow> (case read_groups left (Suc i) r of (gs, v4, r') \<Rightarrow> (of_int g # gs, v4, r'))
           | None \<Rightarrow> ([], False, s)))"

fun ipv6_of_groups :: "u16 list \<Rightarrow> Ipv6Addr option" where
  "ipv6_of_groups [a, b, c, d, e, f, g, h] = Some (Ipv6Addr a b c d e f g h)"
| "ipv6_of_groups _ = None"

definition read_ipv6_addr :: "Ipv6Addr reader" where
  "read_ipv6_addr s =
     (case read_groups 8 0 s of (head, head_v4, r) \<Rightarrow>
        if length head = 8 then map_option (\<lambda>a. (a, r)) (ipv6_of_groups head)
        else if head_v4 then None
        else (case strip_prefix r ''::'' of
                None \<Rightarrow> None
              | Some r' \<Rightarrow>
                  (case read_groups (8 - (length head + 1)) 0 r' of (tail, _, r'') \<Rightarrow>
                     map_option (\<lambda>a. (a, r''))
                       (ipv6_of_groups (head @ replicate (8 - length head - length tail) 0 @ tail)))))"

definition parse_all :: "'a reader \<Rightarrow> string \<Rightarrow> 'a option" where
  "parse_all p s = (case p s of Some (a, []) \<Rightarrow> Some a | _ \<Rightarrow> None)"

definition parse_ipv4 :: "string \<Rightarrow> Ipv4Addr option" where
  "parse_ipv4 s = parse_all read_ipv4_addr s"

definition parse_ipv6 :: "string \<Rightarrow> Ipv6Addr option" where
  "parse_ipv6 s = parse_all read_ipv6_addr s"

definition parse_ip :: "string \<Rightarrow> IpAddr option" where
  "parse_ip s =
     parse_all (\<lambda>s. case read_ipv4_addr s of
                      Some (a, r) \<Rightarrow> Some (V4 a, r)
                    | None \<Rightarrow> map_option (\<lambda>(a, r). (V6 a, r)) (read_ipv6_addr s)) s"

section \<open>The guards of validate.rs\<close>

datatype Env = Production | Staging | Local | Testing

definition enforces_routability :: "Env \<Rightarrow> bool" where
  "enforces_routability env \<longleftrightarrow> env = Production \<or> env = Staging"

definition label_ok :: "string \<Rightarrow> bool" where
  "label_ok s \<longleftrightarrow> s \<noteq> [] \<and>
     list_all (\<lambda>c. is_ascii_lowercase c \<or> is_ascii_digit c \<or> c = CHR ''_'' \<or> c = CHR ''-'') s"

definition version_ok :: "string \<Rightarrow> bool" where
  "version_ok ver \<longleftrightarrow> starts_with ver ''v'' \<and> 1 < length ver \<and> list_all is_ascii_digit (drop 1 ver)"

definition validate_intent :: "string \<Rightarrow> bool" where
  "validate_intent urn =
     (case strip_prefix urn ''urn:iicp:intent:'' of
        None \<Rightarrow> False
      | Some rest \<Rightarrow>
          let segs = split_char CHR '':'' rest
          in if length segs < 3 then False
             else if \<not> version_ok (segs ! (length segs - 1)) then False
             else list_all label_ok (take (length segs - 1) segs))"

datatype EndpointReject = BadScheme | NonRoutableHost | BareHostname | UnresolvableHost

definition endpoint_authority_host :: "string \<Rightarrow> EndpointReject + string" where
  "endpoint_authority_host authority =
     (case strip_prefix authority ''['' of
        Some bracketed \<Rightarrow>
          (case split_once CHR '']'' bracketed of
             None \<Rightarrow> Inl NonRoutableHost
           | Some (host, suffix) \<Rightarrow>
               if parse_ipv6 host = None then Inl NonRoutableHost
               else if suffix \<noteq> [] then
                 (case strip_prefix suffix '':'' of
                    None \<Rightarrow> Inl NonRoutableHost
                  | Some port \<Rightarrow>
                      if port = [] \<or> \<not> list_all is_ascii_digit port then Inl NonRoutableHost
                      else if parse_uint 65535 port = None then Inl NonRoutableHost
                      else Inr host)
               else Inr host)
      | None \<Rightarrow>
          if CHR ''['' \<in> set authority \<or> CHR '']'' \<in> set authority then Inl NonRoutableHost
          else Inr (case rsplit_once CHR '':'' authority of None \<Rightarrow> authority | Some (host, _) \<Rightarrow> host))"

definition is_publicly_routable_v4 :: "Ipv4Addr \<Rightarrow> bool" where
  "is_publicly_routable_v4 v4 \<longleftrightarrow>
     \<not> v4_is_private v4 \<and> \<not> v4_is_loopback v4 \<and> \<not> v4_is_unspecified v4 \<and> \<not> v4_is_link_local v4
     \<and> \<not> v4_is_broadcast v4 \<and> \<not> v4_is_multicast v4 \<and> \<not> v4_is_documentation v4"

fun is_publicly_routable_ip :: "IpAddr \<Rightarrow> bool" where
  "is_publicly_routable_ip (V4 v4) = is_publicly_routable_v4 v4"
| "is_publicly_routable_ip (V6 v6) =
     (case to_ipv4_mapped v6 of
        Some v4 \<Rightarrow> is_publicly_routable_v4 v4
      | None \<Rightarrow>
          let is_ula = (v6_first v6 AND 0xfe00) = 0xfc00;
              is_link_local = (v6_first v6 AND 0xffc0) = 0xfe80
          in \<not> v6_is_loopback v6 \<and> \<not> v6_is_unspecified v6 \<and> \<not> v6_is_multicast v6
             \<and> \<not> is_ula \<and> \<not> is_link_local)"

text \<open>\<open>resolve h\<close>: the addresses the system resolver gives for \<open>(h, 443)\<close>, \<open>None\<close> when it fails.\<close>

fun all_public :: "IpAddr list \<Rightarrow> bool \<Rightarrow> EndpointReject + unit" where
  "all_public [] found = (if found then Inr () else Inl UnresolvableHost)"
| "all_public (ip # ips) found =
     (if \<not> is_publicly_routable_ip ip then Inl NonRoutableHost else all_public ips True)"

definition ensure_host_dns_is_public ::
    "(string \<Rightarrow> IpAddr list option) \<Rightarrow> string \<Rightarrow> EndpointReject + unit" where
  "ensure_host_dns_is_public resolve host =
     (case resolve host of None \<Rightarrow> Inl UnresolvableHost | Some ips \<Rightarrow> all_public ips False)"

definition RESERVED_SUFFIX :: "string list" where
  "RESERVED_SUFFIX = [''.local'', ''.test'', ''.example'', ''.invalid'', ''.lan'', ''.internal'']"

definition reserved_name :: "string \<Rightarrow> bool" where
  "reserved_name lower \<longleftrightarrow>
     lower = ''localhost'' \<or> lower = ''::1'' \<or> starts_with lower ''127.''
     \<or> starts_with lower ''169.254.'' \<or> list_ex (ends_with lower) RESERVED_SUFFIX"

definition rfc1918_name :: "string \<Rightarrow> bool" where
  "rfc1918_name lower \<longleftrightarrow>
     starts_with lower ''10.'' \<or> starts_with lower ''192.168.''
     \<or> (starts_with lower ''172.''
        \<and> (case split_char CHR ''.'' lower of
             _ # o1 # _ \<Rightarrow> (case parse_uint 255 o1 of Some n \<Rightarrow> 16 \<le> n \<and> n \<le> 31 | None \<Rightarrow> False)
           | _ \<Rightarrow> False))"

definition endpoint_routable ::
    "(string \<Rightarrow> IpAddr list option) \<Rightarrow> string \<Rightarrow> Env \<Rightarrow> EndpointReject + unit" where
  "endpoint_routable resolve endpoint env =
     (case (case strip_prefix endpoint ''https://'' of
              Some r \<Rightarrow> Some r | None \<Rightarrow> strip_prefix endpoint ''http://'') of
        None \<Rightarrow> Inl BadScheme
      | Some after_scheme \<Rightarrow>
          if \<not> enforces_routability env then Inr ()
          else
            (case endpoint_authority_host (hd (split_char CHR ''/'' after_scheme)) of
               Inl e \<Rightarrow> Inl e
             | Inr host \<Rightarrow>
                 if host = [] then Inl NonRoutableHost
                 else
                   let lower = to_ascii_lowercase host
                   in if reserved_name lower then Inl NonRoutableHost
                      else if rfc1918_name lower then Inl NonRoutableHost
                      else if (starts_with lower ''fc'' \<or> starts_with lower ''fd'') \<and> CHR '':'' \<in> set lower
                      then Inl NonRoutableHost
                      else if \<not> (CHR ''.'' \<in> set lower \<or> CHR '':'' \<in> set lower) then Inl BareHostname
                      else
                        (case parse_ip lower of
                           Some ip \<Rightarrow> if \<not> is_publicly_routable_ip ip then Inl NonRoutableHost else Inr ()
                         | None \<Rightarrow> ensure_host_dns_is_public resolve lower)))"

definition is_declared_reachable :: "string option \<Rightarrow> string option \<Rightarrow> bool" where
  "is_declared_reachable nat_type transport_method =
     (let nat_ok = (case nat_type of Some n \<Rightarrow> n \<noteq> [] \<and> n \<noteq> ''none'' \<and> n \<noteq> ''unknown'' | None \<Rightarrow> False);
          transport_ok = (case transport_method of Some t \<Rightarrow> t \<noteq> [] \<and> t \<noteq> ''external_tunnel'' | None \<Rightarrow> False)
      in nat_ok \<and> transport_ok)"

section \<open>The intent grammar\<close>

lemma label_ok_no_colon: "label_ok s \<Longrightarrow> CHR '':'' \<notin> set s"
  by (auto simp: label_ok_def list_all_iff str_defs)

lemma version_ok_no_colon: "version_ok s \<Longrightarrow> CHR '':'' \<notin> set s"
  by (cases s) (auto simp: version_ok_def list_all_iff str_defs)

text \<open>
  C38. The intent check accepts exactly the URNs
  \<open>urn:iicp:intent:<label>:...:<label>:v<digits>\<close> with at least two labels before the
  version, every label a non-empty word over lower-case letters, digits, underscore and
  hyphen: the splitting code and the grammar agree on every string.
\<close>

theorem validate_intent_grammar:
  "validate_intent urn \<longleftrightarrow>
     (\<exists>labels ver. 2 \<le> length labels \<and> list_all label_ok labels \<and> version_ok ver
        \<and> urn = ''urn:iicp:intent:'' @ join_char CHR '':'' (labels @ [ver]))" (is "_ \<longleftrightarrow> ?g")
proof
  assume "validate_intent urn"
  then obtain rest where urn: "urn = ''urn:iicp:intent:'' @ rest"
    and len: "3 \<le> length (split_char CHR '':'' rest)"
    and ver: "version_ok (split_char CHR '':'' rest ! (length (split_char CHR '':'' rest) - 1))"
    and labels: "list_all label_ok (take (length (split_char CHR '':'' rest) - 1) (split_char CHR '':'' rest))"
    by (auto simp: validate_intent_def Let_def strip_prefix_Some split: option.splits if_splits)
  let ?segs = "split_char CHR '':'' rest"
  have "butlast ?segs @ [last ?segs] = ?segs" by simp
  then have "rest = join_char CHR '':'' (butlast ?segs @ [last ?segs])" by simp
  moreover have "last ?segs = ?segs ! (length ?segs - 1)" by (simp add: last_conv_nth)
  ultimately show ?g
    using urn len ver labels
    by (intro exI [of _ "butlast ?segs"] exI [of _ "last ?segs"]) (simp add: butlast_conv_take)
next
  assume ?g
  then obtain labels ver where h: "2 \<le> length labels" "list_all label_ok labels" "version_ok ver"
    "urn = ''urn:iicp:intent:'' @ join_char CHR '':'' (labels @ [ver])" by blast
  have "split_char CHR '':'' (join_char CHR '':'' (labels @ [ver])) = labels @ [ver]"
    using h label_ok_no_colon version_ok_no_colon by (intro split_join) (auto simp: list_all_iff)
  then show "validate_intent urn"
    using h by (simp add: validate_intent_def strip_prefix_def starts_with_def Let_def)
qed

section \<open>The RoutableEndpoint guard\<close>

lemma all_public_Inr: "all_public ips found = Inr () \<longleftrightarrow> list_all is_publicly_routable_ip ips \<and> (found \<or> ips \<noteq> [])"
  by (induction ips arbitrary: found) auto

lemma ensure_host_dns_is_public_Inr:
  "ensure_host_dns_is_public resolve host = Inr () \<longleftrightarrow>
     (\<exists>ips. resolve host = Some ips \<and> ips \<noteq> [] \<and> list_all is_publicly_routable_ip ips)"
  by (auto simp: ensure_host_dns_is_public_def all_public_Inr split: option.splits)

text \<open>Where an accepted host of an enforcing environment leads: only to publicly routable addresses.\<close>

definition host_is_public :: "(string \<Rightarrow> IpAddr list option) \<Rightarrow> string \<Rightarrow> bool" where
  "host_is_public resolve lower =
     (case parse_ip lower of
        Some ip \<Rightarrow> is_publicly_routable_ip ip
      | None \<Rightarrow> (case resolve lower of
                   None \<Rightarrow> False
                 | Some ips \<Rightarrow> ips \<noteq> [] \<and> list_all is_publicly_routable_ip ips))"

definition sample_resolver :: "string \<Rightarrow> IpAddr list option" where
  "sample_resolver h = (if h = ''node.example.org'' then Some [V4 (Ipv4Addr 93 184 216 34)] else None)"



section \<open>Mapped addresses\<close>

definition v4_mapped :: "Ipv4Addr \<Rightarrow> Ipv6Addr" where
  "v4_mapped v = (case v4_groups v of g # h # _ \<Rightarrow> Ipv6Addr 0 0 0 0 0 0xffff g h)"

lemma join_bytes_high: "ucast (drop_bit 8 (push_bit 8 (ucast (a::u8)) OR ucast (b::u8) :: u16)) = a"
  by (rule bit_word_eqI) (auto simp: bit_simps dest: bit_imp_le_length)

lemma join_bytes_low: "ucast (push_bit 8 (ucast (a::u8)) OR ucast (b::u8) :: u16) = b"
  by (rule bit_word_eqI) (auto simp: bit_simps)

text \<open>
  An IPv4 address written as an IPv4-mapped IPv6 address gets the same verdict as the IPv4
  address itself: the mapping opens no way around the private, loopback, link-local,
  multicast and documentation ranges.
\<close>

theorem mapped_address_same_verdict:
  "is_publicly_routable_ip (V6 (v4_mapped v)) = is_publicly_routable_ip (V4 v)"
  by (cases v) (simp add: v4_mapped_def join_bytes_high join_bytes_low del: drop_bit_or)

text \<open>
  The address test is a list of excluded ranges, not a test for global routability: the
  shared address space (100.64.0.0/10), the benchmarking block 198.18.0.0/16, the reserved
  block 240.0.0.0/8, the block 0.1.0.0/16, and the IPv4-compatible IPv6 form of the loopback
  address pass it.
\<close>

theorem non_global_ranges_accepted:
  "is_publicly_routable_ip (V4 (Ipv4Addr 100 b c d))
   \<and> is_publicly_routable_ip (V4 (Ipv4Addr 198 18 c d))
   \<and> is_publicly_routable_ip (V4 (Ipv4Addr 240 b c d))
   \<and> is_publicly_routable_ip (V4 (Ipv4Addr 0 1 c d))
   \<and> is_publicly_routable_ip (V6 (Ipv6Addr 0 0 0 0 0 0 0x7f00 1))"
  by (simp add: is_publicly_routable_v4_def v6_is_loopback_def v6_is_unspecified_def v6_is_multicast_def)

text \<open>
  RT-04: a probe can be skipped only on a stated NAT type other than \<open>none\<close> and
  \<open>unknown\<close> together with a stated transport other than an external tunnel.
\<close>

theorem declared_reachable_iff:
  "is_declared_reachable nat_type transport \<longleftrightarrow>
     (\<exists>n t. nat_type = Some n \<and> transport = Some t \<and> n \<notin> {[], ''none'', ''unknown''}
        \<and> t \<notin> {[], ''external_tunnel''})"
  by (auto simp: is_declared_reachable_def Let_def split: option.splits)

end
