(* ===== verification/Types.thy ===== *)
theory Types
  imports Json
begin

text \<open>
  The data model of \<open>src/types.rs\<close> and of the records of \<open>src/repo.rs\<close>. The fields of a
  struct keep the source's names behind a prefix that names the struct: \<open>n_\<close> for \<open>Node\<close>,
  \<open>c_\<close> for \<open>EffectiveCapability\<close>, \<open>r_\<close> for \<open>NodeRecord\<close>, \<open>e_\<close> for \<open>EventRow\<close>, \<open>o_\<close> for
  \<open>OperatorRow\<close>.
\<close>

record CapabilityLimit =
  l_value :: f64
  l_unit :: string

record CapabilityClaimProvenance =
  p_source :: string
  p_observed_at :: "string option"
  p_valid_until :: "string option"
  p_evidence_ref :: "string option"

record CapabilityExtension =
  x_required :: bool
  x_value :: json

record EffectiveCapability =
  c_intent :: string
  c_version :: "string option"
  c_phase :: "u32 option"
  c_variant_id :: "string option"
  c_models :: "string list"
  c_max_tokens :: "u32 option"
  c_quantization :: "string option"
  c_inference_engine :: "string option"
  c_input_modalities :: "string list"
  c_output_modalities :: "string list"
  c_features :: "string list"
  c_execution_capabilities :: "string list"
  c_limits :: "(string, CapabilityLimit) hashmap"
  c_supported_profiles :: "string list"
  c_claim_provenance :: "CapabilityClaimProvenance option"
  c_extensions :: "(string, CapabilityExtension) hashmap"

record RoutingPolicyState =
  rp_availability_score :: f64
  rp_backend_state :: "string option"
  rp_pricing_credits_per_1000 :: "f64 option"

definition RoutingPolicyState_default :: RoutingPolicyState where
  "RoutingPolicyState_default =
     \<lparr>rp_availability_score = 1, rp_backend_state = None, rp_pricing_credits_per_1000 = None\<rparr>"

record Node =
  n_node_id :: string
  n_endpoint :: string
  n_region :: string
  n_score :: f64
  n_available :: bool
  n_load :: f64
  n_active_jobs :: u32
  n_max_concurrent :: u32
  n_reputation_score :: f64
  n_reputation_model :: "string option"
  n_reputation_epoch :: "string option"
  n_latency_estimate_ms :: "u32 option"
  n_completed_tasks_count :: u64
  n_tasks_failed :: u64
  n_health_label :: "string option"
  n_exposure_mode :: "string option"
  n_reputation_tier :: "string option"
  n_transport_endpoint :: "string option"
  n_cip_conformance_level :: "string option"
  n_models :: "string list"
  n_supported_profiles :: "string list"
  n_capabilities :: "EffectiveCapability list"
  n_pricing :: "json option"
  n_nat_type :: "string option"
  n_transport_method :: "string option"
  n_relay_capable :: "bool option"
  n_sdk_language :: "string option"
  n_implementation_name :: "string option"
  n_implementation_version :: "string option"
  n_sdk_compatibility_version :: "string option"
  n_sdk_version :: "string option"
  n_consumer_cosignature_ready :: bool
  n_backend :: "string option"
  n_address_family :: "string option"
  n_cip_policy :: "json option"
  n_public_key :: "json option"
  n_transport_metadata :: "json option"
  n_quantization :: "string list"
  n_inference_engine :: "string list"
  n_credit_cost_multiplier :: f64
  n_pricing_model :: "string option"
  n_attested :: bool
  n_transport :: "string list"
  n_reachability_signal :: f64
  n_operator_pubkey :: "string option"
  n_operator_display_name :: "string option"
  n_operator_fingerprint :: "string option"
  n_public_listing :: bool
  n_operator_url :: "string option"
  n_policy_manifest :: "json option"
  n_operator_verified :: bool
  n_operator_trust_tier :: "string option"
  n_health_models :: "string list option"
  n_routing_policy :: RoutingPolicyState

definition effective_sdk_compatibility_version :: "Node \<Rightarrow> string option" where
  "effective_sdk_compatibility_version n =
     (case n_sdk_compatibility_version n of Some v \<Rightarrow> Some v | None \<Rightarrow> n_sdk_version n)"

record AvailabilityWindow =
  w_start :: string
  w_end :: string
  w_share :: f64

record NodeRecord =
  r_node :: Node
  r_intents :: "string list"
  r_capabilities :: "EffectiveCapability list"
  r_capability_profiles :: "(string, string list) hashmap"
  r_availability :: "AvailabilityWindow list"
  r_node_token :: "string option"
  r_node_hmac_key :: "string option"
  r_proxy_token :: "string option"

text \<open>A node with every optional field empty, the starting point of the sample inputs.\<close>

definition blank_node :: "string \<Rightarrow> Node" where
  "blank_node i =
     \<lparr>n_node_id = i, n_endpoint = ''https://n.example.org'', n_region = ''eu'', n_score = 1 / 2,
      n_available = True, n_load = 0, n_active_jobs = 0, n_max_concurrent = 4,
      n_reputation_score = 1 / 2, n_reputation_model = None, n_reputation_epoch = None,
      n_latency_estimate_ms = None, n_completed_tasks_count = 0, n_tasks_failed = 0,
      n_health_label = None, n_exposure_mode = None, n_reputation_tier = None,
      n_transport_endpoint = None, n_cip_conformance_level = None, n_models = [],
      n_supported_profiles = [], n_capabilities = [], n_pricing = None, n_nat_type = None,
      n_transport_method = None, n_relay_capable = None, n_sdk_language = None,
      n_implementation_name = None, n_implementation_version = None,
      n_sdk_compatibility_version = None, n_sdk_version = None,
      n_consumer_cosignature_ready = False, n_backend = None, n_address_family = None,
      n_cip_policy = None, n_public_key = None, n_transport_metadata = None, n_quantization = [],
      n_inference_engine = [], n_credit_cost_multiplier = 1, n_pricing_model = None,
      n_attested = False, n_transport = [], n_reachability_signal = 0, n_operator_pubkey = None,
      n_operator_display_name = None, n_operator_fingerprint = None, n_public_listing = False,
      n_operator_url = None, n_policy_manifest = None, n_operator_verified = False,
      n_operator_trust_tier = None, n_health_models = None,
      n_routing_policy = RoutingPolicyState_default\<rparr>"

definition blank_record :: "string \<Rightarrow> NodeRecord" where
  "blank_record i =
     \<lparr>r_node = blank_node i, r_intents = [], r_capabilities = [], r_capability_profiles = [],
      r_availability = [], r_node_token = None, r_node_hmac_key = None, r_proxy_token = None\<rparr>"

end
