(* ===== verification/Federation.thy ===== *)
theory Federation
  imports Json
begin

text \<open>
  The signed event log, \<open>src/federation.rs\<close>: canonical JSON, the hash-chain link, the signed
  messages of version 1 and 2, signing and verification; and the integer check of
  \<open>src/jcs.rs\<close>.

  The crates \<open>sha2\<close>, \<open>hex\<close>, \<open>ed25519-compact\<close>, \<open>serde_json\<close> (text form of a value) and
  \<open>serde_jcs\<close> are fields of the parameter \<open>crypto\<close>. What the protocol relies on is the
  predicate \<open>signatures_verify\<close>: a signature made with a seed verifies under its public key,
  the encodings round-trip, and keys and signatures have their documented sizes.
\<close>

record crypto =
  sha256 :: "string \<Rightarrow> string"
  hex_encode :: "string \<Rightarrow> string"
  hex_decode :: "string \<Rightarrow> string option"
  pk_from_slice :: "string \<Rightarrow> bool"
  sig_from_slice :: "string \<Rightarrow> bool"
  ed_verify :: "string \<Rightarrow> string \<Rightarrow> string \<Rightarrow> bool"
  ed_sign :: "string \<Rightarrow> string \<Rightarrow> string"
  ed_public :: "string \<Rightarrow> string"
  json_text :: "json \<Rightarrow> string"

definition sha256_hex :: "crypto \<Rightarrow> string \<Rightarrow> string" where
  "sha256_hex C s = hex_encode C (sha256 C s)"

definition signatures_verify :: "crypto \<Rightarrow> bool" where
  "signatures_verify C \<longleftrightarrow>
     (\<forall>b. hex_decode C (hex_encode C b) = Some b)
     \<and> (\<forall>seed. pk_from_slice C (ed_public C seed))
     \<and> (\<forall>seed m. sig_from_slice C (ed_sign C seed m))
     \<and> (\<forall>seed m. ed_verify C (ed_public C seed) m (ed_sign C seed m))
     \<and> (\<forall>seed m. hex_encode C (ed_sign C seed m) \<noteq> [])"

section \<open>Decimal text of an integer\<close>

fun show_nat :: "nat \<Rightarrow> string" where
  "show_nat n = (if n < 10 then [char_of (48 + n)] else show_nat (n div 10) @ [char_of (48 + n mod 10)])"

declare show_nat.simps [simp del]

definition show_int :: "int \<Rightarrow> string" where
  "show_int i = (if i < 0 then CHR ''-'' # show_nat (nat (- i)) else show_nat (nat i))"

lemma is_ascii_digit_char_of: "(n::nat) < 10 \<Longrightarrow> is_ascii_digit (char_of (48 + n))"
  by (simp add: str_defs take_bit_eq_mod)

lemma show_nat_digits: "list_all is_ascii_digit (show_nat n)"
proof (induction n rule: show_nat.induct)
  case (1 n)
  then show ?case by (subst show_nat.simps) (auto simp: is_ascii_digit_char_of)
qed

lemma show_nat_not_Nil: "show_nat n \<noteq> []"
  by (subst show_nat.simps) simp

lemma digit_inj: "m < 10 \<Longrightarrow> n < 10 \<Longrightarrow> char_of (48 + m) = (char_of (48 + n) :: char) \<Longrightarrow> m = (n::nat)"
  by (auto simp: char_of_eq_iff take_bit_eq_mod)

lemma show_nat_inj: "show_nat m = show_nat n \<Longrightarrow> m = n"
proof (induction m arbitrary: n rule: show_nat.induct)
  case (1 m)
  have eq: "(if m < 10 then [char_of (48 + m)] else show_nat (m div 10) @ [char_of (48 + m mod 10)]) =
    (if n < 10 then [char_of (48 + n)] else show_nat (n div 10) @ [char_of (48 + n mod 10 :: nat) :: char])"
    using "1.prems" by (simp only: show_nat.simps [symmetric])
  show ?case
  proof (cases "m < 10")
    case True
    then show ?thesis using eq digit_inj [of m n] by (auto split: if_splits simp: show_nat_not_Nil [symmetric])
  next
    case False
    then have n: "\<not> n < 10" and d: "show_nat (m div 10) = show_nat (n div 10)"
      and r: "char_of (48 + m mod 10) = (char_of (48 + n mod 10) :: char)"
      using eq by (auto split: if_splits simp: show_nat_not_Nil append_eq_Cons_conv Cons_eq_append_conv)
    have "m div 10 = n div 10" using "1.IH" [OF False d] .
    moreover have "m mod 10 = n mod 10" using digit_inj [OF _ _ r] by simp
    ultimately show ?thesis by (metis div_mult_mod_eq)
  qed
qed

lemma show_int_chars: "c \<in> set (show_int i) \<Longrightarrow> is_ascii_digit c \<or> c = CHR ''-''"
  using show_nat_digits by (auto simp: show_int_def list_all_iff split: if_splits)

lemma show_int_no_colon: "CHR '':'' \<notin> set (show_int i)"
  using show_int_chars by (fastforce simp: str_defs)

lemma hd_show_nat: "hd (show_nat n) \<noteq> CHR ''-''"
  using show_nat_digits [of n] show_nat_not_Nil [of n] by (cases "show_nat n") (auto simp: str_defs)

lemma show_int_inj: "show_int i = show_int j \<Longrightarrow> i = j"
proof -
  have ne: "show_nat m \<noteq> CHR ''-'' # xs" for m xs using hd_show_nat [of m] by auto
  assume "show_int i = show_int j"
  then show ?thesis
    using show_nat_inj [of "nat (- i)" "nat (- j)"] show_nat_inj [of "nat i" "nat j"] ne ne [symmetric]
    by (auto simp: show_int_def split: if_splits)
qed

section \<open>Canonical JSON\<close>

fun canonical_json :: "crypto \<Rightarrow> json \<Rightarrow> string" where
  "canonical_json C (JObj kvs) =
     ''{'' @ join_char CHR '',''
       (map (\<lambda>(k, t). json_text C (JStr k) @ '':'' @ t)
         (sort_key fst (map (\<lambda>(k, v). (k, canonical_json C v)) kvs))) @ ''}''"
| "canonical_json C (JArr vs) = ''['' @ join_char CHR '','' (map (canonical_json C) vs) @ '']''"
| "canonical_json C other = json_text C other"

section \<open>The hash chain and the signed messages\<close>

definition GENESIS_ROOT :: string where
  "GENESIS_ROOT = ''c44802bedf3e63b5a3f1634c5d19263634f92f26dd15401b09b06dd53a80cf9d''"

definition prev_hash_from :: "crypto \<Rightarrow> string option \<Rightarrow> string" where
  "prev_hash_from C prev_sig =
     (case prev_sig of
        Some s \<Rightarrow> if s \<noteq> [] then sha256_hex C s else GENESIS_ROOT
      | None \<Rightarrow> GENESIS_ROOT)"

definition event_input ::
    "crypto \<Rightarrow> string \<Rightarrow> string \<Rightarrow> i64 \<Rightarrow> i64 \<Rightarrow> json \<Rightarrow> string \<Rightarrow> string" where
  "event_input C event_id event_type seq ts_ms payload prev_hash =
     (let payload_hash = sha256_hex C (canonical_json C payload)
      in event_id @ '':'' @ event_type @ '':'' @ show_int seq @ '':'' @ show_int ts_ms @ '':''
         @ payload_hash @ '':'' @ prev_hash)"

definition event_message ::
    "crypto \<Rightarrow> string \<Rightarrow> string \<Rightarrow> i64 \<Rightarrow> i64 \<Rightarrow> json \<Rightarrow> string \<Rightarrow> string" where
  "event_message C event_id event_type seq ts_ms payload prev_hash =
     sha256 C (event_input C event_id event_type seq ts_ms payload prev_hash)"

definition valid_service_id :: "string \<Rightarrow> bool" where
  "valid_service_id bytes \<longleftrightarrow>
     (case bytes of
        [] \<Rightarrow> False
      | b # _ \<Rightarrow>
          length bytes \<le> 64 \<and> (is_ascii_lowercase b \<or> is_ascii_digit b)
          \<and> list_all (\<lambda>c. is_ascii_lowercase c \<or> is_ascii_digit c
                         \<or> c = CHR ''.'' \<or> c = CHR ''_'' \<or> c = CHR ''-'') bytes)"

definition event_message_with_service_id ::
    "crypto \<Rightarrow> string \<Rightarrow> string \<Rightarrow> string \<Rightarrow> i64 \<Rightarrow> i64 \<Rightarrow> json \<Rightarrow> string \<Rightarrow> string option" where
  "event_message_with_service_id C service_id event_id event_type seq ts_ms payload prev_hash =
     (if \<not> valid_service_id service_id then None
      else
        let payload_hash = sha256_hex C (canonical_json C payload);
            input = ''iicp-event-v2:'' @ service_id @ '':'' @ event_id @ '':'' @ event_type @ '':''
                    @ show_int seq @ '':'' @ show_int ts_ms @ '':'' @ payload_hash @ '':'' @ prev_hash
        in Some (sha256 C input))"

definition verify_event :: "crypto \<Rightarrow> string \<Rightarrow> string \<Rightarrow> string \<Rightarrow> bool" where
  "verify_event C pubkey_hex sig_hex message =
     (case hex_decode C pubkey_hex of
        None \<Rightarrow> False
      | Some pk \<Rightarrow>
          (case hex_decode C sig_hex of
             None \<Rightarrow> False
           | Some sg \<Rightarrow> pk_from_slice C pk \<and> sig_from_slice C sg \<and> ed_verify C pk message sg))"

text \<open>The libsodium secret key is the 32 byte seed followed by the public key.\<close>

definition signing_seed :: "crypto \<Rightarrow> string \<Rightarrow> string option" where
  "signing_seed C secret_key_hex =
     (case hex_decode C secret_key_hex of
        None \<Rightarrow> None
      | Some sk \<Rightarrow> if length sk \<noteq> 64 then None else Some (take 32 sk))"

definition sign_event ::
    "crypto \<Rightarrow> string \<Rightarrow> string \<Rightarrow> string \<Rightarrow> i64 \<Rightarrow> i64 \<Rightarrow> json \<Rightarrow> string \<Rightarrow> string option" where
  "sign_event C secret_key_hex event_id event_type seq ts_ms payload prev_hash =
     (case signing_seed C secret_key_hex of
        None \<Rightarrow> None
      | Some seed \<Rightarrow>
          Some (hex_encode C (ed_sign C seed
            (event_message C event_id event_type seq ts_ms payload prev_hash))))"

definition sign_event_with_service_id ::
    "crypto \<Rightarrow> string \<Rightarrow> string \<Rightarrow> string \<Rightarrow> string \<Rightarrow> i64 \<Rightarrow> i64 \<Rightarrow> json \<Rightarrow> string \<Rightarrow> string option" where
  "sign_event_with_service_id C secret_key_hex service_id event_id event_type seq ts_ms payload prev_hash =
     (case signing_seed C secret_key_hex of
        None \<Rightarrow> None
      | Some seed \<Rightarrow>
          (case event_message_with_service_id C service_id event_id event_type seq ts_ms payload prev_hash of
             None \<Rightarrow> None
           | Some message \<Rightarrow> Some (hex_encode C (ed_sign C seed message))))"

section \<open>JCS integers (jcs.rs)\<close>

datatype JcsError = UnsafeInteger | Serialization

definition JCS_MAX_SAFE_INTEGER :: int where
  "JCS_MAX_SAFE_INTEGER = 9007199254740991"

fun jcs_validate :: "json \<Rightarrow> JcsError + unit"
  and jcs_validate_list :: "json list \<Rightarrow> JcsError + unit" 
  and jcs_validate_entries :: "(string \<times> json) list \<Rightarrow> JcsError + unit" where
  "jcs_validate (JInt n) = (if \<bar>n\<bar> > JCS_MAX_SAFE_INTEGER then Inl UnsafeInteger else Inr ())"
| "jcs_validate (JArr vs) = jcs_validate_list vs"
| "jcs_validate (JObj kvs) = jcs_validate_entries kvs"
| "jcs_validate _ = Inr ()"
| "jcs_validate_list [] = Inr ()"
| "jcs_validate_list (v # vs) =
     (case jcs_validate v of Inl e \<Rightarrow> Inl e | Inr _ \<Rightarrow> jcs_validate_list vs)"
| "jcs_validate_entries [] = Inr ()"
| "jcs_validate_entries ((k, v) # kvs) =
     (case jcs_validate v of Inl e \<Rightarrow> Inl e | Inr _ \<Rightarrow> jcs_validate_entries kvs)"

text \<open>\<open>serde_jcs::to_vec\<close> is the parameter \<open>to_vec\<close>; \<open>None\<close> is its error.\<close>

definition canonicalize_jcs :: "(json \<Rightarrow> string option) \<Rightarrow> json \<Rightarrow> JcsError + string" where
  "canonicalize_jcs to_vec v =
     (case jcs_validate v of
        Inl e \<Rightarrow> Inl e
      | Inr _ \<Rightarrow> (case to_vec v of None \<Rightarrow> Inl Serialization | Some b \<Rightarrow> Inr b))"

section \<open>Canonical form\<close>

text \<open>Two values are the same document when they differ only in the order of object entries.\<close>

inductive same_document :: "json \<Rightarrow> json \<Rightarrow> bool" where
  same: "same_document v v"
| arrays: "list_all2 same_document vs ws \<Longrightarrow> same_document (JArr vs) (JArr ws)"
| objects: "map fst kvs = map fst lws \<Longrightarrow> list_all2 same_document (map snd kvs) (map snd lws) \<Longrightarrow>
     distinct (map fst lws) \<Longrightarrow> mset lws = mset lws' \<Longrightarrow>
     same_document (JObj kvs) (JObj lws')"

lemma distinct_singleton: "distinct xs \<Longrightarrow> set xs = {k} \<Longrightarrow> xs = [k]"
  by (cases xs; cases "tl xs") auto

lemma sort_key_fst_perm:
  assumes "mset xs = mset ys" and "distinct (map fst xs)"
  shows "sort_key fst xs = sort_key fst ys"
proof (rule properties_for_sort_key)
  show "mset (sort_key fst ys) = mset xs" using assms(1) by simp
  have inj: "inj_on fst (set xs)" using assms(2) by (simp add: distinct_map)
  have "distinct xs" using assms(2) by (simp add: distinct_map)
  then have d: "distinct ys" using assms(1) by (metis mset_eq_imp_distinct_iff)
  show "filter (\<lambda>x. fst k = fst x) (sort_key fst ys) = filter (\<lambda>x. fst k = fst x) xs" if "k \<in> set (sort_key fst ys)" for k
  proof -
    have k: "k \<in> set xs" using that assms(1) by (metis set_mset_mset set_sort)
    have one: "filter (\<lambda>x. fst k = fst x) zs = [k]"
      if "distinct zs" "set zs = set xs" for zs
    proof -
      have "set (filter (\<lambda>x. fst k = fst x) zs) = {k}"
        using inj k that(2) by (auto dest: inj_onD)
      moreover have "distinct (filter (\<lambda>x. fst k = fst x) zs)" using that(1) by simp
      ultimately show ?thesis by (intro distinct_singleton)
    qed
    have "set ys = set xs" using assms(1) by (metis set_mset_mset)
    then show ?thesis using one [of "sort_key fst ys"] one [of xs] d \<open>distinct xs\<close> by simp
  qed
qed simp

lemma canonical_entries:
  assumes "map fst kvs = map fst lws"
    and "list_all2 (\<lambda>v w. canonical_json C v = canonical_json C w) (map snd kvs) (map snd lws)"
  shows "map (\<lambda>(k, v). (k, canonical_json C v)) kvs = map (\<lambda>(k, v). (k, canonical_json C v)) lws"
proof -
  have "length kvs = length lws" using assms(1) by (metis length_map)
  then show ?thesis using assms by (induction kvs lws rule: list_induct2) auto
qed

lemma canonical_json_perm:
  assumes "mset lws = mset lws'" and "distinct (map fst lws)"
  shows "canonical_json C (JObj lws) = canonical_json C (JObj lws')"
proof -
  let ?f = "\<lambda>(k, v). (k, canonical_json C v)"
  have "mset (map ?f lws) = mset (map ?f lws')" using assms(1) by simp
  moreover have "map fst (map ?f lws) = map fst lws" by (induction lws) auto
  then have "distinct (map fst (map ?f lws))" using assms(2) by (simp only:)
  ultimately have "sort_key fst (map ?f lws) = sort_key fst (map ?f lws')"
    by (rule sort_key_fst_perm)
  then show ?thesis by simp
qed

text \<open>
  Canonical JSON does not depend on the order in which object entries are stored, at any
  depth: two values that differ only there have the same canonical text, hence the same
  payload hash and the same signed message.
\<close>

theorem canonical_json_order_independent:
  assumes "same_document v w"
  shows "canonical_json C v = canonical_json C w"
  using assms
proof (induction rule: same_document.induct)
  case (arrays vs ws)
  then have "map (canonical_json C) vs = map (canonical_json C) ws"
    by (induction rule: list_all2_induct) auto
  then show ?case by simp
next
  case (objects kvs lws lws')
  have "list_all2 (\<lambda>v w. canonical_json C v = canonical_json C w) (map snd kvs) (map snd lws)"
    using objects.IH by (rule list_all2_mono) auto
  then have "canonical_json C (JObj kvs) = canonical_json C (JObj lws)"
    using canonical_entries [OF objects.hyps(1)] by simp
  also have "\<dots> = canonical_json C (JObj lws')" using objects.hyps(3,2) by (rule canonical_json_perm)
  finally show ?case .
qed simp

section \<open>What a signature binds\<close>

lemma split_sep: "c \<notin> set a \<Longrightarrow> c \<notin> set b \<Longrightarrow> a @ c # r = b @ c # r' \<Longrightarrow> a = b \<and> r = r'"
proof (induction a arbitrary: b)
  case Nil
  then show ?case by (cases b) auto
next
  case (Cons x a)
  then show ?case by (cases b) auto
qed

lemma append_colon_inj:
  "CHR '':'' \<notin> set a \<Longrightarrow> CHR '':'' \<notin> set a' \<Longrightarrow> a @ '':'' @ b = a' @ '':'' @ b' \<Longrightarrow> a = a' \<and> b = b'"
  using split_sep [of "CHR '':''" a a' b b'] by simp

text \<open>
  The signed text of an event determines its fields: for identifiers and types without a
  colon and a hash text without a colon (hex text has none), two events with the same text
  have the same id, type, sequence number, time, payload hash and predecessor link.
\<close>

theorem event_input_determines_fields:
  assumes "event_input C i t s m p h = event_input C i' t' s' m' p' h'"
    and "CHR '':'' \<notin> set i" "CHR '':'' \<notin> set i'" "CHR '':'' \<notin> set t" "CHR '':'' \<notin> set t'"
    and "\<forall>b. CHR '':'' \<notin> set (hex_encode C b)"
  shows "i = i' \<and> t = t' \<and> s = s' \<and> m = m' \<and> h = h'
    \<and> sha256_hex C (canonical_json C p) = sha256_hex C (canonical_json C p')"
proof -
  note colon = append_colon_inj [OF show_int_no_colon show_int_no_colon]
  have hc: "CHR '':'' \<notin> set (sha256_hex C x)" for x using assms(6) by (simp add: sha256_hex_def)
  from append_colon_inj [OF assms(2,3) assms(1) [unfolded event_input_def Let_def]]
  have "i = i'" and r1: "t @ '':'' @ show_int s @ '':'' @ show_int m @ '':'' @ sha256_hex C (canonical_json C p) @ '':'' @ h
      = t' @ '':'' @ show_int s' @ '':'' @ show_int m' @ '':'' @ sha256_hex C (canonical_json C p') @ '':'' @ h'"
    by blast+
  from append_colon_inj [OF assms(4,5) r1]
  have "t = t'" and r2: "show_int s @ '':'' @ show_int m @ '':'' @ sha256_hex C (canonical_json C p) @ '':'' @ h
      = show_int s' @ '':'' @ show_int m' @ '':'' @ sha256_hex C (canonical_json C p') @ '':'' @ h'"
    by blast+
  from colon [OF r2] have "s = s'" and r3: "show_int m @ '':'' @ sha256_hex C (canonical_json C p) @ '':'' @ h
      = show_int m' @ '':'' @ sha256_hex C (canonical_json C p') @ '':'' @ h'"
    using show_int_inj by blast+
  from colon [OF r3] have "m = m'" and r4: "sha256_hex C (canonical_json C p) @ '':'' @ h
      = sha256_hex C (canonical_json C p') @ '':'' @ h'"
    using show_int_inj by blast+
  from append_colon_inj [OF hc hc r4] show ?thesis
    using \<open>i = i'\<close> \<open>t = t'\<close> \<open>s = s'\<close> \<open>m = m'\<close> by blast
qed

section \<open>A concrete instance\<close>

text \<open>
  A stand-in for the crates that satisfies the stated laws, for the witnesses: the digest is
  the identity, hex text doubles each byte into two letters, a signature is the message
  under the seed.
\<close>

definition demo_hex :: "string \<Rightarrow> string" where
  "demo_hex s = CHR ''h'' # concat (map (\<lambda>c. if c = CHR '':'' then ''.c'' else if c = CHR ''.'' then ''..'' else [c]) s)"

fun demo_unhex_tail :: "string \<Rightarrow> string option" where
  "demo_unhex_tail [] = Some []"
| "demo_unhex_tail (c # s) =
     (if c = CHR ''.'' then
        (case s of
           [] \<Rightarrow> None
         | d # r \<Rightarrow> if d = CHR ''c'' then map_option ((#) CHR '':'') (demo_unhex_tail r)
                    else if d = CHR ''.'' then map_option ((#) CHR ''.'') (demo_unhex_tail r) else None)
      else map_option ((#) c) (demo_unhex_tail s))"

definition demo_unhex :: "string \<Rightarrow> string option" where
  "demo_unhex s = (case s of c # r \<Rightarrow> if c = CHR ''h'' then demo_unhex_tail r else None | [] \<Rightarrow> None)"

fun demo_text :: "json \<Rightarrow> string" where
  "demo_text (JStr s) = CHR 0x22 # s @ [CHR 0x22]"
| "demo_text (JInt n) = show_int n"
| "demo_text (JBool b) = (if b then ''true'' else ''false'')"
| "demo_text _ = ''null''"

definition demo_crypto :: crypto where
  "demo_crypto =
     \<lparr>sha256 = (\<lambda>s. s), hex_encode = demo_hex, hex_decode = demo_unhex,
      pk_from_slice = (\<lambda>s. s \<noteq> []), sig_from_slice = (\<lambda>s. s \<noteq> []),
      ed_verify = (\<lambda>pk m s. s = pk @ m), ed_sign = (\<lambda>seed m. CHR ''k'' # seed @ m),
      ed_public = (\<lambda>seed. CHR ''k'' # seed), json_text = demo_text\<rparr>"

definition demo_secret :: string where
  "demo_secret = demo_hex (replicate 64 CHR ''s'')"

lemma demo_unhex_hex: "demo_unhex (demo_hex s) = Some s"
proof -
  have "demo_unhex_tail (concat (map (\<lambda>c. if c = CHR '':'' then ''.c'' else if c = CHR ''.'' then ''..'' else [c]) s)) = Some s"
    by (induction s) auto
  then show ?thesis by (simp add: demo_unhex_def demo_hex_def)
qed

lemma demo_hex_no_colon: "CHR '':'' \<notin> set (demo_hex s)"
  by (induction s) (auto simp: demo_hex_def)

lemma signatures_verify_demo: "signatures_verify demo_crypto"
  by (simp add: signatures_verify_def demo_crypto_def demo_unhex_hex) (simp add: demo_hex_def)

lemma demo_seed: "signing_seed demo_crypto demo_secret = Some (replicate 32 CHR ''s'')"
  by (simp add: signing_seed_def demo_crypto_def demo_secret_def demo_unhex_hex take_replicate)

theorem canonical_json_order_independent_witness:
  "same_document (JObj [(''b'', JInt 1), (''a'', JArr [JNull])]) (JObj [(''a'', JArr [JNull]), (''b'', JInt 1)])
   \<and> canonical_json demo_crypto (JObj [(''b'', JInt 1), (''a'', JArr [JNull])])
     = canonical_json demo_crypto (JObj [(''a'', JArr [JNull]), (''b'', JInt 1)])"
proof -
  have h: "same_document (JObj [(''b'', JInt 1), (''a'', JArr [JNull])]) (JObj [(''a'', JArr [JNull]), (''b'', JInt 1)])"
    by (rule same_document.objects [where lws = "[(''b'', JInt 1), (''a'', JArr [JNull])]"])
      (auto intro: same_document.same)
  show ?thesis using h canonical_json_order_independent [OF h] by blast
qed

theorem event_input_determines_fields_witness:
  "event_input demo_crypto ''e1'' ''REGISTER'' 7 42 (JObj []) ''x'' = event_input demo_crypto ''e1'' ''REGISTER'' 7 42 (JObj []) ''x''
   \<and> (7::int) = 7 \<and> (\<forall>b. CHR '':'' \<notin> set (hex_encode demo_crypto b))"
proof -
  have c: "\<forall>b. CHR '':'' \<notin> set (hex_encode demo_crypto b)"
    by (simp add: demo_crypto_def demo_hex_no_colon)
  show ?thesis
    using c event_input_determines_fields [OF refl, where C = demo_crypto and i = "''e1''" and t = "''REGISTER''"
        and s = 7 and m = 42 and p = "JObj []" and h = "''x''"] by simp
qed

section \<open>Signing and verifying\<close>

text \<open>
  A signature the directory makes is accepted by a replica: for a well-formed secret key,
  signing succeeds and the result verifies under the matching public key, for the
  version 1 message and, with a valid service id, for the version 2 message.
\<close>

theorem sign_event_verifies:
  assumes "signatures_verify C" and "signing_seed C sk = Some seed"
  shows "(\<exists>sg. sign_event C sk i t s m p h = Some sg
      \<and> verify_event C (hex_encode C (ed_public C seed)) sg (event_message C i t s m p h))
    \<and> (valid_service_id svc \<longrightarrow>
        (\<exists>sg msg. sign_event_with_service_id C sk svc i t s m p h = Some sg
           \<and> event_message_with_service_id C svc i t s m p h = Some msg
           \<and> verify_event C (hex_encode C (ed_public C seed)) sg msg))"
  using assms
  by (simp add: sign_event_def sign_event_with_service_id_def event_message_with_service_id_def
      verify_event_def signatures_verify_def Let_def)

theorem sign_event_verifies_witness:
  "signatures_verify demo_crypto \<and> signing_seed demo_crypto demo_secret = Some (replicate 32 CHR ''s'')
   \<and> valid_service_id ''seed-1''
   \<and> (\<exists>sg. sign_event demo_crypto demo_secret ''e1'' ''REGISTER'' 1 5 (JObj []) GENESIS_ROOT = Some sg
      \<and> verify_event demo_crypto (hex_encode demo_crypto (ed_public demo_crypto (replicate 32 CHR ''s''))) sg
          (event_message demo_crypto ''e1'' ''REGISTER'' 1 5 (JObj []) GENESIS_ROOT))"
proof -
  have v: "valid_service_id ''seed-1''" by code_simp
  show ?thesis
    using v signatures_verify_demo demo_seed
      sign_event_verifies [OF signatures_verify_demo demo_seed, of "''e1''" "''REGISTER''" 1 5 "JObj []" GENESIS_ROOT]
    by blast
qed

end
