(* ===== verification/Repo.thy ===== *)
theory Repo
  imports Types Reputation Federation
begin

text \<open>
  The repository of \<open>src/repo.rs\<close>: the state of \<open>InMemoryRepo\<close> and the operations on the node
  records (registration, heartbeat, discovery, lookup, listing, statistics), on the liveness
  challenges and on the health observations. Every method is a function of the repository
  state; a method that writes returns the new state. The methods lock one mutex at a time
  and do not await while they hold it, so each is one atomic step.

  The clock, fresh identifiers, HMAC and the digests are arguments. Counters are words: in a
  release build \<open>+=\<close> wraps. \<open>usize\<close> values are naturals.
\<close>

section \<open>State\<close>

record EventRow =
  e_seq :: i64
  e_event_id :: string
  e_event_type :: string
  e_node_id :: string
  e_ts_ms :: i64
  e_payload :: json
  e_prev_hash :: "string option"
  e_sig :: "string option"

record OperatorRow =
  o_display_name :: "string option"
  o_attested_created_at :: "string option"
  o_integrity_hash :: "string option"
  o_first_seen_ms :: i64
  o_ordinal :: "i64 option"
  o_tier :: "string option"
  o_badge :: "string option"
  o_identity_status :: string
  o_rotation_epoch :: "u32 option"
  o_terms_version :: "string option"
  o_terms_accepted_at :: "string option"
  o_dpa_version :: "string option"
  o_dpa_accepted_at :: "string option"
  o_acceptance_method :: "string option"
  o_acceptance_nonce_sha256 :: "string option"

record ProbeResult =
  pr_probe_id :: string
  pr_probe_type :: string
  pr_test_id :: "string option"
  pr_level :: string
  pr_passed :: bool
  pr_latency_ms :: "u32 option"
  pr_detail :: "string option"
  pr_run_id :: string
  pr_probed_at :: "string option"
  pr_node_id :: "string option"

record ConformanceRun =
  cr_run_id :: string
  cr_probed_at :: string
  cr_passed :: "string list"
  cr_failed :: "string list"

text \<open>A row of the health table (node, evaluator, score, time) and of the replica table.\<close>

type_synonym health_row = "string \<times> string \<times> f64 \<times> i64"
type_synonym replica_row = "string \<times> string \<times> string \<times> string \<times> i64"

record InMemoryRepo =
  m_records :: "NodeRecord list"
  m_verify_tokens :: bool
  m_liveness_challenges :: "(string, string) hashmap"
  m_health_obs :: "health_row list"
  m_replicas :: "replica_row list"
  m_replica_token_hashes :: "(string, string) hashmap"
  m_decommissioned_replicas :: "string list"
  m_events :: "EventRow list"
  m_operators :: "(string, OperatorRow) hashmap"
  m_dispatch_usage :: "(string \<times> string, u64) hashmap"
  m_probe_results :: "ProbeResult list"
  m_last_metrics_batches :: "(string, string) hashmap"

definition new_repo :: "NodeRecord list \<Rightarrow> InMemoryRepo" where
  "new_repo records =
     \<lparr>m_records = records, m_verify_tokens = False, m_liveness_challenges = [], m_health_obs = [],
      m_replicas = [], m_replica_token_hashes = [], m_decommissioned_replicas = [], m_events = [],
      m_operators = [], m_dispatch_usage = [], m_probe_results = [], m_last_metrics_batches = []\<rparr>"

definition new_with_token_verification :: "NodeRecord list \<Rightarrow> InMemoryRepo" where
  "new_with_token_verification records = (new_repo records)\<lparr>m_verify_tokens := True\<rparr>"

abbreviation record_id :: "NodeRecord \<Rightarrow> string" where
  "record_id r \<equiv> n_node_id (r_node r)"

text \<open>\<open>guard.iter().find(|r| r.node.node_id == id)\<close> and its mutable form.\<close>

definition find_record :: "InMemoryRepo \<Rightarrow> string \<Rightarrow> NodeRecord option" where
  "find_record M i = find (\<lambda>r. record_id r = i) (m_records M)"

definition update_record :: "string \<Rightarrow> (NodeRecord \<Rightarrow> NodeRecord) \<Rightarrow> InMemoryRepo \<Rightarrow> InMemoryRepo" where
  "update_record i f M = M\<lparr>m_records := update_first (\<lambda>r. record_id r = i) f (m_records M)\<rparr>"

abbreviation update_node :: "(Node \<Rightarrow> Node) \<Rightarrow> NodeRecord \<Rightarrow> NodeRecord" where
  "update_node f r \<equiv> r\<lparr>r_node := f (r_node r)\<rparr>"

section \<open>Discovery, registration, heartbeat\<close>

record DiscoverQuery =
  q_intent :: string
  q_region :: "string option"
  q_limit :: nat
  q_min_reputation :: "f64 option"

definition MIN_SCORE :: f64 where
  "MIN_SCORE = round64 (1 / 10)"

definition DEFAULT_LIMIT :: nat where
  "DEFAULT_LIMIT = 10"

definition MAX_LIMIT :: nat where
  "MAX_LIMIT = 50"

definition effective_limit :: "nat \<Rightarrow> nat" where
  "effective_limit n = (if n = 0 then DEFAULT_LIMIT else if n > MAX_LIMIT then MAX_LIMIT else n)"

definition discover_match :: "DiscoverQuery \<Rightarrow> NodeRecord \<Rightarrow> bool" where
  "discover_match q r \<longleftrightarrow>
     q_intent q \<in> set (r_intents r)
     \<and> n_available (r_node r)
     \<and> MIN_SCORE \<le> n_score (r_node r)
     \<and> (case q_min_reputation q of None \<Rightarrow> True | Some m \<Rightarrow> m \<le> n_reputation_score (r_node r))"

definition discover_view :: "DiscoverQuery \<Rightarrow> NodeRecord \<Rightarrow> Node" where
  "discover_view q r =
     (let caps = filter (\<lambda>c. c_intent c = q_intent q) (r_capabilities r);
          profiles = (if caps = [] then unwrap_or [] (map_of (r_capability_profiles r) (q_intent q))
                      else concat (map c_supported_profiles caps))
      in (r_node r)\<lparr>n_capabilities := caps, n_supported_profiles := sort_dedup profiles\<rparr>)"

definition discover :: "InMemoryRepo \<Rightarrow> DiscoverQuery \<Rightarrow> Node list" where
  "discover M q =
     take (effective_limit (q_limit q))
       (sort_desc n_score (map (discover_view q) (filter (discover_match q) (m_records M))))"

definition register :: "NodeRecord \<Rightarrow> InMemoryRepo \<Rightarrow> InMemoryRepo" where
  "register rec M =
     (case find_record M (record_id rec) of
        Some existing \<Rightarrow>
          update_record (record_id rec)
            (\<lambda>_. update_node (\<lambda>n. n\<lparr>n_reputation_score := n_reputation_score (r_node existing)\<rparr>) rec) M
      | None \<Rightarrow> M\<lparr>m_records := m_records M @ [rec]\<rparr>)"

record HeartbeatOutcome =
  h_score :: f64
  h_metrics_applied :: bool
  h_reputation_model :: string
  h_reputation_epoch :: "string option"

record HeartbeatInput =
  hb_load :: f64
  hb_available :: bool
  hb_active_jobs :: u32
  hb_tasks_delta :: u32
  hb_tasks_failed_delta :: u32
  hb_delta :: f64
  hb_metrics_batch_id :: "string option"
  hb_health_models :: "string list option"

definition heartbeat_node :: "HeartbeatInput \<Rightarrow> bool \<Rightarrow> Node \<Rightarrow> Node" where
  "heartbeat_node hb metrics_applied n =
     (let n1 = n\<lparr>n_load := hb_load hb, n_available := hb_available hb, n_active_jobs := hb_active_jobs hb\<rparr>;
          n2 = (if metrics_applied then
                  n1\<lparr>n_completed_tasks_count := n_completed_tasks_count n1 + ucast (hb_tasks_delta hb),
                     n_tasks_failed := n_tasks_failed n1 + ucast (hb_tasks_failed_delta hb),
                     n_reputation_score := apply_delta (n_reputation_score n1) (hb_delta hb)\<rparr>
                else n1)
      in case hb_health_models hb of None \<Rightarrow> n2 | Some ms \<Rightarrow> n2\<lparr>n_health_models := Some ms\<rparr>)"

definition metrics_batch :: "InMemoryRepo \<Rightarrow> string \<Rightarrow> string option \<Rightarrow> bool \<times> InMemoryRepo" where
  "metrics_batch M i batch =
     (case batch of
        None \<Rightarrow> (True, M)
      | Some b \<Rightarrow>
          if map_of (m_last_metrics_batches M) i = Some b then (False, M)
          else (True, M\<lparr>m_last_metrics_batches := hm_insert i b (m_last_metrics_batches M)\<rparr>))"

definition heartbeat ::
    "string \<Rightarrow> HeartbeatInput \<Rightarrow> InMemoryRepo \<Rightarrow> HeartbeatOutcome option \<times> InMemoryRepo" where
  "heartbeat i hb M =
     (case find_record M i of
        None \<Rightarrow> (None, M)
      | Some rec \<Rightarrow>
          (let (applied, M1) = metrics_batch M i (hb_metrics_batch_id hb);
               n = heartbeat_node hb applied (r_node rec)
           in (Some \<lparr>h_score = n_reputation_score n, h_metrics_applied = applied,
                     h_reputation_model = ''outcome-v2'', h_reputation_epoch = Some ''outcome-v2-initial''\<rparr>,
               update_record i (update_node (heartbeat_node hb applied)) M1)))"

section \<open>Lookup and listing\<close>

definition node_view :: "NodeRecord \<Rightarrow> Node" where
  "node_view r =
     (r_node r)\<lparr>n_capabilities := r_capabilities r,
                n_supported_profiles := sort_dedup (concat (map snd (r_capability_profiles r)))\<rparr>"

definition get_node :: "InMemoryRepo \<Rightarrow> string \<Rightarrow> Node option" where
  "get_node M i = map_option node_view (find_record M i)"

definition node_by_prefix :: "InMemoryRepo \<Rightarrow> string \<Rightarrow> Node option" where
  "node_by_prefix M pre =
     map_option node_view
       (case find (\<lambda>r. n_available (r_node r) \<and> record_id r = pre) (m_records M) of
          Some r \<Rightarrow> Some r
        | None \<Rightarrow> find (\<lambda>r. n_available (r_node r) \<and> starts_with (record_id r) pre) (m_records M))"

definition available_records :: "InMemoryRepo \<Rightarrow> NodeRecord list" where
  "available_records M = filter (\<lambda>r. n_available (r_node r)) (m_records M)"

definition active_count :: "InMemoryRepo \<Rightarrow> u32" where
  "active_count M = of_nat (length (available_records M))"

definition active_nodes :: "InMemoryRepo \<Rightarrow> Node list" where
  "active_nodes M = map r_node (available_records M)"

definition bootstrap :: "InMemoryRepo \<Rightarrow> nat \<Rightarrow> Node list" where
  "bootstrap M limit = map r_node (take limit (available_records M))"

definition deregister :: "string \<Rightarrow> InMemoryRepo \<Rightarrow> bool \<times> InMemoryRepo" where
  "deregister i M =
     (let kept = filter (\<lambda>r. record_id r \<noteq> i) (m_records M)
      in (length kept < length (m_records M), M\<lparr>m_records := kept\<rparr>))"

definition verify_node_token :: "InMemoryRepo \<Rightarrow> string \<Rightarrow> string \<Rightarrow> bool" where
  "verify_node_token M i token \<longleftrightarrow>
     (if \<not> m_verify_tokens M then True
      else (case find_record M i of
              None \<Rightarrow> False
            | Some r \<Rightarrow> (case r_node_token r of None \<Rightarrow> True | Some expected \<Rightarrow> expected = token)))"

definition peers_excluding :: "InMemoryRepo \<Rightarrow> string list \<Rightarrow> nat \<Rightarrow> Node list" where
  "peers_excluding M known limit =
     (let cap = (if limit = 0 then 10 else if limit > 20 then 20 else limit)
      in map r_node (take cap
           (filter (\<lambda>r. n_available (r_node r) \<and> record_id r \<notin> set known) (m_records M))))"

definition list_public :: "InMemoryRepo \<Rightarrow> nat \<Rightarrow> nat \<Rightarrow> Node list" where
  "list_public M offset limit =
     map (\<lambda>r. (r_node r)\<lparr>n_endpoint := []\<rparr>) (take (min limit 100) (drop offset (available_records M)))"

definition quote_multipliers :: "InMemoryRepo \<Rightarrow> string \<Rightarrow> f64 \<Rightarrow> f64 list" where
  "quote_multipliers M intent min_reputation =
     map (\<lambda>r. n_credit_cost_multiplier (r_node r))
       (filter (\<lambda>r. n_available (r_node r) \<and> min_reputation \<le> n_reputation_score (r_node r)
                  \<and> intent \<in> set (r_intents r)) (m_records M))"

definition snapshot_records :: "InMemoryRepo \<Rightarrow> NodeRecord list" where
  "snapshot_records M = m_records M"

definition set_reputation_score :: "string \<Rightarrow> f64 \<Rightarrow> InMemoryRepo \<Rightarrow> bool \<times> InMemoryRepo" where
  "set_reputation_score i score M =
     (case find_record M i of
        None \<Rightarrow> (False, M)
      | Some _ \<Rightarrow> (True, update_record i (update_node (\<lambda>n. n\<lparr>n_reputation_score := fclamp 0 1 score\<rparr>)) M))"

definition set_credit_balance :: "string \<Rightarrow> f64 \<Rightarrow> InMemoryRepo \<Rightarrow> bool" where
  "set_credit_balance i balance M \<longleftrightarrow> (\<exists>r \<in> set (m_records M). record_id r = i)"

section \<open>Statistics\<close>

definition bump_all :: "'k list \<Rightarrow> ('k, u32) hashmap \<Rightarrow> ('k, u32) hashmap" where
  "bump_all ks m = fold hm_bump ks m"

definition sort_by_count_desc :: "(string, u32) hashmap \<Rightarrow> string list" where
  "sort_by_count_desc m = map fst (sort_key (\<lambda>(k, v). (- uint v, k)) m)"

record RegistryStats =
  s_total_nodes :: u64
  s_active_nodes :: u64
  s_regions :: "string list"
  s_region_breakdown :: "(string, u32) hashmap"
  s_intent_coverage :: "(string, u32) hashmap"
  s_intents_supported :: "string list"

definition intent_counts :: "InMemoryRepo \<Rightarrow> (string, u32) hashmap" where
  "intent_counts M = fold (\<lambda>r m. bump_all (r_intents r) m) (available_records M) []"

definition region_counts :: "InMemoryRepo \<Rightarrow> (string, u32) hashmap" where
  "region_counts M = fold (\<lambda>r m. hm_bump (n_region (r_node r)) m) (available_records M) []"

definition registry_stats ::
    "((string, u32) hashmap \<Rightarrow> (string, u32) hashmap) \<Rightarrow> InMemoryRepo \<Rightarrow> RegistryStats" where
  "registry_stats iter M =
     \<lparr>s_total_nodes = of_nat (length (m_records M)),
      s_active_nodes = of_nat (length (available_records M)),
      s_regions = sort_by_count_desc (iter (region_counts M)),
      s_region_breakdown = region_counts M,
      s_intent_coverage = intent_counts M,
      s_intents_supported = sort_by_count_desc (iter (intent_counts M))\<rparr>"

text \<open>
  \<open>iter\<close> is the iteration order of the hash map: the entries in an order the standard
  library leaves unspecified.
\<close>

definition iteration_order :: "(('k, 'v) hashmap \<Rightarrow> ('k, 'v) hashmap) \<Rightarrow> bool" where
  "iteration_order iter \<longleftrightarrow> (\<forall>m. mset (iter m) = mset m)"

definition list_intents ::
    "((string, u32) hashmap \<Rightarrow> (string, u32) hashmap) \<Rightarrow> InMemoryRepo \<Rightarrow> (string \<times> u32) list" where
  "list_intents iter M = sort_key (\<lambda>(_, c). - uint c) (iter (intent_counts M))"

section \<open>Credit views of a repository without a ledger\<close>

definition operator_fingerprint :: "crypto \<Rightarrow> string \<Rightarrow> string" where
  "operator_fingerprint C operator_pubkey = take 12 (sha256_hex C operator_pubkey)"

definition credit_balance :: "InMemoryRepo \<Rightarrow> string \<Rightarrow> f64 option" where
  "credit_balance M i = map_option (\<lambda>_. 0) (find_record M i)"

record CreditSummary =
  cs_balance :: f64
  cs_total_earned :: f64
  cs_total_spent :: f64
  cs_tx_count :: u64

definition credit_summary :: "InMemoryRepo \<Rightarrow> string \<Rightarrow> CreditSummary option" where
  "credit_summary M i =
     map_option (\<lambda>_. \<lparr>cs_balance = 0, cs_total_earned = 0, cs_total_spent = 0, cs_tx_count = 0\<rparr>) (find_record M i)"

text \<open>The operator key a node is bound to, when it is not empty.\<close>

definition bound_operator :: "InMemoryRepo \<Rightarrow> string \<Rightarrow> string option" where
  "bound_operator M i =
     (case Option.bind (find_record M i) (\<lambda>r. n_operator_pubkey (r_node r)) of
        Some p \<Rightarrow> if p \<noteq> [] then Some p else None
      | None \<Rightarrow> None)"

definition operator_node_count :: "InMemoryRepo \<Rightarrow> string \<Rightarrow> u32" where
  "operator_node_count M p =
     of_nat (length (filter (\<lambda>r. n_operator_pubkey (r_node r) = Some p) (m_records M)))"

definition operator_wallet :: "InMemoryRepo \<Rightarrow> string \<Rightarrow> (f64 \<times> u32) option" where
  "operator_wallet M i = map_option (\<lambda>p. (0, operator_node_count M p)) (bound_operator M i)"

record OperatorWalletSummary =
  ws_total_balance :: f64
  ws_total_earned :: f64
  ws_total_spent :: f64
  ws_tx_count :: u64
  ws_node_count :: u32
  ws_reconciles :: bool
  ws_operator_fingerprint :: string

definition operator_wallet_summary :: "crypto \<Rightarrow> InMemoryRepo \<Rightarrow> string \<Rightarrow> OperatorWalletSummary option" where
  "operator_wallet_summary C M i =
     map_option (\<lambda>p. \<lparr>ws_total_balance = 0, ws_total_earned = 0, ws_total_spent = 0, ws_tx_count = 0,
                      ws_node_count = operator_node_count M p, ws_reconciles = True,
                      ws_operator_fingerprint = operator_fingerprint C p\<rparr>) (bound_operator M i)"

record EffectiveCreditBalance =
  eb_consumer_balance :: f64
  eb_effective_balance :: f64
  eb_balance_scope :: string
  eb_operator_wallet_balance :: "f64 option"

definition effective_credit_balance :: "InMemoryRepo \<Rightarrow> string \<Rightarrow> EffectiveCreditBalance option" where
  "effective_credit_balance M i =
     (case find_record M i of
        None \<Rightarrow> None
      | Some r \<Rightarrow>
          if (case n_operator_pubkey (r_node r) of None \<Rightarrow> False | Some p \<Rightarrow> p \<noteq> []) then
            Some \<lparr>eb_consumer_balance = 0, eb_effective_balance = 0, eb_balance_scope = ''operator_wallet'',
                  eb_operator_wallet_balance = Some 0\<rparr>
          else
            Some \<lparr>eb_consumer_balance = 0, eb_effective_balance = 0, eb_balance_scope = ''node'',
                  eb_operator_wallet_balance = None\<rparr>)"

datatype CreditError = NonceReplay | NodeNotFound | DbError

definition record_credit_award :: "InMemoryRepo \<Rightarrow> string \<Rightarrow> f64 \<Rightarrow> CreditError + f64" where
  "record_credit_award M i amount =
     (if \<exists>r \<in> set (m_records M). record_id r = i then Inr amount else Inl NodeNotFound)"

record WalletDebitResult =
  wd_debited :: bool
  wd_spent :: f64
  wd_scope :: string
  wd_reason :: "string option"
  wd_debit_count :: u32

definition debit_for_consumer :: "InMemoryRepo \<Rightarrow> string \<Rightarrow> WalletDebitResult" where
  "debit_for_consumer M i =
     (let scope = (case bound_operator M i of Some _ \<Rightarrow> ''operator_wallet'' | None \<Rightarrow> ''node'')
      in \<lparr>wd_debited = False, wd_spent = 0, wd_scope = scope,
          wd_reason = Some (if scope = ''operator_wallet'' then ''insufficient_operator_wallet_balance''
                            else ''insufficient_balance''),
          wd_debit_count = 0\<rparr>)"

definition maybe_allocate_free_credits :: "InMemoryRepo \<Rightarrow> string \<Rightarrow> f64" where
  "maybe_allocate_free_credits M i = (if \<exists>r \<in> set (m_records M). record_id r = i then 100 else 0)"

record AuditResult =
  a_applied :: bool
  a_new_score :: f64
  a_reason :: string

definition apply_audit_report :: "InMemoryRepo \<Rightarrow> string \<Rightarrow> AuditResult" where
  "apply_audit_report M target =
     (case find_record M target of
        Some r \<Rightarrow> \<lparr>a_applied = True, a_new_score = n_reputation_score (r_node r),
                   a_reason = ''integrity_evidence_accepted''\<rparr>
      | None \<Rightarrow> \<lparr>a_applied = False, a_new_score = 0, a_reason = ''target_not_found''\<rparr>)"

section \<open>Liveness challenges\<close>

text \<open>
  \<open>hmac_verify key message tag\<close> is the comparison of the \<open>hmac\<close> crate; a key of any length is
  accepted by HMAC, so \<open>new_from_slice\<close> does not fail.
\<close>

definition verify_liveness_response ::
    "crypto \<Rightarrow> (string \<Rightarrow> string \<Rightarrow> string \<Rightarrow> bool) \<Rightarrow> string \<Rightarrow> string \<Rightarrow> string \<Rightarrow> bool" where
  "verify_liveness_response C hmac_verify key challenge response \<longleftrightarrow>
     (case hex_decode C response of None \<Rightarrow> False | Some candidate \<Rightarrow> hmac_verify key challenge candidate)"

definition node_hmac_key :: "InMemoryRepo \<Rightarrow> string \<Rightarrow> string option" where
  "node_hmac_key M i = Option.bind (find_record M i) r_node_hmac_key"

definition verify_and_rotate_liveness_challenge ::
    "crypto \<Rightarrow> (string \<Rightarrow> string \<Rightarrow> string \<Rightarrow> bool) \<Rightarrow> string \<Rightarrow> string option \<Rightarrow> string
       \<Rightarrow> InMemoryRepo \<Rightarrow> bool option \<times> InMemoryRepo" where
  "verify_and_rotate_liveness_challenge C hmac_verify i response next_challenge M =
     (case find_record M i of
        None \<Rightarrow> (None, M)
      | Some r \<Rightarrow>
          (let verified =
             (case (map_of (m_liveness_challenges M) i, r_node_hmac_key r, response) of
                (Some challenge, Some key, Some candidate) \<Rightarrow>
                  verify_liveness_response C hmac_verify key challenge candidate
              | _ \<Rightarrow> False)
           in (Some verified,
               M\<lparr>m_liveness_challenges := hm_insert i next_challenge (m_liveness_challenges M)\<rparr>)))"

section \<open>Health observations\<close>

definition upsert_health_observation ::
    "string \<Rightarrow> string \<Rightarrow> f64 \<Rightarrow> i64 \<Rightarrow> InMemoryRepo \<Rightarrow> bool \<times> InMemoryRepo" where
  "upsert_health_observation i evaluator score at_ms M =
     (let same = (\<lambda>(n, e, _, _). n = i \<and> e = evaluator)
      in case find same (m_health_obs M) of
           Some (n, e, s, t) \<Rightarrow>
             if at_ms \<le> t then (False, M)
             else (True, M\<lparr>m_health_obs := update_first same (\<lambda>(n, e, _, _). (n, e, score, at_ms)) (m_health_obs M)\<rparr>)
         | None \<Rightarrow> (True, M\<lparr>m_health_obs := m_health_obs M @ [(i, evaluator, score, at_ms)]\<rparr>))"

definition all_health_observations :: "InMemoryRepo \<Rightarrow> health_row list" where
  "all_health_observations M = m_health_obs M"

section \<open>Probes and conformance runs\<close>

definition record_probe_batch :: "ProbeResult list \<Rightarrow> InMemoryRepo \<Rightarrow> u32 \<times> InMemoryRepo" where
  "record_probe_batch probes M =
     (of_nat (length probes), M\<lparr>m_probe_results := m_probe_results M @ probes\<rparr>)"

text \<open>\<open>Iterator::max_by_key\<close>: the last of the elements with the largest key.\<close>

fun max_by_key :: "('a \<Rightarrow> 'k::linorder) \<Rightarrow> 'a list \<Rightarrow> 'a option" where
  "max_by_key key [] = None"
| "max_by_key key (x # xs) =
     (case max_by_key key xs of None \<Rightarrow> Some x | Some y \<Rightarrow> if key y < key x then Some x else Some y)"

definition conformance_run_from_probes :: "string \<Rightarrow> ProbeResult list \<Rightarrow> ConformanceRun option" where
  "conformance_run_from_probes now probes =
     map_option
       (\<lambda>latest.
          let run = filter (\<lambda>p. pr_probe_type p = ''conformance'' \<and> pr_run_id p = pr_run_id latest) probes
          in \<lparr>cr_run_id = pr_run_id latest, cr_probed_at = unwrap_or now (pr_probed_at latest),
              cr_passed = sort_dedup (filter_map pr_test_id (filter pr_passed run)),
              cr_failed = sort_dedup (filter_map pr_test_id (filter (\<lambda>p. \<not> pr_passed p) run))\<rparr>)
       (max_by_key (\<lambda>p. unwrap_or [] (pr_probed_at p))
          (filter (\<lambda>p. pr_probe_type p = ''conformance'' \<and> pr_run_id p \<noteq> []) probes))"

definition latest_conformance_run :: "string \<Rightarrow> InMemoryRepo \<Rightarrow> ConformanceRun option" where
  "latest_conformance_run now M = conformance_run_from_probes now (m_probe_results M)"

section \<open>Dispatch usage\<close>

text \<open>
  Calendar dates are chrono's: a date is the number of its day, \<open>show_date\<close> prints it and
  \<open>parse_date\<close> reads it.
\<close>

definition dispatch_mode :: "string \<Rightarrow> bool" where
  "dispatch_mode mode \<longleftrightarrow> mode = ''public_view'' \<or> mode = ''legacy_dispatch'' \<or> mode = ''ticketed_dispatch''"

definition record_dispatch_usage :: "(int \<Rightarrow> string) \<Rightarrow> int \<Rightarrow> string \<Rightarrow> InMemoryRepo \<Rightarrow> InMemoryRepo" where
  "record_dispatch_usage show_date today mode M =
     (if \<not> dispatch_mode mode then M
      else M\<lparr>m_dispatch_usage := hm_bump (show_date today, mode) (m_dispatch_usage M)\<rparr>)"

definition dispatch_usage_summary_value :: "u32 \<Rightarrow> u64 \<Rightarrow> u64 \<Rightarrow> u64 \<Rightarrow> json" where
  "dispatch_usage_summary_value days ticketed legacy public =
     (let dispatch_total = saturating_add ticketed legacy
      in JObj [(''basis'', JStr ''anonymous_daily_request_counts''),
               (''window_days'', JInt (uint days)),
               (''ticketed_requests'', JInt (uint ticketed)),
               (''legacy_route_discovery_requests'', JInt (uint legacy)),
               (''public_view_requests'', JInt (uint public)),
               (''ticketed_share'',
                 if dispatch_total > 0
                 then JFloat (fdiv (of_int (f64_round (fmul (fdiv (f64_of_word ticketed) (f64_of_word dispatch_total)) 10000))) 10000)
                 else JNull),
               (''retention_days'', JInt 30),
               (''contains_caller_identifiers'', JBool False),
               (''measurement_valid_since'', JNull),
               (''measurement_days_observed'', JInt 0),
               (''measurement_window_complete'', JBool False),
               (''minimum_sample_requests'', JInt 100),
               (''sample_eligible'', JBool (dispatch_total \<ge> 100)),
               (''cutover_share_threshold'', JFloat (round64 (9 / 10))),
               (''cutover_sustained_days'', JInt 14),
               (''cutover_eligible'', JBool False),
               (''measurement_limits'', JStr ''Anonymous request-path counts can include manual or automated callers; use only after read-only tooling has moved to public view.'')])"

definition usage_total :: "(string \<Rightarrow> int option) \<Rightarrow> int \<Rightarrow> string \<Rightarrow> InMemoryRepo \<Rightarrow> u64" where
  "usage_total parse_date start mode M =
     sum_list (map snd (filter (\<lambda>((date, m), _).
        m = mode \<and> (case parse_date date of None \<Rightarrow> False | Some d \<Rightarrow> start \<le> d)) (m_dispatch_usage M)))"

definition clamp_days :: "u32 \<Rightarrow> u32" where
  "clamp_days d = max 1 (min 30 d)"

definition dispatch_usage_summary :: "(string \<Rightarrow> int option) \<Rightarrow> int \<Rightarrow> u32 \<Rightarrow> InMemoryRepo \<Rightarrow> json" where
  "dispatch_usage_summary parse_date today days M =
     (let d = clamp_days days;
          start = today - (uint d - 1)
      in dispatch_usage_summary_value d
           (usage_total parse_date start ''ticketed_dispatch'' M)
           (usage_total parse_date start ''legacy_dispatch'' M)
           (usage_total parse_date start ''public_view'' M))"

section \<open>The contract of the node table\<close>

text \<open>
  What the rest of the directory relies on: a repository answers lookups like a finite map
  from node ids to records, together with the last accepted metrics batch of each node. The
  laws are the documented behaviour of the trait \<open>NodeRepository\<close>; the clients of the table
  are proved against them.
\<close>

definition keep_reputation :: "NodeRecord option \<Rightarrow> NodeRecord \<Rightarrow> NodeRecord" where
  "keep_reputation old rec =
     (case old of
        None \<Rightarrow> rec
      | Some r \<Rightarrow> update_node (\<lambda>n. n\<lparr>n_reputation_score := n_reputation_score (r_node r)\<rparr>) rec)"

definition batch_is_new :: "string option \<Rightarrow> string option \<Rightarrow> bool" where
  "batch_is_new seen b \<longleftrightarrow> b = None \<or> seen \<noteq> b"

datatype RepoCommand =
    CRegister NodeRecord
  | CHeartbeat string HeartbeatInput
  | CDeregister string
  | CSetReputation string f64

text \<open>The abstract directory: a map of records and a map of accepted batches.\<close>

type_synonym directory = "(string \<rightharpoonup> NodeRecord) \<times> (string \<rightharpoonup> string)"

fun directory_step :: "RepoCommand \<Rightarrow> directory \<Rightarrow> directory" where
  "directory_step (CRegister rec) (D, B) = (D(record_id rec \<mapsto> keep_reputation (D (record_id rec)) rec), B)"
| "directory_step (CHeartbeat i hb) (D, B) =
     (case D i of
        None \<Rightarrow> (D, B)
      | Some r \<Rightarrow>
          (D(i \<mapsto> update_node (heartbeat_node hb (batch_is_new (B i) (hb_metrics_batch_id hb))) r),
           if batch_is_new (B i) (hb_metrics_batch_id hb) \<and> hb_metrics_batch_id hb \<noteq> None
           then B(i := hb_metrics_batch_id hb) else B))"
| "directory_step (CDeregister i) (D, B) = (D(i := None), B)"
| "directory_step (CSetReputation i s) (D, B) =
     (D(i := map_option (update_node (\<lambda>n. n\<lparr>n_reputation_score := fclamp 0 1 s\<rparr>)) (D i)), B)"

locale node_repository =
  fixes lookup :: "'r \<Rightarrow> string \<Rightarrow> NodeRecord option"
    and batches :: "'r \<Rightarrow> string \<Rightarrow> string option"
    and reg :: "NodeRecord \<Rightarrow> 'r \<Rightarrow> 'r"
    and hbeat :: "string \<Rightarrow> HeartbeatInput \<Rightarrow> 'r \<Rightarrow> 'r"
    and dereg :: "string \<Rightarrow> 'r \<Rightarrow> 'r"
    and set_score :: "string \<Rightarrow> f64 \<Rightarrow> 'r \<Rightarrow> 'r"
  assumes lookup_id: "lookup R i = Some r \<Longrightarrow> record_id r = i"
    and after_reg:
      "lookup (reg rec R) = (lookup R)(record_id rec \<mapsto> keep_reputation (lookup R (record_id rec)) rec)"
      "batches (reg rec R) = batches R"
    and after_hbeat:
      "(lookup (hbeat i hb R), batches (hbeat i hb R)) = directory_step (CHeartbeat i hb) (lookup R, batches R)"
    and after_dereg:
      "lookup (dereg i R) = (lookup R)(i := None)" "batches (dereg i R) = batches R"
    and after_set_score:
      "lookup (set_score i s R) =
         (lookup R)(i := map_option (update_node (\<lambda>n. n\<lparr>n_reputation_score := fclamp 0 1 s\<rparr>)) (lookup R i))"
      "batches (set_score i s R) = batches R"
begin

fun step :: "RepoCommand \<Rightarrow> 'r \<Rightarrow> 'r" where
  "step (CRegister rec) R = reg rec R"
| "step (CHeartbeat i hb) R = hbeat i hb R"
| "step (CDeregister i) R = dereg i R"
| "step (CSetReputation i s) R = set_score i s R"

lemma step_refines:
  "(lookup (step c R), batches (step c R)) = directory_step c (lookup R, batches R)"
  by (cases c) (simp_all add: after_reg after_hbeat after_dereg after_set_score del: directory_step.simps(2))

lemma run_refines:
  "(lookup (fold step cs R), batches (fold step cs R)) = fold directory_step cs (lookup R, batches R)"
proof (induction cs arbitrary: R)
  case (Cons c cs)
  show ?case using Cons.IH [of "step c R"] by (simp add: step_refines)
qed simp

lemma reregister_keeps_reputation:
  assumes "lookup R (record_id rec) = Some old"
  shows "\<exists>r. lookup (reg rec R) (record_id rec) = Some r
    \<and> n_reputation_score (r_node r) = n_reputation_score (r_node old)"
  using assms by (simp add: after_reg keep_reputation_def)

lemma reregister_many:
  assumes "\<forall>rec \<in> set recs. record_id rec = i" and "lookup R i = Some old"
  shows "\<exists>r. lookup (fold reg recs R) i = Some r
    \<and> n_reputation_score (r_node r) = n_reputation_score (r_node old)"
  using assms
proof (induction recs arbitrary: R old)
  case (Cons rec recs)
  then obtain r where r: "lookup (reg rec R) i = Some r" "n_reputation_score (r_node r) = n_reputation_score (r_node old)"
    using reregister_keeps_reputation [of R rec old] by auto
  then show ?case using Cons.IH [OF _ r(1)] Cons.prems(1) by auto
qed simp

end

section \<open>The in-memory repository meets the contract\<close>

lemma find_record_id: "find_record M i = Some r \<Longrightarrow> record_id r = i"
  unfolding find_record_def by (auto dest: find_Some_set)

lemma find_record_metrics_batch [simp]: "find_record (snd (metrics_batch M i b)) = find_record M"
  by (simp add: find_record_def metrics_batch_def fun_eq_iff split: option.split)

lemma find_update_record:
  assumes "\<And>r. record_id r = i \<Longrightarrow> record_id (f r) = i"
  shows "find_record (update_record i f M) = (find_record M)(i := map_option f (find_record M i))"
proof
  fix j
  show "find_record (update_record i f M) j = ((find_record M)(i := map_option f (find_record M i))) j"
  proof (cases "j = i")
    case True
    then show ?thesis using assms by (simp add: find_record_def update_record_def find_update_first)
  next
    case False
    then show ?thesis using assms
      by (auto simp: find_record_def update_record_def intro!: find_update_first_other)
  qed
qed

lemma record_id_keep_reputation [simp]: "record_id (keep_reputation old rec) = record_id rec"
  by (simp add: keep_reputation_def split: option.split)

lemma heartbeat_node_id [simp]: "n_node_id (heartbeat_node hb b n) = n_node_id n"
  by (simp add: heartbeat_node_def Let_def split: option.split)

lemma find_record_register:
  "find_record (register rec M) = (find_record M)(record_id rec \<mapsto> keep_reputation (find_record M (record_id rec)) rec)"
proof (cases "find_record M (record_id rec)")
  case None
  then show ?thesis
    by (auto simp: register_def keep_reputation_def find_record_def find_append fun_eq_iff split: option.splits)
next
  case (Some old)
  then show ?thesis by (simp add: register_def keep_reputation_def find_update_record)
qed

lemma metrics_batch_records [simp]: "m_records (snd (metrics_batch M i b)) = m_records M"
  by (simp add: metrics_batch_def split: option.split)

lemma metrics_batch_applied: "fst (metrics_batch M i b) = batch_is_new (map_of (m_last_metrics_batches M) i) b"
  by (auto simp: metrics_batch_def batch_is_new_def split: option.split)

lemma metrics_batch_batches:
  "map_of (m_last_metrics_batches (snd (metrics_batch M i b)))
     = (if batch_is_new (map_of (m_last_metrics_batches M) i) b \<and> b \<noteq> None
        then (map_of (m_last_metrics_batches M))(i := b) else map_of (m_last_metrics_batches M))"
  by (auto simp: metrics_batch_def batch_is_new_def split: option.split)

lemma m_batches_update_record [simp]: "m_last_metrics_batches (update_record i f M) = m_last_metrics_batches M"
  by (simp add: update_record_def)

lemma heartbeat_state:
  "snd (heartbeat i hb M) =
     (case find_record M i of
        None \<Rightarrow> M
      | Some r \<Rightarrow> update_record i
          (update_node (heartbeat_node hb (batch_is_new (map_of (m_last_metrics_batches M) i) (hb_metrics_batch_id hb))))
          (snd (metrics_batch M i (hb_metrics_batch_id hb))))"
  by (simp add: heartbeat_def Let_def case_prod_beta metrics_batch_applied split: option.split)

lemma find_record_heartbeat:
  "(find_record (snd (heartbeat i hb M)), map_of (m_last_metrics_batches (snd (heartbeat i hb M))))
     = directory_step (CHeartbeat i hb) (find_record M, map_of (m_last_metrics_batches M))"
proof (cases "find_record M i")
  case (Some r)
  then show ?thesis
    by (simp add: heartbeat_state find_update_record metrics_batch_batches)
qed (simp add: heartbeat_state)

lemma find_record_deregister: "find_record (snd (deregister i M)) = (find_record M)(i := None)"
proof
  fix j
  have "(\<lambda>r. record_id r \<noteq> i \<and> record_id r = j) = (\<lambda>r. j \<noteq> i \<and> record_id r = j)" by auto
  then show "find_record (snd (deregister i M)) j = ((find_record M)(i := None)) j"
    by (simp add: find_record_def deregister_def Let_def find_filter find_None_set)
qed

lemma find_record_set_reputation:
  "find_record (snd (set_reputation_score i s M)) =
     (find_record M)(i := map_option (update_node (\<lambda>n. n\<lparr>n_reputation_score := fclamp 0 1 s\<rparr>)) (find_record M i))"
proof (cases "find_record M i")
  case None
  then show ?thesis by (simp add: set_reputation_score_def fun_upd_idem)
next
  case (Some r)
  then show ?thesis by (simp add: set_reputation_score_def find_update_record)
qed

lemma same_batches:
  "m_last_metrics_batches (register rec M) = m_last_metrics_batches M"
  "m_last_metrics_batches (snd (deregister i M)) = m_last_metrics_batches M"
  "m_last_metrics_batches (snd (set_reputation_score i s M)) = m_last_metrics_batches M"
  by (simp_all add: register_def deregister_def set_reputation_score_def Let_def split: option.split)

interpretation mem: node_repository
  find_record "\<lambda>M. map_of (m_last_metrics_batches M)" register "\<lambda>i hb M. snd (heartbeat i hb M)"
  "\<lambda>i M. snd (deregister i M)" "\<lambda>i s M. snd (set_reputation_score i s M)"
proof
  fix i hb M
  show "(find_record (snd (heartbeat i hb M)), map_of (m_last_metrics_batches (snd (heartbeat i hb M))))
     = directory_step (CHeartbeat i hb) (find_record M, map_of (m_last_metrics_batches M))"
    by (rule find_record_heartbeat)
qed (simp_all only: find_record_id find_record_register find_record_deregister find_record_set_reputation same_batches)

section \<open>Properties of the node table\<close>

fun repo_step :: "RepoCommand \<Rightarrow> InMemoryRepo \<Rightarrow> InMemoryRepo" where
  "repo_step (CRegister rec) M = register rec M"
| "repo_step (CHeartbeat i hb) M = snd (heartbeat i hb M)"
| "repo_step (CDeregister i) M = snd (deregister i M)"
| "repo_step (CSetReputation i s) M = snd (set_reputation_score i s M)"

lemma repo_step_mem: "repo_step = mem.step"
proof (rule ext)+
  fix c M
  show "repo_step c M = mem.step c M" by (cases c) simp_all
qed

text \<open>
  C2. Refinement: under any sequence of registrations, heartbeats, deregistrations and
  reputation updates the repository behaves like a map from node ids to records beside a
  map of accepted metrics batches. In particular a record never answers for another id, a
  second registration replaces the record and keeps the reputation earned under the id,
  and no operation touches another node.
\<close>

theorem repo_refines_directory:
  "(find_record (fold repo_step cs M), map_of (m_last_metrics_batches (fold repo_step cs M)))
     = fold directory_step cs (find_record M, map_of (m_last_metrics_batches M))"
  using mem.run_refines [of cs M] by (simp add: repo_step_mem)

text \<open>
  Reputation cannot be laundered by registering again: after any number of registrations
  under a known id the reputation score is the one the node had before.
\<close>

theorem reregistration_keeps_reputation:
  assumes "\<forall>rec \<in> set recs. record_id rec = i" and "find_record M i = Some old"
  shows "map_option n_reputation_score (get_node (fold register recs M) i) = Some (n_reputation_score (r_node old))"
  using mem.reregister_many [OF assms] by (auto simp: get_node_def node_view_def)

theorem reregistration_keeps_reputation_witness:
  "map_option n_reputation_score
     (get_node (fold register [blank_record ''a'', (blank_record ''a'')\<lparr>r_node := (blank_node ''a'')\<lparr>n_reputation_score := 1\<rparr>\<rparr>]
        (new_repo [blank_record ''a''])) ''a'') = Some (1 / 2)"
proof -
  let ?recs = "[blank_record ''a'', (blank_record ''a'')\<lparr>r_node := (blank_node ''a'')\<lparr>n_reputation_score := 1\<rparr>\<rparr>]"
  have "\<forall>rec \<in> set ?recs. record_id rec = ''a''" by (simp add: blank_record_def blank_node_def)
  moreover have "find_record (new_repo [blank_record ''a'']) ''a'' = Some (blank_record ''a'')"
    by (simp add: find_record_def new_repo_def blank_record_def blank_node_def)
  ultimately show ?thesis
    using reregistration_keeps_reputation [of ?recs "''a''" "new_repo [blank_record ''a'']" "blank_record ''a''"]
    by (simp add: blank_record_def blank_node_def)
qed

text \<open>
  A heartbeat that repeats the batch id of the one before it (a retry) refreshes load,
  availability and job count but adds nothing to the task counters and leaves the
  reputation as it is; it reports that the metrics were not applied.
\<close>

theorem heartbeat_retry_counts_once:
  assumes "find_record M i = Some r"
    and "hb_metrics_batch_id hb = Some b" and "hb_metrics_batch_id hb' = Some b"
  shows "let M1 = snd (heartbeat i hb M); (out, M2) = heartbeat i hb' M1
    in \<exists>n1 n2. map_option r_node (find_record M1 i) = Some n1 \<and> map_option r_node (find_record M2 i) = Some n2
      \<and> n_completed_tasks_count n2 = n_completed_tasks_count n1
      \<and> n_tasks_failed n2 = n_tasks_failed n1
      \<and> n_reputation_score n2 = n_reputation_score n1
      \<and> n_load n2 = hb_load hb' \<and> n_available n2 = hb_available hb' \<and> n_active_jobs n2 = hb_active_jobs hb'
      \<and> map_option h_metrics_applied out = Some False"
proof -
  let ?M1 = "snd (heartbeat i hb M)"
  let ?n1 = "heartbeat_node hb (batch_is_new (map_of (m_last_metrics_batches M) i) (Some b)) (r_node r)"
  have f1: "find_record ?M1 i = Some (r\<lparr>r_node := ?n1\<rparr>)" and b1: "map_of (m_last_metrics_batches ?M1) i = Some b"
    using find_record_heartbeat [of i hb M] assms by (auto simp: batch_is_new_def split: if_splits)
  then have f2: "find_record (snd (heartbeat i hb' ?M1)) i = Some (r\<lparr>r_node := heartbeat_node hb' False ?n1\<rparr>)"
    using find_record_heartbeat [of i hb' ?M1] assms by (auto simp: batch_is_new_def split: if_splits)
  have "map_option h_metrics_applied (fst (heartbeat i hb' ?M1)) = Some False"
    using f1 b1 assms by (simp add: heartbeat_def metrics_batch_def Let_def)
  then show ?thesis using f1 f2
    by (simp add: Let_def case_prod_beta) (simp add: heartbeat_node_def Let_def split: option.split)
qed

definition sample_heartbeat :: HeartbeatInput where
  "sample_heartbeat = \<lparr>hb_load = 1 / 2, hb_available = True, hb_active_jobs = 1, hb_tasks_delta = 3,
     hb_tasks_failed_delta = 1, hb_delta = 0, hb_metrics_batch_id = Some ''b1'', hb_health_models = None\<rparr>"

theorem heartbeat_retry_counts_once_witness:
  "let M1 = snd (heartbeat ''a'' sample_heartbeat (new_repo [blank_record ''a'']));
       (out, M2) = heartbeat ''a'' sample_heartbeat M1
   in \<exists>n1 n2. map_option r_node (find_record M1 ''a'') = Some n1 \<and> map_option r_node (find_record M2 ''a'') = Some n2
      \<and> n_completed_tasks_count n2 = n_completed_tasks_count n1 \<and> map_option h_metrics_applied out = Some False"
proof -
  have "find_record (new_repo [blank_record ''a'']) ''a'' = Some (blank_record ''a'')"
    by (simp add: find_record_def new_repo_def blank_record_def blank_node_def)
  from heartbeat_retry_counts_once [OF this, of sample_heartbeat "''b1''" sample_heartbeat]
  show ?thesis by (auto simp: sample_heartbeat_def Let_def case_prod_beta)
qed

lemma effective_limit_bounds: "1 \<le> effective_limit n" "effective_limit n \<le> MAX_LIMIT"
  by (simp_all add: effective_limit_def DEFAULT_LIMIT_def MAX_LIMIT_def)

lemma discover_view_fields [simp]:
  "n_node_id (discover_view q r) = record_id r" "n_score (discover_view q r) = n_score (r_node r)"
  "n_available (discover_view q r) = n_available (r_node r)"
  "n_reputation_score (discover_view q r) = n_reputation_score (r_node r)"
  by (simp_all add: discover_view_def Let_def)

text \<open>
  Discovery is sound, ordered, bounded and leaves out nothing better: every node returned is
  the view of a stored record that serves the intent, is available, scores at least
  \<open>MIN_SCORE\<close> and meets the reputation floor; scores descend; between 1 and 50 nodes are
  asked for whatever the limit is; and a matching record that is not returned scores no
  higher than any node returned, and is left out only because the limit is reached.
\<close>

theorem discover_correct:
  "(\<forall>n \<in> set (discover M q). \<exists>r \<in> set (m_records M). n = discover_view q r
        \<and> q_intent q \<in> set (r_intents r) \<and> n_available n \<and> MIN_SCORE \<le> n_score n
        \<and> (\<forall>floor. q_min_reputation q = Some floor \<longrightarrow> floor \<le> n_reputation_score n))
   \<and> sorted_wrt (\<lambda>a b. n_score b \<le> n_score a) (discover M q)
   \<and> length (discover M q) = min (effective_limit (q_limit q)) (length (filter (discover_match q) (m_records M)))
   \<and> 1 \<le> effective_limit (q_limit q) \<and> effective_limit (q_limit q) \<le> 50
   \<and> (\<forall>r \<in> set (m_records M). discover_match q r \<longrightarrow> discover_view q r \<notin> set (discover M q) \<longrightarrow>
        length (discover M q) = effective_limit (q_limit q)
        \<and> (\<forall>n \<in> set (discover M q). n_score (r_node r) \<le> n_score n))"
proof -
  let ?xs = "map (discover_view q) (filter (discover_match q) (m_records M))"
  let ?k = "effective_limit (q_limit q)"
  have best: "length (discover M q) = ?k \<and> (\<forall>n \<in> set (discover M q). n_score (r_node r) \<le> n_score n)"
    if "r \<in> set (m_records M)" "discover_match q r" "discover_view q r \<notin> set (discover M q)" for r
  proof -
    have "discover_view q r \<in> set (sort_desc n_score ?xs)" using that by simp
    then have out: "discover_view q r \<in> set (drop ?k (sort_desc n_score ?xs))"
      using that(3) by (metis UnE append_take_drop_id discover_def set_append)
    moreover have "?k < length ?xs"
    proof (rule ccontr)
      assume "\<not> ?k < length ?xs"
      then show False using out by simp
    qed
    ultimately show ?thesis
      using sort_desc_take_best [of _ ?k n_score ?xs "discover_view q r"] by (auto simp: discover_def)
  qed
  have "sorted_wrt (\<lambda>a b. n_score b \<le> n_score a) (discover M q)"
    unfolding discover_def by (rule sorted_wrt_take [OF sorted_wrt_sort_desc])
  moreover have "\<forall>n \<in> set (discover M q). \<exists>r \<in> set (m_records M). n = discover_view q r
        \<and> q_intent q \<in> set (r_intents r) \<and> n_available n \<and> MIN_SCORE \<le> n_score n
        \<and> (\<forall>floor. q_min_reputation q = Some floor \<longrightarrow> floor \<le> n_reputation_score n)"
  proof
    fix n assume "n \<in> set (discover M q)"
    then obtain r where r: "r \<in> set (m_records M)" "discover_match q r" "n = discover_view q r"
      by (auto simp: discover_def dest!: in_set_takeD)
    then show "\<exists>r \<in> set (m_records M). n = discover_view q r
        \<and> q_intent q \<in> set (r_intents r) \<and> n_available n \<and> MIN_SCORE \<le> n_score n
        \<and> (\<forall>floor. q_min_reputation q = Some floor \<longrightarrow> floor \<le> n_reputation_score n)"
      by (intro bexI [of _ r]) (auto simp: discover_match_def)
  qed
  ultimately show ?thesis
    using best effective_limit_bounds [of "q_limit q"]
    by (simp add: discover_def MAX_LIMIT_def min.commute)
qed

theorem discover_correct_witness:
  "let M = new_repo [(blank_record ''a'')\<lparr>r_intents := [''urn:x'']\<rparr>,
                     (blank_record ''b'')\<lparr>r_intents := [''urn:x''], r_node := (blank_node ''b'')\<lparr>n_score := 1\<rparr>\<rparr>];
       q = \<lparr>q_intent = ''urn:x'', q_region = None, q_limit = 1, q_min_reputation = Some (1 / 4)\<rparr>
   in map n_node_id (discover M q) = [''b''] \<and> length (discover M q) = effective_limit (q_limit q)
      \<and> sorted_wrt (\<lambda>a b. n_score b \<le> n_score a) (discover M q)"
proof -
  let ?M = "new_repo [(blank_record ''a'')\<lparr>r_intents := [''urn:x'']\<rparr>,
                     (blank_record ''b'')\<lparr>r_intents := [''urn:x''], r_node := (blank_node ''b'')\<lparr>n_score := 1\<rparr>\<rparr>]"
  let ?q = "\<lparr>q_intent = ''urn:x'', q_region = None, q_limit = 1, q_min_reputation = Some (1 / 4)\<rparr>"
  have "map n_node_id (discover ?M ?q) = [''b''] \<and> length (discover ?M ?q) = effective_limit (q_limit ?q)"
    by code_simp
  then show ?thesis using discover_correct [of ?M ?q] by (simp add: Let_def)
qed

section \<open>Liveness challenges are used once\<close>

text \<open>
  A liveness response works at most once: the call that accepts it also replaces the
  challenge, so presenting the same response again is refused unless it happens to be the
  HMAC of the new challenge under the node's key.
\<close>

theorem liveness_response_single_use:
  assumes "verify_and_rotate_liveness_challenge C hmac_verify i (Some response) next_challenge M = (Some ok, M1)"
    and "\<forall>key candidate. node_hmac_key M i = Some key \<longrightarrow> hex_decode C response = Some candidate
           \<longrightarrow> \<not> hmac_verify key next_challenge candidate"
  shows "fst (verify_and_rotate_liveness_challenge C hmac_verify i (Some response) later M1) = Some False
    \<and> map_of (m_liveness_challenges M1) i = Some next_challenge
    \<and> (ok \<longrightarrow> (\<exists>challenge key candidate. map_of (m_liveness_challenges M) i = Some challenge
          \<and> node_hmac_key M i = Some key \<and> hex_decode C response = Some candidate
          \<and> hmac_verify key challenge candidate))"
proof -
  from assms(1) obtain r where r: "find_record M i = Some r"
    by (auto simp: verify_and_rotate_liveness_challenge_def split: option.splits)
  have M1: "M1 = M\<lparr>m_liveness_challenges := hm_insert i next_challenge (m_liveness_challenges M)\<rparr>"
    using assms(1) r by (simp add: verify_and_rotate_liveness_challenge_def Let_def)
  then have r1: "find_record M1 i = Some r" using r by (simp add: find_record_def)
  have "fst (verify_and_rotate_liveness_challenge C hmac_verify i (Some response) later M1) = Some False"
    using r1 assms(2) r
    by (simp add: verify_and_rotate_liveness_challenge_def verify_liveness_response_def node_hmac_key_def M1 Let_def
        split: option.split)
  moreover have "ok \<longrightarrow> (\<exists>challenge key candidate. map_of (m_liveness_challenges M) i = Some challenge
          \<and> node_hmac_key M i = Some key \<and> hex_decode C response = Some candidate
          \<and> hmac_verify key challenge candidate)"
    using assms(1) r
    by (auto simp: verify_and_rotate_liveness_challenge_def verify_liveness_response_def node_hmac_key_def Let_def
        split: option.splits)
  ultimately show ?thesis by (simp add: M1)
qed

definition sample_live_repo :: InMemoryRepo where
  "sample_live_repo = (new_repo [(blank_record ''a'')\<lparr>r_node_hmac_key := Some ''k''\<rparr>])
     \<lparr>m_liveness_challenges := [(''a'', ''c1'')]\<rparr>"

theorem liveness_response_single_use_witness:
  "let hv = (\<lambda>key msg tag. tag = key @ msg);
       (ok, M1) = verify_and_rotate_liveness_challenge demo_crypto hv ''a'' (Some ''hkc1'') ''c2'' sample_live_repo
   in ok = Some True \<and> fst (verify_and_rotate_liveness_challenge demo_crypto hv ''a'' (Some ''hkc1'') ''c3'' M1) = Some False"
proof -
  let ?hv = "\<lambda>key msg tag. tag = key @ msg"
  obtain M1 where v: "verify_and_rotate_liveness_challenge demo_crypto ?hv ''a'' (Some ''hkc1'') ''c2'' sample_live_repo = (Some True, M1)"
    by (simp add: verify_and_rotate_liveness_challenge_def verify_liveness_response_def sample_live_repo_def
        find_record_def new_repo_def blank_record_def blank_node_def demo_crypto_def demo_unhex_def Let_def)
  have "node_hmac_key sample_live_repo ''a'' = Some ''k''" and "hex_decode demo_crypto ''hkc1'' = Some ''kc1''"
    by (simp_all add: node_hmac_key_def sample_live_repo_def find_record_def new_repo_def blank_record_def
        blank_node_def demo_crypto_def demo_unhex_def)
  then show ?thesis using liveness_response_single_use [OF v, of "''c3''"] v by (simp add: Let_def)
qed

section \<open>Health observations converge\<close>

definition health_row_of :: "InMemoryRepo \<Rightarrow> string \<Rightarrow> string \<Rightarrow> health_row option" where
  "health_row_of M i ev = find (\<lambda>(n, e, _, _). n = i \<and> e = ev) (m_health_obs M)"

definition upsert_row :: "health_row \<Rightarrow> InMemoryRepo \<Rightarrow> InMemoryRepo" where
  "upsert_row row M = (case row of (i, ev, s, t) \<Rightarrow> snd (upsert_health_observation i ev s t M))"

lemma health_row_of_upsert:
  "health_row_of (upsert_row (i, ev, s, t) M) j e =
     (if (j, e) = (i, ev)
      then (case health_row_of M i ev of
              Some (_, _, s0, t0) \<Rightarrow> if t \<le> t0 then Some (i, ev, s0, t0) else Some (i, ev, s, t)
            | None \<Rightarrow> Some (i, ev, s, t))
      else health_row_of M j e)"
proof (cases "find (\<lambda>(n, e', _, _). n = i \<and> e' = ev) (m_health_obs M)")
  case None
  then show ?thesis
    by (auto simp: health_row_of_def upsert_row_def upsert_health_observation_def find_append split: option.split)
next
  case (Some row)
  let ?same = "\<lambda>(n, e', _, _). n = i \<and> e' = ev"
  obtain s0 t0 where row: "row = (i, ev, s0, t0)"
    using find_Some_set [OF Some] by (cases row) auto
  have other: "find (\<lambda>(n, e', _, _). n = j \<and> e' = e) (update_first ?same (\<lambda>(n, e', _, _). (n, e', s, t)) (m_health_obs M))
      = find (\<lambda>(n, e', _, _). n = j \<and> e' = e) (m_health_obs M)" if "(j, e) \<noteq> (i, ev)"
    using that by (intro find_update_first_other) auto
  have "find ?same (update_first ?same (\<lambda>(n, e', _, _). (n, e', s, t)) (m_health_obs M)) = Some (i, ev, s, t)"
    using find_update_first [of ?same "\<lambda>(n, e', _, _). (n, e', s, t)" "m_health_obs M"] Some row by auto
  then show ?thesis using Some row other
    by (simp add: health_row_of_def upsert_row_def upsert_health_observation_def Let_def)
qed

text \<open>What is stored for a pair after a list of observations: one with the latest time.\<close>

definition is_latest :: "health_row list \<Rightarrow> string \<Rightarrow> string \<Rightarrow> health_row option \<Rightarrow> bool" where
  "is_latest obs i ev row \<longleftrightarrow>
     (case row of
        None \<Rightarrow> \<forall>s t. (i, ev, s, t) \<notin> set obs
      | Some r \<Rightarrow> \<exists>s t. r = (i, ev, s, t) \<and> (i, ev, s, t) \<in> set obs
                    \<and> (\<forall>s' t'. (i, ev, s', t') \<in> set obs \<longrightarrow> t' \<le> t))"

lemma health_rows_latest:
  assumes "m_health_obs M = []"
  shows "is_latest obs i ev (health_row_of (fold upsert_row obs M) i ev)"
proof (induction obs rule: rev_induct)
  case Nil
  then show ?case using assms by (simp add: is_latest_def health_row_of_def)
next
  case (snoc x obs)
  obtain j e s t where x: "x = (j, e, s, t)" by (cases x)
  let ?M = "fold upsert_row obs M"
  show ?case
  proof (cases "(i, ev) = (j, e)")
    case False
    then have "health_row_of (upsert_row x ?M) i ev = health_row_of ?M i ev" by (auto simp: x health_row_of_upsert)
    with snoc.IH False show ?thesis by (auto simp: is_latest_def x split: option.splits)
  next
    case True
    show ?thesis
    proof (cases "health_row_of ?M j e")
      case None
      with snoc.IH True show ?thesis by (auto simp: x health_row_of_upsert is_latest_def)
    next
      case (Some row)
      obtain s0 t0 where "row = (j, e, s0, t0)" "(j, e, s0, t0) \<in> set obs"
        "\<forall>s' t'. (j, e, s', t') \<in> set obs \<longrightarrow> t' \<le> t0"
        using snoc.IH Some True by (auto simp: is_latest_def)
      with Some True show ?thesis by (fastforce simp: x health_row_of_upsert is_latest_def)
    qed
  qed
qed

lemma is_latest_unique:
  assumes "is_latest obs i ev row" "is_latest obs' i ev row'" "set obs = set obs'"
    and "\<forall>s s' t. (i, ev, s, t) \<in> set obs \<longrightarrow> (i, ev, s', t) \<in> set obs \<longrightarrow> s = s'"
  shows "row = row'"
proof (cases row)
  case None
  with assms show ?thesis by (auto simp: is_latest_def split: option.splits)
next
  case (Some r)
  obtain s t where r: "r = (i, ev, s, t)" "(i, ev, s, t) \<in> set obs" "\<forall>s' t'. (i, ev, s', t') \<in> set obs \<longrightarrow> t' \<le> t"
    using assms(1) Some by (auto simp: is_latest_def)
  then obtain s' t' where r': "row' = Some (i, ev, s', t')" "(i, ev, s', t') \<in> set obs"
    "\<forall>s t. (i, ev, s, t) \<in> set obs \<longrightarrow> t \<le> t'"
    using assms(2,3) by (auto simp: is_latest_def split: option.splits)
  have "t = t'" using r(2,3) r'(2,3) by (meson order_antisym)
  then show ?thesis using r r' Some assms(4) by auto
qed

text \<open>
  Health observations converge: as long as an evaluator never signs two scores for the same
  node and time, the stored row of every pair depends only on the set of observations
  received, not on their order or on repeated delivery, and it is the latest one.
\<close>

theorem health_observations_converge:
  assumes "m_health_obs M = []" and "set obs = set obs'"
    and "\<forall>i ev s s' t. (i, ev, s, t) \<in> set obs \<longrightarrow> (i, ev, s', t) \<in> set obs \<longrightarrow> s = s'"
  shows "health_row_of (fold upsert_row obs M) i ev = health_row_of (fold upsert_row obs' M) i ev
    \<and> is_latest obs i ev (health_row_of (fold upsert_row obs M) i ev)"
  using is_latest_unique [OF health_rows_latest [OF assms(1)] health_rows_latest [OF assms(1)] assms(2)]
    health_rows_latest [OF assms(1)] assms(3) by blast

theorem health_observations_converge_witness:
  "health_row_of (fold upsert_row [(''a'', ''e'', 1, 5), (''a'', ''e'', 0, 7)] (new_repo [])) ''a'' ''e''
     = health_row_of (fold upsert_row [(''a'', ''e'', 0, 7), (''a'', ''e'', 1, 5), (''a'', ''e'', 0, 7)] (new_repo [])) ''a'' ''e''
   \<and> is_latest [(''a'', ''e'', 1, 5), (''a'', ''e'', 0, 7)] ''a'' ''e''
       (health_row_of (fold upsert_row [(''a'', ''e'', 1, 5), (''a'', ''e'', 0, 7)] (new_repo [])) ''a'' ''e'')"
  by (rule health_observations_converge) (auto simp: new_repo_def)

section \<open>Statistics and listings\<close>

lemma hm_wf_bump_all: "hm_wf m \<Longrightarrow> hm_wf (bump_all ks m)"
  unfolding bump_all_def by (induction ks arbitrary: m) auto

lemma map_of_bump_all:
  "map_of (bump_all ks m) k =
     (if count_list ks k = 0 then map_of m k else Some (unwrap_or 0 (map_of m k) + of_nat (count_list ks k)))"
proof (induction ks arbitrary: m)
  case (Cons x ks)
  then show ?case
    by (cases "map_of m k") (auto simp: bump_all_def map_of_hm_bump algebra_simps)
qed (simp add: bump_all_def)

lemma fold_bump_all: "fold (\<lambda>r m. bump_all (f r) m) rs m = bump_all (concat (map f rs)) m"
  by (induction rs arbitrary: m) (simp_all add: bump_all_def)

lemma intent_counts_eq: "intent_counts M = bump_all (concat (map r_intents (available_records M))) []"
  by (simp add: intent_counts_def fold_bump_all)

lemma region_counts_eq: "region_counts M = bump_all (map (\<lambda>r. n_region (r_node r)) (available_records M)) []"
  by (simp add: region_counts_def bump_all_def fold_map o_def)

lemma sort_by_count_desc_iter:
  assumes "iteration_order iter" and "hm_wf m"
  shows "sort_by_count_desc (iter m) = sort_by_count_desc m"
proof -
  let ?key = "\<lambda>(k, v :: u32). (- uint v, k)"
  have m: "mset (iter m) = mset m" using assms(1) by (simp add: iteration_order_def)
  then have "set (iter m) = set m" by (metis set_mset_mset)
  moreover have "inj_on ?key (set m)"
    using assms(2) by (auto simp: hm_wf_def inj_on_def dest: eq_key_imp_eq_value)
  ultimately have "sort_key ?key (iter m) = sort_key ?key m"
    using m by (intro sort_key_inj_key_eq) auto
  then show ?thesis by (simp add: sort_by_count_desc_def)
qed

lemma sorted_sort_by_count_desc:
  assumes "hm_wf m"
  shows "sorted_wrt (\<lambda>a b. the (map_of m b) \<le> the (map_of m a)) (sort_by_count_desc m)
    \<and> set (sort_by_count_desc m) = dom (map_of m) \<and> distinct (sort_by_count_desc m)"
proof -
  let ?key = "\<lambda>(k, v :: u32). (- uint v, k)"
  let ?xs = "sort_key ?key m"
  have val: "(k, v) \<in> set m \<Longrightarrow> map_of m k = Some v" for k v
    using assms by (simp add: hm_wf_def)
  have "sorted_wrt (\<lambda>x y. ?key x \<le> ?key y) ?xs"
    using sorted_sort_key [of ?key m] by (simp only: sorted_map)
  then have "sorted_wrt (\<lambda>x y. the (map_of m (fst y)) \<le> the (map_of m (fst x))) ?xs"
    by (rule sorted_wrt_mono_rel [rotated]) (auto simp: val word_le_def)
  moreover have "distinct (map fst ?xs)"
  proof -
    have "mset (map fst ?xs) = mset (map fst m)" by (simp only: mset_map mset_sort)
    then have "distinct (map fst ?xs) \<longleftrightarrow> distinct (map fst m)" by (rule mset_eq_imp_distinct_iff)
    then show ?thesis using assms unfolding hm_wf_def by (rule iffD2)
  qed
  ultimately show ?thesis
    by (simp add: sort_by_count_desc_def sorted_wrt_map dom_map_of_conv_image_fst)
qed

text \<open>
  The registry statistics are exact and deterministic: the count of an intent is the number
  of times available nodes declare it (modulo \<open>2 ^ 32\<close>), an intent is listed exactly if some
  available node declares it, by descending count, and the answer does not depend on the
  iteration order of the hash maps.
\<close>

theorem registry_stats_exact:
  assumes "iteration_order iter"
  shows "let st = registry_stats iter M; declared = concat (map r_intents (available_records M))
    in (\<forall>k. map_of (s_intent_coverage st) k =
          (if k \<in> set declared then Some (of_nat (count_list declared k)) else None))
      \<and> set (s_intents_supported st) = set declared \<and> distinct (s_intents_supported st)
      \<and> sorted_wrt (\<lambda>a b. the (map_of (s_intent_coverage st) b) \<le> the (map_of (s_intent_coverage st) a))
          (s_intents_supported st)
      \<and> set (s_regions st) = set (map (\<lambda>r. n_region (r_node r)) (available_records M))
      \<and> st = registry_stats (\<lambda>m. m) M"
proof -
  let ?ks = "concat (map r_intents (available_records M))"
  let ?rs = "map (\<lambda>r. n_region (r_node r)) (available_records M)"
  have counts: "map_of (bump_all ks []) k = (if k \<in> set ks then Some (of_nat (count_list ks k)) else None)"
    for ks :: "string list" and k
    by (auto simp: map_of_bump_all count_list_0_iff)
  have wf: "hm_wf (bump_all ks [])" for ks :: "string list" by (simp add: hm_wf_bump_all)
  have doms: "dom (map_of (bump_all ks [])) = set ks" for ks :: "string list"
    by (auto simp: counts dom_def)
  note sorts = sorted_sort_by_count_desc [OF wf [of ?ks], unfolded doms]
  note sorts_r = sorted_sort_by_count_desc [OF wf [of ?rs], unfolded doms]
  note iters = sort_by_count_desc_iter [OF assms wf]
  show ?thesis
    using sorts sorts_r
    by (simp add: Let_def registry_stats_def intent_counts_eq region_counts_eq iters counts del: set_concat set_map)
qed

theorem registry_stats_exact_witness:
  "iteration_order rev
   \<and> map_of (s_intent_coverage (registry_stats rev (new_repo [(blank_record ''a'')\<lparr>r_intents := [''x'', ''y'']\<rparr>,
        (blank_record ''b'')\<lparr>r_intents := [''y'']\<rparr>]))) ''y'' = Some 2"
proof -
  let ?M = "new_repo [(blank_record ''a'')\<lparr>r_intents := [''x'', ''y'']\<rparr>, (blank_record ''b'')\<lparr>r_intents := [''y'']\<rparr>]"
  have i: "iteration_order (rev :: (string, u32) hashmap \<Rightarrow> _)" by (simp add: iteration_order_def)
  have d: "concat (map r_intents (available_records ?M)) = [''x'', ''y'', ''y'']"
    by (simp add: available_records_def new_repo_def blank_record_def blank_node_def)
  have "\<forall>k. map_of (s_intent_coverage (registry_stats rev ?M)) k
      = (if k \<in> set [''x'', ''y'', ''y''] then Some (of_nat (count_list [''x'', ''y'', ''y''] k)) else None)"
    using registry_stats_exact [OF i, of ?M] unfolding Let_def d by blast
  then show ?thesis by (simp add: iteration_order_def)
qed

lemma concat_pages: "concat (map (\<lambda>k. take n (drop (k * n) xs)) [0..<p]) = take (p * n) xs"
  by (induction p) (simp_all add: take_add [symmetric] add.commute)

text \<open>
  Paging through the public listing with a page size of 1 to 100 visits every available node
  exactly once, in storage order, and never shows an endpoint.
\<close>

theorem list_public_pages:
  assumes "1 \<le> psize" "psize \<le> 100" and "length (available_records M) \<le> pages * psize"
  shows "concat (map (\<lambda>k. list_public M (k * psize) psize) [0..<pages])
      = map (\<lambda>r. (r_node r)\<lparr>n_endpoint := []\<rparr>) (available_records M)"
proof -
  let ?f = "\<lambda>r. (r_node r)\<lparr>n_endpoint := []\<rparr>"
  have "map ?f (concat (map (\<lambda>k. take psize (drop (k * psize) (available_records M))) [0..<pages]))
      = map ?f (take (pages * psize) (available_records M))" by (simp only: concat_pages)
  then show ?thesis using assms by (simp add: list_public_def map_concat o_def min_absorb1)
qed

theorem list_public_pages_witness:
  "concat (map (\<lambda>k. list_public (new_repo [blank_record ''a'', blank_record ''b'', blank_record ''c'']) (k * 2) 2) [0..<2])
     = map (\<lambda>r. (r_node r)\<lparr>n_endpoint := []\<rparr>) (available_records (new_repo [blank_record ''a'', blank_record ''b'', blank_record ''c'']))"
  by (rule list_public_pages) (simp_all add: available_records_def new_repo_def blank_record_def blank_node_def)

end
