(* ===== verification/Event_Log.thy ===== *)
theory Event_Log
  imports Repo
begin

text \<open>
  The federation side of the repository of \<open>src/repo.rs\<close>: the registry of trusted replicas with
  its tokens and tombstones, and the signed, hash-chained event log that a seed directory
  emits.
\<close>

section \<open>Trusted replicas\<close>

definition upsert_replica ::
    "i64 \<Rightarrow> string \<Rightarrow> string \<Rightarrow> string \<Rightarrow> string \<Rightarrow> InMemoryRepo \<Rightarrow> InMemoryRepo" where
  "upsert_replica now rid did endpoint trust_tier M =
     (let same = (\<lambda>(_, d, _, _, _). d = did);
          rows = (case find same (m_replicas M) of
                    Some _ \<Rightarrow> update_first same (\<lambda>(_, _, _, _, orig_ts). (rid, did, endpoint, trust_tier, orig_ts)) (m_replicas M)
                  | None \<Rightarrow> m_replicas M @ [(rid, did, endpoint, trust_tier, now)])
      in M\<lparr>m_replicas := rows, m_decommissioned_replicas := removeAll rid (m_decommissioned_replicas M)\<rparr>)"

definition replica_known :: "InMemoryRepo \<Rightarrow> string \<Rightarrow> bool" where
  "replica_known M rid \<longleftrightarrow> (\<exists>row \<in> set (m_replicas M). fst row = rid)"

definition set_replica_token_hash :: "string \<Rightarrow> string \<Rightarrow> InMemoryRepo \<Rightarrow> bool \<times> InMemoryRepo" where
  "set_replica_token_hash rid token_hash M =
     (if \<not> replica_known M rid then (False, M)
      else (True, M\<lparr>m_replica_token_hashes := hm_insert rid token_hash (m_replica_token_hashes M)\<rparr>))"

definition replica_token_hash :: "InMemoryRepo \<Rightarrow> string \<Rightarrow> string option" where
  "replica_token_hash M rid = map_of (m_replica_token_hashes M) rid"

definition replica_is_active :: "InMemoryRepo \<Rightarrow> string \<Rightarrow> bool" where
  "replica_is_active M rid \<longleftrightarrow> replica_known M rid \<and> rid \<notin> set (m_decommissioned_replicas M)"

definition decommission_replica :: "string \<Rightarrow> InMemoryRepo \<Rightarrow> bool \<times> InMemoryRepo" where
  "decommission_replica rid M =
     (if \<not> replica_known M rid then (False, M)
      else (True, M\<lparr>m_replica_token_hashes := hm_remove rid (m_replica_token_hashes M),
                    m_decommissioned_replicas := List.insert rid (m_decommissioned_replicas M)\<rparr>))"

definition all_replicas :: "InMemoryRepo \<Rightarrow> replica_row list" where
  "all_replicas M = filter (\<lambda>row. fst row \<notin> set (m_decommissioned_replicas M)) (m_replicas M)"

definition replica_id_by_did :: "InMemoryRepo \<Rightarrow> string \<Rightarrow> string option" where
  "replica_id_by_did M did = map_option fst (find (\<lambda>row. fst (snd row) = did) (m_replicas M))"

section \<open>The signed event log\<close>

definition last_sig :: "EventRow list \<Rightarrow> string option" where
  "last_sig rows = (if rows = [] then None else e_sig (last rows))"

definition append_signed_event ::
    "crypto \<Rightarrow> string \<Rightarrow> i64 \<Rightarrow> string \<Rightarrow> string \<Rightarrow> string \<Rightarrow> json \<Rightarrow> InMemoryRepo \<Rightarrow> i64 option \<times> InMemoryRepo" where
  "append_signed_event C event_id ts_ms secret_key_hex event_type node_id payload M =
     (let seq = int (length (m_events M)) + 1;
          prev_hash = prev_hash_from C (last_sig (m_events M));
          sig = sign_event C secret_key_hex event_id event_type seq ts_ms payload prev_hash
      in (Some seq,
          M\<lparr>m_events := m_events M @
             [\<lparr>e_seq = seq, e_event_id = event_id, e_event_type = event_type, e_node_id = node_id,
               e_ts_ms = ts_ms, e_payload = payload, e_prev_hash = Some prev_hash, e_sig = sig\<rparr>]\<rparr>))"

definition decommission_replica_with_event ::
    "crypto \<Rightarrow> string \<Rightarrow> i64 \<Rightarrow> string \<Rightarrow> string \<Rightarrow> string \<Rightarrow> InMemoryRepo \<Rightarrow> bool \<times> InMemoryRepo" where
  "decommission_replica_with_event C event_id ts_ms rid did secret_key_hex M =
     (case decommission_replica rid M of
        (False, M1) \<Rightarrow> (False, M1)
      | (True, M1) \<Rightarrow>
          (let (seq, M2) = append_signed_event C event_id ts_ms secret_key_hex ''REPLICA_DEREGISTERED'' rid
                             (JObj [(''did'', JStr did)]) M1
           in (seq \<noteq> None, M2)))"

definition events_since :: "InMemoryRepo \<Rightarrow> i64 \<Rightarrow> u32 \<Rightarrow> EventRow list" where
  "events_since M since_seq limit = take (unat limit) (filter (\<lambda>e. e_seq e > since_seq) (m_events M))"

section \<open>Chained logs\<close>

text \<open>
  A row is authentic for a public key when it carries a signature over its own fields and
  the hash of the signature before it. A log is chained from a predecessor when its sequence
  numbers are consecutive and every row is authentic.
\<close>

definition event_row_message :: "crypto \<Rightarrow> EventRow \<Rightarrow> string \<Rightarrow> string" where
  "event_row_message C e prev_hash =
     event_message C (e_event_id e) (e_event_type e) (e_seq e) (e_ts_ms e) (e_payload e) prev_hash"

definition authentic :: "crypto \<Rightarrow> string \<Rightarrow> string option \<Rightarrow> EventRow \<Rightarrow> bool" where
  "authentic C pubkey_hex prev_sig e \<longleftrightarrow>
     e_prev_hash e = Some (prev_hash_from C prev_sig)
     \<and> (case e_sig e of
          None \<Rightarrow> False
        | Some sg \<Rightarrow> verify_event C pubkey_hex sg (event_row_message C e (prev_hash_from C prev_sig)))"

fun chained :: "crypto \<Rightarrow> string \<Rightarrow> i64 \<Rightarrow> string option \<Rightarrow> EventRow list \<Rightarrow> bool" where
  "chained C pk seq prev_sig [] \<longleftrightarrow> True"
| "chained C pk seq prev_sig (e # es) \<longleftrightarrow>
     e_seq e = seq + 1 \<and> authentic C pk prev_sig e \<and> chained C pk (seq + 1) (e_sig e) es"

lemma chained_append:
  "chained C pk seq prev (xs @ ys) \<longleftrightarrow>
     chained C pk seq prev xs
     \<and> chained C pk (seq + int (length xs)) (if xs = [] then prev else e_sig (last xs)) ys"
  by (induction xs arbitrary: seq prev) (auto simp: add.assoc)

lemma chained_seqs: "chained C pk seq prev xs \<Longrightarrow> map e_seq xs = map (\<lambda>k. seq + 1 + int k) [0..<length xs]"
proof (induction xs arbitrary: seq prev)
  case (Cons e es)
  then have "map e_seq es = map (\<lambda>k. seq + 1 + 1 + int k) [0..<length es]" by auto
  then show ?case using Cons.prems by (auto simp: upt_conv_Cons map_Suc_upt [symmetric] simp del: upt_Suc)
qed simp

lemma chained_seq_gt: "chained C pk seq prev xs \<Longrightarrow> x \<in> set xs \<Longrightarrow> seq < e_seq x"
  by (induction xs arbitrary: seq prev) (auto, fastforce)

lemma filter_seq_chained:
  assumes "chained C pk seq prev xs" and "0 \<le> k"
  shows "filter (\<lambda>e. e_seq e > seq + k) xs = drop (nat k) xs"
  using assms
proof (induction xs arbitrary: seq prev k)
  case (Cons e es)
  show ?case
  proof (cases "k = 0")
    case True
    then show ?thesis using chained_seq_gt [of C pk "seq + 1" "e_sig e" es] Cons.prems(1)
      by (fastforce simp: filter_id_conv)
  next
    case False
    then have "filter (\<lambda>x. e_seq x > (seq + 1) + (k - 1)) es = drop (nat (k - 1)) es"
      using Cons by (intro Cons.IH) auto
    then show ?thesis using Cons.prems False by (auto simp: nat_diff_distrib drop_Cons')
  qed
qed simp

lemma append_signed_event_chained:
  assumes "signatures_verify C" "signing_seed C sk = Some seed"
    and "chained C (hex_encode C (ed_public C seed)) 0 None (m_events M)"
  shows "chained C (hex_encode C (ed_public C seed)) 0 None
    (m_events (snd (append_signed_event C event_id ts sk typ nid p M)))"
proof -
  let ?seq = "int (length (m_events M)) + 1"
  let ?prev = "prev_hash_from C (last_sig (m_events M))"
  have "\<exists>sg. sign_event C sk event_id typ ?seq ts p ?prev = Some sg
      \<and> verify_event C (hex_encode C (ed_public C seed)) sg (event_message C event_id typ ?seq ts p ?prev)"
    using assms(1,2) by (simp add: sign_event_def verify_event_def signatures_verify_def)
  then show ?thesis using assms(3)
    by (auto simp: append_signed_event_def chained_append authentic_def event_row_message_def Let_def last_sig_def
        split: if_splits)
qed

section \<open>Properties of the log\<close>

text \<open>An append as the seed makes it: a fresh event id, the time, the type, the node and the payload.\<close>

type_synonym append_input = "string \<times> i64 \<times> string \<times> string \<times> json"

definition append_event :: "crypto \<Rightarrow> string \<Rightarrow> append_input \<Rightarrow> InMemoryRepo \<Rightarrow> InMemoryRepo" where
  "append_event C sk a M =
     (case a of (event_id, ts, typ, nid, p) \<Rightarrow> snd (append_signed_event C event_id ts sk typ nid p M))"

lemma append_event_length: "length (m_events (append_event C sk a M)) = length (m_events M) + 1"
  by (simp add: append_event_def append_signed_event_def Let_def split: prod.split)

lemma fold_append_event_length:
  "length (m_events (fold (append_event C sk) as M)) = length (m_events M) + length as"
  by (induction as arbitrary: M) (simp_all add: append_event_length)

lemma fold_append_event_chained:
  assumes "signatures_verify C" "signing_seed C sk = Some seed"
    and "chained C (hex_encode C (ed_public C seed)) 0 None (m_events M)"
  shows "chained C (hex_encode C (ed_public C seed)) 0 None (m_events (fold (append_event C sk) as M))"
  using assms(3)
proof (induction as arbitrary: M)
  case (Cons a as)
  have "chained C (hex_encode C (ed_public C seed)) 0 None (m_events (append_event C sk a M))"
    using append_signed_event_chained [OF assms(1,2) Cons.prems] by (simp add: append_event_def split: prod.split)
  then show ?case by (simp add: Cons.IH)
qed simp

text \<open>
  A seed's log is always a signed hash chain: starting from an empty log, after any sequence of
  appends the rows carry the sequence numbers 1, 2, 3, ..., every row names the hash of the
  signature before it (the genesis root for the first), and every signature verifies under
  the seed's public key.
\<close>

theorem seed_log_chained:
  assumes "signatures_verify C" and "signing_seed C sk = Some seed" and "m_events M = []"
  shows "chained C (hex_encode C (ed_public C seed)) 0 None (m_events (fold (append_event C sk) as M))
    \<and> map e_seq (m_events (fold (append_event C sk) as M)) = map (\<lambda>k. int k + 1) [0..<length as]"
proof -
  have c: "chained C (hex_encode C (ed_public C seed)) 0 None (m_events (fold (append_event C sk) as M))"
    using assms by (intro fold_append_event_chained) simp_all
  show ?thesis using c chained_seqs [OF c] assms(3)
    by (simp add: fold_append_event_length add.commute)
qed

definition sample_appends :: "append_input list" where
  "sample_appends = [(''e1'', 10, ''REGISTER'', ''a'', JObj []), (''e2'', 20, ''DEREGISTER'', ''a'', JObj [])]"

theorem seed_log_chained_witness:
  "chained demo_crypto (hex_encode demo_crypto (ed_public demo_crypto (replicate 32 CHR ''s''))) 0 None
     (m_events (fold (append_event demo_crypto demo_secret) sample_appends (new_repo [])))
   \<and> map e_seq (m_events (fold (append_event demo_crypto demo_secret) sample_appends (new_repo []))) = [1, 2]"
  using seed_log_chained [OF signatures_verify_demo demo_seed, of "new_repo []" sample_appends]
  by (simp add: new_repo_def sample_appends_def)

text \<open>
  Tailing the log neither skips nor repeats an event: on a chained log \<open>events_since\<close> with
  cursor \<open>k\<close> returns exactly the next \<open>limit\<close> rows after the first \<open>k\<close>, so fetching page after page,
  each from the last sequence number seen, yields the whole log in order.
\<close>

theorem events_since_pages:
  assumes "chained C pk 0 None (m_events M)"
  shows "events_since M (int k) limit = take (unat limit) (drop k (m_events M))
    \<and> (length (m_events M) \<le> pages * unat limit \<longrightarrow>
         concat (map (\<lambda>j. events_since M (int (j * unat limit)) limit) [0..<pages]) = m_events M)"
proof -
  have es: "events_since M (int k) limit = take (unat limit) (drop k (m_events M))" for k
    using filter_seq_chained [OF assms, of "int k"] by (simp add: events_since_def)
  show ?thesis using concat_pages [of "unat limit" "m_events M" pages] by (simp add: es del: of_nat_mult)
qed

theorem events_since_pages_witness:
  "let M = fold (append_event demo_crypto demo_secret) sample_appends (new_repo [])
   in chained demo_crypto (hex_encode demo_crypto (ed_public demo_crypto (replicate 32 CHR ''s''))) 0 None (m_events M)
      \<and> events_since M 1 1 = take 1 (drop 1 (m_events M))
      \<and> concat (map (\<lambda>j. events_since M (int (j * unat (1 :: u32))) 1) [0..<2]) = m_events M"
proof -
  let ?M = "fold (append_event demo_crypto demo_secret) sample_appends (new_repo [])"
  have c: "chained demo_crypto (hex_encode demo_crypto (ed_public demo_crypto (replicate 32 CHR ''s''))) 0 None (m_events ?M)"
    by (rule fold_append_event_chained [OF signatures_verify_demo demo_seed]) (simp add: new_repo_def)
  have "length (m_events ?M) \<le> 2 * unat (1 :: u32)"
    by (simp add: append_event_length sample_appends_def new_repo_def)
  then show ?thesis
    using c events_since_pages [OF c, of 1 1 2] unfolding Let_def by simp
qed

section \<open>Properties of the replica registry\<close>

definition dids_distinct :: "InMemoryRepo \<Rightarrow> bool" where
  "dids_distinct M \<longleftrightarrow> distinct (map (\<lambda>row. fst (snd row)) (m_replicas M))"

lemma dids_distinct_upsert: "dids_distinct M \<Longrightarrow> dids_distinct (upsert_replica now rid did ep tier M)"
proof -
  assume d: "dids_distinct M"
  let ?same = "\<lambda>(_, d, _, _, _). d = did"
  show ?thesis
  proof (cases "find ?same (m_replicas M)")
    case None
    then have "did \<notin> (\<lambda>row. fst (snd row)) ` set (m_replicas M)" by (auto simp: find_None_set)
    then show ?thesis using d None by (simp add: dids_distinct_def upsert_replica_def Let_def)
  next
    case (Some row)
    have "map (\<lambda>row. fst (snd row)) (update_first ?same (\<lambda>(_, _, _, _, ts). (rid, did, ep, tier, ts)) (m_replicas M))
        = map (\<lambda>row. fst (snd row)) (m_replicas M)"
      by (rule map_update_first) auto
    then show ?thesis using d Some by (simp add: dids_distinct_def upsert_replica_def Let_def)
  qed
qed

lemma upsert_row:
  "find (\<lambda>row. fst (snd row) = did) (m_replicas (upsert_replica t rid did ep tier M))
     = Some (rid, did, ep, tier,
         case find (\<lambda>row. fst (snd row) = did) (m_replicas M) of Some (_, _, _, _, ts) \<Rightarrow> ts | None \<Rightarrow> t)"
proof -
  have eq: "(\<lambda>(_, d, _, _, _). d = did) = (\<lambda>row :: replica_row. fst (snd row) = did)" by auto
  show ?thesis
    by (simp add: upsert_replica_def Let_def eq find_append find_update_first case_prod_beta split: option.split)
qed

lemma upsert_known: "replica_known (upsert_replica t rid did ep tier M) rid"
  using find_Some_set [OF upsert_row [of did t rid ep tier M]] by (force simp: replica_known_def)

lemma upsert_active: "rid \<notin> set (m_decommissioned_replicas (upsert_replica t rid did ep tier M))"
  by (simp add: upsert_replica_def Let_def)

lemma upsert_tokens: "m_replica_token_hashes (upsert_replica t rid did ep tier M) = m_replica_token_hashes M"
  by (simp add: upsert_replica_def Let_def)

text \<open>
  The life of a replica: registering makes it active under the given id, keeps at most one row per
  DID and the time of the first registration; decommissioning revokes its token and takes it
  out of the published list while its DID still resolves to the same id; registering again
  under that id makes it active again without bringing the old token back.
\<close>

theorem replica_lifecycle:
  assumes "dids_distinct M"
  shows "let M1 = upsert_replica now rid did ep tier M;
             M2 = snd (decommission_replica rid M1);
             M3 = upsert_replica later rid did ep' tier' M2
    in dids_distinct M1 \<and> replica_is_active M1 rid \<and> replica_id_by_did M1 did = Some rid
      \<and> fst (decommission_replica rid M1)
      \<and> \<not> replica_is_active M2 rid \<and> replica_token_hash M2 rid = None \<and> rid \<notin> fst ` set (all_replicas M2)
      \<and> replica_id_by_did M2 did = Some rid
      \<and> replica_is_active M3 rid \<and> replica_token_hash M3 rid = None
      \<and> map_option (\<lambda>(_, _, _, _, ts). ts) (find (\<lambda>row. fst (snd row) = did) (m_replicas M3))
          = Some (case find (\<lambda>row. fst (snd row) = did) (m_replicas M) of Some (_, _, _, _, ts) \<Rightarrow> ts | None \<Rightarrow> now)"
proof -
  show ?thesis
    using dids_distinct_upsert [OF assms]
    by (simp add: Let_def replica_is_active_def replica_id_by_did_def decommission_replica_def replica_token_hash_def
        all_replicas_def upsert_known upsert_active upsert_row upsert_tokens) (auto simp: replica_known_def)
qed

theorem replica_lifecycle_witness:
  "let M1 = upsert_replica 5 ''r1'' ''did:x'' ''https://r'' ''trusted'' (new_repo []);
       M2 = snd (decommission_replica ''r1'' M1)
   in replica_is_active M1 ''r1'' \<and> \<not> replica_is_active M2 ''r1''"
proof -
  have "dids_distinct (new_repo [])" by (simp add: dids_distinct_def new_repo_def)
  from replica_lifecycle [OF this, of 5 "''r1''" "''did:x''" "''https://r''" "''trusted''"]
  show ?thesis by (simp add: Let_def)
qed

end
