(* ===== verification/Operators.thy ===== *)
theory Operators
  imports Repo
begin

text \<open>
  Operator identities: the operator table of \<open>InMemoryRepo\<close> in \<open>src/repo.rs\<close> with its life cycle
  (creation, renaming, rotation, revocation, governance acceptance, data-subject actions,
  founder recognition) and the display-name rules of \<open>src/operator.rs\<close>. Time stamps and the
  text of the current time are arguments.
\<close>

section \<open>Display names\<close>

text \<open>
  The characters of a string, each as its UTF-8 bytes: a character starts at every byte
  that is not a continuation byte.
\<close>

definition utf8_continuation :: "char \<Rightarrow> bool" where
  "utf8_continuation c \<longleftrightarrow> 128 \<le> code c \<and> code c < 192"

function utf8_chars :: "string \<Rightarrow> string list" where
  "utf8_chars [] = []"
| "utf8_chars (c # s) = (c # takeWhile utf8_continuation s) # utf8_chars (dropWhile utf8_continuation s)"
  by pat_completeness auto
termination by (relation "measure length") (auto simp: le_imp_less_Suc length_dropWhile_le)

text \<open>
  \<open>char::to_lowercase\<close>: ASCII letters are folded here; \<open>lower\<close> is the case table of the standard
  library for the other characters.
\<close>

definition char_to_lowercase :: "(string \<Rightarrow> string) \<Rightarrow> string \<Rightarrow> string" where
  "char_to_lowercase lower ch =
     (case ch of [c] \<Rightarrow> if code c < 128 then [ascii_lower c] else lower ch | _ \<Rightarrow> lower ch)"

fun fold_name :: "(string \<Rightarrow> string) \<Rightarrow> bool \<Rightarrow> string list \<Rightarrow> string" where
  "fold_name lower last_was_space [] = []"
| "fold_name lower last_was_space (ch # chs) =
     (if ch \<in> set white_space
      then (if last_was_space then [] else '' '') @ fold_name lower True chs
      else char_to_lowercase lower ch @ fold_name lower False chs)"

definition normalize_operator_display_name :: "(string \<Rightarrow> string) \<Rightarrow> string \<Rightarrow> string option" where
  "normalize_operator_display_name lower display_name =
     (let folded = fold_name lower False (utf8_chars (trim display_name))
      in if folded = [] then None else Some folded)"

definition public_operator_fingerprint :: "crypto \<Rightarrow> string \<Rightarrow> string" where
  "public_operator_fingerprint C operator_pubkey = take 12 (sha256_hex C operator_pubkey)"

section \<open>The operator table\<close>

definition default_operator_row :: OperatorRow where
  "default_operator_row =
     \<lparr>o_display_name = None, o_attested_created_at = None, o_integrity_hash = None, o_first_seen_ms = 0,
      o_ordinal = None, o_tier = None, o_badge = None, o_identity_status = [], o_rotation_epoch = None,
      o_terms_version = None, o_terms_accepted_at = None, o_dpa_version = None, o_dpa_accepted_at = None,
      o_acceptance_method = None, o_acceptance_nonce_sha256 = None\<rparr>"

abbreviation operator_row :: "InMemoryRepo \<Rightarrow> string \<Rightarrow> OperatorRow option" where
  "operator_row M pk \<equiv> map_of (m_operators M) pk"

definition put_operator :: "string \<Rightarrow> OperatorRow \<Rightarrow> InMemoryRepo \<Rightarrow> InMemoryRepo" where
  "put_operator pk row M = M\<lparr>m_operators := hm_insert pk row (m_operators M)\<rparr>"

definition upsert_operator ::
    "i64 \<Rightarrow> string \<Rightarrow> string option \<Rightarrow> string option \<Rightarrow> string option \<Rightarrow> InMemoryRepo \<Rightarrow> InMemoryRepo" where
  "upsert_operator now pk display_name attested_created_at integrity_hash M =
     (case operator_row M pk of
        Some row \<Rightarrow>
          (if display_name \<noteq> None then put_operator pk (row\<lparr>o_display_name := display_name\<rparr>) M else M)
      | None \<Rightarrow>
          put_operator pk
            (default_operator_row\<lparr>o_display_name := display_name, o_attested_created_at := attested_created_at,
               o_integrity_hash := integrity_hash, o_first_seen_ms := now, o_identity_status := ''active''\<rparr>) M)"

definition operator_display_name :: "InMemoryRepo \<Rightarrow> string \<Rightarrow> string option" where
  "operator_display_name M pk = Option.bind (operator_row M pk) o_display_name"

definition operator_display_name_claimed_by_other ::
    "(string \<Rightarrow> string) \<Rightarrow> InMemoryRepo \<Rightarrow> string \<Rightarrow> string \<Rightarrow> bool" where
  "operator_display_name_claimed_by_other lower M pk normalized \<longleftrightarrow>
     list_ex (\<lambda>(k, row). k \<noteq> pk \<and> o_identity_status row = ''active''
        \<and> Option.bind (o_display_name row) (normalize_operator_display_name lower) = Some normalized)
       (m_operators M)"

definition rename_operator :: "string \<Rightarrow> string \<Rightarrow> InMemoryRepo \<Rightarrow> bool \<times> InMemoryRepo" where
  "rename_operator pk display_name M =
     (case operator_row M pk of
        Some row \<Rightarrow>
          if o_identity_status row = ''active''
          then (True, put_operator pk (row\<lparr>o_display_name := Some display_name\<rparr>) M) else (False, M)
      | None \<Rightarrow> (False, M))"

definition operator_identity_active :: "InMemoryRepo \<Rightarrow> string \<Rightarrow> bool option" where
  "operator_identity_active M pk = map_option (\<lambda>row. o_identity_status row = ''active'') (operator_row M pk)"

section \<open>Rotation and revocation\<close>

datatype OperatorLifecycleError =
  LifecycleUnknown | LifecycleInactive | LifecycleSuccessorExists | LifecycleInvalid | LifecycleStorage

record OperatorLifecycleResult =
  lr_linked_nodes :: u32
  lr_rotation_epoch :: "u32 option"
  lr_revoked_at_unix :: "i64 option"

text \<open>
  The loop over the records: every record bound to the key is rewritten and counted, the
  counter saturates.
\<close>

abbreviation bound_to :: "string \<Rightarrow> NodeRecord \<Rightarrow> bool" where
  "bound_to pk r \<equiv> n_operator_pubkey (r_node r) = Some pk"

definition map_bound :: "string \<Rightarrow> (Node \<Rightarrow> Node) \<Rightarrow> NodeRecord list \<Rightarrow> NodeRecord list" where
  "map_bound pk f rs = map (\<lambda>r. if bound_to pk r then update_node f r else r) rs"

definition count_bound :: "string \<Rightarrow> NodeRecord list \<Rightarrow> u32" where
  "count_bound pk rs = fold (\<lambda>r n. if bound_to pk r then saturating_add n 1 else n) rs 0"

definition rotate_operator_identity ::
    "string \<Rightarrow> string \<Rightarrow> u32 option \<Rightarrow> InMemoryRepo
       \<Rightarrow> (OperatorLifecycleError + OperatorLifecycleResult) \<times> InMemoryRepo" where
  "rotate_operator_identity old_pk new_pk requested_epoch M =
     (if old_pk = new_pk then (Inl LifecycleInvalid, M)
      else case operator_row M old_pk of
        None \<Rightarrow> (Inl LifecycleUnknown, M)
      | Some old \<Rightarrow>
          if o_identity_status old \<noteq> ''active'' then (Inl LifecycleInactive, M)
          else if operator_row M new_pk \<noteq> None then (Inl LifecycleSuccessorExists, M)
          else
            (let epoch = max (saturating_add (unwrap_or 0 (o_rotation_epoch old)) 1) (unwrap_or 0 requested_epoch);
                 successor = old\<lparr>o_identity_status := ''active'', o_rotation_epoch := None\<rparr>;
                 M1 = put_operator new_pk successor M;
                 M2 = put_operator old_pk (old\<lparr>o_identity_status := ''rotated'', o_rotation_epoch := Some epoch\<rparr>) M1
             in (Inr \<lparr>lr_linked_nodes = count_bound old_pk (m_records M), lr_rotation_epoch = Some epoch,
                      lr_revoked_at_unix = None\<rparr>,
                 M2\<lparr>m_records := map_bound old_pk
                      (\<lambda>n. n\<lparr>n_operator_pubkey := Some new_pk, n_operator_verified := True,
                             n_policy_manifest := None\<rparr>) (m_records M)\<rparr>)))"

definition revoke_operator_identity ::
    "i64 \<Rightarrow> string \<Rightarrow> InMemoryRepo \<Rightarrow> (OperatorLifecycleError + OperatorLifecycleResult) \<times> InMemoryRepo" where
  "revoke_operator_identity now pk M =
     (case operator_row M pk of
        None \<Rightarrow> (Inl LifecycleUnknown, M)
      | Some row \<Rightarrow>
          if o_identity_status row \<noteq> ''active'' then (Inl LifecycleInactive, M)
          else
            (Inr \<lparr>lr_linked_nodes = count_bound pk (m_records M), lr_rotation_epoch = None,
                  lr_revoked_at_unix = Some (now div 1000)\<rparr>,
             (put_operator pk (row\<lparr>o_identity_status := ''revoked''\<rparr>) M)
               \<lparr>m_records := map_bound pk
                  (\<lambda>n. n\<lparr>n_operator_verified := False, n_operator_trust_tier := None, n_policy_manifest := None\<rparr>)
                  (m_records M)\<rparr>))"

section \<open>Governance acceptance and data-subject actions\<close>

datatype OperatorSelfServiceError = SelfUnknown | SelfInactive | SelfDuplicateTrackingId | SelfStorage

definition accept_operator_governance ::
    "string \<Rightarrow> string \<Rightarrow> string \<Rightarrow> string \<Rightarrow> string \<Rightarrow> InMemoryRepo
       \<Rightarrow> (OperatorSelfServiceError + string) \<times> InMemoryRepo" where
  "accept_operator_governance accepted_at pk terms_version dpa_version nonce_sha256 M =
     (case operator_row M pk of
        None \<Rightarrow> (Inl SelfUnknown, M)
      | Some row \<Rightarrow>
          if o_identity_status row \<noteq> ''active'' then (Inl SelfInactive, M)
          else (Inr accepted_at,
                put_operator pk
                  (row\<lparr>o_terms_version := Some terms_version, o_terms_accepted_at := Some accepted_at,
                       o_dpa_version := Some dpa_version, o_dpa_accepted_at := Some accepted_at,
                       o_acceptance_method := Some ''operator_key_challenge'',
                       o_acceptance_nonce_sha256 := Some nonce_sha256\<rparr>) M))"

record InMemoryDsrSubject =
  ds_row :: OperatorRow
  ds_node_ids :: "string list"
  ds_fingerprint :: string
  ds_pubkey_sha256 :: string
  ds_selector :: json
  ds_subject_hash :: string

definition in_memory_dsr_subject ::
    "crypto \<Rightarrow> InMemoryRepo \<Rightarrow> string \<Rightarrow> OperatorSelfServiceError + InMemoryDsrSubject" where
  "in_memory_dsr_subject C M pk =
     (case operator_row M pk of
        None \<Rightarrow> Inl SelfUnknown
      | Some row \<Rightarrow>
          if o_identity_status row \<noteq> ''active'' then Inl SelfInactive
          else
            (let fingerprint = public_operator_fingerprint C pk;
                 pubkey_sha256 = sha256_hex C pk;
                 selector = JObj [(''operator_pubkey'',
                   JObj [(''sha256'', JStr pubkey_sha256), (''fingerprint'', JStr fingerprint)])]
             in Inr \<lparr>ds_row = row, ds_node_ids = map record_id (filter (bound_to pk) (m_records M)),
                     ds_fingerprint = fingerprint, ds_pubkey_sha256 = pubkey_sha256, ds_selector = selector,
                     ds_subject_hash = sha256_hex C (json_text C selector)\<rparr>))"

definition DSR_RETENTION_REASON :: string where
  "DSR_RETENTION_REASON = ''Minimal ledger/security/accounting records retained; public/operator-identifying fields removed or restricted where possible.''"

definition json_opt_str :: "string option \<Rightarrow> json" where
  "json_opt_str s = (case s of None \<Rightarrow> JNull | Some t \<Rightarrow> JStr t)"

definition in_memory_dsr_export :: "string \<Rightarrow> InMemoryDsrSubject \<Rightarrow> string \<Rightarrow> json" where
  "in_memory_dsr_export now S tracking_id =
     JObj [(''schema'', JStr ''iicp.dsr.export.v1''), (''generated_at'', JStr now),
           (''tracking_id'', JStr tracking_id), (''selector'', ds_selector S),
           (''subject_hash'', JStr (ds_subject_hash S)), (''retention_notice'', JStr DSR_RETENTION_REASON),
           (''records'', JObj [
              (''operators'', JArr [JObj [
                 (''operator_fingerprint'', JStr (ds_fingerprint S)),
                 (''operator_pubkey_sha256'', JStr (ds_pubkey_sha256 S)),
                 (''display_name'', json_opt_str (o_display_name (ds_row S))),
                 (''terms_version'', json_opt_str (o_terms_version (ds_row S))),
                 (''dpa_version'', json_opt_str (o_dpa_version (ds_row S))),
                 (''acceptance_method'', json_opt_str (o_acceptance_method (ds_row S)))]]),
              (''nodes'', JArr (map (\<lambda>i. JObj [(''id'', JStr i)]) (ds_node_ids S))),
              (''capabilities'', JArr []), (''credits'', JArr []), (''credit_transactions'', JArr []),
              (''reputations'', JArr []), (''node_address_history'', JArr []), (''telemetry_probes'', JArr []),
              (''proxy_telemetry'', JArr []), (''node_events'', JArr []), (''data_subject_actions'', JArr [])])]"

definition clear_in_memory_operator_subject ::
    "string \<Rightarrow> InMemoryRepo \<Rightarrow> (OperatorSelfServiceError + unit) \<times> InMemoryRepo" where
  "clear_in_memory_operator_subject pk M =
     (case operator_row M pk of
        None \<Rightarrow> (Inl SelfUnknown, M)
      | Some row \<Rightarrow>
          (Inr (), put_operator pk
             (row\<lparr>o_display_name := None, o_attested_created_at := None, o_integrity_hash := None,
                  o_tier := None, o_badge := None, o_terms_version := None, o_terms_accepted_at := None,
                  o_dpa_version := None, o_dpa_accepted_at := None, o_acceptance_method := None,
                  o_acceptance_nonce_sha256 := None\<rparr>) M))"

definition clear_in_memory_node_subjects :: "string \<Rightarrow> string \<Rightarrow> InMemoryRepo \<Rightarrow> InMemoryRepo" where
  "clear_in_memory_node_subjects pk action M =
     M\<lparr>m_records := map_bound pk
        (\<lambda>n. let n1 = n\<lparr>n_available := False, n_public_listing := False, n_operator_url := None\<rparr>
             in if action = ''anonymize''
                then n1\<lparr>n_operator_pubkey := None, n_operator_verified := False, n_operator_trust_tier := None\<rparr>
                else n1) (m_records M)\<rparr>"

definition anonymize_in_memory_operator :: "crypto \<Rightarrow> string \<Rightarrow> string \<Rightarrow> InMemoryRepo \<Rightarrow> InMemoryRepo" where
  "anonymize_in_memory_operator C pk tracking_id M =
     (case operator_row M pk of
        None \<Rightarrow> M
      | Some row \<Rightarrow>
          (let anonymized = ''dsr_'' @ take 60 (sha256_hex C (''operator:'' @ tracking_id @ '':'' @ pk))
           in put_operator anonymized (row\<lparr>o_identity_status := ''restricted''\<rparr>)
                (M\<lparr>m_operators := hm_remove pk (m_operators M)\<rparr>)))"

definition apply_in_memory_dsr ::
    "crypto \<Rightarrow> string \<Rightarrow> string \<Rightarrow> string \<Rightarrow> InMemoryDsrSubject \<Rightarrow> InMemoryRepo
       \<Rightarrow> (OperatorSelfServiceError + json) \<times> InMemoryRepo" where
  "apply_in_memory_dsr C pk action tracking_id S M =
     (case clear_in_memory_operator_subject pk M of
        (Inl e, M1) \<Rightarrow> (Inl e, M1)
      | (Inr _, M1) \<Rightarrow>
          (let M2 = clear_in_memory_node_subjects pk action M1;
               M3 = (if action = ''anonymize'' then anonymize_in_memory_operator C pk tracking_id M2 else M2)
           in (Inr (JObj
                [(''action'', JStr action), (''dry_run'', JBool False), (''tracking_id'', JStr tracking_id),
                 (''selector'', ds_selector S), (''subject_hash'', JStr (ds_subject_hash S)),
                 (''affected_counts'', JObj
                    [(''nodes'', JInt (int (length (ds_node_ids S)))), (''operators'', JInt 1), (''credits'', JInt 0),
                     (''credit_transactions'', JInt 0), (''node_events_retained'', JInt 0),
                     (''node_address_history'', JInt 0), (''telemetry_probes'', JInt 0), (''proxy_telemetry'', JInt 0)]),
                 (''retention_reason'', JStr DSR_RETENTION_REASON)]), M3)))"

definition operator_dsr ::
    "crypto \<Rightarrow> string \<Rightarrow> string \<Rightarrow> string \<Rightarrow> string \<Rightarrow> InMemoryRepo
       \<Rightarrow> (OperatorSelfServiceError + json) \<times> InMemoryRepo" where
  "operator_dsr C now pk action tracking_id M =
     (case in_memory_dsr_subject C M pk of
        Inl e \<Rightarrow> (Inl e, M)
      | Inr S \<Rightarrow>
          if action = ''export'' then (Inr (in_memory_dsr_export now S tracking_id), M)
          else apply_in_memory_dsr C pk action tracking_id S M)"

section \<open>Recognition\<close>

definition set_operator_recognition ::
    "string \<Rightarrow> i64 \<Rightarrow> string option \<Rightarrow> string option \<Rightarrow> InMemoryRepo \<Rightarrow> InMemoryRepo" where
  "set_operator_recognition pk ordinal tier badge M =
     (case operator_row M pk of
        Some row \<Rightarrow> put_operator pk (row\<lparr>o_ordinal := Some ordinal, o_tier := tier, o_badge := badge\<rparr>) M
      | None \<Rightarrow> M)"

record FounderEntry =
  f_display_name :: "string option"
  f_ordinal :: i64
  f_tier :: "string option"
  f_badge :: "string option"

definition list_founders ::
    "((string, OperatorRow) hashmap \<Rightarrow> (string, OperatorRow) hashmap) \<Rightarrow> u32 \<Rightarrow> InMemoryRepo \<Rightarrow> FounderEntry list" where
  "list_founders iter limit M =
     take (unat limit) (sort_key f_ordinal
       (filter_map (\<lambda>(_, r). map_option (\<lambda>ord. \<lparr>f_display_name = o_display_name r, f_ordinal = ord,
                                                f_tier = o_tier r, f_badge = o_badge r\<rparr>) (o_ordinal r))
          (iter (m_operators M))))"

definition served_operators :: "InMemoryRepo \<Rightarrow> string list" where
  "served_operators M =
     filter_map (\<lambda>r. n_operator_pubkey (r_node r))
       (filter (\<lambda>r. n_available (r_node r) \<and> n_operator_verified (r_node r)) (m_records M))"

definition list_pending_founders ::
    "((string, OperatorRow) hashmap \<Rightarrow> (string, OperatorRow) hashmap) \<Rightarrow> u32 \<Rightarrow> InMemoryRepo
       \<Rightarrow> (string option \<times> i64) list" where
  "list_pending_founders iter limit M =
     take (unat limit) (sort_key snd
       (map (\<lambda>(_, r). (o_display_name r, o_first_seen_ms r))
          (filter (\<lambda>(pk, r). o_ordinal r = None \<and> pk \<in> set (served_operators M)) (iter (m_operators M)))))"

section \<open>The life cycle as a state machine\<close>

text \<open>Every operation that writes the operator table, with arbitrary arguments.\<close>

inductive operator_step :: "crypto \<Rightarrow> InMemoryRepo \<Rightarrow> InMemoryRepo \<Rightarrow> bool" for C where
  upsert: "operator_step C M (upsert_operator now pk name created ihash M)"
| rename: "operator_step C M (snd (rename_operator pk name M))"
| rotate: "operator_step C M (snd (rotate_operator_identity old_pk new_pk epoch M))"
| revoke: "operator_step C M (snd (revoke_operator_identity now pk M))"
| accept: "operator_step C M (snd (accept_operator_governance at_text pk terms dpa nonce M))"
| dsr: "operator_step C M (snd (operator_dsr C at_text pk action tracking M))"
| recognise: "operator_step C M (set_operator_recognition pk ordinal tier badge M)"

definition inactive :: "InMemoryRepo \<Rightarrow> string \<Rightarrow> bool" where
  "inactive M pk \<longleftrightarrow> operator_identity_active M pk = Some False"

lemma inactive_row: "inactive M pk \<longleftrightarrow> (\<exists>row. operator_row M pk = Some row \<and> o_identity_status row \<noteq> ''active'')"
  by (auto simp: inactive_def operator_identity_active_def)

lemma operator_row_put [simp]:
  "operator_row (put_operator pk row M) k = (if k = pk then Some row else operator_row M k)"
  by (simp add: put_operator_def)

lemma m_records_put [simp]: "m_records (put_operator pk row M) = m_records M"
  by (simp add: put_operator_def)

lemma operator_row_records [simp]: "operator_row (M\<lparr>m_records := rs\<rparr>) k = operator_row M k"
  by simp

lemma inactive_put: "inactive M k \<Longrightarrow> pk = k \<Longrightarrow> o_identity_status row \<noteq> ''active'' \<Longrightarrow> inactive (put_operator pk row M) k"
  by (auto simp: inactive_row)

lemma inactive_upsert: "inactive M k \<Longrightarrow> inactive (upsert_operator now pk name created ihash M) k"
  by (auto simp: upsert_operator_def inactive_row split: option.splits)

lemma inactive_rename: "inactive M k \<Longrightarrow> inactive (snd (rename_operator pk name M)) k"
  by (auto simp: rename_operator_def inactive_row split: option.splits)

lemma inactive_rotate: "inactive M k \<Longrightarrow> inactive (snd (rotate_operator_identity old_pk new_pk epoch M)) k"
  by (auto simp: rotate_operator_identity_def inactive_row Let_def split: option.splits)

lemma inactive_revoke: "inactive M k \<Longrightarrow> inactive (snd (revoke_operator_identity now pk M)) k"
  by (auto simp: revoke_operator_identity_def inactive_row split: option.splits)

lemma inactive_accept: "inactive M k \<Longrightarrow> inactive (snd (accept_operator_governance t pk terms dpa nonce M)) k"
  by (auto simp: accept_operator_governance_def inactive_row split: option.splits)

lemma inactive_recognise: "inactive M k \<Longrightarrow> inactive (set_operator_recognition pk ordinal tier badge M) k"
  by (auto simp: set_operator_recognition_def inactive_row split: option.splits)

lemma inactive_anonymize:
  "inactive M k \<Longrightarrow> k \<noteq> pk \<Longrightarrow> inactive (anonymize_in_memory_operator C pk tracking M) k"
  by (auto simp: anonymize_in_memory_operator_def inactive_row Let_def split: option.splits)

lemma dsr_state:
  "snd (operator_dsr C now pk action tracking M) =
     (case operator_row M pk of
        None \<Rightarrow> M
      | Some row \<Rightarrow>
          if o_identity_status row \<noteq> ''active'' \<or> action = ''export'' then M
          else (let M2 = clear_in_memory_node_subjects pk action (snd (clear_in_memory_operator_subject pk M))
                in if action = ''anonymize'' then anonymize_in_memory_operator C pk tracking M2 else M2))"
  by (simp add: operator_dsr_def in_memory_dsr_subject_def apply_in_memory_dsr_def Let_def
      clear_in_memory_operator_subject_def split: option.split)

lemma inactive_dsr:
  assumes "inactive M k"
  shows "inactive (snd (operator_dsr C now pk action tracking M)) k"
proof (cases "\<exists>row. operator_row M pk = Some row \<and> o_identity_status row = ''active'' \<and> action \<noteq> ''export''")
  case False
  then show ?thesis using assms by (auto simp: dsr_state split: option.split)
next
  case True
  then obtain row where row: "operator_row M pk = Some row" "o_identity_status row = ''active''" "action \<noteq> ''export''" by blast
  then have k: "k \<noteq> pk" using assms by (auto simp: inactive_row)
  let ?M2 = "clear_in_memory_node_subjects pk action (snd (clear_in_memory_operator_subject pk M))"
  have "inactive ?M2 k"
    using assms k row by (auto simp: inactive_row clear_in_memory_node_subjects_def clear_in_memory_operator_subject_def)
  then show ?thesis using row inactive_anonymize [OF _ k, of ?M2 C tracking] by (auto simp: dsr_state Let_def)
qed

lemmas inactive_steps = inactive_upsert inactive_rename inactive_rotate inactive_revoke inactive_accept
  inactive_dsr inactive_recognise

lemma inactive_step: "operator_step C M M' \<Longrightarrow> inactive M k \<Longrightarrow> inactive M' k"
  by (induction rule: operator_step.induct) (blast intro: inactive_steps)+

lemma inactive_reach: "(operator_step C)\<^sup>*\<^sup>* M M' \<Longrightarrow> inactive M k \<Longrightarrow> inactive M' k"
  by (induction rule: rtranclp_induct) (auto intro: inactive_step)

text \<open>
  A rotated, revoked or restricted operator key is dead for good: after any sequence of operator
  operations it is still known and inactive, and renaming, rotating, revoking, accepting
  terms and data-subject actions under it are refused without changing anything.
\<close>

theorem inactive_identity_is_terminal:
  assumes "operator_identity_active M pk = Some False" and "(operator_step C)\<^sup>*\<^sup>* M M'"
  shows "operator_identity_active M' pk = Some False
    \<and> rename_operator pk name M' = (False, M')
    \<and> (pk \<noteq> new_pk \<longrightarrow> rotate_operator_identity pk new_pk epoch M' = (Inl LifecycleInactive, M'))
    \<and> revoke_operator_identity now pk M' = (Inl LifecycleInactive, M')
    \<and> accept_operator_governance t pk terms dpa nonce M' = (Inl SelfInactive, M')
    \<and> operator_dsr C t pk action tracking M' = (Inl SelfInactive, M')"
proof -
  have "inactive M' pk" using assms inactive_reach unfolding inactive_def by blast
  then show ?thesis
    by (auto simp: inactive_row operator_identity_active_def rename_operator_def rotate_operator_identity_def
        revoke_operator_identity_def accept_operator_governance_def operator_dsr_def in_memory_dsr_subject_def)
qed

definition sample_operator_repo :: InMemoryRepo where
  "sample_operator_repo =
     (new_repo [(blank_record ''a'')\<lparr>r_node := (blank_node ''a'')\<lparr>n_operator_pubkey := Some ''k1''\<rparr>\<rparr>])
       \<lparr>m_operators := [(''k1'', default_operator_row\<lparr>o_identity_status := ''active'', o_display_name := Some ''Ann''\<rparr>)]\<rparr>"

theorem inactive_identity_is_terminal_witness:
  "let M = snd (revoke_operator_identity 0 ''k1'' sample_operator_repo);
       M' = upsert_operator 9 ''k1'' (Some ''Bob'') None None M
   in (operator_step demo_crypto)\<^sup>*\<^sup>* M M' \<and> operator_identity_active M ''k1'' = Some False
      \<and> operator_identity_active M' ''k1'' = Some False"
proof -
  let ?M = "snd (revoke_operator_identity 0 ''k1'' sample_operator_repo)"
  let ?M' = "upsert_operator 9 ''k1'' (Some ''Bob'') None None ?M"
  have i: "operator_identity_active ?M ''k1'' = Some False" by code_simp
  have s: "(operator_step demo_crypto)\<^sup>*\<^sup>* ?M ?M'" by (rule r_into_rtranclp) (rule operator_step.upsert)
  show ?thesis using inactive_identity_is_terminal [OF i s] i s by (simp add: Let_def)
qed

section \<open>What rotation and anonymisation leave behind\<close>

lemma fold_count_bound:
  "uint (fold (\<lambda>r n. if bound_to pk r then saturating_add n 1 else n) rs (n :: u32))
     = min (uint n + int (length (filter (bound_to pk) rs))) (2 ^ 32 - 1)"
proof (induction rs arbitrary: n)
  case Nil
  have "uint n \<le> 2 ^ 32 - 1" using uint_lt2p [of n] by simp
  then show ?case by simp
next
  case (Cons r rs)
  then show ?case by (auto simp: uint_saturating_add)
qed

lemma uint_count_bound: "uint (count_bound pk rs) = min (int (length (filter (bound_to pk) rs))) (2 ^ 32 - 1)"
  using fold_count_bound [of pk rs 0] by (simp add: count_bound_def)

lemma map_bound_ids: "(\<And>n. n_node_id (f n) = n_node_id n) \<Longrightarrow> map record_id (map_bound pk f rs) = map record_id rs"
  by (simp add: map_bound_def)

lemma map_bound_member: "r \<in> set rs \<Longrightarrow> bound_to pk r \<Longrightarrow> update_node f r \<in> set (map_bound pk f rs)"
  by (induction rs) (auto simp: map_bound_def)

lemma map_bound_unbound:
  "(\<And>n. n_operator_pubkey (f n) \<noteq> Some pk) \<Longrightarrow> \<forall>r \<in> set (map_bound pk f rs). \<not> bound_to pk r"
  by (auto simp: map_bound_def)

text \<open>
  A successful rotation keeps continuity: the successor is an active operator with the name,
  first-seen time, founder ordinal, tier and badge of the old key; the old key is inactive;
  no record is bound to the old key any more and every record that was is bound to the
  successor, without a policy manifest signed by the old key; reputations and task counts
  are untouched; and the reported number of linked nodes is exact up to saturation.
\<close>

theorem rotation_keeps_continuity:
  assumes "rotate_operator_identity old_pk new_pk epoch M = (Inr res, M')"
  shows "\<exists>old new. operator_row M old_pk = Some old \<and> operator_row M' new_pk = Some new
      \<and> o_display_name new = o_display_name old \<and> o_first_seen_ms new = o_first_seen_ms old
      \<and> o_ordinal new = o_ordinal old \<and> o_tier new = o_tier old \<and> o_badge new = o_badge old
      \<and> operator_identity_active M' new_pk = Some True \<and> operator_identity_active M' old_pk = Some False
      \<and> (\<forall>r \<in> set (m_records M'). \<not> bound_to old_pk r)
      \<and> list_all2 (\<lambda>r r'. record_id r' = record_id r
            \<and> n_reputation_score (r_node r') = n_reputation_score (r_node r)
            \<and> n_completed_tasks_count (r_node r') = n_completed_tasks_count (r_node r)
            \<and> (if bound_to old_pk r then bound_to new_pk r' \<and> n_policy_manifest (r_node r') = None else r' = r))
          (m_records M) (m_records M')
      \<and> uint (lr_linked_nodes res) = min (int (length (filter (bound_to old_pk) (m_records M)))) (2 ^ 32 - 1)"
proof -
  from assms obtain old where ne: "old_pk \<noteq> new_pk" and old: "operator_row M old_pk = Some old"
    "o_identity_status old = ''active''" "operator_row M new_pk = None"
    by (auto simp: rotate_operator_identity_def split: if_splits option.splits)
  let ?f = "\<lambda>n. n\<lparr>n_operator_pubkey := Some new_pk, n_operator_verified := True, n_policy_manifest := None\<rparr>"
  have recs: "m_records M' = map_bound old_pk ?f (m_records M)"
    and new: "operator_row M' new_pk = Some (old\<lparr>o_identity_status := ''active'', o_rotation_epoch := None\<rparr>)"
    and old': "operator_identity_active M' old_pk = Some False"
    and n: "lr_linked_nodes res = count_bound old_pk (m_records M)"
    using assms ne old by (auto simp: rotate_operator_identity_def Let_def operator_identity_active_def)
  have "\<forall>r \<in> set (m_records M'). \<not> bound_to old_pk r" unfolding recs using ne by (intro map_bound_unbound) auto
  moreover have "list_all2 (\<lambda>r r'. record_id r' = record_id r
            \<and> n_reputation_score (r_node r') = n_reputation_score (r_node r)
            \<and> n_completed_tasks_count (r_node r') = n_completed_tasks_count (r_node r)
            \<and> (if bound_to old_pk r then bound_to new_pk r' \<and> n_policy_manifest (r_node r') = None else r' = r))
          (m_records M) (m_records M')"
    unfolding recs map_bound_def by (simp add: list_all2_conv_all_nth)
  moreover have "operator_identity_active M' new_pk = Some True"
    using new by (simp add: operator_identity_active_def)
  ultimately show ?thesis using old new old' by (simp add: n uint_count_bound)
qed

theorem rotation_keeps_continuity_witness:
  "case rotate_operator_identity ''k1'' ''k2'' None sample_operator_repo of
     (Inr res, M') \<Rightarrow> uint (lr_linked_nodes res) = 1 \<and> operator_identity_active M' ''k2'' = Some True
        \<and> operator_identity_active M' ''k1'' = Some False
   | _ \<Rightarrow> False"
proof -
  obtain res M' where r: "rotate_operator_identity ''k1'' ''k2'' None sample_operator_repo = (Inr res, M')"
    by (simp add: rotate_operator_identity_def sample_operator_repo_def new_repo_def default_operator_row_def Let_def)
  have "length (filter (bound_to ''k1'') (m_records sample_operator_repo)) = 1"
    by (simp add: sample_operator_repo_def new_repo_def blank_record_def blank_node_def)
  with rotation_keeps_continuity [OF r] show ?thesis by (auto simp: r)
qed

text \<open>
  Anonymising an operator removes it: for a key that does not itself have the form of an
  anonymised one, afterwards the key is unknown, no record names it, the records it owned are
  unavailable and unlisted, and the retained row is restricted and carries no name,
  attestation, badge or acceptance record.
\<close>

theorem anonymize_removes_operator:
  assumes "operator_dsr C now pk ''anonymize'' tracking M = (Inr out, M')" and "\<not> starts_with pk ''dsr_''"
  shows "operator_row M' pk = None
    \<and> (\<forall>r \<in> set (m_records M'). \<not> bound_to pk r)
    \<and> (\<forall>r \<in> set (m_records M). bound_to pk r \<longrightarrow>
         (\<exists>r' \<in> set (m_records M'). record_id r' = record_id r \<and> \<not> n_available (r_node r')
            \<and> \<not> n_public_listing (r_node r') \<and> n_operator_pubkey (r_node r') = None))
    \<and> (\<exists>row. operator_row M' (''dsr_'' @ take 60 (sha256_hex C (''operator:'' @ tracking @ '':'' @ pk))) = Some row
         \<and> o_identity_status row = ''restricted'' \<and> o_display_name row = None \<and> o_integrity_hash row = None
         \<and> o_badge row = None \<and> o_acceptance_method row = None)"
proof -
  from assms(1) obtain row where row: "operator_row M pk = Some row" "o_identity_status row = ''active''"
    by (auto simp: operator_dsr_def in_memory_dsr_subject_def split: option.splits if_splits)
  let ?a = "''dsr_'' @ take 60 (sha256_hex C (''operator:'' @ tracking @ '':'' @ pk))"
  let ?M2 = "clear_in_memory_node_subjects pk ''anonymize'' (snd (clear_in_memory_operator_subject pk M))"
  have M': "M' = anonymize_in_memory_operator C pk tracking ?M2"
    using assms(1) dsr_state [of C now pk "''anonymize''" tracking M] row by (simp add: Let_def)
  have a: "?a \<noteq> pk" using assms(2) by (metis starts_with_append)
  obtain row2 where row2: "operator_row ?M2 pk = Some row2" "o_display_name row2 = None" "o_integrity_hash row2 = None"
    "o_badge row2 = None" "o_acceptance_method row2 = None"
    using row by (simp add: clear_in_memory_node_subjects_def clear_in_memory_operator_subject_def)
  have ops: "operator_row M' pk = None" "operator_row M' ?a = Some (row2\<lparr>o_identity_status := ''restricted''\<rparr>)"
    using a row2(1) by (auto simp: M' anonymize_in_memory_operator_def Let_def)
  have recs: "m_records M' = m_records ?M2"
    by (simp add: M' anonymize_in_memory_operator_def Let_def split: option.split)
  also have "\<dots> = map_bound pk (\<lambda>n. n\<lparr>n_available := False, n_public_listing := False, n_operator_url := None,
      n_operator_pubkey := None, n_operator_verified := False, n_operator_trust_tier := None\<rparr>) (m_records M)"
    using row by (simp add: clear_in_memory_node_subjects_def clear_in_memory_operator_subject_def)
  finally have recs: "m_records M' = \<dots>" .
  have un: "\<forall>r \<in> set (m_records M'). \<not> bound_to pk r" unfolding recs by (rule map_bound_unbound) simp
  have hid: "\<forall>r \<in> set (m_records M). bound_to pk r \<longrightarrow>
         (\<exists>r' \<in> set (m_records M'). record_id r' = record_id r \<and> \<not> n_available (r_node r')
            \<and> \<not> n_public_listing (r_node r') \<and> n_operator_pubkey (r_node r') = None)"
    unfolding recs by (auto intro!: bexI [OF _ map_bound_member])
  show ?thesis using ops un hid row2 by simp
qed

theorem anonymize_removes_operator_witness:
  "case operator_dsr demo_crypto ''now'' ''k1'' ''anonymize'' ''t1'' sample_operator_repo of
     (Inr out, M') \<Rightarrow> operator_row M' ''k1'' = None \<and> (\<forall>r \<in> set (m_records M'). \<not> bound_to ''k1'' r)
   | _ \<Rightarrow> False"
proof -
  obtain out M' where r: "operator_dsr demo_crypto ''now'' ''k1'' ''anonymize'' ''t1'' sample_operator_repo = (Inr out, M')"
    by (simp add: operator_dsr_def in_memory_dsr_subject_def apply_in_memory_dsr_def clear_in_memory_operator_subject_def
        sample_operator_repo_def new_repo_def default_operator_row_def Let_def)
  have s: "\<not> starts_with ''k1'' ''dsr_''" by code_simp
  show ?thesis using anonymize_removes_operator [OF r s] r by simp
qed

end
