(* ===== verification/Replica.thy ===== *)
theory Replica
  imports Event_Log
begin

text \<open>
  The replica side of the federation, \<open>src/replica.rs\<close>: configuration, the snapshot envelope,
  building a node from a REGISTER payload, applying one event, verifying an event before it is
  applied, applying a snapshot, and the synchronisation loop. The responses of the seed (event
  pages, handshake, snapshot, key refresh) are inputs of the loop. Third-party decoding is a
  parameter: \<open>d_capability\<close> is serde's derived decoder of \<open>EffectiveCapability\<close>,
  \<open>d_rfc3339_ms\<close> is chrono's time parser and \<open>d_b64url\<close> the base64url decoder.
\<close>

record decoders =
  d_capability :: "json \<Rightarrow> EffectiveCapability option"
  d_rfc3339_ms :: "string \<Rightarrow> i64 option"
  d_b64url :: "string \<Rightarrow> string option"

section \<open>Configuration and retry delay\<close>

definition verification_required :: "string option \<Rightarrow> bool \<Rightarrow> bool" where
  "verification_required app_env unsigned_requested \<longleftrightarrow>
     \<not> (app_env = Some ''local'' \<or> app_env = Some ''testing'') \<or> \<not> unsigned_requested"

record ReplicaConfig =
  rc_seed_url :: string
  rc_seed_did :: string
  rc_poll_interval_secs :: int
  rc_replica_did :: "string option"
  rc_replica_endpoint :: "string option"
  rc_allow_http_did :: bool
  rc_verification_required :: bool

definition trim_end_matches :: "char \<Rightarrow> string \<Rightarrow> string" where
  "trim_end_matches c s = rev (dropWhile (\<lambda>d. d = c) (rev s))"

definition env_flag :: "string option \<Rightarrow> bool" where
  "env_flag v \<longleftrightarrow>
     (case v of None \<Rightarrow> False
      | Some s \<Rightarrow> to_ascii_lowercase s \<in> {''1'', ''true'', ''yes'', ''on''})"

text \<open>\<open>env\<close> is the process environment; \<open>2 ^ 64 - 1\<close> bounds \<open>str::parse::<u64>\<close>.\<close>

definition from_env :: "(string \<Rightarrow> string option) \<Rightarrow> string + ReplicaConfig option" where
  "from_env env =
     (case env ''IICP_REPLICA_MODE'' of
        None \<Rightarrow> Inr None
      | Some mode \<Rightarrow>
          if mode \<noteq> ''true'' \<and> mode \<noteq> ''1'' then Inr None
          else case env ''IICP_SEED_URL'' of
            None \<Rightarrow> Inl ''replica mode requires IICP_SEED_URL''
          | Some seed_url \<Rightarrow>
          (case env ''IICP_SEED_DID'' of
            None \<Rightarrow> Inl ''replica mode requires IICP_SEED_DID separate from seed location''
          | Some seed_did \<Rightarrow>
            (let poll = unwrap_or 10 (Option.bind (env ''IICP_REPLICA_POLL_SECS'') (parse_uint (2 ^ 64 - 1)))
             in case env ''IICP_REPLICA_DID'' of
                  None \<Rightarrow> Inl ''replica mode requires IICP_REPLICA_DID''
                | Some replica_did \<Rightarrow>
            (case env ''IICP_REPLICA_ENDPOINT'' of
               None \<Rightarrow> Inl ''replica mode requires IICP_REPLICA_ENDPOINT''
             | Some replica_endpoint \<Rightarrow>
            (let app_env = env ''APP_ENV'';
                 http_requested = env_flag (env ''IICP_DEV_ALLOW_HTTP_DID'');
                 allow_http = (app_env = Some ''local'' \<or> app_env = Some ''testing'') \<and> http_requested;
                 unsigned_requested = env_flag (env ''IICP_DEV_ALLOW_UNSIGNED_EVENTS'')
             in if \<not> starts_with seed_did ''did:web:'' \<or> \<not> starts_with replica_did ''did:web:''
                then Inl ''replica and seed identities must be did:web identifiers''
                else if \<not> (starts_with replica_endpoint ''https://''
                            \<or> (allow_http \<and> starts_with replica_endpoint ''http://''))
                then Inl ''IICP_REPLICA_ENDPOINT must use HTTPS (plain HTTP requires APP_ENV=local/testing and IICP_DEV_ALLOW_HTTP_DID=true)''
                else Inr (Some
                  \<lparr>rc_seed_url = trim_end_matches CHR ''/'' seed_url, rc_seed_did = seed_did,
                   rc_poll_interval_secs = poll, rc_replica_did = Some replica_did,
                   rc_replica_endpoint = Some replica_endpoint, rc_allow_http_did = allow_http,
                   rc_verification_required = verification_required app_env unsigned_requested\<rparr>))))))"

text \<open>
  \<open>nanos\<close> and \<open>pid\<close> are the clock's sub-second part and the process id. The intermediate
  values are within \<open>u64\<close>, so they are integers here; the product saturates.
\<close>

definition retry_delay :: "u64 \<Rightarrow> u64 \<Rightarrow> int \<Rightarrow> u32 \<Rightarrow> int" where
  "retry_delay nanos pid base_secs attempt =
     (let exponential = min (max base_secs 1 * 2 ^ nat (min (uint attempt) 5)) (2 ^ 64 - 1);
          capped = min exponential 300;
          jitter_span = max (capped div 5) 1;
          jitter = uint (xor (xor nanos pid) (ucast attempt :: u64)) mod (jitter_span + 1)
      in max ((capped - jitter_span div 2) + jitter) 1)"

section \<open>URLs, pages and envelopes\<close>

definition events_url :: "string \<Rightarrow> i64 \<Rightarrow> string" where
  "events_url seed_url since_seq = seed_url @ ''/api/v1/events?since_seq='' @ show_int since_seq"

definition snapshot_url :: "string \<Rightarrow> string" where
  "snapshot_url seed_url = seed_url @ ''/api/v1/snapshot''"

definition handshake_url :: "string \<Rightarrow> string" where
  "handshake_url seed_url = seed_url @ ''/api/v1/replicas/register''"

record FederatedEvent =
  v_event_id :: string
  v_event_type :: string
  v_service_id :: "string option"
  v_seq :: i64
  v_ts_ms :: i64
  v_node_id :: "string option"
  v_payload :: json
  v_prev_hash :: "string option"
  v_sig :: "string option"
  v_signer_did :: "string option"

datatype EventPage = Events "FederatedEvent list" i64 bool | SnapshotRequired | Failed

text \<open>
  \<open>fetch_events\<close> after the transport: \<open>None\<close> is a failed request or a body that is not
  JSON, \<open>d_events\<close> is serde's decoder of the event list.
\<close>

definition fetch_events :: "(json \<Rightarrow> FederatedEvent list option) \<Rightarrow> i64 \<Rightarrow> json option \<Rightarrow> EventPage" where
  "fetch_events d_events since_seq response =
     (case response of
        None \<Rightarrow> Failed
      | Some body \<Rightarrow>
          if Option.bind (json_get body ''error'') (\<lambda>e. get_str e ''code'') = Some ''IICP-E045'' then SnapshotRequired
          else case json_get body ''events'' of
                 None \<Rightarrow> Failed
               | Some raw \<Rightarrow>
                   (case d_events raw of
                      None \<Rightarrow> Failed
                    | Some events \<Rightarrow> Events events (unwrap_or since_seq (get_i64 body ''next_seq''))
                                            (unwrap_or False (get_bool body ''has_more''))))"

definition is_array :: "json \<Rightarrow> bool" where
  "is_array v \<longleftrightarrow> as_array v \<noteq> None"

definition validated_snapshot_seq :: "json \<Rightarrow> i64 option" where
  "validated_snapshot_seq snapshot =
     (case (get_str snapshot ''schema_version'', get_i64 snapshot ''snapshot_seq'') of
        (Some schema, Some seq) \<Rightarrow>
          if schema = [] \<or> seq < 0
             \<or> \<not> (case json_get snapshot ''nodes'' of None \<Rightarrow> False | Some v \<Rightarrow> is_array v)
             \<or> \<not> (case json_get snapshot ''capabilities'' of None \<Rightarrow> False | Some v \<Rightarrow> is_array v)
          then None else Some seq
      | _ \<Rightarrow> None)"

record JoinHandshake =
  j_since_seq :: i64
  j_replica_token :: string

definition join_handshake :: "json option \<Rightarrow> JoinHandshake option" where
  "join_handshake response =
     (case response of
        None \<Rightarrow> None
      | Some resp \<Rightarrow>
          map_option (\<lambda>token. \<lparr>j_since_seq = unwrap_or 0 (get_i64 resp ''since_seq''), j_replica_token = token\<rparr>)
            (get_str resp ''replica_token''))"

definition seed_key_of_method :: "crypto \<Rightarrow> decoders \<Rightarrow> json \<Rightarrow> string option" where
  "seed_key_of_method C E m =
     (case json_get m ''publicKeyJwk'' of
        None \<Rightarrow> None
      | Some jwk \<Rightarrow>
          if get_str jwk ''kty'' \<noteq> Some ''OKP'' \<or> get_str jwk ''crv'' \<noteq> Some ''Ed25519'' then None
          else case Option.bind (get_str jwk ''x'') (d_b64url E) of
                 None \<Rightarrow> None
               | Some raw \<Rightarrow> if length raw = 32 then Some (hex_encode C raw) else None)"

definition seed_pubkey_hex_from_did :: "crypto \<Rightarrow> decoders \<Rightarrow> json \<Rightarrow> string option" where
  "seed_pubkey_hex_from_did C E did =
     (case get_array did ''verificationMethod'' of
        None \<Rightarrow> None
      | Some methods \<Rightarrow> (case filter_map (seed_key_of_method C E) methods of [] \<Rightarrow> None | k # _ \<Rightarrow> Some k))"

definition seed_pubkey_hex_from_expected_did :: "crypto \<Rightarrow> decoders \<Rightarrow> json \<Rightarrow> string \<Rightarrow> string option" where
  "seed_pubkey_hex_from_expected_did C E did expected_did =
     (if get_str did ''id'' = Some expected_did then seed_pubkey_hex_from_did C E did else None)"

section \<open>Reading payloads\<close>

definition payload_capabilities :: "json \<Rightarrow> json list" where
  "payload_capabilities payload = unwrap_or [] (get_array payload ''capabilities'')"

definition intents_from_payload :: "json \<Rightarrow> string list" where
  "intents_from_payload payload = filter_map (\<lambda>c. get_str c ''intent'') (payload_capabilities payload)"

definition profiles_of :: "json \<Rightarrow> string list" where
  "profiles_of capability = filter_map as_str (unwrap_or [] (get_array capability ''supported_profiles''))"

text \<open>Collecting pairs into a hash map: a later pair overwrites an earlier one with its key.\<close>

definition hm_collect :: "('k \<times> 'v) list \<Rightarrow> ('k, 'v) hashmap" where
  "hm_collect ps = fold (\<lambda>(k, v) m. hm_insert k v m) ps []"

definition capability_profiles_from_payload :: "json \<Rightarrow> (string, string list) hashmap" where
  "capability_profiles_from_payload payload =
     hm_collect (filter_map (\<lambda>c. map_option (\<lambda>intent. (intent, profiles_of c)) (get_str c ''intent''))
       (payload_capabilities payload))"

definition capabilities_from_payload :: "decoders \<Rightarrow> json \<Rightarrow> EffectiveCapability list" where
  "capabilities_from_payload E payload = filter_map (d_capability E) (payload_capabilities payload)"

definition RELAY_REACHABLE :: "string list" where
  "RELAY_REACHABLE =
     [''ipv4_public_direct'', ''ipv6_direct_pinhole_available'', ''ipv6_direct_firewall_required'',
      ''ipv4_cgnat_blocked'', ''relay_required'', ''tunnel_required'', ''dual_stack_available'', ''outbound_only'']"

definition or_some :: "'a option \<Rightarrow> 'a \<Rightarrow> 'a option" where
  "or_some o1 d = (case o1 of None \<Rightarrow> Some d | Some x \<Rightarrow> Some x)"

definition node_from_register :: "decoders \<Rightarrow> string \<Rightarrow> json \<Rightarrow> Node option" where
  "node_from_register E node_id payload =
     map_option (\<lambda>endpoint.
       (let pricing = json_get payload ''pricing'';
            exposure_mode = get_str payload ''exposure_mode'';
            reachability_signal =
              (if unwrap_or False (get_bool payload ''public_reachable'') then 1
               else if (case exposure_mode of None \<Rightarrow> False | Some m \<Rightarrow> m \<in> set RELAY_REACHABLE) then 1 / 2 else 0)
        in \<lparr>n_node_id = node_id, n_endpoint = endpoint, n_region = unwrap_or [] (get_str payload ''region''),
            n_score = 1 / 2, n_available = True, n_load = 0, n_active_jobs = 0, n_max_concurrent = 4,
            n_reputation_score = 1 / 2, n_reputation_model = get_str payload ''reputation_model'',
            n_reputation_epoch = get_str payload ''reputation_epoch'',
            n_latency_estimate_ms = None, n_completed_tasks_count = 0, n_tasks_failed = 0,
            n_health_label = None, n_exposure_mode = exposure_mode, n_reputation_tier = None,
            n_transport_endpoint = None,
            n_cip_conformance_level = or_some (get_str payload ''cip_conformance_level'') ''CIP-None'',
            n_models = filter_map as_str (concat (filter_map (\<lambda>c. get_array c ''models'') (payload_capabilities payload))),
            n_supported_profiles = [], n_capabilities = capabilities_from_payload E payload,
            n_pricing = pricing, n_nat_type = None, n_transport_method = None, n_relay_capable = None,
            n_sdk_language = None, n_implementation_name = None, n_implementation_version = None,
            n_sdk_compatibility_version = None, n_sdk_version = None,
            n_consumer_cosignature_ready =
              (case get_array payload ''supported_receipt_profiles'' of
                 None \<Rightarrow> False
               | Some ps \<Rightarrow> list_ex (\<lambda>p. as_str p = Some ''consumer_cosignature_v1'') ps),
            n_backend = get_str payload ''backend'', n_address_family = None,
            n_cip_policy = json_get payload ''cip_policy'', n_public_key = None, n_transport_metadata = None,
            n_quantization = [], n_inference_engine = [],
            n_credit_cost_multiplier = unwrap_or 1 (Option.bind pricing (\<lambda>p. get_f64 p ''credit_cost_multiplier'')),
            n_pricing_model = or_some (Option.bind pricing (\<lambda>p. get_str p ''pricing_model'')) ''per_token'',
            n_attested = unwrap_or False (Option.bind pricing (\<lambda>p. get_bool p ''attested'')),
            n_transport = [], n_reachability_signal = reachability_signal, n_operator_pubkey = None,
            n_operator_display_name = None, n_operator_fingerprint = None, n_public_listing = False,
            n_operator_url = None, n_policy_manifest = json_get payload ''policy_manifest'',
            n_operator_verified = False, n_operator_trust_tier = None, n_health_models = None,
            n_routing_policy = RoutingPolicyState_default\<rparr>))
     (get_str payload ''endpoint'')"

section \<open>Applying an event\<close>

datatype ApplyOutcome = Applied | Skipped | Rejected string

definition apply_register :: "decoders \<Rightarrow> FederatedEvent \<Rightarrow> InMemoryRepo \<Rightarrow> ApplyOutcome \<times> InMemoryRepo" where
  "apply_register E ev M =
     (case v_node_id ev of
        None \<Rightarrow> (Rejected ''REGISTER missing node_id'', M)
      | Some node_id \<Rightarrow>
          (case node_from_register E node_id (v_payload ev) of
             None \<Rightarrow> (Rejected ''REGISTER missing endpoint'', M)
           | Some node \<Rightarrow>
               (Applied,
                register \<lparr>r_node = node, r_intents = intents_from_payload (v_payload ev),
                          r_capabilities = capabilities_from_payload E (v_payload ev),
                          r_capability_profiles = capability_profiles_from_payload (v_payload ev),
                          r_availability = [], r_node_token = None, r_node_hmac_key = None,
                          r_proxy_token = None\<rparr> M)))"

definition health_evaluated_at_ms :: "decoders \<Rightarrow> json \<Rightarrow> i64" where
  "health_evaluated_at_ms E payload =
     (case get_i64 payload ''evaluated_at_ms'' of
        Some ms \<Rightarrow> ms
      | None \<Rightarrow> unwrap_or 0 (Option.bind (get_str payload ''evaluated_at'') (d_rfc3339_ms E)))"

definition accepted :: "bool \<times> InMemoryRepo \<Rightarrow> ApplyOutcome \<times> InMemoryRepo" where
  "accepted res = (if fst res then Applied else Skipped, snd res)"

definition apply_health :: "decoders \<Rightarrow> FederatedEvent \<Rightarrow> InMemoryRepo \<Rightarrow> ApplyOutcome \<times> InMemoryRepo" where
  "apply_health E ev M =
     (case v_node_id ev of
        None \<Rightarrow> (Rejected ''HEALTH missing node_id'', M)
      | Some node_id \<Rightarrow>
          (case get_str (v_payload ev) ''evaluator_did'' of
             None \<Rightarrow> (Rejected ''HEALTH missing evaluator_did'', M)
           | Some evaluator \<Rightarrow>
               (case get_f64 (v_payload ev) ''score'' of
                  None \<Rightarrow> (Rejected ''HEALTH missing score'', M)
                | Some score \<Rightarrow>
                    accepted (upsert_health_observation node_id evaluator score
                                (health_evaluated_at_ms E (v_payload ev)) M))))"

definition apply_reputation_decay :: "FederatedEvent \<Rightarrow> InMemoryRepo \<Rightarrow> ApplyOutcome \<times> InMemoryRepo" where
  "apply_reputation_decay ev M =
     (case v_node_id ev of
        None \<Rightarrow> (Rejected ''REPUTATION_DECAY missing node_id'', M)
      | Some node_id \<Rightarrow>
          (case get_f64 (v_payload ev) ''new_score'' of
             None \<Rightarrow> (Rejected ''REPUTATION_DECAY missing new_score'', M)
           | Some score \<Rightarrow> accepted (set_reputation_score node_id score M)))"

definition apply_credit_award :: "FederatedEvent \<Rightarrow> InMemoryRepo \<Rightarrow> ApplyOutcome \<times> InMemoryRepo" where
  "apply_credit_award ev M =
     (case v_node_id ev of
        None \<Rightarrow> (Rejected ''CREDIT_AWARD missing node_id'', M)
      | Some node_id \<Rightarrow>
          (case get_f64 (v_payload ev) ''new_balance'' of
             None \<Rightarrow> (Rejected ''CREDIT_AWARD missing new_balance'', M)
           | Some balance \<Rightarrow> accepted (set_credit_balance node_id balance M, M)))"

definition apply_replica_registered ::
    "i64 \<Rightarrow> FederatedEvent \<Rightarrow> InMemoryRepo \<Rightarrow> ApplyOutcome \<times> InMemoryRepo" where
  "apply_replica_registered now ev M =
     (case (v_node_id ev, get_str (v_payload ev) ''did'', get_str (v_payload ev) ''endpoint'') of
        (Some rid, Some did, Some endpoint) \<Rightarrow>
          (Applied, upsert_replica now rid did endpoint (unwrap_or ''unverified'' (get_str (v_payload ev) ''trust_tier'')) M)
      | _ \<Rightarrow> (Rejected ''REPLICA_REGISTERED missing replica_id/did/endpoint'', M))"

definition apply_event :: "decoders \<Rightarrow> i64 \<Rightarrow> FederatedEvent \<Rightarrow> InMemoryRepo \<Rightarrow> ApplyOutcome \<times> InMemoryRepo" where
  "apply_event E now ev M =
     (if v_event_type ev = ''REGISTER'' then apply_register E ev M
      else if v_event_type ev = ''DEREGISTER'' then
        (case v_node_id ev of
           Some i \<Rightarrow> accepted (deregister i M)
         | None \<Rightarrow> (Rejected ''DEREGISTER missing node_id'', M))
      else if v_event_type ev = ''HEALTH'' then apply_health E ev M
      else if v_event_type ev = ''REPUTATION_DECAY'' then apply_reputation_decay ev M
      else if v_event_type ev = ''CREDIT_AWARD'' then apply_credit_award ev M
      else if v_event_type ev = ''REPLICA_REGISTERED'' then apply_replica_registered now ev M
      else if v_event_type ev = ''REPLICA_DEREGISTERED'' then
        (case v_node_id ev of
           Some i \<Rightarrow> accepted (decommission_replica i M)
         | None \<Rightarrow> (Rejected ''REPLICA_DEREGISTERED missing replica_id'', M))
      else (Skipped, M))"

section \<open>Verifying before applying\<close>

definition signed_message :: "crypto \<Rightarrow> FederatedEvent \<Rightarrow> string \<Rightarrow> string option" where
  "signed_message C ev prev_hash =
     (case v_service_id ev of
        Some sid \<Rightarrow>
          event_message_with_service_id C sid (v_event_id ev) (v_event_type ev) (v_seq ev) (v_ts_ms ev) (v_payload ev) prev_hash
      | None \<Rightarrow>
          Some (event_message C (v_event_id ev) (v_event_type ev) (v_seq ev) (v_ts_ms ev) (v_payload ev) prev_hash))"

text \<open>The checks before the event is applied: \<open>None\<close> when all pass, otherwise the refusal.\<close>

definition signature_refusal ::
    "crypto \<Rightarrow> FederatedEvent \<Rightarrow> string option \<Rightarrow> string option \<Rightarrow> string option" where
  "signature_refusal C ev seed_pubkey_hex expected_prev_hash =
     (case seed_pubkey_hex of
        None \<Rightarrow> None
      | Some pk \<Rightarrow>
          (case v_sig ev of
             None \<Rightarrow> Some ''missing signature''
           | Some sig \<Rightarrow>
               (let prev_hash = unwrap_or GENESIS_ROOT (v_prev_hash ev)
                in if (case expected_prev_hash of None \<Rightarrow> False | Some expected \<Rightarrow> prev_hash \<noteq> expected)
                   then Some ''broken hash-chain''
                   else case signed_message C ev prev_hash of
                          None \<Rightarrow> Some ''invalid service_id''
                        | Some msg \<Rightarrow> if \<not> verify_event C pk sig msg then Some ''bad signature'' else None)))"

definition verify_and_apply ::
    "crypto \<Rightarrow> decoders \<Rightarrow> i64 \<Rightarrow> FederatedEvent \<Rightarrow> string option \<Rightarrow> i64 \<Rightarrow> string option \<Rightarrow> InMemoryRepo
       \<Rightarrow> ApplyOutcome \<times> i64 \<times> InMemoryRepo" where
  "verify_and_apply C E now ev seed_pubkey_hex last_applied_seq expected_prev_hash M =
     (if (case v_service_id ev of None \<Rightarrow> False | Some sid \<Rightarrow> \<not> valid_service_id sid)
      then (Rejected ''invalid service_id'', last_applied_seq, M)
      else if v_seq ev \<le> last_applied_seq then (Skipped, last_applied_seq, M)
      else case signature_refusal C ev seed_pubkey_hex expected_prev_hash of
             Some why \<Rightarrow> (Rejected why, last_applied_seq, M)
           | None \<Rightarrow>
               (let (outcome, M') = apply_event E now ev M
                in (outcome, (case outcome of Rejected _ \<Rightarrow> last_applied_seq | _ \<Rightarrow> v_seq ev), M')))"

section \<open>Applying a snapshot\<close>

text \<open>The capability rows that name both a node and an intent.\<close>

definition snapshot_rows :: "json \<Rightarrow> (string \<times> string \<times> string list) list" where
  "snapshot_rows snapshot =
     filter_map (\<lambda>c. case (get_str c ''node_id'', get_str c ''intent'') of
                       (Some nid, Some intent) \<Rightarrow> Some (nid, intent, profiles_of c)
                     | _ \<Rightarrow> None) (payload_capabilities snapshot)"

definition snapshot_intents :: "json \<Rightarrow> (string, string list) hashmap" where
  "snapshot_intents snapshot = fold (\<lambda>(nid, intent, _) m. hm_push nid intent m) (snapshot_rows snapshot) []"

definition snapshot_profiles :: "json \<Rightarrow> (string, (string, string list) hashmap) hashmap" where
  "snapshot_profiles snapshot =
     fold (\<lambda>(nid, intent, profiles) m. hm_insert nid (hm_insert intent profiles (unwrap_or [] (map_of m nid))) m)
       (snapshot_rows snapshot) []"

definition snapshot_node :: "decoders \<Rightarrow> string \<Rightarrow> json \<Rightarrow> Node option" where
  "snapshot_node E node_id n =
     map_option (\<lambda>node.
        (let node1 = (case get_bool n ''available'' of Some av \<Rightarrow> node\<lparr>n_available := av\<rparr> | None \<Rightarrow> node)
         in case get_f64 n ''reputation_score'' of
              Some rep \<Rightarrow> node1\<lparr>n_reputation_score := rep, n_score := rep\<rparr>
            | None \<Rightarrow> node1))
       (node_from_register E node_id n)"

definition snapshot_record :: "decoders \<Rightarrow> json \<Rightarrow> json \<Rightarrow> NodeRecord option" where
  "snapshot_record E snapshot n =
     (case get_str n ''node_id'' of
        None \<Rightarrow> None
      | Some node_id \<Rightarrow>
          map_option (\<lambda>node.
            \<lparr>r_node = node,
             r_intents = unwrap_or [] (map_of (snapshot_intents snapshot) node_id),
             r_capabilities = filter_map (d_capability E)
               (filter (\<lambda>item. get_str item ''node_id'' = Some node_id) (payload_capabilities snapshot)),
             r_capability_profiles = unwrap_or [] (map_of (snapshot_profiles snapshot) node_id),
             r_availability = [], r_node_token = None, r_node_hmac_key = None, r_proxy_token = None\<rparr>)
          (snapshot_node E node_id n))"

definition apply_snapshot :: "decoders \<Rightarrow> json \<Rightarrow> InMemoryRepo \<Rightarrow> nat \<times> InMemoryRepo" where
  "apply_snapshot E snapshot M =
     (let recs = filter_map (snapshot_record E snapshot) (unwrap_or [] (get_array snapshot ''nodes''))
      in (length recs, fold register recs M))"

section \<open>The synchronisation loop\<close>

datatype ReplicaPhase =
  Configured | VerifyingSeed | Registering | Snapshotting | Synchronizing | Ready | Degraded | Blocked

text \<open>
  \<open>fetch_and_apply_snapshot\<close> and \<open>bootstrap_replica\<close> over the seed's answers: each attempt has the
  response to the join handshake and to the snapshot request, \<open>None\<close> when the request failed.
  \<open>None\<close> as the result means that the attempts given were used up and the replica is still
  retrying.
\<close>

definition fetch_and_apply_snapshot :: "decoders \<Rightarrow> json option \<Rightarrow> InMemoryRepo \<Rightarrow> (i64 \<times> InMemoryRepo) option" where
  "fetch_and_apply_snapshot E response M =
     (case response of
        None \<Rightarrow> None
      | Some snapshot \<Rightarrow>
          map_option (\<lambda>seq. (seq, snd (apply_snapshot E snapshot M))) (validated_snapshot_seq snapshot))"

type_synonym attempt = "json option \<times> json option"

fun bootstrap_replica :: "decoders \<Rightarrow> attempt list \<Rightarrow> InMemoryRepo \<Rightarrow> (i64 \<times> attempt list \<times> InMemoryRepo) option" where
  "bootstrap_replica E [] M = None"
| "bootstrap_replica E ((handshake, snapshot) # rest) M =
     (case join_handshake handshake of
        None \<Rightarrow> bootstrap_replica E rest M
      | Some _ \<Rightarrow>
          (case fetch_and_apply_snapshot E snapshot M of
             Some (seq, M') \<Rightarrow> Some (seq, rest, M')
           | None \<Rightarrow> bootstrap_replica E rest M))"

record SyncState =
  y_repo :: InMemoryRepo
  y_since_seq :: i64
  y_snapshot_seq :: i64
  y_pubkey :: "string option"
  y_prev_sig :: "string option"
  y_ready :: bool
  y_phase :: ReplicaPhase

text \<open>The loop over the events of a page; the flag tells whether the key must be refreshed.\<close>

fun apply_page :: "crypto \<Rightarrow> decoders \<Rightarrow> i64 \<Rightarrow> FederatedEvent list \<Rightarrow> SyncState \<Rightarrow> bool \<times> SyncState" where
  "apply_page C E now [] S = (False, S)"
| "apply_page C E now (ev # evs) S =
     (let expected_prev = map_option (\<lambda>s. prev_hash_from C (Some s)) (y_prev_sig S);
          (outcome, hw, M') = verify_and_apply C E now ev (y_pubkey S) (y_since_seq S) expected_prev (y_repo S);
          S1 = S\<lparr>y_repo := M', y_since_seq := (if hw > y_since_seq S then hw else y_since_seq S)\<rparr>;
          S2 = (case outcome of Rejected _ \<Rightarrow> S1 | _ \<Rightarrow> S1\<lparr>y_prev_sig := v_sig ev\<rparr>)
      in if outcome = Rejected ''bad signature'' \<or> outcome = Rejected ''missing signature'' then (True, S2)
         else apply_page C E now evs S2)"

text \<open>
  One pass of the inner loop for a fetched page. The answer says whether the loop goes on;
  \<open>key\<close> is the answer to a key refresh and \<open>boot\<close> the result of a new bootstrap, used only when the
  page asks for them.
\<close>

definition drain_step ::
    "crypto \<Rightarrow> decoders \<Rightarrow> i64 \<Rightarrow> string option \<Rightarrow> (InMemoryRepo \<Rightarrow> i64 \<times> InMemoryRepo) \<Rightarrow> EventPage
       \<Rightarrow> SyncState \<Rightarrow> bool \<times> SyncState" where
  "drain_step C E now key boot page S =
     (case page of
        SnapshotRequired \<Rightarrow>
          (let (seq, M') = boot (y_repo S)
           in (False, S\<lparr>y_ready := False, y_repo := M', y_since_seq := seq, y_snapshot_seq := seq,
                        y_phase := Synchronizing\<rparr>))
      | Failed \<Rightarrow> (False, S\<lparr>y_phase := Degraded\<rparr>)
      | Events events next_seq has_more \<Rightarrow>
          if events = [] then (False, S\<lparr>y_ready := True, y_phase := Ready\<rparr>)
          else
            (let (refresh_key, S1) = apply_page C E now events S;
                 S2 = S1\<lparr>y_phase := Synchronizing\<rparr>
             in if refresh_key then (False, S2\<lparr>y_pubkey := key\<rparr>)
                else if \<not> has_more then (False, S2\<lparr>y_ready := True, y_phase := Ready\<rparr>)
                else (True, S2)))"

text \<open>
  Draining the backlog from a fresh \<open>prev_sig\<close>: each request is answered by the next
  function of the cursor. \<open>None\<close>: the requests given were used up and the loop is still fetching.
\<close>

fun drain_pages ::
    "crypto \<Rightarrow> decoders \<Rightarrow> i64 \<Rightarrow> string option \<Rightarrow> (InMemoryRepo \<Rightarrow> i64 \<times> InMemoryRepo) \<Rightarrow> (i64 \<Rightarrow> EventPage) list
       \<Rightarrow> SyncState \<Rightarrow> SyncState option" where
  "drain_pages C E now key boot [] S = None"
| "drain_pages C E now key boot (fetch # fetches) S =
     (let (go_on, S') = drain_step C E now key boot (fetch (y_since_seq S)) S
      in if go_on then drain_pages C E now key boot fetches S' else Some S')"

definition sync_tick ::
    "crypto \<Rightarrow> decoders \<Rightarrow> i64 \<Rightarrow> bool \<Rightarrow> string option \<Rightarrow> string option
       \<Rightarrow> (InMemoryRepo \<Rightarrow> i64 \<times> InMemoryRepo) \<Rightarrow> (i64 \<Rightarrow> EventPage) list \<Rightarrow> SyncState \<Rightarrow> SyncState option" where
  "sync_tick C E now must_verify resolved key boot fetches S =
     (if must_verify \<and> y_pubkey S = None \<and> resolved = None then Some S
      else drain_pages C E now key boot fetches
             (S\<lparr>y_pubkey := (if must_verify \<and> y_pubkey S = None then resolved else y_pubkey S),
                y_prev_sig := None\<rparr>))"

section \<open>The seed's answer to a poll\<close>

text \<open>
  \<open>GET /v1/events\<close> of \<open>src/federation_handlers.rs\<close>: the rows after the cursor as a replica reads
  them, the next cursor and the flag for a full page.
\<close>

definition row_event :: "string \<Rightarrow> EventRow \<Rightarrow> FederatedEvent" where
  "row_event did e =
     \<lparr>v_event_id = e_event_id e, v_event_type = e_event_type e, v_service_id = None, v_seq = e_seq e,
      v_ts_ms = e_ts_ms e, v_node_id = Some (e_node_id e), v_payload = e_payload e,
      v_prev_hash = e_prev_hash e, v_sig = e_sig e, v_signer_did = Some did\<rparr>"

definition serve_events :: "string \<Rightarrow> InMemoryRepo \<Rightarrow> i64 option \<Rightarrow> u32 option \<Rightarrow> EventPage" where
  "serve_events did M since_param limit_param =
     (let since_seq = unwrap_or 0 since_param;
          limit = max 1 (min 500 (unwrap_or 100 limit_param));
          rows = events_since M since_seq limit
      in Events (map (row_event did) rows) (if rows = [] then since_seq else e_seq (last rows))
                ((of_nat (length rows) :: u32) = limit))"

section \<open>Applying and refusing\<close>

lemma accepted_not_rejected: "accepted res \<noteq> (Rejected w, M)"
  by (simp add: accepted_def split: if_split)

lemma apply_event_rejected: "apply_event E now ev M = (Rejected w, M') \<Longrightarrow> M' = M"
  by (auto simp: apply_event_def apply_register_def apply_health_def apply_reputation_decay_def
      apply_credit_award_def apply_replica_registered_def accepted_not_rejected split: if_splits option.splits)

text \<open>An event whose type the replica applies carries the fields that type needs.\<close>

definition well_formed :: "decoders \<Rightarrow> FederatedEvent \<Rightarrow> bool" where
  "well_formed E ev \<longleftrightarrow>
     (if v_event_type ev = ''REGISTER'' then v_node_id ev \<noteq> None \<and> get_str (v_payload ev) ''endpoint'' \<noteq> None
      else if v_event_type ev \<in> {''DEREGISTER'', ''REPLICA_DEREGISTERED''} then v_node_id ev \<noteq> None
      else if v_event_type ev = ''HEALTH'' then
        v_node_id ev \<noteq> None \<and> get_str (v_payload ev) ''evaluator_did'' \<noteq> None \<and> get_f64 (v_payload ev) ''score'' \<noteq> None
      else if v_event_type ev = ''REPUTATION_DECAY'' then v_node_id ev \<noteq> None \<and> get_f64 (v_payload ev) ''new_score'' \<noteq> None
      else if v_event_type ev = ''CREDIT_AWARD'' then v_node_id ev \<noteq> None \<and> get_f64 (v_payload ev) ''new_balance'' \<noteq> None
      else if v_event_type ev = ''REPLICA_REGISTERED'' then
        v_node_id ev \<noteq> None \<and> get_str (v_payload ev) ''did'' \<noteq> None \<and> get_str (v_payload ev) ''endpoint'' \<noteq> None
      else True)"

lemma accepted_fst: "fst (accepted res) \<noteq> Rejected w"
  by (simp add: accepted_def)

lemma apply_event_well_formed: "well_formed E ev \<longleftrightarrow> (\<forall>w. fst (apply_event E now ev M) \<noteq> Rejected w)"
  by (auto simp: well_formed_def apply_event_def apply_register_def apply_health_def apply_reputation_decay_def
      apply_credit_award_def apply_replica_registered_def node_from_register_def accepted_fst
      split: if_splits option.splits)

lemma verify_and_apply_cases:
  assumes "verify_and_apply C E now ev pk last_seq expected M = (out, hw, M')"
  obtains (refused) w where "out = Rejected w" "hw = last_seq" "M' = M"
  | (old) "v_seq ev \<le> last_seq" "out = Skipped" "hw = last_seq" "M' = M"
  | (new) "v_seq ev > last_seq" "signature_refusal C ev pk expected = None" "apply_event E now ev M = (out, M')"
      "\<forall>w. out \<noteq> Rejected w" "hw = v_seq ev"
  using assms apply_event_rejected [of E now ev M]
  by (fastforce simp: verify_and_apply_def Let_def split: if_splits option.splits prod.splits ApplyOutcome.splits)

lemma signature_refusal_None:
  assumes "signature_refusal C ev (Some pk) expected = None"
  shows "\<exists>sg msg. v_sig ev = Some sg \<and> signed_message C ev (unwrap_or GENESIS_ROOT (v_prev_hash ev)) = Some msg
    \<and> verify_event C pk sg msg \<and> (\<forall>h. expected = Some h \<longrightarrow> unwrap_or GENESIS_ROOT (v_prev_hash ev) = h)"
  using assms by (auto simp: signature_refusal_def Let_def split: option.splits if_splits)

text \<open>
  C4. A replica changes state only for events the seed signed: if verifying and applying an event with a
  known seed key changes the repository, the event is newer than the cursor, its signature
  over its own fields verifies under that key and, when the predecessor is known, its link
  matches. A refused event changes nothing, and the cursor never moves back: it stays or
  becomes the event's sequence number.
\<close>

theorem verify_and_apply_sound:
  assumes "verify_and_apply C E now ev (Some pk) last_seq expected M = (out, hw, M')"
  shows "(M' \<noteq> M \<or> hw \<noteq> last_seq \<longrightarrow>
           last_seq < v_seq ev \<and> hw = v_seq ev
           \<and> (\<exists>sg msg. v_sig ev = Some sg
                \<and> signed_message C ev (unwrap_or GENESIS_ROOT (v_prev_hash ev)) = Some msg \<and> verify_event C pk sg msg)
           \<and> (\<forall>h. expected = Some h \<longrightarrow> unwrap_or GENESIS_ROOT (v_prev_hash ev) = h))
    \<and> (\<forall>w. out = Rejected w \<longrightarrow> M' = M \<and> hw = last_seq)
    \<and> last_seq \<le> hw"
  using assms
proof (cases rule: verify_and_apply_cases)
  case new
  then show ?thesis using signature_refusal_None [OF new(2)] by auto
qed auto

text \<open>
  Delivering an event again changes nothing: after an event was processed, processing it once more
  from the new cursor leaves repository and cursor as they are, whether it was applied,
  skipped or refused.
\<close>

theorem verify_and_apply_idempotent:
  assumes "verify_and_apply C E now ev pk last_seq expected M = (out, hw, M')"
  shows "snd (verify_and_apply C E now ev pk hw expected M') = (hw, M')"
  using assms
proof (cases rule: verify_and_apply_cases)
  case (refused w)
  then show ?thesis using assms by simp
next
  case old
  then show ?thesis using assms by simp
next
  case new
  then show ?thesis by (simp add: verify_and_apply_def)
qed

section \<open>Following a seed\<close>

definition replay :: "decoders \<Rightarrow> i64 \<Rightarrow> string \<Rightarrow> EventRow list \<Rightarrow> InMemoryRepo \<Rightarrow> InMemoryRepo" where
  "replay E now did es M = fold (\<lambda>e M. snd (apply_event E now (row_event did e) M)) es M"

lemma verify_and_apply_chained:
  assumes "e_seq e = seq + 1" "authentic C pk prev e" "well_formed E (row_event did e)"
    and "prev' = None \<or> prev' = prev"
  shows "\<exists>out. verify_and_apply C E now (row_event did e) (Some pk) seq (map_option (\<lambda>s. prev_hash_from C (Some s)) prev') M
      = (out, seq + 1, snd (apply_event E now (row_event did e) M)) \<and> (\<forall>w. out \<noteq> Rejected w)"
proof -
  have "signature_refusal C (row_event did e) (Some pk) (map_option (\<lambda>s. prev_hash_from C (Some s)) prev') = None"
    using assms(2,4)
    by (auto simp: signature_refusal_def authentic_def row_event_def signed_message_def event_row_message_def Let_def
        split: option.splits)
  moreover have "\<forall>w. fst (apply_event E now (row_event did e) M) \<noteq> Rejected w"
    using assms(3) apply_event_well_formed by blast
  ultimately show ?thesis using assms(1)
    by (auto simp: verify_and_apply_def row_event_def split: prod.split ApplyOutcome.split)
qed

lemma apply_page_chained:
  assumes "chained C pk seq prev es" "\<forall>e \<in> set es. well_formed E (row_event did e)"
    and "y_pubkey S = Some pk" "y_since_seq S = seq" "y_prev_sig S = None \<or> y_prev_sig S = prev"
  shows "apply_page C E now (map (row_event did) es) S =
    (False, S\<lparr>y_repo := replay E now did es (y_repo S), y_since_seq := seq + int (length es),
              y_prev_sig := (if es = [] then y_prev_sig S else e_sig (last es))\<rparr>)"
  using assms
proof (induction es arbitrary: S seq prev)
  case (Cons e es)
  obtain out where out: "verify_and_apply C E now (row_event did e) (Some pk) seq
        (map_option (\<lambda>s. prev_hash_from C (Some s)) (y_prev_sig S)) (y_repo S)
      = (out, seq + 1, snd (apply_event E now (row_event did e) (y_repo S)))" and nr: "\<forall>w. out \<noteq> Rejected w"
    using verify_and_apply_chained [of e seq C pk prev E did "y_prev_sig S" now "y_repo S"] Cons.prems by auto
  let ?S = "S\<lparr>y_repo := snd (apply_event E now (row_event did e) (y_repo S)), y_since_seq := seq + 1, y_prev_sig := e_sig e\<rparr>"
  have step: "apply_page C E now (map (row_event did) (e # es)) S = apply_page C E now (map (row_event did) es) ?S"
    using out nr Cons.prems(3,4) by (cases out) (simp_all add: Let_def, simp_all add: row_event_def)
  have "apply_page C E now (map (row_event did) es) ?S =
    (False, ?S\<lparr>y_repo := replay E now did es (y_repo ?S), y_since_seq := (seq + 1) + int (length es),
              y_prev_sig := (if es = [] then y_prev_sig ?S else e_sig (last es))\<rparr>)"
    using Cons.prems by (intro Cons.IH) auto
  then show ?case unfolding step by (simp add: replay_def add.commute add.left_commute)
qed (simp add: replay_def)

lemma chained_drop: "chained C pk 0 None es \<Longrightarrow> k \<le> length es \<Longrightarrow>
    chained C pk (int k) (if k = 0 then None else e_sig (es ! (k - 1))) (drop k es)"
proof -
  assume c: "chained C pk 0 None es" and k: "k \<le> length es"
  have "chained C pk 0 None (take k es @ drop k es)" using c by simp
  then show ?thesis using k unfolding chained_append by (cases k) (auto simp: take_Suc_conv_app_nth min_def)
qed

lemma replay_append: "replay E now did (xs @ ys) M = replay E now did ys (replay E now did xs M)"
  by (simp add: replay_def)

text \<open>
  One request to a seed whose log is chained, from a cursor inside the log: the page is
  applied in full.
\<close>

lemma drain_step_seed:
  assumes c: "chained C pk 0 None (m_events M)" and wf: "\<forall>e \<in> set (m_events M). well_formed E (row_event did e)"
    and S: "y_pubkey S = Some pk" "y_since_seq S = int k" "k \<le> length (m_events M)"
      "y_prev_sig S = None \<or> (0 < k \<and> y_prev_sig S = e_sig (m_events M ! (k - 1)))"
    and limit: "cnt = min (length (m_events M) - k) 100"
  shows "\<exists>sg ph. drain_step C E now key boot (serve_events did M (Some (y_since_seq S)) None) S =
      (cnt = 100, S\<lparr>y_repo := replay E now did (take cnt (drop k (m_events M))) (y_repo S),
                    y_since_seq := int (k + cnt), y_prev_sig := sg,
                    y_ready := (if cnt = 100 then y_ready S else True), y_phase := ph\<rparr>)
    \<and> (cnt = 100 \<longrightarrow> sg = e_sig (m_events M ! (k + cnt - 1)))"
proof -
  let ?page = "take cnt (drop k (m_events M))"
  have es: "events_since M (int k) 100 = ?page"
    using filter_seq_chained [OF c, of "int k"] limit by (simp add: events_since_def min_def)
  have len: "length ?page = cnt" using limit by simp
  have lim_le: "cnt \<le> 100" using limit by simp
  have full: "((of_nat cnt :: u32) = 100) = (cnt = 100)"
  proof
    assume "(of_nat cnt :: u32) = 100"
    then have "unat (of_nat cnt :: u32) = unat (100 :: u32)" by simp
    then show "cnt = 100" using lim_le by (simp add: unat_of_nat)
  qed simp
  have serve: "serve_events did M (Some (int k)) None
      = Events (map (row_event did) ?page) (if ?page = [] then int k else e_seq (last ?page)) (cnt = 100)"
    using es len full by (simp add: serve_events_def Let_def max_def min_def)
  have same: "S\<lparr>y_since_seq := int k\<rparr> = S" using S(2) by (cases S) simp
  have "chained C pk (int k) (if k = 0 then None else e_sig (m_events M ! (k - 1))) (?page @ drop cnt (drop k (m_events M)))"
    unfolding append_take_drop_id by (rule chained_drop [OF c S(3)])
  then have pc: "chained C pk (int k) (if k = 0 then None else e_sig (m_events M ! (k - 1))) ?page"
    unfolding chained_append by blast
  have wfp: "\<forall>e \<in> set ?page. well_formed E (row_event did e)"
    using wf by (meson in_set_dropD in_set_takeD)
  note ap = apply_page_chained [OF pc wfp S(1,2)]
  have prev: "y_prev_sig S = None \<or> y_prev_sig S = (if k = 0 then None else e_sig (m_events M ! (k - 1)))"
    using S(4) by auto
  show ?thesis
  proof (cases "cnt = 0")
    case True
    then have "drain_step C E now key boot (serve_events did M (Some (int k)) None) S
        = (False, S\<lparr>y_since_seq := int k\<rparr>\<lparr>y_ready := True, y_phase := Ready\<rparr>)"
      by (simp add: serve drain_step_def same)
    then show ?thesis using S(2) True
      by (auto simp: replay_def intro!: exI [of _ "y_prev_sig S"] exI [of _ Ready])
  next
    case False
    then have ne: "?page \<noteq> []" using len by (metis length_0_conv)
    have "last ?page = m_events M ! (k + cnt - 1)"
    proof -
      have "last ?page = ?page ! (cnt - 1)" using last_conv_nth [OF ne] by (simp only: len)
      also have "\<dots> = drop k (m_events M) ! (cnt - 1)" using False by (intro nth_take) simp
      also have "\<dots> = m_events M ! (k + cnt - 1)" using S(3) False by (simp add: Nat.add_diff_assoc)
      finally show ?thesis .
    qed
    then show ?thesis using ap [OF prev] ne False len
      by (auto simp: S(2) serve drain_step_def Let_def intro!: exI [of _ "e_sig (last ?page)"])
  qed
qed

lemma drain_seed:
  assumes "chained C pk 0 None (m_events M)" and "\<forall>e \<in> set (m_events M). well_formed E (row_event did e)"
    and "y_pubkey S = Some pk" "y_since_seq S = int k" "k \<le> length (m_events M)"
      "y_prev_sig S = None \<or> (0 < k \<and> y_prev_sig S = e_sig (m_events M ! (k - 1)))"
    and "length (m_events M) - k < fuel * 100"
  shows "\<exists>S'. drain_pages C E now key boot (replicate fuel (\<lambda>cur. serve_events did M (Some cur) None)) S = Some S'
    \<and> y_repo S' = replay E now did (drop k (m_events M)) (y_repo S)
    \<and> y_since_seq S' = int (length (m_events M)) \<and> y_ready S' \<and> y_pubkey S' = Some pk"
  using assms(3-)
proof (induction fuel arbitrary: S k)
  case (Suc fuel)
  let ?n = "length (m_events M)"
  define c where "c = min (?n - k) 100"
  from drain_step_seed [OF assms(1,2) Suc.prems(1-4) c_def, of now key boot]
  obtain sg ph where step: "drain_step C E now key boot (serve_events did M (Some (y_since_seq S)) None) S =
      (c = 100, S\<lparr>y_repo := replay E now did (take c (drop k (m_events M))) (y_repo S),
                    y_since_seq := int (k + c), y_prev_sig := sg,
                    y_ready := (if c = 100 then y_ready S else True), y_phase := ph\<rparr>)"
    and sg: "c = 100 \<longrightarrow> sg = e_sig (m_events M ! (k + c - 1))" by blast
  show ?case
  proof (cases "c = 100")
    case False
    then have "k + c = ?n" and "take c (drop k (m_events M)) = drop k (m_events M)" using Suc.prems(3) by (auto simp: c_def)
    then show ?thesis using step False Suc.prems(1) by (simp add: Let_def)
  next
    case True
    let ?S = "S\<lparr>y_repo := replay E now did (take c (drop k (m_events M))) (y_repo S),
                    y_since_seq := int (k + c), y_prev_sig := sg,
                    y_ready := (if c = 100 then y_ready S else True), y_phase := ph\<rparr>"
    have "\<exists>S'. drain_pages C E now key boot (replicate fuel (\<lambda>cur. serve_events did M (Some cur) None)) ?S = Some S'
      \<and> y_repo S' = replay E now did (drop (k + c) (m_events M)) (y_repo ?S)
      \<and> y_since_seq S' = int ?n \<and> y_ready S' \<and> y_pubkey S' = Some pk"
      using Suc.prems True sg by (intro Suc.IH) (auto simp: c_def)
    moreover have "replay E now did (drop (k + c) (m_events M)) (y_repo ?S) = replay E now did (drop k (m_events M)) (y_repo S)"
      using replay_append [of E now did "take c (drop k (m_events M))" "drop c (drop k (m_events M))" "y_repo S"]
      unfolding append_take_drop_id by (simp add: add.commute)
    ultimately show ?thesis using step True by (simp add: Let_def)
  qed
qed simp

text \<open>
  C1. A replica that follows an honest seed converges: for any history of well-formed appends on the seed
  and any cursor into the log, one tick of the loop terminates after at most one request per
  hundred missing events plus one, refuses nothing, leaves the cursor at the end of the log,
  reports ready, and the replica's repository is its old one with the missing events applied
  in order.
\<close>

theorem replica_converges_to_seed:
  assumes "signatures_verify C" and "signing_seed C sk = Some seed"
    and M: "m_events M0 = []" "M = fold (append_event C sk) as M0"
    and "\<forall>e \<in> set (m_events M). well_formed E (row_event did e)"
    and S: "y_pubkey S = Some (hex_encode C (ed_public C seed))" "y_since_seq S = int k" "k \<le> length as"
    and "length as - k < fuel * 100"
  shows "\<exists>S'. sync_tick C E now True None key boot (replicate fuel (\<lambda>cur. serve_events did M (Some cur) None)) S = Some S'
    \<and> y_repo S' = replay E now did (drop k (m_events M)) (y_repo S)
    \<and> y_since_seq S' = int (length as) \<and> y_ready S'"
proof -
  let ?pk = "hex_encode C (ed_public C seed)"
  have c: "chained C ?pk 0 None (m_events M)"
    unfolding M(2) using assms(1,2) M(1) by (intro fold_append_event_chained) simp_all
  have len: "length (m_events M) = length as" using M by (simp add: fold_append_event_length)
  let ?S = "S\<lparr>y_prev_sig := None\<rparr>"
  from drain_seed [OF c assms(5), of ?S k fuel now key boot] S assms(9) len
  obtain S' where "drain_pages C E now key boot (replicate fuel (\<lambda>cur. serve_events did M (Some cur) None)) ?S = Some S'"
    and "y_repo S' = replay E now did (drop k (m_events M)) (y_repo S)"
    and "y_since_seq S' = int (length as)" "y_ready S'" by auto
  moreover have eq: "S\<lparr>y_pubkey := Some ?pk, y_prev_sig := None\<rparr> = ?S" using S(1) by (cases S) simp
  have "sync_tick C E now True None key boot (replicate fuel (\<lambda>cur. serve_events did M (Some cur) None)) S
      = drain_pages C E now key boot (replicate fuel (\<lambda>cur. serve_events did M (Some cur) None)) ?S"
    unfolding eq [symmetric] by (simp add: sync_tick_def S(1))
  ultimately show ?thesis by metis
qed

definition sample_decoders :: decoders where
  "sample_decoders = \<lparr>d_capability = (\<lambda>_. None), d_rfc3339_ms = (\<lambda>_. None), d_b64url = (\<lambda>s. Some s)\<rparr>"

definition sample_sync :: "string option \<Rightarrow> SyncState" where
  "sample_sync pk = \<lparr>y_repo = new_repo [], y_since_seq = 0, y_snapshot_seq = 0, y_pubkey = pk, y_prev_sig = None,
     y_ready = False, y_phase = Synchronizing\<rparr>"

definition sample_log :: "append_input list" where
  "sample_log = [(''e1'', 10, ''REGISTER'', ''a'', JObj [(''endpoint'', JStr ''https://a'')]),
                 (''e2'', 20, ''REGISTER'', ''b'', JObj [(''endpoint'', JStr ''https://b'')]),
                 (''e3'', 30, ''DEREGISTER'', ''a'', JObj [])]"

abbreviation demo_seed_key :: string where
  "demo_seed_key \<equiv> hex_encode demo_crypto (ed_public demo_crypto (replicate 32 CHR ''s''))"

theorem replica_converges_to_seed_witness:
  "let M = fold (append_event demo_crypto demo_secret) sample_log (new_repo [])
   in \<exists>S'. sync_tick demo_crypto sample_decoders 0 True None None (\<lambda>M. (0, M))
        (replicate 1 (\<lambda>cur. serve_events ''did:web:s'' M (Some cur) None)) (sample_sync (Some demo_seed_key)) = Some S'
      \<and> y_since_seq S' = 3 \<and> y_ready S'"
proof -
  let ?M = "fold (append_event demo_crypto demo_secret) sample_log (new_repo [])"
  have m: "map (\<lambda>e. (e_event_type e, e_payload e)) (m_events ?M) = map (\<lambda>(_, _, t, _, p). (t, p)) sample_log"
    by (simp add: sample_log_def append_event_def append_signed_event_def Let_def new_repo_def)
  have wf: "\<forall>e \<in> set (m_events ?M). well_formed sample_decoders (row_event ''did:web:s'' e)"
  proof
    fix e assume "e \<in> set (m_events ?M)"
    then have "(e_event_type e, e_payload e) \<in> set (map (\<lambda>e. (e_event_type e, e_payload e)) (m_events ?M))" by auto
    then show "well_formed sample_decoders (row_event ''did:web:s'' e)"
      unfolding m by (auto simp: sample_log_def well_formed_def row_event_def get_str_def)
  qed
  have "\<exists>S'. sync_tick demo_crypto sample_decoders 0 True None None (\<lambda>M. (0, M))
        (replicate 1 (\<lambda>cur. serve_events ''did:web:s'' ?M (Some cur) None)) (sample_sync (Some demo_seed_key)) = Some S'
      \<and> y_repo S' = replay sample_decoders 0 ''did:web:s'' (drop 0 (m_events ?M)) (y_repo (sample_sync (Some demo_seed_key)))
      \<and> y_since_seq S' = int (length sample_log) \<and> y_ready S'"
    by (rule replica_converges_to_seed [OF signatures_verify_demo demo_seed _ refl wf])
      (simp_all add: new_repo_def sample_sync_def sample_log_def)
  then show ?thesis by (auto simp: Let_def sample_log_def)
qed

section \<open>Concrete runs\<close>

definition sample_event :: "string \<Rightarrow> string \<Rightarrow> i64 \<Rightarrow> string \<Rightarrow> FederatedEvent" where
  "sample_event typ nid seq prev_hash =
     \<lparr>v_event_id = ''e1'', v_event_type = typ, v_service_id = None, v_seq = seq, v_ts_ms = 7, v_node_id = Some nid,
      v_payload = JObj [(''endpoint'', JStr ''https://a'')], v_prev_hash = Some prev_hash,
      v_sig = sign_event demo_crypto demo_secret ''e1'' typ seq 7 (JObj [(''endpoint'', JStr ''https://a'')]) prev_hash,
      v_signer_did = None\<rparr>"

lemma sample_event_refusal:
  "signature_refusal demo_crypto (sample_event typ nid seq h) (Some demo_seed_key) expected =
     (case expected of None \<Rightarrow> None | Some x \<Rightarrow> if h \<noteq> x then Some ''broken hash-chain'' else None)"
proof -
  let ?p = "JObj [(''endpoint'', JStr ''https://a'')]"
  have "sign_event demo_crypto demo_secret ''e1'' typ seq 7 ?p h
      = Some (hex_encode demo_crypto (ed_sign demo_crypto (replicate 32 CHR ''s'') (event_message demo_crypto ''e1'' typ seq 7 ?p h)))"
    using demo_seed by (simp add: sign_event_def)
  moreover have "verify_event demo_crypto demo_seed_key
      (hex_encode demo_crypto (ed_sign demo_crypto (replicate 32 CHR ''s'') (event_message demo_crypto ''e1'' typ seq 7 ?p h)))
      (event_message demo_crypto ''e1'' typ seq 7 ?p h)"
    using signatures_verify_demo by (simp add: verify_event_def signatures_verify_def)
  ultimately show ?thesis
    by (auto simp: signature_refusal_def sample_event_def signed_message_def Let_def split: option.splits)
qed

lemma sample_event_fields [simp]:
  "v_event_type (sample_event typ nid seq h) = typ" "v_seq (sample_event typ nid seq h) = seq"
  "v_service_id (sample_event typ nid seq h) = None" "v_node_id (sample_event typ nid seq h) = Some nid"
  by (simp_all add: sample_event_def)

lemma sample_deregister:
  assumes "last_seq < seq" "expected = None \<or> expected = Some h"
  shows "verify_and_apply demo_crypto sample_decoders 0 (sample_event ''DEREGISTER'' nid seq h) (Some demo_seed_key) last_seq expected M
    = (if fst (deregister nid M) then Applied else Skipped, seq, snd (deregister nid M))"
  using assms by (auto simp: verify_and_apply_def sample_event_refusal apply_event_def accepted_def)

theorem verify_and_apply_sound_witness:
  "let ev = sample_event ''DEREGISTER'' ''a'' 4 ''x'';
       (out, hw, M') = verify_and_apply demo_crypto sample_decoders 0 ev (Some demo_seed_key) 3 None (new_repo [blank_record ''a''])
   in M' \<noteq> new_repo [blank_record ''a''] \<and> hw = 4 \<and> 3 < v_seq ev \<and> (\<exists>sg. v_sig ev = Some sg)"
proof -
  let ?ev = "sample_event ''DEREGISTER'' ''a'' 4 ''x''"
  let ?M = "new_repo [blank_record ''a'']"
  have v: "verify_and_apply demo_crypto sample_decoders 0 ?ev (Some demo_seed_key) 3 None ?M = (Applied, 4, new_repo [])"
    by (simp add: sample_deregister deregister_def Let_def new_repo_def blank_record_def blank_node_def)
  have "new_repo [] \<noteq> ?M" by (simp add: new_repo_def)
  then show ?thesis using verify_and_apply_sound [OF v] v by (auto simp: Let_def)
qed

theorem verify_and_apply_idempotent_witness:
  "let ev = sample_event ''DEREGISTER'' ''a'' 4 ''x'';
       (out, hw, M') = verify_and_apply demo_crypto sample_decoders 0 ev (Some demo_seed_key) 3 None (new_repo [blank_record ''a''])
   in snd (verify_and_apply demo_crypto sample_decoders 0 ev (Some demo_seed_key) hw None M') = (hw, M')"
  using verify_and_apply_idempotent [of demo_crypto sample_decoders 0 "sample_event ''DEREGISTER'' ''a'' 4 ''x''" "Some demo_seed_key" 3 None
      "new_repo [blank_record ''a'']"]
  by (simp add: Let_def split: prod.split)

section \<open>Where the checks are weaker than intended\<close>

text \<open>
  The signature does not cover the node an event is about: changing only \<open>node_id\<close> leaves
  every check of the replica unchanged, so a signed DEREGISTER event can be redirected and
  removes whichever node the altered field names.
\<close>

theorem event_node_id_is_unsigned:
  "signature_refusal C (ev\<lparr>v_node_id := other\<rparr>) pk expected = signature_refusal C ev pk expected
   \<and> (signature_refusal C ev pk expected = None \<and> v_event_type ev = ''DEREGISTER'' \<and> v_service_id ev = None
        \<and> last_seq < v_seq ev \<longrightarrow>
      snd (verify_and_apply C E now (ev\<lparr>v_node_id := Some victim\<rparr>) pk last_seq expected M)
        = (v_seq ev, snd (deregister victim M)))"
proof -
  have sm: "signed_message C (ev\<lparr>v_node_id := other\<rparr>) h = signed_message C ev h" for other h
    by (simp add: signed_message_def split: option.split)
  have same: "signature_refusal C (ev\<lparr>v_node_id := other\<rparr>) pk expected = signature_refusal C ev pk expected" for other
    by (simp add: signature_refusal_def Let_def sm split: option.split)
  show ?thesis
    by (auto simp: same verify_and_apply_def apply_event_def accepted_def split: option.splits)
qed

theorem event_node_id_is_unsigned_witness:
  "signature_refusal demo_crypto (sample_event ''DEREGISTER'' ''a'' 4 ''x'') (Some demo_seed_key) None = None
   \<and> snd (verify_and_apply demo_crypto sample_decoders 0 ((sample_event ''DEREGISTER'' ''a'' 4 ''x'')\<lparr>v_node_id := Some ''b''\<rparr>)
        (Some demo_seed_key) 3 None (new_repo [blank_record ''a'', blank_record ''b'']))
      = (4, snd (deregister ''b'' (new_repo [blank_record ''a'', blank_record ''b''])))"
  using event_node_id_is_unsigned [where C = demo_crypto and ev = "sample_event ''DEREGISTER'' ''a'' 4 ''x''"
      and pk = "Some demo_seed_key" and expected = None and last_seq = 3 and E = sample_decoders and now = 0
      and victim = "''b''" and M = "new_repo [blank_record ''a'', blank_record ''b'']"]
  by (simp add: sample_event_refusal)

text \<open>
  The hash-chain check does not survive a tick: when the second event of a page does not link to
  the first, it is refused, yet the loop reports ready; and on the next tick the same event,
  now the first of its page, is applied because no predecessor is remembered. The gap is
  never noticed again.
\<close>

theorem broken_chain_accepted_next_tick:
  assumes "well_formed E e1" "well_formed E e2" "v_service_id e1 = None" "v_service_id e2 = None"
    and "y_pubkey S = Some pk" "y_since_seq S < v_seq e1" "v_seq e1 < v_seq e2"
    and "signature_refusal C e1 (Some pk) None = None" "signature_refusal C e2 (Some pk) None = None"
    and "v_sig e1 = Some s1" "unwrap_or GENESIS_ROOT (v_prev_hash e2) \<noteq> prev_hash_from C (Some s1)"
  shows "\<exists>S1 S2. sync_tick C E now True None key boot [\<lambda>_. Events [e1, e2] n False] S = Some S1
      \<and> y_ready S1 \<and> y_phase S1 = Ready \<and> y_since_seq S1 = v_seq e1
      \<and> y_repo S1 = snd (apply_event E now e1 (y_repo S))
      \<and> sync_tick C E now True None key boot [\<lambda>_. Events [e2] n False] S1 = Some S2
      \<and> y_since_seq S2 = v_seq e2 \<and> y_repo S2 = snd (apply_event E now e2 (y_repo S1))"
proof -
  have acc: "\<exists>out. verify_and_apply C E now e (Some pk) last_seq None M = (out, v_seq e, snd (apply_event E now e M))
      \<and> (\<forall>w. out \<noteq> Rejected w)"
    if "well_formed E e" "v_service_id e = None" "last_seq < v_seq e" "signature_refusal C e (Some pk) None = None" for e last_seq M
  proof -
    have "\<forall>w. fst (apply_event E now e M) \<noteq> Rejected w" using that(1) apply_event_well_formed by blast
    then show ?thesis using that by (auto simp: verify_and_apply_def split: prod.split ApplyOutcome.split)
  qed
  have rej: "verify_and_apply C E now e2 (Some pk) (v_seq e1) (Some (prev_hash_from C (Some s1))) M
      = (Rejected ''broken hash-chain'', v_seq e1, M)" for M
    using assms by (auto simp: verify_and_apply_def signature_refusal_def Let_def split: option.splits)
  let ?M1 = "snd (apply_event E now e1 (y_repo S))"
  obtain o1 where o1: "verify_and_apply C E now e1 (Some pk) (y_since_seq S) None (y_repo S) = (o1, v_seq e1, ?M1)"
    "\<forall>w. o1 \<noteq> Rejected w" using acc [OF assms(1,3,6,8)] by blast
  obtain o2 where o2: "verify_and_apply C E now e2 (Some pk) (v_seq e1) None ?M1 = (o2, v_seq e2, snd (apply_event E now e2 ?M1))"
    "\<forall>w. o2 \<noteq> Rejected w" using acc [OF assms(2,4,7,9)] by blast
  let ?S1 = "S\<lparr>y_repo := ?M1, y_since_seq := v_seq e1, y_prev_sig := Some s1, y_ready := True, y_phase := Ready\<rparr>"
  have p1: "apply_page C E now [e1, e2] (S\<lparr>y_pubkey := Some pk, y_prev_sig := None\<rparr>)
      = (False, S\<lparr>y_pubkey := Some pk, y_repo := ?M1, y_since_seq := v_seq e1, y_prev_sig := Some s1\<rparr>)"
    using o1 rej assms(6,10) by (cases o1) (simp_all add: Let_def)
  then have t1: "sync_tick C E now True None key boot [\<lambda>_. Events [e1, e2] n False] S = Some (?S1\<lparr>y_pubkey := Some pk\<rparr>)"
    using assms(5) by (simp add: sync_tick_def drain_step_def)
  have "fst (apply_page C E now [e2] (?S1\<lparr>y_pubkey := Some pk, y_prev_sig := None\<rparr>)) = False
      \<and> y_since_seq (snd (apply_page C E now [e2] (?S1\<lparr>y_pubkey := Some pk, y_prev_sig := None\<rparr>))) = v_seq e2
      \<and> y_repo (snd (apply_page C E now [e2] (?S1\<lparr>y_pubkey := Some pk, y_prev_sig := None\<rparr>))) = snd (apply_event E now e2 ?M1)"
    using o2 assms(7) by (cases o2) (simp_all add: Let_def)
  then have "\<exists>S2. sync_tick C E now True None key boot [\<lambda>_. Events [e2] n False] (?S1\<lparr>y_pubkey := Some pk\<rparr>) = Some S2
      \<and> y_since_seq S2 = v_seq e2 \<and> y_repo S2 = snd (apply_event E now e2 ?M1)"
    by (simp add: sync_tick_def drain_step_def case_prod_beta)
  then show ?thesis using t1 by fastforce
qed

theorem broken_chain_accepted_next_tick_witness:
  "let e1 = sample_event ''DEREGISTER'' ''a'' 4 ''x''; e2 = sample_event ''DEREGISTER'' ''b'' 6 ''y'';
       S = (sample_sync (Some demo_seed_key))\<lparr>y_repo := new_repo [blank_record ''a'', blank_record ''b'']\<rparr>
   in \<exists>S1 S2. sync_tick demo_crypto sample_decoders 0 True None None (\<lambda>M. (0, M)) [\<lambda>_. Events [e1, e2] 6 False] S = Some S1
      \<and> y_ready S1 \<and> y_since_seq S1 = 4
      \<and> sync_tick demo_crypto sample_decoders 0 True None None (\<lambda>M. (0, M)) [\<lambda>_. Events [e2] 6 False] S1 = Some S2
      \<and> y_since_seq S2 = 6"
proof -
  let ?e1 = "sample_event ''DEREGISTER'' ''a'' 4 ''x''" and ?e2 = "sample_event ''DEREGISTER'' ''b'' 6 ''y''"
  let ?S = "(sample_sync (Some demo_seed_key))\<lparr>y_repo := new_repo [blank_record ''a'', blank_record ''b'']\<rparr>"
  obtain s1 where s1: "v_sig ?e1 = Some s1" "s1 \<noteq> []"
    using demo_seed by (simp add: sample_event_def sign_event_def demo_crypto_def demo_hex_def)
  have "prev_hash_from demo_crypto (Some s1) \<noteq> ''y''"
    using s1(2) by (simp add: prev_hash_from_def sha256_hex_def demo_crypto_def demo_hex_def)
  then have link: "unwrap_or GENESIS_ROOT (v_prev_hash ?e2) \<noteq> prev_hash_from demo_crypto (Some s1)"
    by (simp add: sample_event_def)
  have ok: "signature_refusal demo_crypto (sample_event t nid sq h) (Some demo_seed_key) None = None" for t nid sq h
    by (subst sample_event_refusal) simp
  have "\<exists>S1 S2. sync_tick demo_crypto sample_decoders 0 True None None (\<lambda>M. (0, M)) [\<lambda>_. Events [?e1, ?e2] 6 False] ?S = Some S1
      \<and> y_ready S1 \<and> y_phase S1 = Ready \<and> y_since_seq S1 = v_seq ?e1
      \<and> y_repo S1 = snd (apply_event sample_decoders 0 ?e1 (y_repo ?S))
      \<and> sync_tick demo_crypto sample_decoders 0 True None None (\<lambda>M. (0, M)) [\<lambda>_. Events [?e2] 6 False] S1 = Some S2
      \<and> y_since_seq S2 = v_seq ?e2 \<and> y_repo S2 = snd (apply_event sample_decoders 0 ?e2 (y_repo S1))"
    by (rule broken_chain_accepted_next_tick [OF _ _ _ _ _ _ _ ok ok s1(1) link])
      (simp_all add: well_formed_def sample_sync_def)
  then show ?thesis by (auto simp: Let_def)
qed

text \<open>
  A snapshot does not refresh the reputation of a node the replica already knows: the record is
  replaced and scored with the snapshot's value, but the reputation stays the old one,
  although the snapshot carries the seed's live reputation.
\<close>

theorem snapshot_keeps_old_reputation:
  assumes "filter_map (snapshot_record E snap) (unwrap_or [] (get_array snap ''nodes'')) = [rec]"
    and "find_record M (record_id rec) = Some old"
  shows "\<exists>r. find_record (snd (apply_snapshot E snap M)) (record_id rec) = Some r
      \<and> n_reputation_score (r_node r) = n_reputation_score (r_node old)
      \<and> n_score (r_node r) = n_score (r_node rec) \<and> r_intents r = r_intents rec"
  using assms by (simp add: apply_snapshot_def find_record_register keep_reputation_def)

definition sample_snapshot :: json where
  "sample_snapshot = JObj [(''schema_version'', JStr ''1''), (''snapshot_seq'', JInt 9),
     (''nodes'', JArr [JObj [(''node_id'', JStr ''a''), (''endpoint'', JStr ''https://a''), (''reputation_score'', JFloat (1 / 4))]]),
     (''capabilities'', JArr [JObj [(''node_id'', JStr ''a''), (''intent'', JStr ''urn:x'')]])]"

theorem snapshot_keeps_old_reputation_witness:
  "\<exists>r. find_record (snd (apply_snapshot sample_decoders sample_snapshot (new_repo [blank_record ''a'']))) ''a'' = Some r
      \<and> n_reputation_score (r_node r) = 1 / 2 \<and> n_score (r_node r) = 1 / 4 \<and> r_intents r = [''urn:x'']"
proof -
  obtain rec where f: "filter_map (snapshot_record sample_decoders sample_snapshot)
      (unwrap_or [] (get_array sample_snapshot ''nodes'')) = [rec]"
    and rec: "record_id rec = ''a''" "n_score (r_node rec) = 1 / 4" "r_intents rec = [''urn:x'']"
    by (simp add: filter_map_def sample_snapshot_def get_array_def snapshot_record_def get_str_def snapshot_node_def
        node_from_register_def get_f64_def get_bool_def snapshot_intents_def snapshot_rows_def payload_capabilities_def
        hm_push_def hm_insert_def Let_def)
  have "find_record (new_repo [blank_record ''a'']) (record_id rec) = Some (blank_record ''a'')"
    by (simp add: rec find_record_def new_repo_def blank_record_def blank_node_def)
  from snapshot_keeps_old_reputation [OF f this] show ?thesis
    by (simp add: rec blank_record_def blank_node_def)
qed

section \<open>Configuration and retry bounds\<close>

text \<open>
  A replica outside a local or testing environment always verifies signatures and always announces an
  HTTPS endpoint, whatever the other variables ask for; identities are did:web identifiers.
\<close>

theorem production_replica_verifies:
  assumes "from_env env = Inr (Some cfg)"
  shows "(env ''APP_ENV'' \<noteq> Some ''local'' \<and> env ''APP_ENV'' \<noteq> Some ''testing'' \<longrightarrow>
            rc_verification_required cfg \<and> \<not> rc_allow_http_did cfg
            \<and> (\<exists>ep. rc_replica_endpoint cfg = Some ep \<and> starts_with ep ''https://''))
    \<and> starts_with (rc_seed_did cfg) ''did:web:''
    \<and> (\<exists>did. rc_replica_did cfg = Some did \<and> starts_with did ''did:web:'')"
  using assms by (auto simp: from_env_def verification_required_def Let_def split: option.splits if_splits)

theorem production_replica_verifies_witness:
  "let env = map_of [(''IICP_REPLICA_MODE'', ''1''), (''IICP_SEED_URL'', ''https://s/''), (''IICP_SEED_DID'', ''did:web:s''),
       (''IICP_REPLICA_DID'', ''did:web:r''), (''IICP_REPLICA_ENDPOINT'', ''https://r''), (''APP_ENV'', ''production''),
       (''IICP_DEV_ALLOW_UNSIGNED_EVENTS'', ''true'')]
   in \<exists>cfg. from_env env = Inr (Some cfg) \<and> rc_verification_required cfg"
proof -
  let ?env = "map_of [(''IICP_REPLICA_MODE'', ''1''), (''IICP_SEED_URL'', ''https://s/''), (''IICP_SEED_DID'', ''did:web:s''),
       (''IICP_REPLICA_DID'', ''did:web:r''), (''IICP_REPLICA_ENDPOINT'', ''https://r''), (''APP_ENV'', ''production''),
       (''IICP_DEV_ALLOW_UNSIGNED_EVENTS'', ''true'')]"
  obtain cfg where c: "from_env ?env = Inr (Some cfg)"
    by (simp add: from_env_def Let_def starts_with_def)
  show ?thesis using production_replica_verifies [OF c] c by (simp add: Let_def)
qed

text \<open>
  Retries back off within bounds: every delay is at least one second and at most 330
  seconds, and stays within a fifth around the capped exponential value.
\<close>

theorem retry_delay_bounds:
  fixes base_secs :: int
  defines "capped attempt \<equiv> min (min (max base_secs 1 * 2 ^ nat (min (uint (attempt :: u32)) 5)) (2 ^ 64 - 1)) 300"
  shows "1 \<le> retry_delay nanos pid base_secs attempt \<and> retry_delay nanos pid base_secs attempt \<le> 330
    \<and> capped attempt - max (capped attempt div 5) 1 div 2 \<le> retry_delay nanos pid base_secs attempt
    \<and> retry_delay nanos pid base_secs attempt \<le> capped attempt + max (capped attempt div 5) 1"
proof -
  define c where "c = capped attempt"
  define sp where "sp = max (c div 5) 1"
  define j where "j = uint (xor (xor nanos pid) (ucast attempt :: u64)) mod (sp + 1)"
  have c: "1 \<le> c" "c \<le> 300"
  proof -
    have "(1 :: int) * 1 \<le> max base_secs 1 * 2 ^ nat (min (uint attempt) 5)" by (intro mult_mono) auto
    then show "1 \<le> c" unfolding c_def capped_def by simp
  qed (simp add: c_def capped_def)
  have d: "retry_delay nanos pid base_secs attempt = max ((c - sp div 2) + j) 1"
    unfolding retry_delay_def Let_def j_def sp_def c_def capped_def by (rule refl)
  have sp: "1 \<le> sp" "sp \<le> 60" using c by (auto simp: sp_def)
  have "0 \<le> j" "j \<le> sp" using sp pos_mod_bound [of "sp + 1"] by (simp_all add: j_def)
  moreover define h where "h = sp div 2"
  then have "2 * h \<le> sp" "sp \<le> 2 * h + 1" by simp_all
  ultimately show ?thesis using c sp
    unfolding d c_def [symmetric] sp_def [symmetric] h_def [symmetric] by linarith
qed

section \<open>Does the drain end?\<close>

lemma drain_ends:
  assumes "\<And>T. fst (drain_step C E now key boot (f (y_since_seq T)) T) \<Longrightarrow>
      y_since_seq T < y_since_seq (snd (drain_step C E now key boot (f (y_since_seq T)) T))
      \<and> y_since_seq (snd (drain_step C E now key boot (f (y_since_seq T)) T)) \<le> last_seq"
    and "nat (last_seq - y_since_seq S) < fuel"
  shows "\<exists>S'. drain_pages C E now key boot (replicate fuel f) S = Some S'"
  using assms(2)
proof (induction fuel arbitrary: S)
  case (Suc fuel)
  obtain go_on S1 where step: "drain_step C E now key boot (f (y_since_seq S)) S = (go_on, S1)" by fastforce
  show ?case
  proof (cases go_on)
    case True
    then have "y_since_seq S < y_since_seq S1" "y_since_seq S1 \<le> last_seq" using assms(1) [of S] step by simp_all
    then show ?thesis using Suc.IH [of S1] Suc.prems step True by (simp add: Let_def)
  qed (simp add: step Let_def)
qed simp

definition stalls :: "crypto \<Rightarrow> decoders \<Rightarrow> i64 \<Rightarrow> FederatedEvent \<Rightarrow> SyncState \<Rightarrow> bool" where
  "stalls C E now ev S \<longleftrightarrow>
     (case fst (verify_and_apply C E now ev (y_pubkey S) (y_since_seq S)
                  (map_option (\<lambda>s. prev_hash_from C (Some s)) (y_prev_sig S)) (y_repo S)) of
        Rejected why \<Rightarrow> why \<noteq> ''bad signature'' \<and> why \<noteq> ''missing signature''
      | _ \<Rightarrow> False)"

lemma stalls_page: "list_all (\<lambda>ev. stalls C E now ev S) evs \<Longrightarrow> apply_page C E now evs S = (False, S)"
proof (induction evs)
  case (Cons ev evs)
  let ?x = "map_option (\<lambda>s. prev_hash_from C (Some s)) (y_prev_sig S)"
  obtain out hw M' where v: "verify_and_apply C E now ev (y_pubkey S) (y_since_seq S) ?x (y_repo S) = (out, hw, M')"
    by (metis prod_cases3)
  from Cons.prems obtain why where why: "out = Rejected why" "why \<noteq> ''bad signature''" "why \<noteq> ''missing signature''"
    using v by (auto simp: stalls_def split: ApplyOutcome.splits)
  have "hw = y_since_seq S \<and> M' = y_repo S"
    using v by (cases rule: verify_and_apply_cases) (use why(1) in auto)
  then show ?case using Cons v why by simp
qed simp



end
