(* ===== verification/Health.thy ===== *)
theory Health
  imports Repo
begin

text \<open>
  Health scoring and aggregation, \<open>src/health.rs\<close>: the composite score of a node, the mesh
  aggregate, and the federation-wide aggregate that resolves each node by vote across
  evaluators. Arithmetic is binary64. Counts and the 0 to 100 scores are naturals: a count is
  bounded by the number of stored rows and a score by 100, so neither reaches \<open>2 ^ 32\<close>.
\<close>

section \<open>Scoring a node\<close>

definition W_REACHABILITY :: f64 where
  "W_REACHABILITY = round64 (7 / 10)"

definition W_LATENCY :: f64 where
  "W_LATENCY = round64 (3 / 10)"

definition MIN_MESH_SAMPLE :: nat where
  "MIN_MESH_SAMPLE = 3"

record HealthSignals =
  hs_reachability :: f64
  hs_latency_ms :: "f64 option"

record NodeHealth =
  nh_score :: nat
  nh_label :: string

record Components =
  co_reachability :: f64
  co_latency :: f64

definition latency_curve :: "f64 \<Rightarrow> f64" where
  "latency_curve ms = fclamp 0 1 (fsub 1 (fdiv (fsub ms 50) 450))"

definition latency_score :: "f64 option \<Rightarrow> f64" where
  "latency_score latency_ms =
     (case latency_ms of Some ms \<Rightarrow> if ms > 0 then latency_curve ms else 1 / 2 | None \<Rightarrow> 1 / 2)"

definition components_of :: "HealthSignals \<Rightarrow> Components" where
  "components_of s = \<lparr>co_reachability = fclamp 0 1 (hs_reachability s), co_latency = latency_score (hs_latency_ms s)\<rparr>"

definition reachability_from_flags :: "bool \<Rightarrow> bool \<Rightarrow> f64" where
  "reachability_from_flags public_reachable relay_capable =
     (if public_reachable then 1 else if relay_capable then 1 / 2 else 0)"

definition label :: "nat \<Rightarrow> string" where
  "label score =
     (if score \<ge> 85 then ''healthy'' else if score \<ge> 65 then ''degraded''
      else if score \<ge> 40 then ''impaired'' else ''critical'')"

text \<open>\<open>x.round() as u32\<close>: the cast saturates at both ends.\<close>

definition round_as_u32 :: "f64 \<Rightarrow> nat" where
  "round_as_u32 x = nat (min (f64_round x) (2 ^ 32 - 1))"

definition score_node :: "HealthSignals \<Rightarrow> NodeHealth" where
  "score_node s =
     (let c = components_of s;
          score01 = fadd (fmul W_REACHABILITY (co_reachability c)) (fmul W_LATENCY (co_latency c));
          score = round_as_u32 (fmul score01 100)
      in \<lparr>nh_score = score, nh_label = label score\<rparr>)"

section \<open>The mesh aggregate\<close>

definition nearest_rank :: "nat \<Rightarrow> nat \<Rightarrow> nat" where
  "nearest_rank p n =
     (let rank = \<lceil>fmul (fdiv (of_nat p) 100) (round64 (of_nat n))\<rceil>
      in nat (max 0 (min (rank - 1) (int n - 1))))"

definition percentile :: "'a::zero list \<Rightarrow> nat \<Rightarrow> 'a" where
  "percentile xs p = (if xs = [] then 0 else xs ! nearest_rank p (length xs))"

definition round3 :: "f64 \<Rightarrow> f64" where
  "round3 x = fdiv (round64 (of_int (f64_round (fmul x 1000)))) 1000"

definition fsum :: "f64 list \<Rightarrow> f64" where
  "fsum xs = foldl fadd 0 xs"

record Distribution =
  di_healthy :: nat
  di_degraded :: nat
  di_impaired :: nat
  di_critical :: nat
  di_offline :: nat

definition default_distribution :: Distribution where
  "default_distribution = \<lparr>di_healthy = 0, di_degraded = 0, di_impaired = 0, di_critical = 0, di_offline = 0\<rparr>"

definition count_label :: "string \<Rightarrow> Distribution \<Rightarrow> Distribution" where
  "count_label l d =
     (if l = ''healthy'' then d\<lparr>di_healthy := di_healthy d + 1\<rparr>
      else if l = ''degraded'' then d\<lparr>di_degraded := di_degraded d + 1\<rparr>
      else if l = ''impaired'' then d\<lparr>di_impaired := di_impaired d + 1\<rparr>
      else if l = ''critical'' then d\<lparr>di_critical := di_critical d + 1\<rparr>
      else if l = ''offline'' then d\<lparr>di_offline := di_offline d + 1\<rparr>
      else d)"

record MeshHealth =
  mh_score :: f64
  mh_label :: string
  mh_mean :: "f64 option"
  mh_p10 :: "f64 option"
  mh_distribution :: Distribution
  mh_sample :: nat

definition mesh_health :: "NodeHealth list \<Rightarrow> MeshHealth" where
  "mesh_health healths =
     (let sample = length healths
      in if sample = 0 then
           \<lparr>mh_score = 0, mh_label = ''unavailable'', mh_mean = None, mh_p10 = None,
            mh_distribution = default_distribution, mh_sample = 0\<rparr>
         else
           (let scores = sort (map nh_score healths);
                median = percentile scores 50;
                avg = fdiv (fsum (map of_nat scores)) (of_nat sample)
            in \<lparr>mh_score = round3 (fdiv (of_nat median) 100),
                mh_label = (if sample < MIN_MESH_SAMPLE then ''insufficient_sample'' else label median),
                mh_mean = Some (round3 (fdiv avg 100)),
                mh_p10 = Some (round3 (fdiv (of_nat (percentile scores 10)) 100)),
                mh_distribution = fold (\<lambda>h. count_label (nh_label h)) healths default_distribution,
                mh_sample = sample\<rparr>))"

section \<open>The federated aggregate\<close>

definition HEALTH_QUORUM :: nat where
  "HEALTH_QUORUM = 3"

record HealthObservation =
  ho_node_id :: string
  ho_evaluator_did :: string
  ho_score :: f64
  ho_evaluated_at_ms :: i64

record ResolvedNode =
  rn_score :: f64
  rn_label :: string
  rn_resolution :: string
  rn_evaluators :: nat
  rn_contested :: bool

definition label01 :: "f64 \<Rightarrow> string" where
  "label01 score = label (round_as_u32 (fmul score 100))"

definition votes :: "HealthObservation list \<Rightarrow> (string, f64 list) hashmap" where
  "votes obs = fold (\<lambda>o1 m. hm_push (label01 (ho_score o1)) (ho_score o1) m) obs []"

definition evaluator_count :: "HealthObservation list \<Rightarrow> nat" where
  "evaluator_count obs = card (ho_evaluator_did ` set obs)"

definition resolve_node ::
    "((string, f64 list) hashmap \<Rightarrow> (string, f64 list) hashmap) \<Rightarrow> HealthObservation list \<Rightarrow> ResolvedNode" where
  "resolve_node iter obs =
     (let evaluators = evaluator_count obs
      in case max_by_key ho_evaluated_at_ms obs of
           None \<Rightarrow> \<lparr>rn_score = 0, rn_label = ''unavailable'', rn_resolution = ''none'', rn_evaluators = 0, rn_contested = False\<rparr>
         | Some freshest \<Rightarrow>
             (let score = round3 (ho_score freshest)
              in if evaluators < HEALTH_QUORUM then
                   \<lparr>rn_score = score, rn_label = label01 score, rn_resolution = ''unconfirmed'',
                    rn_evaluators = evaluators, rn_contested = False\<rparr>
                 else
                   (case find (\<lambda>(_, v). length v \<ge> evaluators div 2 + 1) (iter (votes obs)) of
                      Some (_, scores) \<Rightarrow>
                        (let median = round3 (percentile (sort scores) 50)
                         in \<lparr>rn_score = median, rn_label = label01 median, rn_resolution = ''majority'',
                             rn_evaluators = evaluators, rn_contested = False\<rparr>)
                    | None \<Rightarrow>
                        \<lparr>rn_score = score, rn_label = label01 score, rn_resolution = ''most_recent'',
                         rn_evaluators = evaluators, rn_contested = True\<rparr>)))"

record FederatedMeshHealth =
  fm_score :: f64
  fm_label :: string
  fm_mean :: "f64 option"
  fm_p10 :: "f64 option"
  fm_distribution :: Distribution
  fm_sample :: nat
  fm_contested :: nat
  fm_unconfirmed :: nat

definition observation_groups :: "HealthObservation list \<Rightarrow> (string, HealthObservation list) hashmap" where
  "observation_groups obs = fold (\<lambda>o1 m. hm_push (ho_node_id o1) o1 m) obs []"

definition federated_mesh_health ::
    "((string, f64 list) hashmap \<Rightarrow> (string, f64 list) hashmap)
       \<Rightarrow> ((string, HealthObservation list) hashmap \<Rightarrow> (string, HealthObservation list) hashmap)
       \<Rightarrow> HealthObservation list \<Rightarrow> FederatedMeshHealth" where
  "federated_mesh_health iter giter obs =
     (if obs = [] then
        \<lparr>fm_score = 0, fm_label = ''unavailable'', fm_mean = None, fm_p10 = None,
         fm_distribution = default_distribution, fm_sample = 0, fm_contested = 0, fm_unconfirmed = 0\<rparr>
      else
        (let resolved = map (\<lambda>(_, v). resolve_node iter v) (giter (observation_groups obs));
             scores = sort (map rn_score resolved);
             sample = length scores;
             median = percentile scores 50;
             avg = fdiv (fsum scores) (of_nat sample)
         in \<lparr>fm_score = round3 median,
             fm_label = (if sample < MIN_MESH_SAMPLE then ''insufficient_sample'' else label01 median),
             fm_mean = Some (round3 avg), fm_p10 = Some (round3 (percentile scores 10)),
             fm_distribution = fold (\<lambda>r. count_label (rn_label r)) resolved default_distribution,
             fm_sample = sample, fm_contested = length (filter rn_contested resolved),
             fm_unconfirmed = length (filter (\<lambda>r. rn_resolution r = ''unconfirmed'') resolved)\<rparr>))"

section \<open>Bounds and monotonicity of the score\<close>

lemma weights_nonneg: "0 \<le> W_REACHABILITY" "0 \<le> W_LATENCY"
  by (simp_all add: W_REACHABILITY_def W_LATENCY_def f64.rnd_nonneg)

lemma weights_sum: "fadd W_REACHABILITY W_LATENCY = 1"
  by code_simp

lemma latency_curve_bounds: "0 \<le> latency_curve ms" "latency_curve ms \<le> 1"
  using fclamp_bounds [of 0 1] by (simp_all add: latency_curve_def)

lemma latency_score_bounds: "0 \<le> latency_score l" "latency_score l \<le> 1"
  by (auto simp: latency_score_def latency_curve_bounds split: option.split)

lemma latency_curve_antimono: "ms \<le> ms' \<Longrightarrow> latency_curve ms' \<le> latency_curve ms"
proof -
  assume le: "ms \<le> ms'"
  have "round64 (ms - 50) \<le> round64 (ms' - 50)" using le by (intro f64.rnd_mono) simp
  then have "round64 (round64 (ms - 50) / 450) \<le> round64 (round64 (ms' - 50) / 450)"
    by (rule f64.rnd_mono [OF divide_right_mono]) simp
  then have "round64 (1 - round64 (round64 (ms' - 50) / 450)) \<le> round64 (1 - round64 (round64 (ms - 50) / 450))"
    by (rule f64.rnd_mono [OF diff_left_mono])
  then show ?thesis unfolding latency_curve_def f64_ops by (intro fclamp_mono) simp_all
qed

definition score01_of :: "HealthSignals \<Rightarrow> f64" where
  "score01_of s =
     fadd (fmul W_REACHABILITY (co_reachability (components_of s))) (fmul W_LATENCY (co_latency (components_of s)))"

lemma nh_score_eq: "nh_score (score_node s) = round_as_u32 (fmul (score01_of s) 100)"
  by (simp add: score_node_def score01_of_def Let_def)

lemma round_as_u32_mono: "x \<le> y \<Longrightarrow> round_as_u32 x \<le> round_as_u32 y"
  unfolding round_as_u32_def by (intro nat_mono min.mono f64_round_mono) simp_all

lemma score01_bounds: "0 \<le> score01_of s" "score01_of s \<le> 1"
proof -
  have c: "0 \<le> co_reachability (components_of s)" "co_reachability (components_of s) \<le> 1"
    "0 \<le> co_latency (components_of s)" "co_latency (components_of s) \<le> 1"
    using fclamp_bounds [of 0 1] latency_score_bounds by (simp_all add: components_of_def)
  show "0 \<le> score01_of s"
    unfolding score01_of_def fadd_def fmul_def using c weights_nonneg
    by (intro f64.rnd_nonneg add_nonneg_nonneg mult_nonneg_nonneg)
  have "score01_of s \<le> fadd (fmul W_REACHABILITY 1) (fmul W_LATENCY 1)"
    unfolding score01_of_def using c weights_nonneg by (intro fadd_mono fmul_mono_right)
  also have "\<dots> = 1" by code_simp
  finally show "score01_of s \<le> 1" .
qed

lemma round_as_u32_100: "round_as_u32 (fmul 1 100) = 100"
  by code_simp

text \<open>
  A node's health score is between 0 and 100 for every input, does not decrease with
  reachability, does not increase with measured latency, and carries the label of its
  thresholds.
\<close>

theorem score_node_bounds_monotone:
  assumes "hs_reachability s \<le> hs_reachability s'"
    and "hs_latency_ms s = Some ms" "hs_latency_ms s' = Some ms'" "0 < ms'" "ms' \<le> ms"
  shows "nh_score (score_node s) \<le> nh_score (score_node s')
    \<and> nh_score (score_node s') \<le> 100 \<and> nh_label (score_node s') = label (nh_score (score_node s'))"
proof -
  have "co_reachability (components_of s) \<le> co_reachability (components_of s')"
    unfolding components_of_def using assms(1) by (simp add: fclamp_mono)
  moreover have "co_latency (components_of s) \<le> co_latency (components_of s')"
    using assms latency_curve_antimono by (simp add: components_of_def latency_score_def)
  ultimately have "score01_of s \<le> score01_of s'"
    unfolding score01_of_def using weights_nonneg by (intro fadd_mono fmul_mono_right)
  then have "nh_score (score_node s) \<le> nh_score (score_node s')"
    unfolding nh_score_eq by (intro round_as_u32_mono fmul_mono_left) simp_all
  moreover have "nh_score (score_node s') \<le> round_as_u32 (fmul 1 100)"
    unfolding nh_score_eq using score01_bounds by (intro round_as_u32_mono fmul_mono_left) simp_all
  ultimately show ?thesis
    by (simp add: round_as_u32_100) (simp add: score_node_def Let_def)
qed

theorem score_node_bounds_monotone_witness:
  "nh_score (score_node \<lparr>hs_reachability = 1 / 2, hs_latency_ms = Some 400\<rparr>)
     \<le> nh_score (score_node \<lparr>hs_reachability = 1, hs_latency_ms = Some 80\<rparr>)"
  using score_node_bounds_monotone [of "\<lparr>hs_reachability = 1 / 2, hs_latency_ms = Some 400\<rparr>"
      "\<lparr>hs_reachability = 1, hs_latency_ms = Some 80\<rparr>" 400 80] by simp

section \<open>The median of the mesh\<close>

lemma nearest_rank_less: "0 < n \<Longrightarrow> nearest_rank p n < n"
  by (simp add: nearest_rank_def Let_def)

lemma nearest_rank_50: "0 < n \<Longrightarrow> n < 2 ^ 53 \<Longrightarrow> nearest_rank 50 n = (n - 1) div 2"
proof -
  assume n: "0 < n" "n < 2 ^ 53"
  have half: "fdiv (of_nat 50) 100 = 1 / 2" by code_simp
  have rn: "round64 (of_nat n) = of_nat n" using n(2) by (intro round64_fixed is_f64_of_nat) simp
  have "round64 (of_nat n / 2) = of_nat n / 2"
    using n(2) by (intro round64_exact [of _ "int n" "- 1"]) (simp_all add: power_int_minus field_simps)
  then have "fmul (1 / 2) (of_nat n) = of_nat n / 2" by (simp add: fmul_def)
  then have "nearest_rank 50 n = nat (max 0 (min (\<lceil>of_nat n / (2 :: rat)\<rceil> - 1) (int n - 1)))"
    unfolding nearest_rank_def half rn Let_def by (simp only:)
  moreover have "\<lceil>of_nat n / (2 :: rat)\<rceil> = (int n + 1) div 2"
    by (auto simp: ceiling_eq_iff)
  ultimately show ?thesis using n by (auto simp: zdiv_int nat_div_distrib)
qed

lemma percentile_in: "xs \<noteq> [] \<Longrightarrow> percentile xs p \<in> set xs"
  by (simp add: percentile_def nearest_rank_less)

lemma sorted_rank_counts:
  fixes xs :: "'a::linorder list"
  assumes "sorted xs" "i < length xs"
  shows "i + 1 \<le> length (filter (\<lambda>x. x \<le> xs ! i) xs)" "length xs - i \<le> length (filter (\<lambda>x. xs ! i \<le> x) xs)"
proof -
  have lo: "\<forall>x \<in> set (take (i + 1) xs). x \<le> xs ! i"
    using assms by (auto simp: in_set_conv_nth less_Suc_eq_le intro!: sorted_nth_mono)
  have "length (filter (\<lambda>x. x \<le> xs ! i) xs)
      = length (filter (\<lambda>x. x \<le> xs ! i) (take (i + 1) xs)) + length (filter (\<lambda>x. x \<le> xs ! i) (drop (i + 1) xs))"
    by (simp flip: filter_append length_append)
  then show "i + 1 \<le> length (filter (\<lambda>x. x \<le> xs ! i) xs)"
    using lo assms(2) by (simp add: filter_True [of "take (Suc i) xs"])
  have hi: "\<forall>x \<in> set (drop i xs). xs ! i \<le> x"
    using assms by (auto simp: in_set_conv_nth intro!: sorted_nth_mono)
  have "length (filter (\<lambda>x. xs ! i \<le> x) xs)
      = length (filter (\<lambda>x. xs ! i \<le> x) (take i xs)) + length (filter (\<lambda>x. xs ! i \<le> x) (drop i xs))"
    by (simp flip: filter_append length_append)
  then show "length xs - i \<le> length (filter (\<lambda>x. xs ! i \<le> x) xs)"
    using hi by (simp add: filter_True [of "drop i xs"])
qed

lemma sort_eq_Nil: "sort xs = [] \<longleftrightarrow> xs = []"
  by (metis length_0_conv length_sort)

lemma length_filter_sort: "length (filter P (sort xs)) = length (filter P xs)"
  by (metis filter_sort length_sort)

lemma median_counts:
  fixes xs :: "'a::{linorder,zero} list"
  assumes "xs \<noteq> []" "length xs < 2 ^ 53"
  shows "length xs \<le> 2 * length (filter (\<lambda>x. x \<le> percentile (sort xs) 50) xs)"
    and "length xs \<le> 2 * length (filter (\<lambda>x. percentile (sort xs) 50 \<le> x) xs)"
proof -
  let ?n = "length xs"
  let ?i = "(?n - 1) div 2"
  have m: "percentile (sort xs) 50 = sort xs ! ?i"
    using assms nearest_rank_50 [of ?n] by (auto simp: percentile_def sort_eq_Nil)
  have "0 < ?n" using assms(1) by simp
  then have i: "?i < length (sort xs)" by (simp only: length_sort)
  note c = sorted_rank_counts [OF sorted_sort i, unfolded length_filter_sort length_sort]
  show "?n \<le> 2 * length (filter (\<lambda>x. x \<le> percentile (sort xs) 50) xs)" unfolding m using c(1) by linarith
  show "?n \<le> 2 * length (filter (\<lambda>x. percentile (sort xs) 50 \<le> x) xs)" unfolding m using c(2) assms(1) by linarith
qed

definition dist_total :: "Distribution \<Rightarrow> nat" where
  "dist_total d = di_healthy d + di_degraded d + di_impaired d + di_critical d + di_offline d"

lemma label_cases: "label n \<in> {''healthy'', ''degraded'', ''impaired'', ''critical''}"
  by (simp add: label_def)

lemma fold_count_label:
  assumes "\<forall>x \<in> set xs. f x \<in> {''healthy'', ''degraded'', ''impaired'', ''critical'', ''offline''}"
  shows "dist_total (fold (\<lambda>x. count_label (f x)) xs d) = dist_total d + length xs"
  using assms
proof (induction xs arbitrary: d)
  case (Cons x xs)
  have "dist_total (count_label (f x) d) = dist_total d + 1"
    using Cons.prems by (auto simp: count_label_def dist_total_def)
  then show ?case using Cons by simp
qed simp

text \<open>
  The mesh score is a true median, so good nodes cannot mask a bad half: the score reported
  is the median node score scaled to 0..1, at least half of the nodes score no more than it
  and at least half no less, and every scored node appears in exactly one bucket of the
  distribution.
\<close>

theorem mesh_health_is_median:
  assumes "signals \<noteq> []" "length signals < 2 ^ 53"
  defines "healths \<equiv> map score_node signals"
  shows "\<exists>median \<in> nh_score ` set healths.
      mh_score (mesh_health healths) = round3 (fdiv (of_nat median) 100)
      \<and> (3 \<le> length healths \<longrightarrow> mh_label (mesh_health healths) = label median)
      \<and> length healths \<le> 2 * length (filter (\<lambda>h. nh_score h \<le> median) healths)
      \<and> length healths \<le> 2 * length (filter (\<lambda>h. median \<le> nh_score h) healths)
      \<and> dist_total (mh_distribution (mesh_health healths)) = length healths"
proof -
  let ?xs = "map nh_score healths"
  let ?m = "percentile (sort ?xs) 50"
  have ne: "?xs \<noteq> []" "length ?xs < 2 ^ 53" using assms by (simp_all add: healths_def)
  have "?m \<in> nh_score ` set healths"
    using percentile_in [of "sort ?xs" 50] ne(1) by (simp add: sort_eq_Nil)
  moreover have len: "length (filter P ?xs) = length (filter (\<lambda>h. P (nh_score h)) healths)" for P
    by (simp add: filter_map o_def)
  have "length healths \<le> 2 * length (filter (\<lambda>h. nh_score h \<le> ?m) healths)"
    "length healths \<le> 2 * length (filter (\<lambda>h. ?m \<le> nh_score h) healths)"
    using median_counts [OF ne] unfolding len by simp_all
  moreover have "dist_total (fold (\<lambda>h. count_label (nh_label h)) healths default_distribution) = length healths"
    using fold_count_label [of healths nh_label default_distribution] label_cases
    by (auto simp: healths_def score_node_def Let_def dist_total_def default_distribution_def)
  ultimately show ?thesis using ne(1)
    by (intro bexI [of _ ?m]) (simp_all add: mesh_health_def Let_def MIN_MESH_SAMPLE_def)
qed

theorem mesh_health_is_median_witness:
  "let healths = map score_node [\<lparr>hs_reachability = 1, hs_latency_ms = Some 20\<rparr>, \<lparr>hs_reachability = 0, hs_latency_ms = None\<rparr>,
        \<lparr>hs_reachability = 0, hs_latency_ms = Some 600\<rparr>]
   in \<exists>median \<in> nh_score ` set healths. length healths \<le> 2 * length (filter (\<lambda>h. nh_score h \<le> median) healths)
        \<and> mh_label (mesh_health healths) = label median"
  using mesh_health_is_median [of "[\<lparr>hs_reachability = 1, hs_latency_ms = Some 20\<rparr>, \<lparr>hs_reachability = 0, hs_latency_ms = None\<rparr>,
        \<lparr>hs_reachability = 0, hs_latency_ms = Some 600\<rparr>]"]
  unfolding Let_def by fastforce

section \<open>Votes across evaluators\<close>

text \<open>One stored row per evaluator, as the observation table keeps them.\<close>

definition one_vote_each :: "HealthObservation list \<Rightarrow> bool" where
  "one_vote_each obs \<longleftrightarrow> distinct (map ho_evaluator_did obs)"

lemma evaluator_count_length: "one_vote_each obs \<Longrightarrow> evaluator_count obs = length obs"
  unfolding one_vote_each_def evaluator_count_def
  by (metis distinct_card length_map list.set_map)

abbreviation ballot :: "HealthObservation list \<Rightarrow> string \<Rightarrow> f64 list" where
  "ballot obs l \<equiv> map ho_score (filter (\<lambda>v. label01 (ho_score v) = l) obs)"

lemma votes_lookup:
  "map_of (votes obs) l = (if ballot obs l = [] then None else Some (ballot obs l))"
proof (induction obs rule: rev_induct)
  case (snoc v obs)
  have "votes (obs @ [v]) = hm_push (label01 (ho_score v)) (ho_score v) (votes obs)" by (simp add: votes_def)
  then show ?case using snoc by (auto simp: map_of_hm_push)
qed (simp add: votes_def)

lemma hm_wf_votes: "hm_wf (votes obs)"
  by (induction obs rule: rev_induct) (simp_all add: votes_def)

lemma ballots_disjoint:
  assumes "l \<noteq> l'"
  shows "length (ballot obs l) + length (ballot obs l') \<le> length obs"
  using assms by (induction obs) auto

lemma find_iter_votes:
  assumes "iteration_order iter" "(l, vs) \<in> set (votes obs)" "length obs < 2 * length vs" "needed = length obs div 2 + 1"
  shows "find (\<lambda>(_, v). length v \<ge> needed) (iter (votes obs)) = Some (l, vs)"
proof -
  let ?P = "\<lambda>(_ :: string, v :: f64 list). length v \<ge> needed"
  have set_iter: "set (iter (votes obs)) = set (votes obs)"
    using assms(1) by (metis iteration_order_def set_mset_mset)
  have entry: "vs' = ballot obs l'" if "(l', vs') \<in> set (votes obs)" for l' vs'
    using that hm_wf_votes [of obs] votes_lookup [of obs l'] by (auto simp: hm_wf_def split: if_splits)
  have hit: "?P (l, vs)" using assms(3,4) by simp
  have only: "x = (l, vs)" if "x \<in> set (iter (votes obs))" "?P x" for x
  proof -
    obtain l' vs' where x: "x = (l', vs')" by (cases x)
    then have v: "vs' = ballot obs l'" "vs = ballot obs l" using that(1) assms(2) entry by (auto simp: set_iter)
    have big: "length vs' \<ge> needed" using that(2) x by simp
    then have "l' = l" using ballots_disjoint [of l' l obs] assms(3,4) unfolding v by (cases "l' = l") auto
    then show ?thesis using x v by simp
  qed
  have "find ?P (iter (votes obs)) \<noteq> None" using assms(2) hit set_iter by (auto simp: find_None_set)
  then obtain x where "find ?P (iter (votes obs)) = Some x" by blast
  then show ?thesis using only find_Some_set by fastforce
qed

lemma max_by_key_None: "max_by_key key xs = None \<longleftrightarrow> xs = []"
  by (cases xs) (auto split: option.splits)

text \<open>
  A strict majority decides: with one vote per evaluator and a quorum of three, if more than half of the
  evaluators give a score in the same label band, the node's score is the median of exactly
  those votes, it is not contested, and the iteration order of the vote table does not
  matter. Without a majority the freshest vote decides and the node is marked contested.
\<close>

theorem resolve_node_majority:
  assumes "iteration_order iter" "one_vote_each obs" "3 \<le> length obs" "length obs < 2 * length (ballot obs l)"
  shows "rn_resolution (resolve_node iter obs) = ''majority''
    \<and> rn_score (resolve_node iter obs) = round3 (percentile (sort (ballot obs l)) 50)
    \<and> \<not> rn_contested (resolve_node iter obs) \<and> rn_evaluators (resolve_node iter obs) = length obs"
proof -
  have "(l, ballot obs l) \<in> set (votes obs)"
    using votes_lookup [of obs l] assms(4) by (auto intro: map_of_SomeD split: if_splits)
  from find_iter_votes [OF assms(1) this assms(4) refl]
  have f: "find (\<lambda>(_, v). length v \<ge> length obs div 2 + 1) (iter (votes obs)) = Some (l, ballot obs l)" .
  obtain fr where fr: "max_by_key ho_evaluated_at_ms obs = Some fr"
    using assms(3) max_by_key_None [of ho_evaluated_at_ms obs] by fastforce
  show ?thesis
    using f fr assms(3) evaluator_count_length [OF assms(2)]
    by (simp add: resolve_node_def Let_def HEALTH_QUORUM_def)
qed

definition sample_vote :: "string \<Rightarrow> f64 \<Rightarrow> int \<Rightarrow> HealthObservation" where
  "sample_vote ev sc t = \<lparr>ho_node_id = ''n'', ho_evaluator_did = ev, ho_score = sc, ho_evaluated_at_ms = t\<rparr>"

theorem resolve_node_majority_witness:
  "let obs = [sample_vote ''a'' (3 / 4) 1, sample_vote ''b'' (7 / 8) 2, sample_vote ''c'' (3 / 4) 3]
   in rn_resolution (resolve_node (\<lambda>m. m) obs) = ''majority'' \<and> \<not> rn_contested (resolve_node (\<lambda>m. m) obs)"
proof -
  let ?obs = "[sample_vote ''a'' (3 / 4) 1, sample_vote ''b'' (7 / 8) 2, sample_vote ''c'' (3 / 4) 3]"
  have "one_vote_each ?obs" by code_simp
  moreover have "length ?obs < 2 * length (ballot ?obs ''degraded'')" by code_simp
  ultimately show ?thesis
    using resolve_node_majority [of "\<lambda>m. m" ?obs "''degraded''"] by (simp add: iteration_order_def Let_def)
qed

text \<open>
  The resolved label can contradict a unanimous vote: rounding the median to three digits can carry it over
  a threshold, so three evaluators whose scores all fall in the degraded band resolve to a
  healthy node.
\<close>

theorem majority_label_can_flip:
  "let s = 443023 / 524288;
       obs = [sample_vote ''a'' s 1, sample_vote ''b'' s 2, sample_vote ''c'' s 3]
   in map (\<lambda>v. label01 (ho_score v)) obs = [''degraded'', ''degraded'', ''degraded'']
      \<and> rn_resolution (resolve_node (\<lambda>m. m) obs) = ''majority''
      \<and> rn_label (resolve_node (\<lambda>m. m) obs) = ''healthy''"
proof -
  define s :: f64 where "s = 443023 / 524288"
  have l: "label01 s = ''degraded''" "label01 (round3 s) = ''healthy''" unfolding s_def by code_simp+
  have p: "percentile (sort [s, s, s]) 50 = s" unfolding s_def by code_simp
  let ?obs = "[sample_vote ''a'' s 1, sample_vote ''b'' s 2, sample_vote ''c'' s 3]"
  have v: "votes ?obs = [(''degraded'', [s, s, s])]"
    by (simp add: votes_def sample_vote_def l hm_push_def hm_insert_def)
  have e: "evaluator_count ?obs = 3" by (simp add: evaluator_count_def sample_vote_def)
  have "resolve_node (\<lambda>m. m) ?obs = \<lparr>rn_score = round3 s, rn_label = ''healthy'', rn_resolution = ''majority'',
      rn_evaluators = 3, rn_contested = False\<rparr>"
    using p l by (simp add: resolve_node_def Let_def v e HEALTH_QUORUM_def)
  then show ?thesis unfolding s_def [symmetric] by (simp add: Let_def sample_vote_def l)
qed

text \<open>
  The aggregate is not a function of the set of snapshots alone: when two evaluators report at the same
  time and there is no majority, the later row of the table wins, so two replicas that
  received the same snapshots in different orders resolve the node differently.
\<close>

theorem resolve_node_depends_on_order:
  "let a = sample_vote ''a'' 1 5; b = sample_vote ''b'' (1 / 4) 5
   in set [a, b] = set [b, a]
      \<and> rn_label (resolve_node (\<lambda>m. m) [a, b]) = ''critical'' \<and> rn_label (resolve_node (\<lambda>m. m) [b, a]) = ''healthy''
      \<and> fm_score (federated_mesh_health (\<lambda>m. m) (\<lambda>m. m) [a, b]) \<noteq> fm_score (federated_mesh_health (\<lambda>m. m) (\<lambda>m. m) [b, a])"
proof -
  have "rn_label (resolve_node (\<lambda>m. m) [sample_vote ''a'' 1 5, sample_vote ''b'' (1 / 4) 5]) = ''critical''
     \<and> rn_label (resolve_node (\<lambda>m. m) [sample_vote ''b'' (1 / 4) 5, sample_vote ''a'' 1 5]) = ''healthy''
     \<and> fm_score (federated_mesh_health (\<lambda>m. m) (\<lambda>m. m) [sample_vote ''a'' 1 5, sample_vote ''b'' (1 / 4) 5])
         \<noteq> fm_score (federated_mesh_health (\<lambda>m. m) (\<lambda>m. m) [sample_vote ''b'' (1 / 4) 5, sample_vote ''a'' 1 5])"
    by code_simp
  then show ?thesis by (auto simp: Let_def)
qed

end
