(* ===== verification/Selection.thy ===== *)
theory Selection
  imports Types Validate Reputation
begin

text \<open>
  Admission and ranking of discovery candidates: the pure policy of
  \<open>src/behavior_contract.rs\<close> and its use in \<open>src/discovery_policy.rs\<close>. Scores are computed in
  binary64, in the order in which the source writes the operations.
\<close>

section \<open>Ranking\<close>

record RankingInput =
  ri_availability :: f64
  ri_load :: f64
  ri_active_jobs :: u32
  ri_max_concurrent :: u32
  ri_region :: string
  ri_reputation :: "f64 option"
  ri_models :: "string list"
  ri_pricing :: "f64 option"
  ri_sdk_current :: bool
  ri_cx_key :: bool

definition lit :: "rat \<Rightarrow> f64" where
  "lit x = round64 x"

definition bool_f64 :: "bool \<Rightarrow> f64" where
  "bool_f64 b = (if b then 1 else 0)"

definition load_part :: "RankingInput \<Rightarrow> f64" where
  "load_part node = fsub 1 (min (ri_load node) 1)"

definition capacity_part :: "RankingInput \<Rightarrow> f64" where
  "capacity_part node =
     (if ri_max_concurrent node > 0
      then max (fsub 1 (fdiv (f64_of_word (ri_active_jobs node)) (f64_of_word (ri_max_concurrent node)))) 0
      else 0)"

definition readiness :: "RankingInput \<Rightarrow> f64" where
  "readiness node =
     max (fsub (fsub 1 (if ri_sdk_current node then 0 else lit (8 / 100))) (if ri_cx_key node then 0 else lit (7 / 100)))
       (lit (75 / 100))"

definition ranking_score :: "RankingInput \<Rightarrow> string option \<Rightarrow> string option \<Rightarrow> f64" where
  "ranking_score node requested_region requested_model =
     (let load = load_part node;
          capacity = capacity_part node;
          region = (case requested_region of None \<Rightarrow> 1 / 2 | Some wanted \<Rightarrow> bool_f64 (wanted = ri_region node));
          reputation = unwrap_or (1 / 2) (ri_reputation node);
          score =
            (case requested_model of
               Some model \<Rightarrow>
                 (let model_match = bool_f64 (model \<in> set (ri_models node));
                      price = (case ri_pricing node of None \<Rightarrow> 1 / 2 | Some p \<Rightarrow> max (fsub 1 (fdiv p 10)) 0)
                  in fadd (fadd (fadd (fadd (fadd (fadd
                       (fmul (lit (25 / 100)) (ri_availability node))
                       (fmul (lit (20 / 100)) load))
                       (fmul (lit (15 / 100)) capacity))
                       (fmul (lit (10 / 100)) region))
                       (fmul (lit (10 / 100)) reputation))
                       (fmul (lit (10 / 100)) price))
                       (fmul (lit (10 / 100)) model_match))
             | None \<Rightarrow>
                 fadd (fadd (fadd (fadd
                   (fmul (lit (35 / 100)) (ri_availability node))
                   (fmul (lit (28 / 100)) load))
                   (fmul (lit (18 / 100)) capacity))
                   (fmul (lit (9 / 100)) region))
                   (fmul (lit (10 / 100)) reputation))
      in fmul score (readiness node))"

section \<open>Eligibility\<close>

record EligibilityInput =
  ei_health_models :: "string list option"
  ei_models :: "string list"
  ei_backend_state :: "string option"
  ei_reputation :: f64
  ei_tasks :: u64

definition eligible :: "EligibilityInput \<Rightarrow> string option \<Rightarrow> string option \<Rightarrow> f64 \<Rightarrow> bool" where
  "eligible node model qos min_reputation \<longleftrightarrow>
     (if ei_health_models node = Some [] \<or> ei_backend_state node \<in> {Some ''draining'', Some ''unavailable''} then False
      else
        (let models = unwrap_or (ei_models node) (ei_health_models node)
         in if (case model of None \<Rightarrow> False | Some wanted \<Rightarrow> wanted \<notin> set models) then False
            else if qos = Some ''realtime'' \<and> (ei_tasks node < 1000 \<or> ei_reputation node < lit (8 / 10)) then False
            else if qos = Some ''interactive'' \<and> ei_tasks node < 100 then False
            else min_reputation \<le> 0 \<or> min_reputation \<le> ei_reputation node))"

section \<open>Price caps\<close>

text \<open>
  \<open>str::parse::<f64>\<close> on text of digits and dots: at most one dot and at least one digit.
  Leading and trailing dots are accepted.
\<close>

definition decimal_value :: "string \<Rightarrow> rat" where
  "decimal_value s =
     (case split_char CHR ''.'' s of
        [i] \<Rightarrow> of_int (digits_value i)
      | [i, f] \<Rightarrow> of_int (digits_value (i @ f)) / 10 ^ length f
      | _ \<Rightarrow> 0)"

definition parse_decimal :: "string \<Rightarrow> f64 option" where
  "parse_decimal s =
     (if length (split_char CHR ''.'' s) \<le> 2 \<and> (\<exists>c \<in> set s. is_ascii_digit c) \<and> (\<forall>c \<in> set s. is_ascii_digit c \<or> c = CHR ''.'')
      then Some (round64 (decimal_value s)) else None)"

text \<open>
  The sizes in a model name: for every \<open>b\<close> or \<open>B\<close>, the digits and dots right before it, when
  they are a number. The first argument is the text before the position, reversed.
\<close>

fun sizes_in :: "string \<Rightarrow> string \<Rightarrow> f64 list" where
  "sizes_in before [] = []"
| "sizes_in before (c # s) =
     (let found = (if c = CHR ''b'' \<or> c = CHR ''B''
                   then parse_decimal (rev (takeWhile (\<lambda>d. is_ascii_digit d \<or> d = CHR ''.'') before)) else None)
      in (case found of Some v \<Rightarrow> [v] | None \<Rightarrow> []) @ sizes_in (c # before) s)"

definition maximum_size :: "string list \<Rightarrow> f64 option" where
  "maximum_size models =
     fold (\<lambda>v m. Some (case m of None \<Rightarrow> v | Some current \<Rightarrow> max current v)) (concat (map (sizes_in []) models)) None"

definition size_weight :: "f64 option \<Rightarrow> f64" where
  "size_weight maximum =
     (case maximum of
        None \<Rightarrow> 1
      | Some v \<Rightarrow>
          if v < 1 then lit (5 / 100) else if v < 10 then 1 else if v < 20 then 2
          else if v < 50 then 13 / 2 else if v < 85 then 32 else 75)"

definition pricing_multiplier :: "string list \<Rightarrow> f64 \<Rightarrow> f64" where
  "pricing_multiplier models declared = min declared (fmul (size_weight (maximum_size models)) 3)"

section \<open>Blocked addresses\<close>

definition trim_brackets :: "string \<Rightarrow> string" where
  "trim_brackets s =
     (let drop_brackets = dropWhile (\<lambda>c. c = CHR ''['' \<or> c = CHR '']'')
      in rev (drop_brackets (rev (drop_brackets s))))"

fun ip_blocked :: "IpAddr \<Rightarrow> bool" where
  "ip_blocked (V4 ip) \<longleftrightarrow> v4_is_loopback ip \<or> v4_is_unspecified ip \<or> v4_is_private ip \<or> v4_is_link_local ip"
| "ip_blocked (V6 ip) \<longleftrightarrow> v6_is_loopback ip \<or> v6_is_unspecified ip \<or> v6_is_unique_local ip \<or> v6_is_unicast_link_local ip"

definition blocked_ip :: "string \<Rightarrow> bool" where
  "blocked_ip v \<longleftrightarrow> (case parse_ip (trim_brackets v) of None \<Rightarrow> False | Some ip \<Rightarrow> ip_blocked ip)"

section \<open>Selecting and ranking\<close>

record SelectionRequest =
  sr_model :: "string option"
  sr_qos :: "string option"
  sr_region :: "string option"
  sr_min_reputation :: f64
  sr_limit :: nat
  sr_cip_capable :: bool

definition validate_qos :: "string option \<Rightarrow> string + unit" where
  "validate_qos qos =
     (if (case qos of None \<Rightarrow> False | Some v \<Rightarrow> v \<notin> {''realtime'', ''interactive'', ''batch'', ''best-effort''})
      then Inl ''qos must be realtime, interactive, batch, or best-effort'' else Inr ())"

definition validate_min_reputation :: "f64 option \<Rightarrow> string + unit" where
  "validate_min_reputation v =
     (if (case v of None \<Rightarrow> False | Some s \<Rightarrow> \<not> (0 \<le> s \<and> s \<le> 1)) then Inl ''min_reputation must be in [0, 1]'' else Inr ())"

definition eligibility_input :: "Node \<Rightarrow> EligibilityInput" where
  "eligibility_input n =
     \<lparr>ei_health_models = n_health_models n, ei_models = n_models n,
      ei_backend_state = rp_backend_state (n_routing_policy n), ei_reputation = n_reputation_score n,
      ei_tasks = n_completed_tasks_count n\<rparr>"

definition ranking_input :: "(string option \<Rightarrow> bool) \<Rightarrow> Node \<Rightarrow> RankingInput" where
  "ranking_input sdk_current n =
     \<lparr>ri_availability = rp_availability_score (n_routing_policy n), ri_load = n_load n, ri_active_jobs = n_active_jobs n,
      ri_max_concurrent = n_max_concurrent n, ri_region = n_region n, ri_reputation = Some (n_reputation_score n),
      ri_models = unwrap_or (n_models n) (n_health_models n), ri_pricing = rp_pricing_credits_per_1000 (n_routing_policy n),
      ri_sdk_current = sdk_current (effective_sdk_compatibility_version n), ri_cx_key = (n_public_key n \<noteq> None)\<rparr>"

definition selectable :: "SelectionRequest \<Rightarrow> Node \<Rightarrow> bool" where
  "selectable req n \<longleftrightarrow>
     (\<not> sr_cip_capable req \<or> n_cip_conformance_level n = Some ''CIP-Provider'')
     \<and> n_health_models n \<noteq> Some []
     \<and> eligible (eligibility_input n) (sr_model req) (sr_qos req) (sr_min_reputation req)"

definition rank_node :: "(string option \<Rightarrow> bool) \<Rightarrow> SelectionRequest \<Rightarrow> Node \<Rightarrow> Node" where
  "rank_node sdk_current req n =
     n\<lparr>n_score := ranking_score (ranking_input sdk_current n) (sr_region req) (sr_model req)\<rparr>"

definition select_and_rank :: "Node list \<Rightarrow> SelectionRequest \<Rightarrow> (string option \<Rightarrow> bool) \<Rightarrow> Node list" where
  "select_and_rank nodes req sdk_current =
     take (sr_limit req)
       (sort_key (\<lambda>n. (- n_score n, n_node_id n)) (map (rank_node sdk_current req) (filter (selectable req) nodes)))"

section \<open>Correctness of the selection\<close>

lemma n_node_id_rank [simp]: "n_node_id (rank_node sdk req n) = n_node_id n"
  by (simp add: rank_node_def)

abbreviation rank_key :: "Node \<Rightarrow> rat \<times> string" where
  "rank_key n \<equiv> (- n_score n, n_node_id n)"

lemma sorted_take_rest:
  assumes "sorted (map key xs)" "x \<in> set (take k xs)" "y \<in> set (drop k xs)"
  shows "key x \<le> key y"
proof -
  have "sorted (map key (take k xs @ drop k xs))" using assms(1) by simp
  then show ?thesis using assms(2,3) by (auto simp: sorted_append simp del: append_take_drop_id)
qed

text \<open>
  C26. Selection is sound, total and deterministic: the answer consists of rescored selectable nodes, ordered by
  descending score and then by node id, as many as the limit allows; a selectable node that
  is left out ranks behind every node returned; and for distinct node ids the answer does not
  depend on the order of the candidates.
\<close>

theorem select_and_rank_correct:
  assumes "distinct (map n_node_id nodes)" and "mset nodes' = mset nodes"
  shows "(\<forall>n \<in> set (select_and_rank nodes req sdk). \<exists>n0 \<in> set nodes. selectable req n0 \<and> n = rank_node sdk req n0)
    \<and> sorted (map rank_key (select_and_rank nodes req sdk))
    \<and> length (select_and_rank nodes req sdk) = min (sr_limit req) (length (filter (selectable req) nodes))
    \<and> (\<forall>n0 \<in> set nodes. selectable req n0 \<longrightarrow> rank_node sdk req n0 \<notin> set (select_and_rank nodes req sdk) \<longrightarrow>
         (\<forall>n \<in> set (select_and_rank nodes req sdk). rank_key n \<le> rank_key (rank_node sdk req n0)))
    \<and> select_and_rank nodes' req sdk = select_and_rank nodes req sdk"
proof -
  let ?xs = "map (rank_node sdk req) (filter (selectable req) nodes)"
  let ?ys = "map (rank_node sdk req) (filter (selectable req) nodes')"
  let ?sx = "sort_key rank_key ?xs"
  have m: "mset ?ys = mset ?xs" by (metis assms(2) mset_filter mset_map)
  have "distinct (map n_node_id ?xs)"
    using assms(1) by (simp add: o_def) (metis (no_types, lifting) distinct_map_filter)
  then have "inj_on rank_key (set ?xs)" by (auto simp: distinct_map inj_on_def)
  then have inj: "inj_on rank_key (set ?ys)" using m by (metis set_mset_mset)
  have eq: "sort_key rank_key ?ys = ?sx"
    by (rule sort_key_inj_key_eq [OF _ inj]) (simp_all only: mset_sort m sorted_sort_key)
  have left: "rank_key n \<le> rank_key (rank_node sdk req n0)"
    if "n0 \<in> set nodes" "selectable req n0" "rank_node sdk req n0 \<notin> set (take (sr_limit req) ?sx)"
      "n \<in> set (take (sr_limit req) ?sx)" for n n0
  proof -
    have "rank_node sdk req n0 \<in> set ?sx" using that(1,2) by simp
    then have "rank_node sdk req n0 \<in> set (drop (sr_limit req) ?sx)"
      using that(3) by (metis UnE append_take_drop_id set_append)
    then show ?thesis using sorted_take_rest [OF sorted_sort_key that(4)] by blast
  qed
  have srt: "sorted (map rank_key (take (sr_limit req) ?sx))"
    unfolding take_map [symmetric] by (rule sorted_wrt_take [OF sorted_sort_key])
  have snd': "\<forall>n \<in> set (take (sr_limit req) ?sx). \<exists>n0 \<in> set nodes. selectable req n0 \<and> n = rank_node sdk req n0"
    by (auto dest!: in_set_takeD)
  show ?thesis
    unfolding select_and_rank_def eq using left srt snd' by (simp add: min.commute)
qed

definition sample_request :: SelectionRequest where
  "sample_request = \<lparr>sr_model = None, sr_qos = None, sr_region = Some ''eu'', sr_min_reputation = 0, sr_limit = 5, sr_cip_capable = False\<rparr>"

theorem select_and_rank_correct_witness:
  "select_and_rank [blank_node ''b'', blank_node ''a''] sample_request (\<lambda>_. True)
     = select_and_rank [blank_node ''a'', blank_node ''b''] sample_request (\<lambda>_. True)"
  using select_and_rank_correct [of "[blank_node ''a'', blank_node ''b'']" "[blank_node ''b'', blank_node ''a'']" sample_request "\<lambda>_. True"]
  by (simp add: blank_node_def)

section \<open>Bounds and monotonicity of the ranking score\<close>

definition in_unit :: "f64 \<Rightarrow> bool" where
  "in_unit x \<longleftrightarrow> 0 \<le> x \<and> x \<le> 1"

definition ranking_ok :: "RankingInput \<Rightarrow> bool" where
  "ranking_ok node \<longleftrightarrow> in_unit (ri_availability node) \<and> 0 \<le> ri_load node
     \<and> (case ri_reputation node of None \<Rightarrow> True | Some r \<Rightarrow> in_unit r)
     \<and> (case ri_pricing node of None \<Rightarrow> True | Some p \<Rightarrow> 0 \<le> p)"

lemma lit_nonneg: "0 \<le> x \<Longrightarrow> 0 \<le> lit x"
  by (simp add: lit_def f64.rnd_nonneg)

lemma load_part_bounds: "0 \<le> ri_load node \<Longrightarrow> 0 \<le> load_part node \<and> load_part node \<le> 1"
  unfolding load_part_def fsub_def
  using f64.rnd_mono [of "1 - min (ri_load node) 1" 1] f64.rnd_nonneg [of "1 - min (ri_load node) 1"]
  by (simp add: f64.rnd_one)

lemma capacity_part_bounds: "0 \<le> capacity_part node \<and> capacity_part node \<le> 1"
proof -
  let ?q = "fdiv (f64_of_word (ri_active_jobs node)) (f64_of_word (ri_max_concurrent node))"
  have "0 \<le> ?q" unfolding fdiv_def by (intro f64.rnd_nonneg) simp
  then have "fsub 1 ?q \<le> 1" unfolding fsub_def by (intro f64.rnd_le_one) simp
  then show ?thesis by (simp add: capacity_part_def)
qed

lemma readiness_bounds: "0 \<le> readiness node" "readiness node \<le> 1"
proof -
  have "readiness node \<in> {1, fsub 1 (lit (8 / 100)), fsub 1 (lit (7 / 100)), fsub (fsub 1 (lit (8 / 100))) (lit (7 / 100)), lit (75 / 100)}"
    by (auto simp: readiness_def max_def fsub_def f64.rnd_one lit_def f64.rnd_idem)
  moreover have "0 \<le> fsub 1 (lit (8 / 100)) \<and> fsub 1 (lit (8 / 100)) \<le> 1
      \<and> 0 \<le> fsub 1 (lit (7 / 100)) \<and> fsub 1 (lit (7 / 100)) \<le> 1
      \<and> 0 \<le> fsub (fsub 1 (lit (8 / 100))) (lit (7 / 100)) \<and> fsub (fsub 1 (lit (8 / 100))) (lit (7 / 100)) \<le> 1
      \<and> 0 \<le> lit (75 / 100) \<and> lit (75 / 100) \<le> 1"
    by code_simp
  ultimately show "0 \<le> readiness node" "readiness node \<le> 1" by auto
qed

text \<open>The relation \<open>no_worse a b\<close>: \<open>b\<close> is at least as good as \<open>a\<close> in every ranked respect.\<close>

definition no_worse :: "RankingInput \<Rightarrow> RankingInput \<Rightarrow> bool" where
  "no_worse a b \<longleftrightarrow>
     ri_availability a \<le> ri_availability b \<and> ri_load b \<le> ri_load a
     \<and> ri_max_concurrent a = ri_max_concurrent b \<and> ri_active_jobs b \<le> ri_active_jobs a
     \<and> ri_region a = ri_region b \<and> ri_models a = ri_models b \<and> ri_pricing a = ri_pricing b
     \<and> unwrap_or (1 / 2) (ri_reputation a) \<le> unwrap_or (1 / 2) (ri_reputation b)
     \<and> ri_sdk_current a = ri_sdk_current b \<and> ri_cx_key a = ri_cx_key b"

lemma load_part_mono: "ri_load b \<le> ri_load a \<Longrightarrow> load_part a \<le> load_part b"
  unfolding load_part_def by (intro fsub_mono min.mono) simp_all

lemma capacity_part_mono:
  assumes "ri_max_concurrent a = ri_max_concurrent b" "ri_active_jobs b \<le> ri_active_jobs a"
  shows "capacity_part a \<le> capacity_part b"
proof (cases "ri_max_concurrent b > 0")
  case True
  then have pos: "0 < f64_of_word (ri_max_concurrent b)"
    unfolding f64_of_u32 of_nat_0_less_iff by (metis neq0_conv unat_eq_zero word_gt_0)
  have "fdiv (f64_of_word (ri_active_jobs b)) (f64_of_word (ri_max_concurrent b))
      \<le> fdiv (f64_of_word (ri_active_jobs a)) (f64_of_word (ri_max_concurrent b))"
    using pos assms(2) by (intro fdiv_mono f64_of_word_mono)
  then have "fsub 1 (fdiv (f64_of_word (ri_active_jobs a)) (f64_of_word (ri_max_concurrent b)))
      \<le> fsub 1 (fdiv (f64_of_word (ri_active_jobs b)) (f64_of_word (ri_max_concurrent b)))"
    by (intro fsub_mono) simp_all
  then show ?thesis using True assms(1) unfolding capacity_part_def by (auto intro: max.mono)
qed (simp add: capacity_part_def assms(1))

definition weighted :: "(f64 \<times> f64) list \<Rightarrow> f64" where
  "weighted ps = (case map (\<lambda>(w, x). fmul w x) ps of [] \<Rightarrow> 0 | t # ts \<Rightarrow> foldl fadd t ts)"

lemma foldl_fadd_mono:
  assumes "s \<le> s'" "list_all2 (\<lambda>x y. x \<le> y) ts ts'"
  shows "foldl fadd s ts \<le> foldl fadd s' ts'"
  using assms(2,1) by (induction arbitrary: s s' rule: list_all2_induct) (auto intro: fadd_mono)

lemma weighted_mono:
  assumes "list_all2 (\<lambda>(w, x) (w', x'). w = w' \<and> 0 \<le> w \<and> x \<le> x') ps qs"
  shows "weighted ps \<le> weighted qs"
proof -
  have "list_all2 (\<lambda>x y. x \<le> y) (map (\<lambda>(w, x). fmul w x) ps) (map (\<lambda>(w, x). fmul w x) qs)"
    using assms by (induction rule: list_all2_induct) (auto intro: fmul_mono_right)
  then show ?thesis unfolding weighted_def by (auto split: list.splits intro: foldl_fadd_mono)
qed

definition region_part :: "RankingInput \<Rightarrow> string option \<Rightarrow> f64" where
  "region_part node wanted = (case wanted of None \<Rightarrow> 1 / 2 | Some w \<Rightarrow> bool_f64 (w = ri_region node))"

definition price_part :: "RankingInput \<Rightarrow> f64" where
  "price_part node = (case ri_pricing node of None \<Rightarrow> 1 / 2 | Some p \<Rightarrow> max (fsub 1 (fdiv p 10)) 0)"

definition rank_terms :: "RankingInput \<Rightarrow> string option \<Rightarrow> string option \<Rightarrow> (f64 \<times> f64) list" where
  "rank_terms node wanted model =
     (case model of
        Some m \<Rightarrow>
          [(lit (25 / 100), ri_availability node), (lit (20 / 100), load_part node), (lit (15 / 100), capacity_part node),
           (lit (10 / 100), region_part node wanted), (lit (10 / 100), unwrap_or (1 / 2) (ri_reputation node)),
           (lit (10 / 100), price_part node), (lit (10 / 100), bool_f64 (m \<in> set (ri_models node)))]
      | None \<Rightarrow>
          [(lit (35 / 100), ri_availability node), (lit (28 / 100), load_part node), (lit (18 / 100), capacity_part node),
           (lit (9 / 100), region_part node wanted), (lit (10 / 100), unwrap_or (1 / 2) (ri_reputation node))])"

lemma ranking_score_weighted: "ranking_score node wanted model = fmul (weighted (rank_terms node wanted model)) (readiness node)"
  by (simp add: ranking_score_def rank_terms_def weighted_def region_part_def price_part_def Let_def split: option.split)

lemma rank_terms_unit:
  assumes "ranking_ok node"
  shows "\<forall>(w, x) \<in> set (rank_terms node wanted model). 0 \<le> w \<and> 0 \<le> x \<and> x \<le> 1"
proof -
  have price: "0 \<le> price_part node" "price_part node \<le> 1"
  proof -
    have "fsub 1 (fdiv p 10) \<le> 1" if "0 \<le> p" for p
      using that unfolding fsub_def fdiv_def by (intro f64.rnd_le_one) (simp add: f64.rnd_nonneg)
    then show "0 \<le> price_part node" "price_part node \<le> 1"
      using assms by (auto simp: price_part_def ranking_ok_def split: option.splits)
  qed
  have rep: "in_unit (unwrap_or (1 / 2) (ri_reputation node))"
    using assms by (auto simp: ranking_ok_def in_unit_def split: option.splits)
  show ?thesis
    using assms load_part_bounds [of node] capacity_part_bounds [of node] price rep
    by (auto simp: rank_terms_def ranking_ok_def in_unit_def region_part_def bool_f64_def lit_nonneg split: option.splits)
qed

lemma weighted_nonneg:
  assumes "\<forall>(w, x) \<in> set ps. 0 \<le> w \<and> 0 \<le> x"
  shows "0 \<le> weighted ps"
proof -
  have "\<forall>t \<in> set (map (\<lambda>(w, x). fmul w x) ps). 0 \<le> t" using assms by (auto intro: fmul_nonneg)
  moreover have "0 \<le> s \<Longrightarrow> \<forall>t \<in> set ts. 0 \<le> t \<Longrightarrow> 0 \<le> foldl fadd s ts" for s ts
    by (induction ts arbitrary: s) (auto intro: fadd_nonneg)
  ultimately show ?thesis unfolding weighted_def by (auto split: list.splits)
qed

lemma full_weights: "weighted (map (\<lambda>(w, x). (w, 1)) (rank_terms node wanted model)) \<le> 1"
proof (cases model)
  case None
  have "weighted [(lit (35 / 100), 1), (lit (28 / 100), 1), (lit (18 / 100), 1), (lit (9 / 100), 1), (lit (10 / 100), 1)] \<le> 1"
    by code_simp
  then show ?thesis using None by (simp add: rank_terms_def)
next
  case (Some m)
  have "weighted [(lit (25 / 100), 1), (lit (20 / 100), 1), (lit (15 / 100), 1), (lit (10 / 100), 1), (lit (10 / 100), 1),
      (lit (10 / 100), 1), (lit (10 / 100), 1)] \<le> 1" by code_simp
  then show ?thesis using Some by (simp add: rank_terms_def)
qed

text \<open>
  The ranking score is a number in [0, 1] for every node with sensible inputs, and a node that is at least as
  available, reputed and idle as another, all else equal, never ranks lower, rounding
  included.
\<close>

theorem ranking_score_bounds_monotone:
  assumes "ranking_ok a" "ranking_ok b" "no_worse a b"
  shows "0 \<le> ranking_score b wanted model \<and> ranking_score b wanted model \<le> 1
    \<and> ranking_score a wanted model \<le> ranking_score b wanted model"
proof (intro conjI)
  have unit: "\<forall>(w, x) \<in> set (rank_terms b wanted model). 0 \<le> w \<and> 0 \<le> x \<and> x \<le> 1"
    by (rule rank_terms_unit [OF assms(2)])
  then have pos: "0 \<le> weighted (rank_terms b wanted model)" by (intro weighted_nonneg) auto
  then show "0 \<le> ranking_score b wanted model"
    unfolding ranking_score_weighted using readiness_bounds by (intro fmul_nonneg)
  have "weighted (rank_terms b wanted model) \<le> weighted (map (\<lambda>(w, x). (w, 1)) (rank_terms b wanted model))"
    using unit by (intro weighted_mono) (auto simp: list_all2_map2 list_all2_same)
  then have le1: "weighted (rank_terms b wanted model) \<le> 1" using full_weights order_trans by blast
  have "fmul (weighted (rank_terms b wanted model)) (readiness b) \<le> fmul 1 (readiness b)"
    using le1 readiness_bounds(1) by (intro fmul_mono_left)
  also have "\<dots> \<le> 1" unfolding fmul_def using readiness_bounds(2) [of b] by (intro f64.rnd_le_one) simp
  finally show "ranking_score b wanted model \<le> 1" unfolding ranking_score_weighted .
  have parts: "load_part a \<le> load_part b" "capacity_part a \<le> capacity_part b" "readiness a = readiness b"
    using assms(3) by (simp_all add: no_worse_def load_part_mono capacity_part_mono readiness_def)
  have "weighted (rank_terms a wanted model) \<le> weighted (rank_terms b wanted model)"
    using assms(3) parts
    by (intro weighted_mono) (auto simp: rank_terms_def no_worse_def lit_nonneg region_part_def price_part_def split: option.split)
  then show "ranking_score a wanted model \<le> ranking_score b wanted model"
    unfolding ranking_score_weighted parts(3) using readiness_bounds(1) by (intro fmul_mono_left)
qed

definition sample_ranking :: "f64 \<Rightarrow> u32 \<Rightarrow> RankingInput" where
  "sample_ranking load jobs =
     \<lparr>ri_availability = 1, ri_load = load, ri_active_jobs = jobs, ri_max_concurrent = 4, ri_region = ''eu'',
      ri_reputation = Some (1 / 2), ri_models = [''m''], ri_pricing = Some 2, ri_sdk_current = True, ri_cx_key = False\<rparr>"

theorem ranking_score_bounds_monotone_witness:
  "ranking_score (sample_ranking (1 / 2) 3) (Some ''eu'') (Some ''m'') \<le> ranking_score (sample_ranking (1 / 4) 1) (Some ''eu'') (Some ''m'')"
  using ranking_score_bounds_monotone [of "sample_ranking (1 / 2) 3" "sample_ranking (1 / 4) 1" "Some ''eu''" "Some ''m''"]
  by (simp add: ranking_ok_def in_unit_def no_worse_def sample_ranking_def)

section \<open>Price caps\<close>

lemma price_cap_bounds:
  "0 \<le> fmul (size_weight (maximum_size models)) 3" "fmul (size_weight (maximum_size models)) 3 \<le> 225"
proof -
  have w: "size_weight m \<in> {lit (5 / 100), 1, 2, 13 / 2, 32, 75}" for m
    by (simp add: size_weight_def split: option.split)
  have "\<forall>x \<in> {lit (5 / 100), 1, 2, 13 / 2, 32, 75}. 0 \<le> fmul x 3 \<and> fmul x 3 \<le> 225" by code_simp
  with w show "0 \<le> fmul (size_weight (maximum_size models)) 3" "fmul (size_weight (maximum_size models)) 3 \<le> 225"
    by blast+
qed

lemma pricing_multiplier_nonneg: "0 \<le> declared \<Longrightarrow> 0 \<le> pricing_multiplier models declared"
  using price_cap_bounds(1) by (simp add: pricing_multiplier_def)

text \<open>
  A declared price multiplier is only ever lowered, to at most three times the weight of the largest
  model size found in the model names and never above 225; it stays non-negative.
\<close>

theorem pricing_multiplier_capped:
  "pricing_multiplier models declared \<le> declared
   \<and> pricing_multiplier models declared \<le> fmul (size_weight (maximum_size models)) 3
   \<and> pricing_multiplier models declared \<le> 225
   \<and> (0 \<le> declared \<longrightarrow> 0 \<le> pricing_multiplier models declared)"
  using price_cap_bounds [of models] pricing_multiplier_nonneg [of declared models]
  by (auto simp: pricing_multiplier_def min_def)

theorem pricing_multiplier_capped_witness:
  "maximum_size [''llama-3.1-70b-instruct'', ''phi-3.8B''] = Some 70
   \<and> pricing_multiplier [''llama-3.1-70b-instruct'', ''phi-3.8B''] 500 = 96
   \<and> 0 \<le> pricing_multiplier [''llama-3.1-70b-instruct'', ''phi-3.8B''] 500"
proof -
  have "maximum_size [''llama-3.1-70b-instruct'', ''phi-3.8B''] = Some 70
     \<and> pricing_multiplier [''llama-3.1-70b-instruct'', ''phi-3.8B''] 500 = 96" by code_simp
  then show ?thesis using pricing_multiplier_capped [of "[''llama-3.1-70b-instruct'', ''phi-3.8B'']" 500] by simp
qed

end
