(* ===== verification/Probe.thy ===== *)
theory Probe
  imports Selection
begin

text \<open>
  The reachability probe of \<open>src/probe.rs\<close>: which hosts it refuses, which resolved addresses it
  refuses, and the answer of \<open>GET /v1/probe\<close>. Resolution (\<open>to_socket_addrs\<close>), the outcome of a
  connection attempt and the text form of an address are arguments.
\<close>

definition is_loopback_or_unspecified :: "string \<Rightarrow> bool" where
  "is_loopback_or_unspecified host \<longleftrightarrow>
     starts_with host ''127.'' \<or> host = ''0.0.0.0'' \<or> host = ''::1'' \<or> host = ''localhost'' \<or> host = ''::''"

definition is_rfc1918_v4 :: "string \<Rightarrow> bool" where
  "is_rfc1918_v4 host \<longleftrightarrow>
     (if starts_with host ''10.'' \<or> starts_with host ''192.168.'' \<or> starts_with host ''169.254.'' then True
      else case strip_prefix host ''172.'' of
             None \<Rightarrow> False
           | Some remainder \<Rightarrow>
               (case parse_uint 255 (hd (split_char CHR ''.'' remainder)) of
                  None \<Rightarrow> False
                | Some octet \<Rightarrow> 16 \<le> octet \<and> octet \<le> 31))"

definition is_ipv6_private :: "string \<Rightarrow> bool" where
  "is_ipv6_private host \<longleftrightarrow> starts_with host ''fe80:'' \<or> starts_with host ''fc'' \<or> starts_with host ''fd''"

definition is_private_host :: "string \<Rightarrow> bool" where
  "is_private_host h \<longleftrightarrow>
     (let host = trim_brackets h
      in blocked_ip host \<or> is_loopback_or_unspecified host \<or> is_rfc1918_v4 host \<or> is_ipv6_private host)"

text \<open>\<open>resolve\<close> is the system resolver: \<open>None\<close> on failure, otherwise the addresses of the host.\<close>

fun refuse_private :: "(IpAddr \<Rightarrow> string) \<Rightarrow> IpAddr list \<Rightarrow> string + IpAddr list" where
  "refuse_private show_ip [] = Inr []"
| "refuse_private show_ip (a # as) =
     (if is_private_host (show_ip a) then Inl ''unroutable_address''
      else case refuse_private show_ip as of Inl e \<Rightarrow> Inl e | Inr bs \<Rightarrow> Inr (a # bs))"

definition resolve_probe_addresses ::
    "(string \<Rightarrow> IpAddr list option) \<Rightarrow> (IpAddr \<Rightarrow> string) \<Rightarrow> string \<Rightarrow> string + IpAddr list" where
  "resolve_probe_addresses resolve show_ip host =
     (case resolve host of
        None \<Rightarrow> Inl ''unresolved_host''
      | Some as \<Rightarrow>
          (case refuse_private show_ip as of
             Inl e \<Rightarrow> Inl e
           | Inr bs \<Rightarrow> if bs = [] then Inl ''unresolved_host'' else Inr bs))"

text \<open>\<open>connect a\<close> is the measured latency of a successful connection to \<open>a\<close>, \<open>None\<close> otherwise.\<close>

definition probe_node_host ::
    "(string \<Rightarrow> IpAddr list option) \<Rightarrow> (IpAddr \<Rightarrow> string) \<Rightarrow> (IpAddr \<Rightarrow> int option) \<Rightarrow> string \<Rightarrow> string + bool \<times> int option" where
  "probe_node_host resolve show_ip connect host =
     (case resolve_probe_addresses resolve show_ip host of
        Inl e \<Rightarrow> Inl e
      | Inr as \<Rightarrow>
          (case filter_map connect as of
             [] \<Rightarrow> Inr (False, None)
           | ms # _ \<Rightarrow> Inr (True, Some ms)))"

definition probe_node ::
    "(string \<Rightarrow> IpAddr list option) \<Rightarrow> (IpAddr \<Rightarrow> string) \<Rightarrow> (IpAddr \<Rightarrow> int option) \<Rightarrow> string \<Rightarrow> u16 \<Rightarrow> int \<times> json" where
  "probe_node resolve show_ip connect host_param port =
     (let host = trim host_param
      in if host = [] \<or> port < 1024 then
           (422, JObj [(''error'', JStr ''validation_error''), (''message'', JStr (''host and port ('' @ [CHR 0xE2, CHR 0x89, CHR 0xA5] @ ''1024) required''))])
         else if is_private_host host then
           (422, JObj [(''reachable'', JBool False), (''latency_ms'', JNull), (''error'', JStr ''private_address'')])
         else
           (case probe_node_host resolve show_ip connect host of
              Inr (True, latency) \<Rightarrow>
                (200, JObj [(''reachable'', JBool True),
                            (''latency_ms'', case latency of None \<Rightarrow> JNull | Some ms \<Rightarrow> JInt ms)])
            | Inr (False, _) \<Rightarrow>
                (200, JObj [(''reachable'', JBool False), (''latency_ms'', JNull), (''error'', JStr ''unreachable'')])
            | Inl e \<Rightarrow>
                (200, JObj [(''reachable'', JBool False), (''latency_ms'', JNull), (''error'', JStr e)])))"

section \<open>What the probe reaches\<close>

lemma refuse_private_Inr:
  "refuse_private show_ip as = Inr bs \<Longrightarrow> bs = as \<and> (\<forall>a \<in> set as. \<not> is_private_host (show_ip a))"
  by (induction as arbitrary: bs) (auto split: if_splits sum.splits)

lemma rev_dropWhile_split: "xs = rev (dropWhile P (rev xs)) @ rev (takeWhile P (rev xs))"
proof -
  have "rev (rev xs) = rev (takeWhile P (rev xs) @ dropWhile P (rev xs))"
    by (rule arg_cong [OF takeWhile_dropWhile_id [symmetric]])
  then show ?thesis by (simp only: rev_append rev_rev_ident)
qed

lemma dropWhile_fixed: "t = [] \<or> \<not> P (hd t) \<Longrightarrow> dropWhile P t = t"
  by (cases t) auto

lemma dropWhile_hd: "dropWhile P t = [] \<or> \<not> P (hd (dropWhile P t))"
  by (induction t) auto

lemma dropWhile_both_idem:
  fixes P :: "'a \<Rightarrow> bool"
  defines "f \<equiv> \<lambda>t. rev (dropWhile P (rev (dropWhile P t)))"
  shows "f (f t) = f t"
proof -
  define a where "a = dropWhile P t"
  define b where "b = rev (dropWhile P (rev a))"
  define w where "w = rev (takeWhile P (rev a))"
  have ab: "a = b @ w" unfolding b_def w_def by (rule rev_dropWhile_split)
  have "b = [] \<or> \<not> P (hd b)"
  proof (cases b)
    case (Cons x xs)
    then have "hd a = x" "a \<noteq> []" using ab by simp_all
    then show ?thesis using dropWhile_hd [of P t] Cons unfolding a_def [symmetric] by simp
  qed simp
  then have "dropWhile P b = b" by (rule dropWhile_fixed)
  moreover have "dropWhile P (rev b) = rev b"
    unfolding b_def rev_rev_ident by (rule dropWhile_fixed [OF dropWhile_hd])
  ultimately have "rev (dropWhile P (rev (dropWhile P b))) = b" by simp
  then show ?thesis unfolding f_def a_def [symmetric] b_def [symmetric] .
qed

lemma trim_brackets_idem: "trim_brackets (trim_brackets s) = trim_brackets s"
  unfolding trim_brackets_def Let_def by (rule dropWhile_both_idem)

text \<open>
  The probe connects only to addresses outside the blocked classes: every address it tries comes from the
  resolver and, if its text reads back as the address, is not loopback, unspecified,
  private, unique-local or link-local; one blocked address among several stops the probe.
\<close>

theorem probe_avoids_blocked_addresses:
  assumes "resolve_probe_addresses resolve show_ip host = Inr as"
    and "\<forall>a \<in> set as. parse_ip (trim_brackets (show_ip a)) = Some a"
  shows "resolve host = Some as \<and> as \<noteq> [] \<and> (\<forall>a \<in> set as. \<not> ip_blocked a)"
proof -
  from assms(1) have as: "resolve host = Some as" "as \<noteq> []" "\<forall>a \<in> set as. \<not> is_private_host (show_ip a)"
    by (auto simp: resolve_probe_addresses_def split: option.splits sum.splits if_splits dest!: refuse_private_Inr)
  have "\<not> ip_blocked a" if "a \<in> set as" for a
    using as(3) assms(2) that by (auto simp: is_private_host_def blocked_ip_def Let_def trim_brackets_idem)
  then show ?thesis using as by blast
qed

definition sample_show :: "IpAddr \<Rightarrow> string" where
  "sample_show a = (if a = V4 (Ipv4Addr 93 184 216 34) then ''93.184.216.34'' else ''0.0.0.0'')"

theorem probe_avoids_blocked_addresses_witness:
  "resolve_probe_addresses (\<lambda>_. Some [V4 (Ipv4Addr 93 184 216 34)]) sample_show ''example.org'' = Inr [V4 (Ipv4Addr 93 184 216 34)]
   \<and> \<not> ip_blocked (V4 (Ipv4Addr 93 184 216 34))"
proof -
  have r: "resolve_probe_addresses (\<lambda>_. Some [V4 (Ipv4Addr 93 184 216 34)]) sample_show ''example.org'' = Inr [V4 (Ipv4Addr 93 184 216 34)]"
    by code_simp
  have "parse_ip (trim_brackets (sample_show (V4 (Ipv4Addr 93 184 216 34)))) = Some (V4 (Ipv4Addr 93 184 216 34))" by code_simp
  then show ?thesis using probe_avoids_blocked_addresses [OF r] r by simp
qed

text \<open>
  The guard has a hole and a false alarm: the IPv4-mapped forms of loopback, private and link-local addresses are
  not recognised, neither as host text nor as resolved addresses, so the probe connects to
  them; and a public host name that begins with \<open>fc\<close> or \<open>fd\<close> is refused as a private IPv6
  address.
\<close>

theorem probe_guard_misses_mapped_addresses:
  "list_all (\<lambda>h. \<not> is_private_host h) [''::ffff:127.0.0.1'', ''[::ffff:10.0.0.1]'', ''::ffff:169.254.169.254'']
   \<and> list_all is_private_host [''127.0.0.1'', ''10.0.0.1'', ''169.254.169.254'']
   \<and> resolve_probe_addresses (\<lambda>_. Some [V6 (Ipv6Addr 0 0 0 0 0 0xffff 0x7f00 1)]) (\<lambda>_. ''::ffff:127.0.0.1'') ''internal.example''
       = Inr [V6 (Ipv6Addr 0 0 0 0 0 0xffff 0x7f00 1)]
   \<and> is_private_host ''fcbarcelona.example''"
  by code_simp

end
