(* ===== verification/Capability.thy ===== *)
theory Capability
  imports Types
begin

text \<open>
  Matching a request against the declared capability variants of a node,
  \<open>src/effective_capability.rs\<close>. \<open>parse_time\<close> is chrono's RFC 3339 parser, here into a number of
  time units; the vocabulary is the map from classes to known ids.
\<close>

record Requirement =
  q_class :: string
  q_id :: string

record LimitRequirement =
  lq_id :: string
  lq_operator :: string
  lq_value :: f64
  lq_unit :: string

record Requirements =
  rq_intent :: string
  rq_requires :: "Requirement list"
  rq_prefers :: "Requirement list"
  rq_limits :: "LimitRequirement list"

record MatchResult =
  mr_eligible :: bool
  mr_variant_ids :: "string option list"
  mr_preference_unavailable :: bool
  mr_refusal :: "string option"

definition refusal :: "string \<Rightarrow> MatchResult" where
  "refusal c = \<lparr>mr_eligible = False, mr_variant_ids = [], mr_preference_unavailable = False, mr_refusal = Some c\<rparr>"

definition known :: "(string, string list) hashmap \<Rightarrow> Requirement \<Rightarrow> bool" where
  "known vocabulary r \<longleftrightarrow>
     q_class r \<noteq> ''extension'' \<and> (case map_of vocabulary (q_class r) of None \<Rightarrow> False | Some vs \<Rightarrow> q_id r \<in> set vs)"

definition values_of :: "EffectiveCapability \<Rightarrow> string \<Rightarrow> string list option" where
  "values_of c cls =
     (if cls = ''input_modality'' then Some (c_input_modalities c)
      else if cls = ''output_modality'' then Some (c_output_modalities c)
      else if cls = ''feature'' then Some (c_features c)
      else if cls = ''execution_capability'' then Some (c_execution_capabilities c)
      else if cls = ''profile'' then Some (c_supported_profiles c)
      else None)"

definition has_every :: "EffectiveCapability \<Rightarrow> Requirement list \<Rightarrow> bool" where
  "has_every c rs \<longleftrightarrow>
     list_all (\<lambda>r. case values_of c (q_class r) of None \<Rightarrow> False | Some items \<Rightarrow> q_id r \<in> set items) rs"

definition fresh :: "(string \<Rightarrow> int option) \<Rightarrow> int \<Rightarrow> EffectiveCapability \<Rightarrow> bool" where
  "fresh parse_time evaluated_at c \<longleftrightarrow>
     (case Option.bind (Option.bind (c_claim_provenance c) p_valid_until) parse_time of
        None \<Rightarrow> True
      | Some until \<Rightarrow> until \<ge> evaluated_at)"

definition limit_ok :: "EffectiveCapability \<Rightarrow> LimitRequirement \<Rightarrow> bool" where
  "limit_ok c r \<longleftrightarrow>
     (case map_of (c_limits c) (lq_id r) of
        None \<Rightarrow> False
      | Some actual \<Rightarrow>
          l_unit actual = lq_unit r
          \<and> (if lq_operator r = ''gte'' then l_value actual \<ge> lq_value r
             else if lq_operator r = ''lte'' then l_value actual \<le> lq_value r
             else if lq_operator r = ''eq'' then l_value actual = lq_value r
             else False))"

definition limits_match :: "EffectiveCapability \<Rightarrow> LimitRequirement list \<Rightarrow> bool" where
  "limits_match c rs \<longleftrightarrow> list_all (limit_ok c) rs"

fun check_required :: "(string, string list) hashmap \<Rightarrow> Requirement list \<Rightarrow> Requirement list \<Rightarrow> string option" where
  "check_required vocabulary denials [] = None"
| "check_required vocabulary denials (r # rs) =
     (if \<not> known vocabulary r then Some ''required_capability_unknown''
      else if r \<in> set denials then Some ''capability_policy_denied''
      else check_required vocabulary denials rs)"

definition match_capabilities ::
    "(string \<Rightarrow> int option) \<Rightarrow> EffectiveCapability list \<Rightarrow> Requirements \<Rightarrow> (string, string list) hashmap \<Rightarrow> int
       \<Rightarrow> Requirement list \<Rightarrow> MatchResult" where
  "match_capabilities parse_time capabilities request vocabulary evaluated_at policy_denials =
     (case check_required vocabulary policy_denials (rq_requires request) of
        Some c \<Rightarrow> refusal c
      | None \<Rightarrow>
          (let c1 = filter (\<lambda>c. c_intent c = rq_intent request \<and> has_every c (rq_requires request)) capabilities
           in if c1 = [] then refusal ''required_capability_unsupported''
              else
                (let c2 = filter (fresh parse_time evaluated_at) c1
                 in if c2 = [] then refusal ''required_capability_stale''
                    else
                      (let c3 = filter (\<lambda>c. limits_match c (rq_limits request)) c2
                       in if c3 = [] then refusal ''capability_limit_unsatisfied''
                          else \<lparr>mr_eligible = True, mr_variant_ids = map c_variant_id c3,
                                mr_preference_unavailable = list_ex (\<lambda>p. \<not> known vocabulary p) (rq_prefers request),
                                mr_refusal = None\<rparr>))))"

section \<open>Correctness\<close>

definition satisfies :: "(string \<Rightarrow> int option) \<Rightarrow> int \<Rightarrow> Requirements \<Rightarrow> EffectiveCapability \<Rightarrow> bool" where
  "satisfies parse_time now request c \<longleftrightarrow>
     c_intent c = rq_intent request \<and> has_every c (rq_requires request) \<and> fresh parse_time now c
     \<and> limits_match c (rq_limits request)"

lemma check_required_None:
  "check_required vocabulary denials rs = None \<longleftrightarrow> (\<forall>r \<in> set rs. known vocabulary r \<and> r \<notin> set denials)"
  by (induction rs) auto

text \<open>
  Capability matching is exact and never mixes variants: a request is eligible if and only if every
  required capability is known and not denied by policy and one single variant serves the
  intent, has every required item, is fresh and meets every limit; the variants returned
  are precisely those, in declaration order; a refusal always carries a code and no variants.
\<close>

theorem match_capabilities_exact:
  "let result = match_capabilities parse_time caps request vocabulary now denials;
       good = filter (satisfies parse_time now request) caps
   in (mr_eligible result \<longleftrightarrow>
         (\<forall>r \<in> set (rq_requires request). known vocabulary r \<and> r \<notin> set denials) \<and> good \<noteq> [])
      \<and> (mr_eligible result \<longrightarrow> mr_variant_ids result = map c_variant_id good \<and> mr_refusal result = None)
      \<and> (\<not> mr_eligible result \<longrightarrow> mr_variant_ids result = [] \<and> mr_refusal result \<noteq> None)"
proof -
  define c1 where "c1 = filter (\<lambda>c. c_intent c = rq_intent request \<and> has_every c (rq_requires request)) caps"
  define c2 where "c2 = filter (fresh parse_time now) c1"
  define c3 where "c3 = filter (\<lambda>c. limits_match c (rq_limits request)) c2"
  have good: "filter (satisfies parse_time now request) caps = c3"
    unfolding c3_def c2_def c1_def filter_filter by (rule filter_cong) (auto simp: satisfies_def)
  have empty: "c1 = [] \<Longrightarrow> c3 = []" "c2 = [] \<Longrightarrow> c3 = []" by (simp_all add: c3_def c2_def)
  show ?thesis
  proof (cases "check_required vocabulary denials (rq_requires request)")
    case (Some c)
    then have "\<not> (\<forall>r \<in> set (rq_requires request). known vocabulary r \<and> r \<notin> set denials)"
      using check_required_None [of vocabulary denials "rq_requires request"] by simp
    then show ?thesis using Some by (auto simp: match_capabilities_def refusal_def Let_def)
  next
    case None
    note ok = None [unfolded check_required_None]
    have "match_capabilities parse_time caps request vocabulary now denials =
      (if c1 = [] then refusal ''required_capability_unsupported''
       else if c2 = [] then refusal ''required_capability_stale''
       else if c3 = [] then refusal ''capability_limit_unsatisfied''
       else \<lparr>mr_eligible = True, mr_variant_ids = map c_variant_id c3,
             mr_preference_unavailable = list_ex (\<lambda>p. \<not> known vocabulary p) (rq_prefers request), mr_refusal = None\<rparr>)"
      unfolding c3_def c2_def c1_def by (simp only: match_capabilities_def None option.case Let_def)
    then show ?thesis using ok empty unfolding good by (simp add: Let_def refusal_def)
  qed
qed

definition sample_capability :: "string \<Rightarrow> string list \<Rightarrow> EffectiveCapability" where
  "sample_capability vid features =
     \<lparr>c_intent = ''urn:x'', c_version = None, c_phase = None, c_variant_id = Some vid, c_models = [], c_max_tokens = None,
      c_quantization = None, c_inference_engine = None, c_input_modalities = [''text''], c_output_modalities = [],
      c_features = features, c_execution_capabilities = [], c_limits = [], c_supported_profiles = [],
      c_claim_provenance = None, c_extensions = []\<rparr>"

definition sample_requirements :: Requirements where
  "sample_requirements =
     \<lparr>rq_intent = ''urn:x'', rq_requires = [\<lparr>q_class = ''input_modality'', q_id = ''text''\<rparr>, \<lparr>q_class = ''feature'', q_id = ''tools''\<rparr>],
      rq_prefers = [], rq_limits = []\<rparr>"

theorem match_capabilities_exact_witness:
  "let result = match_capabilities (\<lambda>_. None) [sample_capability ''v1'' [], sample_capability ''v2'' [''tools'']] sample_requirements
        [(''input_modality'', [''text'']), (''feature'', [''tools''])] 0 []
   in mr_eligible result \<and> mr_variant_ids result = [Some ''v2'']"
proof -
  let ?caps = "[sample_capability ''v1'' [], sample_capability ''v2'' [''tools'']]"
  let ?voc = "[(''input_modality'', [''text'']), (''feature'', [''tools''])]"
  have g: "filter (satisfies (\<lambda>_. None) 0 sample_requirements) ?caps = [sample_capability ''v2'' [''tools'']]"
    by (simp add: satisfies_def has_every_def fresh_def limits_match_def values_of_def sample_capability_def sample_requirements_def)
  have k: "\<forall>r \<in> set (rq_requires sample_requirements). known ?voc r \<and> r \<notin> set []"
    by (simp add: sample_requirements_def known_def)
  show ?thesis
    using match_capabilities_exact [of "\<lambda>_. None" ?caps sample_requirements ?voc 0 "[]"] k
    unfolding Let_def g by (simp add: sample_capability_def)
qed

end
