(* ===== verification/Recognition.thy ===== *)
theory Recognition
  imports Prelude
begin

text \<open>
  Founder recognition, \<open>src/recognition.rs\<close>: tiers and badges from the ordinal and the lock-in time,
  and the decision whether an operator locks in. Times are \<open>i64\<close> milliseconds with saturating
  subtraction, ordinals are \<open>u64\<close>.
\<close>

definition i64_min :: int where
  "i64_min = - (2 ^ 63)"

definition i64_max :: int where
  "i64_max = 2 ^ 63 - 1"

definition saturating_sub_i64 :: "i64 \<Rightarrow> i64 \<Rightarrow> i64" where
  "saturating_sub_i64 a b = max i64_min (min i64_max (a - b))"

definition MONTH_MS :: i64 where
  "MONTH_MS = 30 * 24 * 60 * 60 * 1000"

definition TIERS :: "(u64 \<times> i64 \<times> string) list" where
  "TIERS = [(50, 3 * MONTH_MS, ''genesis_50''), (500, 6 * MONTH_MS, ''founders_500''), (1000, 12 * MONTH_MS, ''founders_1000'')]"

definition INNER :: "(u64 \<times> string) list" where
  "INNER = [(10, ''first_10''), (20, ''first_20''), (30, ''first_30''), (50, ''first_50'')]"

definition LOCKIN_MIN_AGE_MS :: i64 where
  "LOCKIN_MIN_AGE_MS = 30 * 24 * 60 * 60 * 1000"

definition founder_tier :: "u64 \<Rightarrow> i64 \<Rightarrow> i64 \<Rightarrow> string option" where
  "founder_tier ordinal locked_at_ms genesis_ms =
     (if ordinal = 0 then None
      else (let elapsed = saturating_sub_i64 locked_at_ms genesis_ms
            in map_option (\<lambda>(_, _, tier). tier) (find (\<lambda>(cap, window, _). ordinal \<le> cap \<and> elapsed \<le> window) TIERS)))"

definition founder_badge :: "u64 \<Rightarrow> i64 \<Rightarrow> i64 \<Rightarrow> string option" where
  "founder_badge ordinal locked_at_ms genesis_ms =
     (case founder_tier ordinal locked_at_ms genesis_ms of
        None \<Rightarrow> None
      | Some tier \<Rightarrow>
          if tier = ''genesis_50'' then
            (case find (\<lambda>(thresh, _). ordinal \<le> thresh) INNER of
               Some (_, badge) \<Rightarrow> Some badge
             | None \<Rightarrow> Some tier)
          else Some tier)"

definition assign_ordinal :: "u64 \<Rightarrow> u64" where
  "assign_ordinal prior_lockin_count = prior_lockin_count + 1"

definition is_lockin_eligible :: "i64 \<Rightarrow> i64 \<Rightarrow> bool \<Rightarrow> bool" where
  "is_lockin_eligible first_seen_ms now_ms healthy \<longleftrightarrow>
     healthy \<and> saturating_sub_i64 now_ms first_seen_ms \<ge> LOCKIN_MIN_AGE_MS"

record LockinAssignment =
  la_ordinal :: u64
  la_tier :: string
  la_badge :: string
  la_locked_at_ms :: i64

definition decide_lockin :: "i64 \<Rightarrow> i64 \<Rightarrow> bool \<Rightarrow> u64 \<Rightarrow> i64 \<Rightarrow> LockinAssignment option" where
  "decide_lockin first_seen_ms now_ms healthy prior_lockin_count genesis_ms =
     (if \<not> is_lockin_eligible first_seen_ms now_ms healthy then None
      else
        (let ordinal = assign_ordinal prior_lockin_count
         in case founder_tier ordinal now_ms genesis_ms of
              None \<Rightarrow> None
            | Some tier \<Rightarrow>
                Some \<lparr>la_ordinal = ordinal, la_tier = tier,
                      la_badge = (case founder_badge ordinal now_ms genesis_ms of Some b \<Rightarrow> b | None \<Rightarrow> tier),
                      la_locked_at_ms = now_ms\<rparr>))"

section \<open>Correctness\<close>

text \<open>How good a badge is: smaller is finer.\<close>

definition badge_rank :: "string option \<Rightarrow> nat" where
  "badge_rank b =
     (if b = Some ''first_10'' then 0 else if b = Some ''first_20'' then 1 else if b = Some ''first_30'' then 2
      else if b = Some ''first_50'' then 3 else if b = Some ''founders_500'' then 4
      else if b = Some ''founders_1000'' then 5 else 6)"

lemma founder_tier_cases:
  "founder_tier n t g =
     (let e = saturating_sub_i64 t g
      in if n = 0 then None
         else if n \<le> 50 \<and> e \<le> 3 * MONTH_MS then Some ''genesis_50''
         else if n \<le> 500 \<and> e \<le> 6 * MONTH_MS then Some ''founders_500''
         else if n \<le> 1000 \<and> e \<le> 12 * MONTH_MS then Some ''founders_1000'' else None)"
  by (simp add: founder_tier_def TIERS_def Let_def)

lemma founder_badge_cases:
  "founder_badge n t g =
     (let e = saturating_sub_i64 t g
      in if n = 0 then None
         else if n \<le> 50 \<and> e \<le> 3 * MONTH_MS then
           Some (if n \<le> 10 then ''first_10'' else if n \<le> 20 then ''first_20'' else if n \<le> 30 then ''first_30'' else ''first_50'')
         else if n \<le> 500 \<and> e \<le> 6 * MONTH_MS then Some ''founders_500''
         else if n \<le> 1000 \<and> e \<le> 12 * MONTH_MS then Some ''founders_1000'' else None)"
  by (auto simp: founder_badge_def founder_tier_cases INNER_def Let_def)

lemma badge_rank_cases:
  "badge_rank (founder_badge n t g) =
     (let e = saturating_sub_i64 t g; k = uint n
      in if k = 0 then 6
         else if k \<le> 50 \<and> e \<le> 3 * MONTH_MS then if k \<le> 10 then 0 else if k \<le> 20 then 1 else if k \<le> 30 then 2 else 3
         else if k \<le> 500 \<and> e \<le> 6 * MONTH_MS then 4
         else if k \<le> 1000 \<and> e \<le> 12 * MONTH_MS then 5 else 6)"
  by (auto simp: founder_badge_cases badge_rank_def Let_def word_le_def uint_0_iff)

lemma saturating_sub_mono: "t \<le> t' \<Longrightarrow> saturating_sub_i64 t g \<le> saturating_sub_i64 t' g"
  by (simp add: saturating_sub_i64_def max_def min_def)

text \<open>
  An earlier place is never worth less: with a smaller ordinal and an earlier lock-in, the badge is at least
  as fine; and nobody past ordinal 1000 or twelve months after genesis gets one.
\<close>

theorem founder_badge_antitone:
  assumes "0 < n" "n \<le> n'" "t \<le> t'"
  shows "badge_rank (founder_badge n t g) \<le> badge_rank (founder_badge n' t' g)
    \<and> (1000 < n \<longrightarrow> founder_badge n t g = None)
    \<and> (12 * MONTH_MS < saturating_sub_i64 t g \<longrightarrow> founder_badge n t g = None)"
proof -
  define e e' where "e = saturating_sub_i64 t g" and "e' = saturating_sub_i64 t' g"
  have e: "e \<le> e'" unfolding e_def e'_def by (rule saturating_sub_mono [OF assms(3)])
  have n: "uint n \<le> uint n'" "0 < uint n" using assms(1,2) by (simp_all add: word_le_def word_less_def)
  have "badge_rank (founder_badge n t g) \<le> badge_rank (founder_badge n' t' g)"
    using n e unfolding badge_rank_cases Let_def e_def [symmetric] e'_def [symmetric] by (auto simp: MONTH_MS_def)
  moreover have "1000 < n \<Longrightarrow> founder_badge n t g = None"
    by (auto simp: founder_badge_cases Let_def word_le_def word_less_def)
  moreover have "12 * MONTH_MS < saturating_sub_i64 t g \<Longrightarrow> founder_badge n t g = None"
    by (auto simp: founder_badge_cases Let_def MONTH_MS_def)
  ultimately show ?thesis by blast
qed

theorem founder_badge_antitone_witness:
  "badge_rank (founder_badge 7 MONTH_MS 0) \<le> badge_rank (founder_badge 60 (5 * MONTH_MS) 0)
   \<and> founder_badge 7 MONTH_MS 0 = Some ''first_10''"
proof -
  have "founder_badge 7 MONTH_MS 0 = Some ''first_10''" by code_simp
  then show ?thesis using founder_badge_antitone [of 7 60 MONTH_MS "5 * MONTH_MS" 0] by (simp add: MONTH_MS_def)
qed

text \<open>
  A lock-in is assigned exactly to a healthy operator seen for at least thirty days while a founder tier is
  still open; it takes the next ordinal, and its badge is never empty and belongs to its
  tier.
\<close>

theorem decide_lockin_exact:
  "(decide_lockin seen now healthy prior g = None \<longleftrightarrow>
      \<not> (healthy \<and> saturating_sub_i64 now seen \<ge> 30 * 24 * 60 * 60 * 1000) \<or> founder_tier (prior + 1) now g = None)
   \<and> (\<forall>a. decide_lockin seen now healthy prior g = Some a \<longrightarrow>
        la_ordinal a = prior + 1 \<and> founder_tier (la_ordinal a) now g = Some (la_tier a)
        \<and> founder_badge (la_ordinal a) now g = Some (la_badge a) \<and> la_locked_at_ms a = now
        \<and> (la_tier a \<noteq> ''genesis_50'' \<longrightarrow> la_badge a = la_tier a))"
proof -
  have b: "\<exists>b. founder_badge n now g = Some b" if "founder_tier n now g = Some tier" for n tier
    using that by (auto simp: founder_badge_def split: option.split)
  show ?thesis
    by (auto simp: decide_lockin_def is_lockin_eligible_def LOCKIN_MIN_AGE_MS_def assign_ordinal_def Let_def
        founder_badge_def split: option.splits)
qed

theorem decide_lockin_exact_witness:
  "\<exists>a. decide_lockin 0 LOCKIN_MIN_AGE_MS True 4 0 = Some a \<and> la_ordinal a = 5 \<and> founder_badge (la_ordinal a) LOCKIN_MIN_AGE_MS 0 = Some (la_badge a)"
proof -
  have "decide_lockin 0 LOCKIN_MIN_AGE_MS True 4 0 \<noteq> None" by code_simp
  then obtain a where a: "decide_lockin 0 LOCKIN_MIN_AGE_MS True 4 0 = Some a" by blast
  then show ?thesis using decide_lockin_exact [of 0 LOCKIN_MIN_AGE_MS True 4 0] by auto
qed

end
