(* ===== verification/Policy.thy ===== *)
theory Policy
  imports Validate
begin

text \<open>
  The public-mesh intent policy, \<open>src/policy.rs\<close>, with the rules of the mirrored taxonomy
  \<open>parity/intent-risk-taxonomy.json\<close> that the source embeds.
\<close>

definition REFUSAL_CODE :: string where
  "REFUSAL_CODE = ''IICP-POLICY-001''"

record IntentClassification =
  ic_category :: string
  ic_rule_id :: "string option"
  ic_label :: "string option"

record Rule =
  ru_category :: string
  ru_rule_id :: string
  ru_label :: string
  ru_fragments :: "string list"

definition rules :: "Rule list" where
  "rules =
     [
      \<lparr>ru_category = ''prohibited'', ru_rule_id = ''eu-ai-act-social-scoring'',
       ru_label = ''social scoring'',
       ru_fragments = [''social-scoring'', ''social_scoring'', ''social:scoring'']\<rparr>,
      \<lparr>ru_category = ''prohibited'', ru_rule_id = ''eu-ai-act-criminal-risk'',
       ru_label = ''individual criminal risk prediction'',
       ru_fragments = [''criminal-risk'', ''criminal_risk'', ''criminal:risk'', ''predict-crime'']\<rparr>,
      \<lparr>ru_category = ''prohibited'', ru_rule_id = ''eu-ai-act-workplace-education-emotion'',
       ru_label = ''workplace or education emotion recognition'',
       ru_fragments = [''emotion:workplace'', ''emotion:education'', ''workplace-monitoring'', ''education-monitoring'', ''worker-monitoring'']\<rparr>,
      \<lparr>ru_category = ''prohibited'', ru_rule_id = ''eu-ai-act-protected-trait-biometric'',
       ru_label = ''biometric protected-trait classification'',
       ru_fragments = [''protected-trait'', ''protected_trait'', ''biometric:protected'']\<rparr>,
      \<lparr>ru_category = ''prohibited'', ru_rule_id = ''eu-ai-act-untargeted-face-scraping'',
       ru_label = ''untargeted facial image scraping for recognition databases'',
       ru_fragments = [''untargeted-scraping'', ''untargeted_scraping'', ''face-scraping'', ''facial-scraping'']\<rparr>,
      \<lparr>ru_category = ''prohibited'', ru_rule_id = ''eu-ai-act-realtime-remote-biometric-id'',
       ru_label = ''real-time remote biometric identification'',
       ru_fragments = [''remote-biometric:realtime'', ''realtime-remote-biometric'', ''real-time-remote-biometric'']\<rparr>,
      \<lparr>ru_category = ''prohibited'', ru_rule_id = ''eu-ai-act-nonconsensual-sexual-deepfake'',
       ru_label = ''non-consensual sexual deepfake or CSAM generation'',
       ru_fragments = [''nonconsensual-sexual'', ''non-consensual-sexual'', ''child-sexual-abuse'', ''csam'']\<rparr>,
      \<lparr>ru_category = ''high_risk'', ru_rule_id = ''eu-ai-act-employment-workforce'',
       ru_label = ''employment, recruitment, worker management or worker monitoring decision'',
       ru_fragments = [''employment:hiring'', ''employment:screen'', ''employment:rank'', ''recruitment:decision'', ''workforce:decision'', ''worker-management'', ''worker:performance'', ''worker:discipline'']\<rparr>,
      \<lparr>ru_category = ''high_risk'', ru_rule_id = ''eu-ai-act-education-admission-grading'',
       ru_label = ''education admission, assessment or grading decision'',
       ru_fragments = [''education:admission'', ''education:grading'', ''education:grade'', ''student:admission'', ''student:assess'', ''exam-grading'']\<rparr>,
      \<lparr>ru_category = ''high_risk'', ru_rule_id = ''eu-ai-act-credit-essential-services'',
       ru_label = ''credit scoring or essential-services access decision'',
       ru_fragments = [''credit-scoring'', ''credit:score'', ''credit:decision'', ''essential-services'', ''benefits:eligibility'', ''public-benefit:eligibility'']\<rparr>,
      \<lparr>ru_category = ''high_risk'', ru_rule_id = ''eu-ai-act-law-enforcement-border-justice'',
       ru_label = ''law enforcement, migration, asylum, border, justice or democratic-process decision'',
       ru_fragments = [''law-enforcement'', ''law_enforcement'', ''migration:decision'', ''asylum:decision'', ''border-control'', ''justice:decision'', ''democratic-process'', ''election:decision'']\<rparr>,
      \<lparr>ru_category = ''high_risk'', ru_rule_id = ''eu-ai-act-healthcare-critical-infrastructure'',
       ru_label = ''healthcare decision or critical-infrastructure safety component'',
       ru_fragments = [''healthcare:decision'', ''medical:diagnosis'', ''medical:triage'', ''clinical:decision'', ''critical-infrastructure'', ''grid:stabilize'', ''hospital:surge-capacity'']\<rparr>,
      \<lparr>ru_category = ''high_risk'', ru_rule_id = ''eu-ai-act-physical-world-control'',
       ru_label = ''robotics, drone, IoT or physical-world control'',
       ru_fragments = [''robotics:control'', ''robotics:fleet'', ''drone:control'', ''drone:search'', ''iot:actuate'', ''physical-world'', ''system_control'']\<rparr>,
      \<lparr>ru_category = ''transparency_risk'', ru_rule_id = ''eu-ai-act-ai-interaction'',
       ru_label = ''AI interaction or generated content notice required'',
       ru_fragments = [''chatbot'', ''ai-assistant'', ''synthetic-media'', ''deepfake:labelled'', ''content:generate-public'', ''creative:generate'']\<rparr>]"

definition rule_hits :: "string \<Rightarrow> Rule \<Rightarrow> bool" where
  "rule_hits normalized r \<longleftrightarrow> list_ex (\<lambda>fragment. str_contains normalized fragment) (ru_fragments r)"

definition classify :: "string \<Rightarrow> IntentClassification" where
  "classify intent =
     (let normalized = to_ascii_lowercase (trim intent)
      in case find (rule_hits normalized) rules of
           Some r \<Rightarrow> \<lparr>ic_category = ru_category r, ic_rule_id = Some (ru_rule_id r), ic_label = Some (ru_label r)\<rparr>
         | None \<Rightarrow> \<lparr>ic_category = ''minimal_or_general'', ic_rule_id = None, ic_label = None\<rparr>)"

definition public_mesh_refusal :: "string \<Rightarrow> IntentClassification option" where
  "public_mesh_refusal intent =
     (let c = classify intent
      in if ic_category c = ''prohibited'' \<or> ic_category c = ''high_risk'' then Some c else None)"

definition refusal_message :: "IntentClassification \<Rightarrow> string" where
  "refusal_message c =
     ''Intent refused by IICP directory policy before discovery/routing: ''
     @ (case ic_label c of Some l \<Rightarrow> l | None \<Rightarrow> ''restricted intent'') @ '' (''
     @ (case ic_rule_id c of Some r \<Rightarrow> r | None \<Rightarrow> ''policy'') @ '', '' @ ic_category c
     @ ''). Use a lawful, documented, human-reviewed compliance path outside the public mesh for restricted/high-risk workflows.''"

section \<open>Correctness\<close>

lemma str_contains_append: "str_contains s f \<longleftrightarrow> (\<exists>a b. s = a @ f @ b)"
proof (induction s)
  case Nil
  then show ?case by (cases f) auto
next
  case (Cons c s)
  have "str_contains (c # s) f \<longleftrightarrow> starts_with (c # s) f \<or> str_contains s f" by simp
  also have "\<dots> \<longleftrightarrow> (\<exists>a b. c # s = a @ f @ b)"
    unfolding Cons.IH starts_with_append
    by (metis (no_types, opaque_lifting) append_Cons append_Nil neq_Nil_conv list.inject)
  finally show ?case .
qed

definition restricted_fragments :: "string list" where
  "restricted_fragments =
     concat (map ru_fragments (filter (\<lambda>r. ru_category r = ''prohibited'' \<or> ru_category r = ''high_risk'') rules))"

lemma find_prefix_class:
  assumes "\<forall>r \<in> set xs. P r" "\<forall>r \<in> set ys. \<not> P r"
  shows "(case find h (xs @ ys) of None \<Rightarrow> False | Some r \<Rightarrow> P r) \<longleftrightarrow> (\<exists>r \<in> set (filter P (xs @ ys)). h r)"
  using assms by (auto simp: find_append dest!: find_Some_set split: option.split) (auto simp: find_None_set)

text \<open>
  The refusal boundary is exactly the set of restricted fragments: an intent is refused on the public mesh if and
  only if its trimmed, lower-cased text contains a fragment of a prohibited or high-risk
  rule anywhere; a transparency rule never shadows one.
\<close>

theorem public_mesh_refusal_iff:
  "public_mesh_refusal intent \<noteq> None \<longleftrightarrow>
     (\<exists>f \<in> set restricted_fragments. \<exists>a b. to_ascii_lowercase (trim intent) = a @ f @ b)"
proof -
  let ?P = "\<lambda>r. ru_category r = ''prohibited'' \<or> ru_category r = ''high_risk''"
  let ?h = "rule_hits (to_ascii_lowercase (trim intent))"
  have split: "rules = take 13 rules @ drop 13 rules" by simp
  have front: "\<forall>r \<in> set (take 13 rules). ?P r" and rest: "\<forall>r \<in> set (drop 13 rules). \<not> ?P r"
    by code_simp+
  have "public_mesh_refusal intent \<noteq> None \<longleftrightarrow> (case find ?h rules of None \<Rightarrow> False | Some r \<Rightarrow> ?P r)"
    by (simp add: public_mesh_refusal_def classify_def Let_def split: option.split)
  also have "\<dots> \<longleftrightarrow> (\<exists>r \<in> set (filter ?P rules). ?h r)"
    using find_prefix_class [OF front rest, of ?h] by (simp only: split [symmetric])
  also have "\<dots> \<longleftrightarrow> (\<exists>f \<in> set restricted_fragments. str_contains (to_ascii_lowercase (trim intent)) f)"
    by (auto simp: restricted_fragments_def rule_hits_def list_ex_iff)
  finally show ?thesis by (simp only: str_contains_append)
qed

text \<open>The chat intent of the samples is admitted.\<close>

lemma chat_intent_admitted: "public_mesh_refusal ''urn:iicp:intent:llm:chat:v1'' = None"
  by code_simp

end
