(* ===== verification/Registration.thy ===== *)
theory Registration
  imports Selection Repo
begin

text \<open>
  The registration policy, \<open>src/registration.rs\<close>: which node ids, availability windows and
  prices a registration may carry, and when an existing registration may be re-pointed.
\<close>

definition BACKENDS :: "string list" where
  "BACKENDS = [''ollama'', ''lmstudio'', ''vllm'', ''llamacpp'', ''meshllm'', ''anthropic'', ''custom'']"

definition PRICING_MODELS :: "string list" where
  "PRICING_MODELS = [''per_token'', ''per_request'', ''flat'']"

definition node_id_char :: "char \<Rightarrow> bool" where
  "node_id_char c \<longleftrightarrow> is_ascii_lowercase c \<or> is_ascii_uppercase c \<or> is_ascii_digit c \<or> c \<in> set ''._:-''"

definition node_id_error :: string where
  "node_id_error = ''node_id must start with [a-zA-Z0-9] and contain only [a-zA-Z0-9._:-], max 36 chars''"

text \<open>\<open>fresh_uuid\<close> is the version-4 UUID that the \<open>uuid\<close> crate generates.\<close>

definition resolve_node_id :: "string \<Rightarrow> string option \<Rightarrow> string + string" where
  "resolve_node_id fresh_uuid requested =
     (case requested of
        None \<Rightarrow> Inr fresh_uuid
      | Some custom_id \<Rightarrow>
          if custom_id = [] then Inr fresh_uuid
          else if length custom_id \<le> 36 \<and> is_ascii_alphanumeric (hd custom_id) \<and> list_all node_id_char custom_id
          then Inr custom_id else Inl node_id_error)"

definition valid_hhmm :: "string \<Rightarrow> bool" where
  "valid_hhmm value =
     (case split_char CHR '':'' value of
        [h, m] \<Rightarrow>
          (case (parse_uint 255 h, parse_uint 255 m) of
             (Some hh, Some mm) \<Rightarrow> hh \<le> 23 \<and> mm \<le> 59
           | _ \<Rightarrow> False)
      | _ \<Rightarrow> False)"

definition valid_availability :: "(string \<times> string \<times> f64) list \<Rightarrow> bool" where
  "valid_availability windows =
     list_all (\<lambda>(start, end', share). valid_hhmm start \<and> valid_hhmm end' \<and> 0 \<le> share \<and> share \<le> 1) windows"

definition valid_pricing :: "f64 \<Rightarrow> string \<Rightarrow> bool" where
  "valid_pricing multiplier model \<longleftrightarrow> 0 \<le> multiplier \<and> multiplier \<le> 1000 \<and> model \<in> set PRICING_MODELS"

text \<open>The models are collected in a hash set; \<open>iter\<close> is the order in which it is drained.\<close>

definition advertised_models :: "(string list \<Rightarrow> string list) \<Rightarrow> string list list \<Rightarrow> string list" where
  "advertised_models iter models = iter (remdups (concat models))"

definition bounded_pricing :: "string list \<Rightarrow> f64 option \<Rightarrow> f64" where
  "bounded_pricing models declared =
     (case declared of None \<Rightarrow> 1 | Some value \<Rightarrow> pricing_multiplier models value)"

definition endpoint_change_allowed :: "bool \<Rightarrow> bool \<Rightarrow> bool \<Rightarrow> bool" where
  "endpoint_change_allowed endpoint_changed has_token old_alive \<longleftrightarrow>
     \<not> endpoint_changed \<or> has_token \<or> \<not> old_alive"

definition routing_change_allowed ::
  "bool \<Rightarrow> bool \<Rightarrow> bool \<Rightarrow> bool \<Rightarrow> bool \<Rightarrow> bool \<Rightarrow> bool \<Rightarrow> bool" where
  "routing_change_allowed strict secured endpoint_changed transport_endpoint_changed
      relay_endpoint_changed has_token old_endpoint_alive =
     (let routing_changed = endpoint_changed \<or> transport_endpoint_changed \<or> relay_endpoint_changed
      in if has_token then True
         else if strict \<and> secured then False
         else if \<not> routing_changed then True
         else endpoint_change_allowed endpoint_changed has_token old_endpoint_alive)"

section \<open>Correctness\<close>

lemma list_all_node_id_char: "list_all node_id_char s \<Longrightarrow> c \<in> set s \<Longrightarrow> node_id_char c"
  by (simp add: list_all_iff)

text \<open>
  A registration never installs a node id that could leave its place in a path or a
  header: the id it resolves to is either the fresh UUID, exactly when the request names
  none, or the requested one unchanged, of at most 36 bytes, starting with an alphanumeric
  and free of slashes, blanks, line breaks, percent signs and non-ASCII bytes.
\<close>

theorem resolve_node_id_safe:
  assumes "resolve_node_id fresh_uuid requested = Inr nid"
  shows "(requested = None \<or> requested = Some []) \<and> nid = fresh_uuid
    \<or> requested = Some nid \<and> nid \<noteq> [] \<and> length nid \<le> 36 \<and> is_ascii_alphanumeric (hd nid)
        \<and> list_all (\<lambda>c. c \<notin> set ''/? #%&<>'' \<and> 32 < code c \<and> code c < 127) nid"
proof -
  have range: "node_id_char c \<Longrightarrow> c \<notin> set ''/? #%&<>'' \<and> 32 < code c \<and> code c < 127" for c
    by (auto simp: node_id_char_def str_defs)
  have "list_all node_id_char s \<Longrightarrow> list_all (\<lambda>c. c \<notin> set ''/? #%&<>'' \<and> 32 < code c \<and> code c < 127) s" for s
    by (erule list.pred_mono_strong) (erule range)
  with assms show ?thesis
    by (auto simp: resolve_node_id_def split: option.splits if_splits)
qed

theorem resolve_node_id_safe_witness:
  "resolve_node_id ''u'' (Some ''edge-1.example:8080'') = Inr ''edge-1.example:8080''
   \<and> list_all (\<lambda>c. c \<notin> set ''/? #%&<>'' \<and> 32 < code c \<and> code c < 127) ''edge-1.example:8080''
   \<and> resolve_node_id ''u'' (Some ''../admin'') = Inl node_id_error"
proof -
  have "resolve_node_id ''u'' (Some ''edge-1.example:8080'') = Inr ''edge-1.example:8080''"
    and "resolve_node_id ''u'' (Some ''../admin'') = Inl node_id_error" by code_simp+
  then show ?thesis using resolve_node_id_safe [of "''u''" "Some ''edge-1.example:8080''" "''edge-1.example:8080''"]
    by (simp only:) simp
qed

text \<open>
  Who may re-point a registered node: the holder of the node's current token always;
  without it, nobody while strict mode protects a secured registration, and otherwise an
  update is allowed unless it moves the endpoint away from an endpoint that still answers.
  In particular a live unsecured endpoint cannot be hijacked by re-registration.
\<close>

theorem routing_change_rule:
  "routing_change_allowed strict secured ep tep rep has_token alive \<longleftrightarrow>
     has_token \<or> (\<not> (strict \<and> secured) \<and> (ep \<longrightarrow> \<not> alive))"
  by (auto simp: routing_change_allowed_def endpoint_change_allowed_def)

theorem routing_change_rule_witness:
  "routing_change_allowed False True True False False False True = False
   \<and> routing_change_allowed True True False False False False False = False
   \<and> routing_change_allowed False True False True True False True = True"
  using routing_change_rule [of False True True False False False True]
    routing_change_rule [of True True False False False False False]
    routing_change_rule [of False True False True True False True] by simp

lemma split_char_two: "split_char c s = [a, b] \<Longrightarrow> s = a @ c # b"
  using join_split [of c s] by simp

lemma parse_uint_digits:
  assumes "ds \<noteq> []" "list_all is_ascii_digit ds"
  shows "parse_uint mx ds = (if digits_value ds \<le> mx then Some (digits_value ds) else None)"
proof -
  have "hd ds \<noteq> CHR ''+''" using assms by (cases ds) (auto simp: str_defs)
  with assms show ?thesis by (cases ds) (simp_all add: parse_uint_def)
qed

lemma split_char_pair: "c \<notin> set a \<Longrightarrow> c \<notin> set b \<Longrightarrow> split_char c (a @ c # b) = [a, b]"
  by (simp add: split_char_append split_char_single)

lemma digits_no_colon: "list_all is_ascii_digit ds \<Longrightarrow> CHR '':'' \<notin> set ds"
  by (auto simp: list_all_iff str_defs)

text \<open>
  The availability clock accepts exactly times of day: on two runs of digits joined by a
  colon the check succeeds if and only if the first denotes an hour up to 23 and the second a
  minute up to 59, whatever their zero padding; it accepts nothing without a colon.
\<close>

theorem valid_hhmm_values:
  assumes "h \<noteq> []" "m \<noteq> []" "list_all is_ascii_digit h" "list_all is_ascii_digit m"
  shows "(valid_hhmm (h @ '':'' @ m) \<longleftrightarrow> digits_value h \<le> 23 \<and> digits_value m \<le> 59)
    \<and> (\<forall>s. valid_hhmm s \<longrightarrow> CHR '':'' \<in> set s)"
proof (intro conjI allI impI)
  show "valid_hhmm (h @ '':'' @ m) \<longleftrightarrow> digits_value h \<le> 23 \<and> digits_value m \<le> 59"
    using assms by (auto simp: valid_hhmm_def split_char_pair digits_no_colon parse_uint_digits)
  show "CHR '':'' \<in> set s" if "valid_hhmm s" for s
  proof (rule ccontr)
    assume "CHR '':'' \<notin> set s"
    with that show False by (simp add: valid_hhmm_def split_char_single)
  qed
qed

theorem valid_hhmm_values_witness:
  "valid_hhmm ''23:59'' \<and> valid_hhmm ''9:5'' \<and> \<not> valid_hhmm ''24:00'' \<and> \<not> valid_hhmm ''12:00:00''"
proof -
  have d: "list_all is_ascii_digit ''23''" "list_all is_ascii_digit ''59''"
    "digits_value ''23'' \<le> 23" "digits_value ''59'' \<le> 59" by code_simp+
  have "valid_hhmm (''23'' @ '':'' @ ''59'')"
    using valid_hhmm_values [of "''23''" "''59''"] d by simp
  then have "valid_hhmm ''23:59''" by simp
  moreover have "valid_hhmm ''9:5''" "\<not> valid_hhmm ''24:00''" "\<not> valid_hhmm ''12:00:00''" by code_simp+
  ultimately show ?thesis by blast
qed

text \<open>What the price, availability and model helpers promise the registration handler.\<close>

lemma bounded_pricing_bound:
  "(\<And>v. declared = Some v \<Longrightarrow> 0 \<le> v) \<Longrightarrow> 0 \<le> bounded_pricing models declared"
  using pricing_multiplier_nonneg by (auto simp: bounded_pricing_def split: option.split)

lemma advertised_models_set:
  "(\<And>xs. mset (iter xs) = mset xs) \<Longrightarrow>
     set (advertised_models iter models) = (\<Union>xs \<in> set models. set xs) \<and> distinct (advertised_models iter models)"
  unfolding advertised_models_def
  by (metis distinct_remdups mset_eq_imp_distinct_iff mset_eq_setD set_concat set_remdups)

end
