(* ===== verification/Restricted_Domain.thy ===== *)
theory Restricted_Domain
  imports Prelude
begin

text \<open>
  The restricted trust-domain decision, \<open>src/restricted_domain.rs\<close>: one request is allowed or
  denied with the first reason that applies.
\<close>

record DecisionInput =
  di_mode :: string
  di_operation :: string
  di_external_network :: bool
  di_public_fallback :: bool
  di_profile_support :: string
  di_authenticated :: "bool option"
  di_replayed :: bool
  di_membership :: "string option"
  di_federation_trusted :: "bool option"
  di_federation_scope_allowed :: "bool option"
  di_policy_allowed :: "bool option"
  di_route_authorized :: "bool option"
  di_cached_authority :: bool
  di_after_restart :: bool

record Decision =
  de_decision :: string
  de_reason :: string
  de_network_activity_permitted :: bool

definition membership_reason :: "DecisionInput \<Rightarrow> string option" where
  "membership_reason i =
     (case di_membership i of
        None \<Rightarrow> if di_mode i = ''public'' then None else Some ''membership_missing''
      | Some m \<Rightarrow>
          if m = ''valid'' then None
          else if m = ''missing'' then Some ''membership_missing''
          else if m = ''expired'' then Some ''membership_expired''
          else if m = ''revoked'' then Some ''membership_revoked''
          else if m = ''wrong_domain'' then Some ''wrong_trust_domain''
          else Some ''invalid_input'')"

definition reason :: "DecisionInput \<Rightarrow> string" where
  "reason i =
     (if di_mode i \<notin> {''public'', ''private'', ''federated_private'', ''local_only'', ''custom''} then ''invalid_input''
      else if di_profile_support i = ''unknown_required''
              \<or> (di_profile_support i = ''unknown_optional'' \<and> di_mode i \<noteq> ''public'') then ''unsupported_required_profile''
      else if di_mode i = ''local_only'' \<and> di_external_network i then ''local_only_external_forbidden''
      else if di_mode i \<in> {''private'', ''federated_private''} \<and> di_public_fallback i then ''public_fallback_forbidden''
      else if di_mode i \<noteq> ''public'' \<and> di_authenticated i \<noteq> Some True then ''authentication_required''
      else if di_replayed i then ''replay_detected''
      else case membership_reason i of
        Some r \<Rightarrow> r
      | None \<Rightarrow>
          if di_operation i = ''federation'' \<and> di_federation_trusted i \<noteq> Some True then ''federation_untrusted''
          else if di_operation i = ''federation'' \<and> di_federation_scope_allowed i \<noteq> Some True then ''federation_scope_denied''
          else if di_policy_allowed i = Some False then ''policy_denied''
          else if di_operation i \<in> {''relay'', ''execution'', ''cip'', ''federation''} \<and> di_route_authorized i \<noteq> Some True
          then ''route_authorization_required''
          else ''allowed'')"

definition evaluate_decision :: "DecisionInput \<Rightarrow> Decision" where
  "evaluate_decision i =
     (let r = reason i
      in \<lparr>de_decision = (if r = ''allowed'' then ''allow'' else ''deny''), de_reason = r,
          de_network_activity_permitted = (r = ''allowed'' \<and> di_mode i \<noteq> ''local_only'')\<rparr>)"

section \<open>Fail closed\<close>

text \<open>What every allowed request of a non-public domain has, written as one condition.\<close>

definition cleared :: "DecisionInput \<Rightarrow> bool" where
  "cleared i \<longleftrightarrow>
     di_mode i \<in> {''public'', ''private'', ''federated_private'', ''local_only'', ''custom''}
     \<and> di_profile_support i \<noteq> ''unknown_required'' \<and> \<not> di_replayed i
     \<and> di_policy_allowed i \<noteq> Some False
     \<and> (di_mode i \<noteq> ''public'' \<longrightarrow>
          di_profile_support i \<noteq> ''unknown_optional'' \<and> di_authenticated i = Some True \<and> di_membership i = Some ''valid'')
     \<and> (di_mode i = ''public'' \<longrightarrow> di_membership i \<in> {None, Some ''valid''})
     \<and> (di_mode i = ''local_only'' \<longrightarrow> \<not> di_external_network i)
     \<and> (di_mode i \<in> {''private'', ''federated_private''} \<longrightarrow> \<not> di_public_fallback i)
     \<and> (di_operation i = ''federation'' \<longrightarrow> di_federation_trusted i = Some True \<and> di_federation_scope_allowed i = Some True)
     \<and> (di_operation i \<in> {''relay'', ''execution'', ''cip'', ''federation''} \<longrightarrow> di_route_authorized i = Some True)"

lemma membership_reason_None:
  "membership_reason i = None \<longleftrightarrow> di_membership i = Some ''valid'' \<or> di_membership i = None \<and> di_mode i = ''public''"
  by (auto simp: membership_reason_def split: option.splits)

lemma membership_reason_not_allowed: "membership_reason i \<noteq> Some ''allowed''"
  by (auto simp: membership_reason_def split: option.splits)

lemma if_refuses: "x \<noteq> a \<Longrightarrow> ((if c then x else y) = a) = (\<not> c \<and> y = a)"
  by simp

text \<open>
  The trust-domain decision fails closed: a request is allowed if and only if every condition
  on its mode, profile, authentication, replay, membership, federation, policy and route
  holds, with an absent answer counting as a refusal outside the public mode; network activity is
  permitted only to allowed requests that are not local; and neither cached authority nor a
  restart changes the verdict.
\<close>

theorem decision_fails_closed:
  "(de_decision (evaluate_decision i) = ''allow'' \<longleftrightarrow> cleared i)
   \<and> (de_network_activity_permitted (evaluate_decision i) \<longleftrightarrow> cleared i \<and> di_mode i \<noteq> ''local_only'')
   \<and> evaluate_decision (i\<lparr>di_cached_authority := a, di_after_restart := b\<rparr>) = evaluate_decision i"
proof -
  have allowed: "reason i = ''allowed'' \<longleftrightarrow> cleared i"
  proof (cases "membership_reason i")
    case None
    then have m: "di_membership i = Some ''valid'' \<or> di_membership i = None \<and> di_mode i = ''public''"
      by (simp only: membership_reason_None)
    have "reason i = ''allowed'' \<longleftrightarrow>
        di_mode i \<in> {''public'', ''private'', ''federated_private'', ''local_only'', ''custom''}
        \<and> \<not> (di_profile_support i = ''unknown_required'' \<or> (di_profile_support i = ''unknown_optional'' \<and> di_mode i \<noteq> ''public''))
        \<and> \<not> (di_mode i = ''local_only'' \<and> di_external_network i)
        \<and> \<not> (di_mode i \<in> {''private'', ''federated_private''} \<and> di_public_fallback i)
        \<and> \<not> (di_mode i \<noteq> ''public'' \<and> di_authenticated i \<noteq> Some True) \<and> \<not> di_replayed i
        \<and> \<not> (di_operation i = ''federation'' \<and> di_federation_trusted i \<noteq> Some True)
        \<and> \<not> (di_operation i = ''federation'' \<and> di_federation_scope_allowed i \<noteq> Some True)
        \<and> di_policy_allowed i \<noteq> Some False
        \<and> \<not> (di_operation i \<in> {''relay'', ''execution'', ''cip'', ''federation''} \<and> di_route_authorized i \<noteq> Some True)"
      unfolding reason_def None option.case
      by (simp add: if_refuses del: insert_iff split del: if_split)
    then show ?thesis unfolding cleared_def using m by blast
  next
    case (Some r)
    moreover have "\<not> cleared i" using Some by (auto simp: cleared_def membership_reason_def split: option.splits if_splits)
    moreover have "r \<noteq> ''allowed''" using Some membership_reason_not_allowed [of i] by auto
    ultimately show ?thesis by (simp add: reason_def)
  qed
  have "reason (i\<lparr>di_cached_authority := a, di_after_restart := b\<rparr>) = reason i"
    by (cases i) (simp only: DecisionInput.update_convs DecisionInput.select_convs reason_def membership_reason_def)
  then show ?thesis using allowed by (simp add: evaluate_decision_def Let_def)
qed

end
