(* ===== verification/Auth.thy ===== *)
theory Auth
  imports Federation
begin

text \<open>
  Tokens, \<open>src/auth.rs\<close>: the signing secret with its own base64 decoder, the node tokens and
  the replica tokens.

  The crate \<open>jsonwebtoken\<close> is the parameter \<open>J\<close>: \<open>jw_encode\<close> signs a claims object with HS256,
  \<open>jw_decode\<close> checks a token against a \<open>Validation\<close> at a time; \<open>jw_header\<close> is the decoded
  header of a token (base64url and JSON). What the source relies on is the predicate
  \<open>jwt_contract\<close>. The clock, the environment and fresh UUIDs are arguments.
\<close>

unbundle bit_operations_syntax

section \<open>Base64\<close>

definition alphabet :: string where
  "alphabet = ''ABCDEFGHIJKLMNOPQRSTUVWXYZabcdefghijklmnopqrstuvwxyz0123456789+/''"

fun index_of :: "char \<Rightarrow> string \<Rightarrow> nat option" where
  "index_of c [] = None"
| "index_of c (x # xs) = (if x = c then Some 0 else map_option Suc (index_of c xs))"

text \<open>The lookup table: zero for every byte outside the alphabet.\<close>

definition b64_table :: "char \<Rightarrow> u32" where
  "b64_table c = (case index_of c alphabet of Some i \<Rightarrow> of_nat i | None \<Rightarrow> 0)"

text \<open>\<open>(n >> k) as u8\<close>, as a byte of the output.\<close>

definition byte_at :: "nat \<Rightarrow> u32 \<Rightarrow> u8" where
  "byte_at k n = ucast (drop_bit k n)"

fun b64_groups :: "u32 list \<Rightarrow> u8 list" where
  "b64_groups (a # b # c # d # rest) =
     (let n = push_bit 18 a OR push_bit 12 b OR push_bit 6 c OR d
      in byte_at 16 n # byte_at 8 n # byte_at 0 n # b64_groups rest)"
| "b64_groups [a, b, c] =
     (let n = push_bit 18 a OR push_bit 12 b OR push_bit 6 c in [byte_at 16 n, byte_at 8 n])"
| "b64_groups [a, b] = (let n = push_bit 18 a OR push_bit 12 b in [byte_at 16 n])"
| "b64_groups _ = []"

definition char_of_u8 :: "u8 \<Rightarrow> char" where
  "char_of_u8 w = char_of (unat w)"

definition base64_decode :: "string \<Rightarrow> unit + string" where
  "base64_decode s =
     (let out = map char_of_u8 (b64_groups (map b64_table (filter (\<lambda>b. b \<noteq> CHR ''='') s)))
      in if out = [] then Inl () else Inr out)"

definition jwt_secret :: "string option \<Rightarrow> string" where
  "jwt_secret app_key =
     (let key = unwrap_or [] app_key
      in case strip_prefix key ''base64:'' of
           Some b64 \<Rightarrow> (case base64_decode b64 of Inr bytes \<Rightarrow> bytes | Inl _ \<Rightarrow> key)
         | None \<Rightarrow> key)"

subsection \<open>Decoding inverts the standard encoding\<close>

text \<open>The encoding of RFC 4648 with padding: the specification of the decoder.\<close>

definition sextet :: "u8 \<Rightarrow> char" where
  "sextet w = alphabet ! unat w"

fun b64_encode :: "u8 list \<Rightarrow> string" where
  "b64_encode [] = []"
| "b64_encode [x] = [sextet (drop_bit 2 x), sextet (push_bit 4 (take_bit 2 x)), CHR ''='', CHR ''='']"
| "b64_encode [x, y] =
     [sextet (drop_bit 2 x), sextet (push_bit 4 (take_bit 2 x) OR drop_bit 4 y), sextet (push_bit 2 (take_bit 4 y)), CHR ''='']"
| "b64_encode (x # y # z # rest) =
     sextet (drop_bit 2 x) # sextet (push_bit 4 (take_bit 2 x) OR drop_bit 4 y)
     # sextet (push_bit 2 (take_bit 4 y) OR drop_bit 6 z) # sextet (take_bit 6 z) # b64_encode rest"

lemma table_alphabet: "i < 64 \<Longrightarrow> b64_table (alphabet ! i) = of_nat i \<and> alphabet ! i \<noteq> CHR ''=''"
proof -
  have "list_all (\<lambda>i. b64_table (alphabet ! i) = of_nat i \<and> alphabet ! i \<noteq> CHR ''='') [0..<64]" by code_simp
  then show "i < 64 \<Longrightarrow> b64_table (alphabet ! i) = of_nat i \<and> alphabet ! i \<noteq> CHR ''=''"
    by (simp add: list_all_iff)
qed

lemma table_sextet:
  assumes "take_bit 6 w = w"
  shows "b64_table (sextet w) = ucast w" and "sextet w \<noteq> CHR ''=''"
proof -
  have "unat (take_bit 6 w) = take_bit 6 (unat w)" by (rule unsigned_take_bit_eq)
  then have "unat w < 64" using take_bit_nat_less_exp [of 6 "unat w"] by (simp only: assms) simp
  from table_alphabet [OF this] show "b64_table (sextet w) = ucast w" and "sextet w \<noteq> CHR ''=''"
    by (simp_all add: sextet_def)
qed

lemma u8_no_bit: "8 \<le> n \<Longrightarrow> \<not> bit (w :: u8) n"
  using bit_imp_le_length [of w n] by auto

lemma u8_bit_cases:
  assumes "bit v 0 = bit w 0" "bit v 1 = bit w 1" "bit v 2 = bit w 2" "bit v 3 = bit w 3"
    "bit v 4 = bit w 4" "bit v 5 = bit w 5" "bit v 6 = bit w 6" "bit v 7 = bit w 7"
  shows "v = (w :: u8)"
proof (rule bit_word_eqI)
  fix n assume "n < LENGTH(8)"
  then have "n = 0 \<or> n = 1 \<or> n = 2 \<or> n = 3 \<or> n = 4 \<or> n = 5 \<or> n = 6 \<or> n = 7" by (simp, presburger)
  then show "bit v n = bit w n" using assms by (elim disjE) simp_all
qed

lemma sextet_small:
  "take_bit 6 (drop_bit 2 x) = drop_bit 2 (x :: u8)"
  "take_bit 6 (push_bit 4 (take_bit 2 x) OR drop_bit 4 y) = push_bit 4 (take_bit 2 x) OR drop_bit 4 (y :: u8)"
  "take_bit 6 (push_bit 2 (take_bit 4 y) OR drop_bit 6 z) = push_bit 2 (take_bit 4 y) OR drop_bit 6 (z :: u8)"
  "take_bit 6 (push_bit 4 (take_bit 2 x)) = push_bit 4 (take_bit 2 (x :: u8))"
  "take_bit 6 (push_bit 2 (take_bit 4 y)) = push_bit 2 (take_bit 4 (y :: u8))"
  "take_bit 6 (take_bit 6 z) = take_bit 6 (z :: u8)"
  by (rule u8_bit_cases; simp add: bit_simps u8_no_bit)+

lemmas sextet_table = sextet_small [THEN table_sextet(1)] sextet_small [THEN table_sextet(2)]

lemma sextet_bytes:
  fixes x y z :: u8
  defines "a \<equiv> ucast (drop_bit 2 x) :: u32" and "b \<equiv> ucast (push_bit 4 (take_bit 2 x) OR drop_bit 4 y) :: u32"
    and "c \<equiv> ucast (push_bit 2 (take_bit 4 y) OR drop_bit 6 z) :: u32" and "d \<equiv> ucast (take_bit 6 z) :: u32"
  shows "byte_at 16 (push_bit 18 a OR push_bit 12 b OR push_bit 6 c OR d) = x"
    and "byte_at 8 (push_bit 18 a OR push_bit 12 b OR push_bit 6 c OR d) = y"
    and "byte_at 0 (push_bit 18 a OR push_bit 12 b OR push_bit 6 c OR d) = z"
  unfolding byte_at_def a_def b_def c_def d_def
  by (rule u8_bit_cases; simp add: bit_simps u8_no_bit)+

lemma b64_groups_encode:
  "b64_groups (map b64_table (filter (\<lambda>b. b \<noteq> CHR ''='') (b64_encode bs))) = bs"
proof (induction bs rule: b64_encode.induct)
  case (2 x)
  show ?case using sextet_bytes(1) [of x 0 0] by (simp add: sextet_table Let_def)
next
  case (3 x y)
  show ?case using sextet_bytes(1,2) [of x y 0] by (simp add: sextet_table Let_def)
next
  case (4 x y z rest)
  then show ?case using sextet_bytes [of x y z] by (simp add: sextet_table Let_def)
qed simp

text \<open>
  The hand-written base64 decoder inverts the standard encoding, padding included: a signing
  secret stored as the base64 text of a non-empty byte string is recovered exactly.
\<close>

theorem jwt_secret_decodes_base64:
  assumes "bs \<noteq> []"
  shows "base64_decode (b64_encode bs) = Inr (map char_of_u8 bs)
    \<and> jwt_secret (Some (''base64:'' @ b64_encode bs)) = map char_of_u8 bs"
proof -
  have "strip_prefix (''base64:'' @ b64_encode bs) ''base64:'' = Some (b64_encode bs)"
    by (simp only: strip_prefix_Some)
  moreover have "base64_decode (b64_encode bs) = Inr (map char_of_u8 bs)"
    using assms by (simp add: base64_decode_def b64_groups_encode Let_def)
  ultimately show ?thesis by (simp only: jwt_secret_def Let_def unwrap_or_simps option.case sum.case)
qed

theorem jwt_secret_decodes_base64_witness:
  "b64_encode [77, 97, 110, 77] = ''TWFuTQ==''
   \<and> jwt_secret (Some (''base64:'' @ b64_encode [77, 97, 110, 77])) = map char_of_u8 [77, 97, 110, 77]"
proof -
  have "b64_encode [77, 97, 110, 77] = ''TWFuTQ==''" by code_simp
  then show ?thesis using jwt_secret_decodes_base64 [of "[77, 97, 110, 77]"] by simp
qed

section \<open>Tokens\<close>

definition REPLICA_SCOPE :: string where
  "REPLICA_SCOPE = ''GET /v1/snapshot''"

definition LEGACY_REPLICA_SCOPE :: string where
  "LEGACY_REPLICA_SCOPE = ''GET /v1/events''"

definition REPLICA_TTL_SECONDS :: u64 where
  "REPLICA_TTL_SECONDS = 90 * 86400"

record NodeClaims =
  nc_sub :: string
  nc_iss :: string
  nc_iat :: u64
  nc_exp :: u64

record ReplicaClaims =
  rc_sub :: string
  rc_iss :: string
  rc_iat :: u64
  rc_exp :: u64
  rc_role :: string
  rc_scope :: string
  rc_jti :: "string option"

datatype ReplicaTokenError = TokenExpired | TokenInvalid

text \<open>What the derived serialisers and deserialisers of the claims do.\<close>

definition get_u64 :: "json \<Rightarrow> string \<Rightarrow> u64 option" where
  "get_u64 v k = map_option of_int (Option.bind (json_get v k) as_u64)"

definition node_claims_json :: "NodeClaims \<Rightarrow> json" where
  "node_claims_json c =
     JObj [(''sub'', JStr (nc_sub c)), (''iss'', JStr (nc_iss c)), (''iat'', JInt (uint (nc_iat c))), (''exp'', JInt (uint (nc_exp c)))]"

definition node_claims_of :: "json \<Rightarrow> NodeClaims option" where
  "node_claims_of p =
     (case (get_str p ''sub'', get_str p ''iss'', get_u64 p ''iat'', get_u64 p ''exp'') of
        (Some sub, Some iss, Some iat, Some ex) \<Rightarrow> Some \<lparr>nc_sub = sub, nc_iss = iss, nc_iat = iat, nc_exp = ex\<rparr>
      | _ \<Rightarrow> None)"

definition replica_claims_json :: "ReplicaClaims \<Rightarrow> json" where
  "replica_claims_json c =
     JObj ([(''sub'', JStr (rc_sub c)), (''iss'', JStr (rc_iss c)), (''iat'', JInt (uint (rc_iat c))), (''exp'', JInt (uint (rc_exp c))),
            (''role'', JStr (rc_role c)), (''scope'', JStr (rc_scope c))]
           @ (case rc_jti c of None \<Rightarrow> [] | Some j \<Rightarrow> [(''jti'', JStr j)]))"

text \<open>\<open>jti\<close> may be absent or null; any other non-string is a decoding error.\<close>

definition jti_of :: "json \<Rightarrow> string option option" where
  "jti_of p =
     (case json_get p ''jti'' of None \<Rightarrow> Some None | Some JNull \<Rightarrow> Some None | Some (JStr j) \<Rightarrow> Some (Some j) | Some _ \<Rightarrow> None)"

definition replica_claims_of :: "json \<Rightarrow> ReplicaClaims option" where
  "replica_claims_of p =
     (case (get_str p ''sub'', get_str p ''iss'', get_u64 p ''iat'', get_u64 p ''exp'', get_str p ''role'', get_str p ''scope'', jti_of p) of
        (Some sub, Some iss, Some iat, Some ex, Some role, Some scope, Some jti) \<Rightarrow>
          Some \<lparr>rc_sub = sub, rc_iss = iss, rc_iat = iat, rc_exp = ex, rc_role = role, rc_scope = scope, rc_jti = jti\<rparr>
      | _ \<Rightarrow> None)"

subsection \<open>The token library\<close>

record validation =
  va_issuers :: "string list"
  va_required :: "string list"
  va_leeway :: int

datatype jwt_error = ExpiredSignature | OtherJwtError

text \<open>
  \<open>jw_open\<close> gives the payload of a token whose HS256 signature verifies under the secret;
  \<open>jw_validate\<close> is the check of the registered claims, \<open>None\<close> when they pass.
\<close>

record jwt =
  jw_encode :: "json \<Rightarrow> string \<Rightarrow> string option"
  jw_open :: "string \<Rightarrow> string \<Rightarrow> json option"
  jw_header :: "string \<Rightarrow> json option"
  jw_validate :: "validation \<Rightarrow> u64 \<Rightarrow> json \<Rightarrow> jwt_error option"

definition jwt_decode :: "jwt \<Rightarrow> (json \<Rightarrow> 'c option) \<Rightarrow> validation \<Rightarrow> u64 \<Rightarrow> string \<Rightarrow> string \<Rightarrow> jwt_error + 'c" where
  "jwt_decode J claims_of v now token secret =
     (case jw_open J token secret of
        None \<Rightarrow> Inl OtherJwtError
      | Some p \<Rightarrow>
          (case claims_of p of
             None \<Rightarrow> Inl OtherJwtError
           | Some c \<Rightarrow> (case jw_validate J v now p of Some e \<Rightarrow> Inl e | None \<Rightarrow> Inr c)))"

definition issue_jwt :: "jwt \<Rightarrow> string option \<Rightarrow> u64 \<Rightarrow> string \<Rightarrow> string option" where
  "issue_jwt J app_key now node_id =
     (let secret = jwt_secret app_key
      in if secret = [] then None
         else jw_encode J (node_claims_json \<lparr>nc_sub = node_id, nc_iss = ''iicp.network'', nc_iat = now, nc_exp = now + 3600\<rparr>) secret)"

text \<open>\<open>Validation::new\<close> requires \<open>exp\<close> and allows sixty seconds of clock skew.\<close>

definition node_validation :: validation where
  "node_validation = \<lparr>va_issuers = [''iicp.network''], va_required = [''exp''], va_leeway = 60\<rparr>"

definition verify_jwt :: "jwt \<Rightarrow> string option \<Rightarrow> u64 \<Rightarrow> string \<Rightarrow> string option" where
  "verify_jwt J app_key now token =
     (let secret = jwt_secret app_key
      in if secret = [] then None
         else case jwt_decode J node_claims_of node_validation now token secret of Inr c \<Rightarrow> Some (nc_sub c) | Inl _ \<Rightarrow> None)"

definition strict_hs256_header :: "jwt \<Rightarrow> string \<Rightarrow> bool" where
  "strict_hs256_header J token \<longleftrightarrow>
     (case jw_header J token of
        None \<Rightarrow> False
      | Some h \<Rightarrow> get_str h ''alg'' = Some ''HS256'' \<and> get_str h ''typ'' = Some ''JWT'' \<and> json_get h ''crit'' = None)"

definition issue_replica_jwt :: "jwt \<Rightarrow> string option \<Rightarrow> u64 \<Rightarrow> string \<Rightarrow> string \<Rightarrow> string option" where
  "issue_replica_jwt J app_key now uuid replica_id =
     (let secret = jwt_secret app_key
      in if secret = [] \<or> replica_id = [] then None
         else jw_encode J
           (replica_claims_json \<lparr>rc_sub = replica_id, rc_iss = ''iicp.network'', rc_iat = now, rc_exp = now + REPLICA_TTL_SECONDS,
              rc_role = ''replica'', rc_scope = REPLICA_SCOPE, rc_jti = Some uuid\<rparr>) secret)"

definition replica_validation :: validation where
  "replica_validation = \<lparr>va_issuers = [''iicp.network''], va_required = [''sub'', ''iss'', ''iat'', ''exp''], va_leeway = 0\<rparr>"

definition verify_replica_jwt :: "jwt \<Rightarrow> string option \<Rightarrow> u64 \<Rightarrow> string \<Rightarrow> ReplicaTokenError + ReplicaClaims" where
  "verify_replica_jwt J app_key now token =
     (let secret = jwt_secret app_key
      in if secret = [] then Inl TokenInvalid
         else if \<not> strict_hs256_header J token then Inl TokenInvalid
         else case jwt_decode J replica_claims_of replica_validation now token secret of
                Inr c \<Rightarrow>
                  if rc_sub c \<noteq> [] \<and> rc_exp c \<ge> rc_iat c \<and> rc_role c = ''replica''
                     \<and> (rc_scope c = REPLICA_SCOPE \<or> rc_scope c = LEGACY_REPLICA_SCOPE)
                  then Inr c else Inl TokenInvalid
              | Inl ExpiredSignature \<Rightarrow> Inl TokenExpired
              | Inl OtherJwtError \<Rightarrow> Inl TokenInvalid)"

subsection \<open>What the token library promises\<close>

definition claims_issued :: "validation \<Rightarrow> json \<Rightarrow> bool" where
  "claims_issued v p \<longleftrightarrow>
     (case get_str p ''iss'' of None \<Rightarrow> False | Some i \<Rightarrow> i \<in> set (va_issuers v))
     \<and> list_all (\<lambda>k. json_get p k \<noteq> None) (va_required v)"

text \<open>
  A token made by \<open>jw_encode\<close> opens to its payload under the same secret and has the plain
  HS256 header; with the issuer and the required claims in order the verdict depends on the
  expiry and the leeway; nothing else passes the validation.
\<close>

definition jwt_contract :: "jwt \<Rightarrow> bool" where
  "jwt_contract J \<longleftrightarrow>
     (\<forall>p s t. jw_encode J p s = Some t \<longrightarrow>
        jw_open J t s = Some p \<and> jw_header J t = Some (JObj [(''typ'', JStr ''JWT''), (''alg'', JStr ''HS256'')]))
     \<and> (\<forall>v now p e. claims_issued v p \<longrightarrow> json_get p ''aud'' = None \<longrightarrow> json_get p ''nbf'' = None \<longrightarrow> get_u64 p ''exp'' = Some e \<longrightarrow>
        jw_validate J v now p = (if uint e < uint now - va_leeway v then Some ExpiredSignature else None))
     \<and> (\<forall>v now p. jw_validate J v now p = None \<longrightarrow>
        (\<exists>e. get_u64 p ''exp'' = Some e \<and> uint now - va_leeway v \<le> uint e))"

section \<open>Token correctness\<close>

lemma contract_encode:
  assumes "jwt_contract J" "jw_encode J p s = Some t"
  shows "jw_open J t s = Some p" "strict_hs256_header J t"
  using assms by (auto simp: jwt_contract_def strict_hs256_header_def get_str_def)

lemma contract_validate:
  "jwt_contract J \<Longrightarrow> claims_issued v p \<Longrightarrow> json_get p ''aud'' = None \<Longrightarrow> json_get p ''nbf'' = None \<Longrightarrow> get_u64 p ''exp'' = Some e \<Longrightarrow>
     jw_validate J v now p = (if uint e < uint now - va_leeway v then Some ExpiredSignature else None)"
  unfolding jwt_contract_def by blast

lemma contract_expiry:
  "jwt_contract J \<Longrightarrow> jw_validate J v now p = None \<Longrightarrow> \<exists>e. get_u64 p ''exp'' = Some e \<and> uint now - va_leeway v \<le> uint e"
  unfolding jwt_contract_def by blast

lemma get_u64_int [simp]: "json_get p k = Some (JInt (uint (w :: u64))) \<Longrightarrow> get_u64 p k = Some w"
  by (simp add: get_u64_def)

lemma replica_claims_roundtrip: "replica_claims_of (replica_claims_json c) = Some c"
  by (cases "rc_jti c") (simp_all add: replica_claims_of_def replica_claims_json_def get_str_def jti_of_def)

lemma node_claims_roundtrip: "node_claims_of (node_claims_json c) = Some c"
  by (simp add: node_claims_of_def node_claims_json_def get_str_def)

lemma replica_claims_fields:
  "json_get (replica_claims_json c) ''aud'' = None" "json_get (replica_claims_json c) ''nbf'' = None"
  "get_u64 (replica_claims_json c) ''exp'' = Some (rc_exp c)"
  "rc_iss c = ''iicp.network'' \<Longrightarrow> claims_issued replica_validation (replica_claims_json c)"
  "rc_iss c = ''iicp.network'' \<Longrightarrow> claims_issued node_validation (replica_claims_json c)"
  "node_claims_of (replica_claims_json c) = Some \<lparr>nc_sub = rc_sub c, nc_iss = rc_iss c, nc_iat = rc_iat c, nc_exp = rc_exp c\<rparr>"
  by (auto simp: replica_claims_json_def claims_issued_def replica_validation_def node_validation_def get_str_def node_claims_of_def
      split: option.split)

lemma node_claims_fields:
  "json_get (node_claims_json c) ''aud'' = None" "json_get (node_claims_json c) ''nbf'' = None"
  "get_u64 (node_claims_json c) ''exp'' = Some (nc_exp c)"
  "nc_iss c = ''iicp.network'' \<Longrightarrow> claims_issued node_validation (node_claims_json c)"
  "replica_claims_of (node_claims_json c) = None"
  by (simp_all add: node_claims_json_def claims_issued_def node_validation_def get_str_def replica_claims_of_def)

text \<open>
  A replica credential is accepted only with the replica profile: a configured secret, a plain
  HS256 header without critical extensions, a payload signed under the secret, a non-empty
  subject, the replica role, one of the two scopes, and an expiry that has not passed, with
  no leeway.
\<close>

theorem replica_token_profile:
  assumes "jwt_contract J" and "verify_replica_jwt J app_key now token = Inr c"
  shows "jwt_secret app_key \<noteq> [] \<and> strict_hs256_header J token
    \<and> (\<exists>p. jw_open J token (jwt_secret app_key) = Some p \<and> replica_claims_of p = Some c)
    \<and> rc_sub c \<noteq> [] \<and> rc_role c = ''replica'' \<and> rc_scope c \<in> {''GET /v1/snapshot'', ''GET /v1/events''}
    \<and> rc_iat c \<le> rc_exp c \<and> now \<le> rc_exp c"
proof -
  obtain p where p: "jw_open J token (jwt_secret app_key) = Some p" "replica_claims_of p = Some c"
      "jw_validate J replica_validation now p = None"
    using assms(2) by (auto simp: verify_replica_jwt_def jwt_decode_def Let_def split: if_splits option.splits sum.splits jwt_error.splits)
  obtain e where e: "get_u64 p ''exp'' = Some e" "uint now - va_leeway replica_validation \<le> uint e"
    using contract_expiry [OF assms(1) p(3)] by blast
  have "rc_exp c = e" using p(2) e(1) by (auto simp: replica_claims_of_def split: option.splits)
  then have "now \<le> rc_exp c" using e(2) by (simp add: replica_validation_def word_le_def)
  then show ?thesis
    using assms(2) p by (auto simp: verify_replica_jwt_def jwt_decode_def Let_def REPLICA_SCOPE_def LEGACY_REPLICA_SCOPE_def split: if_splits)
qed

lemma uint_ttl:
  "uint (t0 :: u64) + 7776000 < 2 ^ 64 \<Longrightarrow> uint (t0 + REPLICA_TTL_SECONDS) = uint t0 + 7776000"
  by (simp add: REPLICA_TTL_SECONDS_def uint_word_ariths)

lemma issued_replica_claims:
  assumes "issue_replica_jwt J app_key t0 uuid r = Some tok"
  obtains c where "jw_encode J (replica_claims_json c) (jwt_secret app_key) = Some tok" "jwt_secret app_key \<noteq> []"
    "c = \<lparr>rc_sub = r, rc_iss = ''iicp.network'', rc_iat = t0, rc_exp = t0 + REPLICA_TTL_SECONDS,
          rc_role = ''replica'', rc_scope = REPLICA_SCOPE, rc_jti = Some uuid\<rparr>" "r \<noteq> []"
  using assms by (auto simp: issue_replica_jwt_def Let_def split: if_splits)

lemma issued_replica_token:
  assumes J: "jwt_contract J" and issued: "issue_replica_jwt J app_key t0 uuid r = Some tok"
    and no_wrap: "uint t0 + 7776000 < 2 ^ 64"
  shows "\<exists>c. rc_sub c = r \<and> verify_replica_jwt J app_key now tok =
      (if uint t0 + 7776000 < uint now then Inl TokenExpired else Inr c)"
    and "uint now \<le> uint t0 + 7776000 \<Longrightarrow> verify_jwt J app_key now tok = Some r"
proof -
  obtain c where c: "jw_encode J (replica_claims_json c) (jwt_secret app_key) = Some tok" "jwt_secret app_key \<noteq> []"
    "c = \<lparr>rc_sub = r, rc_iss = ''iicp.network'', rc_iat = t0, rc_exp = t0 + REPLICA_TTL_SECONDS,
          rc_role = ''replica'', rc_scope = REPLICA_SCOPE, rc_jti = Some uuid\<rparr>" "r \<noteq> []"
    using issued_replica_claims [OF issued] by blast
  have exp: "uint (rc_exp c) = uint t0 + 7776000" and iat: "rc_iat c \<le> rc_exp c"
    using uint_ttl [OF no_wrap] by (simp_all add: c(3) word_le_def)
  note opened = contract_encode [OF J c(1)]
  have iss: "rc_iss c = ''iicp.network''" by (simp add: c(3))
  have val: "jw_validate J v now (replica_claims_json c) = (if uint (rc_exp c) < uint now - va_leeway v then Some ExpiredSignature else None)"
    if "claims_issued v (replica_claims_json c)" for v
    using contract_validate [OF J that] replica_claims_fields(1,2,3) by blast
  note val_replica = val [OF replica_claims_fields(4) [OF iss]] and val_node = val [OF replica_claims_fields(5) [OF iss]]
  have "verify_replica_jwt J app_key now tok = (if uint (rc_exp c) < uint now then Inl TokenExpired else Inr c)"
    using opened val_replica iat c(2,4)
    by (simp add: verify_replica_jwt_def jwt_decode_def Let_def replica_claims_roundtrip replica_validation_def) (simp add: c(3))
  then show "\<exists>c. rc_sub c = r \<and> verify_replica_jwt J app_key now tok = (if uint t0 + 7776000 < uint now then Inl TokenExpired else Inr c)"
    using exp c(3) by (intro exI [of _ c]) simp
  show "uint now \<le> uint t0 + 7776000 \<Longrightarrow> verify_jwt J app_key now tok = Some r"
    using opened val_node c(2) exp
    by (simp add: verify_jwt_def jwt_decode_def Let_def replica_claims_fields(6) node_validation_def) (simp add: c(3))
qed

lemma node_token_not_replica:
  assumes "jwt_contract J" "issue_jwt J app_key t0 n = Some ntok"
  shows "verify_replica_jwt J app_key now ntok = Inl TokenInvalid"
proof -
  obtain cn where "jw_encode J (node_claims_json cn) (jwt_secret app_key) = Some ntok"
    using assms(2) by (auto simp: issue_jwt_def Let_def split: if_splits)
  from contract_encode [OF assms(1) this] show ?thesis
    by (simp add: verify_replica_jwt_def jwt_decode_def Let_def node_claims_fields)
qed

text \<open>
  A replica token lives ninety days: while its time has not run out it verifies and names the
  replica it was issued for, afterwards it is reported as expired. A node token never passes
  as a replica token. The converse fails: a replica token is taken for a node token of a node
  whose id is the replica's.
\<close>

theorem replica_token_lifetime:
  assumes J: "jwt_contract J" and issued: "issue_replica_jwt J app_key t0 uuid r = Some tok"
    and no_wrap: "uint t0 + 7776000 < 2 ^ 64" and node: "issue_jwt J app_key t0 n = Some ntok"
  shows "(uint now \<le> uint t0 + 7776000 \<longrightarrow>
            (\<exists>c. verify_replica_jwt J app_key now tok = Inr c \<and> rc_sub c = r) \<and> verify_jwt J app_key now tok = Some r)
    \<and> (uint t0 + 7776000 < uint now \<longrightarrow> verify_replica_jwt J app_key now tok = Inl TokenExpired)
    \<and> verify_replica_jwt J app_key now ntok = Inl TokenInvalid"
  using issued_replica_token [OF J issued no_wrap, of now] node_token_not_replica [OF J node, of now] by auto

subsection \<open>An instance of the token library\<close>

definition demo_node_payload :: json where
  "demo_node_payload = node_claims_json \<lparr>nc_sub = ''n'', nc_iss = ''iicp.network'', nc_iat = 1000, nc_exp = 4600\<rparr>"

definition demo_replica_payload :: json where
  "demo_replica_payload = replica_claims_json
     \<lparr>rc_sub = ''r'', rc_iss = ''iicp.network'', rc_iat = 1000, rc_exp = 7777000, rc_role = ''replica'', rc_scope = REPLICA_SCOPE,
      rc_jti = Some ''u''\<rparr>"

definition demo_jwt :: jwt where
  "demo_jwt =
     \<lparr>jw_encode = (\<lambda>p s. if s = ''key'' \<and> p = demo_node_payload then Some ''node''
                       else if s = ''key'' \<and> p = demo_replica_payload then Some ''replica'' else None),
      jw_open = (\<lambda>t s. if s = ''key'' \<and> t = ''node'' then Some demo_node_payload
                     else if s = ''key'' \<and> t = ''replica'' then Some demo_replica_payload else None),
      jw_header = (\<lambda>t. if t = ''node'' \<or> t = ''replica'' then Some (JObj [(''typ'', JStr ''JWT''), (''alg'', JStr ''HS256'')]) else None),
      jw_validate = (\<lambda>v now p. case get_u64 p ''exp'' of
         None \<Rightarrow> Some OtherJwtError
       | Some e \<Rightarrow> if uint e < uint now - va_leeway v then Some ExpiredSignature
                  else if claims_issued v p then None else Some OtherJwtError)\<rparr>"

lemma demo_jwt_contract: "jwt_contract demo_jwt"
  by (auto simp: jwt_contract_def demo_jwt_def split: option.splits if_splits)

theorem replica_token_lifetime_witness:
  "(\<exists>c. verify_replica_jwt demo_jwt (Some ''key'') 5000 ''replica'' = Inr c \<and> rc_sub c = ''r'')
   \<and> verify_jwt demo_jwt (Some ''key'') 5000 ''replica'' = Some ''r''
   \<and> verify_replica_jwt demo_jwt (Some ''key'') 5000 ''node'' = Inl TokenInvalid"
proof -
  have k: "jwt_secret (Some ''key'') = ''key''" by code_simp
  have "issue_replica_jwt demo_jwt (Some ''key'') 1000 ''u'' ''r'' = Some ''replica''"
    and "issue_jwt demo_jwt (Some ''key'') 1000 ''n'' = Some ''node''"
    by (simp_all add: issue_replica_jwt_def issue_jwt_def k demo_jwt_def demo_node_payload_def demo_replica_payload_def
        REPLICA_TTL_SECONDS_def node_claims_json_def replica_claims_json_def)
  from replica_token_lifetime [OF demo_jwt_contract this(1) _ this(2), of 5000] show ?thesis by simp
qed

theorem replica_token_profile_witness:
  "\<exists>c. verify_replica_jwt demo_jwt (Some ''key'') 5000 ''replica'' = Inr c \<and> rc_role c = ''replica'' \<and> 5000 \<le> rc_exp c"
proof -
  have "verify_replica_jwt demo_jwt (Some ''key'') 5000 ''replica''
     = Inr \<lparr>rc_sub = ''r'', rc_iss = ''iicp.network'', rc_iat = 1000, rc_exp = 7777000, rc_role = ''replica'', rc_scope = REPLICA_SCOPE,
         rc_jti = Some ''u''\<rparr>" by code_simp
  then show ?thesis using replica_token_profile [OF demo_jwt_contract] by blast
qed

end
