(* ===== verification/Http.thy ===== *)
theory Http
  imports Auth Event_Log Health Policy
begin

text \<open>
  The shared HTTP layer of \<open>src/main.rs\<close> and \<open>src/state.rs\<close>: the application state, bearer
  tokens and caller identity, error bodies, event emission, and the handlers that live in
  \<open>main.rs\<close> (audit reports, quotes, telemetry, deregistration).

  A handler is a function of the request context, the headers, the decoded request and the
  application state; it returns the response (status and body) and the new state. The context
  holds what the handler takes from outside: the cryptography, the token library, the clock,
  the fresh UUIDs numbered
  by their use, the text of a time so many seconds ahead, base64url. A header map is a partial function to the text
  of a header's first value; \<open>None\<close> also stands for a value that is not visible ASCII. The
  repository behind the handlers is the in-memory one.
\<close>

type_synonym headers = "string \<Rightarrow> string option"
type_synonym response = "int \<times> json"

record AppState =
  st_repo :: InMemoryRepo
  st_env :: Env
  st_signing_key :: "string option"
  st_directory_did :: string
  st_directory_service_endpoint :: string
  st_register_rate :: "(string, u32 \<times> u64) hashmap"
  st_strict_e050_secured :: bool
  st_allow_insecure_tls :: bool
  st_skip_liveness_check :: bool
  st_replica_ready :: "bool option"

record RequestContext =
  cx_crypto :: crypto
  cx_jwt :: jwt
  cx_app_key :: "string option"
  cx_now :: u64
  cx_now_ms :: i64
  cx_uuid :: "nat \<Rightarrow> string"
  cx_hmac_verify :: "string \<Rightarrow> string \<Rightarrow> string \<Rightarrow> bool"
  cx_rfc3339_in :: "int \<Rightarrow> string"
  cx_b64url :: "string \<Rightarrow> string"

section \<open>Callers and error bodies\<close>

definition err_json :: "int \<Rightarrow> string \<Rightarrow> string \<Rightarrow> response" where
  "err_json status ecode message = (status, JObj [(''error'', JObj [(''code'', JStr ecode), (''message'', JStr message)])])"

definition reject :: "string \<Rightarrow> string \<Rightarrow> response" where
  "reject ecode message = err_json 422 ecode message"

definition policy_reject :: "IntentClassification \<Rightarrow> response" where
  "policy_reject classification = err_json 422 REFUSAL_CODE (refusal_message classification)"

definition nonempty :: "string option \<Rightarrow> string option" where
  "nonempty v = (case v of None \<Rightarrow> None | Some s \<Rightarrow> if s = [] then None else Some s)"

definition bearer_token :: "headers \<Rightarrow> string option" where
  "bearer_token headers = nonempty (Option.bind (headers ''authorization'') (\<lambda>s. strip_prefix s ''Bearer ''))"

definition node_id_from_auth :: "RequestContext \<Rightarrow> headers \<Rightarrow> string \<Rightarrow> string option" where
  "node_id_from_auth X headers token =
     (case verify_jwt (cx_jwt X) (cx_app_key X) (cx_now X) token of
        Some node_id \<Rightarrow> Some node_id
      | None \<Rightarrow> nonempty (headers ''x-node-id''))"

definition get_client_ip :: "headers \<Rightarrow> string" where
  "get_client_ip headers =
     (case nonempty (map_option trim (headers ''cf-connecting-ip'')) of
        Some cf \<Rightarrow> cf
      | None \<Rightarrow>
          (case nonempty (map_option (\<lambda>xff. trim (hd (split_char CHR '','' xff))) (headers ''x-forwarded-for'')) of
             Some first \<Rightarrow> first
           | None \<Rightarrow> unwrap_or ''unknown'' (nonempty (map_option trim (headers ''x-real-ip'')))))"

text \<open>The event is signed when a key is configured; its id and time come from the context.\<close>

definition emit_event :: "RequestContext \<Rightarrow> string \<Rightarrow> string \<Rightarrow> string \<Rightarrow> json \<Rightarrow> AppState \<Rightarrow> AppState" where
  "emit_event X event_id event_type node_id payload S =
     (case st_signing_key S of
        None \<Rightarrow> S
      | Some key \<Rightarrow>
          S\<lparr>st_repo := snd (append_signed_event (cx_crypto X) event_id (cx_now_ms X) key event_type node_id payload (st_repo S))\<rparr>)"

definition missing_node_token :: response where
  "missing_node_token = err_json 401 ''unauthorized'' ''missing node_token''"

definition invalid_node_token :: response where
  "invalid_node_token = err_json 401 ''unauthorized'' ''invalid node_token''"

definition identity_required :: response where
  "identity_required = err_json 422 ''validation_error'' ''X-Node-Id header required (or use JWT)''"

definition node_not_found :: response where
  "node_not_found = err_json 404 ''IICP-E003'' ''node not found''"

section \<open>The guard of an authenticated endpoint\<close>

text \<open>
  A request is authorised when it carries a bearer token that verifies for the node it acts
  for. An endpoint is guarded when it refuses every other request with an error status and
  without a change of state.
\<close>

definition authorised :: "headers \<Rightarrow> string option \<Rightarrow> AppState \<Rightarrow> bool" where
  "authorised h node S \<longleftrightarrow>
     (case (bearer_token h, node) of
        (Some t, Some i) \<Rightarrow> verify_node_token (st_repo S) i t
      | _ \<Rightarrow> False)"

lemma authorised_iff:
  "authorised h node S \<longleftrightarrow> (\<exists>t i. bearer_token h = Some t \<and> node = Some i \<and> verify_node_token (st_repo S) i t)"
  by (simp add: authorised_def split: option.split)

locale guarded_endpoint =
  fixes endpoint :: "headers \<Rightarrow> 'r \<Rightarrow> AppState \<Rightarrow> response \<times> AppState"
    and acting_node :: "headers \<Rightarrow> 'r \<Rightarrow> string option"
  assumes refuses: "\<not> authorised h (acting_node h r) S \<Longrightarrow> snd (endpoint h r S) = S"
    and refusal_status: "\<not> authorised h (acting_node h r) S \<Longrightarrow> fst (fst (endpoint h r S)) \<in> {401, 422}"
begin

fun run :: "(headers \<times> 'r) list \<Rightarrow> AppState \<Rightarrow> AppState" where
  "run [] S = S"
| "run ((h, r) # reqs) S = run reqs (snd (endpoint h r S))"

lemma unauthorised_run:
  "\<forall>(h, r) \<in> set reqs. \<not> authorised h (acting_node h r) S \<Longrightarrow> run reqs S = S"
  by (induction reqs) (auto simp: refuses)

lemma success_needs_token:
  assumes "fst (fst (endpoint h r S)) \<notin> {401, 422}"
  shows "\<exists>t i. bearer_token h = Some t \<and> acting_node h r = Some i \<and> verify_node_token (st_repo S) i t"
  using refusal_status assms unfolding authorised_iff [symmetric] by blast

lemma change_needs_token:
  assumes "snd (endpoint h r S) \<noteq> S"
  shows "\<exists>t i. bearer_token h = Some t \<and> acting_node h r = Some i \<and> verify_node_token (st_repo S) i t"
  using refuses assms unfolding authorised_iff [symmetric] by blast

end

text \<open>The two ways a handler finds out for whom the caller acts.\<close>

definition caller_of :: "RequestContext \<Rightarrow> headers \<Rightarrow> string option" where
  "caller_of X h = Option.bind (bearer_token h) (node_id_from_auth X h)"

lemmas guard_defs = authorised_iff caller_of_def missing_node_token_def invalid_node_token_def identity_required_def
  reject_def err_json_def

section \<open>Audit reports\<close>

record AuditReportRequest =
  ar_node_id :: string
  ar_target_node_id :: string
  ar_finding :: string

definition audit_report :: "headers \<Rightarrow> AuditReportRequest \<Rightarrow> AppState \<Rightarrow> response \<times> AppState" where
  "audit_report headers req S =
     (case bearer_token headers of
        None \<Rightarrow> (missing_node_token, S)
      | Some token \<Rightarrow>
          if \<not> verify_node_token (st_repo S) (ar_node_id req) token then (invalid_node_token, S)
          else if ar_node_id req = ar_target_node_id req
          then (err_json 422 ''validation_error'' ''cannot report yourself'', S)
          else if ar_finding req \<notin> {''declaration_divergence'', ''liveness_failure''}
          then (err_json 422 ''validation_error'' ''unknown finding type'', S)
          else
            (let res = apply_audit_report (st_repo S) (ar_target_node_id req);
                 status = (if a_reason res = ''reporter_cap_reached'' then 429
                           else if a_reason res = ''target_not_found'' then 404 else 202)
             in ((status, JObj [(''accepted'', JBool (a_applied res))]), S)))"

section \<open>Quotes\<close>

record QuoteEstimate =
  qe_estimated :: f64
  qe_min :: f64
  qe_max :: f64
  qe_price_per_1000 :: f64
  qe_nodes_quoted :: u32

definition r4 :: "f64 \<Rightarrow> f64" where
  "r4 x = fdiv (round64 (of_int (f64_round (fmul x 10000)))) 10000"

definition div_ceil_1000 :: "u64 \<Rightarrow> u64" where
  "div_ceil_1000 n = (if n mod 1000 = 0 then n div 1000 else n div 1000 + 1)"

definition compute_quote :: "u64 \<Rightarrow> f64 list \<Rightarrow> QuoteEstimate" where
  "compute_quote max_tokens multipliers =
     (let base_blocks = f64_of_word (div_ceil_1000 max_tokens)
      in case multipliers of
           [] \<Rightarrow> (let c = r4 base_blocks
                 in \<lparr>qe_estimated = c, qe_min = c, qe_max = c, qe_price_per_1000 = 1, qe_nodes_quoted = 0\<rparr>)
         | m # ms \<Rightarrow>
             (let min_m = foldl min m ms;
                  max_m = foldl max m ms;
                  avg_m = fdiv (fsum multipliers) (round64 (of_nat (length multipliers)))
              in \<lparr>qe_estimated = r4 (fmul base_blocks avg_m), qe_min = r4 (fmul base_blocks min_m),
                  qe_max = r4 (fmul base_blocks max_m), qe_price_per_1000 = r4 avg_m,
                  qe_nodes_quoted = of_nat (length multipliers)\<rparr>))"

record QuoteParams =
  qp_intent :: "string option"
  qp_max_tokens :: "u64 option"
  qp_min_reputation :: "f64 option"

definition opt_float :: "f64 option \<Rightarrow> json" where
  "opt_float v = (case v of None \<Rightarrow> JNull | Some x \<Rightarrow> JFloat x)"

definition credits_quote :: "RequestContext \<Rightarrow> headers \<Rightarrow> QuoteParams \<Rightarrow> AppState \<Rightarrow> response \<times> AppState" where
  "credits_quote X headers p S =
     (case bearer_token headers of
        None \<Rightarrow> (missing_node_token, S)
      | Some token \<Rightarrow>
          (case node_id_from_auth X headers token of
             None \<Rightarrow> (identity_required, S)
           | Some node_id \<Rightarrow>
               if \<not> verify_node_token (st_repo S) node_id token then (invalid_node_token, S)
               else
                 (let intent = unwrap_or [] (qp_intent p);
                      max_tokens = unwrap_or 0 (qp_max_tokens p)
                  in if intent = [] \<or> max_tokens = 0
                     then (err_json 422 ''validation_error'' ''intent and max_tokens are required (max_tokens > 0)'', S)
                     else
                       (let min_rep = fclamp 0 1 (unwrap_or 0 (qp_min_reputation p));
                            est = compute_quote max_tokens (quote_multipliers (st_repo S) intent min_rep);
                            effective = unwrap_or
                              \<lparr>eb_consumer_balance = 0, eb_effective_balance = 0, eb_balance_scope = ''node'',
                               eb_operator_wallet_balance = None\<rparr>
                              (effective_credit_balance (st_repo S) node_id)
                        in ((200, JObj
                              [(''quote_id'', JStr (''q_'' @ take 12 (cx_uuid X 0))),
                               (''estimated_credits'', JFloat (qe_estimated est)), (''min_credits'', JFloat (qe_min est)),
                               (''max_credits'', JFloat (qe_max est)), (''price_per_1000_tokens'', JFloat (qe_price_per_1000 est)),
                               (''nodes_quoted'', JInt (uint (qe_nodes_quoted est))),
                               (''quote_expires_at'', JStr (cx_rfc3339_in X 60)), (''currency'', JStr ''iicp_credits''),
                               (''consumer_balance'', JFloat (eb_consumer_balance effective)),
                               (''effective_balance'', JFloat (eb_effective_balance effective)),
                               (''balance_scope'', JStr (eb_balance_scope effective)),
                               (''operator_wallet_balance'', opt_float (eb_operator_wallet_balance effective)),
                               (''balance_sufficient'', JBool (eb_effective_balance effective \<ge> qe_estimated est))]), S)))))"

section \<open>Telemetry\<close>

text \<open>The in-memory repository keeps no probe or proxy tokens and no telemetry quorum.\<close>

definition verify_probe_token :: "InMemoryRepo \<Rightarrow> string \<Rightarrow> bool" where
  "verify_probe_token M token_hash = True"

definition verify_proxy_token :: "InMemoryRepo \<Rightarrow> string \<Rightarrow> string \<Rightarrow> bool" where
  "verify_proxy_token M proxy_node_id token = True"

definition record_proxy_telemetry :: "InMemoryRepo \<Rightarrow> bool \<times> u32" where
  "record_proxy_telemetry M = (True, 1)"

record TelemetryProbeRequest =
  tp_probes :: "ProbeResult list"
  tp_run_id :: string

text \<open>A request that fails to decode is \<open>None\<close>.\<close>

definition telemetry_probe :: "RequestContext \<Rightarrow> headers \<Rightarrow> TelemetryProbeRequest option \<Rightarrow> AppState \<Rightarrow> response \<times> AppState" where
  "telemetry_probe X headers request S =
     (case bearer_token headers of
        None \<Rightarrow> (err_json 401 ''unauthorized'' ''missing probe_token'', S)
      | Some token \<Rightarrow>
          (case request of
             None \<Rightarrow> (reject ''validation_error'' ''invalid telemetry probe request'', S)
           | Some req \<Rightarrow>
               if \<not> verify_probe_token (st_repo S) (sha256_hex (cx_crypto X) token)
               then (err_json 401 ''unauthorized'' ''invalid probe_token'', S)
               else if tp_probes req = [] \<or> length (tp_probes req) > 100
               then (err_json 422 ''validation_error'' (''probes must be 1'' @ [CHR 0xE2, CHR 0x80, CHR 0x93] @ ''100 items''), S)
               else
                 (let stamped = map (\<lambda>p. if pr_run_id p = [] then p\<lparr>pr_run_id := tp_run_id req\<rparr> else p) (tp_probes req);
                      (stored, M') = record_probe_batch stamped (st_repo S)
                  in ((202, JObj [(''ok'', JBool True), (''stored'', JInt (uint stored))]), S\<lparr>st_repo := M'\<rparr>))))"

record ProxyObservation =
  po_node_id :: string
  po_proxy_node_id :: string
  po_latency_ms_observed :: "u32 option"
  po_tokens_observed :: "u32 option"
  po_status :: string
  po_qos_advertised :: "rat option"
  po_qos_met :: "bool option"

definition telemetry_proxy :: "headers \<Rightarrow> ProxyObservation option \<Rightarrow> AppState \<Rightarrow> response \<times> AppState" where
  "telemetry_proxy headers request S =
     (case bearer_token headers of
        None \<Rightarrow> (err_json 401 ''unauthorized'' ''missing proxy_token'', S)
      | Some token \<Rightarrow>
          (case request of
             None \<Rightarrow> (reject ''validation_error'' ''invalid proxy telemetry request'', S)
           | Some obs \<Rightarrow>
               if po_proxy_node_id obs = [] \<or> po_node_id obs = []
               then (err_json 422 ''validation_error'' ''node_id and proxy_node_id required'', S)
               else if po_node_id obs = po_proxy_node_id obs
               then (err_json 422 ''validation_error'' ''proxy_node_id must differ from node_id (RT-03)'', S)
               else if \<not> verify_proxy_token (st_repo S) (po_proxy_node_id obs) token
               then (err_json 401 ''unauthorized'' ''invalid proxy_token'', S)
               else
                 (let (accepted_obs, quorum) = record_proxy_telemetry (st_repo S)
                  in if \<not> accepted_obs
                     then ((200, JObj [(''accepted'', JBool False), (''reason'', JStr ''duplicate'')]), S)
                     else ((202, JObj [(''accepted'', JBool True), (''proxy_quorum_count'', JInt (uint quorum)),
                                       (''quorum_met'', JBool (quorum \<ge> 3))]), S))))"

section \<open>Deregistration\<close>

definition deregister_handler :: "RequestContext \<Rightarrow> headers \<Rightarrow> string \<Rightarrow> AppState \<Rightarrow> response \<times> AppState" where
  "deregister_handler X headers node_id S =
     (case bearer_token headers of
        None \<Rightarrow> (missing_node_token, S)
      | Some token \<Rightarrow>
          if \<not> verify_node_token (st_repo S) node_id token then (invalid_node_token, S)
          else
            (case deregister node_id (st_repo S) of
               (True, M') \<Rightarrow>
                 ((200, JObj [(''deregistered'', JBool True)]),
                  emit_event X (cx_uuid X 0) ''DEREGISTER'' node_id (JObj []) (S\<lparr>st_repo := M'\<rparr>))
             | (False, M') \<Rightarrow> (node_not_found, S\<lparr>st_repo := M'\<rparr>)))"

section \<open>Guards\<close>

interpretation audit: guarded_endpoint audit_report "\<lambda>h r. Some (ar_node_id r)"
  by unfold_locales (auto simp: audit_report_def guard_defs split: option.splits)

interpretation quote: guarded_endpoint "credits_quote X" "\<lambda>h r. caller_of X h" for X
  by unfold_locales (auto simp: credits_quote_def guard_defs Let_def split: option.splits)

interpretation dereg: guarded_endpoint "deregister_handler X" "\<lambda>h r. Some r" for X
  by unfold_locales (auto simp: deregister_handler_def guard_defs split: option.splits)

text \<open>
  Only the holder of a node's token can take it out of the directory, and then the removal is
  complete and announced: the node is gone, every other record stays, and with a signing key
  the log grows by exactly one DEREGISTER event for the node.
\<close>

theorem deregister_handler_correct:
  assumes "deregister_handler X h i S = (resp, S')"
  shows "(fst resp = 200 \<longleftrightarrow> find_record (st_repo S) i \<noteq> None \<and> authorised h (Some i) S)
    \<and> (fst resp = 200 \<longrightarrow>
         m_records (st_repo S') = filter (\<lambda>r. record_id r \<noteq> i) (m_records (st_repo S))
         \<and> (\<forall>key. st_signing_key S = Some key \<longrightarrow>
              (\<exists>e. m_events (st_repo S') = m_events (st_repo S) @ [e] \<and> e_event_type e = ''DEREGISTER'' \<and> e_node_id e = i)))
    \<and> (fst resp \<noteq> 200 \<longrightarrow> S' = S)"
proof -
  have len: "length (filter (\<lambda>r. record_id r \<noteq> i) rs) < length rs \<longleftrightarrow> find (\<lambda>r. record_id r = i) rs \<noteq> None" for rs
    by (induction rs) (auto simp: le_imp_less_Suc)
  have same: "find (\<lambda>r. record_id r = i) rs = None \<Longrightarrow> filter (\<lambda>r. record_id r \<noteq> i) rs = rs" for rs
    by (simp add: find_None_set)
  show ?thesis
  proof (cases "authorised h (Some i) S")
    case False
    then show ?thesis using assms dereg.refuses [of h i S X] dereg.refusal_status [of h i S X] by auto
  next
    case True
    then obtain t where t: "bearer_token h = Some t" "verify_node_token (st_repo S) i t" by (auto simp: authorised_iff)
    show ?thesis
    proof (cases "find_record (st_repo S) i")
      case None
      then show ?thesis using assms t len [of "m_records (st_repo S)"] same [of "m_records (st_repo S)"]
        by (auto simp: deregister_handler_def deregister_def find_record_def Let_def node_not_found_def err_json_def)
    next
      case (Some r)
      then show ?thesis using assms t True len [of "m_records (st_repo S)"]
        by (auto simp: deregister_handler_def deregister_def find_record_def Let_def emit_event_def append_signed_event_def split: option.splits)
    qed
  qed
qed

text \<open>A context, headers and a state for sample requests.\<close>

definition demo_context :: RequestContext where
  "demo_context =
     \<lparr>cx_crypto = demo_crypto, cx_jwt = demo_jwt, cx_app_key = Some ''key'', cx_now = 5000, cx_now_ms = 5000000,
      cx_uuid = (\<lambda>n. CHR ''u'' # show_nat n), cx_hmac_verify = (\<lambda>k m t. t = k @ m), cx_rfc3339_in = (\<lambda>n. ''+'' @ show_int n), cx_b64url = (\<lambda>s. s)\<rparr>"

definition demo_bearer :: "string \<Rightarrow> headers" where
  "demo_bearer t = [''authorization'' \<mapsto> ''Bearer '' @ t]"

definition demo_state :: "NodeRecord list \<Rightarrow> AppState" where
  "demo_state records =
     \<lparr>st_repo = new_with_token_verification records, st_env = Production, st_signing_key = Some demo_secret,
      st_directory_did = ''did:web:d'', st_directory_service_endpoint = ''https://d'', st_register_rate = [],
      st_strict_e050_secured = False, st_allow_insecure_tls = False, st_skip_liveness_check = False,
      st_replica_ready = None\<rparr>"

definition demo_node_record :: "string \<Rightarrow> string \<Rightarrow> NodeRecord" where
  "demo_node_record i token = (blank_record i)\<lparr>r_node_token := Some token\<rparr>"

lemma bearer_token_demo [simp]: "t \<noteq> [] \<Longrightarrow> bearer_token (demo_bearer t) = Some t"
  by (simp add: bearer_token_def demo_bearer_def strip_prefix_def starts_with_def nonempty_def)

theorem deregister_handler_correct_witness:
  "let S = demo_state [demo_node_record ''a'' ''ta'', demo_node_record ''b'' ''tb'']
   in fst (fst (deregister_handler demo_context (demo_bearer ''ta'') ''a'' S)) = 200
      \<and> m_records (st_repo (snd (deregister_handler demo_context (demo_bearer ''ta'') ''a'' S))) = [demo_node_record ''b'' ''tb'']
      \<and> fst (fst (deregister_handler demo_context (demo_bearer ''tb'') ''a'' S)) \<noteq> 200"
proof -
  let ?S = "demo_state [demo_node_record ''a'' ''ta'', demo_node_record ''b'' ''tb'']"
  have st: "find_record (st_repo ?S) ''a'' = Some (demo_node_record ''a'' ''ta'')"
      "m_records (st_repo ?S) = [demo_node_record ''a'' ''ta'', demo_node_record ''b'' ''tb'']"
      "authorised (demo_bearer ''ta'') (Some ''a'') ?S" "\<not> authorised (demo_bearer ''tb'') (Some ''a'') ?S"
    by (simp_all add: demo_state_def new_with_token_verification_def new_repo_def find_record_def demo_node_record_def
        blank_record_def blank_node_def authorised_iff verify_node_token_def)
  show ?thesis
    using st deregister_handler_correct [OF surjective_pairing, of demo_context "demo_bearer ''ta''" "''a''" ?S]
      deregister_handler_correct [OF surjective_pairing, of demo_context "demo_bearer ''tb''" "''a''" ?S]
    by (simp add: Let_def) (simp add: demo_node_record_def blank_record_def blank_node_def)
qed

end
