(* ===== verification/Calendar.thy ===== *)
theory Calendar
  imports Federation
begin

text \<open>
  The dependency-free time formatting of \<open>src/directory_evidence.rs\<close>: the Gregorian date of a
  day count and the ISO 8601 text of a time in milliseconds. The reference is the calendar
  itself: the rule that gives the next date.
\<close>

definition yoe_of :: "nat \<Rightarrow> nat" where
  "yoe_of doe = (doe - doe div 1460 + doe div 36524 - doe div 146096) div 365"

text \<open>The \<open>u64\<close> arithmetic does not wrap for day counts below \<open>2 ^ 63\<close>; naturals give the same values.\<close>

definition days_to_ymd :: "nat \<Rightarrow> nat \<times> nat \<times> nat" where
  "days_to_ymd day_count =
     (let days = day_count + 719468;
          era = days div 146097;
          doe = days mod 146097;
          yoe = yoe_of doe;
          y = yoe + era * 400;
          doy = doe - (365 * yoe + yoe div 4 - yoe div 100);
          mp = (5 * doy + 2) div 153;
          d = doy - (153 * mp + 2) div 5 + 1;
          m = (if mp < 10 then mp + 3 else mp - 9);
          y' = (if m \<le> 2 then y + 1 else y)
      in (y', m, d))"

definition pad :: "nat \<Rightarrow> nat \<Rightarrow> string" where
  "pad width n = (let s = show_nat n in replicate (width - length s) CHR ''0'' @ s)"

text \<open>\<open>(ms / 1000) as u64\<close>: the division truncates towards zero and the cast wraps.\<close>

definition unix_seconds :: "i64 \<Rightarrow> u64" where
  "unix_seconds ms = word_of_int (if ms < 0 then - (- ms div 1000) else ms div 1000)"

definition ms_to_iso8601 :: "i64 \<Rightarrow> string" where
  "ms_to_iso8601 ms =
     (let s = unat (unix_seconds ms);
          days = s div 86400;
          time = s mod 86400;
          (y, mo, d) = days_to_ymd days;
          h = time div 3600;
          mi = (time mod 3600) div 60;
          se = time mod 60
      in pad 4 y @ ''-'' @ pad 2 mo @ ''-'' @ pad 2 d @ ''T'' @ pad 2 h @ '':'' @ pad 2 mi @ '':'' @ pad 2 se @ ''Z'')"

section \<open>The calendar\<close>

definition leap :: "nat \<Rightarrow> bool" where
  "leap y \<longleftrightarrow> y mod 4 = 0 \<and> (y mod 100 \<noteq> 0 \<or> y mod 400 = 0)"

definition days_in_month :: "nat \<Rightarrow> nat \<Rightarrow> nat" where
  "days_in_month y m =
     (if m = 2 then (if leap y then 29 else 28) else if m \<in> {4, 6, 9, 11} then 30 else 31)"

fun next_date :: "nat \<times> nat \<times> nat \<Rightarrow> nat \<times> nat \<times> nat" where
  "next_date (y, m, d) =
     (if d < days_in_month y m then (y, m, d + 1) else if m < 12 then (y, m + 1, 1) else (y + 1, 1, 1))"

text \<open>The day of the 400-year era on which year \<open>y\<close> of the era begins, counted from March.\<close>

definition year_start :: "nat \<Rightarrow> nat" where
  "year_start y = 365 * y + y div 4 - y div 100"

definition year_end :: "nat \<Rightarrow> nat" where
  "year_end y = (if y = 399 then 146097 else year_start (y + 1))"

text \<open>A year of the era in mixed radix: century, olympiad, year.\<close>

lemma year_parts:
  assumes "y < (400 :: nat)"
  obtains b q r where "y = 100 * b + 4 * q + r" "b < 4" "q < 25" "r < 4" "y div 4 = 25 * b + q" "y div 100 = b"
proof -
  define b where "b = y div 100"
  define q where "q = y mod 100 div 4"
  define r where "r = y mod 4"
  have r: "y mod 100 mod 4 = r" unfolding r_def by (simp add: mod_mod_cancel)
  have y: "y = 100 * b + 4 * q + r"
    using div_mult_mod_eq [of y 100] div_mult_mod_eq [of "y mod 100" 4] r unfolding b_def q_def by linarith
  have bounds: "b < 4" "q < 25" "r < 4" using assms by (simp_all add: b_def q_def r_def less_mult_imp_div_less)
  have "y div 4 = 25 * b + q" using y bounds by (intro div_nat_eqI) auto
  moreover have "y div 100 = b" by (simp only: b_def)
  ultimately show thesis by (rule that [OF y bounds])
qed

lemma leap_parts:
  assumes "b < 4" "q < 25" "r < 4" and y: "y = 100 * b + 4 * q + (r :: nat)"
  shows "leap (y + 1) \<longleftrightarrow> r = 3 \<and> (q \<noteq> 24 \<or> b = 3)"
    and "(y + 1) div 4 = (if r = 3 then 25 * b + q + 1 else 25 * b + q)"
    and "(y + 1) div 100 = (if r = 3 \<and> q = 24 then b + 1 else b)"
proof -
  show d4: "(y + 1) div 4 = (if r = 3 then 25 * b + q + 1 else 25 * b + q)"
    using assms by (intro div_nat_eqI) auto
  show d100: "(y + 1) div 100 = (if r = 3 \<and> q = 24 then b + 1 else b)"
    using assms by (intro div_nat_eqI) auto
  have d400: "(y + 1) div 400 = (if r = 3 \<and> q = 24 \<and> b = 3 then 1 else 0)"
    using assms by (intro div_nat_eqI) auto
  show "leap (y + 1) \<longleftrightarrow> r = 3 \<and> (q \<noteq> 24 \<or> b = 3)"
    unfolding leap_def minus_div_mult_eq_mod [symmetric] d4 d100 d400 using assms by auto
qed

lemma year_length:
  assumes "y < 400"
  shows "year_end y = year_start y + (if leap (y + 1) then 366 else 365)"
proof -
  obtain b q r where y: "y = 100 * b + 4 * q + r" "b < 4" "q < 25" "r < 4" "y div 4 = 25 * b + q" "y div 100 = b"
    using year_parts [OF assms] .
  show ?thesis
    unfolding year_end_def year_start_def leap_parts [OF y(2,3,4,1)] y(5,6)
    using y(1-4) by auto
qed

lemma yoe_exact:
  assumes "y < 400" "year_start y \<le> doe" "doe < year_end y"
  shows "yoe_of doe = y"
proof -
  obtain b q r where y: "y = 100 * b + 4 * q + r" "b < 4" "q < 25" "r < 4" "y div 4 = 25 * b + q" "y div 100 = b"
    using year_parts [OF assms(1)] .
  define t where "t = doe - year_start y"
  have start: "year_start y = 36524 * b + 1461 * q + 365 * r" using y by (simp add: year_start_def)
  have doe: "doe = 36524 * b + 1461 * q + 365 * r + t" using assms(2) start by (simp add: t_def)
  have t: "t < (if r = 3 \<and> (q \<noteq> 24 \<or> b = 3) then 366 else 365)"
    using assms(3) year_length [OF assms(1)] leap_parts(1) [OF y(2,3,4,1)] assms(2) by (auto simp: t_def split: if_splits)
  define e where "e = doe div 1460"
  define z where "z = doe div 146096"
  have ez: "1460 * e \<le> doe" "doe < 1460 * e + 1460" "146096 * z \<le> doe" "doe < 146096 * z + 146096"
    by (auto simp: e_def z_def)
  have tops: "1461 * q + 365 * r + t < 36524 \<or> b = 3 \<and> q = 24 \<and> r = 3 \<and> t = 365"
    using t y(2-4) by (auto split: if_splits)
  have c: "doe div 36524 = b + z"
  proof (cases "b = 3 \<and> q = 24 \<and> r = 3 \<and> t = 365")
    case True
    then show ?thesis using doe by (simp add: z_def)
  next
    case False
    with tops have s: "1461 * q + 365 * r + t < 36524" by blast
    then have "z = 0" using doe y(2) by (simp add: z_def)
    moreover have "doe div 36524 = b" using s doe by (intro div_nat_eqI) auto
    ultimately show ?thesis by simp
  qed
  have "365 * y + e \<le> doe + b \<and> doe + b < 365 * y + e + 365"
  proof -
    have e: "e = 25 * b + q \<and> 365 * r + t + q + 24 * b < 1460 \<or> e = 25 * b + q + 1 \<and> 1460 \<le> 365 * r + t + q + 24 * b"
    proof (cases "365 * r + t + q + 24 * b < 1460")
      case True
      then have "doe div 1460 = 25 * b + q" using doe by (intro div_nat_eqI) auto
      then show ?thesis using True by (simp add: e_def)
    next
      case False
      then have "doe div 1460 = 25 * b + q + 1" using doe y t by (intro div_nat_eqI) (auto split: if_splits)
      then show ?thesis using False by (simp add: e_def)
    qed
    then show ?thesis using doe y t by (auto split: if_splits)
  qed
  then have "365 * y \<le> doe - e + (b + z) - z" "doe - e + (b + z) - z < 365 * y + 365" using ez by linarith+
  then have "(doe - e + (b + z) - z) div 365 = y" by (intro div_nat_eqI) auto
  then show ?thesis using c by (simp add: yoe_of_def e_def z_def)
qed

text \<open>Months counted from March: the day of the year on which the month begins.\<close>

definition month_start :: "nat \<Rightarrow> nat" where
  "month_start k = (153 * k + 2) div 5"

definition civil :: "nat \<Rightarrow> nat \<Rightarrow> nat \<times> nat \<times> nat" where
  "civil y doy =
     (let mp = (5 * doy + 2) div 153;
          m = (if mp < 10 then mp + 3 else mp - 9)
      in (if m \<le> 2 then y + 1 else y, m, doy - month_start mp + 1))"

lemma month_exact:
  assumes "month_start k \<le> doy" "doy < month_start (k + 1)"
  shows "(5 * doy + 2) div 153 = k"
proof -
  have "153 * k + 2 < 5 * month_start k + 5" "5 * month_start (k + 1) \<le> 153 * (k + 1) + 2"
    by (simp_all add: month_start_def)
  with assms show ?thesis by (intro div_nat_eqI) auto
qed

lemma month_exists: "doy < 366 \<Longrightarrow> \<exists>k < 12. month_start k \<le> doy \<and> doy < month_start (k + 1)"
proof -
  have "doy < month_start n \<Longrightarrow> \<exists>k < n. month_start k \<le> doy \<and> doy < month_start (k + 1)" for n
  proof (induction n)
    case (Suc n)
    then show ?case by (cases "doy < month_start n") (auto simp: less_Suc_eq)
  qed (simp add: month_start_def)
  moreover have "month_start 12 = 367" by (simp add: month_start_def)
  ultimately show "doy < 366 \<Longrightarrow> \<exists>k < 12. month_start k \<le> doy \<and> doy < month_start (k + 1)" by auto
qed

definition month_number :: "nat \<Rightarrow> nat" where
  "month_number k = (if k < 10 then k + 3 else k - 9)"

definition month_year :: "nat \<Rightarrow> nat \<Rightarrow> nat" where
  "month_year y k = (if k < 10 then y else y + 1)"

lemma month_length:
  assumes "k < 11"
  shows "month_start (k + 1) = month_start k + days_in_month y (month_number k)"
proof -
  have "k = 0 \<or> k = 1 \<or> k = 2 \<or> k = 3 \<or> k = 4 \<or> k = 5 \<or> k = 6 \<or> k = 7 \<or> k = 8 \<or> k = 9 \<or> k = 10"
    using assms by presburger
  then show ?thesis by (elim disjE) (simp_all add: month_start_def month_number_def days_in_month_def)
qed

lemma civil_month:
  assumes "k < 12" "month_start k \<le> doy" "doy < month_start (k + 1)"
  shows "civil y doy = (month_year y k, month_number k, doy - month_start k + 1)"
  unfolding civil_def month_exact [OF assms(2,3)] Let_def
  using assms(1) by (auto simp: month_number_def month_year_def)

lemma civil_step:
  assumes "doy + 1 < (if leap (y + 1) then 366 else 365)"
  shows "civil y (doy + 1) = next_date (civil y doy)"
proof -
  have "doy < 366" using assms by (auto split: if_splits)
  then obtain k where k: "k < 12" "month_start k \<le> doy" "doy < month_start (k + 1)" using month_exists by blast
  note here = civil_month [OF k, of y]
  have feb: "month_start 11 = 337" "month_start 12 = 367" by (simp_all add: month_start_def)
  show ?thesis
  proof (cases "doy + 1 < month_start (k + 1)")
    case True
    have "doy - month_start k + 1 < days_in_month (month_year y k) (month_number k)"
    proof (cases "k = 11")
      case True
      then show ?thesis using assms k feb by (auto simp: month_number_def month_year_def days_in_month_def split: if_splits)
    next
      case False
      then show ?thesis using month_length [of k "month_year y k"] k True by simp
    qed
    moreover have "civil y (doy + 1) = (month_year y k, month_number k, doy + 1 - month_start k + 1)"
      using k True by (intro civil_month) auto
    ultimately show ?thesis using here k by simp
  next
    case False
    then have eq: "doy + 1 = month_start (k + 1)" using k by simp
    have k11: "k < 11"
    proof (rule ccontr)
      assume "\<not> k < 11"
      then have "k + 1 = 12" using k(1) by simp
      then show False using eq assms feb by (simp split: if_splits)
    qed
    have "month_start (k + 1) < month_start (k + 1 + 1)" by (simp add: month_start_def)
    then have "civil y (doy + 1) = (month_year y (k + 1), month_number (k + 1), 1)"
      using civil_month [of "k + 1" "doy + 1" y] eq k11 by simp
    moreover have "doy - month_start k + 1 = days_in_month (month_year y k) (month_number k)"
      using month_length [OF k11, of "month_year y k"] eq k by simp
    ultimately show ?thesis using here k11 by (auto simp: month_number_def month_year_def)
  qed
qed

lemma civil_wrap:
  assumes "doy + 1 = (if leap (y + 1) then 366 else 365)"
  shows "next_date (civil y doy) = civil (y + 1) 0"
proof -
  have feb: "month_start 11 \<le> doy" "doy < month_start (11 + 1)" using assms by (auto simp: month_start_def split: if_splits)
  have "civil y doy = (y + 1, 2, doy - 337 + 1)" using civil_month [OF _ feb] by (simp add: month_year_def month_number_def month_start_def)
  moreover have "civil (y + 1) 0 = (y + 1, 3, 1)" by (simp add: civil_def month_start_def)
  ultimately show ?thesis using assms by (auto simp: days_in_month_def split: if_splits)
qed

section \<open>The date of a day count\<close>

lemma year_exists: "doe < 146097 \<Longrightarrow> \<exists>y < 400. year_start y \<le> doe \<and> doe < year_end y"
proof -
  have "n \<le> 399 \<Longrightarrow> doe < year_end n \<Longrightarrow> \<exists>y \<le> n. year_start y \<le> doe \<and> doe < year_end y" for n
  proof (induction n)
    case (Suc n)
    then have e: "year_end n = year_start (Suc n)" by (simp add: year_end_def)
    show ?case
    proof (cases "doe < year_end n")
      case True
      then show ?thesis using Suc.IH Suc.prems(1) by (meson Suc_leD le_SucI)
    next
      case False
      then show ?thesis using e Suc.prems(2) by (intro exI [of _ "Suc n"]) (simp only: not_less le_refl)
    qed
  qed (simp add: year_start_def)
  from this [of 399] show "doe < 146097 \<Longrightarrow> \<exists>y < 400. year_start y \<le> doe \<and> doe < year_end y"
    by (auto simp: year_end_def less_Suc_eq_le [of _ 399, simplified])
qed

lemma days_to_ymd_civil:
  assumes "n + 719468 = 146097 * era + doe" "doe < 146097" "y < 400" "year_start y \<le> doe" "doe < year_end y"
  shows "days_to_ymd n = civil (y + era * 400) (doe - year_start y)"
proof -
  have "(n + 719468) div 146097 = era" "(n + 719468) mod 146097 = doe" using assms(1,2) by simp_all
  then show ?thesis
    using yoe_exact [OF assms(3-5)] by (simp add: days_to_ymd_def civil_def month_start_def year_start_def Let_def)
qed

lemma leap_era: "leap (y + 1 + 400 * e) = leap (y + 1)"
proof -
  have "(y + 1 + 4 * (100 * e)) mod 4 = (y + 1) mod 4" "(y + 1 + 100 * (4 * e)) mod 100 = (y + 1) mod 100"
    by (rule mod_mult_self2)+
  then show ?thesis by (simp add: leap_def)
qed

lemma next_day_parts:
  assumes "y < 400" "year_start y \<le> doe" "doe < year_end y" "doe < 146097" "n + 719468 = 146097 * era + doe"
  shows "days_to_ymd (n + 1) = next_date (civil (y + era * 400) (doe - year_start y))"
proof (cases "doe + 1 < year_end y")
  case True
  have "leap (y + era * 400 + 1) = leap (y + 1)" using leap_era [of y era] by (simp add: ac_simps)
  then have "civil (y + era * 400) (doe - year_start y + 1) = next_date (civil (y + era * 400) (doe - year_start y))"
    using True year_length [OF assms(1)] assms(2) by (intro civil_step) (auto split: if_splits)
  moreover have "doe + 1 < 146097" using True assms(1) by (rule_tac less_le_trans) (auto simp: year_end_def year_start_def)
  then have "days_to_ymd (n + 1) = civil (y + era * 400) (doe + 1 - year_start y)"
    using assms True by (intro days_to_ymd_civil) auto
  ultimately show ?thesis using assms(2) by (simp add: Suc_diff_le)
next
  case False
  then have last: "doe + 1 = year_end y" using assms(3) by simp
  have "leap (y + era * 400 + 1) = leap (y + 1)" using leap_era [of y era] by (simp add: ac_simps)
  then have wrap: "next_date (civil (y + era * 400) (doe - year_start y)) = civil (y + era * 400 + 1) 0"
    using last year_length [OF assms(1)] assms(2) by (intro civil_wrap) (auto split: if_splits)
  show ?thesis
  proof (cases "y = 399")
    case True
    then have "n + 1 + 719468 = 146097 * (era + 1) + 0" using last assms(5) by (simp add: year_end_def)
    then have "days_to_ymd (n + 1) = civil (0 + (era + 1) * 400) (0 - year_start 0)"
      by (rule days_to_ymd_civil) (simp_all add: year_start_def year_end_def)
    then show ?thesis using wrap True by (simp add: ac_simps)
  next
    case False
    then have "doe + 1 = year_start (y + 1)" using last by (simp add: year_end_def)
    moreover have "year_start (y + 1) < year_end (y + 1)" "year_end (y + 1) \<le> 146097"
      using year_length [of "y + 1"] assms(1) False by (auto simp: year_end_def year_start_def)
    ultimately have "days_to_ymd (n + 1) = civil (y + 1 + era * 400) (doe + 1 - year_start (y + 1))"
      using assms(1,5) False by (intro days_to_ymd_civil) auto
    then show ?thesis using wrap \<open>doe + 1 = year_start (y + 1)\<close> by (simp add: ac_simps)
  qed
qed

text \<open>
  C30. The era arithmetic of the time stamps is the Gregorian calendar: day 0 is 1 January 1970 and
  the date of every later day is the calendar's successor of the date before it, leap days and
  centuries included.
\<close>

theorem days_to_ymd_gregorian:
  "days_to_ymd 0 = (1970, 1, 1) \<and> days_to_ymd (n + 1) = next_date (days_to_ymd n)"
proof
  have "days_to_ymd 0 = civil (369 + 4 * 400) (135080 - year_start 369)"
    by (rule days_to_ymd_civil) (simp_all add: year_start_def year_end_def)
  then show "days_to_ymd 0 = (1970, 1, 1)" by (simp add: civil_def year_start_def month_start_def)
  define era where "era = (n + 719468) div 146097"
  define doe where "doe = (n + 719468) mod 146097"
  have n: "n + 719468 = 146097 * era + doe" "doe < 146097"
    unfolding era_def doe_def by (rule mult_div_mod_eq [symmetric], rule mod_less_divisor) simp
  then obtain y where y: "y < 400" "year_start y \<le> doe" "doe < year_end y" using year_exists by blast
  show "days_to_ymd (n + 1) = next_date (days_to_ymd n)"
    using next_day_parts [OF y n(2,1)] days_to_ymd_civil [OF n y] by (simp only:)
qed

end
