(* ===== verification/Evidence.thy ===== *)
theory Evidence
  imports Http Replica Calendar
begin

text \<open>
  Directory identity and evidence, \<open>src/directory_evidence.rs\<close>: the DID document with the
  verification key, domain-separated signed tokens, the signed compliance attestation and the
  public list of replicas.
\<close>

text \<open>The secret key is the seed followed by the public key.\<close>

definition public_half :: "crypto \<Rightarrow> string \<Rightarrow> string option" where
  "public_half C secret_key_hex =
     (case hex_decode C secret_key_hex of
        None \<Rightarrow> None
      | Some sk \<Rightarrow> if length sk \<noteq> 64 then None else Some (take 32 (drop 32 sk)))"

definition seed_pubkey_jwk :: "RequestContext \<Rightarrow> string \<Rightarrow> json option" where
  "seed_pubkey_jwk X secret_key_hex =
     map_option (\<lambda>pk. JObj [(''kty'', JStr ''OKP''), (''crv'', JStr ''Ed25519''), (''x'', JStr (cx_b64url X pk))])
       (public_half (cx_crypto X) secret_key_hex)"

definition did_document :: "RequestContext \<Rightarrow> AppState \<Rightarrow> json" where
  "did_document X S =
     (let did = st_directory_did S;
          verification_method =
            (case Option.bind (st_signing_key S) (seed_pubkey_jwk X) of
               Some jwk \<Rightarrow>
                 [JObj [(''id'', JStr (did @ ''#key-1'')), (''type'', JStr ''JsonWebKey2020''),
                        (''controller'', JStr did), (''publicKeyJwk'', jwk)]]
             | None \<Rightarrow> [])
      in JObj [(''@context'', JArr [JStr ''https://www.w3.org/ns/did/v1'']), (''id'', JStr did), (''controller'', JStr did),
               (''verificationMethod'', JArr verification_method),
               (''service'', JArr [JObj [(''id'', JStr (did @ ''#iicp-directory'')), (''type'', JStr ''IICPDirectory''),
                                         (''serviceEndpoint'', JStr (st_directory_service_endpoint S))]])])"

definition directory_public_key_hex :: "crypto \<Rightarrow> string \<Rightarrow> string option" where
  "directory_public_key_hex C secret_key_hex = map_option (hex_encode C) (public_half C secret_key_hex)"

definition b64url_json :: "RequestContext \<Rightarrow> json \<Rightarrow> string" where
  "b64url_json X payload = cx_b64url X (json_text (cx_crypto X) payload)"

definition ed25519_sign_hex :: "crypto \<Rightarrow> string \<Rightarrow> string \<Rightarrow> string option" where
  "ed25519_sign_hex C secret_key_hex message =
     map_option (\<lambda>seed. hex_encode C (ed_sign C seed message)) (signing_seed C secret_key_hex)"

definition sign_domain_token :: "RequestContext \<Rightarrow> string \<Rightarrow> string \<Rightarrow> json \<Rightarrow> string option" where
  "sign_domain_token X secret_key_hex domain payload =
     (let b64_payload = b64url_json X payload
      in map_option (\<lambda>sig_hex. b64_payload @ ''.'' @ sig_hex)
           (ed25519_sign_hex (cx_crypto X) secret_key_hex (domain @ b64_payload)))"

definition directory_key :: "RequestContext \<Rightarrow> AppState \<Rightarrow> response" where
  "directory_key X S =
     (case Option.bind (st_signing_key S) (directory_public_key_hex (cx_crypto X)) of
        Some public_key \<Rightarrow> (200, JObj [(''public_key'', JStr public_key), (''algorithm'', JStr ''ed25519'')])
      | None \<Rightarrow> err_json 503 ''not_configured'' ''Consumer token signing key not configured on this directory.'')"

text \<open>\<open>public_url\<close> is the environment variable \<open>IICP_PUBLIC_URL\<close>.\<close>

definition attestation_document :: "RequestContext \<Rightarrow> string option \<Rightarrow> ConformanceRun \<Rightarrow> (string \<times> json) list" where
  "attestation_document X public_url run =
     [(''endpoint'', JStr (trim_end_matches CHR ''/'' (unwrap_or ''https://iicp.network'' public_url))),
      (''spec_version'', JStr ''iicp-dir v1.1.0''), (''purpose'', JStr ''compliance-attestation''),
      (''probe_run_id'', JStr (cr_run_id run)), (''probe_run_at'', JStr (cr_probed_at run)),
      (''passed_probes'', JArr (map JStr (cr_passed run))), (''failed_probes'', JArr (map JStr (cr_failed run))),
      (''generated_at'', JStr (cx_rfc3339_in X 0)), (''valid_until'', JStr (cx_rfc3339_in X 900))]"

definition compliance_attestation :: "RequestContext \<Rightarrow> string option \<Rightarrow> AppState \<Rightarrow> response" where
  "compliance_attestation X public_url S =
     (case st_signing_key S of
        None \<Rightarrow> err_json 503 ''attestation_unavailable'' ''Attestation signing key not configured on this directory''
      | Some secret \<Rightarrow>
          (case latest_conformance_run (cx_rfc3339_in X 0) (st_repo S) of
             None \<Rightarrow> err_json 503 ''no_probe_data'' ''No conformance probe run recorded yet''
           | Some run \<Rightarrow>
               (let document = attestation_document X public_url run;
                    canonical = canonical_json (cx_crypto X) (JObj document);
                    hash = sha256_hex (cx_crypto X) canonical
                in case ed25519_sign_hex (cx_crypto X) secret (sha256 (cx_crypto X) canonical) of
                     None \<Rightarrow> err_json 503 ''attestation_unavailable'' ''Attestation signing key not configured on this directory''
                   | Some signature \<Rightarrow>
                       (200, JObj (document @ [(''attestation_hash'', JStr hash), (''signature'', JStr signature),
                                               (''signer_did'', JStr (st_directory_did S))])))))"

definition DEFAULT_DIRECTORY_DID :: string where
  "DEFAULT_DIRECTORY_DID = ''did:web:iicp.network''"

definition iicp_replicas :: "RequestContext \<Rightarrow> AppState \<Rightarrow> response" where
  "iicp_replicas X S =
     (200, JObj
        [(''@context'', JStr ''https://iicp.network/ns/replicas/v1''), (''schema_version'', JStr ''2''),
         (''genesis_seed'', JStr DEFAULT_DIRECTORY_DID),
         (''replicas'', JArr (map (\<lambda>(replica_id, did, endpoint, trust_tier, registered_at_ms).
            JObj [(''replica_id'', JStr replica_id), (''did'', JStr did), (''endpoint'', JStr endpoint),
                  (''trust_tier'', JStr trust_tier), (''registered_at'', JStr (ms_to_iso8601 registered_at_ms))])
            (all_replicas (st_repo S)))),
         (''updated_at'', JStr (ms_to_iso8601 (cx_now_ms X)))])"

section \<open>Seed and replica agree on the key\<close>

text \<open>
  What the configuration of a seed has to satisfy: the secret is the hex text of a seed and its
  own public key, in the libsodium layout.
\<close>

definition libsodium_key :: "crypto \<Rightarrow> string \<Rightarrow> string \<Rightarrow> bool" where
  "libsodium_key C secret seed \<longleftrightarrow>
     hex_decode C secret = Some (seed @ ed_public C seed) \<and> length seed = 32 \<and> length (ed_public C seed) = 32"

lemma libsodium_parts:
  assumes "libsodium_key C secret seed"
  shows "signing_seed C secret = Some seed" "public_half C secret = Some (ed_public C seed)"
  using assms by (simp_all add: libsodium_key_def signing_seed_def public_half_def)

text \<open>
  C32. A replica that resolves the seed's DID document obtains the key under which everything the
  seed signs verifies: the events of the log and the domain tokens. The document and the
  directory-key endpoint publish the same key.
\<close>

theorem published_key_verifies:
  assumes C: "signatures_verify (cx_crypto X)" and key: "libsodium_key (cx_crypto X) secret seed"
    and S: "st_signing_key S = Some secret" and b64: "\<And>b. d_b64url E (cx_b64url X b) = Some b"
  shows "\<exists>pk. seed_pubkey_hex_from_expected_did (cx_crypto X) E (did_document X S) (st_directory_did S) = Some pk
    \<and> directory_key X S = (200, JObj [(''public_key'', JStr pk), (''algorithm'', JStr ''ed25519'')])
    \<and> (\<forall>i t n m p h. \<exists>sg. sign_event (cx_crypto X) secret i t n m p h = Some sg
         \<and> verify_event (cx_crypto X) pk sg (event_message (cx_crypto X) i t n m p h))
    \<and> (\<forall>domain payload. \<exists>sg. sign_domain_token X secret domain payload = Some (b64url_json X payload @ ''.'' @ sg)
         \<and> verify_event (cx_crypto X) pk sg (domain @ b64url_json X payload))"
proof -
  note parts = libsodium_parts [OF key]
  let ?pk = "hex_encode (cx_crypto X) (ed_public (cx_crypto X) seed)"
  have len: "length (ed_public (cx_crypto X) seed) = 32" using key by (simp add: libsodium_key_def)
  have ok: "verify_event (cx_crypto X) ?pk (hex_encode (cx_crypto X) (ed_sign (cx_crypto X) seed m)) m" for m
    using C by (simp add: verify_event_def signatures_verify_def)
  have "seed_pubkey_hex_from_expected_did (cx_crypto X) E (did_document X S) (st_directory_did S) = Some ?pk"
    using parts(2) S len b64
    by (simp add: did_document_def seed_pubkey_jwk_def seed_pubkey_hex_from_expected_did_def seed_pubkey_hex_from_did_def
        seed_key_of_method_def get_str_def get_array_def filter_map_def Let_def)
  moreover have "directory_key X S = (200, JObj [(''public_key'', JStr ?pk), (''algorithm'', JStr ''ed25519'')])"
    using parts(2) S by (simp add: directory_key_def directory_public_key_hex_def)
  moreover have "\<exists>sg. sign_event (cx_crypto X) secret i t n m p h = Some sg
      \<and> verify_event (cx_crypto X) ?pk sg (event_message (cx_crypto X) i t n m p h)" for i t n m p h
    using parts(1) ok by (simp add: sign_event_def)
  moreover have "\<exists>sg. sign_domain_token X secret domain payload = Some (b64url_json X payload @ ''.'' @ sg)
      \<and> verify_event (cx_crypto X) ?pk sg (domain @ b64url_json X payload)" for domain payload
    using parts(1) ok by (simp add: sign_domain_token_def ed25519_sign_hex_def Let_def)
  ultimately show ?thesis by blast
qed

definition key_crypto :: crypto where
  "key_crypto = demo_crypto\<lparr>ed_public := rev, ed_sign := (\<lambda>seed m. CHR ''k'' # rev seed @ m),
     ed_verify := (\<lambda>pk m s. s = CHR ''k'' # pk @ m), pk_from_slice := (\<lambda>_. True)\<rparr>"

lemma key_crypto_ok:
  "signatures_verify key_crypto"
  "libsodium_key key_crypto (demo_hex (replicate 32 CHR ''a'' @ replicate 32 CHR ''a'')) (replicate 32 CHR ''a'')"
proof -
  show "signatures_verify key_crypto"
    by (simp add: signatures_verify_def key_crypto_def demo_crypto_def demo_unhex_hex) (simp add: demo_hex_def)
  show "libsodium_key key_crypto (demo_hex (replicate 32 CHR ''a'' @ replicate 32 CHR ''a'')) (replicate 32 CHR ''a'')"
    unfolding libsodium_key_def key_crypto_def demo_crypto_def
    by (simp only: crypto.simps demo_unhex_hex rev_replicate length_replicate)
qed

theorem published_key_verifies_witness:
  "let X = demo_context\<lparr>cx_crypto := key_crypto\<rparr>;
       S = (demo_state [])\<lparr>st_signing_key := Some (demo_hex (replicate 32 CHR ''a'' @ replicate 32 CHR ''a''))\<rparr>
   in \<exists>pk. seed_pubkey_hex_from_expected_did key_crypto sample_decoders (did_document X S) (st_directory_did S) = Some pk"
proof -
  let ?X = "demo_context\<lparr>cx_crypto := key_crypto\<rparr>"
  let ?k = "demo_hex (replicate 32 CHR ''a'' @ replicate 32 CHR ''a'')"
  let ?S = "(demo_state [])\<lparr>st_signing_key := Some ?k\<rparr>"
  have X: "cx_crypto ?X = key_crypto" and "st_signing_key ?S = Some ?k" by simp_all
  moreover have "signatures_verify (cx_crypto ?X)" "libsodium_key (cx_crypto ?X) ?k (replicate 32 CHR ''a'')"
    unfolding X by (rule key_crypto_ok)+
  moreover have "d_b64url sample_decoders (cx_b64url ?X b) = Some b" for b by (simp add: sample_decoders_def demo_context_def)
  ultimately have "\<exists>pk. seed_pubkey_hex_from_expected_did (cx_crypto ?X) sample_decoders (did_document ?X ?S) (st_directory_did ?S) = Some pk"
    using published_key_verifies by blast
  then show ?thesis unfolding Let_def X .
qed

end
