(* ===== verification/Wire.thy ===== *)
theory Wire
  imports Types
begin

text \<open>
  The serialised form of capabilities and nodes, as the \<open>serde\<close> attributes of \<open>src/types.rs\<close>
  declare it: which fields are left out when empty, and which are never written.
\<close>

definition opt_string :: "string option \<Rightarrow> json" where
  "opt_string v = (case v of None \<Rightarrow> JNull | Some s \<Rightarrow> JStr s)"

definition skip_none :: "string \<Rightarrow> json option \<Rightarrow> (string \<times> json) list" where
  "skip_none k v = (case v of None \<Rightarrow> [] | Some j \<Rightarrow> [(k, j)])"

definition skip_empty :: "string \<Rightarrow> json list \<Rightarrow> (string \<times> json) list" where
  "skip_empty k vs = (if vs = [] then [] else [(k, JArr vs)])"

definition opt_str_entry :: "string \<Rightarrow> string option \<Rightarrow> (string \<times> json) list" where
  "opt_str_entry k v = skip_none k (map_option JStr v)"

definition u32_json :: "u32 \<Rightarrow> json" where
  "u32_json n = JInt (uint n)"

definition limit_value :: "CapabilityLimit \<Rightarrow> json" where
  "limit_value l = JObj [(''value'', JFloat (l_value l)), (''unit'', JStr (l_unit l))]"

definition claim_value :: "CapabilityClaimProvenance \<Rightarrow> json" where
  "claim_value p =
     JObj ([(''source'', JStr (p_source p))] @ opt_str_entry ''observed_at'' (p_observed_at p)
           @ opt_str_entry ''valid_until'' (p_valid_until p) @ opt_str_entry ''evidence_ref'' (p_evidence_ref p))"

definition extension_value :: "CapabilityExtension \<Rightarrow> json" where
  "extension_value x = JObj [(''required'', JBool (x_required x)), (''value'', x_value x)]"

definition skip_empty_map :: "string \<Rightarrow> (string \<times> json) list \<Rightarrow> (string \<times> json) list" where
  "skip_empty_map k m = (if m = [] then [] else [(k, JObj m)])"

definition capability_value :: "EffectiveCapability \<Rightarrow> (string, json) hashmap" where
  "capability_value c =
     [(''intent'', JStr (c_intent c))] @ opt_str_entry ''version'' (c_version c)
     @ skip_none ''phase'' (map_option u32_json (c_phase c)) @ opt_str_entry ''variant_id'' (c_variant_id c)
     @ skip_empty ''models'' (map JStr (c_models c)) @ skip_none ''max_tokens'' (map_option u32_json (c_max_tokens c))
     @ opt_str_entry ''quantization'' (c_quantization c) @ opt_str_entry ''inference_engine'' (c_inference_engine c)
     @ skip_empty ''input_modalities'' (map JStr (c_input_modalities c))
     @ skip_empty ''output_modalities'' (map JStr (c_output_modalities c))
     @ skip_empty ''features'' (map JStr (c_features c))
     @ skip_empty ''execution_capabilities'' (map JStr (c_execution_capabilities c))
     @ skip_empty_map ''limits'' (map (\<lambda>(k, l). (k, limit_value l)) (c_limits c))
     @ skip_empty ''supported_profiles'' (map JStr (c_supported_profiles c))
     @ skip_none ''claim_provenance'' (map_option claim_value (c_claim_provenance c))
     @ skip_empty_map ''extensions'' (map (\<lambda>(k, x). (k, extension_value x)) (c_extensions c))"

definition node_value :: "Node \<Rightarrow> (string, json) hashmap" where
  "node_value n =
     [(''node_id'', JStr (n_node_id n)), (''endpoint'', JStr (n_endpoint n)), (''region'', JStr (n_region n)),
      (''score'', JFloat (n_score n)), (''available'', JBool (n_available n)), (''load'', JFloat (n_load n)),
      (''active_jobs'', u32_json (n_active_jobs n)), (''max_concurrent'', u32_json (n_max_concurrent n)),
      (''reputation_score'', JFloat (n_reputation_score n))]
     @ opt_str_entry ''reputation_model'' (n_reputation_model n) @ opt_str_entry ''reputation_epoch'' (n_reputation_epoch n)
     @ skip_none ''latency_estimate_ms'' (map_option u32_json (n_latency_estimate_ms n))
     @ [(''completed_tasks_count'', JInt (uint (n_completed_tasks_count n))), (''tasks_failed'', JInt (uint (n_tasks_failed n)))]
     @ opt_str_entry ''health_label'' (n_health_label n) @ opt_str_entry ''exposure_mode'' (n_exposure_mode n)
     @ opt_str_entry ''reputation_tier'' (n_reputation_tier n) @ opt_str_entry ''transport_endpoint'' (n_transport_endpoint n)
     @ opt_str_entry ''cip_conformance_level'' (n_cip_conformance_level n) @ skip_empty ''models'' (map JStr (n_models n))
     @ skip_empty ''supported_profiles'' (map JStr (n_supported_profiles n))
     @ skip_empty ''capabilities'' (map (\<lambda>c. JObj (capability_value c)) (n_capabilities n))
     @ skip_none ''pricing'' (n_pricing n) @ opt_str_entry ''nat_type'' (n_nat_type n)
     @ opt_str_entry ''transport_method'' (n_transport_method n) @ skip_none ''relay_capable'' (map_option JBool (n_relay_capable n))
     @ opt_str_entry ''sdk_language'' (n_sdk_language n) @ opt_str_entry ''implementation_name'' (n_implementation_name n)
     @ opt_str_entry ''implementation_version'' (n_implementation_version n)
     @ opt_str_entry ''sdk_compatibility_version'' (n_sdk_compatibility_version n) @ opt_str_entry ''sdk_version'' (n_sdk_version n)
     @ [(''consumer_cosignature_ready'', JBool (n_consumer_cosignature_ready n))] @ opt_str_entry ''backend'' (n_backend n)
     @ opt_str_entry ''address_family'' (n_address_family n) @ skip_none ''cip_policy'' (n_cip_policy n)
     @ skip_none ''public_key'' (n_public_key n) @ skip_none ''transport_metadata'' (n_transport_metadata n)
     @ skip_empty ''quantization'' (map JStr (n_quantization n)) @ skip_empty ''inference_engine'' (map JStr (n_inference_engine n))
     @ [(''credit_cost_multiplier'', JFloat (n_credit_cost_multiplier n))] @ opt_str_entry ''pricing_model'' (n_pricing_model n)
     @ [(''attested'', JBool (n_attested n))] @ skip_empty ''transport'' (map JStr (n_transport n))
     @ opt_str_entry ''operator_display_name'' (n_operator_display_name n)
     @ opt_str_entry ''operator_fingerprint'' (n_operator_fingerprint n)
     @ [(''operator_verified'', JBool (n_operator_verified n)), (''operator_trust_tier'', opt_string (n_operator_trust_tier n))]
     @ skip_none ''health_models'' (map_option (\<lambda>ms. JArr (map JStr ms)) (n_health_models n))"

end
