(* ===== verification/Access.thy ===== *)
theory Access
  imports Evidence Wire
begin

text \<open>
  Authenticated node access: peer exchange and self-inspection, \<open>src/peer_access.rs\<close>, and the
  short-lived consumer tokens and relay tickets of \<open>src/token_issuance.rs\<close>.
\<close>

record PeersRequest =
  pq_node_id :: string
  pq_known_peers :: "string list"
  pq_limit :: "nat option"

definition peer_json :: "Node \<Rightarrow> json" where
  "peer_json n =
     JObj [(''node_id'', JStr (n_node_id n)), (''endpoint'', JStr (n_endpoint n)), (''region'', JStr (n_region n)),
           (''last_seen'', JNull)]"

definition peers :: "headers \<Rightarrow> PeersRequest option \<Rightarrow> AppState \<Rightarrow> response \<times> AppState" where
  "peers headers request S =
     (case bearer_token headers of
        None \<Rightarrow> (missing_node_token, S)
      | Some token \<Rightarrow>
          (case request of
             None \<Rightarrow> (reject ''validation_error'' ''invalid peer request'', S)
           | Some req \<Rightarrow>
               if \<not> verify_node_token (st_repo S) (pq_node_id req) token then (invalid_node_token, S)
               else
                 (let known_ids = take 20 (pq_known_peers req);
                      found = peers_excluding (st_repo S) known_ids (unwrap_or 10 (pq_limit req))
                  in ((200, JObj [(''peers'', JArr (map peer_json found)), (''count'', JInt (int (length found)))]), S))))"

text \<open>The in-memory repository keeps no address history.\<close>

definition get_observed_ip :: "InMemoryRepo \<Rightarrow> string \<Rightarrow> string option" where
  "get_observed_ip M i = None"

definition me :: "RequestContext \<Rightarrow> headers \<Rightarrow> unit \<Rightarrow> AppState \<Rightarrow> response \<times> AppState" where
  "me X headers req S =
     (case bearer_token headers of
        None \<Rightarrow> (missing_node_token, S)
      | Some token \<Rightarrow>
          (case node_id_from_auth X headers token of
             None \<Rightarrow> (identity_required, S)
           | Some node_id \<Rightarrow>
               if \<not> verify_node_token (st_repo S) node_id token then (invalid_node_token, S)
               else
                 (case get_node (st_repo S) node_id of
                    Some node \<Rightarrow>
                      ((200, JObj [(''node_id'', JStr (n_node_id node)),
                                   (''observed_source_ip'', opt_string (get_observed_ip (st_repo S) node_id)),
                                   (''endpoint'', JStr (n_endpoint node))]), S)
                  | None \<Rightarrow> (node_not_found, S))))"

section \<open>Token issuance\<close>

record ConsumerTokenRequest =
  ct_target_node_id :: string
  ct_intent :: string

definition CONSUMER_TOKEN_DOMAIN :: string where
  "CONSUMER_TOKEN_DOMAIN = ''iicp:consumer-token:v1'' @ [CHR 10]"

definition RELAY_TICKET_DOMAIN :: string where
  "RELAY_TICKET_DOMAIN = ''iicp:relay-bind-ticket:v1'' @ [CHR 10]"

definition consumer_payload :: "RequestContext \<Rightarrow> string \<Rightarrow> ConsumerTokenRequest \<Rightarrow> json" where
  "consumer_payload X caller req =
     JObj [(''v'', JInt 1), (''iss'', JStr ''https://iicp.network''), (''sub'', JStr caller), (''aud'', JStr (ct_target_node_id req)),
           (''intent'', JStr (ct_intent req)), (''iat'', JInt (uint (cx_now X))), (''exp'', JInt (uint (cx_now X) + 300))]"

definition consumer_token_issue ::
    "RequestContext \<Rightarrow> headers \<Rightarrow> ConsumerTokenRequest \<Rightarrow> AppState \<Rightarrow> response \<times> AppState" where
  "consumer_token_issue X headers req S =
     (if trim (ct_target_node_id req) = [] \<or> trim (ct_intent req) = []
      then (err_json 422 ''validation_error'' ''target_node_id and intent are required'', S)
      else case bearer_token headers of
        None \<Rightarrow> (missing_node_token, S)
      | Some token \<Rightarrow>
          (case node_id_from_auth X headers token of
             None \<Rightarrow> (identity_required, S)
           | Some caller_node_id \<Rightarrow>
               if \<not> verify_node_token (st_repo S) caller_node_id token then (invalid_node_token, S)
               else if get_node (st_repo S) (ct_target_node_id req) = None
               then (err_json 404 ''not_found'' ''Target node not found.'', S)
               else
                 (case Option.bind (st_signing_key S)
                         (\<lambda>secret. sign_domain_token X secret CONSUMER_TOKEN_DOMAIN (consumer_payload X caller_node_id req)) of
                    None \<Rightarrow> (err_json 503 ''not_configured'' ''Consumer token signing key not configured on this directory.'', S)
                  | Some issued \<Rightarrow>
                      ((201, JObj [(''token'', JStr issued), (''expires_at'', JInt (uint (cx_now X) + 300)),
                                   (''caller_node_id'', JStr caller_node_id), (''target_node_id'', JStr (ct_target_node_id req)),
                                   (''intent'', JStr (ct_intent req))]), S))))"

definition relay_target :: "string option \<Rightarrow> string" where
  "relay_target requested = (case requested of None \<Rightarrow> ''*'' | Some s \<Rightarrow> if trim s = [] then ''*'' else s)"

definition relay_payload :: "RequestContext \<Rightarrow> string \<Rightarrow> string \<Rightarrow> json" where
  "relay_payload X worker relay =
     JObj [(''v'', JInt 1), (''typ'', JStr ''relay-bind-ticket''), (''iss'', JStr ''https://iicp.network''), (''sub'', JStr worker),
           (''aud'', JStr relay), (''iat'', JInt (uint (cx_now X))), (''exp'', JInt (uint (cx_now X) + 120))]"

text \<open>The request is its optional relay node id.\<close>

definition relay_ticket_issue :: "RequestContext \<Rightarrow> headers \<Rightarrow> string option \<Rightarrow> AppState \<Rightarrow> response \<times> AppState" where
  "relay_ticket_issue X headers requested S =
     (case bearer_token headers of
        None \<Rightarrow> (missing_node_token, S)
      | Some token \<Rightarrow>
          (case node_id_from_auth X headers token of
             None \<Rightarrow> (identity_required, S)
           | Some worker_node_id \<Rightarrow>
               if \<not> verify_node_token (st_repo S) worker_node_id token then (invalid_node_token, S)
               else
                 (let relay_node_id = relay_target requested
                  in case Option.bind (st_signing_key S)
                            (\<lambda>secret. sign_domain_token X secret RELAY_TICKET_DOMAIN (relay_payload X worker_node_id relay_node_id)) of
                       None \<Rightarrow> (err_json 503 ''not_configured'' ''Relay bind ticket signing key not configured on this directory.'', S)
                     | Some ticket \<Rightarrow>
                         ((201, JObj [(''ticket'', JStr ticket), (''expires_at'', JInt (uint (cx_now X) + 120)),
                                      (''worker_node_id'', JStr worker_node_id), (''relay_node_id'', JStr relay_node_id),
                                      (''algorithm'', JStr ''ed25519'')]), S))))"

section \<open>Guards\<close>

lemmas access_defs = peers_def me_def consumer_token_issue_def relay_ticket_issue_def

interpretation peers: guarded_endpoint peers "\<lambda>h r. map_option pq_node_id r"
  by unfold_locales (auto simp: access_defs guard_defs Let_def split: option.splits)

interpretation me: guarded_endpoint "me X" "\<lambda>h r. caller_of X h" for X
  by unfold_locales (auto simp: access_defs guard_defs split: option.splits)

interpretation consumer: guarded_endpoint "consumer_token_issue X" "\<lambda>h r. caller_of X h" for X
  by unfold_locales (auto simp: access_defs guard_defs split: option.splits)

interpretation relay: guarded_endpoint "relay_ticket_issue X" "\<lambda>h r. caller_of X h" for X
  by unfold_locales (auto simp: access_defs guard_defs Let_def split: option.splits)

section \<open>What an issued token says\<close>

text \<open>
  A consumer token is issued only to an authenticated caller and only for a registered target; it
  is signed by the directory's key over the caller, the target, the intent and an expiry five
  minutes ahead, in a domain of its own: its signed bytes never coincide with those of a relay
  ticket, so neither can stand in for the other.
\<close>

theorem consumer_token_sound:
  assumes "signatures_verify (cx_crypto X)" and "consumer_token_issue X h req S = ((201, body), S')"
  shows "\<exists>t caller secret seed sg. bearer_token h = Some t \<and> node_id_from_auth X h t = Some caller
      \<and> verify_node_token (st_repo S) caller t \<and> get_node (st_repo S) (ct_target_node_id req) \<noteq> None
      \<and> st_signing_key S = Some secret \<and> signing_seed (cx_crypto X) secret = Some seed
      \<and> get_str body ''token'' = Some (b64url_json X (consumer_payload X caller req) @ ''.'' @ sg)
      \<and> verify_event (cx_crypto X) (hex_encode (cx_crypto X) (ed_public (cx_crypto X) seed)) sg
          (CONSUMER_TOKEN_DOMAIN @ b64url_json X (consumer_payload X caller req))
      \<and> (\<forall>p. CONSUMER_TOKEN_DOMAIN @ b64url_json X (consumer_payload X caller req) \<noteq> RELAY_TICKET_DOMAIN @ p)
      \<and> S' = S"
proof -
  have status: "fst (fst (consumer_token_issue X h req S)) = 201" using assms(2) by simp
  have "fst (fst (consumer_token_issue X h req S)) \<notin> {401, 422}" using status by simp
  then obtain t caller where a: "bearer_token h = Some t" "node_id_from_auth X h t = Some caller" "verify_node_token (st_repo S) caller t"
    using consumer.success_needs_token [of X h req S] by (auto simp: caller_of_def)
  have known: "get_node (st_repo S) (ct_target_node_id req) \<noteq> None"
    using status a by (auto simp: consumer_token_issue_def err_json_def split: if_splits)
  obtain tok where tok: "Option.bind (st_signing_key S) (\<lambda>secret. sign_domain_token X secret CONSUMER_TOKEN_DOMAIN (consumer_payload X caller req)) = Some tok"
    using status a known by (cases "Option.bind (st_signing_key S) (\<lambda>secret. sign_domain_token X secret CONSUMER_TOKEN_DOMAIN (consumer_payload X caller req))")
      (auto simp: consumer_token_issue_def err_json_def split: if_splits)
  then obtain secret where secret: "st_signing_key S = Some secret"
      "sign_domain_token X secret CONSUMER_TOKEN_DOMAIN (consumer_payload X caller req) = Some tok"
    by (auto simp: bind_eq_Some_conv)
  have body: "get_str body ''token'' = Some tok" "S' = S"
    using assms(2) a known tok by (auto simp: consumer_token_issue_def err_json_def get_str_def split: if_splits)
  obtain seed where seed: "signing_seed (cx_crypto X) secret = Some seed"
      "tok = b64url_json X (consumer_payload X caller req) @ ''.'' @ hex_encode (cx_crypto X)
         (ed_sign (cx_crypto X) seed (CONSUMER_TOKEN_DOMAIN @ b64url_json X (consumer_payload X caller req)))"
    using secret(2) by (auto simp: sign_domain_token_def ed25519_sign_hex_def Let_def)
  have "verify_event (cx_crypto X) (hex_encode (cx_crypto X) (ed_public (cx_crypto X) seed))
      (hex_encode (cx_crypto X) (ed_sign (cx_crypto X) seed m)) m" for m
    using assms(1) by (simp add: verify_event_def signatures_verify_def)
  moreover have "CONSUMER_TOKEN_DOMAIN @ q \<noteq> RELAY_TICKET_DOMAIN @ p" for p q
    by (simp add: CONSUMER_TOKEN_DOMAIN_def RELAY_TICKET_DOMAIN_def)
  ultimately show ?thesis using a known secret(1) seed body by blast
qed

theorem consumer_token_sound_witness:
  "let S = demo_state [demo_node_record ''a'' ''ta'', demo_node_record ''b'' ''tb''];
       h = (demo_bearer ''ta'')(''x-node-id'' \<mapsto> ''a'');
       resp = fst (consumer_token_issue demo_context h \<lparr>ct_target_node_id = ''b'', ct_intent = ''urn:x''\<rparr> S)
   in fst resp = 201 \<and> (\<exists>caller. verify_node_token (st_repo S) caller ''ta'')"
proof -
  let ?S = "demo_state [demo_node_record ''a'' ''ta'', demo_node_record ''b'' ''tb'']"
  let ?h = "(demo_bearer ''ta'')(''x-node-id'' \<mapsto> ''a'')"
  let ?r = "consumer_token_issue demo_context ?h \<lparr>ct_target_node_id = ''b'', ct_intent = ''urn:x''\<rparr> ?S"
  have t: "trim ''b'' = ''b''" "trim ''urn:x'' = ''urn:x''"
    by (simp_all add: trim_plain plain_char_def code_def)
  have b: "bearer_token ?h = Some ''ta''"
    by (simp add: bearer_token_def demo_bearer_def strip_prefix_def starts_with_def nonempty_def)
  have i: "node_id_from_auth demo_context ?h ''ta'' = Some ''a''"
    by (simp add: node_id_from_auth_def verify_jwt_def jwt_decode_def demo_context_def demo_jwt_def nonempty_def Let_def)
  have v: "verify_node_token (st_repo ?S) ''a'' ''ta''" "get_node (st_repo ?S) ''b'' \<noteq> None" "st_signing_key ?S = Some demo_secret"
    by (simp_all add: demo_state_def new_with_token_verification_def new_repo_def find_record_def demo_node_record_def get_node_def
        blank_record_def blank_node_def verify_node_token_def)
  have C: "signatures_verify (cx_crypto demo_context)" "signing_seed (cx_crypto demo_context) demo_secret = Some (replicate 32 CHR ''s'')"
    using signatures_verify_demo demo_seed by (simp_all add: demo_context_def)
  have status: "fst (fst ?r) = 201" using t b i v C(2)
    by (auto simp: consumer_token_issue_def sign_domain_token_def ed25519_sign_hex_def Let_def)
  then have "?r = ((201, snd (fst ?r)), snd ?r)" by (simp add: prod_eq_iff)
  from consumer_token_sound [OF C(1) this] b have "\<exists>caller. verify_node_token (st_repo ?S) caller ''ta''" by auto
  with status show ?thesis unfolding Let_def by blast
qed

text \<open>
  The issued JWT does not authenticate: a caller who presents a valid node JWT as bearer is
  identified by it, and then refused by every endpoint that identifies callers this way, because
  the stored node token is compared with the JWT itself.
\<close>

theorem jwt_bearer_refused:
  assumes "m_verify_tokens (st_repo S)" and "bearer_token h = Some t"
    and "verify_jwt (cx_jwt X) (cx_app_key X) (cx_now X) t = Some n"
    and "find_record (st_repo S) n = Some r" and "r_node_token r = Some stored" and "stored \<noteq> t"
  shows "me X h () S = (invalid_node_token, S) \<and> credits_quote X h p S = (invalid_node_token, S)
    \<and> relay_ticket_issue X h q S = (invalid_node_token, S)"
  using assms by (simp add: me_def credits_quote_def relay_ticket_issue_def node_id_from_auth_def verify_node_token_def)

theorem jwt_bearer_refused_witness:
  "verify_jwt demo_jwt (Some ''key'') 4000 ''node'' = Some ''n''
   \<and> me (demo_context\<lparr>cx_now := 4000\<rparr>) (demo_bearer ''node'') () (demo_state [demo_node_record ''n'' ''secret'']) =
       (invalid_node_token, demo_state [demo_node_record ''n'' ''secret''])"
proof -
  let ?S = "demo_state [demo_node_record ''n'' ''secret'']"
  let ?X = "demo_context\<lparr>cx_now := 4000\<rparr>"
  have v: "verify_jwt demo_jwt (Some ''key'') 4000 ''node'' = Some ''n''" by code_simp
  have X: "verify_jwt (cx_jwt ?X) (cx_app_key ?X) (cx_now ?X) ''node'' = Some ''n''" using v by (simp add: demo_context_def)
  have "m_verify_tokens (st_repo ?S)" "find_record (st_repo ?S) ''n'' = Some (demo_node_record ''n'' ''secret'')"
    "r_node_token (demo_node_record ''n'' ''secret'') = Some ''secret''"
    by (simp_all add: demo_state_def new_with_token_verification_def new_repo_def find_record_def demo_node_record_def blank_record_def blank_node_def)
  with jwt_bearer_refused [OF this(1) bearer_token_demo X this(2,3)] v show ?thesis by simp
qed

end
