(* ===== verification/Credits.thy ===== *)
theory Credits
  imports Access
begin

text \<open>
  The credit handlers, \<open>src/credits.rs\<close>: balance, summary, the award of credits against a signed
  receipt, and the paginated ledger history.
\<close>

definition credits_balance :: "RequestContext \<Rightarrow> headers \<Rightarrow> unit \<Rightarrow> AppState \<Rightarrow> response \<times> AppState" where
  "credits_balance X headers req S =
     (case bearer_token headers of
        None \<Rightarrow> (missing_node_token, S)
      | Some token \<Rightarrow>
          (case node_id_from_auth X headers token of
             None \<Rightarrow> (identity_required, S)
           | Some node_id \<Rightarrow>
               if \<not> verify_node_token (st_repo S) node_id token then (invalid_node_token, S)
               else
                 (case credit_balance (st_repo S) node_id of
                    Some balance \<Rightarrow>
                      ((200, JObj [(''node_id'', JStr node_id), (''balance'', JFloat balance), (''unit'', JStr ''credit''),
                                   (''tokens_per_credit'', JInt 1000)]), S)
                  | None \<Rightarrow> (node_not_found, S))))"

definition wallet_json :: "OperatorWalletSummary \<Rightarrow> json" where
  "wallet_json w =
     JObj [(''total_balance'', JFloat (ws_total_balance w)), (''total_earned'', JFloat (ws_total_earned w)),
           (''total_spent'', JFloat (ws_total_spent w)), (''tx_count'', JInt (uint (ws_tx_count w))),
           (''node_count'', JInt (uint (ws_node_count w))), (''reconciles'', JBool (ws_reconciles w)),
           (''operator_fingerprint'', JStr (ws_operator_fingerprint w))]"

definition credits_summary :: "RequestContext \<Rightarrow> headers \<Rightarrow> unit \<Rightarrow> AppState \<Rightarrow> response \<times> AppState" where
  "credits_summary X headers req S =
     (case bearer_token headers of
        None \<Rightarrow> (missing_node_token, S)
      | Some token \<Rightarrow>
          (case node_id_from_auth X headers token of
             None \<Rightarrow> (identity_required, S)
           | Some node_id \<Rightarrow>
               if \<not> verify_node_token (st_repo S) node_id token then (invalid_node_token, S)
               else
                 (case credit_summary (st_repo S) node_id of
                    Some s \<Rightarrow>
                      (let reconciles = \<bar>fsub (cs_balance s) (fsub (cs_total_earned s) (cs_total_spent s))\<bar> < round64 (1 / 10000);
                           wallet = (case operator_wallet_summary (cx_crypto X) (st_repo S) node_id of
                                       Some w \<Rightarrow> wallet_json w | None \<Rightarrow> JNull)
                       in ((200, JObj [(''node_id'', JStr node_id), (''balance'', JFloat (cs_balance s)),
                              (''total_earned'', JFloat (cs_total_earned s)), (''total_spent'', JFloat (cs_total_spent s)),
                              (''tx_count'', JInt (uint (cs_tx_count s))), (''reconciles'', JBool reconciles),
                              (''unit'', JStr ''credit''), (''tokens_per_credit'', JInt 1000), (''operator_wallet'', wallet)]), S))
                  | None \<Rightarrow> (node_not_found, S))))"

section \<open>Receipts\<close>

record CreditAwardRequest =
  ca_node_id :: string
  ca_task_id :: string
  ca_tokens_used :: u64
  ca_cip_parent_task_id :: string
  ca_cip_session_key :: string
  ca_nonce :: string
  ca_response_hash :: string
  ca_signature :: string
  ca_amount :: f64
  ca_querying_node_id :: "string option"

definition receipt_text :: "CreditAwardRequest \<Rightarrow> string" where
  "receipt_text req =
     ca_task_id req @ '':'' @ show_int (uint (ca_tokens_used req)) @ '':'' @ ca_cip_parent_task_id req @ '':''
     @ ca_cip_session_key req @ '':'' @ ca_nonce req @ '':'' @ ca_response_hash req
     @ (case nonempty (ca_querying_node_id req) of None \<Rightarrow> [] | Some q \<Rightarrow> '':'' @ q)"

definition verify_cip_receipt :: "RequestContext \<Rightarrow> CreditAwardRequest \<Rightarrow> string \<Rightarrow> bool" where
  "verify_cip_receipt X req hmac_key \<longleftrightarrow>
     (case hex_decode (cx_crypto X) (ca_signature req) of
        None \<Rightarrow> False
      | Some expected_bytes \<Rightarrow> cx_hmac_verify X hmac_key (receipt_text req) expected_bytes)"

definition award_ceiling :: "u64 \<Rightarrow> f64" where
  "award_ceiling tokens_used = fmul (fdiv (f64_of_word tokens_used) 1000) (round64 (11 / 10))"

definition award_amount :: "CreditAwardRequest \<Rightarrow> f64" where
  "award_amount req = max (min (ca_amount req) (award_ceiling (ca_tokens_used req))) 0"

definition excluded_award :: "CreditAwardRequest \<Rightarrow> string \<Rightarrow> response" where
  "excluded_award req attribution =
     (200, JObj [(''node_id'', JStr (ca_node_id req)), (''awarded'', JFloat 0), (''spent'', JFloat 0), (''excluded'', JBool True),
                 (''reason'', JStr ''self_query_excluded''), (''attribution'', JStr attribution), (''trust_weight'', JFloat 0)])"

definition operator_of :: "Node option \<Rightarrow> string option" where
  "operator_of n = nonempty (Option.bind n n_operator_pubkey)"

text \<open>The attribution of an award: the early answer, or the label and the trust weight.\<close>

definition attribution_of :: "AppState \<Rightarrow> CreditAwardRequest \<Rightarrow> response + (string \<times> f64)" where
  "attribution_of S req =
     (case nonempty (ca_querying_node_id req) of
        None \<Rightarrow> Inr (''legacy_unattributed'', 0)
      | Some q \<Rightarrow>
          if q = ca_node_id req then Inl (excluded_award req ''self_node'')
          else
            (let serving = get_node (st_repo S) (ca_node_id req)
             in case get_node (st_repo S) q of
                  None \<Rightarrow> Inl (reject ''IICP-E027'' ''querying_node_id does not identify a registered node'')
                | Some querying \<Rightarrow>
                    if (case operator_of serving of None \<Rightarrow> False | Some pk \<Rightarrow> n_operator_pubkey querying = Some pk)
                    then Inl (excluded_award req ''self_operator'')
                    else if operator_of serving \<noteq> None \<and> operator_of (Some querying) \<noteq> None
                    then Inr (''attributed_cross_operator'', 1)
                    else Inr (''attributed_cross_node_unverified_operator'', 1 / 2)))"

definition award_payload :: "CreditAwardRequest \<Rightarrow> f64 \<Rightarrow> f64 \<Rightarrow> string \<Rightarrow> f64 \<Rightarrow> WalletDebitResult option \<Rightarrow> json" where
  "award_payload req amount new_balance attribution trust_weight spend =
     JObj [(''amount'', JFloat amount), (''new_balance'', JFloat new_balance), (''task_id'', JStr (ca_task_id req)),
           (''querying_node_id'', opt_string (ca_querying_node_id req)), (''attribution'', JStr attribution),
           (''trust_weight'', JFloat trust_weight), (''spent'', JFloat (case spend of None \<Rightarrow> 0 | Some s \<Rightarrow> wd_spent s)),
           (''spend_scope'', opt_string (map_option wd_scope spend)),
           (''debit_count'', case spend of None \<Rightarrow> JNull | Some s \<Rightarrow> JInt (uint (wd_debit_count s)))]"

definition award_response :: "CreditAwardRequest \<Rightarrow> f64 \<Rightarrow> f64 \<Rightarrow> string \<Rightarrow> f64 \<Rightarrow> WalletDebitResult option \<Rightarrow> response" where
  "award_response req amount new_balance attribution trust_weight spend =
     (201, JObj ([(''node_id'', JStr (ca_node_id req)), (''awarded'', JFloat amount), (''balance'', JFloat new_balance),
                  (''spent'', JFloat (case spend of None \<Rightarrow> 0 | Some s \<Rightarrow> wd_spent s)), (''attribution'', JStr attribution),
                  (''trust_weight'', JFloat trust_weight)]
                 @ (case spend of
                      None \<Rightarrow> []
                    | Some s \<Rightarrow>
                        [(''spend_scope'', JStr (wd_scope s)), (''debit_count'', JInt (uint (wd_debit_count s)))]
                        @ (case wd_reason s of None \<Rightarrow> [] | Some r \<Rightarrow> [(''spend_reason'', JStr r)]))))"

definition credits_award :: "RequestContext \<Rightarrow> headers \<Rightarrow> CreditAwardRequest option \<Rightarrow> AppState \<Rightarrow> response \<times> AppState" where
  "credits_award X headers request S =
     (case bearer_token headers of
        None \<Rightarrow> (missing_node_token, S)
      | Some token \<Rightarrow>
          (case request of
             None \<Rightarrow> (reject ''validation_error'' ''invalid credit award request'', S)
           | Some req \<Rightarrow>
               if \<not> verify_node_token (st_repo S) (ca_node_id req) token then (invalid_node_token, S)
               else if length (ca_nonce req) < 32 then (reject ''validation_error'' ''nonce must be at least 32 characters'', S)
               else
                 (case node_hmac_key (st_repo S) (ca_node_id req) of
                    None \<Rightarrow> (node_not_found, S)
                  | Some hmac_key \<Rightarrow>
                      if \<not> verify_cip_receipt X req hmac_key then (err_json 422 ''IICP-E027'' ''invalid receipt signature'', S)
                      else if ca_amount req < round64 (1 / 10000) then (reject ''validation_error'' ''amount must be >= 0.0001'', S)
                      else
                        (let amount = award_amount req
                         in case attribution_of S req of
                              Inl early \<Rightarrow> (early, S)
                            | Inr (attribution, trust_weight) \<Rightarrow>
                                (case record_credit_award (st_repo S) (ca_node_id req) amount of
                                   Inr new_balance \<Rightarrow>
                                     (let spend = map_option (debit_for_consumer (st_repo S)) (nonempty (ca_querying_node_id req))
                                      in (award_response req amount new_balance attribution trust_weight spend,
                                          emit_event X (cx_uuid X 0) ''CREDIT_AWARD'' (ca_node_id req)
                                            (award_payload req amount new_balance attribution trust_weight spend) S))
                                 | Inl NonceReplay \<Rightarrow> (err_json 409 ''nonce_replay'' ''nonce already used'', S)
                                 | Inl _ \<Rightarrow> (err_json 500 ''server_error'' ''credit award failed'', S))))))"

section \<open>Ledger pages\<close>

record LedgerPageParams =
  lp_page :: "u64 option"
  lp_per_page :: "nat option"

definition ledger_window :: "LedgerPageParams \<Rightarrow> u64 \<times> nat \<times> u64" where
  "ledger_window p =
     (let per_page = min (unwrap_or 20 (lp_per_page p)) 100;
          page = max (unwrap_or 1 (lp_page p)) 1
      in (page, per_page, (page - 1) * of_nat per_page))"

text \<open>The in-memory repository has no ledger.\<close>

definition credit_transactions :: "InMemoryRepo \<Rightarrow> string \<Rightarrow> u64 \<Rightarrow> nat \<Rightarrow> json list" where
  "credit_transactions M node_id offset limit = []"

definition credits_transactions :: "RequestContext \<Rightarrow> headers \<Rightarrow> LedgerPageParams \<Rightarrow> AppState \<Rightarrow> response \<times> AppState" where
  "credits_transactions X headers p S =
     (case bearer_token headers of
        None \<Rightarrow> (missing_node_token, S)
      | Some token \<Rightarrow>
          (case node_id_from_auth X headers token of
             None \<Rightarrow> (identity_required, S)
           | Some node_id \<Rightarrow>
               if \<not> verify_node_token (st_repo S) node_id token then (invalid_node_token, S)
               else
                 (let (page, per_page, offset) = ledger_window p;
                      txs = credit_transactions (st_repo S) node_id offset per_page
                  in ((200, JObj [(''node_id'', JStr node_id), (''transactions'', JArr txs), (''count'', JInt (int (length txs))),
                                  (''page'', JInt (uint page)), (''per_page'', JInt (int per_page))]), S))))"

section \<open>Guards\<close>

lemmas credit_defs = credits_balance_def credits_summary_def credits_award_def credits_transactions_def

interpretation balance: guarded_endpoint "credits_balance X" "\<lambda>h r. caller_of X h" for X
  by unfold_locales (auto simp: credits_balance_def guard_defs split: option.splits)

interpretation summary: guarded_endpoint "credits_summary X" "\<lambda>h r. caller_of X h" for X
  by unfold_locales (auto simp: credits_summary_def guard_defs Let_def split: option.splits)

interpretation award: guarded_endpoint "credits_award X" "\<lambda>h r. map_option ca_node_id r" for X
  by unfold_locales (auto simp: credits_award_def guard_defs split: option.splits)

interpretation transactions: guarded_endpoint "credits_transactions X" "\<lambda>h r. caller_of X h" for X
  by unfold_locales (auto simp: credits_transactions_def guard_defs Let_def split: option.splits prod.splits)

section \<open>Awards\<close>

lemma award_amount_bounds: "0 \<le> award_amount req" "award_amount req \<le> max (award_ceiling (ca_tokens_used req)) 0"
    "0 \<le> ca_amount req \<Longrightarrow> award_amount req \<le> ca_amount req"
  by (auto simp: award_amount_def)

lemma fdiv_nonneg: "0 \<le> x \<Longrightarrow> 0 < w \<Longrightarrow> 0 \<le> fdiv x w"
  unfolding fdiv_def by (intro f64.rnd_nonneg) simp

lemma award_ceiling_nonneg: "0 \<le> award_ceiling n"
proof -
  have "(0::rat) \<le> round64 (11 / 10)" by code_simp
  then show ?thesis unfolding award_ceiling_def by (intro fmul_nonneg fdiv_nonneg) simp_all
qed

text \<open>The state after an award: the log grows by the one event that mirrors it.\<close>

definition one_award_event :: "AppState \<Rightarrow> AppState \<Rightarrow> string \<Rightarrow> f64 \<Rightarrow> bool" where
  "one_award_event S S' i amount \<longleftrightarrow>
     (case st_signing_key S of
        None \<Rightarrow> S' = S
      | Some _ \<Rightarrow> (\<exists>e. m_events (st_repo S') = m_events (st_repo S) @ [e] \<and> e_event_type e = ''CREDIT_AWARD'' \<and> e_node_id e = i
                     \<and> get_f64 (e_payload e) ''amount'' = Some amount)
                  \<and> m_records (st_repo S') = m_records (st_repo S))"

lemma emit_award_event:
  "one_award_event S (emit_event X eid ''CREDIT_AWARD'' i (award_payload req amount bal att w spend) S) i amount"
  by (simp add: one_award_event_def emit_event_def append_signed_event_def award_payload_def get_f64_def Let_def split: option.split)

lemma award_success:
  assumes "credits_award X h (Some req) S = (resp, S')" "fst resp = 201"
  obtains key att w where "node_hmac_key (st_repo S) (ca_node_id req) = Some key" "verify_cip_receipt X req key"
    "32 \<le> length (ca_nonce req)" "round64 (1 / 10000) \<le> ca_amount req" "attribution_of S req = Inr (att, w)"
    "find_record (st_repo S) (ca_node_id req) \<noteq> None"
    "get_f64 (snd resp) ''awarded'' = Some (award_amount req)" "one_award_event S S' (ca_node_id req) (award_amount req)"
proof -
  have status: "fst (fst (credits_award X h (Some req) S)) = 201" using assms by simp
  then obtain t where t: "bearer_token h = Some t" "verify_node_token (st_repo S) (ca_node_id req) t"
    using award.success_needs_token [of X h "Some req" S] by auto
  have nonce: "32 \<le> length (ca_nonce req)"
    using status t by (auto simp: credits_award_def reject_def err_json_def not_less [symmetric])
  obtain key where key: "node_hmac_key (st_repo S) (ca_node_id req) = Some key"
    using status t nonce
    by (cases "node_hmac_key (st_repo S) (ca_node_id req)") (auto simp: credits_award_def node_not_found_def err_json_def)
  have receipt: "verify_cip_receipt X req key"
    using status t nonce key by (auto simp: credits_award_def err_json_def split: if_splits)
  have amount: "round64 (1 / 10000) \<le> ca_amount req"
    using status t nonce key receipt by (auto simp: credits_award_def reject_def err_json_def not_less [symmetric])
  have early: "attribution_of S req = Inl r \<Longrightarrow> fst r \<noteq> 201" for r
    by (auto simp: attribution_of_def excluded_award_def reject_def err_json_def Let_def split: option.splits if_splits)
  obtain att w where att: "attribution_of S req = Inr (att, w)"
    using status t nonce key receipt amount early
    by (cases "attribution_of S req") (auto simp: credits_award_def not_less [symmetric])
  have rec: "\<exists>r \<in> set (m_records (st_repo S)). record_id r = ca_node_id req"
    using key by (auto simp: node_hmac_key_def find_record_def bind_eq_Some_conv dest!: find_Some_set)
  then have found: "find_record (st_repo S) (ca_node_id req) \<noteq> None" by (auto simp: find_record_def find_None_set)
  have res: "resp = award_response req (award_amount req) (award_amount req) att w
        (map_option (debit_for_consumer (st_repo S)) (nonempty (ca_querying_node_id req)))"
    "S' = emit_event X (cx_uuid X 0) ''CREDIT_AWARD'' (ca_node_id req) (award_payload req (award_amount req) (award_amount req) att w
        (map_option (debit_for_consumer (st_repo S)) (nonempty (ca_querying_node_id req)))) S"
    using assms(1) t nonce key receipt amount att rec
    by (auto simp: credits_award_def record_credit_award_def Let_def not_less [symmetric])
  show thesis
    using that [OF key receipt nonce amount att found] emit_award_event res
    by (auto simp: award_response_def get_f64_def)
qed

text \<open>
  C13. Credits are awarded only against a receipt: the caller holds the node's token, the nonce has at
  least 32 bytes, the receipt verifies under the node's own HMAC key, the award is at most the
  requested amount and 1.1 credits per thousand tokens, never negative, never to the querying
  node itself nor to a node of the same operator; each award emits exactly one CREDIT_AWARD event
  with the awarded amount, and every other answer leaves the directory as it was.
\<close>

theorem credit_award_sound:
  assumes "credits_award X h (Some req) S = (resp, S')"
  shows "(fst resp = 201 \<longrightarrow>
       authorised h (Some (ca_node_id req)) S \<and> 32 \<le> length (ca_nonce req)
       \<and> (\<exists>key. node_hmac_key (st_repo S) (ca_node_id req) = Some key \<and> verify_cip_receipt X req key)
       \<and> (\<exists>a. get_f64 (snd resp) ''awarded'' = Some a \<and> 0 \<le> a \<and> a \<le> ca_amount req \<and> a \<le> award_ceiling (ca_tokens_used req)
            \<and> one_award_event S S' (ca_node_id req) a)
       \<and> (\<forall>q. nonempty (ca_querying_node_id req) = Some q \<longrightarrow>
            q \<noteq> ca_node_id req
            \<and> (\<forall>pk. operator_of (get_node (st_repo S) (ca_node_id req)) = Some pk \<longrightarrow> operator_of (get_node (st_repo S) q) \<noteq> Some pk)))
    \<and> (fst resp \<noteq> 201 \<longrightarrow> S' = S)"
proof (intro conjI impI)
  assume ok: "fst resp = 201"
  obtain key att w where a: "node_hmac_key (st_repo S) (ca_node_id req) = Some key" "verify_cip_receipt X req key"
    "32 \<le> length (ca_nonce req)" "round64 (1 / 10000) \<le> ca_amount req" "attribution_of S req = Inr (att, w)"
    "get_f64 (snd resp) ''awarded'' = Some (award_amount req)" "one_award_event S S' (ca_node_id req) (award_amount req)"
    using award_success [OF assms ok] by metis
  show "authorised h (Some (ca_node_id req)) S"
    using award.success_needs_token [of X h "Some req" S] assms ok by (auto simp: authorised_iff)
  show "32 \<le> length (ca_nonce req)" by (rule a)
  show "\<exists>key. node_hmac_key (st_repo S) (ca_node_id req) = Some key \<and> verify_cip_receipt X req key" using a by blast
  have "(0::rat) \<le> round64 (1 / 10000)" by code_simp
  then have "0 \<le> ca_amount req" using a(4) by linarith
  then show "\<exists>a. get_f64 (snd resp) ''awarded'' = Some a \<and> 0 \<le> a \<and> a \<le> ca_amount req \<and> a \<le> award_ceiling (ca_tokens_used req)
      \<and> one_award_event S S' (ca_node_id req) a"
    using a(6,7) award_amount_bounds [of req] award_ceiling_nonneg [of "ca_tokens_used req"] by auto
  show "\<forall>q. nonempty (ca_querying_node_id req) = Some q \<longrightarrow> q \<noteq> ca_node_id req
      \<and> (\<forall>pk. operator_of (get_node (st_repo S) (ca_node_id req)) = Some pk \<longrightarrow> operator_of (get_node (st_repo S) q) \<noteq> Some pk)"
    using a(5) by (auto simp: attribution_of_def operator_of_def nonempty_def Let_def split: option.splits if_splits)
next
  assume "fst resp \<noteq> 201"
  then show "S' = S" using assms
    by (auto simp: credits_award_def award_response_def Let_def split: option.splits if_splits sum.splits prod.splits CreditError.splits)
qed

text \<open>
  The text a receipt signs does not determine its fields: with a parent task id that is a number
  a receipt for five tokens is, byte for byte, also a receipt for as many tokens as that number
  says, under a different nonce, so it passes the signature check and the replay check again.
\<close>

theorem receipt_text_ambiguous:
  assumes "req = \<lparr>ca_node_id = i, ca_task_id = t, ca_tokens_used = n, ca_cip_parent_task_id = show_int (uint big),
      ca_cip_session_key = s, ca_nonce = nonce, ca_response_hash = rh, ca_signature = sg, ca_amount = a, ca_querying_node_id = Some q\<rparr>"
    and "q \<noteq> []" and "verify_cip_receipt X req key"
  shows "\<exists>req'. verify_cip_receipt X req' key \<and> ca_tokens_used req' = big \<and> ca_nonce req' = rh \<and> ca_node_id req' = i
    \<and> ca_querying_node_id req' = None"
proof -
  let ?req = "\<lparr>ca_node_id = i, ca_task_id = t @ '':'' @ show_int (uint n), ca_tokens_used = big, ca_cip_parent_task_id = s,
      ca_cip_session_key = nonce, ca_nonce = rh, ca_response_hash = q, ca_signature = sg, ca_amount = a, ca_querying_node_id = None\<rparr>"
  have "receipt_text ?req = receipt_text req" using assms(1,2) by (simp add: receipt_text_def nonempty_def)
  moreover have "ca_signature ?req = ca_signature req" using assms(1) by simp
  ultimately have "verify_cip_receipt X ?req key" using assms(3) unfolding verify_cip_receipt_def by (simp only:)
  then show ?thesis by (intro exI [of _ ?req]) simp
qed

definition sample_award :: CreditAwardRequest where
  "sample_award =
     \<lparr>ca_node_id = ''a'', ca_task_id = ''t'', ca_tokens_used = 5, ca_cip_parent_task_id = ''9'', ca_cip_session_key = ''s'',
      ca_nonce = replicate 32 CHR ''n'', ca_response_hash = replicate 64 CHR ''h'',
      ca_signature = demo_hex (''key'' @ ''t:5:9:s:'' @ replicate 32 CHR ''n'' @ '':'' @ replicate 64 CHR ''h'' @ '':b''),
      ca_amount = 1, ca_querying_node_id = Some ''b''\<rparr>"

definition sample_award_state :: AppState where
  "sample_award_state =
     demo_state [(demo_node_record ''a'' ''ta'')\<lparr>r_node_hmac_key := Some ''key''\<rparr>, demo_node_record ''b'' ''tb'']"

lemma sample_receipt: "verify_cip_receipt demo_context sample_award ''key''"
proof -
  have n: "show_int 5 = ''5''" by code_simp
  show ?thesis
    by (simp add: verify_cip_receipt_def sample_award_def demo_context_def demo_crypto_def demo_unhex_hex receipt_text_def nonempty_def n)
qed

theorem credit_award_sound_witness:
  "fst (fst (credits_award demo_context (demo_bearer ''ta'') (Some sample_award) sample_award_state)) = 201
   \<and> (\<exists>a. one_award_event sample_award_state
        (snd (credits_award demo_context (demo_bearer ''ta'') (Some sample_award) sample_award_state)) ''a'' a
      \<and> a \<le> 1 \<and> a \<le> award_ceiling 5)"
proof -
  let ?r = "credits_award demo_context (demo_bearer ''ta'') (Some sample_award) sample_award_state"
  have f: "ca_node_id sample_award = ''a''" "ca_amount sample_award = 1" "ca_tokens_used sample_award = 5"
    "length (ca_nonce sample_award) = 32" "nonempty (ca_querying_node_id sample_award) = Some ''b''"
    by (simp_all add: sample_award_def nonempty_def)
  have small: "\<not> (1::rat) < round64 (1 / 10000)" by code_simp
  have st: "verify_node_token (st_repo sample_award_state) ''a'' ''ta''" "node_hmac_key (st_repo sample_award_state) ''a'' = Some ''key''"
    "\<exists>r \<in> set (m_records (st_repo sample_award_state)). record_id r = ''a''"
    by (simp_all add: sample_award_state_def demo_state_def new_with_token_verification_def new_repo_def find_record_def demo_node_record_def
        blank_record_def blank_node_def verify_node_token_def node_hmac_key_def)
  have "\<exists>n. get_node (st_repo sample_award_state) ''a'' = Some n \<and> n_operator_pubkey n = None"
    "\<exists>n. get_node (st_repo sample_award_state) ''b'' = Some n \<and> n_operator_pubkey n = None"
    by (simp_all add: get_node_def find_record_def sample_award_state_def demo_state_def
        new_with_token_verification_def new_repo_def demo_node_record_def blank_record_def blank_node_def node_view_def)
  then have att: "attribution_of sample_award_state sample_award = Inr (''attributed_cross_node_unverified_operator'', 1 / 2)"
    using f(1,5) by (auto simp: attribution_of_def operator_of_def nonempty_def Let_def)
  have status: "fst (fst ?r) = 201"
    using st sample_receipt small att f by (simp add: credits_award_def record_credit_award_def award_response_def Let_def)
  have "?r = (fst ?r, snd ?r)" by simp
  from credit_award_sound [OF this] status f show ?thesis by auto
qed

theorem receipt_text_ambiguous_witness:
  "\<exists>req'. verify_cip_receipt demo_context req' ''key'' \<and> ca_tokens_used req' = 9 \<and> ca_nonce req' = replicate 64 CHR ''h''"
proof -
  have n: "show_int 9 = ''9''" by code_simp
  have "sample_award = \<lparr>ca_node_id = ''a'', ca_task_id = ''t'', ca_tokens_used = 5, ca_cip_parent_task_id = show_int (uint (9 :: u64)),
      ca_cip_session_key = ''s'', ca_nonce = replicate 32 CHR ''n'', ca_response_hash = replicate 64 CHR ''h'',
      ca_signature = ca_signature sample_award, ca_amount = 1, ca_querying_node_id = Some ''b''\<rparr>"
    by (simp add: sample_award_def n)
  from receipt_text_ambiguous [OF this _ sample_receipt] show ?thesis by auto
qed

text \<open>Consecutive pages of the ledger meet, modulo \<open>2 ^ 64\<close>; a huge page number wraps to the front.\<close>

lemma ledger_pages_adjacent:
  assumes "lp_page p = Some n" "1 \<le> n" "n + 1 \<noteq> 0"
  shows "snd (snd (ledger_window (p\<lparr>lp_page := Some (n + 1)\<rparr>))) = snd (snd (ledger_window p)) + of_nat (fst (snd (ledger_window p)))"
proof -
  have "1 \<le> n + 1" using assms(3) by (simp add: word_le_nat_alt Suc_leI unat_gt_0)
  then show ?thesis using assms(1,2) by (simp add: ledger_window_def max_def Let_def algebra_simps)
qed

lemma ledger_offset_wraps:
  "ledger_window \<lparr>lp_page = Some 184467440737095517, lp_per_page = Some 100\<rparr> = (184467440737095517, 100, 18446744073709551600)
   \<and> ledger_window \<lparr>lp_page = Some 184467440737095518, lp_per_page = Some 100\<rparr> = (184467440737095518, 100, 84)"
  by code_simp

end
