(* ===== verification/Seed.thy ===== *)
theory Seed
  imports Access
begin

text \<open>
  The seed side of federation, \<open>src/federation_handlers.rs\<close>: the snapshot for an authenticated
  replica, the registration of a replica with its credential, and its deregistration.

  \<open>cap_value\<close> gives the entries of the object that serde derives for a capability; the reader on
  the other side is the decoder \<open>E\<close> of the replica.
\<close>

section \<open>The replica credential\<close>

text \<open>
  The credential check that the snapshot and the deregistration share, up to the order of two
  tests and the wording of one message: the caller's id, or the refusal.
\<close>

definition replica_refused :: "string \<Rightarrow> response" where
  "replica_refused message = err_json 401 ''unauthorized'' message"

definition rotated_message :: string where
  "rotated_message = ''Replica token has been rotated; re-register to obtain a fresh token''"

definition inactive_message :: string where
  "inactive_message = ''Replica is not active; re-register to reactivate''"

definition snapshot_caller :: "RequestContext \<Rightarrow> headers \<Rightarrow> AppState \<Rightarrow> response + string" where
  "snapshot_caller X headers S =
     (case bearer_token headers of
        None \<Rightarrow> Inl (replica_refused ''Missing Authorization header'')
      | Some token \<Rightarrow>
          (case verify_replica_jwt (cx_jwt X) (cx_app_key X) (cx_now X) token of
             Inl TokenExpired \<Rightarrow>
               Inl (err_json 401 ''token_expired'' ''Replica JWT has expired; re-register via POST /v1/replicas/register'')
           | Inl TokenInvalid \<Rightarrow> Inl (replica_refused ''Invalid replica token'')
           | Inr claims \<Rightarrow>
               (case replica_token_hash (st_repo S) (rc_sub claims) of
                  None \<Rightarrow> Inl (replica_refused ''Replica not registered'')
                | Some stored_hash \<Rightarrow>
                    if \<not> replica_is_active (st_repo S) (rc_sub claims) then Inl (replica_refused inactive_message)
                    else if stored_hash \<noteq> sha256_hex (cx_crypto X) token then Inl (replica_refused rotated_message)
                    else Inr (rc_sub claims))))"

definition deregister_caller :: "RequestContext \<Rightarrow> headers \<Rightarrow> AppState \<Rightarrow> response + string" where
  "deregister_caller X headers S =
     (case bearer_token headers of
        None \<Rightarrow> Inl (replica_refused ''Missing Authorization header'')
      | Some token \<Rightarrow>
          (case verify_replica_jwt (cx_jwt X) (cx_app_key X) (cx_now X) token of
             Inl TokenExpired \<Rightarrow> Inl (err_json 401 ''token_expired'' ''Replica JWT has expired'')
           | Inl TokenInvalid \<Rightarrow> Inl (replica_refused ''Invalid replica token'')
           | Inr claims \<Rightarrow>
               if \<not> replica_is_active (st_repo S) (rc_sub claims) then Inl (replica_refused inactive_message)
               else if replica_token_hash (st_repo S) (rc_sub claims) \<noteq> Some (sha256_hex (cx_crypto X) token)
               then Inl (replica_refused rotated_message)
               else Inr (rc_sub claims)))"

section \<open>The snapshot\<close>

definition snapshot_node_json :: "Node \<Rightarrow> json" where
  "snapshot_node_json n =
     JObj [(''node_id'', JStr (n_node_id n)), (''endpoint'', JStr (n_endpoint n)), (''region'', JStr (n_region n)),
           (''available'', JBool (n_available n)), (''reputation_score'', JFloat (n_reputation_score n)), (''load'', JFloat (n_load n)),
           (''active_jobs'', JInt (uint (n_active_jobs n))), (''exposure_mode'', opt_string (n_exposure_mode n)),
           (''cip_policy'', unwrap_or JNull (n_cip_policy n)), (''pricing'', unwrap_or JNull (n_pricing n))]"

definition intent_row :: "NodeRecord \<Rightarrow> string \<Rightarrow> json" where
  "intent_row r intent =
     JObj [(''node_id'', JStr (record_id r)), (''intent'', JStr intent),
           (''supported_profiles'', JArr (map JStr (unwrap_or [] (map_of (r_capability_profiles r) intent))))]"

definition capability_row :: "(EffectiveCapability \<Rightarrow> (string, json) hashmap) \<Rightarrow> string \<Rightarrow> EffectiveCapability \<Rightarrow> json" where
  "capability_row cap_value node_id c = JObj (hm_insert ''node_id'' (JStr node_id) (cap_value c))"

definition capability_rows :: "(EffectiveCapability \<Rightarrow> (string, json) hashmap) \<Rightarrow> NodeRecord \<Rightarrow> json list" where
  "capability_rows cap_value r =
     (if r_capabilities r = [] then map (intent_row r) (r_intents r)
      else map (capability_row cap_value (record_id r)) (r_capabilities r))"

definition genesis_hash :: "crypto \<Rightarrow> EventRow list \<Rightarrow> json" where
  "genesis_hash C rows =
     (case rows of [] \<Rightarrow> JNull | e # _ \<Rightarrow> JStr (sha256_hex C (canonical_json C (e_payload e))))"

definition snapshot_body :: "RequestContext \<Rightarrow> (EffectiveCapability \<Rightarrow> (string, json) hashmap) \<Rightarrow> InMemoryRepo \<Rightarrow> json" where
  "snapshot_body X cap_value M =
     (let records = snapshot_records M;
          rows = events_since M 0 1000000
      in JObj [(''schema_version'', JStr ''v0.3.0''),
               (''snapshot_seq'', JInt (if rows = [] then 0 else e_seq (last rows))),
               (''snapshot_ts_ms'', JInt (cx_now_ms X)), (''genesis_hash'', genesis_hash (cx_crypto X) rows),
               (''nodes'', JArr (map (\<lambda>r. snapshot_node_json (r_node r)) records)),
               (''capabilities'', JArr (concat (map (capability_rows cap_value) records)))])"

definition snapshot ::
    "RequestContext \<Rightarrow> (EffectiveCapability \<Rightarrow> (string, json) hashmap) \<Rightarrow> headers \<Rightarrow> AppState \<Rightarrow> response" where
  "snapshot X cap_value headers S =
     (case snapshot_caller X headers S of
        Inl refusal_response \<Rightarrow> refusal_response
      | Inr _ \<Rightarrow> (200, snapshot_body X cap_value (st_repo S)))"

section \<open>Registering and deregistering a replica\<close>

record ReplicaRegisterRequest =
  rr_did :: string
  rr_endpoint :: string

text \<open>The first UUID is the new replica's id, the second the token's \<open>jti\<close>, the third the event's id.\<close>

definition replicas_register :: "RequestContext \<Rightarrow> ReplicaRegisterRequest \<Rightarrow> AppState \<Rightarrow> response \<times> AppState" where
  "replicas_register X req S =
     (if \<not> starts_with (rr_did req) ''did:web:'' then (reject ''validation_error'' ''did must be a did:web identifier'', S)
      else if \<not> (starts_with (rr_endpoint req) ''https://'' \<or> starts_with (rr_endpoint req) ''http://'')
      then (reject ''validation_error'' ''endpoint must be an http(s) URL'', S)
      else
        (let endpoint = trim_end_matches CHR ''/'' (rr_endpoint req);
             existing = replica_id_by_did (st_repo S) (rr_did req);
             replica_id = unwrap_or (cx_uuid X 0) existing;
             S1 = S\<lparr>st_repo := upsert_replica (cx_now_ms X) replica_id (rr_did req) endpoint ''low'' (st_repo S)\<rparr>
         in case issue_replica_jwt (cx_jwt X) (cx_app_key X) (cx_now X) (cx_uuid X 1) replica_id of
              None \<Rightarrow> (err_json 500 ''server_error'' ''Replica token signing is unavailable'', S1)
            | Some replica_token \<Rightarrow>
                (case set_replica_token_hash replica_id (sha256_hex (cx_crypto X) replica_token) (st_repo S1) of
                   (False, M2) \<Rightarrow> (err_json 500 ''server_error'' ''Replica token rotation failed'', S1\<lparr>st_repo := M2\<rparr>)
                 | (True, M2) \<Rightarrow>
                     (let S3 = emit_event X (cx_uuid X 2) ''REPLICA_REGISTERED'' replica_id
                                 (JObj [(''did'', JStr (rr_did req)), (''endpoint'', JStr endpoint), (''trust_tier'', JStr ''low'')])
                                 (S1\<lparr>st_repo := M2\<rparr>)
                      in ((200, JObj [(''replica_id'', JStr replica_id), (''replica_token'', JStr replica_token), (''since_seq'', JInt 0),
                             (''genesis_hash'', genesis_hash (cx_crypto X) (events_since (st_repo S3) 0 1)), (''trust_tier'', JStr ''low''),
                             (''did_acknowledged'', JBool True), (''is_new_registration'', JBool (existing = None)),
                             (''expires_at'', JStr (cx_rfc3339_in X (90 * 86400)))]), S3)))))"

definition replicas_deregister :: "RequestContext \<Rightarrow> headers \<Rightarrow> AppState \<Rightarrow> response \<times> AppState" where
  "replicas_deregister X headers S =
     (case deregister_caller X headers S of
        Inl refusal_response \<Rightarrow> (refusal_response, S)
      | Inr sub \<Rightarrow>
          (let did = (case find (\<lambda>row. fst row = sub) (all_replicas (st_repo S)) of Some row \<Rightarrow> fst (snd row) | None \<Rightarrow> [])
           in case st_signing_key S of
                None \<Rightarrow> (err_json 503 ''event_signing_unavailable'' ''Replica deregistration requires event signing'', S)
              | Some signing_key \<Rightarrow>
                  (case decommission_replica_with_event (cx_crypto X) (cx_uuid X 0) (cx_now_ms X) sub did signing_key (st_repo S) of
                     (False, M') \<Rightarrow>
                       (err_json 503 ''decommission_failed'' ''Replica deregistration was not committed'', S\<lparr>st_repo := M'\<rparr>)
                   | (True, M') \<Rightarrow> ((200, JObj [(''status'', JStr ''decommissioned'')]), S\<lparr>st_repo := M'\<rparr>))))"

section \<open>The life of a replica credential\<close>

lemma emit_event_replicas [simp]:
  "m_replicas (st_repo (emit_event X eid ty i p S)) = m_replicas (st_repo S)"
  "m_replica_token_hashes (st_repo (emit_event X eid ty i p S)) = m_replica_token_hashes (st_repo S)"
  "m_decommissioned_replicas (st_repo (emit_event X eid ty i p S)) = m_decommissioned_replicas (st_repo S)"
  "m_records (st_repo (emit_event X eid ty i p S)) = m_records (st_repo S)"
  by (simp_all add: emit_event_def append_signed_event_def Let_def split: option.split)

lemma register_success:
  assumes "replicas_register X req S = ((200, body), S')" "get_str body ''replica_token'' = Some tok"
  obtains rid where "get_str body ''replica_id'' = Some rid"
    "issue_replica_jwt (cx_jwt X) (cx_app_key X) (cx_now X) (cx_uuid X 1) rid = Some tok"
    "rid = unwrap_or (cx_uuid X 0) (replica_id_by_did (st_repo S) (rr_did req))"
    "replica_is_active (st_repo S') rid" "replica_token_hash (st_repo S') rid = Some (sha256_hex (cx_crypto X) tok)"
    "replica_id_by_did (st_repo S') (rr_did req) = Some rid"
proof -
  let ?rid = "unwrap_or (cx_uuid X 0) (replica_id_by_did (st_repo S) (rr_did req))"
  let ?M1 = "upsert_replica (cx_now_ms X) ?rid (rr_did req) (trim_end_matches CHR ''/'' (rr_endpoint req)) ''low'' (st_repo S)"
  have ok: "starts_with (rr_did req) ''did:web:''" "starts_with (rr_endpoint req) ''https://'' \<or> starts_with (rr_endpoint req) ''http://''"
    using assms(1) by (auto simp: replicas_register_def reject_def err_json_def split: if_splits)
  obtain t where t: "issue_replica_jwt (cx_jwt X) (cx_app_key X) (cx_now X) (cx_uuid X 1) ?rid = Some t"
    using assms(1) ok by (cases "issue_replica_jwt (cx_jwt X) (cx_app_key X) (cx_now X) (cx_uuid X 1) ?rid")
      (auto simp: replicas_register_def err_json_def Let_def)
  have set: "set_replica_token_hash ?rid h ?M1 = (True, ?M1\<lparr>m_replica_token_hashes := hm_insert ?rid h (m_replica_token_hashes ?M1)\<rparr>)" for h
    by (simp add: set_replica_token_hash_def upsert_known)
  have "t = tok" and "get_str body ''replica_id'' = Some ?rid"
    and "m_replicas (st_repo S') = m_replicas ?M1" and "m_decommissioned_replicas (st_repo S') = m_decommissioned_replicas ?M1"
    and "map_of (m_replica_token_hashes (st_repo S')) ?rid = Some (sha256_hex (cx_crypto X) t)"
    using assms ok t by (auto simp: replicas_register_def Let_def set get_str_def)
  moreover from this have "replica_id_by_did (st_repo S') (rr_did req) = Some ?rid"
    by (simp add: replica_id_by_did_def upsert_row)
  moreover from calculation have "replica_is_active (st_repo S') ?rid"
    using upsert_known [of "cx_now_ms X" ?rid "rr_did req" "trim_end_matches CHR ''/'' (rr_endpoint req)" "''low''" "st_repo S"] upsert_active
    by (simp add: replica_is_active_def replica_known_def)
  ultimately show thesis using that t by (simp add: replica_token_hash_def)
qed

lemma snapshot_caller_accepts:
  assumes "bearer_token h = Some tok" "verify_replica_jwt (cx_jwt X) (cx_app_key X) (cx_now X) tok = Inr c"
    "replica_is_active (st_repo S) (rc_sub c)" "replica_token_hash (st_repo S) (rc_sub c) = Some (sha256_hex (cx_crypto X) tok)"
  shows "snapshot_caller X h S = Inr (rc_sub c)" "deregister_caller X h S = Inr (rc_sub c)"
  using assms by (simp_all add: snapshot_caller_def deregister_caller_def)

lemma stale_token_refused:
  assumes "bearer_token h = Some tok" "verify_replica_jwt (cx_jwt X) (cx_app_key X) (cx_now X) tok = Inr c"
    "replica_token_hash (st_repo S) (rc_sub c) \<noteq> Some (sha256_hex (cx_crypto X) tok)"
  shows "fst (snapshot X cv h S) = 401"
  using assms by (auto simp: snapshot_def snapshot_caller_def replica_refused_def err_json_def split: option.split)

text \<open>
  C17. The life of a replica credential: the token handed out at registration opens the snapshot for
  ninety days and no longer; a second registration under the same DID keeps the replica's id and
  revokes the first token; deregistration with the current token revokes it.
\<close>

theorem replica_credential_lifecycle:
  assumes J: "jwt_contract (cx_jwt X)" and no_wrap: "uint (cx_now X) + 7776000 < 2 ^ 64"
    and reg: "replicas_register X req S = ((200, body), S')" "get_str body ''replica_token'' = Some tok"
    and h: "bearer_token h = Some tok"
    and later: "cx_jwt Y = cx_jwt X" "cx_app_key Y = cx_app_key X" "cx_crypto Y = cx_crypto X"
  shows "(uint (cx_now Y) \<le> uint (cx_now X) + 7776000 \<longrightarrow> fst (snapshot Y cv h S') = 200)
    \<and> (uint (cx_now X) + 7776000 < uint (cx_now Y) \<longrightarrow> fst (snapshot Y cv h S') = 401)
    \<and> (\<forall>S'' resp. replicas_deregister Y h S' = (resp, S'') \<and> fst resp = 200 \<longrightarrow> fst (snapshot Y cv h S'') = 401)
    \<and> (\<forall>req2 body2 tok2 S2. replicas_register Y req2 S' = ((200, body2), S2) \<and> rr_did req2 = rr_did req
         \<and> get_str body2 ''replica_token'' = Some tok2 \<and> sha256_hex (cx_crypto X) tok2 \<noteq> sha256_hex (cx_crypto X) tok \<longrightarrow>
         get_str body2 ''replica_id'' = get_str body ''replica_id'' \<and> fst (snapshot Y cv h S2) = 401)"
proof -
  obtain rid where rid: "issue_replica_jwt (cx_jwt X) (cx_app_key X) (cx_now X) (cx_uuid X 1) rid = Some tok"
    "replica_is_active (st_repo S') rid" "replica_token_hash (st_repo S') rid = Some (sha256_hex (cx_crypto X) tok)"
    "get_str body ''replica_id'' = Some rid" "replica_id_by_did (st_repo S') (rr_did req) = Some rid"
    using register_success [OF reg] by metis
  have again: "get_str body2 ''replica_id'' = Some rid \<and> replica_token_hash (st_repo S2) rid = Some (sha256_hex (cx_crypto X) tok2)"
    if "replicas_register Y req2 S' = ((200, body2), S2)" "rr_did req2 = rr_did req" "get_str body2 ''replica_token'' = Some tok2" for req2 body2 tok2 S2
    using register_success [OF that(1,3)] that(2) rid(5) later(3) by (metis unwrap_or_simps(2))
  obtain c where c: "rc_sub c = rid" "verify_replica_jwt (cx_jwt Y) (cx_app_key Y) (cx_now Y) tok =
      (if uint (cx_now X) + 7776000 < uint (cx_now Y) then Inl TokenExpired else Inr c)"
    using issued_replica_token(1) [OF J rid(1) no_wrap] later by metis
  show ?thesis
  proof (cases "uint (cx_now X) + 7776000 < uint (cx_now Y)")
    case True
    then have "verify_replica_jwt (cx_jwt Y) (cx_app_key Y) (cx_now Y) tok = Inl TokenExpired" using c(2) by simp
    then have "fst (snapshot Y cv h T) = 401" and "fst (fst (replicas_deregister Y h T)) = 401" for T
      using h by (simp_all add: snapshot_def snapshot_caller_def replicas_deregister_def deregister_caller_def err_json_def)
    then show ?thesis using True again rid(4) by fastforce
  next
    case False
    then have v: "verify_replica_jwt (cx_jwt Y) (cx_app_key Y) (cx_now Y) tok = Inr c" using c(2) by simp
    have acc: "snapshot_caller Y h S' = Inr rid" "deregister_caller Y h S' = Inr rid"
      using snapshot_caller_accepts [OF h v, of S'] rid c(1) later(3) by simp_all
    have dereg: "fst (snapshot Y cv h S'') = 401" if d: "replicas_deregister Y h S' = (resp, S'')" "fst resp = 200" for resp S''
    proof -
      have "replica_token_hash (st_repo S'') rid = None"
        using d acc(2) by (auto simp: replicas_deregister_def decommission_replica_with_event_def decommission_replica_def
            append_signed_event_def replica_token_hash_def err_json_def Let_def split: option.splits if_splits prod.splits)
      then show ?thesis using stale_token_refused [OF h v] c(1) by simp
    qed
    have rotated: "fst (snapshot Y cv h S2) = 401"
      if "replica_token_hash (st_repo S2) rid = Some (sha256_hex (cx_crypto X) tok2)" "sha256_hex (cx_crypto X) tok2 \<noteq> sha256_hex (cx_crypto X) tok" for S2 tok2
      using stale_token_refused [OF h v, of S2] c(1) that later(3) by simp
    have "fst (snapshot Y cv h S') = 200" using acc(1) by (simp add: snapshot_def)
    then show ?thesis
      using False by (intro conjI impI allI) (auto dest: dereg dest!: again intro: rotated simp: rid(4))
  qed
qed

definition replica_context :: RequestContext where
  "replica_context = demo_context\<lparr>cx_now := 1000, cx_uuid := (\<lambda>n. if n = 0 then ''r'' else ''u'')\<rparr>"

theorem replica_credential_lifecycle_witness:
  "let req = \<lparr>rr_did = ''did:web:x'', rr_endpoint = ''https://x''\<rparr>;
       S' = snd (replicas_register replica_context req (demo_state []))
   in fst (snapshot (replica_context\<lparr>cx_now := 2000\<rparr>) (\<lambda>_. []) (demo_bearer ''replica'') S') = 200
      \<and> fst (snapshot (replica_context\<lparr>cx_now := 8000000\<rparr>) (\<lambda>_. []) (demo_bearer ''replica'') S') = 401"
proof -
  let ?req = "\<lparr>rr_did = ''did:web:x'', rr_endpoint = ''https://x''\<rparr>"
  let ?r = "replicas_register replica_context ?req (demo_state [])"
  have k: "jwt_secret (Some ''key'') = ''key''" by code_simp
  have jwt: "issue_replica_jwt demo_jwt (Some ''key'') 1000 ''u'' ''r'' = Some ''replica''"
    by (simp add: issue_replica_jwt_def k demo_jwt_def demo_node_payload_def demo_replica_payload_def
        REPLICA_TTL_SECONDS_def node_claims_json_def replica_claims_json_def)
  have did: "replica_id_by_did (st_repo (demo_state [])) ''did:web:x'' = None"
    by (simp add: replica_id_by_did_def demo_state_def new_with_token_verification_def new_repo_def)
  have pre: "starts_with ''did:web:x'' ''did:web:''" "starts_with ''https://x'' ''https://''" by (simp_all add: starts_with_def)
  have X: "cx_jwt replica_context = demo_jwt" "cx_app_key replica_context = Some ''key''" "cx_now replica_context = 1000"
    "cx_uuid replica_context 0 = ''r''" "cx_uuid replica_context 1 = ''u''"
    by (simp_all add: replica_context_def demo_context_def)
  have reg: "fst (fst ?r) = 200" "get_str (snd (fst ?r)) ''replica_token'' = Some ''replica''"
    using jwt did pre X
    by (simp_all add: replicas_register_def Let_def set_replica_token_hash_def upsert_known get_str_def)
  have eq: "?r = ((200, snd (fst ?r)), snd ?r)" using reg(1) by (simp add: prod_eq_iff)
  have J: "jwt_contract (cx_jwt replica_context)" using demo_jwt_contract X by simp
  have w: "uint (cx_now replica_context) + 7776000 < 2 ^ 64" by (simp add: X)
  show ?thesis
    using replica_credential_lifecycle [OF J w eq reg(2) bearer_token_demo, of "replica_context\<lparr>cx_now := 2000\<rparr>" "\<lambda>_. []"]
      replica_credential_lifecycle [OF J w eq reg(2) bearer_token_demo, of "replica_context\<lparr>cx_now := 8000000\<rparr>" "\<lambda>_. []"] X
    by (simp add: Let_def)
qed

end
