(* ===== verification/Policy_Manifest.thy ===== *)
theory Policy_Manifest
  imports Federation
begin

text \<open>
  Public node-policy manifests, \<open>src/policy_manifest.rs\<close>: the shape check, the canonical
  payload and the verification of a detached Ed25519 signature with its expiry and revocation.

  The record \<open>manifest_env\<close> holds the third-party code the module calls: standard base64 and
  unpadded base64url decoding (\<open>ct-codecs\<close>), RFC 3339 timestamps read as instants (\<open>chrono\<close>),
  and the current instant.
\<close>

record manifest_env =
  me_b64 :: "string \<Rightarrow> string option"
  me_b64url :: "string \<Rightarrow> string option"
  me_rfc3339 :: "string \<Rightarrow> int option"
  me_now :: int

record Verification =
  v_status :: string
  v_evidence :: string
  v_algorithm :: "string option"
  v_key_id :: "string option"
  v_signed_at :: "string option"
  v_expires_at :: "string option"
  v_canonical_sha256 :: string
  v_public_key_sha256 :: "string option"
  v_manifest_identity_level :: string
  v_policy_key_fingerprint :: "string option"
  v_revoked_at :: "string option"
  v_rotation_epoch :: "u32 option"
  v_revocation_reason_class :: "string option"
  v_error :: "string option"

definition accepted_manifest :: "Verification \<Rightarrow> bool" where
  "accepted_manifest v \<longleftrightarrow> v_status v = ''self_attested'' \<or> v_status v = ''signed_valid''"

section \<open>The canonical payload\<close>

fun sort_recursive :: "json \<Rightarrow> json" where
  "sort_recursive (JObj kvs) = JObj (sort_key fst (map (\<lambda>(k, v). (k, sort_recursive v)) kvs))"
| "sort_recursive (JArr vs) = JArr (map sort_recursive vs)"
| "sort_recursive other = other"

text \<open>The manifest without the detached signature, or without a \<open>signature\<close> that is no object.\<close>

definition unsigned_manifest :: "json \<Rightarrow> json" where
  "unsigned_manifest manifest =
     (case manifest of
        JObj kvs \<Rightarrow>
          (case map_of kvs ''signature'' of
             Some (JObj signature) \<Rightarrow> JObj (hm_insert ''signature'' (JObj (hm_remove ''signature'' signature)) kvs)
           | _ \<Rightarrow> JObj (hm_remove ''signature'' kvs))
      | other \<Rightarrow> other)"

definition canonical_payload :: "crypto \<Rightarrow> json \<Rightarrow> string" where
  "canonical_payload C manifest = json_text C (sort_recursive (unsigned_manifest manifest))"

section \<open>Verification\<close>

definition string_field :: "(string, json) hashmap \<Rightarrow> string \<Rightarrow> string option" where
  "string_field m field = Option.bind (map_of m field) as_str"

definition decode_base64 :: "manifest_env \<Rightarrow> string option \<Rightarrow> string option" where
  "decode_base64 E value =
     Option.bind value (\<lambda>v. case me_b64 E (trim v) of Some b \<Rightarrow> Some b | None \<Rightarrow> me_b64url E (trim v))"

definition timestamp_is_past :: "manifest_env \<Rightarrow> string option \<Rightarrow> bool option" where
  "timestamp_is_past E value = map_option (\<lambda>t. t < me_now E) (Option.bind value (me_rfc3339 E))"

definition reason_char :: "char \<Rightarrow> bool" where
  "reason_char c \<longleftrightarrow> is_ascii_lowercase c \<or> is_ascii_digit c \<or> c = CHR ''_'' \<or> c = CHR ''-''"

definition valid_reason_class :: "string \<Rightarrow> bool" where
  "valid_reason_class value \<longleftrightarrow> value \<noteq> [] \<and> length value \<le> 64 \<and> list_all reason_char value"

definition invalid_manifest :: "Verification \<Rightarrow> string \<Rightarrow> Verification" where
  "invalid_manifest v message = v\<lparr>v_status := ''signed_invalid'', v_evidence := ''signed_invalid'', v_error := Some message\<rparr>"

definition base_verification :: "crypto \<Rightarrow> string \<Rightarrow> Verification" where
  "base_verification C canonical =
     \<lparr>v_status = ''self_attested'', v_evidence = ''self_attested'', v_algorithm = None, v_key_id = None, v_signed_at = None,
      v_expires_at = None, v_canonical_sha256 = sha256_hex C canonical, v_public_key_sha256 = None,
      v_manifest_identity_level = ''self_attested'', v_policy_key_fingerprint = None, v_revoked_at = None,
      v_rotation_epoch = None, v_revocation_reason_class = None, v_error = None\<rparr>"

definition with_signature_metadata :: "Verification \<Rightarrow> (string, json) hashmap \<Rightarrow> Verification" where
  "with_signature_metadata v signature =
     v\<lparr>v_algorithm := string_field signature ''algorithm'', v_key_id := string_field signature ''key_id'',
       v_signed_at := string_field signature ''signed_at'', v_expires_at := string_field signature ''expires_at'',
       v_revoked_at := string_field signature ''revoked_at'',
       v_rotation_epoch := Option.bind (Option.bind (map_of signature ''rotation_epoch'') as_u64)
          (\<lambda>n. if n < 2 ^ 32 then Some (of_int n) else None),
       v_revocation_reason_class := Option.bind (string_field signature ''revocation_reason_class'')
          (\<lambda>r. if valid_reason_class r then Some r else None)\<rparr>"

definition verify_detached ::
    "crypto \<Rightarrow> manifest_env \<Rightarrow> Verification \<Rightarrow> (string, json) hashmap \<Rightarrow> string \<Rightarrow> Verification + Verification" where
  "verify_detached C E v signature canonical =
     (if v_algorithm v \<noteq> Some ''Ed25519'' then Inl (invalid_manifest v ''unsupported signature algorithm'')
      else case decode_base64 E (string_field signature ''public_key'') of
        None \<Rightarrow> Inl (invalid_manifest v ''invalid Ed25519 public key'')
      | Some public_key \<Rightarrow>
          (case decode_base64 E (string_field signature ''signature'') of
             None \<Rightarrow> Inl (invalid_manifest v ''invalid Ed25519 signature'')
           | Some detached \<Rightarrow>
               if length public_key \<noteq> 32 \<or> length detached \<noteq> 64
               then Inl (invalid_manifest v ''invalid Ed25519 signature material'')
               else
                 (let sha = sha256_hex C public_key;
                      v' = v\<lparr>v_policy_key_fingerprint := Some (take 12 sha), v_public_key_sha256 := Some sha\<rparr>
                  in if \<not> pk_from_slice C public_key then Inl (invalid_manifest v' ''invalid Ed25519 public key'')
                     else if \<not> sig_from_slice C detached then Inl (invalid_manifest v' ''invalid Ed25519 signature'')
                     else if \<not> ed_verify C public_key canonical detached
                     then Inl (invalid_manifest v' ''signature verification failed'')
                     else Inr v')))"

definition apply_signature_time :: "manifest_env \<Rightarrow> Verification \<Rightarrow> Verification" where
  "apply_signature_time E v =
     (if timestamp_is_past E (v_revoked_at v) = Some True
      then v\<lparr>v_status := ''signed_revoked'', v_evidence := ''signed_revoked'', v_manifest_identity_level := ''revoked'',
             v_error := Some ''policy key revoked''\<rparr>
      else if v_expires_at v \<noteq> None \<and> timestamp_is_past E (v_expires_at v) \<noteq> Some False
      then (let status = (if timestamp_is_past E (v_expires_at v) = Some True then ''signed_expired'' else ''signed_invalid'')
            in v\<lparr>v_status := status, v_evidence := status, v_error := Some ''signature expiry is invalid or elapsed''\<rparr>)
      else v\<lparr>v_status := ''signed_valid'', v_evidence := ''signed_verified'', v_manifest_identity_level := ''signed_valid''\<rparr>)"

definition verify_manifest :: "crypto \<Rightarrow> manifest_env \<Rightarrow> json \<Rightarrow> Verification" where
  "verify_manifest C E manifest =
     (let canonical = canonical_payload C manifest;
          base = base_verification C canonical
      in case json_get manifest ''signature'' of
           None \<Rightarrow> base
         | Some (JObj signature) \<Rightarrow>
             (case verify_detached C E (with_signature_metadata base signature) signature canonical of
                Inl v \<Rightarrow> v
              | Inr v \<Rightarrow> apply_signature_time E v)
         | Some _ \<Rightarrow> invalid_manifest base ''signature block must be an object'')"

section \<open>The shape check\<close>

definition invalid_short_text :: "json option \<Rightarrow> bool" where
  "invalid_short_text value \<longleftrightarrow>
     (case value of None \<Rightarrow> False | Some v \<Rightarrow> (case as_str v of None \<Rightarrow> True | Some text \<Rightarrow> length text > 64))"

definition invalid_list :: "json option \<Rightarrow> bool" where
  "invalid_list value \<longleftrightarrow>
     (case value of None \<Rightarrow> False | Some v \<Rightarrow> (case as_array v of None \<Rightarrow> True | Some items \<Rightarrow> length items > 100))"

definition invalid_choice :: "string list \<Rightarrow> json option \<Rightarrow> bool" where
  "invalid_choice allowed value \<longleftrightarrow>
     (case value of None \<Rightarrow> False | Some v \<Rightarrow> (case as_str v of None \<Rightarrow> True | Some s \<Rightarrow> s \<notin> set allowed))"

definition retention_field :: "json \<Rightarrow> string \<Rightarrow> json option" where
  "retention_field manifest field = Option.bind (json_get manifest ''retention'') (\<lambda>r. json_get r field)"

definition validate_shape :: "json \<Rightarrow> string + unit" where
  "validate_shape manifest =
     (case as_object manifest of
        None \<Rightarrow> Inl ''policy_manifest must be an object''
      | Some object \<Rightarrow>
          if invalid_short_text (map_of object ''version'') \<or> invalid_short_text (map_of object ''jurisdiction'')
          then Inl ''policy_manifest contains an invalid text field''
          else if invalid_choice [''none'', ''opt_in'', ''provider_defined''] (map_of object ''training_use'')
          then Inl ''policy_manifest training_use is invalid''
          else if invalid_choice [''none'', ''transient'', ''provider_defined''] (retention_field manifest ''task_payload'')
          then Inl ''policy_manifest retention.task_payload is invalid''
          else if (case Option.bind (retention_field manifest ''logs_days'') as_u64 of None \<Rightarrow> False | Some days \<Rightarrow> days > 3650)
          then Inl ''policy_manifest retention.logs_days is invalid''
          else if invalid_list (map_of object ''subprocessors'') \<or> invalid_list (map_of object ''unsupported_intents'')
          then Inl ''policy_manifest list field is invalid''
          else Inr ())"

section \<open>What an accepted manifest proves\<close>

text \<open>The detached signature of a manifest checks against its own key and canonical payload.\<close>

definition signature_checks :: "crypto \<Rightarrow> manifest_env \<Rightarrow> json \<Rightarrow> (string, json) hashmap \<Rightarrow> bool" where
  "signature_checks C E manifest signature \<longleftrightarrow>
     string_field signature ''algorithm'' = Some ''Ed25519''
     \<and> (\<exists>p s. decode_base64 E (string_field signature ''public_key'') = Some p \<and> length p = 32
          \<and> decode_base64 E (string_field signature ''signature'') = Some s \<and> length s = 64
          \<and> pk_from_slice C p \<and> sig_from_slice C s \<and> ed_verify C p (canonical_payload C manifest) s)"

lemma invalid_manifest_status [simp]: "v_status (invalid_manifest v m) = ''signed_invalid''"
  by (simp add: invalid_manifest_def)

lemma verify_detached_Inl: "verify_detached C E v signature c = Inl v' \<Longrightarrow> v_status v' = ''signed_invalid''"
  by (auto simp: verify_detached_def Let_def split: if_splits option.splits)

lemma verify_detached_Inr:
  assumes "verify_detached C E (with_signature_metadata v signature) signature (canonical_payload C m) = Inr v'"
  shows "signature_checks C E m signature" and "v_revoked_at v' = string_field signature ''revoked_at''"
    and "v_expires_at v' = string_field signature ''expires_at''"
  using assms
  by (auto simp: verify_detached_def signature_checks_def with_signature_metadata_def Let_def split: if_splits option.splits)

lemma verify_detached_accepts:
  "signature_checks C E m signature \<Longrightarrow>
     \<exists>v'. verify_detached C E (with_signature_metadata v signature) signature (canonical_payload C m) = Inr v'"
  by (auto simp: verify_detached_def signature_checks_def with_signature_metadata_def Let_def)

lemma apply_signature_time_accepted:
  "accepted_manifest (apply_signature_time E v) \<longleftrightarrow>
     timestamp_is_past E (v_revoked_at v) \<noteq> Some True
     \<and> (v_expires_at v = None \<or> timestamp_is_past E (v_expires_at v) = Some False)"
  by (auto simp: apply_signature_time_def accepted_manifest_def Let_def)


text \<open>The signed bytes do not depend on the detached signature: it can be filled in after signing.\<close>

lemma insert_insert: "hm_insert k v (hm_insert k w m) = hm_insert k v m"
  by (simp add: hm_insert_def)

lemma remove_insert: "hm_remove k (hm_insert k v m) = hm_remove k m"
  by (induction m) (auto simp: hm_insert_def hm_remove_def)

lemma canonical_payload_ignores_signature:
  assumes "map_of kvs ''signature'' = Some (JObj sg)"
  shows "canonical_payload C (JObj (hm_insert ''signature'' (JObj (hm_insert ''signature'' s sg)) kvs)) = canonical_payload C (JObj kvs)"
  using assms by (simp add: canonical_payload_def unsigned_manifest_def insert_insert remove_insert)

text \<open>A revocation time that does not parse does not revoke, unlike an expiry that does not parse.\<close>

lemma unparseable_revocation_ignored:
  assumes "signature_checks C E m sg" and "json_get m ''signature'' = Some (JObj sg)"
    and "string_field sg ''revoked_at'' = Some r" and "me_rfc3339 E r = None" and "string_field sg ''expires_at'' = None"
  shows "accepted_manifest (verify_manifest C E m)"
proof -
  have past: "timestamp_is_past E (string_field sg ''revoked_at'') \<noteq> Some True" using assms(3,4) by (simp add: timestamp_is_past_def)
  let ?v = "with_signature_metadata (base_verification C (canonical_payload C m)) sg"
  obtain v' where v': "verify_detached C E ?v sg (canonical_payload C m) = Inr v'"
    using verify_detached_accepts [OF assms(1)] by blast
  then have "accepted_manifest (apply_signature_time E v')"
    using verify_detached_Inr [OF v'] past assms(5) by (simp add: apply_signature_time_accepted)
  then show ?thesis using v' assms(2) by (simp add: verify_manifest_def Let_def)
qed

text \<open>The bound on the log retention is only enforced for non-negative integers.\<close>

lemma logs_days_type_unchecked:
  "validate_shape (JObj [(''retention'', JObj [(''logs_days'', JStr ''forever'')])]) = Inr ()"
  "validate_shape (JObj [(''retention'', JObj [(''logs_days'', JFloat 1000000)])]) = Inr ()"
  by (simp_all add: validate_shape_def invalid_short_text_def invalid_choice_def invalid_list_def retention_field_def)

end
