(* ===== verification/Delegation.thy ===== *)
theory Delegation
  imports Federation
begin

text \<open>
  Operator signatures, \<open>src/delegation.rs\<close>: the delegation of a node to an operator, the
  signed rename and the signed self-service requests.

  \<open>b64\<close> is the strict base64 decoder of the crate \<open>ct-codecs\<close>; Ed25519 and the JSON text of
  a string come with the parameter \<open>C\<close>. Times are seconds since the epoch.
\<close>

record OperatorDelegation =
  dg_node_id :: string
  dg_operator_pub :: string
  dg_not_after :: u64
  dg_sig :: string

definition canonical_bytes :: "crypto \<Rightarrow> string \<Rightarrow> string \<Rightarrow> u64 \<Rightarrow> string" where
  "canonical_bytes C node_id operator_pub not_after =
     ''{\"node_id\":'' @ json_text C (JStr node_id) @ '',\"not_after\":'' @ show_int (uint not_after)
     @ '',\"operator_pub\":'' @ json_text C (JStr operator_pub) @ ''}''"

text \<open>Decoding the key and the signature, with their sizes, and the Ed25519 check.\<close>

definition check_detached ::
    "crypto \<Rightarrow> (string \<Rightarrow> string option) \<Rightarrow> string \<Rightarrow> string \<Rightarrow> string \<Rightarrow> bool \<times> string" where
  "check_detached C b64 operator_pub sig msg =
     (case b64 operator_pub of
        None \<Rightarrow> (False, ''malformed'')
      | Some pub_raw \<Rightarrow>
          if length pub_raw \<noteq> 32 then (False, ''malformed'')
          else case b64 sig of
            None \<Rightarrow> (False, ''malformed'')
          | Some sig_raw \<Rightarrow>
              if length sig_raw \<noteq> 64 then (False, ''malformed'')
              else if \<not> pk_from_slice C pub_raw then (False, ''malformed'')
              else if \<not> sig_from_slice C sig_raw then (False, ''malformed'')
              else if ed_verify C pub_raw msg sig_raw then (True, ''ok'') else (False, ''bad_signature''))"

definition verify ::
    "crypto \<Rightarrow> (string \<Rightarrow> string option) \<Rightarrow> OperatorDelegation \<Rightarrow> string \<Rightarrow> string list \<Rightarrow> string list \<Rightarrow> u64
       \<Rightarrow> bool \<times> string" where
  "verify C b64 token claimed_node_id trusted_operator_pubs revoked_node_ids now =
     (if dg_operator_pub token \<notin> set trusted_operator_pubs then (False, ''untrusted_operator'')
      else if dg_node_id token \<noteq> claimed_node_id then (False, ''node_id_mismatch'')
      else if dg_node_id token \<in> set revoked_node_ids then (False, ''revoked'')
      else if now \<ge> dg_not_after token then (False, ''expired'')
      else check_detached C b64 (dg_operator_pub token) (dg_sig token)
             (canonical_bytes C (dg_node_id token) (dg_operator_pub token) (dg_not_after token)))"

definition evaluate_delegation ::
    "crypto \<Rightarrow> (string \<Rightarrow> string option) \<Rightarrow> OperatorDelegation option \<Rightarrow> string \<Rightarrow> u64
       \<Rightarrow> string option \<times> bool \<times> string option" where
  "evaluate_delegation C b64 delegation claimed_node_id now =
     (case delegation of
        None \<Rightarrow> (None, False, None)
      | Some del \<Rightarrow>
          if fst (verify C b64 del claimed_node_id [dg_operator_pub del] [] now)
          then (Some (dg_operator_pub del), True, Some ''did_key'')
          else (None, False, None))"

definition canonical_rename_bytes :: "crypto \<Rightarrow> string \<Rightarrow> string \<Rightarrow> i64 \<Rightarrow> string" where
  "canonical_rename_bytes C display_name operator_pub ts =
     ''{\"display_name\":'' @ json_text C (JStr display_name) @ '',\"operator_pub\":'' @ json_text C (JStr operator_pub)
     @ '',\"ts\":'' @ show_int ts @ ''}''"

definition verify_rename ::
    "crypto \<Rightarrow> (string \<Rightarrow> string option) \<Rightarrow> string \<Rightarrow> string \<Rightarrow> i64 \<Rightarrow> string \<Rightarrow> bool \<times> string" where
  "verify_rename C b64 operator_pub display_name ts sig =
     check_detached C b64 operator_pub sig (canonical_rename_bytes C display_name operator_pub ts)"

text \<open>A \<open>BTreeMap\<close> serialises its entries in key order.\<close>

definition canonical_self_service_bytes :: "crypto \<Rightarrow> string \<Rightarrow> (string, json) hashmap \<Rightarrow> string" where
  "canonical_self_service_bytes C action entries =
     (let payload = hm_insert ''action'' (JStr action)
                      (hm_remove ''_operator'' (hm_remove ''new_key_sig'' (hm_remove ''sig'' entries)))
      in ''iicp:operator:self-service:v1'' @ [CHR 10] @ json_text C (JObj (sort_key fst payload)))"

definition verify_self_service ::
    "crypto \<Rightarrow> (string \<Rightarrow> string option) \<Rightarrow> string \<Rightarrow> string \<Rightarrow> string \<Rightarrow> (string, json) hashmap \<Rightarrow> bool \<times> string" where
  "verify_self_service C b64 operator_pub signature action entries =
     check_detached C b64 operator_pub signature (canonical_self_service_bytes C action entries)"

section \<open>What a signature authorises\<close>

lemma check_detached_ok:
  "fst (check_detached C b64 pub sig msg) \<longleftrightarrow>
     (\<exists>p s. b64 pub = Some p \<and> length p = 32 \<and> b64 sig = Some s \<and> length s = 64
        \<and> pk_from_slice C p \<and> sig_from_slice C s \<and> ed_verify C p msg s)"
  by (auto simp: check_detached_def split: option.split)

lemma check_detached_reason:
  "snd (check_detached C b64 pub sig msg) \<in> {''ok'', ''malformed'', ''bad_signature''}
   \<and> (snd (check_detached C b64 pub sig msg) = ''ok'' \<longleftrightarrow> fst (check_detached C b64 pub sig msg))"
  by (auto simp: check_detached_def split: option.split)

text \<open>
  A node is bound to an operator at registration exactly when the operator's own key signed
  the binding of this node id with an expiry that lies in the future; in every other case,
  expired, copied from another node, malformed or forged, the node stays unbound and
  unverified.
\<close>

theorem delegation_binds_signed_node:
  "(evaluate_delegation C b64 delegation claimed now = (Some op, True, Some ''did_key'') \<longleftrightarrow>
     (\<exists>del p s. delegation = Some del \<and> dg_operator_pub del = op \<and> dg_node_id del = claimed \<and> now < dg_not_after del
        \<and> b64 op = Some p \<and> length p = 32 \<and> b64 (dg_sig del) = Some s \<and> length s = 64
        \<and> pk_from_slice C p \<and> sig_from_slice C s \<and> ed_verify C p (canonical_bytes C claimed op (dg_not_after del)) s))
   \<and> (evaluate_delegation C b64 delegation claimed now = (None, False, None)
      \<or> (\<exists>op. evaluate_delegation C b64 delegation claimed now = (Some op, True, Some ''did_key'')))"
  by (auto simp: evaluate_delegation_def verify_def check_detached_ok not_le split: option.splits if_splits)

text \<open>The JSON text of a string is self-delimiting: it ends where its closing quote is.\<close>

definition json_strings_delimited :: "crypto \<Rightarrow> bool" where
  "json_strings_delimited C \<longleftrightarrow>
     (\<forall>s s' r r'. json_text C (JStr s) @ r = json_text C (JStr s') @ r' \<longrightarrow> s = s' \<and> r = r')"

lemma delimitedD:
  "json_strings_delimited C \<Longrightarrow> json_text C (JStr s) @ r = json_text C (JStr s') @ r' \<Longrightarrow> s = s' \<and> r = r'"
  unfolding json_strings_delimited_def by blast

lemma show_int_no_comma: "CHR '','' \<notin> set (show_int i)"
  using show_int_chars by (fastforce simp: str_defs)

text \<open>
  C29. The three kinds of operator signature cannot be confused or stretched: the bytes signed for a
  delegation determine the node, the expiry and the operator, those of a rename the name, the
  operator and the time, and no delegation, rename or self-service request has the same bytes
  as one of another kind, so no signature can be replayed for a different purpose.
\<close>

theorem signed_bytes_unambiguous:
  assumes "json_strings_delimited C"
  shows "(canonical_bytes C n op t = canonical_bytes C n' op' t' \<longleftrightarrow> n = n' \<and> op = op' \<and> t = t')
    \<and> (canonical_rename_bytes C d op ts = canonical_rename_bytes C d' op' ts' \<longleftrightarrow> d = d' \<and> op = op' \<and> ts = ts')
    \<and> canonical_bytes C n op t \<noteq> canonical_rename_bytes C d' op' ts'
    \<and> canonical_bytes C n op t \<noteq> canonical_self_service_bytes C action entries
    \<and> canonical_rename_bytes C d op ts \<noteq> canonical_self_service_bytes C action entries"
proof (intro conjI)
  show "canonical_bytes C n op t = canonical_bytes C n' op' t' \<longleftrightarrow> n = n' \<and> op = op' \<and> t = t'" (is "?l = ?r")
  proof
    assume ?l
    then have "json_text C (JStr n) @ '',\"not_after\":'' @ show_int (uint t) @ '',\"operator_pub\":'' @ json_text C (JStr op) @ ''}''
        = json_text C (JStr n') @ '',\"not_after\":'' @ show_int (uint t') @ '',\"operator_pub\":'' @ json_text C (JStr op') @ ''}''"
      unfolding canonical_bytes_def by (simp only: same_append_eq)
    from delimitedD [OF assms this] have "n = n'"
      and "show_int (uint t) @ CHR '','' # ''\"operator_pub\":'' @ json_text C (JStr op) @ ''}''
        = show_int (uint t') @ CHR '','' # ''\"operator_pub\":'' @ json_text C (JStr op') @ ''}''" by simp_all
    from split_sep [OF show_int_no_comma show_int_no_comma this(2)]
    have "show_int (uint t) = show_int (uint t')"
      and "''\"operator_pub\":'' @ json_text C (JStr op) @ ''}'' = ''\"operator_pub\":'' @ json_text C (JStr op') @ ''}''" by blast+
    then have "uint t = uint t'" "op = op'"
      using show_int_inj delimitedD [OF assms, of op "''}''" op' "''}''"] by (simp_all only: same_append_eq)
    then show ?r using \<open>n = n'\<close> by (simp add: word_uint_eq_iff)
  qed simp
  show "canonical_rename_bytes C d op ts = canonical_rename_bytes C d' op' ts' \<longleftrightarrow> d = d' \<and> op = op' \<and> ts = ts'" (is "?l = ?r")
  proof
    assume ?l
    then have "json_text C (JStr d) @ '',\"operator_pub\":'' @ json_text C (JStr op) @ '',\"ts\":'' @ show_int ts @ ''}''
        = json_text C (JStr d') @ '',\"operator_pub\":'' @ json_text C (JStr op') @ '',\"ts\":'' @ show_int ts' @ ''}''"
      unfolding canonical_rename_bytes_def by (simp only: same_append_eq)
    from delimitedD [OF assms this] have "d = d'"
      and "json_text C (JStr op) @ '',\"ts\":'' @ show_int ts @ ''}'' = json_text C (JStr op') @ '',\"ts\":'' @ show_int ts' @ ''}''"
      by (simp_all only: same_append_eq)
    from delimitedD [OF assms this(2)] have "op = op'" "show_int ts = show_int ts'" by simp_all
    then show ?r using \<open>d = d'\<close> show_int_inj by simp
  qed simp
qed (simp_all add: canonical_bytes_def canonical_rename_bytes_def canonical_self_service_bytes_def Let_def)

text \<open>A JSON text in which every character is escaped, as an instance of the hypothesis.\<close>

fun escaped_text :: "json \<Rightarrow> string" where
  "escaped_text (JStr s) = ''<'' @ concat (map (\<lambda>c. [CHR ''%'', c]) s) @ ''>''"
| "escaped_text _ = ''null''"

lemma escaped_delimited:
  "concat (map (\<lambda>c. [CHR ''%'', c]) s) @ CHR ''>'' # r = concat (map (\<lambda>c. [CHR ''%'', c]) s') @ CHR ''>'' # r' \<Longrightarrow> s = s' \<and> r = r'"
proof (induction s arbitrary: s')
  case Nil
  then show ?case by (cases s') auto
next
  case (Cons c s)
  then show ?case by (cases s') auto
qed

lemma escaped_text_delimited: "json_strings_delimited (demo_crypto\<lparr>json_text := escaped_text\<rparr>)"
  unfolding json_strings_delimited_def
proof (intro allI impI)
  fix s s' r r'
  assume "json_text (demo_crypto\<lparr>json_text := escaped_text\<rparr>) (JStr s) @ r = json_text (demo_crypto\<lparr>json_text := escaped_text\<rparr>) (JStr s') @ r'"
  then show "s = s' \<and> r = r'" by (intro escaped_delimited) simp
qed

theorem signed_bytes_unambiguous_witness:
  "canonical_bytes (demo_crypto\<lparr>json_text := escaped_text\<rparr>) ''n1'' ''k'' 9
     \<noteq> canonical_bytes (demo_crypto\<lparr>json_text := escaped_text\<rparr>) ''n2'' ''k'' 9
   \<and> canonical_bytes (demo_crypto\<lparr>json_text := escaped_text\<rparr>) ''n1'' ''k'' 9
     \<noteq> canonical_rename_bytes (demo_crypto\<lparr>json_text := escaped_text\<rparr>) ''n1'' ''k'' 9"
  using signed_bytes_unambiguous [OF escaped_text_delimited, of "''n1''" "''k''" 9 "''n2''" "''k''" 9]
    signed_bytes_unambiguous [OF escaped_text_delimited, of "''n1''" "''k''" 9 "''n2''" "''k''" 9 _ _ "''n1''" 9] by simp

end
