(* ===== verification/Lifecycle.thy ===== *)
theory Lifecycle
  imports Registration Policy_Manifest Delegation Operators Access
begin

text \<open>
  Registration, \<open>src/node_lifecycle.rs\<close>: the request, its validation, the rate limit, the
  ownership checks of a re-registration, and the handler with its commit.

  \<open>register_env\<close> holds what the handler takes from outside besides the request context: the
  manifest environment, the resolver, the result of a health request to a URL (success or
  not, with or without certificate checks), the lower-case form of a character, the order in
  which a hash set is drained, and the JSON text of a capability. A decoded request has the
  defaults of \<open>serde\<close> filled in. A UUID is its hyphenated text; UUIDs are numbered by use.
\<close>

record RegistrationAvailability =
  ra_start :: string
  ra_end :: string
  ra_share :: f64

record RegistrationPricing =
  pr_credit_cost_multiplier :: f64
  pr_pricing_model :: string

record ListingInput =
  li_public_listing :: bool
  li_operator_url :: "string option"

record RegisterRequest =
  rq_node_id :: "string option"
  rq_endpoint :: string
  rq_current_node_token :: "string option"
  rq_region :: "string option"
  rq_capabilities :: "EffectiveCapability list"
  rq_nat_type :: "string option"
  rq_transport_method :: "string option"
  rq_exposure_mode :: "string option"
  rq_relay_capable :: "bool option"
  rq_transport_endpoint :: "string option"
  rq_sdk_language :: "string option"
  rq_implementation_name :: "string option"
  rq_implementation_version :: "string option"
  rq_sdk_compatibility_version :: "string option"
  rq_sdk_version :: "string option"
  rq_supported_receipt_profiles :: "string list"
  rq_backend :: "string option"
  rq_cx_public_key :: "json option"
  rq_transport_metadata :: "json option"
  rq_policy_manifest :: "json option"
  rq_operator_delegation :: "OperatorDelegation option"
  rq_operator_display_name :: "string option"
  rq_operator_created_at :: "string option"
  rq_operator_integrity_hash :: "string option"
  rq_listing :: "ListingInput option"
  rq_availability :: "RegistrationAvailability list"
  rq_pricing :: "RegistrationPricing option"

record register_env =
  re_manifest :: manifest_env
  re_resolve :: "string \<Rightarrow> IpAddr list option"
  re_http_ok :: "bool \<Rightarrow> string \<Rightarrow> bool"
  re_lower :: "string \<Rightarrow> string"
  re_iter :: "string list \<Rightarrow> string list"
  re_capability_text :: "EffectiveCapability \<Rightarrow> string"

section \<open>Validation of the request\<close>

definition EXPOSURE_MODES :: "string list" where
  "EXPOSURE_MODES =
     [''outbound_only'', ''ipv4_public_direct'', ''ipv4_cgnat_blocked'', ''ipv6_direct_firewall_required'',
      ''ipv6_direct_pinhole_available'', ''relay_required'', ''tunnel_required'', ''dual_stack_available'']"

definition invalid_opt :: "(string \<Rightarrow> bool) \<Rightarrow> string option \<Rightarrow> bool" where
  "invalid_opt valid v \<longleftrightarrow> (case v of None \<Rightarrow> False | Some s \<Rightarrow> \<not> valid s)"

definition valid_implementation_name :: "string \<Rightarrow> bool" where
  "valid_implementation_name value \<longleftrightarrow>
     value \<noteq> [] \<and> length value \<le> 64 \<and> (is_ascii_alphanumeric (hd value) \<or> hd value = CHR ''@'')
     \<and> list_all (\<lambda>c. is_ascii_alphanumeric c \<or> c \<in> set ''._/@+-'') value"

definition valid_version_axis :: "string \<Rightarrow> bool" where
  "valid_version_axis value \<longleftrightarrow>
     value \<noteq> [] \<and> length value \<le> 32 \<and> is_ascii_alphanumeric (hd value)
     \<and> list_all (\<lambda>c. is_ascii_alphanumeric c \<or> c \<in> set ''._+-'') value"

definition valid_capability_identifier :: "string \<Rightarrow> nat \<Rightarrow> bool" where
  "valid_capability_identifier value max_len \<longleftrightarrow>
     value \<noteq> [] \<and> length value \<le> max_len \<and> is_ascii_alphanumeric (hd value)
     \<and> list_all (\<lambda>c. is_ascii_alphanumeric c \<or> c \<in> set ''._:-'') value"

definition valid_capability_string_set :: "string list \<Rightarrow> bool" where
  "valid_capability_string_set values \<longleftrightarrow>
     length values \<le> 64 \<and> list_all (\<lambda>v. v \<noteq> [] \<and> length v \<le> 255) values \<and> distinct values"

definition valid_limit_name :: "string \<Rightarrow> bool" where
  "valid_limit_name value \<longleftrightarrow>
     value \<noteq> [] \<and> length value \<le> 64 \<and> is_ascii_lowercase (hd value)
     \<and> list_all (\<lambda>c. is_ascii_lowercase c \<or> is_ascii_digit c \<or> c = CHR ''_'') value"

definition validate_registration_profiles_and_exposure :: "RegisterRequest \<Rightarrow> response option" where
  "validate_registration_profiles_and_exposure req =
     (if length (rq_supported_receipt_profiles req) > 4
         \<or> list_ex (\<lambda>p. p \<noteq> ''consumer_cosignature_v1'') (rq_supported_receipt_profiles req)
      then Some (reject ''validation_error'' ''unsupported receipt profile'')
      else if invalid_opt (\<lambda>m. m \<in> set EXPOSURE_MODES) (rq_exposure_mode req)
      then Some (reject ''validation_error'' (''invalid exposure_mode: '' @ unwrap_or [] (rq_exposure_mode req)))
      else None)"

definition validate_registration_shape :: "RegisterRequest \<Rightarrow> response option" where
  "validate_registration_shape req =
     (if rq_capabilities req = [] then Some (reject ''validation_error'' ''at least one capability is required'')
      else if invalid_opt (\<lambda>b. b \<in> set BACKENDS) (rq_backend req)
      then Some (reject ''validation_error'' (''invalid backend: '' @ unwrap_or [] (rq_backend req)))
      else if invalid_opt valid_implementation_name (rq_implementation_name req)
         \<or> invalid_opt valid_version_axis (rq_implementation_version req)
         \<or> invalid_opt valid_version_axis (rq_sdk_compatibility_version req)
         \<or> invalid_opt valid_version_axis (rq_sdk_version req)
      then Some (reject ''validation_error'' ''invalid implementation metadata'')
      else if (case (rq_sdk_compatibility_version req, rq_sdk_version req) of
                 (Some preferred, Some legacy) \<Rightarrow> preferred \<noteq> legacy | _ \<Rightarrow> False)
      then Some (reject ''validation_error'' ''sdk_compatibility_version must match sdk_version when both are supplied'')
      else validate_registration_profiles_and_exposure req)"

subsection \<open>Capabilities\<close>

definition MODALITIES :: "string list" where
  "MODALITIES = [''text'', ''image'', ''audio'', ''video'']"

definition LIMIT_UNITS :: "string list" where
  "LIMIT_UNITS = [''tokens'', ''items'', ''bytes'', ''milliseconds'', ''dimensions'']"

definition CLAIM_SOURCES :: "string list" where
  "CLAIM_SOURCES =
     [''heuristic_fallback'', ''operator_assertion'', ''provider_metadata'', ''runtime_introspection'', ''conformance_probe'']"

definition invalid_variant :: "EffectiveCapability \<Rightarrow> bool" where
  "invalid_variant c \<longleftrightarrow>
     invalid_opt (\<lambda>v. valid_capability_identifier v 64) (c_variant_id c)
     \<or> invalid_opt (\<lambda>v. v \<noteq> [] \<and> length v \<le> 32) (c_version c)
     \<or> c_phase c = Some 0 \<or> c_max_tokens c = Some 0
     \<or> \<not> valid_capability_string_set (c_models c) \<or> \<not> valid_capability_string_set (c_input_modalities c)
     \<or> \<not> valid_capability_string_set (c_output_modalities c) \<or> \<not> valid_capability_string_set (c_features c)
     \<or> \<not> valid_capability_string_set (c_execution_capabilities c)"

text \<open>An \<open>f64\<close> of the model is finite, so \<open>is_finite\<close> holds of every limit.\<close>

definition invalid_limits :: "EffectiveCapability \<Rightarrow> bool" where
  "invalid_limits c \<longleftrightarrow>
     length (c_limits c) > 32
     \<or> list_ex (\<lambda>(name, limit). \<not> valid_limit_name name \<or> l_value limit < 0 \<or> l_unit limit \<notin> set LIMIT_UNITS) (c_limits c)"

definition invalid_provenance :: "manifest_env \<Rightarrow> EffectiveCapability \<Rightarrow> bool" where
  "invalid_provenance E c \<longleftrightarrow>
     (case c_claim_provenance c of
        None \<Rightarrow> False
      | Some claim \<Rightarrow>
          p_source claim \<notin> set CLAIM_SOURCES
          \<or> invalid_opt (\<lambda>t. me_rfc3339 E t \<noteq> None) (p_observed_at claim)
          \<or> invalid_opt (\<lambda>t. me_rfc3339 E t \<noteq> None) (p_valid_until claim)
          \<or> invalid_opt (\<lambda>e. e \<noteq> [] \<and> length e \<le> 255) (p_evidence_ref claim))"

definition invalid_extensions :: "EffectiveCapability \<Rightarrow> bool" where
  "invalid_extensions c \<longleftrightarrow>
     length (c_extensions c) > 32
     \<or> list_ex (\<lambda>(name, _). length name < 3 \<or> length name > 128 \<or> CHR ''.'' \<notin> set name
          \<or> \<not> is_ascii_lowercase (hd name)
          \<or> \<not> list_all (\<lambda>b. is_ascii_lowercase b \<or> is_ascii_digit b \<or> b \<in> set ''._:-'') name) (c_extensions c)"

definition PROFILE_PREFIX :: string where
  "PROFILE_PREFIX = ''urn:iicp:profile:''"

definition valid_profile :: "string \<Rightarrow> bool" where
  "valid_profile profile \<longleftrightarrow>
     length profile \<le> 160 \<and> starts_with profile PROFILE_PREFIX
     \<and> (let name = drop 17 profile
        in name \<noteq> [] \<and> (is_ascii_lowercase (hd name) \<or> is_ascii_digit (hd name))
           \<and> list_all (\<lambda>b. is_ascii_lowercase b \<or> is_ascii_digit b \<or> b \<in> set ''._:-'') (tl name))"

definition invalid_profiles :: "EffectiveCapability \<Rightarrow> bool" where
  "invalid_profiles c \<longleftrightarrow>
     length (c_supported_profiles c) > 16 \<or> \<not> list_all valid_profile (c_supported_profiles c)
     \<or> \<not> distinct (c_supported_profiles c)"

definition capability_fields_refusal :: "manifest_env \<Rightarrow> EffectiveCapability \<Rightarrow> response option" where
  "capability_fields_refusal E c =
     (if invalid_variant c then Some (reject ''validation_error'' ''invalid capability variant'')
      else if \<not> list_all (\<lambda>m. m \<in> set MODALITIES) (c_input_modalities c @ c_output_modalities c)
      then Some (reject ''validation_error'' ''invalid capability modality'')
      else if invalid_limits c then Some (reject ''validation_error'' ''invalid capability limit'')
      else if invalid_provenance E c then Some (reject ''validation_error'' ''invalid capability claim provenance'')
      else if invalid_extensions c then Some (reject ''validation_error'' ''invalid namespaced capability extension'')
      else if invalid_profiles c then Some (reject ''validation_error'' ''invalid capability supported_profiles'')
      else None)"

text \<open>The loop with its two hash sets: the texts seen so far and the variants seen so far.\<close>

fun check_capabilities ::
    "register_env \<Rightarrow> string list \<Rightarrow> (string \<times> string) list \<Rightarrow> EffectiveCapability list \<Rightarrow> response option" where
  "check_capabilities L exact variants [] = None"
| "check_capabilities L exact variants (c # cs) =
     (if \<not> validate_intent (c_intent c) then Some (reject ''validation_error'' (''invalid intent URN: '' @ c_intent c))
      else case public_mesh_refusal (c_intent c) of
        Some classification \<Rightarrow> Some (policy_reject classification)
      | None \<Rightarrow>
          if re_capability_text L c \<in> set exact
             \<or> (case c_variant_id c of None \<Rightarrow> False | Some v \<Rightarrow> (c_intent c, v) \<in> set variants)
          then Some (reject ''validation_error'' ''duplicate capability variant'')
          else (case capability_fields_refusal (re_manifest L) c of
                  Some r \<Rightarrow> Some r
                | None \<Rightarrow>
                    check_capabilities L (re_capability_text L c # exact)
                      (case c_variant_id c of None \<Rightarrow> variants | Some v \<Rightarrow> (c_intent c, v) # variants) cs))"

definition validate_registration_capabilities :: "register_env \<Rightarrow> RegisterRequest \<Rightarrow> response option" where
  "validate_registration_capabilities L req = check_capabilities L [] [] (rq_capabilities req)"

definition validate_registration_policy_manifest :: "crypto \<Rightarrow> register_env \<Rightarrow> RegisterRequest \<Rightarrow> response option" where
  "validate_registration_policy_manifest C L req =
     (case rq_policy_manifest req of
        None \<Rightarrow> None
      | Some manifest \<Rightarrow>
          (case validate_shape manifest of
             Inl message \<Rightarrow> Some (reject ''validation_error'' message)
           | Inr _ \<Rightarrow>
               (let verification = verify_manifest C (re_manifest L) manifest
                in if accepted_manifest verification then None
                   else Some (reject ''validation_error''
                          (''Invalid node policy manifest signature: '' @ v_status verification)))))"

definition or_else :: "'a option \<Rightarrow> 'a option \<Rightarrow> 'a option" where
  "or_else a b = (case a of None \<Rightarrow> b | Some x \<Rightarrow> Some x)"

definition validate_registration_request :: "crypto \<Rightarrow> register_env \<Rightarrow> RegisterRequest \<Rightarrow> response option" where
  "validate_registration_request C L req =
     or_else (or_else (validate_registration_shape req) (validate_registration_capabilities L req))
       (validate_registration_policy_manifest C L req)"

section \<open>The rate limit\<close>

definition REGISTER_RATE_LIMIT :: u32 where
  "REGISTER_RATE_LIMIT = 60"

definition REGISTER_RATE_TTL_MS :: u64 where
  "REGISTER_RATE_TTL_MS = 60000"

definition saturating_sub :: "'a::len word \<Rightarrow> 'a word \<Rightarrow> 'a word" where
  "saturating_sub a b = (if b \<le> a then a - b else 0)"

definition register_rate_step :: "(u32 \<times> u64) option \<Rightarrow> u64 \<Rightarrow> u64 \<Rightarrow> u32 \<times> u64" where
  "register_rate_step prev now_ms ttl_ms =
     (case prev of
        Some (n, start_ms) \<Rightarrow> if saturating_sub now_ms start_ms < ttl_ms then (n + 1, start_ms) else (1, now_ms)
      | None \<Rightarrow> (1, now_ms))"

definition rate_limited :: response where
  "rate_limited =
     (429, JObj [(''error'', JStr ''IICP-E034''),
        (''message'', JStr ''Too many registration attempts from this source IP. Try again shortly.''),
        (''retry_after'', JInt (uint (REGISTER_RATE_TTL_MS div 1000)))])"

definition registration_rate_rejection :: "RequestContext \<Rightarrow> headers \<Rightarrow> AppState \<Rightarrow> response option \<times> AppState" where
  "registration_rate_rejection X headers S =
     (let ip = get_client_ip headers;
          (n, start) = register_rate_step (map_of (st_register_rate S) ip) (of_int (cx_now_ms X)) REGISTER_RATE_TTL_MS
      in (if n > REGISTER_RATE_LIMIT then Some rate_limited else None,
          S\<lparr>st_register_rate := hm_insert ip (n, start) (st_register_rate S)\<rparr>))"

section \<open>Who may re-register a node\<close>

definition relay_endpoint :: "json option \<Rightarrow> string option" where
  "relay_endpoint metadata =
     Option.bind (Option.bind (Option.bind metadata as_object) (\<lambda>m. map_of m ''relay_endpoint'')) as_str"

definition probe_endpoint_alive :: "register_env \<Rightarrow> string \<Rightarrow> bool \<Rightarrow> bool" where
  "probe_endpoint_alive L endpoint allow_insecure_tls =
     re_http_ok L allow_insecure_tls (trim_end_matches CHR ''/'' endpoint @ ''/iicp/health'')"

definition has_ownership :: "AppState \<Rightarrow> RegisterRequest \<Rightarrow> string \<Rightarrow> bool" where
  "has_ownership S req node_id =
     (case nonempty (rq_current_node_token req) of
        Some token \<Rightarrow> verify_node_token (st_repo S) node_id token | None \<Rightarrow> False)"

definition cx_changed :: "RegisterRequest \<Rightarrow> Node \<Rightarrow> bool" where
  "cx_changed req existing \<longleftrightarrow>
     (case rq_cx_public_key req of None \<Rightarrow> False | Some k \<Rightarrow> k \<noteq> JNull \<and> n_public_key existing \<noteq> Some k)"

definition registration_ownership_rejection ::
    "register_env \<Rightarrow> AppState \<Rightarrow> RegisterRequest \<Rightarrow> string \<Rightarrow> response option" where
  "registration_ownership_rejection L S req node_id =
     (case get_node (st_repo S) node_id of
        None \<Rightarrow> None
      | Some existing \<Rightarrow>
          (let owner = has_ownership S req node_id
           in if cx_changed req existing \<and> \<not> owner
              then Some (403, JObj [(''error'', JStr ''IICP-E049''),
                     (''message'', JStr ''cx_public_key update requires a valid current_node_token'')])
              else
                (let endpoint_changed = n_endpoint existing \<noteq> rq_endpoint req;
                     transport_endpoint_changed = n_transport_endpoint existing \<noteq> rq_transport_endpoint req;
                     relay_endpoint_changed =
                       relay_endpoint (n_transport_metadata existing) \<noteq> relay_endpoint (rq_transport_metadata req);
                     secured = n_operator_pubkey existing \<noteq> None \<or> n_public_key existing \<noteq> None;
                     old_alive = endpoint_changed \<and> \<not> owner \<and> \<not> (st_strict_e050_secured S \<and> secured)
                       \<and> probe_endpoint_alive L (n_endpoint existing) (st_allow_insecure_tls S)
                 in if routing_change_allowed (st_strict_e050_secured S) secured endpoint_changed
                         transport_endpoint_changed relay_endpoint_changed owner old_alive
                    then None
                    else Some (403, JObj [(''error'', JStr ''IICP-E050''),
                           (''message'', JStr (if st_strict_e050_secured S \<and> secured
                              then ''secured-node re-registration requires a valid current_node_token''
                              else ''endpoint change requires the current node_token (the existing endpoint is still reachable); re-register with current_node_token to prove ownership''))]))))"

text \<open>The in-memory repository keeps no life cycle of policy keys, observed addresses or prices.\<close>

definition policy_key_lifecycle_status :: "InMemoryRepo \<Rightarrow> string \<Rightarrow> string option" where
  "policy_key_lifecycle_status M policy_key_sha256 = None"

definition observe_address :: "string \<Rightarrow> string \<Rightarrow> string \<Rightarrow> InMemoryRepo \<Rightarrow> InMemoryRepo" where
  "observe_address node_id ip request_type M = M"

definition policy_manifest_lifecycle_rejection :: "crypto \<Rightarrow> register_env \<Rightarrow> AppState \<Rightarrow> RegisterRequest \<Rightarrow> response option" where
  "policy_manifest_lifecycle_rejection C L S req =
     (case Option.bind (rq_policy_manifest req) (\<lambda>m. v_public_key_sha256 (verify_manifest C (re_manifest L) m)) of
        None \<Rightarrow> None
      | Some key_sha \<Rightarrow>
          (case policy_key_lifecycle_status (st_repo S) key_sha of
             Some status \<Rightarrow>
               if status \<noteq> ''active''
               then Some (reject ''validation_error'' ''Invalid node policy manifest signature: directory lifecycle record is not active'')
               else None
           | None \<Rightarrow> None))"

definition registration_control_rejection ::
    "crypto \<Rightarrow> register_env \<Rightarrow> AppState \<Rightarrow> RegisterRequest \<Rightarrow> string \<Rightarrow> response option" where
  "registration_control_rejection C L S req node_id =
     or_else (policy_manifest_lifecycle_rejection C L S req) (registration_ownership_rejection L S req node_id)"

definition operator_display_name_rejection ::
    "register_env \<Rightarrow> AppState \<Rightarrow> string option \<Rightarrow> string option \<Rightarrow> response option" where
  "operator_display_name_rejection L S operator_pubkey display_name =
     (case (operator_pubkey, Option.bind display_name (normalize_operator_display_name (re_lower L))) of
        (Some pk, Some normalized) \<Rightarrow>
          if operator_display_name_claimed_by_other (re_lower L) (st_repo S) pk normalized
          then Some (reject ''validation_error'' ''operator_display_name is already claimed by another verified operator (IICP-E051)'')
          else None
      | _ \<Rightarrow> None)"

section \<open>The record of a registration\<close>

definition uuid_hex :: "string \<Rightarrow> string" where
  "uuid_hex u = filter (\<lambda>c. c \<noteq> CHR ''-'') u"

definition default_cip_policy :: json where
  "default_cip_policy =
     JObj [(''allow_remote_inference'', JBool False), (''allow_tool_execution'', JBool False),
           (''allow_file_access'', JBool False), (''pricing_credits_per_1000'', JNull)]"

definition default_pricing_model :: string where
  "default_pricing_model = ''per_token''"

definition request_models :: "register_env \<Rightarrow> RegisterRequest \<Rightarrow> string list" where
  "request_models L req = advertised_models (re_iter L) (map c_models (rq_capabilities req))"

definition registered_node ::
    "register_env \<Rightarrow> RegisterRequest \<Rightarrow> string \<Rightarrow> string option \<times> bool \<times> string option \<Rightarrow> Node" where
  "registered_node L req node_id op =
     \<lparr>n_node_id = node_id, n_endpoint = rq_endpoint req, n_region = unwrap_or [] (rq_region req), n_score = STARTING_SCORE,
      n_available = True, n_load = 0, n_active_jobs = 0, n_max_concurrent = 0,
      n_reputation_score = STARTING_SCORE, n_reputation_model = Some ''outcome-v2'',
      n_reputation_epoch = Some ''outcome-v2-initial'', n_latency_estimate_ms = None,
      n_completed_tasks_count = 0, n_tasks_failed = 0, n_health_label = None,
      n_exposure_mode = rq_exposure_mode req, n_reputation_tier = Some ''bronze'',
      n_transport_endpoint = rq_transport_endpoint req, n_cip_conformance_level = Some ''CIP-None'',
      n_models = request_models L req, n_supported_profiles = [], n_capabilities = rq_capabilities req, n_pricing = None,
      n_nat_type = rq_nat_type req, n_transport_method = rq_transport_method req,
      n_relay_capable = rq_relay_capable req, n_sdk_language = rq_sdk_language req,
      n_implementation_name = rq_implementation_name req, n_implementation_version = rq_implementation_version req,
      n_sdk_compatibility_version = or_else (rq_sdk_compatibility_version req) (rq_sdk_version req),
      n_sdk_version = or_else (rq_sdk_compatibility_version req) (rq_sdk_version req),
      n_consumer_cosignature_ready = list_ex (\<lambda>p. p = ''consumer_cosignature_v1'') (rq_supported_receipt_profiles req),
      n_backend = rq_backend req, n_address_family = None, n_cip_policy = Some default_cip_policy,
      n_public_key = rq_cx_public_key req, n_transport_metadata = rq_transport_metadata req,
      n_quantization = re_iter L (remdups (filter_map c_quantization (rq_capabilities req))),
      n_inference_engine = re_iter L (remdups (filter_map c_inference_engine (rq_capabilities req))),
      n_credit_cost_multiplier = bounded_pricing (request_models L req) (map_option pr_credit_cost_multiplier (rq_pricing req)),
      n_pricing_model = Some (case rq_pricing req of None \<Rightarrow> default_pricing_model | Some p \<Rightarrow> pr_pricing_model p),
      n_attested = False, n_transport = [],
      n_reachability_signal = reachability_from_flags False (unwrap_or False (rq_relay_capable req)),
      n_operator_pubkey = fst op, n_operator_display_name = None, n_operator_fingerprint = None,
      n_public_listing = (case rq_listing req of None \<Rightarrow> False | Some l \<Rightarrow> li_public_listing l),
      n_operator_url = Option.bind (rq_listing req) li_operator_url, n_policy_manifest = rq_policy_manifest req,
      n_operator_verified = fst (snd op), n_operator_trust_tier = snd (snd op), n_health_models = None,
      n_routing_policy = RoutingPolicyState_default\<rparr>"

record PendingRegistration =
  pe_request :: RegisterRequest
  pe_node :: Node
  pe_intents :: "string list"
  pe_capability_profiles :: "(string, string list) hashmap"
  pe_availability :: "AvailabilityWindow list"
  pe_node_id :: string
  pe_node_token :: string
  pe_proxy_token :: string
  pe_node_hmac_key :: string
  pe_operator_pubkey_for_upsert :: "string option"
  pe_recovered :: bool
  pe_declared_reachable :: bool

definition pending_record :: "PendingRegistration \<Rightarrow> NodeRecord" where
  "pending_record p =
     \<lparr>r_node = pe_node p, r_intents = pe_intents p, r_capabilities = rq_capabilities (pe_request p),
      r_capability_profiles = pe_capability_profiles p, r_availability = pe_availability p,
      r_node_token = Some (pe_node_token p), r_node_hmac_key = Some (pe_node_hmac_key p),
      r_proxy_token = Some (pe_proxy_token p)\<rparr>"

section \<open>The event of a registration\<close>

definition strings_json :: "string list \<Rightarrow> json" where
  "strings_json ss = JArr (map JStr ss)"

definition opt_u32 :: "u32 option \<Rightarrow> json" where
  "opt_u32 v = (case v of None \<Rightarrow> JNull | Some n \<Rightarrow> u32_json n)"

definition event_capability :: "EffectiveCapability \<Rightarrow> json" where
  "event_capability c =
     JObj [(''intent'', JStr (c_intent c)), (''version'', opt_string (c_version c)), (''phase'', opt_u32 (c_phase c)),
           (''variant_id'', opt_string (c_variant_id c)), (''models'', strings_json (c_models c)),
           (''max_tokens'', opt_u32 (c_max_tokens c)), (''quantization'', opt_string (c_quantization c)),
           (''inference_engine'', opt_string (c_inference_engine c)),
           (''input_modalities'', strings_json (c_input_modalities c)),
           (''output_modalities'', strings_json (c_output_modalities c)), (''features'', strings_json (c_features c)),
           (''execution_capabilities'', strings_json (c_execution_capabilities c)), (''limits'', JObj (map (\<lambda>(k, l). (k, limit_value l)) (c_limits c))),
           (''supported_profiles'', strings_json (c_supported_profiles c)),
           (''claim_provenance'', case c_claim_provenance c of None \<Rightarrow> JNull | Some p \<Rightarrow> claim_value p),
           (''extensions'', JObj (map (\<lambda>(k, x). (k, extension_value x)) (c_extensions c)))]"

definition register_payload :: "RegisterRequest \<Rightarrow> json" where
  "register_payload req =
     JObj [(''endpoint'', JStr (rq_endpoint req)), (''region'', opt_string (rq_region req)),
           (''backend'', opt_string (rq_backend req)),
           (''supported_receipt_profiles'', strings_json (rq_supported_receipt_profiles req)),
           (''capabilities'', JArr (map event_capability (rq_capabilities req)))]"

section \<open>The handler\<close>

definition upsert_operator_from_register ::
    "i64 \<Rightarrow> string option \<Rightarrow> string option \<Rightarrow> string option \<Rightarrow> string option \<Rightarrow> InMemoryRepo \<Rightarrow> InMemoryRepo" where
  "upsert_operator_from_register now operator_pubkey display_name created_at integrity_hash M =
     (case operator_pubkey of
        None \<Rightarrow> M
      | Some op_pub \<Rightarrow> upsert_operator now op_pub display_name created_at integrity_hash M)"

definition register_response :: "RequestContext \<Rightarrow> headers \<Rightarrow> PendingRegistration \<Rightarrow> response" where
  "register_response X headers p =
     (201, JObj [(''node_id'', JStr (pe_node_id p)), (''node_token'', JStr (pe_node_token p)),
        (''proxy_token'', JStr (pe_proxy_token p)), (''node_hmac_key'', JStr (pe_node_hmac_key p)), (''expires_at'', JNull),
        (''jwt_token'', opt_string (issue_jwt (cx_jwt X) (cx_app_key X) (cx_now X) (pe_node_id p))),
        (''jwt_expires_at'', JStr (cx_rfc3339_in X 3600)), (''directory'', JStr ''iicp-directory-rs''),
        (''observed_source_ip'', JStr (get_client_ip headers)), (''recovered'', JBool (pe_recovered p)),
        (''lifetime_jobs'', JInt 0), (''public_reachable'', JBool (pe_declared_reachable p))])"

definition commit_registration :: "RequestContext \<Rightarrow> headers \<Rightarrow> PendingRegistration \<Rightarrow> AppState \<Rightarrow> response \<times> AppState" where
  "commit_registration X headers p S =
     (let req = pe_request p;
          M1 = register (pending_record p) (st_repo S);
          M2 = observe_address (pe_node_id p) (get_client_ip headers) ''register'' M1;
          M3 = upsert_operator_from_register (cx_now_ms X) (pe_operator_pubkey_for_upsert p) (rq_operator_display_name req)
                 (rq_operator_created_at req) (rq_operator_integrity_hash req) M2
      in (register_response X headers p,
          emit_event X (cx_uuid X 4) ''REGISTER'' (pe_node_id p) (register_payload req) (S\<lparr>st_repo := M3\<rparr>)))"

definition endpoint_verified :: "register_env \<Rightarrow> AppState \<Rightarrow> RegisterRequest \<Rightarrow> bool" where
  "endpoint_verified L S req \<longleftrightarrow>
     is_declared_reachable (rq_nat_type req) (rq_transport_method req) \<or> st_skip_liveness_check S
     \<or> probe_endpoint_alive L (rq_endpoint req) (st_allow_insecure_tls S)"

definition show_reject :: "EndpointReject \<Rightarrow> string" where
  "show_reject e =
     (case e of BadScheme \<Rightarrow> ''BadScheme'' | NonRoutableHost \<Rightarrow> ''NonRoutableHost'' | BareHostname \<Rightarrow> ''BareHostname''
              | UnresolvableHost \<Rightarrow> ''UnresolvableHost'')"

definition make_pending ::
    "RequestContext \<Rightarrow> register_env \<Rightarrow> RegisterRequest \<Rightarrow> string \<Rightarrow> string option \<times> bool \<times> string option \<Rightarrow> PendingRegistration" where
  "make_pending X L req node_id op =
     \<lparr>pe_request = req, pe_node = registered_node L req node_id op, pe_intents = map c_intent (rq_capabilities req),
      pe_capability_profiles = hm_collect (map (\<lambda>c. (c_intent c, c_supported_profiles c)) (rq_capabilities req)),
      pe_availability = map (\<lambda>w. \<lparr>w_start = ra_start w, w_end = ra_end w, w_share = ra_share w\<rparr>) (rq_availability req),
      pe_node_id = node_id, pe_node_token = cx_uuid X 1, pe_proxy_token = cx_uuid X 2,
      pe_node_hmac_key = uuid_hex (cx_uuid X 3), pe_operator_pubkey_for_upsert = fst op,
      pe_recovered = (nonempty (rq_node_id req) \<noteq> None), pe_declared_reachable = True\<rparr>"

text \<open>Everything between the rate limit and the commit; it reads the state and changes nothing.\<close>

definition prepare_registration ::
    "RequestContext \<Rightarrow> register_env \<Rightarrow> RegisterRequest \<Rightarrow> AppState \<Rightarrow> response + PendingRegistration" where
  "prepare_registration X L req S =
     (let C = cx_crypto X in
      case validate_registration_request C L req of
        Some r \<Rightarrow> Inl r
      | None \<Rightarrow>
      (case endpoint_routable (re_resolve L) (rq_endpoint req) (st_env S) of
         Inl e \<Rightarrow> Inl (reject ''IICP-E035'' (''non-routable endpoint: '' @ show_reject e))
       | Inr _ \<Rightarrow>
       if \<not> endpoint_verified L S req
       then Inl (reject ''IICP-E036'' ''endpoint unreachable or TLS identity verification failed'')
       else
       (case resolve_node_id (cx_uuid X 0) (rq_node_id req) of
          Inl message \<Rightarrow> Inl (reject ''validation_error'' message)
        | Inr node_id \<Rightarrow>
        (case registration_control_rejection C L S req node_id of
           Some r \<Rightarrow> Inl r
         | None \<Rightarrow>
         (let op = evaluate_delegation C (me_b64 (re_manifest L)) (rq_operator_delegation req) node_id (cx_now X)
          in if Option.bind (fst op) (operator_identity_active (st_repo S)) = Some False
             then Inl (reject ''validation_error'' ''operator delegation references an inactive identity'')
             else
             (case operator_display_name_rejection L S (fst op) (rq_operator_display_name req) of
                Some r \<Rightarrow> Inl r
              | None \<Rightarrow>
                  if \<not> valid_availability (map (\<lambda>w. (ra_start w, ra_end w, ra_share w)) (rq_availability req))
                  then Inl (reject ''validation_error'' ''invalid availability window'')
                  else if (case rq_pricing req of
                             None \<Rightarrow> False | Some p \<Rightarrow> \<not> valid_pricing (pr_credit_cost_multiplier p) (pr_pricing_model p))
                  then Inl (reject ''validation_error'' ''invalid pricing declaration'')
                  else Inr (make_pending X L req node_id op)))))))"

definition register_handler ::
    "RequestContext \<Rightarrow> register_env \<Rightarrow> headers \<Rightarrow> RegisterRequest \<Rightarrow> AppState \<Rightarrow> response \<times> AppState" where
  "register_handler X L headers req S =
     (case registration_rate_rejection X headers S of
        (Some r, S1) \<Rightarrow> (r, S1)
      | (None, S1) \<Rightarrow>
          (case prepare_registration X L req S1 of
             Inl r \<Rightarrow> (r, S1)
           | Inr p \<Rightarrow> commit_registration X headers p S1))"

section \<open>The rate limit holds\<close>

lemma register_rate_step_window:
  assumes "list_all (\<lambda>t. saturating_sub t start < ttl) ts" and "unat n + length ts < 2 ^ 32"
  shows "fold (\<lambda>t prev. Some (register_rate_step prev t ttl)) ts (Some (n, start)) = Some (n + of_nat (length ts), start)"
  using assms
proof (induction ts arbitrary: n)
  case (Cons t ts)
  have "unat (n + 1) = unat n + 1"
    using Cons.prems(2) unat_add_lem [of n 1] by simp
  then have "unat (n + 1) + length ts < 2 ^ 32" using Cons.prems(2) by simp
  then show ?case using Cons by (simp add: register_rate_step_def algebra_simps)
qed simp

text \<open>
  Within one window of sixty seconds the n-th registration attempt of an address is refused
  exactly when n exceeds sixty; the first attempt after the window starts a new one.
\<close>

theorem register_rate_limits:
  assumes "list_all (\<lambda>t. saturating_sub t t0 < REGISTER_RATE_TTL_MS) ts" and "length ts < 2 ^ 31"
  shows "\<exists>n. fold (\<lambda>t prev. Some (register_rate_step prev t REGISTER_RATE_TTL_MS)) (t0 # ts) None = Some (n, t0)
    \<and> (n > REGISTER_RATE_LIMIT \<longleftrightarrow> length (t0 # ts) > 60)
    \<and> (\<forall>t. saturating_sub t t0 \<ge> REGISTER_RATE_TTL_MS \<longrightarrow>
         register_rate_step (Some (n, t0)) t REGISTER_RATE_TTL_MS = (1, t))"
proof -
  let ?n = "1 + of_nat (length ts) :: u32"
  have "fold (\<lambda>t prev. Some (register_rate_step prev t REGISTER_RATE_TTL_MS)) (t0 # ts) None = Some (?n, t0)"
    using register_rate_step_window [OF assms(1), of 1] assms(2) by (simp add: register_rate_step_def)
  moreover have "unat ?n = length (t0 # ts)"
    using assms(2) by (simp add: unat_word_ariths unat_of_nat take_bit_eq_mod)
  then have "?n > REGISTER_RATE_LIMIT \<longleftrightarrow> length (t0 # ts) > 60"
    by (simp add: word_less_nat_alt REGISTER_RATE_LIMIT_def)
  ultimately show ?thesis by (auto simp: register_rate_step_def not_less)
qed

theorem register_rate_limits_witness:
  "let n = fst (the (fold (\<lambda>t prev. Some (register_rate_step prev t REGISTER_RATE_TTL_MS)) (1000 # replicate 60 2000) None))
   in n > REGISTER_RATE_LIMIT \<and> register_rate_step (Some (n, 1000)) 61000 REGISTER_RATE_TTL_MS = (1, 61000)"
proof -
  have "list_all (\<lambda>t. saturating_sub t 1000 < REGISTER_RATE_TTL_MS) (replicate 60 2000)"
    by (simp add: list_all_iff saturating_sub_def REGISTER_RATE_TTL_MS_def)
  moreover have "saturating_sub 61000 1000 \<ge> REGISTER_RATE_TTL_MS" by (simp add: saturating_sub_def REGISTER_RATE_TTL_MS_def)
  ultimately show ?thesis using register_rate_limits [of 1000 "replicate 60 2000"] by (auto simp: Let_def)
qed

section \<open>What a registration guarantees\<close>

lemma or_else_None [simp]: "or_else a b = None \<longleftrightarrow> a = None \<and> b = None"
  by (simp add: or_else_def split: option.split)

definition variant_of :: "EffectiveCapability \<Rightarrow> (string \<times> string) option" where
  "variant_of c = map_option (Pair (c_intent c)) (c_variant_id c)"

lemma check_capabilities_Cons:
  "check_capabilities L exact variants (c # cs) = None \<longleftrightarrow>
     validate_intent (c_intent c) \<and> public_mesh_refusal (c_intent c) = None
     \<and> re_capability_text L c \<notin> set exact \<and> set_option (variant_of c) \<inter> set variants = {}
     \<and> capability_fields_refusal (re_manifest L) c = None
     \<and> check_capabilities L (re_capability_text L c # exact)
         (case variant_of c of None \<Rightarrow> variants | Some v \<Rightarrow> v # variants) cs = None"
  by (auto simp: variant_of_def split: option.splits if_splits)

lemma filter_map_Cons [simp]: "filter_map f [] = []" "filter_map f (x # xs) = case_option id Cons (f x) (filter_map f xs)"
  by (simp_all add: filter_map_def split: option.split)

lemma check_capabilities_None:
  assumes "check_capabilities L exact variants cs = None"
  shows "\<forall>c \<in> set cs. validate_intent (c_intent c) \<and> public_mesh_refusal (c_intent c) = None
      \<and> capability_fields_refusal (re_manifest L) c = None \<and> re_capability_text L c \<notin> set exact"
    and "distinct (map (re_capability_text L) cs)"
    and "distinct (filter_map variant_of cs) \<and> set (filter_map variant_of cs) \<inter> set variants = {}"
proof -
  have "(\<forall>c \<in> set cs. validate_intent (c_intent c) \<and> public_mesh_refusal (c_intent c) = None
      \<and> capability_fields_refusal (re_manifest L) c = None \<and> re_capability_text L c \<notin> set exact)
    \<and> distinct (map (re_capability_text L) cs)
    \<and> distinct (filter_map variant_of cs) \<and> set (filter_map variant_of cs) \<inter> set variants = {}"
    using assms
  proof (induction cs arbitrary: exact variants)
    case (Cons c cs)
    note c = Cons.prems [unfolded check_capabilities_Cons]
    note IH = Cons.IH [OF c [THEN conjunct2, THEN conjunct2, THEN conjunct2, THEN conjunct2, THEN conjunct2]]
    show ?case using c IH by (cases "variant_of c") auto
  qed simp
  then show "\<forall>c \<in> set cs. validate_intent (c_intent c) \<and> public_mesh_refusal (c_intent c) = None
      \<and> capability_fields_refusal (re_manifest L) c = None \<and> re_capability_text L c \<notin> set exact"
    and "distinct (map (re_capability_text L) cs)"
    and "distinct (filter_map variant_of cs) \<and> set (filter_map variant_of cs) \<inter> set variants = {}" by blast+
qed

lemma prepare_registration_Inr:
  "prepare_registration X L req S = Inr p \<longleftrightarrow>
     (\<exists>node_id op.
        validate_registration_request (cx_crypto X) L req = None
        \<and> endpoint_routable (re_resolve L) (rq_endpoint req) (st_env S) = Inr ()
        \<and> endpoint_verified L S req \<and> resolve_node_id (cx_uuid X 0) (rq_node_id req) = Inr node_id
        \<and> registration_control_rejection (cx_crypto X) L S req node_id = None
        \<and> op = evaluate_delegation (cx_crypto X) (me_b64 (re_manifest L)) (rq_operator_delegation req) node_id (cx_now X)
        \<and> Option.bind (fst op) (operator_identity_active (st_repo S)) \<noteq> Some False
        \<and> operator_display_name_rejection L S (fst op) (rq_operator_display_name req) = None
        \<and> valid_availability (map (\<lambda>w. (ra_start w, ra_end w, ra_share w)) (rq_availability req))
        \<and> (case rq_pricing req of None \<Rightarrow> True | Some q \<Rightarrow> valid_pricing (pr_credit_cost_multiplier q) (pr_pricing_model q))
        \<and> p = make_pending X L req node_id op)"
  by (auto simp: prepare_registration_def Let_def split: option.splits sum.splits if_splits)

lemma rate_rejection_state [simp]:
  "st_repo (snd (registration_rate_rejection X h S)) = st_repo S" "st_env (snd (registration_rate_rejection X h S)) = st_env S"
  "st_strict_e050_secured (snd (registration_rate_rejection X h S)) = st_strict_e050_secured S"
  "st_allow_insecure_tls (snd (registration_rate_rejection X h S)) = st_allow_insecure_tls S"
  "st_skip_liveness_check (snd (registration_rate_rejection X h S)) = st_skip_liveness_check S"
  by (simp_all add: registration_rate_rejection_def Let_def case_prod_beta)

text \<open>The checks read nothing of the state that the rate limit writes.\<close>

lemma prepare_after_rate [simp]:
  "prepare_registration X L req (snd (registration_rate_rejection X h S)) = prepare_registration X L req S"
proof -
  let ?S = "snd (registration_rate_rejection X h S)"
  have "endpoint_verified L ?S req = endpoint_verified L S req"
    unfolding endpoint_verified_def rate_rejection_state ..
  moreover have "registration_control_rejection C L ?S req = registration_control_rejection C L S req" for C
    unfolding fun_eq_iff registration_control_rejection_def policy_manifest_lifecycle_rejection_def
      registration_ownership_rejection_def has_ownership_def rate_rejection_state by blast
  moreover have "operator_display_name_rejection L ?S = operator_display_name_rejection L S"
    unfolding fun_eq_iff operator_display_name_rejection_def rate_rejection_state by blast
  ultimately show ?thesis unfolding prepare_registration_def rate_rejection_state by (simp only:)
qed

lemma find_record_emit [simp]: "find_record (st_repo (emit_event X e t i pl S)) = find_record (st_repo S)"
  by (simp add: emit_event_def append_signed_event_def find_record_def fun_eq_iff Let_def split: option.split)

lemma find_record_upsert_operator [simp]:
  "find_record (upsert_operator_from_register now pk d c ih M) = find_record M"
  by (simp add: upsert_operator_from_register_def upsert_operator_def put_operator_def find_record_def fun_eq_iff
      split: option.split)

lemma commit_records:
  "find_record (st_repo (snd (commit_registration X h p S))) =
     (find_record (st_repo S))(record_id (pending_record p) \<mapsto>
        keep_reputation (find_record (st_repo S) (record_id (pending_record p))) (pending_record p))"
  by (simp add: commit_registration_def Let_def find_record_register observe_address_def)

lemma refusal_not_created:
  "validate_registration_request C L req = Some r \<Longrightarrow> fst r = 422"
  "registration_control_rejection C L S req i = Some r \<Longrightarrow> fst r \<noteq> 201"
  "operator_display_name_rejection L S pk d = Some r \<Longrightarrow> fst r = 422"
proof -
  have cap: "check_capabilities L ex va cs = Some r \<Longrightarrow> fst r = 422" for ex va cs
    by (induction L ex va cs rule: check_capabilities.induct)
      (auto simp: capability_fields_refusal_def reject_def policy_reject_def err_json_def split: if_splits option.splits)
  show "validate_registration_request C L req = Some r \<Longrightarrow> fst r = 422"
    using cap by (auto simp: validate_registration_request_def or_else_def validate_registration_shape_def
        validate_registration_profiles_and_exposure_def validate_registration_capabilities_def
        validate_registration_policy_manifest_def reject_def err_json_def Let_def split: if_splits option.splits sum.splits)
  show "registration_control_rejection C L S req i = Some r \<Longrightarrow> fst r \<noteq> 201"
    by (auto simp: registration_control_rejection_def or_else_def policy_manifest_lifecycle_rejection_def
        policy_key_lifecycle_status_def registration_ownership_rejection_def Let_def split: if_splits option.splits)
  show "operator_display_name_rejection L S pk d = Some r \<Longrightarrow> fst r = 422"
    by (auto simp: operator_display_name_rejection_def reject_def err_json_def split: if_splits option.splits)
qed

lemma prepare_Inl_not_created: "prepare_registration X L req S = Inl r \<Longrightarrow> fst r \<noteq> 201"
  by (auto simp: prepare_registration_def Let_def reject_def err_json_def dest: refusal_not_created
      split: option.splits sum.splits if_splits)

lemma register_handler_cases:
  assumes "register_handler X L h req S = (resp, S')"
  obtains (refused) "fst resp \<noteq> 201" "st_repo S' = st_repo S"
  | (created) p where "prepare_registration X L req S = Inr p" "fst resp = 201" "resp = register_response X h p"
      "S' = snd (commit_registration X h p (snd (registration_rate_rejection X h S)))"
proof -
  obtain rej S1 where rs: "registration_rate_rejection X h S = (rej, S1)" by fastforce
  have repo: "st_repo S1 = st_repo S" and prep: "prepare_registration X L req S1 = prepare_registration X L req S"
    using rate_rejection_state(1) [of X h S] prepare_after_rate [of X L req h S] rs by simp_all
  show ?thesis
  proof (cases rej)
    case (Some r)
    then have "r = rate_limited" using rs by (auto simp: registration_rate_rejection_def Let_def split: if_splits prod.splits)
    then show ?thesis using Some rs repo assms refused by (auto simp: register_handler_def rate_limited_def)
  next
    case None
    show ?thesis
    proof (cases "prepare_registration X L req S")
      case (Inl r)
      then show ?thesis using None rs repo prep assms refused prepare_Inl_not_created [OF Inl]
        by (auto simp: register_handler_def)
    next
      case (Inr p)
      have "(resp, S') = commit_registration X h p S1" using Inr None rs prep assms by (simp add: register_handler_def)
      then have "resp = register_response X h p" "S' = snd (commit_registration X h p S1)"
        by (auto simp: commit_registration_def Let_def)
      then show ?thesis using created [OF Inr] rs by (simp add: register_response_def)
    qed
  qed
qed

lemma validated_request:
  assumes "validate_registration_request C L req = None"
  shows "rq_capabilities req \<noteq> []" and "check_capabilities L [] [] (rq_capabilities req) = None"
    and "\<And>m. rq_policy_manifest req = Some m \<Longrightarrow> accepted_manifest (verify_manifest C (re_manifest L) m)"
  using assms
  by (auto simp: validate_registration_request_def validate_registration_shape_def validate_registration_capabilities_def
      validate_registration_policy_manifest_def Let_def split: if_splits sum.splits)

lemma pending_simps [simp]:
  "pe_node_id (make_pending X L req i op) = i" "pe_node_token (make_pending X L req i op) = cx_uuid X 1"
  "record_id (pending_record (make_pending X L req i op)) = i"
  "r_node (pending_record (make_pending X L req i op)) = registered_node L req i op"
  "r_node_token (pending_record (make_pending X L req i op)) = Some (cx_uuid X 1)"
  "r_intents (pending_record (make_pending X L req i op)) = map c_intent (rq_capabilities req)"
  by (simp_all add: make_pending_def pending_record_def registered_node_def)

lemma registered_node_simps [simp]:
  "n_node_id (registered_node L req i op) = i" "n_endpoint (registered_node L req i op) = rq_endpoint req"
  "n_available (registered_node L req i op)" "n_reputation_score (registered_node L req i op) = STARTING_SCORE"
  "n_public_key (registered_node L req i op) = rq_cx_public_key req"
  "n_operator_pubkey (registered_node L req i op) = fst op"
  by (simp_all add: registered_node_def)

lemma keep_reputation_simps [simp]:
  "n_endpoint (r_node (keep_reputation old rec)) = n_endpoint (r_node rec)"
  "n_available (r_node (keep_reputation old rec)) = n_available (r_node rec)"
  "n_public_key (r_node (keep_reputation old rec)) = n_public_key (r_node rec)"
  "r_node_token (keep_reputation old rec) = r_node_token rec" "r_intents (keep_reputation old rec) = r_intents rec"
  "n_reputation_score (r_node (keep_reputation old rec)) =
     (case old of None \<Rightarrow> n_reputation_score (r_node rec) | Some r \<Rightarrow> n_reputation_score (r_node r))"
  by (simp_all add: keep_reputation_def split: option.split)

lemma register_response_strings [simp]:
  "get_str (snd (register_response X h p)) ''node_id'' = Some (pe_node_id p)"
  "get_str (snd (register_response X h p)) ''node_token'' = Some (pe_node_token p)"
  by (simp_all add: register_response_def get_str_def)

text \<open>
  C3. A registration that is answered with 201 has passed every check, at least one capability,
  each with a well-formed intent that the public mesh does not refuse and no variant twice, a
  routable and verified endpoint, an acceptable policy manifest, and installs exactly one
  record: under the resolved id, with the requested endpoint and intents, available, holding
  the token that the response hands out, and with the reputation the node already had or the
  starting score. Every other answer leaves the repository as it was.
\<close>

theorem register_admission:
  assumes "register_handler X L h req S = (resp, S')"
  shows "(fst resp \<noteq> 201 \<longrightarrow> st_repo S' = st_repo S)
    \<and> (fst resp = 201 \<longrightarrow>
         (\<exists>i r. resolve_node_id (cx_uuid X 0) (rq_node_id req) = Inr i
            \<and> find_record (st_repo S') = (find_record (st_repo S))(i \<mapsto> r)
            \<and> n_endpoint (r_node r) = rq_endpoint req \<and> n_available (r_node r)
            \<and> r_intents r = map c_intent (rq_capabilities req)
            \<and> n_reputation_score (r_node r) =
                (case find_record (st_repo S) i of None \<Rightarrow> STARTING_SCORE | Some old \<Rightarrow> n_reputation_score (r_node old))
            \<and> get_str (snd resp) ''node_id'' = Some i \<and> get_str (snd resp) ''node_token'' = r_node_token r)
         \<and> rq_capabilities req \<noteq> [] \<and> distinct (filter_map variant_of (rq_capabilities req))
         \<and> (\<forall>c \<in> set (rq_capabilities req). validate_intent (c_intent c) \<and> public_mesh_refusal (c_intent c) = None)
         \<and> endpoint_routable (re_resolve L) (rq_endpoint req) (st_env S) = Inr () \<and> endpoint_verified L S req
         \<and> (\<forall>m. rq_policy_manifest req = Some m \<longrightarrow> accepted_manifest (verify_manifest (cx_crypto X) (re_manifest L) m)))"
  using assms
proof (cases rule: register_handler_cases)
  case (created p)
  let ?S1 = "snd (registration_rate_rejection X h S)"
  obtain i op where v: "validate_registration_request (cx_crypto X) L req = None"
      "endpoint_routable (re_resolve L) (rq_endpoint req) (st_env S) = Inr ()" "endpoint_verified L S req"
    and i: "resolve_node_id (cx_uuid X 0) (rq_node_id req) = Inr i" and p: "p = make_pending X L req i op"
    using created(1) unfolding prepare_registration_Inr by blast
  note caps = check_capabilities_None [OF validated_request(2) [OF v(1)]]
  let ?r = "keep_reputation (find_record (st_repo S) i) (pending_record p)"
  have "find_record (st_repo S') = (find_record (st_repo S))(i \<mapsto> ?r)"
    using created(4) commit_records [of X h p ?S1] p by simp
  moreover have "get_str (snd resp) ''node_id'' = Some i \<and> get_str (snd resp) ''node_token'' = r_node_token ?r"
    using created(3) p by simp
  ultimately have "\<exists>r. find_record (st_repo S') = (find_record (st_repo S))(i \<mapsto> r)
      \<and> n_endpoint (r_node r) = rq_endpoint req \<and> n_available (r_node r)
      \<and> r_intents r = map c_intent (rq_capabilities req)
      \<and> n_reputation_score (r_node r) =
          (case find_record (st_repo S) i of None \<Rightarrow> STARTING_SCORE | Some old \<Rightarrow> n_reputation_score (r_node old))
      \<and> get_str (snd resp) ''node_id'' = Some i \<and> get_str (snd resp) ''node_token'' = r_node_token r"
    using p by (intro exI [of _ ?r]) (simp split: option.split)
  then show ?thesis using created(2) i v validated_request [OF v(1)] caps by blast
qed simp

section \<open>Re-registration\<close>

lemma get_node_fields:
  assumes "find_record M i = Some old"
  obtains n where "get_node M i = Some n" "n_endpoint n = n_endpoint (r_node old)" "n_public_key n = n_public_key (r_node old)"
    "n_operator_pubkey n = n_operator_pubkey (r_node old)" "n_transport_endpoint n = n_transport_endpoint (r_node old)"
    "n_transport_metadata n = n_transport_metadata (r_node old)"
  using assms by (simp add: get_node_def node_view_def)

definition secured_record :: "NodeRecord \<Rightarrow> bool" where
  "secured_record r \<longleftrightarrow> n_operator_pubkey (r_node r) \<noteq> None \<or> n_public_key (r_node r) \<noteq> None"

lemma ownership_passed:
  assumes "registration_control_rejection C L S req i = None" and "find_record (st_repo S) i = Some old"
    and "\<not> has_ownership S req i"
  shows "\<not> (st_strict_e050_secured S \<and> secured_record old)"
    and "rq_cx_public_key req \<in> {None, Some JNull, n_public_key (r_node old)}"
    and "n_endpoint (r_node old) \<noteq> rq_endpoint req \<Longrightarrow>
      \<not> probe_endpoint_alive L (n_endpoint (r_node old)) (st_allow_insecure_tls S)"
proof -
  obtain n where n: "get_node (st_repo S) i = Some n" "n_endpoint n = n_endpoint (r_node old)"
      "n_public_key n = n_public_key (r_node old)" "n_operator_pubkey n = n_operator_pubkey (r_node old)"
    using get_node_fields [OF assms(2)] by metis
  have r: "registration_ownership_rejection L S req i = None" using assms(1) by (simp add: registration_control_rejection_def)
  then show "rq_cx_public_key req \<in> {None, Some JNull, n_public_key (r_node old)}"
    using n assms(3) by (auto simp: registration_ownership_rejection_def cx_changed_def Let_def split: if_splits option.splits)
  show "\<not> (st_strict_e050_secured S \<and> secured_record old)"
    using r n assms(3)
    by (auto simp: registration_ownership_rejection_def routing_change_allowed_def Let_def secured_record_def split: if_splits)
  then show "n_endpoint (r_node old) \<noteq> rq_endpoint req \<Longrightarrow>
      \<not> probe_endpoint_alive L (n_endpoint (r_node old)) (st_allow_insecure_tls S)"
    using r n assms(3)
    by (auto simp: registration_ownership_rejection_def routing_change_allowed_def endpoint_change_allowed_def Let_def
        secured_record_def split: if_splits)
qed

text \<open>
  C14. What one registration request can do to a node that is already registered. Without the
  node's current token it cannot move the node away from an endpoint that still answers, it
  cannot replace the node's public key by another one, and in strict mode it cannot change
  anything at all on a node that is bound to an operator or a key.
\<close>

theorem reregistration_guard:
  assumes "register_handler X L h req S = (resp, S')"
    and "find_record (st_repo S) i = Some old" and "find_record (st_repo S') i = Some new"
    and "\<not> (\<exists>t. rq_current_node_token req = Some t \<and> verify_node_token (st_repo S) i t)"
  shows "(n_endpoint (r_node new) \<noteq> n_endpoint (r_node old) \<longrightarrow>
            \<not> probe_endpoint_alive L (n_endpoint (r_node old)) (st_allow_insecure_tls S))
    \<and> n_public_key (r_node new) \<in> {None, Some JNull, n_public_key (r_node old)}
    \<and> (st_strict_e050_secured S \<and> secured_record old \<longrightarrow> new = old)"
  using assms(1)
proof (cases rule: register_handler_cases)
  case refused
  then show ?thesis using assms(2,3) by simp
next
  case (created p)
  obtain j op where c: "registration_control_rejection (cx_crypto X) L S req j = None" and p: "p = make_pending X L req j op"
    using created(1) unfolding prepare_registration_Inr by blast
  have rec: "find_record (st_repo S') = (find_record (st_repo S))(j \<mapsto> keep_reputation (find_record (st_repo S) j) (pending_record p))"
    using created(4) commit_records [of X h p "snd (registration_rate_rejection X h S)"] p by simp
  show ?thesis
  proof (cases "i = j")
    case True
    have "\<not> has_ownership S req i" using assms(4) by (auto simp: has_ownership_def nonempty_def split: option.splits if_splits)
    note own = ownership_passed [OF c [folded True] assms(2) this]
    have "new = keep_reputation (Some old) (pending_record p)" using rec assms(2,3) True by simp
    then show ?thesis using own p by (auto simp: eq_commute)
  next
    case False
    then show ?thesis using rec assms(2,3) by simp
  qed
qed

lemma verify_tokens_kept [simp]:
  "m_verify_tokens (st_repo (snd (commit_registration X h p S))) = m_verify_tokens (st_repo S)"
  by (simp add: commit_registration_def Let_def observe_address_def emit_event_def append_signed_event_def register_def
      update_record_def upsert_operator_from_register_def upsert_operator_def put_operator_def split: option.split)

lemma created_token:
  assumes "register_handler X L h req S = (resp, S')" and "fst resp = 201"
    and "resolve_node_id (cx_uuid X 0) (rq_node_id req) = Inr i"
  shows "get_str (snd resp) ''node_token'' = Some (cx_uuid X 1)"
    and "verify_node_token (st_repo S') i t \<longleftrightarrow> \<not> m_verify_tokens (st_repo S) \<or> t = cx_uuid X 1"
proof -
  obtain p where prep: "prepare_registration X L req S = Inr p" and resp: "resp = register_response X h p"
    and S': "S' = snd (commit_registration X h p (snd (registration_rate_rejection X h S)))"
    using assms(1) by (rule register_handler_cases) (use assms(2) in auto)
  obtain op where p: "p = make_pending X L req i op"
    using prep assms(3) unfolding prepare_registration_Inr by auto
  have rec: "find_record (st_repo S') i = Some (keep_reputation (find_record (st_repo S) i) (pending_record p))"
    using S' commit_records [of X h p "snd (registration_rate_rejection X h S)"] p by simp
  have mv: "m_verify_tokens (st_repo S') = m_verify_tokens (st_repo S)" using S' by simp
  show "get_str (snd resp) ''node_token'' = Some (cx_uuid X 1)" using resp p by simp
  show "verify_node_token (st_repo S') i t \<longleftrightarrow> \<not> m_verify_tokens (st_repo S) \<or> t = cx_uuid X 1"
    using rec mv p by (auto simp: verify_node_token_def)
qed

text \<open>
  The guard looks at one request at a time. A registration of a known node id that changes
  nothing, which anyone can send with the data the directory publishes, is answered with a
  fresh node token; the old token stops working, and the fresh one passes the ownership check
  of a second registration with any endpoint and any key. Two requests take a node over,
  unless strict mode protects it.
\<close>

theorem reregistration_takeover:
  assumes "register_handler X L h req S = (resp, S')" and "fst resp = 201"
    and "rq_current_node_token req = None" and "resolve_node_id (cx_uuid X 0) (rq_node_id req) = Inr i"
    and "find_record (st_repo S) i = Some old" and "m_verify_tokens (st_repo S)"
    and "cx_uuid X 1 \<noteq> []" and "r_node_token old = Some t" and "t \<noteq> cx_uuid X 1"
    and "rq_current_node_token req2 = get_str (snd resp) ''node_token''"
  shows "\<not> verify_node_token (st_repo S') i t \<and> has_ownership S' req2 i
    \<and> registration_ownership_rejection L2 S' req2 i = None"
proof -
  note tok = created_token [OF assms(1,2,4)]
  have own: "has_ownership S' req2 i" using assms(7,10) tok by (simp add: has_ownership_def nonempty_def)
  then have "registration_ownership_rejection L2 S' req2 i = None"
    by (simp add: registration_ownership_rejection_def routing_change_allowed_def Let_def split: option.split)
  then show ?thesis using own tok(2) [of t] assms(6,9) by simp
qed

section \<open>A sample registration\<close>

definition sample_capability :: EffectiveCapability where
  "sample_capability =
     \<lparr>c_intent = ''urn:iicp:intent:llm:chat:v1'', c_version = None, c_phase = None, c_variant_id = Some ''v'', c_models = [''m''],
      c_max_tokens = None, c_quantization = None, c_inference_engine = None, c_input_modalities = [''text''],
      c_output_modalities = [], c_features = [], c_execution_capabilities = [], c_limits = [],
      c_supported_profiles = [''urn:iicp:profile:p''], c_claim_provenance = None, c_extensions = []\<rparr>"

definition sample_register :: "string \<Rightarrow> RegisterRequest" where
  "sample_register endpoint =
     \<lparr>rq_node_id = Some ''a'', rq_endpoint = endpoint, rq_current_node_token = None, rq_region = None,
      rq_capabilities = [sample_capability], rq_nat_type = None, rq_transport_method = None, rq_exposure_mode = None,
      rq_relay_capable = None, rq_transport_endpoint = None, rq_sdk_language = None, rq_implementation_name = None,
      rq_implementation_version = None, rq_sdk_compatibility_version = None, rq_sdk_version = None,
      rq_supported_receipt_profiles = [], rq_backend = None, rq_cx_public_key = None, rq_transport_metadata = None,
      rq_policy_manifest = None, rq_operator_delegation = None, rq_operator_display_name = None,
      rq_operator_created_at = None, rq_operator_integrity_hash = None, rq_listing = None, rq_availability = [],
      rq_pricing = None\<rparr>"

definition sample_register_env :: register_env where
  "sample_register_env =
     \<lparr>re_manifest = \<lparr>me_b64 = (\<lambda>_. None), me_b64url = (\<lambda>_. None), me_rfc3339 = (\<lambda>_. None), me_now = 0\<rparr>,
      re_resolve = sample_resolver, re_http_ok = (\<lambda>_ _. True), re_lower = (\<lambda>s. s), re_iter = (\<lambda>xs. xs),
      re_capability_text = c_intent\<rparr>"

lemma sample_checks:
  "validate_registration_request demo_crypto sample_register_env (sample_register ''https://node.example.org'') = None"
  "endpoint_routable sample_resolver ''https://node.example.org'' Production = Inr ()"
  "resolve_node_id u (Some ''a'') = Inr ''a''"
  by code_simp+

lemma sample_registered:
  assumes "st_env S = Production" "st_register_rate S = []"
    and "registration_ownership_rejection sample_register_env S (sample_register ''https://node.example.org'') ''a'' = None"
  shows "fst (fst (register_handler demo_context sample_register_env h (sample_register ''https://node.example.org'') S)) = 201"
proof -
  let ?req = "sample_register ''https://node.example.org''"
  have rq: "rq_node_id ?req = Some ''a''" "rq_endpoint ?req = ''https://node.example.org''" "rq_policy_manifest ?req = None"
      "rq_operator_delegation ?req = None" "rq_availability ?req = []" "rq_pricing ?req = None"
    by (simp_all add: sample_register_def)
  have cx: "cx_crypto demo_context = demo_crypto" by (simp add: demo_context_def)
  have env: "re_resolve sample_register_env = sample_resolver" by (simp add: sample_register_env_def)
  have "registration_control_rejection demo_crypto sample_register_env S ?req ''a'' = None"
    using assms(3) rq(3) by (simp add: registration_control_rejection_def policy_manifest_lifecycle_rejection_def)
  moreover have "endpoint_verified sample_register_env S ?req"
    by (simp add: endpoint_verified_def probe_endpoint_alive_def sample_register_env_def)
  moreover have "valid_availability []" by (simp add: valid_availability_def)
  ultimately have "prepare_registration demo_context sample_register_env ?req S =
      Inr (make_pending demo_context sample_register_env ?req ''a'' (None, False, None))"
    unfolding prepare_registration_Inr cx
    using sample_checks assms(1) rq env
    by (intro exI [of _ "''a''"] exI [of _ "(None, False, None)"])
      (simp add: evaluate_delegation_def operator_display_name_rejection_def)
  then show ?thesis
    using assms(2) prepare_after_rate [of demo_context sample_register_env ?req h S]
    by (simp add: register_handler_def registration_rate_rejection_def register_rate_step_def REGISTER_RATE_LIMIT_def
        Let_def commit_registration_def register_response_def)
qed

theorem register_admission_witness:
  "let (resp, S') = register_handler demo_context sample_register_env (\<lambda>_. None) (sample_register ''https://node.example.org'') (demo_state [])
   in fst resp = 201 \<and> (\<exists>r. find_record (st_repo S') ''a'' = Some r \<and> n_endpoint (r_node r) = ''https://node.example.org''
        \<and> n_reputation_score (r_node r) = STARTING_SCORE)"
proof -
  have none: "find_record (st_repo (demo_state [])) = (\<lambda>_. None)"
    by (simp add: demo_state_def new_with_token_verification_def new_repo_def find_record_def fun_eq_iff)
  then have "registration_ownership_rejection sample_register_env (demo_state []) (sample_register ''https://node.example.org'') ''a'' = None"
    by (simp add: registration_ownership_rejection_def get_node_def)
  then have ok: "fst (fst (register_handler demo_context sample_register_env (\<lambda>_. None) (sample_register ''https://node.example.org'') (demo_state []))) = 201"
    by (intro sample_registered) (simp_all add: demo_state_def)
  have rq: "rq_node_id (sample_register e) = Some ''a''" "rq_endpoint (sample_register e) = e" for e by (simp_all add: sample_register_def)
  show ?thesis
    using register_admission [OF prod.collapse [symmetric],
        of demo_context sample_register_env "\<lambda>_. None" "sample_register ''https://node.example.org''" "demo_state []"] ok
    by (simp add: case_prod_beta rq sample_checks(3) none) fastforce
qed

definition victim :: "string \<Rightarrow> NodeRecord" where
  "victim endpoint = update_node (\<lambda>n. n\<lparr>n_endpoint := endpoint\<rparr>) (demo_node_record ''a'' ''ta'')"

lemma victim_found:
  "find_record (st_repo (demo_state [victim e])) ''a'' = Some (victim e)" "n_endpoint (r_node (victim e)) = e"
  "r_node_token (victim e) = Some ''ta''" "m_verify_tokens (st_repo (demo_state [victim e]))"
  by (simp_all add: victim_def demo_state_def new_with_token_verification_def new_repo_def find_record_def
      demo_node_record_def blank_record_def blank_node_def)

lemma registration_keeps_known:
  assumes "register_handler X L h req S = (resp, S')" "find_record (st_repo S) i = Some old"
  shows "\<exists>new. find_record (st_repo S') i = Some new"
  using assms(1)
  by (cases rule: register_handler_cases) (use assms(2) in \<open>auto simp: commit_records\<close>)

theorem reregistration_guard_witness:
  "n_endpoint (r_node (the (find_record (st_repo (snd (register_handler demo_context sample_register_env (\<lambda>_. None)
      (sample_register ''https://node.example.org'') (demo_state [victim ''https://n.example.org''])))) ''a''))) = ''https://n.example.org''"
proof -
  let ?S = "demo_state [victim ''https://n.example.org'']" and ?req = "sample_register ''https://node.example.org''"
  let ?r = "register_handler demo_context sample_register_env (\<lambda>_. None) ?req ?S"
  have eq: "?r = (fst ?r, snd ?r)" by simp
  obtain new where new: "find_record (st_repo (snd ?r)) ''a'' = Some new"
    using registration_keeps_known [OF eq victim_found(1)] by blast
  have "rq_current_node_token ?req = None" by (simp add: sample_register_def)
  moreover have "probe_endpoint_alive sample_register_env e b" for e b by (simp add: probe_endpoint_alive_def sample_register_env_def)
  ultimately show ?thesis
    using reregistration_guard [OF eq victim_found(1) new] new by (simp add: victim_found)
qed

theorem reregistration_takeover_witness:
  "let (resp, S') = register_handler demo_context sample_register_env (\<lambda>_. None) (sample_register ''https://node.example.org'')
         (demo_state [victim ''https://node.example.org'']);
       moved = (sample_register ''https://other.example.org'')\<lparr>rq_current_node_token := get_str (snd resp) ''node_token''\<rparr>
   in fst resp = 201 \<and> \<not> verify_node_token (st_repo S') ''a'' ''ta''
      \<and> registration_ownership_rejection sample_register_env S' moved ''a'' = None"
proof -
  let ?S = "demo_state [victim ''https://node.example.org'']" and ?req = "sample_register ''https://node.example.org''"
  let ?r = "register_handler demo_context sample_register_env (\<lambda>_. None) ?req ?S"
  let ?moved = "(sample_register ''https://other.example.org'')\<lparr>rq_current_node_token := get_str (snd (fst ?r)) ''node_token''\<rparr>"
  have rq: "rq_node_id ?req = Some ''a''" "rq_current_node_token ?req = None" "rq_endpoint ?req = ''https://node.example.org''"
      "rq_cx_public_key ?req = None" "rq_transport_endpoint ?req = None" "rq_transport_metadata ?req = None"
    by (simp_all add: sample_register_def)
  have "get_node (st_repo ?S) ''a'' = Some (node_view (victim ''https://node.example.org''))" by (simp add: get_node_def victim_found)
  then have "registration_ownership_rejection sample_register_env ?S ?req ''a'' = None"
    using rq by (simp add: registration_ownership_rejection_def Let_def cx_changed_def routing_change_allowed_def node_view_def
        victim_def demo_node_record_def blank_record_def blank_node_def has_ownership_def nonempty_def relay_endpoint_def
        demo_state_def)
  then have ok: "fst (fst ?r) = 201" by (intro sample_registered) (simp_all add: demo_state_def)
  have u: "cx_uuid demo_context 1 = ''u1''" by code_simp
  have res: "resolve_node_id (cx_uuid demo_context 0) (rq_node_id ?req) = Inr ''a''" by (simp add: rq sample_checks(3))
  have ne: "cx_uuid demo_context 1 \<noteq> []" "''ta'' \<noteq> cx_uuid demo_context 1" unfolding u by simp_all
  have tok: "rq_current_node_token ?moved = get_str (snd (fst ?r)) ''node_token''" by simp
  show ?thesis
    using reregistration_takeover [OF prod.collapse [symmetric] ok rq(2) res victim_found(1) victim_found(4) ne(1) victim_found(3) ne(2) tok,
        of sample_register_env] ok
    by (simp only: case_prod_beta Let_def) simp
qed

end
