(* ===== verification/Heartbeat.thy ===== *)
theory Heartbeat
  imports Lifecycle Recognition
begin

text \<open>
  The authenticated heartbeat and the founders' board, \<open>src/node_lifecycle.rs\<close>. The heartbeat
  is a guarded endpoint: it clamps what a node reports about itself, feeds the reputation
  engine, answers the liveness challenge of the previous heartbeat and issues the next one.
\<close>

record HeartbeatMetrics =
  hm_tasks_success :: u32
  hm_tasks_failed :: u32
  hm_avg_latency_ms :: f64

definition HeartbeatMetrics_default :: HeartbeatMetrics where
  "HeartbeatMetrics_default = \<lparr>hm_tasks_success = 0, hm_tasks_failed = 0, hm_avg_latency_ms = 0\<rparr>"

record HeartbeatPricing =
  hp_credit_cost_multiplier :: "f64 option"
  hp_pricing_model :: "string option"

record HeartbeatRequest =
  hq_node_id :: string
  hq_challenge_response :: "string option"
  hq_load :: f64
  hq_available :: "bool option"
  hq_active_jobs :: "u32 option"
  hq_metrics :: "HeartbeatMetrics option"
  hq_metrics_batch_id :: "string option"
  hq_pricing :: "HeartbeatPricing option"
  hq_health_models :: "string list option"

text \<open>The in-memory repository keeps no prices and no plain event log.\<close>

definition update_pricing :: "string \<Rightarrow> f64 \<Rightarrow> string option \<Rightarrow> InMemoryRepo \<Rightarrow> InMemoryRepo" where
  "update_pricing node_id multiplier model M = M"

definition log_event :: "string \<Rightarrow> string \<Rightarrow> string \<Rightarrow> InMemoryRepo \<Rightarrow> InMemoryRepo" where
  "log_event node_id event_type payload M = M"

definition invalid_batch_id :: "string option \<Rightarrow> bool" where
  "invalid_batch_id b = invalid_opt (\<lambda>i. i \<noteq> [] \<and> length i \<le> 64 \<and> list_all (\<lambda>c. 33 \<le> code c \<and> code c \<le> 126) i) b"

text \<open>The success and failure counts of a heartbeat, each capped at a thousand.\<close>

definition capped_tasks :: "HeartbeatRequest \<Rightarrow> u32 \<times> u32" where
  "capped_tasks req =
     (let m = unwrap_or HeartbeatMetrics_default (hq_metrics req)
      in (min (hm_tasks_success m) 1000, min (hm_tasks_failed m) 1000))"

definition heartbeat_input :: "HeartbeatRequest \<Rightarrow> HeartbeatInput" where
  "heartbeat_input req =
     (let m = unwrap_or HeartbeatMetrics_default (hq_metrics req);
          (tasks_success, tasks_failed) = capped_tasks req
      in \<lparr>hb_load = fclamp 0 1 (hq_load req), hb_available = unwrap_or True (hq_available req),
          hb_active_jobs = unwrap_or 0 (hq_active_jobs req), hb_tasks_delta = tasks_success + tasks_failed,
          hb_tasks_failed_delta = tasks_failed,
          hb_delta = compute_delta tasks_success tasks_failed (max (hm_avg_latency_ms m) 0),
          hb_metrics_batch_id = hq_metrics_batch_id req, hb_health_models = hq_health_models req\<rparr>)"

text \<open>The pricing block: refused when its model is unknown, else written through to the repository.\<close>

definition heartbeat_pricing :: "HeartbeatRequest \<Rightarrow> InMemoryRepo \<Rightarrow> response + InMemoryRepo" where
  "heartbeat_pricing req M =
     (case hq_pricing req of
        None \<Rightarrow> Inr M
      | Some pricing \<Rightarrow>
          if invalid_opt (\<lambda>pm. pm \<in> set PRICING_MODELS) (hp_pricing_model pricing)
          then Inl (reject ''validation_error'' (''invalid pricing_model: '' @ unwrap_or [] (hp_pricing_model pricing)))
          else case hp_credit_cost_multiplier pricing of
            None \<Rightarrow> Inr M
          | Some multiplier \<Rightarrow>
              (let models = (case node_by_prefix M (hq_node_id req) of
                               Some n \<Rightarrow> if n_node_id n = hq_node_id req then n_models n else []
                             | None \<Rightarrow> [])
               in Inr (update_pricing (hq_node_id req) (bounded_pricing models (Some multiplier)) (hp_pricing_model pricing) M)))"

definition heartbeat_response :: "HeartbeatRequest \<Rightarrow> HeartbeatOutcome \<Rightarrow> string \<Rightarrow> f64 \<Rightarrow> response" where
  "heartbeat_response req outcome next_challenge free_credits =
     (200, JObj ([(''ok'', JBool True), (''next_heartbeat_ms'', JInt 30000), (''reputation_score'', JFloat (r4 (h_score outcome))),
        (''reputation_model'', JStr (h_reputation_model outcome)), (''reputation_epoch'', opt_string (h_reputation_epoch outcome)),
        (''metrics_batch_accepted'', opt_string (hq_metrics_batch_id req)), (''challenge'', JStr next_challenge)]
        @ (if free_credits > 0 then [(''free_credits_awarded'', JFloat free_credits)] else [])))"

definition update_payload :: "crypto \<Rightarrow> u32 \<times> u32 \<Rightarrow> f64 \<Rightarrow> string" where
  "update_payload C tasks score =
     json_text C (JObj [(''source'', JStr ''heartbeat_metrics''), (''tasks_success'', JInt (uint (fst tasks))),
        (''tasks_failed'', JInt (uint (snd tasks))), (''reputation_score'', JFloat score)])"

definition heartbeat_handler :: "RequestContext \<Rightarrow> headers \<Rightarrow> HeartbeatRequest \<Rightarrow> AppState \<Rightarrow> response \<times> AppState" where
  "heartbeat_handler X headers req S =
     (case bearer_token headers of
        None \<Rightarrow> (missing_node_token, S)
      | Some token \<Rightarrow>
          if \<not> verify_node_token (st_repo S) (hq_node_id req) token then (invalid_node_token, S)
          else if invalid_batch_id (hq_metrics_batch_id req)
          then (reject ''validation_error'' ''invalid metrics_batch_id'', S)
          else
            (let i = hq_node_id req;
                 hb = heartbeat_input req;
                 M1 = observe_address i (get_client_ip headers) ''heartbeat'' (st_repo S)
             in case heartbeat_pricing req M1 of
                  Inl r \<Rightarrow> (r, S\<lparr>st_repo := M1\<rparr>)
                | Inr M2 \<Rightarrow>
                    (case heartbeat i hb M2 of
                       (None, M3) \<Rightarrow> (err_json 404 ''IICP-E003'' ''node not registered'', S\<lparr>st_repo := M3\<rparr>)
                     | (Some outcome, M3) \<Rightarrow>
                         (let next_challenge = uuid_hex (cx_uuid X 0)
                          in case verify_and_rotate_liveness_challenge (cx_crypto X) (cx_hmac_verify X) i
                                    (hq_challenge_response req) next_challenge M3 of
                               (None, M4) \<Rightarrow>
                                 (err_json 500 ''internal_error'' ''heartbeat liveness state could not be persisted'', S\<lparr>st_repo := M4\<rparr>)
                             | (Some _, M4) \<Rightarrow>
                                 (let M5 = (if hb_tasks_delta hb > 0 \<and> h_metrics_applied outcome
                                            then log_event i ''REPUTATION_UPDATE'' (update_payload (cx_crypto X) (capped_tasks req) (h_score outcome)) M4
                                            else M4)
                                  in (heartbeat_response req outcome next_challenge (maybe_allocate_free_credits M5 i),
                                      S\<lparr>st_repo := M5\<rparr>))))))"

section \<open>The founders' board\<close>

type_synonym operator_order = "(string, OperatorRow) hashmap \<Rightarrow> (string, OperatorRow) hashmap"

definition founder_json :: "nat \<Rightarrow> FounderEntry \<Rightarrow> json" where
  "founder_json i f =
     JObj [(''place'', JInt (int i + 1)), (''display_name'', opt_string (f_display_name f)), (''ordinal'', JInt (f_ordinal f)),
           (''tier'', opt_string (f_tier f)), (''badge'', opt_string (f_badge f))]"

definition pending_json :: "i64 \<Rightarrow> nat \<Rightarrow> nat \<Rightarrow> string option \<times> i64 \<Rightarrow> json" where
  "pending_json now_ms locked_count i p =
     (let elapsed = max (now_ms - snd p) 0;
          remaining_ms = max (LOCKIN_MIN_AGE_MS - elapsed) 0
      in JObj [(''display_name'', opt_string (fst p)), (''projected_ordinal'', JInt (int (locked_count + i) + 1)),
               (''days_remaining'', JInt ((remaining_ms + 86400000 - 1) div 86400000)), (''provisional'', JBool True)])"

definition enumerate_map :: "(nat \<Rightarrow> 'a \<Rightarrow> 'b) \<Rightarrow> 'a list \<Rightarrow> 'b list" where
  "enumerate_map f xs = map (\<lambda>(i, x). f i x) (enumerate 0 xs)"

definition leaderboard :: "RequestContext \<Rightarrow> operator_order \<Rightarrow> string \<Rightarrow> AppState \<Rightarrow> response" where
  "leaderboard X iter board_id S =
     (if board_id \<noteq> ''founders'' then err_json 404 ''IICP-E050'' ''unknown or not-yet-computed leaderboard''
      else
        (let founders = list_founders iter 100 (st_repo S);
             pending = list_pending_founders iter 25 (st_repo S)
         in (200, JObj [(''board_id'', JStr ''founders''), (''title'', JStr ''Founding Cohort''),
               (''count'', JInt (int (length founders))), (''entries'', JArr (enumerate_map founder_json founders)),
               (''pending'', JArr (enumerate_map (pending_json (cx_now_ms X) (length founders)) pending))])))"

section \<open>What a heartbeat can do\<close>

interpretation beat: guarded_endpoint "heartbeat_handler X" "\<lambda>h r. Some (hq_node_id r)" for X
  by unfold_locales (auto simp: heartbeat_handler_def guard_defs split: option.splits)

lemma heartbeat_pricing_Inr: "heartbeat_pricing req M = Inr M' \<Longrightarrow> M' = M"
  by (auto simp: heartbeat_pricing_def update_pricing_def Let_def split: option.splits if_splits)

lemma heartbeat_pricing_Inl: "heartbeat_pricing req M = Inl r \<Longrightarrow> fst r = 422"
  by (auto simp: heartbeat_pricing_def reject_def err_json_def Let_def split: option.splits if_splits)

lemma heartbeat_input_bounds:
  "0 \<le> hb_load (heartbeat_input req)" "hb_load (heartbeat_input req) \<le> 1"
  "hb_delta (heartbeat_input req) \<le> MAX_POSITIVE_DELTA_PER_HEARTBEAT"
  "hb_metrics_batch_id (heartbeat_input req) = hq_metrics_batch_id req"
  using fclamp_bounds [of 0 1 "hq_load req"]
  by (simp_all add: heartbeat_input_def Let_def case_prod_beta compute_delta_le)

text \<open>The sum of the two capped counters does not wrap.\<close>

lemma heartbeat_tasks_bound: "unat (hb_tasks_delta (heartbeat_input req)) \<le> 2000"
proof -
  let ?m = "unwrap_or HeartbeatMetrics_default (hq_metrics req)"
  have s: "min (hm_tasks_success ?m) 1000 \<le> 1000" "min (hm_tasks_failed ?m) 1000 \<le> 1000" by simp_all
  then have "unat (min (hm_tasks_success ?m) 1000) \<le> 1000" "unat (min (hm_tasks_failed ?m) 1000) \<le> 1000"
    unfolding word_le_nat_alt by simp_all
  then have "unat (min (hm_tasks_success ?m) 1000 + min (hm_tasks_failed ?m) 1000) \<le> 2000"
    by (simp add: unat_word_ariths take_bit_eq_mod)
  then show ?thesis by (simp add: heartbeat_input_def capped_tasks_def Let_def)
qed

lemma find_record_rotate [simp]:
  "find_record (snd (verify_and_rotate_liveness_challenge C hv i c n M)) = find_record M"
  by (simp add: verify_and_rotate_liveness_challenge_def find_record_def Let_def fun_eq_iff split: option.split)

lemma rotate_challenge:
  "find_record M i = Some r \<Longrightarrow>
     (\<exists>b. fst (verify_and_rotate_liveness_challenge C hv i c n M) = Some b)
     \<and> map_of (m_liveness_challenges (snd (verify_and_rotate_liveness_challenge C hv i c n M))) i = Some n"
  by (simp add: verify_and_rotate_liveness_challenge_def Let_def)

lemma heartbeat_accepted:
  assumes "bearer_token h = Some t" "verify_node_token (st_repo S) (hq_node_id req) t"
    and "\<not> invalid_batch_id (hq_metrics_batch_id req)" "heartbeat_pricing req (st_repo S) = Inr (st_repo S)"
    and "find_record (st_repo S) (hq_node_id req) = Some r"
  obtains outcome b M3 M4 where
    "heartbeat (hq_node_id req) (heartbeat_input req) (st_repo S) = (Some outcome, M3)"
    "verify_and_rotate_liveness_challenge (cx_crypto X) (cx_hmac_verify X) (hq_node_id req) (hq_challenge_response req)
       (uuid_hex (cx_uuid X 0)) M3 = (Some b, M4)"
    "heartbeat_handler X h req S =
       (heartbeat_response req outcome (uuid_hex (cx_uuid X 0)) (maybe_allocate_free_credits M4 (hq_node_id req)), S\<lparr>st_repo := M4\<rparr>)"
proof -
  let ?i = "hq_node_id req" and ?hb = "heartbeat_input req" and ?n = "uuid_hex (cx_uuid X 0)"
  obtain outcome M3 where hb: "heartbeat ?i ?hb (st_repo S) = (Some outcome, M3)"
    using assms(5) by (auto simp: heartbeat_def Let_def case_prod_beta)
  have "find_record M3 ?i \<noteq> None" using assms(5) hb find_record_heartbeat [of ?i ?hb "st_repo S"] by simp
  then obtain r3 where "find_record M3 ?i = Some r3" by blast
  then obtain b M4 where
    v: "verify_and_rotate_liveness_challenge (cx_crypto X) (cx_hmac_verify X) ?i (hq_challenge_response req) ?n M3 = (Some b, M4)"
    by (auto simp: verify_and_rotate_liveness_challenge_def)
  have "heartbeat_handler X h req S =
      (heartbeat_response req outcome ?n (maybe_allocate_free_credits M4 ?i), S\<lparr>st_repo := M4\<rparr>)"
    using assms hb v by (simp add: heartbeat_handler_def observe_address_def log_event_def Let_def)
  then show ?thesis using that hb v by blast
qed

lemma heartbeat_handler_cases:
  assumes "heartbeat_handler X h req S = (resp, S')"
  obtains (refused) "fst resp \<in> {401, 422}" "st_repo S' = st_repo S"
  | (unknown) "fst resp = 404" "find_record (st_repo S) (hq_node_id req) = None" "st_repo S' = st_repo S"
  | (beaten) outcome r where "find_record (st_repo S) (hq_node_id req) = Some r"
      "fst (heartbeat (hq_node_id req) (heartbeat_input req) (st_repo S)) = Some outcome"
      "st_repo S' = snd (verify_and_rotate_liveness_challenge (cx_crypto X) (cx_hmac_verify X) (hq_node_id req)
         (hq_challenge_response req) (uuid_hex (cx_uuid X 0)) (snd (heartbeat (hq_node_id req) (heartbeat_input req) (st_repo S))))"
      "resp = heartbeat_response req outcome (uuid_hex (cx_uuid X 0)) (maybe_allocate_free_credits (st_repo S') (hq_node_id req))"
proof (cases "authorised h (Some (hq_node_id req)) S")
  case False
  then show ?thesis using beat.refuses [of h req S X] beat.refusal_status [of h req S X] assms refused by simp
next
  case True
  let ?i = "hq_node_id req" and ?hb = "heartbeat_input req" and ?n = "uuid_hex (cx_uuid X 0)"
  obtain t where t: "bearer_token h = Some t" "verify_node_token (st_repo S) ?i t" using True by (auto simp: authorised_iff)
  show ?thesis
  proof (cases "invalid_batch_id (hq_metrics_batch_id req)")
    case True
    then show ?thesis using t assms refused by (auto simp: heartbeat_handler_def reject_def err_json_def)
  next
    case batch: False
    show ?thesis
    proof (cases "heartbeat_pricing req (st_repo S)")
      case (Inl r)
      then show ?thesis using t batch assms refused heartbeat_pricing_Inl [OF Inl]
        by (auto simp: heartbeat_handler_def observe_address_def)
    next
      case (Inr M2)
      then have M2: "heartbeat_pricing req (st_repo S) = Inr (st_repo S)" using heartbeat_pricing_Inr by blast
      show ?thesis
      proof (cases "find_record (st_repo S) ?i")
        case None
        then have "heartbeat ?i ?hb (st_repo S) = (None, st_repo S)" by (simp add: heartbeat_def)
        then have "heartbeat_handler X h req S = (err_json 404 ''IICP-E003'' ''node not registered'', S)"
          using t batch M2 by (simp add: heartbeat_handler_def observe_address_def Let_def)
        then show ?thesis using assms None by (intro unknown) (auto simp: err_json_def)
      next
        case (Some r)
        show ?thesis
        proof (rule heartbeat_accepted [OF t batch M2 Some])
          fix outcome b M3 M4
          assume "heartbeat ?i ?hb (st_repo S) = (Some outcome, M3)"
            and "verify_and_rotate_liveness_challenge (cx_crypto X) (cx_hmac_verify X) ?i (hq_challenge_response req) ?n M3 = (Some b, M4)"
            and "heartbeat_handler X h req S =
              (heartbeat_response req outcome ?n (maybe_allocate_free_credits M4 ?i), S\<lparr>st_repo := M4\<rparr>)"
          then show ?thesis using assms by (intro beaten [OF Some]) auto
        qed
      qed
    qed
  qed
qed


definition sample_beat :: HeartbeatRequest where
  "sample_beat =
     \<lparr>hq_node_id = ''a'', hq_challenge_response = None, hq_load = 7, hq_available = None, hq_active_jobs = None,
      hq_metrics = Some \<lparr>hm_tasks_success = 5000, hm_tasks_failed = 0, hm_avg_latency_ms = 0\<rparr>,
      hq_metrics_batch_id = None, hq_pricing = None, hq_health_models = None\<rparr>"


text \<open>The board projects a lock-in within thirty days, and zero days exactly when it is due.\<close>

lemma days_remaining_bounds:
  assumes "first_seen \<le> now"
  shows "get_i64 (pending_json now k i (name, first_seen)) ''days_remaining'' \<in> Some ` {0..30}"
    and "get_i64 (pending_json now k i (name, first_seen)) ''days_remaining'' = Some 0 \<longleftrightarrow> now - first_seen \<ge> LOCKIN_MIN_AGE_MS"
  using assms by (auto simp: pending_json_def Let_def get_i64_def LOCKIN_MIN_AGE_MS_def image_iff)

end
