(* ===== verification/Operator_Service.thy ===== *)
theory Operator_Service
  imports Operators Delegation Access Policy_Manifest
begin

text \<open>
  The operator endpoints of \<open>src/operator.rs\<close>: signed renames, one-use challenges, and the
  signed self-service requests (acceptance of terms, data-subject requests, key rotation and
  revocation).

  The challenges are a process-wide table beside the application state. \<open>operator_env\<close> holds
  what comes from outside: strict base64 decoding, the bytes of a fresh UUID, the RFC 3339 text
  of a time, and the two environment variables with the current document versions. Every
  response of the self-service endpoints carries \<open>Cache-Control: no-store\<close>; the model keeps
  status and body. Signed 64-bit subtraction and absolute value wrap, as in a release build.
\<close>

record operator_env =
  oe_b64 :: "string \<Rightarrow> string option"
  oe_uuid_bytes :: string
  oe_rfc3339 :: "i64 \<Rightarrow> string option"
  oe_terms :: "string option"
  oe_dpa :: "string option"

record OperatorState =
  os_app :: AppState
  os_challenges :: "(string, u64) hashmap"

definition OPERATOR_CHALLENGE_TTL_SECS :: u64 where
  "OPERATOR_CHALLENGE_TTL_SECS = 300"

definition OPERATOR_TS_WINDOW_SECS :: i64 where
  "OPERATOR_TS_WINDOW_SECS = 300"

definition RENAME_TS_WINDOW :: i64 where
  "RENAME_TS_WINDOW = 300"

definition wrapping_i64 :: "int \<Rightarrow> i64" where
  "wrapping_i64 x = sint (word_of_int x :: 64 word)"

definition outside_window :: "u64 \<Rightarrow> i64 \<Rightarrow> i64 \<Rightarrow> bool" where
  "outside_window now ts window \<longleftrightarrow> wrapping_i64 \<bar>wrapping_i64 (sint now - ts)\<bar> > window"

section \<open>Renaming\<close>

record RenameRequest =
  rn_operator_pub :: string
  rn_display_name :: string
  rn_ts :: i64
  rn_sig :: string

text \<open>\<open>char::is_control\<close> on the UTF-8 bytes of a character: general category \<open>Cc\<close>.\<close>

definition is_control :: "string \<Rightarrow> bool" where
  "is_control ch \<longleftrightarrow>
     (case ch of
        [c] \<Rightarrow> code c < 32 \<or> code c = 127
      | [c, d] \<Rightarrow> code c = 194 \<and> 128 \<le> code d \<and> code d < 160
      | _ \<Rightarrow> False)"

definition operator_rename :: "RequestContext \<Rightarrow> operator_env \<Rightarrow> RenameRequest \<Rightarrow> AppState \<Rightarrow> response \<times> AppState" where
  "operator_rename X V req S =
     (let name_chars = utf8_chars (rn_display_name req)
      in if length (rn_operator_pub req) > 64 \<or> length (rn_sig req) > 128
         then (reject ''validation_error'' ''operator_pub or sig too long'', S)
         else if length name_chars = 0 \<or> length name_chars > 64
         then (reject ''validation_error'' ''display_name must be 1..=64 characters'', S)
         else if list_ex is_control name_chars
         then (reject ''validation_error'' ''display_name contains control characters'', S)
         else if outside_window (cx_now X) (rn_ts req) RENAME_TS_WINDOW
         then (err_json 401 ''IICP-E041'' ''stale or future-dated rename request'', S)
         else
           (let (ok, reason) = verify_rename (cx_crypto X) (oe_b64 V) (rn_operator_pub req) (rn_display_name req) (rn_ts req) (rn_sig req)
            in if \<not> ok
               then (if reason = ''malformed'' then err_json 401 ''IICP-E042'' ''malformed operator key or signature''
                     else err_json 401 ''IICP-E043'' ''operator signature verification failed'', S)
               else
                 (case rename_operator (rn_operator_pub req) (rn_display_name req) (st_repo S) of
                    (False, M) \<Rightarrow>
                      (err_json 404 ''IICP-E044'' ''unknown operator (register a node with this operator delegation first)'', S\<lparr>st_repo := M\<rparr>)
                  | (True, M) \<Rightarrow> ((200, JObj [(''display_name'', JStr (rn_display_name req))]), S\<lparr>st_repo := M\<rparr>))))"

section \<open>Challenges\<close>

definition operator_challenge_key :: "crypto \<Rightarrow> string \<Rightarrow> string \<Rightarrow> string" where
  "operator_challenge_key C operator_pub nonce = sha256_hex C (operator_pub @ [CHR 10] @ nonce)"

definition operator_terms_version :: "operator_env \<Rightarrow> string" where
  "operator_terms_version V = unwrap_or ''2026-07-09'' (oe_terms V)"

definition operator_dpa_version :: "operator_env \<Rightarrow> string" where
  "operator_dpa_version V = unwrap_or ''2026-07-09'' (oe_dpa V)"

definition consume_operator_challenge :: "RequestContext \<Rightarrow> string \<Rightarrow> string \<Rightarrow> OperatorState \<Rightarrow> bool \<times> OperatorState" where
  "consume_operator_challenge X operator_pub nonce Q =
     (let live = filter (\<lambda>(_, expires). expires \<ge> cx_now X) (os_challenges Q);
          k = operator_challenge_key (cx_crypto X) operator_pub nonce
      in (case map_of live k of None \<Rightarrow> False | Some expires \<Rightarrow> expires \<ge> cx_now X,
          Q\<lparr>os_challenges := hm_remove k live\<rparr>))"

definition inactive_operator :: response where
  "inactive_operator = err_json 409 ''IICP-E063'' ''operator identity is no longer active''"

definition operator_challenge :: "RequestContext \<Rightarrow> operator_env \<Rightarrow> string \<Rightarrow> OperatorState \<Rightarrow> response \<times> OperatorState" where
  "operator_challenge X V operator_pub Q =
     (if operator_pub = [] \<or> length operator_pub > 64
      then (err_json 422 ''validation_error'' ''operator_pub is invalid'', Q)
      else case operator_identity_active (st_repo (os_app Q)) operator_pub of
        None \<Rightarrow> (err_json 404 ''IICP-E044'' ''unknown operator (register a delegated node first)'', Q)
      | Some False \<Rightarrow> (inactive_operator, Q)
      | Some True \<Rightarrow>
          (let nonce = cx_b64url X (oe_uuid_bytes V);
               expires = saturating_add (cx_now X) OPERATOR_CHALLENGE_TTL_SECS
           in ((200, JObj [(''nonce'', JStr nonce), (''expires_at'', opt_string (oe_rfc3339 V (sint expires))),
                  (''operator_fingerprint'', JStr (public_operator_fingerprint (cx_crypto X) operator_pub)),
                  (''terms_version'', JStr (operator_terms_version V)), (''dpa_version'', JStr (operator_dpa_version V)),
                  (''signing_contract'', JStr ''iicp.operator.self-service.v1'')]),
               Q\<lparr>os_challenges := hm_insert (operator_challenge_key (cx_crypto X) operator_pub nonce) expires (os_challenges Q)\<rparr>)))"

section \<open>Signed requests\<close>

record OperatorKeyRequest =
  ok_operator_pub :: string
  ok_nonce :: string
  ok_ts :: i64
  ok_sig :: string
  ok_new_operator_pub :: "string option"
  ok_new_key_sig :: "string option"
  ok_rotation_epoch :: "u32 option"
  ok_reason_class :: "string option"
  ok_confirm :: "bool option"
  ok_terms_version :: "string option"
  ok_dpa_version :: "string option"
  ok_tracking_id :: "string option"

definition insert_some :: "string \<Rightarrow> json option \<Rightarrow> (string, json) hashmap \<Rightarrow> (string, json) hashmap" where
  "insert_some k v m = (case v of None \<Rightarrow> m | Some j \<Rightarrow> hm_insert k j m)"

definition self_service_fields :: "OperatorKeyRequest \<Rightarrow> string \<Rightarrow> bool \<Rightarrow> (string, json) hashmap" where
  "self_service_fields req action include_successor =
     (let f0 = [(''operator_pub'', JStr (ok_operator_pub req)), (''nonce'', JStr (ok_nonce req)), (''ts'', JInt (ok_ts req))];
          f1 = insert_some ''reason_class'' (map_option JStr (ok_reason_class req)) f0;
          f2 = insert_some ''rotation_epoch'' (map_option (\<lambda>e. JInt (uint e)) (ok_rotation_epoch req)) f1;
          f3 = (if include_successor then hm_insert ''new_operator_pub'' (JStr (unwrap_or [] (ok_new_operator_pub req))) f2
                else insert_some ''confirm'' (map_option JBool (ok_confirm req)) f2);
          f4 = (if action = ''accept''
                then insert_some ''dpa_version'' (map_option JStr (ok_dpa_version req))
                       (insert_some ''terms_version'' (map_option JStr (ok_terms_version req)) f3)
                else f3)
      in if starts_with action ''dsr_'' then insert_some ''tracking_id'' (map_option JStr (ok_tracking_id req)) f4 else f4)"

definition validate_operator_key_request ::
    "RequestContext \<Rightarrow> operator_env \<Rightarrow> OperatorKeyRequest \<Rightarrow> string \<Rightarrow> bool \<Rightarrow> OperatorState \<Rightarrow> response option \<times> OperatorState" where
  "validate_operator_key_request X V req action include_successor Q =
     (if ok_operator_pub req = [] \<or> length (ok_operator_pub req) > 64 \<or> length (ok_nonce req) < 16
         \<or> length (ok_nonce req) > 64 \<or> length (ok_sig req) > 128
      then (Some (err_json 422 ''validation_error'' ''operator request fields are invalid''), Q)
      else if outside_window (cx_now X) (ok_ts req) OPERATOR_TS_WINDOW_SECS
      then (Some (err_json 401 ''IICP-E041'' ''stale or future-dated operator request''), Q)
      else case operator_identity_active (st_repo (os_app Q)) (ok_operator_pub req) of
        None \<Rightarrow> (Some (err_json 404 ''IICP-E044'' ''unknown operator''), Q)
      | Some False \<Rightarrow> (Some inactive_operator, Q)
      | Some True \<Rightarrow>
          (case consume_operator_challenge X (ok_operator_pub req) (ok_nonce req) Q of
             (False, Q1) \<Rightarrow> (Some (err_json 401 ''IICP-E062'' ''challenge is missing, expired or already used''), Q1)
           | (True, Q1) \<Rightarrow>
               (let (valid, reason) = verify_self_service (cx_crypto X) (oe_b64 V) (ok_operator_pub req) (ok_sig req) action
                                        (self_service_fields req action include_successor)
                in if valid then (None, Q1)
                   else (Some (err_json 401 (if reason = ''malformed'' then ''IICP-E042'' else ''IICP-E043'')
                           ''operator signature verification failed''), Q1))))"

definition with_repo :: "OperatorState \<Rightarrow> InMemoryRepo \<Rightarrow> OperatorState" where
  "with_repo Q M = Q\<lparr>os_app := (os_app Q)\<lparr>st_repo := M\<rparr>\<rparr>"

definition operator_self_service_repo_error :: "OperatorSelfServiceError \<Rightarrow> response" where
  "operator_self_service_repo_error e =
     (case e of
        SelfUnknown \<Rightarrow> err_json 404 ''IICP-E044'' ''unknown operator''
      | SelfInactive \<Rightarrow> inactive_operator
      | SelfDuplicateTrackingId \<Rightarrow> err_json 409 ''IICP-E060'' ''tracking_id has already been used''
      | SelfStorage \<Rightarrow> err_json 500 ''IICP-E050'' ''operator self-service action could not be completed'')"

definition operator_acceptance :: "RequestContext \<Rightarrow> operator_env \<Rightarrow> OperatorKeyRequest \<Rightarrow> OperatorState \<Rightarrow> response \<times> OperatorState" where
  "operator_acceptance X V req Q =
     (case (ok_terms_version req, ok_dpa_version req) of
        (Some terms, Some dpa) \<Rightarrow>
          if length terms > 64 \<or> length dpa > 64
          then (err_json 422 ''validation_error'' ''governance version is invalid'', Q)
          else if terms \<noteq> operator_terms_version V \<or> dpa \<noteq> operator_dpa_version V
          then (err_json 409 ''IICP-E061'' ''terms or DPA version is not current'', Q)
          else
            (case validate_operator_key_request X V req ''accept'' False Q of
               (Some r, Q1) \<Rightarrow> (r, Q1)
             | (None, Q1) \<Rightarrow>
                 (case accept_operator_governance (cx_rfc3339_in X 0) (ok_operator_pub req) terms dpa
                         (sha256_hex (cx_crypto X) (ok_nonce req)) (st_repo (os_app Q1)) of
                    (Inl e, M) \<Rightarrow> (operator_self_service_repo_error e, with_repo Q1 M)
                  | (Inr accepted_at, M) \<Rightarrow>
                      ((200, JObj [(''status'', JStr ''accepted''),
                          (''operator_fingerprint'', JStr (public_operator_fingerprint (cx_crypto X) (ok_operator_pub req))),
                          (''terms_version'', JStr terms), (''dpa_version'', JStr dpa), (''accepted_at'', JStr accepted_at),
                          (''receipt_id_prefix'', JStr (take 12 (sha256_hex (cx_crypto X) (ok_nonce req @ ok_operator_pub req)))),
                          (''legal_certification'', JBool False)]), with_repo Q1 M)))
      | _ \<Rightarrow> (err_json 422 ''validation_error'' ''terms_version and dpa_version are required'', Q))"

definition operator_dsr_action ::
    "RequestContext \<Rightarrow> operator_env \<Rightarrow> string \<Rightarrow> OperatorKeyRequest \<Rightarrow> OperatorState \<Rightarrow> response \<times> OperatorState" where
  "operator_dsr_action X V action req Q =
     (if action \<noteq> ''export'' \<and> ok_confirm req \<noteq> Some True
      then (err_json 422 ''validation_error'' ''confirm=true is required'', Q)
      else if (case ok_tracking_id req of None \<Rightarrow> False | Some i \<Rightarrow> i = [] \<or> length i > 64)
      then (err_json 422 ''validation_error'' ''tracking_id is invalid'', Q)
      else
        (case validate_operator_key_request X V req (''dsr_'' @ action) False Q of
           (Some r, Q1) \<Rightarrow> (r, Q1)
         | (None, Q1) \<Rightarrow>
             (let tracking_id = (case ok_tracking_id req of Some i \<Rightarrow> i | None \<Rightarrow> ''dsr-'' @ cx_uuid X 0)
              in case operator_dsr (cx_crypto X) (cx_rfc3339_in X 0) (ok_operator_pub req) action tracking_id (st_repo (os_app Q1)) of
                   (Inr value, M) \<Rightarrow> ((200, value), with_repo Q1 M)
                 | (Inl e, M) \<Rightarrow> (operator_self_service_repo_error e, with_repo Q1 M))))"

definition malformed_successor :: response where
  "malformed_successor = err_json 401 ''IICP-E064'' ''malformed successor operator key or signature''"

definition successor_fields :: "OperatorKeyRequest \<Rightarrow> string \<Rightarrow> (string, json) hashmap" where
  "successor_fields req successor =
     [(''operator_pub'', JStr (ok_operator_pub req)), (''new_operator_pub'', JStr successor), (''nonce'', JStr (ok_nonce req)),
      (''ts'', JInt (ok_ts req)),
      (''rotation_epoch'', case ok_rotation_epoch req of None \<Rightarrow> JNull | Some e \<Rightarrow> JInt (uint e))]"

definition lifecycle_receipt :: "RequestContext \<Rightarrow> OperatorKeyRequest \<Rightarrow> string" where
  "lifecycle_receipt X req = take 12 (operator_challenge_key (cx_crypto X) (ok_operator_pub req) (ok_nonce req))"

definition operator_key_rotate :: "RequestContext \<Rightarrow> operator_env \<Rightarrow> OperatorKeyRequest \<Rightarrow> OperatorState \<Rightarrow> response \<times> OperatorState" where
  "operator_key_rotate X V req Q =
     (case validate_operator_key_request X V req ''key_rotate'' True Q of
        (Some r, Q1) \<Rightarrow> (r, Q1)
      | (None, Q1) \<Rightarrow>
          (case ok_new_operator_pub req of
             None \<Rightarrow> (err_json 422 ''validation_error'' ''new_operator_pub is required'', Q1)
           | Some successor \<Rightarrow>
               (case ok_new_key_sig req of
                  None \<Rightarrow> (err_json 422 ''validation_error'' ''new_key_sig is required'', Q1)
                | Some successor_sig \<Rightarrow>
                    if successor = ok_operator_pub req \<or> length successor > 64 \<or> length successor_sig > 128
                       \<or> (case ok_reason_class req of None \<Rightarrow> False | Some c \<Rightarrow> \<not> valid_reason_class c)
                    then (malformed_successor, Q1)
                    else if \<not> fst (verify_self_service (cx_crypto X) (oe_b64 V) successor successor_sig
                                    ''key_rotate_successor'' (successor_fields req successor))
                    then (err_json 401 ''IICP-E064'' ''successor operator signature verification failed'', Q1)
                    else
                      (case rotate_operator_identity (ok_operator_pub req) successor (ok_rotation_epoch req) (st_repo (os_app Q1)) of
                         (Inr result, M) \<Rightarrow>
                           ((200, JObj [(''status'', JStr ''rotated''),
                               (''operator_fingerprint'', JStr (public_operator_fingerprint (cx_crypto X) successor)),
                               (''linked_nodes'', JInt (uint (lr_linked_nodes result))),
                               (''rotation_epoch'', case lr_rotation_epoch result of None \<Rightarrow> JNull | Some e \<Rightarrow> JInt (uint e)),
                               (''receipt_id_prefix'', JStr (lifecycle_receipt X req)), (''legal_certification'', JBool False)]),
                            with_repo Q1 M)
                       | (Inl _, M) \<Rightarrow>
                           (err_json 409 ''IICP-E063'' ''operator identity rotation cannot be completed'', with_repo Q1 M)))))"

definition operator_key_revoke :: "RequestContext \<Rightarrow> operator_env \<Rightarrow> OperatorKeyRequest \<Rightarrow> OperatorState \<Rightarrow> response \<times> OperatorState" where
  "operator_key_revoke X V req Q =
     (if ok_confirm req \<noteq> Some True then (err_json 422 ''validation_error'' ''confirm=true is required'', Q)
      else if (case ok_reason_class req of None \<Rightarrow> False | Some c \<Rightarrow> \<not> valid_reason_class c)
      then (err_json 422 ''validation_error'' ''reason_class is invalid'', Q)
      else
        (case validate_operator_key_request X V req ''key_revoke'' False Q of
           (Some r, Q1) \<Rightarrow> (r, Q1)
         | (None, Q1) \<Rightarrow>
             (case revoke_operator_identity (cx_now_ms X) (ok_operator_pub req) (st_repo (os_app Q1)) of
                (Inr result, M) \<Rightarrow>
                  ((200, JObj [(''status'', JStr ''revoked''),
                      (''operator_fingerprint'', JStr (public_operator_fingerprint (cx_crypto X) (ok_operator_pub req))),
                      (''linked_nodes'', JInt (uint (lr_linked_nodes result))),
                      (''revoked_at'', opt_string (Option.bind (lr_revoked_at_unix result) (oe_rfc3339 V))),
                      (''receipt_id_prefix'', JStr (lifecycle_receipt X req)), (''legal_certification'', JBool False)]),
                   with_repo Q1 M)
              | (Inl _, M) \<Rightarrow>
                  (err_json 409 ''IICP-E063'' ''operator identity revocation cannot be completed'', with_repo Q1 M))))"

section \<open>Freshness\<close>

lemma wrapping_i64_id: "- (2 ^ 63) \<le> x \<Longrightarrow> x < 2 ^ 63 \<Longrightarrow> wrapping_i64 x = x"
  using signed_take_bit_int_eq_self [of 63 x] by (simp add: wrapping_i64_def signed_of_int)

lemma wrapping_i64_over: "2 ^ 63 \<le> x \<Longrightarrow> x < 2 ^ 64 \<Longrightarrow> wrapping_i64 x = x - 2 ^ 64"
proof -
  assume "2 ^ 63 \<le> x" "x < 2 ^ 64"
  moreover have "word_of_int x = (word_of_int (x - 2 ^ 64) :: 64 word)"
    by (simp add: word_of_int_eq_iff take_bit_eq_mod)
  ultimately show ?thesis using wrapping_i64_id [of "x - 2 ^ 64"] 
    by (simp only: wrapping_i64_def) simp
qed

text \<open>
  The replay window of a signed operator request: its timestamp is accepted when it is within
  the window around the present, and, because the difference and its absolute value are taken
  in wrapping 64-bit arithmetic, also when it lies exactly \<open>2 ^ 63\<close> seconds in the past.
\<close>

theorem timestamp_window:
  assumes "uint (now :: u64) < 2 ^ 62" and "- (2 ^ 63) \<le> ts" and "ts < 2 ^ 63" and "0 \<le> w" and "w < 2 ^ 60"
  shows "\<not> outside_window now ts w \<longleftrightarrow> \<bar>uint now - ts\<bar> \<le> w \<or> ts = uint now - 2 ^ 63"
proof -
  obtain n where n: "uint now = n" "0 \<le> n" "n < 2 ^ 62" using assms(1) by simp
  have now: "sint now = n"
    using n signed_take_bit_int_eq_self [of 63 n] by (simp add: sint_uint)
  let ?d = "n - ts"
  show ?thesis
  proof (cases "?d < 2 ^ 63")
    case True
    then have "wrapping_i64 ?d = ?d" and "wrapping_i64 \<bar>?d\<bar> = \<bar>?d\<bar>"
      using n(2,3) assms(2-5) by (auto intro!: wrapping_i64_id)
    then show ?thesis using True by (auto simp: outside_window_def now n(1))
  next
    case False
    then have d: "wrapping_i64 ?d = ?d - 2 ^ 64" using n(2,3) assms(2-5) by (intro wrapping_i64_over) auto
    show ?thesis
    proof (cases "?d = 2 ^ 63")
      case True
      have "wrapping_i64 (2 ^ 63) = - (2 ^ 63)" using wrapping_i64_over [of "2 ^ 63"] by simp
      then show ?thesis using True assms(4) d by (auto simp: outside_window_def now n(1))
    next
      case neq: False
      then have "\<bar>?d - 2 ^ 64\<bar> = 2 ^ 64 - ?d" and "wrapping_i64 (2 ^ 64 - ?d) = 2 ^ 64 - ?d"
        using False n(2,3) assms(2-5) by (auto intro!: wrapping_i64_id)
      then show ?thesis using False neq d n(2,3) assms(2-5) by (auto simp: outside_window_def now n(1))
    qed
  qed
qed

theorem timestamp_window_witness:
  "\<not> outside_window 1000 1300 300 \<and> outside_window 1000 1301 300 \<and> \<not> outside_window 1000 (1000 - 2 ^ 63) 300"
  using timestamp_window [of 1000 1300 300] timestamp_window [of 1000 1301 300] timestamp_window [of 1000 "1000 - 2 ^ 63" 300] by simp

section \<open>A signed request is authentic and works once\<close>

text \<open>What a request has shown when it passes: a fresh time, an active identity, an unused live challenge, a signature.\<close>

definition authentic :: "RequestContext \<Rightarrow> operator_env \<Rightarrow> OperatorKeyRequest \<Rightarrow> string \<Rightarrow> bool \<Rightarrow> OperatorState \<Rightarrow> bool" where
  "authentic X V req action succ Q \<longleftrightarrow>
     \<not> outside_window (cx_now X) (ok_ts req) OPERATOR_TS_WINDOW_SECS
     \<and> operator_identity_active (st_repo (os_app Q)) (ok_operator_pub req) = Some True
     \<and> (\<exists>e \<ge> cx_now X. (operator_challenge_key (cx_crypto X) (ok_operator_pub req) (ok_nonce req), e) \<in> set (os_challenges Q))
     \<and> fst (verify_self_service (cx_crypto X) (oe_b64 V) (ok_operator_pub req) (ok_sig req) action (self_service_fields req action succ))"

lemma consume_challenge:
  "fst (consume_operator_challenge X pk n Q) \<Longrightarrow>
     \<exists>e \<ge> cx_now X. (operator_challenge_key (cx_crypto X) pk n, e) \<in> set (os_challenges Q)"
  "map_of (os_challenges (snd (consume_operator_challenge X pk n Q))) (operator_challenge_key (cx_crypto X) pk n) = None"
  "os_app (snd (consume_operator_challenge X pk n Q)) = os_app Q"
  by (auto simp: consume_operator_challenge_def Let_def dest!: map_of_SomeD split: option.splits)

lemma validate_authentic:
  assumes "validate_operator_key_request X V req action succ Q = (None, Q1)"
  shows "authentic X V req action succ Q" and "os_app Q1 = os_app Q"
    and "map_of (os_challenges Q1) (operator_challenge_key (cx_crypto X) (ok_operator_pub req) (ok_nonce req)) = None"
  using assms consume_challenge [of X "ok_operator_pub req" "ok_nonce req" Q]
  by (auto simp: validate_operator_key_request_def authentic_def Let_def case_prod_beta
      split: if_splits option.splits bool.splits prod.splits)

lemma validate_refusal:
  assumes "validate_operator_key_request X V req action succ Q = (Some r, Q1)"
  shows "fst r \<in> {401, 404, 409, 422}" and "os_app Q1 = os_app Q"
  using assms consume_challenge(3) [of X "ok_operator_pub req" "ok_nonce req" Q]
  by (auto simp: validate_operator_key_request_def err_json_def inactive_operator_def Let_def case_prod_beta
      split: if_splits option.splits bool.splits prod.splits)

text \<open>
  The contract of the self-service endpoints. Whatever an endpoint does beyond refusing, it
  does after the common validation passed, and the challenge is gone afterwards.
\<close>

locale signed_endpoint =
  fixes X :: RequestContext and V :: operator_env
    and endpoint :: "OperatorKeyRequest \<Rightarrow> OperatorState \<Rightarrow> response \<times> OperatorState"
    and action :: string and succ :: bool
  assumes effect_validated:
      "fst (fst (endpoint req Q)) = 200 \<or> os_app (snd (endpoint req Q)) \<noteq> os_app Q \<Longrightarrow>
         \<exists>Q1. validate_operator_key_request X V req action succ Q = (None, Q1)
            \<and> os_challenges (snd (endpoint req Q)) = os_challenges Q1"
begin

lemma effect_is_authentic:
  assumes "fst (fst (endpoint req Q)) = 200 \<or> os_app (snd (endpoint req Q)) \<noteq> os_app Q"
  shows "authentic X V req action succ Q"
  using effect_validated [OF assms] validate_authentic(1) by blast

lemma challenge_used_up:
  assumes "fst (fst (endpoint req Q)) = 200"
  shows "map_of (os_challenges (snd (endpoint req Q)))
           (operator_challenge_key (cx_crypto X) (ok_operator_pub req) (ok_nonce req)) = None"
  using effect_validated [of req Q] assms validate_authentic(3) by metis

lemma unissued_refused:
  assumes "map_of (os_challenges Q) (operator_challenge_key (cx_crypto X) (ok_operator_pub req) (ok_nonce req)) = None"
  shows "fst (fst (endpoint req Q)) \<noteq> 200 \<and> os_app (snd (endpoint req Q)) = os_app Q"
proof -
  have "\<not> authentic X V req action succ Q" using assms by (auto simp: authentic_def map_of_eq_None_iff image_iff)
  then show ?thesis using effect_is_authentic by blast
qed

lemma replay_refused:
  assumes "fst (fst (endpoint req Q)) = 200"
  shows "fst (fst (endpoint req (snd (endpoint req Q)))) \<noteq> 200
    \<and> os_app (snd (endpoint req (snd (endpoint req Q)))) = os_app (snd (endpoint req Q))"
  by (rule unissued_refused) (rule challenge_used_up [OF assms])

end

lemma with_repo_challenges [simp]: "os_challenges (with_repo Q M) = os_challenges Q"
  by (simp add: with_repo_def)

text \<open>The routes of the self-service requests, with the action that their signature names.\<close>

datatype SelfServiceRoute = Acceptance | DsrExport | DsrRestrict | DsrAnonymize | KeyRotate | KeyRevoke

fun signed_action :: "SelfServiceRoute \<Rightarrow> string" where
  "signed_action Acceptance = ''accept''"
| "signed_action DsrExport = ''dsr_export''"
| "signed_action DsrRestrict = ''dsr_restrict''"
| "signed_action DsrAnonymize = ''dsr_anonymize''"
| "signed_action KeyRotate = ''key_rotate''"
| "signed_action KeyRevoke = ''key_revoke''"

fun self_service ::
    "RequestContext \<Rightarrow> operator_env \<Rightarrow> SelfServiceRoute \<Rightarrow> OperatorKeyRequest \<Rightarrow> OperatorState \<Rightarrow> response \<times> OperatorState" where
  "self_service X V Acceptance req Q = operator_acceptance X V req Q"
| "self_service X V DsrExport req Q = operator_dsr_action X V ''export'' req Q"
| "self_service X V DsrRestrict req Q = operator_dsr_action X V ''restrict'' req Q"
| "self_service X V DsrAnonymize req Q = operator_dsr_action X V ''anonymize'' req Q"
| "self_service X V KeyRotate req Q = operator_key_rotate X V req Q"
| "self_service X V KeyRevoke req Q = operator_key_revoke X V req Q"

lemma not_ok [simp]:
  "fst (err_json st c m) = st" "fst inactive_operator = 409" "fst malformed_successor = 401"
  by (simp_all add: err_json_def inactive_operator_def malformed_successor_def)

lemma validated_cases:
  assumes "fst (fst (case validate_operator_key_request X V req action succ Q of (Some r, Q1) \<Rightarrow> (r, Q1) | (None, Q1) \<Rightarrow> act Q1)) = 200
      \<or> os_app (snd (case validate_operator_key_request X V req action succ Q of (Some r, Q1) \<Rightarrow> (r, Q1) | (None, Q1) \<Rightarrow> act Q1)) \<noteq> os_app Q"
    and "\<And>Q1. os_challenges (snd (act Q1)) = os_challenges Q1"
  shows "\<exists>Q1. validate_operator_key_request X V req action succ Q = (None, Q1)
    \<and> os_challenges (snd (case validate_operator_key_request X V req action succ Q of (Some r, Q1) \<Rightarrow> (r, Q1) | (None, Q1) \<Rightarrow> act Q1)) = os_challenges Q1"
proof (cases "fst (validate_operator_key_request X V req action succ Q)")
  case None
  then show ?thesis using assms(2) by (cases "validate_operator_key_request X V req action succ Q") auto
next
  case (Some r)
  then obtain Q1 where v: "validate_operator_key_request X V req action succ Q = (Some r, Q1)"
    by (cases "validate_operator_key_request X V req action succ Q") auto
  then show ?thesis using assms(1) validate_refusal [OF v] by auto
qed

interpretation acceptance: signed_endpoint X V "operator_acceptance X V" "''accept''" False for X V
proof
  fix req Q
  assume eff: "fst (fst (operator_acceptance X V req Q)) = 200 \<or> os_app (snd (operator_acceptance X V req Q)) \<noteq> os_app Q"
  then obtain terms dpa where td: "ok_terms_version req = Some terms" "ok_dpa_version req = Some dpa"
      "\<not> (length terms > 64 \<or> length dpa > 64)" "\<not> (terms \<noteq> operator_terms_version V \<or> dpa \<noteq> operator_dpa_version V)"
    by (auto simp: operator_acceptance_def split: option.splits if_splits)
  show "\<exists>Q1. validate_operator_key_request X V req ''accept'' False Q = (None, Q1)
      \<and> os_challenges (snd (operator_acceptance X V req Q)) = os_challenges Q1"
    using eff unfolding operator_acceptance_def td option.case prod.case if_not_P [OF td(3)] if_not_P [OF td(4)]
    by (rule validated_cases) (simp split: prod.split sum.split)
qed

interpretation dsr: signed_endpoint X V "operator_dsr_action X V action" "''dsr_'' @ action" False for X V action
proof
  fix req Q
  assume eff: "fst (fst (operator_dsr_action X V action req Q)) = 200 \<or> os_app (snd (operator_dsr_action X V action req Q)) \<noteq> os_app Q"
  then have c: "\<not> (action \<noteq> ''export'' \<and> ok_confirm req \<noteq> Some True)"
      "\<not> (case ok_tracking_id req of None \<Rightarrow> False | Some i \<Rightarrow> i = [] \<or> length i > 64)"
    by (auto simp: operator_dsr_action_def split: if_splits)
  show "\<exists>Q1. validate_operator_key_request X V req (''dsr_'' @ action) False Q = (None, Q1)
      \<and> os_challenges (snd (operator_dsr_action X V action req Q)) = os_challenges Q1"
    using eff unfolding operator_dsr_action_def if_not_P [OF c(1)] if_not_P [OF c(2)]
    by (rule validated_cases) (simp add: Let_def split: prod.split sum.split)
qed

interpretation rotate: signed_endpoint X V "operator_key_rotate X V" "''key_rotate''" True for X V
proof
  fix req Q
  assume "fst (fst (operator_key_rotate X V req Q)) = 200 \<or> os_app (snd (operator_key_rotate X V req Q)) \<noteq> os_app Q"
  then show "\<exists>Q1. validate_operator_key_request X V req ''key_rotate'' True Q = (None, Q1)
      \<and> os_challenges (snd (operator_key_rotate X V req Q)) = os_challenges Q1"
    unfolding operator_key_rotate_def by (rule validated_cases) (simp split: prod.split sum.split option.split)
qed

interpretation revoke: signed_endpoint X V "operator_key_revoke X V" "''key_revoke''" False for X V
proof
  fix req Q
  assume eff: "fst (fst (operator_key_revoke X V req Q)) = 200 \<or> os_app (snd (operator_key_revoke X V req Q)) \<noteq> os_app Q"
  then have c: "\<not> ok_confirm req \<noteq> Some True" "\<not> (case ok_reason_class req of None \<Rightarrow> False | Some c \<Rightarrow> \<not> valid_reason_class c)"
    by (auto simp: operator_key_revoke_def split: if_splits)
  show "\<exists>Q1. validate_operator_key_request X V req ''key_revoke'' False Q = (None, Q1)
      \<and> os_challenges (snd (operator_key_revoke X V req Q)) = os_challenges Q1"
    using eff unfolding operator_key_revoke_def if_not_P [OF c(1)] if_not_P [OF c(2)]
    by (rule validated_cases) (simp split: prod.split sum.split)
qed

interpretation service: signed_endpoint X V "self_service X V route" "signed_action route" "route = KeyRotate" for X V route
  by unfold_locales
    (cases route; use acceptance.effect_validated dsr.effect_validated [where action = "''export''"]
       dsr.effect_validated [where action = "''restrict''"] dsr.effect_validated [where action = "''anonymize''"]
       rotate.effect_validated revoke.effect_validated in force)

text \<open>
  C12. An operator self-service request has an effect, a success answer or any change of the
  directory, only when it carries a fresh timestamp, the identity is active, the operator key
  signed exactly this action with these fields, and the nonce is a live challenge that the
  directory issued to that operator. The challenge is used up by it: the same request again,
  on the same route or any other, is refused and changes nothing.
\<close>

theorem self_service_authentic_once:
  "(fst (fst (self_service X V route req Q)) = 200 \<or> os_app (snd (self_service X V route req Q)) \<noteq> os_app Q \<longrightarrow>
      authentic X V req (signed_action route) (route = KeyRotate) Q)
   \<and> (fst (fst (self_service X V route req Q)) = 200 \<longrightarrow>
        (\<forall>route'. let Q' = snd (self_service X V route req Q)
           in fst (fst (self_service X V route' req Q')) \<noteq> 200 \<and> os_app (snd (self_service X V route' req Q')) = os_app Q'))"
  using service.effect_is_authentic [of X V route req Q] service.unissued_refused [of _ X req] service.challenge_used_up [of X V route req Q]
  by (auto simp: Let_def)

definition sample_operator_env :: operator_env where
  "sample_operator_env =
     \<lparr>oe_b64 = (\<lambda>s. if s = ''key'' then Some (replicate 32 CHR ''k'') else Some (replicate 64 CHR ''s'')),
      oe_uuid_bytes = ''uuid'', oe_rfc3339 = (\<lambda>t. Some ''t''), oe_terms = None, oe_dpa = None\<rparr>"

definition operator_context :: RequestContext where
  "operator_context =
     demo_context\<lparr>cx_crypto := demo_crypto\<lparr>pk_from_slice := (\<lambda>_. True), sig_from_slice := (\<lambda>_. True), ed_verify := (\<lambda>_ _ _. True)\<rparr>\<rparr>"

definition sample_key_request :: OperatorKeyRequest where
  "sample_key_request =
     \<lparr>ok_operator_pub = ''key'', ok_nonce = ''0123456789abcdef'', ok_ts = 5000, ok_sig = ''sig'', ok_new_operator_pub = None,
      ok_new_key_sig = None, ok_rotation_epoch = None, ok_reason_class = None, ok_confirm = Some True,
      ok_terms_version = None, ok_dpa_version = None, ok_tracking_id = None\<rparr>"

definition operator_sample_state :: AppState where
  "operator_sample_state = (demo_state [])\<lparr>st_repo := put_operator ''key'' (default_operator_row\<lparr>o_identity_status := ''active''\<rparr>) (new_repo [])\<rparr>"

definition sample_operator_state :: OperatorState where
  "sample_operator_state =
     \<lparr>os_app = operator_sample_state,
      os_challenges = [(operator_challenge_key (cx_crypto operator_context) ''key'' ''0123456789abcdef'', 5200)]\<rparr>"

lemma sample_operator_facts:
  "cx_now operator_context = 5000" "ok_operator_pub sample_key_request = ''key''" "ok_nonce sample_key_request = ''0123456789abcdef''"
  "ok_ts sample_key_request = 5000" "ok_sig sample_key_request = ''sig''" "ok_confirm sample_key_request = Some True"
  "ok_reason_class sample_key_request = None"
  "operator_row (st_repo operator_sample_state) ''key'' = Some (default_operator_row\<lparr>o_identity_status := ''active''\<rparr>)"
  "\<not> outside_window 5000 5000 300"
  "check_detached (cx_crypto operator_context) (oe_b64 sample_operator_env) ''key'' ''sig'' msg = (True, ''ok'')"
  by (simp_all add: operator_context_def demo_context_def sample_key_request_def operator_sample_state_def put_operator_def
      new_repo_def outside_window_def wrapping_i64_def check_detached_def sample_operator_env_def)

theorem self_service_authentic_once_witness:
  "let Q = sample_operator_state; Q' = snd (self_service operator_context sample_operator_env KeyRevoke sample_key_request Q)
   in fst (fst (self_service operator_context sample_operator_env KeyRevoke sample_key_request Q)) = 200
      \<and> authentic operator_context sample_operator_env sample_key_request ''key_revoke'' False Q
      \<and> os_app (snd (self_service operator_context sample_operator_env DsrAnonymize sample_key_request Q')) = os_app Q'"
proof -
  let ?Q = sample_operator_state and ?k = "operator_challenge_key (cx_crypto operator_context) ''key'' ''0123456789abcdef''"
  have act: "operator_identity_active (st_repo (os_app ?Q)) ''key'' = Some True"
    by (simp add: operator_identity_active_def sample_operator_facts sample_operator_state_def)
  have "consume_operator_challenge operator_context ''key'' ''0123456789abcdef'' ?Q = (True, ?Q\<lparr>os_challenges := []\<rparr>)"
    by (simp add: consume_operator_challenge_def sample_operator_state_def sample_operator_facts hm_remove_def)
  then have "validate_operator_key_request operator_context sample_operator_env sample_key_request ''key_revoke'' False ?Q = (None, ?Q\<lparr>os_challenges := []\<rparr>)"
    using act by (simp add: validate_operator_key_request_def sample_operator_facts OPERATOR_TS_WINDOW_SECS_def verify_self_service_def)
  then have "fst (fst (self_service operator_context sample_operator_env KeyRevoke sample_key_request ?Q)) = 200"
    by (simp add: operator_key_revoke_def sample_operator_facts revoke_operator_identity_def sample_operator_state_def)
  then show ?thesis
    using self_service_authentic_once [of operator_context sample_operator_env KeyRevoke sample_key_request ?Q]
    by (simp only: Let_def signed_action.simps SelfServiceRoute.distinct) blast
qed

section \<open>Renaming needs the key, not a free name\<close>

text \<open>
  A rename succeeds exactly when the request is well formed, fresh, signed by the operator key
  over this name and time, and the identity is active; it then changes the display name of
  that operator and nothing else. Whether another operator already uses the name plays no
  part, unlike at registration.
\<close>

theorem operator_rename_exact:
  assumes "operator_rename X V req S = (resp, S')"
  shows "(fst resp = 200 \<longleftrightarrow>
      length (rn_operator_pub req) \<le> 64 \<and> length (rn_sig req) \<le> 128
      \<and> utf8_chars (rn_display_name req) \<noteq> [] \<and> length (utf8_chars (rn_display_name req)) \<le> 64
      \<and> \<not> list_ex is_control (utf8_chars (rn_display_name req))
      \<and> \<not> outside_window (cx_now X) (rn_ts req) RENAME_TS_WINDOW
      \<and> fst (verify_rename (cx_crypto X) (oe_b64 V) (rn_operator_pub req) (rn_display_name req) (rn_ts req) (rn_sig req))
      \<and> operator_identity_active (st_repo S) (rn_operator_pub req) = Some True)
    \<and> (fst resp = 200 \<longrightarrow>
         (\<forall>pk. operator_display_name (st_repo S') pk =
            (if pk = rn_operator_pub req then Some (rn_display_name req) else operator_display_name (st_repo S) pk))
         \<and> m_records (st_repo S') = m_records (st_repo S))
    \<and> (fst resp \<noteq> 200 \<longrightarrow> S' = S)"
proof -
  let ?guard = "length (rn_operator_pub req) \<le> 64 \<and> length (rn_sig req) \<le> 128
      \<and> utf8_chars (rn_display_name req) \<noteq> [] \<and> length (utf8_chars (rn_display_name req)) \<le> 64
      \<and> \<not> list_ex is_control (utf8_chars (rn_display_name req)) \<and> \<not> outside_window (cx_now X) (rn_ts req) RENAME_TS_WINDOW
      \<and> fst (verify_rename (cx_crypto X) (oe_b64 V) (rn_operator_pub req) (rn_display_name req) (rn_ts req) (rn_sig req))"
  show ?thesis
  proof (cases ?guard)
    case True
    then have "operator_rename X V req S =
        (case rename_operator (rn_operator_pub req) (rn_display_name req) (st_repo S) of
           (False, M) \<Rightarrow> (err_json 404 ''IICP-E044'' ''unknown operator (register a node with this operator delegation first)'', S\<lparr>st_repo := M\<rparr>)
         | (True, M) \<Rightarrow> ((200, JObj [(''display_name'', JStr (rn_display_name req))]), S\<lparr>st_repo := M\<rparr>))"
      by (auto simp: operator_rename_def Let_def case_prod_beta not_le)
    then show ?thesis using True assms
      by (auto simp: rename_operator_def operator_identity_active_def operator_display_name_def put_operator_def
          split: option.splits if_splits)
  next
    case False
    then have "fst resp \<noteq> 200 \<and> S' = S"
      using assms by (auto simp: operator_rename_def Let_def case_prod_beta reject_def not_le split: if_splits)
    then show ?thesis using False by blast
  qed
qed


theorem operator_rename_exact_witness:
  "let req = \<lparr>rn_operator_pub = ''key'', rn_display_name = ''Ada'', rn_ts = 5000, rn_sig = ''sig''\<rparr>
   in fst (fst (operator_rename operator_context sample_operator_env req operator_sample_state)) = 200
      \<and> operator_display_name (st_repo (snd (operator_rename operator_context sample_operator_env req operator_sample_state))) ''key'' = Some ''Ada''"
proof -
  let ?req = "\<lparr>rn_operator_pub = ''key'', rn_display_name = ''Ada'', rn_ts = 5000, rn_sig = ''sig''\<rparr>"
  have n: "utf8_chars ''Ada'' = [''A'', ''d'', ''a'']" "\<not> list_ex is_control [''A'', ''d'', ''a'']" by code_simp+
  have "operator_identity_active (st_repo operator_sample_state) ''key'' = Some True"
    by (simp add: operator_identity_active_def sample_operator_facts)
  then show ?thesis
    using operator_rename_exact [OF prod.collapse [symmetric], of operator_context sample_operator_env ?req operator_sample_state] n
    by (simp add: RENAME_TS_WINDOW_def sample_operator_facts verify_rename_def)
qed

end
