(* ===== verification/Discovery.thy ===== *)
theory Discovery
  imports Access Selection Operators Policy_Manifest
begin

text \<open>
  Discovery, dispatch tickets and node projections, \<open>src/discovery.rs\<close>, with the
  projections of a node that the public endpoints serve.

  \<open>discovery_env\<close> holds what comes from outside: the manifest environment, the elapsed time
  that a response reports, the text of a date and today's date for the usage counters, and,
  when the directory runs as a restricted domain, which of some node ids are current members.
  A response is its status and body; cache and timing headers are left out.
\<close>

record discovery_env =
  de_manifest :: manifest_env
  de_query_ms :: int
  de_show_date :: "int \<Rightarrow> string"
  de_today :: int
  de_members :: "(string list \<Rightarrow> string list) option"

section \<open>Addresses and versions\<close>

text \<open>\<open>str::split\<close> on a separator, its second piece: \<open>None\<close> when the separator does not occur.\<close>

definition after_scheme :: "string \<Rightarrow> string option" where
  "after_scheme url =
     (case find (\<lambda>i. starts_with (drop i url) ''://'') [0..<length url] of
        None \<Rightarrow> None
      | Some i \<Rightarrow>
          (let rest = drop (i + 3) url
           in Some (case find (\<lambda>j. starts_with (drop j rest) ''://'') [0..<length rest] of None \<Rightarrow> rest | Some j \<Rightarrow> take j rest)))"

definition before_scheme :: "string \<Rightarrow> string" where
  "before_scheme url =
     (case find (\<lambda>i. starts_with (drop i url) ''://'') [0..<length url] of None \<Rightarrow> url | Some i \<Rightarrow> take i url)"

definition url_host_family :: "string \<Rightarrow> string" where
  "url_host_family url =
     (let host = hd (split_char CHR ''/'' (unwrap_or url (after_scheme url)))
      in if starts_with host ''['' then ''ipv6''
         else
           (let pieces = rev (split_char CHR '':'' host);
                bare = (case pieces of _ # b # _ \<Rightarrow> b | _ \<Rightarrow> host)
            in if list_all (\<lambda>c. is_ascii_digit c \<or> c = CHR ''.'') bare \<and> CHR ''.'' \<in> set bare then ''ipv4''
               else if CHR '':'' \<in> set bare then ''ipv6''
               else if bare = [] \<or> bare = ''unknown'' then ''unknown''
               else ''hostname''))"

definition detect_address_family :: "string \<Rightarrow> string option \<Rightarrow> string" where
  "detect_address_family endpoint transport =
     (let p = url_host_family endpoint;
          t = (case transport of None \<Rightarrow> ''unknown'' | Some u \<Rightarrow> url_host_family u)
      in if p = ''unknown'' \<and> t = ''unknown'' then ''unknown''
         else if p = ''hostname'' \<or> t = ''hostname'' then ''hostname''
         else if p = t \<or> t = ''unknown'' then p
         else if p = ''unknown'' then t
         else ''ipv4_ipv6'')"

definition transport_methods :: "string \<Rightarrow> string option \<Rightarrow> string list" where
  "transport_methods endpoint transport =
     (let ep_scheme = to_ascii_lowercase (before_scheme endpoint)
      in (if ep_scheme = ''https'' \<or> ep_scheme = ''http'' then [ep_scheme] else [])
         @ (case transport of
              None \<Rightarrow> []
            | Some t \<Rightarrow> if to_ascii_lowercase (before_scheme t) \<in> {''iicp'', ''iicpsec''} then [''iicp-native''] else []))"

definition SDK_BASELINE_VERSION :: string where
  "SDK_BASELINE_VERSION = ''0.7.68''"

definition SDK_LATEST_KNOWN_VERSION :: string where
  "SDK_LATEST_KNOWN_VERSION = ''0.7.109''"

definition version_part :: "string \<Rightarrow> int option" where
  "version_part p =
     (let digits = takeWhile is_ascii_digit p in if digits = [] then None else parse_uint (2 ^ 32 - 1) digits)"

fun map_while :: "('a \<Rightarrow> 'b option) \<Rightarrow> 'a list \<Rightarrow> 'b list" where
  "map_while f [] = []"
| "map_while f (x # xs) = (case f x of None \<Rightarrow> [] | Some y \<Rightarrow> y # map_while f xs)"

definition version_parts :: "string \<Rightarrow> int list" where
  "version_parts version =
     map_while version_part (split_char CHR ''.'' (dropWhile (\<lambda>c. c = CHR ''v'' \<or> c = CHR ''V'') (trim version)))"

fun at_least :: "int list \<Rightarrow> int list \<Rightarrow> bool" where
  "at_least [] [] = True"
| "at_least (x # xs) [] = (if x > 0 then True else if x < 0 then False else at_least xs [])"
| "at_least [] (y # ys) = (if 0 > y then True else if 0 < y then False else at_least [] ys)"
| "at_least (x # xs) (y # ys) = (if x > y then True else if x < y then False else at_least xs ys)"

definition version_at_least :: "string \<Rightarrow> string \<Rightarrow> bool" where
  "version_at_least version baseline = at_least (version_parts version) (version_parts baseline)"

definition sdk_status :: "string option \<Rightarrow> string" where
  "sdk_status version =
     (case nonempty (map_option trim version) of
        None \<Rightarrow> ''unknown''
      | Some v \<Rightarrow> if version_at_least v SDK_BASELINE_VERSION then ''current'' else ''downlevel'')"

definition browser_usable_endpoint :: "string \<Rightarrow> bool" where
  "browser_usable_endpoint endpoint =
     (let lower = to_ascii_lowercase endpoint
      in if starts_with lower ''https://'' then True
         else if \<not> starts_with lower ''http://'' then False
         else
           (let host = hd (split_char CHR ''/'' (unwrap_or [] (after_scheme endpoint)));
                bare = (case strip_prefix host ''['' of
                          Some rest \<Rightarrow> hd (split_char CHR '']'' rest) | None \<Rightarrow> hd (split_char CHR '':'' host))
            in to_ascii_lowercase bare \<in> {''localhost'', ''127.0.0.1'', ''::1''}))"

definition relays :: "Node \<Rightarrow> bool" where
  "relays n = unwrap_or False (n_relay_capable n)"

definition self_attests_route :: "Node \<Rightarrow> bool" where
  "self_attests_route n \<longleftrightarrow> n_reachability_signal n \<ge> 1 \<or> relays n \<or> n_exposure_mode n \<noteq> None"

definition routing_hint :: "Node \<Rightarrow> string" where
  "routing_hint n =
     (let lower = to_ascii_lowercase (n_endpoint n)
      in if relays n then ''relay_service''
         else if starts_with lower ''https://'' then ''https_direct''
         else if starts_with lower ''http://''
         then (if url_host_family (n_endpoint n) = ''ipv6'' then ''http_ipv6'' else ''http_direct'')
         else ''unknown'')"

end
