(* ===== verification/Projection.thy ===== *)
theory Projection
  imports Discovery Wire
begin

text \<open>
  What the directory shows of a node, \<open>src/discovery.rs\<close>: the live projection of a stored node
  (\<open>live_node_value\<close>), the public presentation of it (\<open>public_discover_node\<close>), the route material of
  a dispatch ticket, and the projection of a policy manifest.

  \<open>serde_json\<close> keeps an object as a map with unique keys; here it is a list of entries, and
  \<open>hm_insert\<close> replaces. An index into a string panics when it is not at a character boundary: the
  panic is the value \<open>None\<close>.
\<close>

section \<open>Building values\<close>

definition opt_json :: "json option \<Rightarrow> json" where
  "opt_json v = unwrap_or JNull v"

definition u32_opt_json :: "u32 option \<Rightarrow> json" where
  "u32_opt_json v = opt_json (map_option u32_json v)"

definition json_pointer2 :: "json \<Rightarrow> string \<Rightarrow> string \<Rightarrow> json option" where
  "json_pointer2 v a b = Option.bind (json_get v a) (\<lambda>w. json_get w b)"

text \<open>\<open>obj.insert\<close> for several keys in turn, and \<open>obj.remove\<close> for several keys.\<close>

definition insert_all :: "(string \<times> json) list \<Rightarrow> (string, json) hashmap \<Rightarrow> (string, json) hashmap" where
  "insert_all kvs obj = fold (\<lambda>(k, v). hm_insert k v) kvs obj"

definition remove_all :: "string list \<Rightarrow> (string, json) hashmap \<Rightarrow> (string, json) hashmap" where
  "remove_all ks obj = fold hm_remove ks obj"

text \<open>The entries of \<open>source\<close> under the allowed keys, without the null ones.\<close>

definition project_fields :: "string list \<Rightarrow> (string, json) hashmap \<Rightarrow> (string, json) hashmap" where
  "project_fields allowed source =
     filter_map (\<lambda>k. case map_of source k of Some v \<Rightarrow> if v = JNull then None else Some (k, v) | None \<Rightarrow> None) allowed"

text \<open>\<open>&s[..s.len().min(n)]\<close>.\<close>

definition slice_to :: "nat \<Rightarrow> string \<Rightarrow> string option" where
  "slice_to n s =
     (case drop n s of c # _ \<Rightarrow> if utf8_continuation c then None else Some (take n s) | [] \<Rightarrow> Some (take n s))"

section \<open>The policy manifest\<close>

definition manifest_verification_json :: "Verification \<Rightarrow> json" where
  "manifest_verification_json v =
     JObj [(''status'', JStr (v_status v)), (''algorithm'', opt_string (v_algorithm v)), (''key_id'', opt_string (v_key_id v)),
           (''signed_at'', opt_string (v_signed_at v)), (''expires_at'', opt_string (v_expires_at v)),
           (''canonical_sha256'', JStr (v_canonical_sha256 v)), (''public_key_sha256'', opt_string (v_public_key_sha256 v)),
           (''error'', opt_string (v_error v))]"

definition public_policy_manifest :: "crypto \<Rightarrow> manifest_env \<Rightarrow> json option \<Rightarrow> json" where
  "public_policy_manifest C E manifest =
     (case manifest of
        Some (JObj (e # es)) \<Rightarrow>
          (let m = JObj (e # es);
               v = verify_manifest C E m
           in JObj [(''version'', opt_json (json_get m ''version'')), (''jurisdiction'', opt_json (json_get m ''jurisdiction'')),
                    (''policy_url'', opt_json (json_get m ''policy_url'')), (''contact_url'', opt_json (json_get m ''contact_url'')),
                    (''remote_executor_can_read_prompt'', JBool (unwrap_or True (get_bool m ''remote_executor_can_read_prompt''))),
                    (''training_use'', JStr (unwrap_or ''provider_defined'' (get_str m ''training_use''))),
                    (''retention'',
                      JObj [(''task_payload'',
                              JStr (unwrap_or ''provider_defined'' (Option.bind (json_pointer2 m ''retention'' ''task_payload'') as_str))),
                            (''logs_days'', opt_json (json_pointer2 m ''retention'' ''logs_days''))]),
                    (''subprocessors'', JArr (unwrap_or [] (get_array m ''subprocessors''))),
                    (''unsupported_intents'', JArr (unwrap_or [] (get_array m ''unsupported_intents''))),
                    (''signed_statement'', opt_json (json_get m ''signed_statement'')),
                    (''manifest_identity_level'', JStr (v_manifest_identity_level v)), (''operator_fingerprint'', JNull),
                    (''policy_key_fingerprint'', opt_string (v_policy_key_fingerprint v)),
                    (''revoked_at'', opt_string (v_revoked_at v)), (''rotation_epoch'', u32_opt_json (v_rotation_epoch v)),
                    (''revocation_reason_class'', opt_string (v_revocation_reason_class v)),
                    (''operator_governance'',
                      JObj [(''accepted'', JBool False), (''terms_version'', JNull), (''dpa_version'', JNull),
                            (''legal_certification'', JBool False)]),
                    (''verification'', manifest_verification_json v), (''evidence'', JStr (v_evidence v))])
      | _ \<Rightarrow> JNull)"

section \<open>The live projection of a node\<close>

definition saturating_sub_from :: "int \<Rightarrow> u64 \<Rightarrow> int" where
  "saturating_sub_from n w = max (n - uint w) 0"

definition response_encryption_ready :: "json \<Rightarrow> bool" where
  "response_encryption_ready public_key \<longleftrightarrow>
     (case get_array public_key ''features'' of
        None \<Rightarrow> False
      | Some features \<Rightarrow> list_ex (\<lambda>f. as_str f = Some ''response_encryption_v1'') features)"

definition key_entries :: "Node \<Rightarrow> (string \<times> json) list" where
  "key_entries n =
     (let public_key = opt_json (n_public_key n);
          key_ready = (public_key \<noteq> JNull)
      in [(''cx_public_key'', public_key), (''public_key'', public_key), (''key_ready'', JBool key_ready),
          (''response_encryption_ready'', JBool (response_encryption_ready public_key)),
          (''privacy_routing_status'', JStr (if key_ready then ''key_ready'' else ''transitional''))])"

definition sdk_relation :: "string option \<Rightarrow> string" where
  "sdk_relation version =
     (case version of
        None \<Rightarrow> ''unknown''
      | Some v \<Rightarrow>
          if version_parts v = version_parts SDK_LATEST_KNOWN_VERSION then ''latest_known''
          else if version_at_least v SDK_LATEST_KNOWN_VERSION then ''ahead_of_known''
          else ''behind_known'')"

definition sdk_entries :: "Node \<Rightarrow> (string \<times> json) list" where
  "sdk_entries n =
     (let version = effective_sdk_compatibility_version n;
          status = sdk_status version
      in [(''sdk_status'', JStr status), (''sdk_baseline_version'', JStr SDK_BASELINE_VERSION),
          (''upgrade_required'', JBool (status \<noteq> ''current'')),
          (''sdk_release'',
            JObj [(''compatibility'', JStr status), (''relation'', JStr (sdk_relation version)),
                  (''latest_known_version'', JStr SDK_LATEST_KNOWN_VERSION),
                  (''latest_known_source'', JStr ''directory_release_manifest'')]),
          (''auto_update'',
            JObj [(''enabled'', JNull), (''interval_s'', JNull), (''latest_seen'', opt_string version), (''last_checked_at'', JNull),
                  (''error_class'', JNull), (''evidence'', JStr ''unknown'')])])"

definition GOLD_REPUTATION :: f64 where
  "GOLD_REPUTATION = round64 (65 / 100)"

definition trust_entries :: "Node \<Rightarrow> (string \<times> json) list" where
  "trust_entries n =
     (let completed = n_completed_tasks_count n;
          remaining = (if completed < 100 then [''completed_tasks''] else [])
                      @ (if n_reputation_score n < GOLD_REPUTATION then [''reputation_score''] else [])
      in [(''probation'', JBool (completed < 100)),
          (''trust_progress'',
            JObj [(''completed_tasks'', JInt (uint completed)), (''gold_min_tasks'', JInt 100), (''platinum_min_tasks'', JInt 1000),
                  (''tasks_until_gold'', JInt (saturating_sub_from 100 completed)),
                  (''tasks_until_platinum'', JInt (saturating_sub_from 1000 completed)),
                  (''gold_task_threshold_met'', JBool (completed \<ge> 100)),
                  (''gold_reputation_threshold_met'', JBool (n_reputation_score n \<ge> GOLD_REPUTATION)),
                  (''remaining_gold_requirements'', JArr (map JStr remaining)), (''probation'', JBool (completed < 100))])])"

definition observed :: "Node \<Rightarrow> bool" where
  "observed n \<longleftrightarrow> n_reachability_signal n \<ge> 1"

definition route_entries :: "Node \<Rightarrow> (string \<times> json) list" where
  "route_entries n =
     [(''directory_observed_reachable'', if observed n then JBool True else JNull),
      (''route_evidence'',
        JStr (if observed n then ''directory_observed'' else if self_attests_route n then ''self_attested'' else ''missing'')),
      (''routing_hint'', JStr (routing_hint n)), (''browser_usable'', JBool (browser_usable_endpoint (n_endpoint n))),
      (''reachability_tier'',
        JStr (if observed n then ''direct'' else if relays n \<or> n_exposure_mode n \<noteq> None then ''relay'' else ''limited''))]"

definition backend_entries :: "Node \<Rightarrow> (string \<times> json) list" where
  "backend_entries n =
     [(''backend'', JStr (unwrap_or ''unknown'' (n_backend n))),
      (''backend_stability'',
        JObj [(''backend_state'', JStr ''unknown''), (''reason_class'', JStr ''not_reported''), (''routing_guard'', JStr ''none''),
              (''evidence'', JStr ''not_reported''), (''retry_after_s'', JNull), (''drain_until'', JNull),
              (''summary'', JStr ''Backend stability has not been reported yet.'')]),
      (''capability_summary'',
        JObj [(''registered_model_count'', JInt (int (length (n_models n)))),
              (''live_model_count'', JInt (int (length (unwrap_or (n_models n) (n_health_models n))))),
              (''modalities'', JArr [JStr ''text''])]),
      (''input_modalities'', JArr [JStr ''text''])]"

definition default_pricing :: "Node \<Rightarrow> json" where
  "default_pricing n =
     JObj [(''credit_cost_multiplier'', JFloat (n_credit_cost_multiplier n)),
           (''pricing_model'', JStr (unwrap_or ''per_token'' (n_pricing_model n))), (''attested'', JBool (n_attested n))]"

definition latency_entries :: "Node \<Rightarrow> (string \<times> json) list" where
  "latency_entries n =
     (let latency = u32_opt_json (n_latency_estimate_ms n);
          known = (n_latency_estimate_ms n \<noteq> None)
      in [(''performance'',
            JObj [(''task_latency_ms'', latency), (''task_latency_ms_basis'', JStr (if known then ''proxy_observed_task'' else ''none'')),
                  (''proxy_observed_latency_ms'', latency), (''self_reported_recent_latency_ms'', JNull),
                  (''self_reported_lifetime_latency_ms'', JNull), (''health_impact'', JStr ''separate_from_operational_health''),
                  (''summary'', JStr ''Task/inference latency is a performance signal, not a reachability-health input.'')]),
          (''latency_evidence'', JObj [(''estimate_ms'', latency), (''basis'', JStr (if known then ''multi_proxy_ema'' else ''none''))])])"

definition health_reason :: "string \<Rightarrow> string \<Rightarrow> string \<Rightarrow> string \<Rightarrow> json" where
  "health_reason dimension state why evidence =
     JObj [(''dimension'', JStr dimension), (''state'', JStr state), (''reason'', JStr why), (''evidence'', JStr evidence)]"

definition policy_health_reason :: "json \<Rightarrow> json" where
  "policy_health_reason policy =
     (let status = Option.bind (json_pointer2 policy ''verification'' ''status'') as_str
      in if policy = JNull then health_reason ''policy'' ''missing'' ''manifest_not_provided'' ''none''
         else health_reason ''policy'' (if status = Some ''verified'' then ''verified'' else ''unverified'')
                (unwrap_or ''signature_not_verified'' status) ''manifest_projection'')"

definition health_reasons :: "Node \<Rightarrow> json \<Rightarrow> json" where
  "health_reasons n policy =
     JArr [if observed n then health_reason ''reachability'' ''reachable'' ''directory_observation'' ''directory_observed''
           else health_reason ''reachability'' ''unknown'' ''not_directory_observed'' ''none'',
           health_reason ''backend'' ''unknown'' ''not_reported'' ''not_reported'',
           if n_completed_tasks_count n < 100 then health_reason ''trust'' ''probation'' ''task_threshold_pending'' ''directory_accounting''
           else health_reason ''trust'' ''established'' ''task_threshold_met'' ''directory_accounting'',
           policy_health_reason policy]"

definition internal_fields :: "string list" where
  "internal_fields =
     [''completed_tasks_count'', ''tasks_failed'', ''credit_cost_multiplier'', ''pricing_model'', ''attested'',
      ''operator_verified'', ''operator_trust_tier'', ''health_models'']"

definition insert_if_absent :: "(json option \<Rightarrow> bool) \<Rightarrow> string \<Rightarrow> json \<Rightarrow> (string, json) hashmap \<Rightarrow> (string, json) hashmap" where
  "insert_if_absent absent k v obj = (if absent (map_of obj k) then hm_insert k v obj else obj)"

definition live_node_value :: "crypto \<Rightarrow> manifest_env \<Rightarrow> Node \<Rightarrow> (string, json) hashmap" where
  "live_node_value C E n =
     (let policy = public_policy_manifest C E (n_policy_manifest n);
          obj1 = insert_all ((''node_policy_manifest'', policy) # key_entries n @ sdk_entries n @ trust_entries n
                   @ route_entries n @ backend_entries n) (node_value n);
          obj2 = insert_if_absent (\<lambda>v. v = None \<or> v = Some JNull) ''pricing'' (default_pricing n) obj1;
          obj3 = insert_all (latency_entries n @ [(''health_reasons'', health_reasons n policy)]) obj2;
          obj4 = insert_if_absent (\<lambda>v. v = None) ''health_confidence''
                   (JStr (if n_health_label n = Some ''healthy'' then ''medium'' else ''low'')) obj3
      in remove_all internal_fields obj4)"

section \<open>Public presentation and route material\<close>

definition public_fields :: "string list" where
  "public_fields =
     [''region'', ''score'', ''available'', ''relay_capable'', ''transport_method'', ''nat_type'', ''address_family'', ''transport'',
      ''reachability_tier'', ''directory_observed_reachable'', ''route_evidence'', ''routing_hint'', ''browser_usable'',
      ''exposure_mode'', ''key_ready'', ''response_encryption_ready'', ''privacy_routing_status'', ''sdk_language'',
      ''implementation_name'', ''implementation_version'', ''sdk_compatibility_version'', ''sdk_version'',
      ''consumer_cosignature_ready'', ''sdk_status'', ''sdk_baseline_version'', ''upgrade_required'', ''health_label'',
      ''health_confidence'', ''performance'', ''backend_stability'', ''reputation_score'', ''reputation_tier'', ''trust_progress'',
      ''probation'', ''models'', ''capability_summary'', ''input_modalities'', ''quantization'', ''inference_engine'',
      ''supported_profiles'', ''capabilities'', ''backend'', ''cip_policy'', ''cip_conformance_level'', ''pricing'',
      ''operator_display_name'', ''operator_fingerprint'', ''node_policy_manifest'']"

definition public_discover_node :: "json \<Rightarrow> json option" where
  "public_discover_node v =
     (case v of
        JObj source \<Rightarrow>
          (case Option.bind (map_of source ''node_id'') as_str of
             None \<Rightarrow> Some (JObj (project_fields public_fields source))
           | Some node_id \<Rightarrow>
               map_option (\<lambda>p. JObj ((''node_id_prefix'', JStr p) # project_fields public_fields source)) (slice_to 8 node_id))
      | _ \<Rightarrow> Some (JObj []))"

definition route_fields :: "string list" where
  "route_fields =
     [''node_id'', ''endpoint'', ''transport_endpoint'', ''transport_method'', ''transport_metadata'', ''cx_public_key'', ''region'',
      ''score'', ''health_label'', ''health_confidence'', ''routing_hint'', ''browser_usable'', ''reachability_tier'',
      ''route_evidence'', ''models'', ''capability_summary'', ''pricing'', ''node_policy_manifest'', ''available'',
      ''reputation_score'', ''reputation_tier'', ''exposure_mode'', ''transport'', ''directory_observed_reachable'']"

definition dispatch_ticket_route_material :: "crypto \<Rightarrow> manifest_env \<Rightarrow> Node \<Rightarrow> json" where
  "dispatch_ticket_route_material C E node = JObj (project_fields route_fields (live_node_value C E node))"

section \<open>Lookups\<close>

lemma project_fields_entry:
  assumes "(k, v) \<in> set (project_fields ks source)"
  shows "k \<in> set ks \<and> map_of source k = Some v \<and> v \<noteq> JNull"
proof -
  obtain k' where "k' \<in> set ks"
      "(case map_of source k' of Some v \<Rightarrow> if v = JNull then None else Some (k', v) | None \<Rightarrow> None) = Some (k, v)"
    using assms unfolding project_fields_def set_filter_map by blast
  then show ?thesis by (cases "map_of source k'") (auto split: if_splits)
qed

lemma project_fields_cong:
  "\<forall>k \<in> set ks. map_of m k = map_of m' k \<Longrightarrow> project_fields ks m = project_fields ks m'"
  unfolding project_fields_def filter_map_def by (intro arg_cong [where f = concat] map_cong refl) simp

lemma slice_to_Some: "slice_to n s = Some p \<Longrightarrow> p = take n s"
  by (auto simp: slice_to_def split: list.splits if_splits)

lemma slice_to_ascii: "\<forall>c \<in> set s. code c < 128 \<Longrightarrow> slice_to n s = Some (take n s)"
proof (cases "drop n s")
  case (Cons c r)
  then have "c \<in> set s" by (metis in_set_dropD list.set_intros(1))
  moreover assume "\<forall>c \<in> set s. code c < 128"
  ultimately show ?thesis using Cons by (auto simp: slice_to_def utf8_continuation_def)
qed (simp add: slice_to_def)

text \<open>Two objects agree outside a set of keys.\<close>

definition agree :: "string set \<Rightarrow> (string, json) hashmap \<Rightarrow> (string, json) hashmap \<Rightarrow> bool" where
  "agree K m m' \<longleftrightarrow> (\<forall>k. k \<notin> K \<longrightarrow> map_of m k = map_of m' k)"

lemma agree_refl [simp]: "agree K m m"
  by (simp add: agree_def)

lemma agree_insert: "agree K m m' \<Longrightarrow> k \<in> K \<or> v = v' \<Longrightarrow> agree K (hm_insert k v m) (hm_insert k v' m')"
  by (auto simp: agree_def)

lemma agree_insert_all:
  assumes "agree K m m'" and "list_all2 (\<lambda>(k, v) (k', v'). k = k' \<and> (k \<in> K \<or> v = v')) kvs kvs'"
  shows "agree K (insert_all kvs m) (insert_all kvs' m')"
  using assms(2,1) unfolding insert_all_def
  by (induction arbitrary: m m' rule: list_all2_induct) (auto intro: agree_insert)

lemma agree_insert_if_absent:
  assumes "agree K m m'" and "k \<notin> K"
  shows "agree K (insert_if_absent absent k v m) (insert_if_absent absent k v m')"
  using assms agree_insert [OF assms(1), of k v v] by (simp add: insert_if_absent_def) (simp add: agree_def)

lemma agree_remove_all: "agree K m m' \<Longrightarrow> agree K (remove_all ks m) (remove_all ks m')"
  unfolding remove_all_def by (induction ks arbitrary: m m') (auto simp: agree_def)

lemma agree_project: "agree K m m' \<Longrightarrow> set ks \<inter> K = {} \<Longrightarrow> project_fields ks m = project_fields ks m'"
  by (intro project_fields_cong) (auto simp: agree_def)

lemma map_of_skip [simp]:
  "map_of (skip_none key v) k = (if k = key then v else None)"
  "map_of (opt_str_entry key s) k = (if k = key then map_option JStr s else None)"
  by (auto simp: skip_none_def opt_str_entry_def split: option.split)

lemma agree_append: "agree K a a' \<Longrightarrow> agree K b b' \<Longrightarrow> agree K (a @ b) (a' @ b')"
  by (auto simp: agree_def map_add_def split: option.split)

lemma agree_hidden:
  "key \<in> K \<Longrightarrow> agree K (skip_none key v) (skip_none key v')"
  "key \<in> K \<Longrightarrow> agree K (opt_str_entry key s) (opt_str_entry key s')"
  by (simp_all add: agree_def)

lemma agree_entry: "k \<in> K \<or> v = v' \<Longrightarrow> agree K m m' \<Longrightarrow> agree K ((k, v) # m) ((k, v') # m')"
  by (auto simp: agree_def)

section \<open>The public presentation hides the route\<close>

text \<open>
  The fields of a node that carry its address and identity, and what may still be derived from
  them: the first eight bytes of the id, the routing hint, whether a browser can use the
  endpoint, and whether there is a key and what it is ready for.
\<close>

definition route_keys :: "string set" where
  "route_keys = {''node_id'', ''endpoint'', ''transport_endpoint'', ''transport_metadata'', ''public_key'', ''cx_public_key''}"

definition hide_route ::
    "string \<Rightarrow> string \<Rightarrow> string option \<Rightarrow> json option \<Rightarrow> json option \<Rightarrow> string option \<Rightarrow> string option \<Rightarrow> Node \<Rightarrow> Node" where
  "hide_route i endpoint transport metadata key operator url n =
     n\<lparr>n_node_id := i, n_endpoint := endpoint, n_transport_endpoint := transport, n_transport_metadata := metadata,
       n_public_key := key, n_operator_pubkey := operator, n_operator_url := url\<rparr>"

lemma hide_route_select:
  "n_completed_tasks_count (hide_route i e t m k p u n) = n_completed_tasks_count n"
  "n_reputation_score (hide_route i e t m k p u n) = n_reputation_score n"
  "n_backend (hide_route i e t m k p u n) = n_backend n"
  "n_models (hide_route i e t m k p u n) = n_models n"
  "n_health_models (hide_route i e t m k p u n) = n_health_models n"
  "n_credit_cost_multiplier (hide_route i e t m k p u n) = n_credit_cost_multiplier n"
  "n_pricing_model (hide_route i e t m k p u n) = n_pricing_model n"
  "n_attested (hide_route i e t m k p u n) = n_attested n"
  "n_latency_estimate_ms (hide_route i e t m k p u n) = n_latency_estimate_ms n"
  "n_reachability_signal (hide_route i e t m k p u n) = n_reachability_signal n"
  "n_relay_capable (hide_route i e t m k p u n) = n_relay_capable n"
  "n_exposure_mode (hide_route i e t m k p u n) = n_exposure_mode n"
  "n_policy_manifest (hide_route i e t m k p u n) = n_policy_manifest n"
  "n_health_label (hide_route i e t m k p u n) = n_health_label n"
  "effective_sdk_compatibility_version (hide_route i e t m k p u n) = effective_sdk_compatibility_version n"
  by (simp_all add: hide_route_def effective_sdk_compatibility_version_def split: option.split)

definition same_derived :: "Node \<Rightarrow> Node \<Rightarrow> bool" where
  "same_derived n n' \<longleftrightarrow>
     slice_to 8 (n_node_id n) = slice_to 8 (n_node_id n') \<and> routing_hint n = routing_hint n'
     \<and> browser_usable_endpoint (n_endpoint n) = browser_usable_endpoint (n_endpoint n')
     \<and> (opt_json (n_public_key n) = JNull) = (opt_json (n_public_key n') = JNull)
     \<and> response_encryption_ready (opt_json (n_public_key n)) = response_encryption_ready (opt_json (n_public_key n'))"

lemma agree_node_value:
  "agree route_keys (node_value n) (node_value (hide_route i e t m k p u n))"
  unfolding node_value_def hide_route_def
  by (simp del: append_Cons append_Nil) (intro agree_append agree_entry; simp add: agree_hidden route_keys_def)

lemma agree_live_node_value:
  assumes "same_derived n (hide_route i e t m k p u n)"
  shows "agree route_keys (live_node_value C E n) (live_node_value C E (hide_route i e t m k p u n))"
proof -
  let ?n = "hide_route i e t m k p u n"
  have d: "routing_hint ?n = routing_hint n" "browser_usable_endpoint (n_endpoint ?n) = browser_usable_endpoint (n_endpoint n)"
      "(opt_json (n_public_key ?n) \<noteq> JNull) = (opt_json (n_public_key n) \<noteq> JNull)"
      "response_encryption_ready (opt_json (n_public_key ?n)) = response_encryption_ready (opt_json (n_public_key n))"
    using assms unfolding same_derived_def by simp_all
  have keys: "list_all2 (\<lambda>(k, v) (k', v'). k = k' \<and> (k \<in> route_keys \<or> v = v')) (key_entries n) (key_entries ?n)"
    using d(3,4) by (simp add: key_entries_def route_keys_def Let_def)
  have same: "sdk_entries ?n = sdk_entries n" "trust_entries ?n = trust_entries n" "backend_entries ?n = backend_entries n"
      "default_pricing ?n = default_pricing n" "latency_entries ?n = latency_entries n" "health_reasons ?n = health_reasons n"
      "n_policy_manifest ?n = n_policy_manifest n" "n_health_label ?n = n_health_label n"
    unfolding sdk_entries_def trust_entries_def backend_entries_def default_pricing_def latency_entries_def health_reasons_def
      observed_def hide_route_select
    by (rule refl)+
  have route: "route_entries ?n = route_entries n"
    unfolding route_entries_def d observed_def self_attests_route_def relays_def hide_route_select ..
  have refl: "list_all2 (\<lambda>(k, v) (k', v'). k = k' \<and> (k \<in> route_keys \<or> v = v')) xs xs" for xs
    by (rule list_all2_refl) auto
  show ?thesis
    unfolding live_node_value_def Let_def same route
    by (intro agree_remove_all agree_insert_if_absent agree_insert_all agree_node_value refl list_all2_appendI
        list_all2_Cons [THEN iffD2] conjI keys) (simp_all add: route_keys_def)
qed

lemma map_of_insert_all: "k \<notin> fst ` set kvs \<Longrightarrow> map_of (insert_all kvs m) k = map_of m k"
  unfolding insert_all_def by (induction kvs arbitrary: m) auto

lemma map_of_remove_all: "k \<notin> set ks \<Longrightarrow> map_of (remove_all ks m) k = map_of m k"
  unfolding remove_all_def by (induction ks arbitrary: m) auto

lemma map_of_insert_if_absent: "k \<noteq> key \<Longrightarrow> map_of (insert_if_absent absent key v m) k = map_of m k"
  by (simp add: insert_if_absent_def)

lemma live_node_id: "map_of (live_node_value C E n) ''node_id'' = Some (JStr (n_node_id n))"
proof -
  have "''node_id'' \<notin> fst ` set (key_entries n)" "''node_id'' \<notin> fst ` set (sdk_entries n)" "''node_id'' \<notin> fst ` set (trust_entries n)"
    "''node_id'' \<notin> fst ` set (route_entries n)" "''node_id'' \<notin> fst ` set (backend_entries n)" "''node_id'' \<notin> fst ` set (latency_entries n)"
    by (simp_all add: key_entries_def sdk_entries_def trust_entries_def route_entries_def backend_entries_def latency_entries_def Let_def)
  moreover have "map_of (node_value n) ''node_id'' = Some (JStr (n_node_id n))" by (simp add: node_value_def)
  moreover have "''node_id'' \<notin> set internal_fields" by (simp add: internal_fields_def)
  ultimately show ?thesis
    unfolding live_node_value_def Let_def
    by (simp add: map_of_remove_all map_of_insert_if_absent map_of_insert_all image_Un)
qed

text \<open>
  The health summary of a node looks for the status \<open>verified\<close>, which verification never
  produces: a manifest with a valid signature has status \<open>signed_valid\<close> and is shown as unverified.
\<close>

lemma verification_status:
  "v_status (verify_manifest C E m) \<in> {''self_attested'', ''signed_valid'', ''signed_invalid'', ''signed_expired'', ''signed_revoked''}"
proof -
  have "v_status (apply_signature_time E v) \<in> {''signed_valid'', ''signed_invalid'', ''signed_expired'', ''signed_revoked''}" for v
    by (simp add: apply_signature_time_def Let_def)
  then show ?thesis
    unfolding verify_manifest_def Let_def
    by (auto simp: base_verification_def split: option.splits json.splits sum.splits dest: verify_detached_Inl)
qed

lemma manifest_never_shown_verified:
  "json_index (policy_health_reason (public_policy_manifest C E manifest)) ''state'' \<noteq> JStr ''verified''"
proof -
  have "v_status (verify_manifest C E m) \<noteq> ''verified''" for m using verification_status [of C E m] by auto
  then show ?thesis
    by (auto simp: policy_health_reason_def health_reason_def json_index_def json_pointer2_def public_policy_manifest_def
        manifest_verification_json_def Let_def split: option.splits json.splits list.splits)
qed

text \<open>
  C24. The public presentation hides the route. Every key of it is the id prefix or one of the listed
  public fields, none of which is an address, an identity or a key; the prefix is the first
  eight bytes of the id; and two nodes that differ only in their id, endpoint, transport
  endpoint, transport metadata, key material, operator key and operator URL, and from which the
  same hints are derived, are presented alike.
\<close>

theorem public_presentation_hides_route:
  "(public_discover_node (JObj (live_node_value C E n)) = Some (JObj shown) \<longrightarrow>
      (\<forall>(k, v) \<in> set shown. k = ''node_id_prefix'' \<and> v = JStr (take 8 (n_node_id n)) \<or> k \<in> set public_fields))
   \<and> set public_fields \<inter> route_keys = {}
   \<and> (same_derived n (hide_route i e t m key p u n) \<longrightarrow>
        public_discover_node (JObj (live_node_value C E (hide_route i e t m key p u n)))
          = public_discover_node (JObj (live_node_value C E n)))"
proof (intro conjI impI)
  have disjoint: "set public_fields \<inter> route_keys = {}" by (simp add: public_fields_def route_keys_def)
  then show "set public_fields \<inter> route_keys = {}" .
  show "\<forall>(k, v) \<in> set shown. k = ''node_id_prefix'' \<and> v = JStr (take 8 (n_node_id n)) \<or> k \<in> set public_fields"
    if "public_discover_node (JObj (live_node_value C E n)) = Some (JObj shown)"
    using that by (auto simp: public_discover_node_def live_node_id dest: slice_to_Some project_fields_entry)
  show "public_discover_node (JObj (live_node_value C E (hide_route i e t m key p u n)))
          = public_discover_node (JObj (live_node_value C E n))"
    if d: "same_derived n (hide_route i e t m key p u n)"
  proof -
    have "slice_to 8 (n_node_id (hide_route i e t m key p u n)) = slice_to 8 (n_node_id n)"
      using d unfolding same_derived_def by simp
    then show ?thesis
      using agree_project [OF agree_live_node_value [OF d, of C E] disjoint] by (simp add: public_discover_node_def live_node_id)
  qed
qed

definition demo_manifest_env :: manifest_env where
  "demo_manifest_env = \<lparr>me_b64 = Some, me_b64url = Some, me_rfc3339 = (\<lambda>_. None), me_now = 0\<rparr>"

theorem public_presentation_hides_route_witness:
  "let n = blank_node ''abcdefgh-1'';
       n' = hide_route ''abcdefgh-2'' ''https://x.org'' (Some ''iicp://y'') (Some JNull) None (Some ''op'') None n
   in same_derived n n' \<and> n_endpoint n \<noteq> n_endpoint n'
      \<and> public_discover_node (JObj (live_node_value demo_crypto demo_manifest_env n'))
          = public_discover_node (JObj (live_node_value demo_crypto demo_manifest_env n))"
proof -
  let ?n = "blank_node ''abcdefgh-1''"
  let ?n' = "hide_route ''abcdefgh-2'' ''https://x.org'' (Some ''iicp://y'') (Some JNull) None (Some ''op'') None ?n"
  have "same_derived ?n ?n'" by code_simp
  moreover have "n_endpoint ?n \<noteq> n_endpoint ?n'" by (simp add: blank_node_def hide_route_def)
  ultimately show ?thesis
    using public_presentation_hides_route [of demo_crypto demo_manifest_env ?n] unfolding Let_def by blast
qed

end
