(* ===== verification/Dispatch.thy ===== *)
theory Dispatch
  imports Projection Lifecycle
begin

text \<open>
  The discovery endpoints of \<open>src/discovery.rs\<close>: \<open>GET /v1/discover\<close> with its profile negotiation,
  \<open>POST /v1/dispatch/ticket\<close> and \<open>GET /v1/node/{id}\<close>. Query strings and bodies arrive decoded.
  A response is \<open>None\<close> when the handler panics.
\<close>

section \<open>Profile negotiation\<close>

definition PROFILE_ID :: string where
  "PROFILE_ID = ''iicp.profile.compatibility.v0''"

definition PROFILE_VERSION :: string where
  "PROFILE_VERSION = ''0.4.0-draft''"

definition PROFILE_FIXTURE_SHA256 :: string where
  "PROFILE_FIXTURE_SHA256 = ''d039eaf52afca6866832779261db7bdd2ffd818a36bc8ba9aea1db0c9c115012''"

definition PREVIOUS_PROFILE_VERSION :: string where
  "PREVIOUS_PROFILE_VERSION = ''0.3.0-draft''"

definition PREVIOUS_PROFILE_FIXTURE_SHA256 :: string where
  "PREVIOUS_PROFILE_FIXTURE_SHA256 = ''4137ecf91b4748a2b368cf4428b4604c6947f8879d77402cc7937d11d24b2aaf''"

record DiscoverParams =
  dp_intent :: "string option"
  dp_region :: "string option"
  dp_limit :: "nat option"
  dp_min_reputation :: "f64 option"
  dp_cip_capable :: "string option"
  dp_model :: "string option"
  dp_qos :: "string option"
  dp_profile_id :: "string option"
  dp_profile_version :: "string option"
  dp_profile_fixture_sha256 :: "string option"
  dp_profile_required :: "bool option"
  dp_view :: "string option"

definition profile_compatible :: "DiscoverParams \<Rightarrow> bool" where
  "profile_compatible p \<longleftrightarrow>
     dp_profile_id p = Some PROFILE_ID
     \<and> (dp_profile_version p, dp_profile_fixture_sha256 p) \<in>
         {(Some PROFILE_VERSION, Some PROFILE_FIXTURE_SHA256),
          (Some PREVIOUS_PROFILE_VERSION, Some PREVIOUS_PROFILE_FIXTURE_SHA256)}"

definition profile_negotiation :: "DiscoverParams \<Rightarrow> json option" where
  "profile_negotiation p =
     (case dp_profile_id p of
        None \<Rightarrow> None
      | Some profile_id \<Rightarrow>
          (let required = unwrap_or False (dp_profile_required p);
               compatible = profile_compatible p
           in Some (JObj [(''requested'', JBool True), (''profile_id'', JStr profile_id),
                 (''profile_version'', opt_string (dp_profile_version p)),
                 (''fixture_sha256'', opt_string (dp_profile_fixture_sha256 p)), (''required'', JBool required),
                 (''status'', JStr (if compatible then ''compatible'' else ''unsupported'')),
                 (''reason'', JStr (if compatible then ''compatible'' else ''unsupported_pre_normative_profile'')),
                 (''dispatch_allowed'', JBool (compatible \<or> \<not> required)), (''supported_profile'', JStr PROFILE_ID),
                 (''supported_version'', JStr PROFILE_VERSION), (''supported_fixture_sha256'', JStr PROFILE_FIXTURE_SHA256)])))"

section \<open>Discovery\<close>

definition operator_display_name_for :: "InMemoryRepo \<Rightarrow> string option \<Rightarrow> string option" where
  "operator_display_name_for M operator_pubkey = Option.bind operator_pubkey (operator_display_name M)"

definition operator_fingerprint_for :: "crypto \<Rightarrow> string option \<Rightarrow> string option" where
  "operator_fingerprint_for C operator_pubkey = map_option (public_operator_fingerprint C) (nonempty operator_pubkey)"

text \<open>The fields the server derives before it shows a node.\<close>

definition enrich_route :: "Node \<Rightarrow> Node" where
  "enrich_route n =
     n\<lparr>n_address_family := Some (detect_address_family (n_endpoint n) (n_transport_endpoint n)),
       n_transport := transport_methods (n_endpoint n) (n_transport_endpoint n)\<rparr>"

definition enrich :: "crypto \<Rightarrow> InMemoryRepo \<Rightarrow> Node \<Rightarrow> Node" where
  "enrich C M n =
     (enrich_route n)\<lparr>n_operator_display_name := operator_display_name_for M (n_operator_pubkey n),
                      n_operator_fingerprint := operator_fingerprint_for C (n_operator_pubkey n)\<rparr>"

definition verified_operator_keys :: "Node list \<Rightarrow> string list" where
  "verified_operator_keys nodes = filter_map n_operator_pubkey (filter n_operator_verified nodes)"

definition diversity_evidence :: "Node list \<Rightarrow> json" where
  "diversity_evidence nodes =
     JObj [(''nodes'', u32_json (of_nat (length nodes))),
           (''nodes_with_verified_operator'', JInt (int (length (verified_operator_keys nodes)))),
           (''distinct_verified_operators'', JInt (int (card (set (verified_operator_keys nodes))))),
           (''distinct_regions'', JInt (int (card (set (filter (\<lambda>r. r \<noteq> []) (map n_region nodes)))))),
           (''operator_basis'', JStr ''verified_operator_key_aggregate''), (''failure_domain_count'', JNull),
           (''failure_domain_basis'', JStr ''not_attested''), (''identity_material_exposed'', JBool False)]"

definition discover_nodes :: "crypto \<Rightarrow> manifest_env \<Rightarrow> bool \<Rightarrow> Node list \<Rightarrow> json list option" where
  "discover_nodes C E public_view nodes =
     those (map (\<lambda>n. let v = JObj (live_node_value C E n) in if public_view then public_discover_node v else Some v) nodes)"

definition build_discover_response ::
    "RequestContext \<Rightarrow> discovery_env \<Rightarrow> bool \<Rightarrow> Node list \<Rightarrow> json option \<Rightarrow> AppState \<Rightarrow> response option \<times> AppState" where
  "build_discover_response X D public_view nodes negotiated_profile S =
     (let S' = S\<lparr>st_repo := record_dispatch_usage (de_show_date D) (de_today D)
                  (if public_view then ''public_view'' else ''legacy_dispatch'') (st_repo S)\<rparr>
      in (map_option
            (\<lambda>response_nodes.
               (200, JObj ([(''nodes'', JArr response_nodes), (''count'', u32_json (of_nat (length nodes))),
                  (''relay_available'', JBool (list_ex relays nodes)), (''query_ms'', JInt (de_query_ms D)),
                  (''view'', JStr (if public_view then ''public'' else ''dispatch'')),
                  (''data_class'', JStr (if public_view then ''public_presentation'' else ''route_dispatch'')),
                  (''route_fields_present'', JBool (\<not> public_view)), (''diversity_evidence'', diversity_evidence nodes)]
                  @ skip_none ''profile_negotiation'' negotiated_profile)))
            (discover_nodes (cx_crypto X) (de_manifest D) public_view nodes), S'))"

definition selection_request :: "DiscoverParams \<Rightarrow> SelectionRequest" where
  "selection_request p =
     \<lparr>sr_model = dp_model p, sr_qos = dp_qos p, sr_region = dp_region p, sr_min_reputation = unwrap_or 0 (dp_min_reputation p),
      sr_limit = min (max (unwrap_or 10 (dp_limit p)) 1) 50, sr_cip_capable = (dp_cip_capable p \<in> {Some ''1'', Some ''true''})\<rparr>"

definition candidates :: "discovery_env \<Rightarrow> string \<Rightarrow> DiscoverParams \<Rightarrow> InMemoryRepo \<Rightarrow> Node list" where
  "candidates D intent p M =
     (let nodes = discover M \<lparr>q_intent = intent, q_region = dp_region p, q_limit = 50, q_min_reputation = dp_min_reputation p\<rparr>
      in case de_members D of
           None \<Rightarrow> nodes
         | Some current \<Rightarrow> filter (\<lambda>n. n_node_id n \<in> set (current (map n_node_id nodes))) nodes)"

definition discover_selection :: "RequestContext \<Rightarrow> discovery_env \<Rightarrow> string \<Rightarrow> DiscoverParams \<Rightarrow> InMemoryRepo \<Rightarrow> Node list" where
  "discover_selection X D intent p M =
     map (enrich (cx_crypto X) M)
       (select_and_rank (candidates D intent p M) (selection_request p) (\<lambda>v. sdk_status v = ''current''))"

definition discover_refusal :: "DiscoverParams \<Rightarrow> response option" where
  "discover_refusal p =
     (if Option.bind (profile_negotiation p) (\<lambda>n. json_get n ''dispatch_allowed'') = Some (JBool False)
      then Some (422, JObj [(''error'', JObj [(''code'', JStr ''unsupported_pre_normative_profile''),
              (''message'', JStr ''The requested pre-normative profile is not supported by this directory.'')]),
              (''profile_negotiation'', opt_json (profile_negotiation p))])
      else case nonempty (dp_intent p) of
        None \<Rightarrow> Some (err_json 422 ''validation_error'' ''intent is required'')
      | Some intent \<Rightarrow>
          (case public_mesh_refusal intent of
             Some classification \<Rightarrow> Some (policy_reject classification)
           | None \<Rightarrow>
               (case validate_min_reputation (dp_min_reputation p) of
                  Inl message \<Rightarrow> Some (reject ''validation_error'' message)
                | Inr _ \<Rightarrow>
                    (case validate_qos (dp_qos p) of
                       Inl message \<Rightarrow> Some (reject ''validation_error'' message)
                     | Inr _ \<Rightarrow> None))))"

definition discover_handler :: "RequestContext \<Rightarrow> discovery_env \<Rightarrow> DiscoverParams \<Rightarrow> AppState \<Rightarrow> response option \<times> AppState" where
  "discover_handler X D p S =
     (case discover_refusal p of
        Some refusal \<Rightarrow> (Some refusal, S)
      | None \<Rightarrow>
          build_discover_response X D (dp_view p = Some ''public'')
            (discover_selection X D (unwrap_or [] (dp_intent p)) p (st_repo S)) (profile_negotiation p) S)"

section \<open>Dispatch tickets\<close>

record DispatchTicketRequest =
  dt_intent :: string
  dt_region :: "string option"
  dt_model :: "string option"
  dt_min_reputation :: "f64 option"
  dt_limit :: "nat option"
  dt_relay_capable :: "bool option"
  dt_node_id :: "string option"
  dt_node_id_prefix :: "string option"
  dt_exclude_node_id_prefixes :: "string list"
  dt_prompt :: "json option"
  dt_messages :: "json option"
  dt_payload :: "json option"
  dt_input :: "json option"
  dt_chat :: "json option"
  dt_content :: "json option"
  dt_response :: "json option"

definition DISPATCH_TICKET_DOMAIN :: string where
  "DISPATCH_TICKET_DOMAIN = ''iicp:dispatch-route-ticket:v1'' @ [CHR 10]"

definition DISPATCH_TICKET_AUDIENCE :: string where
  "DISPATCH_TICKET_AUDIENCE = ''iicp.directory.dispatch''"

definition DISPATCH_TICKET_TTL_SECONDS :: int where
  "DISPATCH_TICKET_TTL_SECONDS = 120"

definition dispatch_ticket_contains_payload :: "DispatchTicketRequest \<Rightarrow> bool" where
  "dispatch_ticket_contains_payload req \<longleftrightarrow>
     dt_prompt req \<noteq> None \<or> dt_messages req \<noteq> None \<or> dt_payload req \<noteq> None \<or> dt_input req \<noteq> None \<or> dt_chat req \<noteq> None
     \<or> dt_content req \<noteq> None \<or> dt_response req \<noteq> None"

definition prefix_length_ok :: "string \<Rightarrow> bool" where
  "prefix_length_ok p \<longleftrightarrow> 4 \<le> length p \<and> length p \<le> 36"

definition dispatch_ticket_selector_error :: "DispatchTicketRequest \<Rightarrow> string option" where
  "dispatch_ticket_selector_error req =
     (if (case dt_node_id req of None \<Rightarrow> False | Some i \<Rightarrow> length i > 64)
         \<or> (case dt_node_id_prefix req of None \<Rightarrow> False | Some i \<Rightarrow> \<not> prefix_length_ok i)
         \<or> length (dt_exclude_node_id_prefixes req) > 10
         \<or> list_ex (\<lambda>p. \<not> prefix_length_ok p) (dt_exclude_node_id_prefixes req)
      then Some ''invalid node selector or exclusion prefix''
      else if dt_node_id req \<noteq> None \<and> dt_node_id_prefix req \<noteq> None
      then Some ''Use node_id or node_id_prefix, not both.''
      else if (case dt_min_reputation req of None \<Rightarrow> False | Some m \<Rightarrow> \<not> (0 \<le> m \<and> m \<le> 1))
      then Some ''min_reputation must be in [0, 1]''
      else None)"

definition no_route_available :: "int \<times> string \<times> string" where
  "no_route_available = (404, ''no_route_available'', ''No eligible route matched the requested intent and filters.'')"

definition select_dispatch_ticket_node :: "Node list \<Rightarrow> DispatchTicketRequest \<Rightarrow> (int \<times> string \<times> string) + Node" where
  "select_dispatch_ticket_node nodes req =
     (case dt_node_id req of
        Some node_id \<Rightarrow>
          (case find (\<lambda>n. n_node_id n = node_id) nodes of Some n \<Rightarrow> Inr n | None \<Rightarrow> Inl no_route_available)
      | None \<Rightarrow>
          (case dt_node_id_prefix req of
             Some p \<Rightarrow>
               (case filter (\<lambda>n. starts_with (n_node_id n) p) nodes of
                  [] \<Rightarrow> Inl no_route_available
                | [n] \<Rightarrow> Inr n
                | _ \<Rightarrow> Inl (409, ''ambiguous_node_prefix'',
                            ''The node_id_prefix matches more than one eligible node; provide a longer prefix.''))
           | None \<Rightarrow> (case nodes of [] \<Rightarrow> Inl no_route_available | n # _ \<Rightarrow> Inr n)))"

definition ticket_match :: "DispatchTicketRequest \<Rightarrow> Node \<Rightarrow> bool" where
  "ticket_match req n \<longleftrightarrow>
     n_health_models n \<noteq> Some []
     \<and> (case dt_model req of None \<Rightarrow> True | Some model \<Rightarrow> model \<in> set (unwrap_or (n_models n) (n_health_models n)))
     \<and> (case dt_relay_capable req of None \<Rightarrow> True | Some required \<Rightarrow> relays n = required)
     \<and> \<not> list_ex (\<lambda>p. starts_with (n_node_id n) p) (dt_exclude_node_id_prefixes req)"

definition ticket_candidates :: "RequestContext \<Rightarrow> DispatchTicketRequest \<Rightarrow> InMemoryRepo \<Rightarrow> Node list" where
  "ticket_candidates X req M =
     (let limit = (if dt_node_id req \<noteq> None \<or> dt_node_id_prefix req \<noteq> None then 50 else min (max (unwrap_or 10 (dt_limit req)) 1) 50)
      in map (enrich (cx_crypto X) M)
           (filter (ticket_match req)
             (discover M \<lparr>q_intent = dt_intent req, q_region = dt_region req, q_limit = limit, q_min_reputation = dt_min_reputation req\<rparr>)))"

definition ticket_claims :: "RequestContext \<Rightarrow> string \<Rightarrow> DispatchTicketRequest \<Rightarrow> json" where
  "ticket_claims X node_id req =
     JObj [(''v'', JInt 1), (''typ'', JStr ''dispatch-route-ticket''), (''iss'', JStr ''https://iicp.network''),
           (''aud'', JStr DISPATCH_TICKET_AUDIENCE), (''jti'', JStr (take 24 (uuid_hex (cx_uuid X 0)))), (''node_id'', JStr node_id),
           (''intent'', JStr (dt_intent req)), (''iat'', JInt (uint (cx_now X))),
           (''exp'', JInt (uint (cx_now X) + DISPATCH_TICKET_TTL_SECONDS))]"

definition ticket_not_configured :: response where
  "ticket_not_configured =
     err_json 503 ''not_configured'' ''Dispatch route ticket signing key not configured on this directory.''"

definition ticket_body :: "RequestContext \<Rightarrow> discovery_env \<Rightarrow> DispatchTicketRequest \<Rightarrow> Node \<Rightarrow> string \<Rightarrow> string \<Rightarrow> json" where
  "ticket_body X D req selected ticket node_prefix =
     JObj [(''ticket'', JStr ticket), (''ticket_id_prefix'', JStr (take 12 (take 24 (uuid_hex (cx_uuid X 0))))),
           (''expires_at'', JInt (uint (cx_now X) + DISPATCH_TICKET_TTL_SECONDS)), (''intent'', JStr (dt_intent req)),
           (''node_id'', JStr (n_node_id selected)), (''node_id_prefix'', JStr node_prefix),
           (''route'', dispatch_ticket_route_material (cx_crypto X) (de_manifest D) selected), (''algorithm'', JStr ''ed25519''),
           (''data_class'', JStr ''ticketed_route_dispatch''), (''route_fields_present'', JBool True),
           (''prompt_payload_accepted'', JBool False)]"

definition ticket_refusal :: "DispatchTicketRequest \<Rightarrow> response option" where
  "ticket_refusal req =
     (if dispatch_ticket_contains_payload req
      then Some (reject ''validation_error''
             ''Dispatch ticket issuance is control-plane only; send task payloads directly to the selected node.'')
      else if \<not> validate_intent (dt_intent req) then Some (reject ''validation_error'' ''invalid intent URN'')
      else case public_mesh_refusal (dt_intent req) of
        Some classification \<Rightarrow> Some (policy_reject classification)
      | None \<Rightarrow> map_option (reject ''validation_error'') (dispatch_ticket_selector_error req))"

definition dispatch_ticket_issue ::
    "RequestContext \<Rightarrow> discovery_env \<Rightarrow> DispatchTicketRequest \<Rightarrow> AppState \<Rightarrow> response option \<times> AppState" where
  "dispatch_ticket_issue X D req S =
     (case ticket_refusal req of
        Some refusal \<Rightarrow> (Some refusal, S)
      | None \<Rightarrow>
          (case select_dispatch_ticket_node (ticket_candidates X req (st_repo S)) req of
             Inl (status, ecode, message) \<Rightarrow> (Some (err_json status ecode message), S)
           | Inr selected \<Rightarrow>
               (case Option.bind (st_signing_key S)
                       (\<lambda>secret. sign_domain_token X secret DISPATCH_TICKET_DOMAIN (ticket_claims X (n_node_id selected) req)) of
                  None \<Rightarrow> (Some ticket_not_configured, S)
                | Some ticket \<Rightarrow>
                    (case slice_to 8 (n_node_id selected) of
                       None \<Rightarrow> (None, S)
                     | Some node_prefix \<Rightarrow>
                         (Some (201, ticket_body X D req selected ticket node_prefix),
                          S\<lparr>st_repo := record_dispatch_usage (de_show_date D) (de_today D) ''ticketed_dispatch'' (st_repo S)\<rparr>)))))"

section \<open>Node detail\<close>

definition node_detail :: "RequestContext \<Rightarrow> discovery_env \<Rightarrow> string \<Rightarrow> AppState \<Rightarrow> response" where
  "node_detail X D i S =
     (case get_node (st_repo S) i of
        Some node \<Rightarrow>
          (200, JObj (insert_if_absent (\<lambda>v. v = None) ''capabilities'' (JArr [])
                        (live_node_value (cx_crypto X) (de_manifest D) (enrich_route node))))
      | None \<Rightarrow> err_json 404 ''not_found'' ''Node not found'')"

section \<open>What discovery returns\<close>

lemma discover_member:
  "n \<in> set (discover M q) \<Longrightarrow> \<exists>r \<in> set (m_records M). discover_match q r \<and> n = discover_view q r"
  by (auto simp: discover_def dest!: in_set_takeD)

lemma discover_view_keeps [simp]:
  "n_node_id (discover_view q r) = record_id r" "n_available (discover_view q r) = n_available (r_node r)"
  "n_models (discover_view q r) = n_models (r_node r)" "n_health_models (discover_view q r) = n_health_models (r_node r)"
  "n_relay_capable (discover_view q r) = n_relay_capable (r_node r)"
  "n_reputation_score (discover_view q r) = n_reputation_score (r_node r)"
  by (simp_all add: discover_view_def Let_def)

lemma enrich_keeps [simp]:
  "n_node_id (enrich C M n) = n_node_id n" "n_models (enrich C M n) = n_models n" "n_health_models (enrich C M n) = n_health_models n"
  "n_relay_capable (enrich C M n) = n_relay_capable n" "n_node_id (enrich_route n) = n_node_id n"
  by (simp_all add: enrich_def enrich_route_def)

lemma select_and_rank_member:
  "n \<in> set (select_and_rank nodes req sdk) \<Longrightarrow> \<exists>n0 \<in> set nodes. selectable req n0 \<and> n = rank_node sdk req n0"
  by (auto simp: select_and_rank_def dest!: in_set_takeD)

lemma selectable_facts:
  assumes "selectable req n"
  shows "n_health_models n \<noteq> Some []"
    and "sr_model req = Some m \<Longrightarrow> m \<in> set (unwrap_or (n_models n) (n_health_models n))"
    and "rp_backend_state (n_routing_policy n) \<notin> {Some ''draining'', Some ''unavailable''}"
  using assms by (auto simp: selectable_def eligible_def eligibility_input_def Let_def split: if_splits)

lemma candidates_member:
  assumes "n \<in> set (candidates D intent p M)"
  shows "\<exists>r \<in> set (m_records M). n_node_id n = record_id r \<and> n_models n = n_models (r_node r)
      \<and> n_health_models n = n_health_models (r_node r) \<and> n_routing_policy n = n_routing_policy (r_node r)
      \<and> intent \<in> set (r_intents r) \<and> n_available (r_node r)
      \<and> (\<forall>least. dp_min_reputation p = Some least \<longrightarrow> least \<le> n_reputation_score (r_node r))"
    and "de_members D = Some current \<Longrightarrow> \<exists>ids. n_node_id n \<in> set (current ids)"
proof -
  let ?q = "\<lparr>q_intent = intent, q_region = dp_region p, q_limit = 50, q_min_reputation = dp_min_reputation p\<rparr>"
  have "n \<in> set (discover M ?q)" using assms by (auto simp: candidates_def Let_def split: option.splits)
  from discover_member [OF this] show "\<exists>r \<in> set (m_records M). n_node_id n = record_id r \<and> n_models n = n_models (r_node r)
      \<and> n_health_models n = n_health_models (r_node r) \<and> n_routing_policy n = n_routing_policy (r_node r)
      \<and> intent \<in> set (r_intents r) \<and> n_available (r_node r)
      \<and> (\<forall>least. dp_min_reputation p = Some least \<longrightarrow> least \<le> n_reputation_score (r_node r))"
    by (auto simp: discover_match_def discover_view_def Let_def intro!: bexI)
  show "\<exists>ids. n_node_id n \<in> set (current ids)" if "de_members D = Some current"
    using assms that by (auto simp: candidates_def Let_def)
qed

text \<open>A node may be shown to a caller who asks for an intent.\<close>

definition offered :: "discovery_env \<Rightarrow> string \<Rightarrow> DiscoverParams \<Rightarrow> NodeRecord \<Rightarrow> bool" where
  "offered D intent p r \<longleftrightarrow>
     intent \<in> set (r_intents r) \<and> n_available (r_node r)
     \<and> (\<forall>least. dp_min_reputation p = Some least \<longrightarrow> least \<le> n_reputation_score (r_node r))
     \<and> n_health_models (r_node r) \<noteq> Some []
     \<and> (\<forall>m. dp_model p = Some m \<longrightarrow> m \<in> set (unwrap_or (n_models (r_node r)) (n_health_models (r_node r))))
     \<and> rp_backend_state (n_routing_policy (r_node r)) \<notin> {Some ''draining'', Some ''unavailable''}
     \<and> (\<forall>current. de_members D = Some current \<longrightarrow> (\<exists>ids. record_id r \<in> set (current ids)))"

lemma discover_selection_offered:
  assumes "n \<in> set (discover_selection X D intent p M)"
  shows "\<exists>r \<in> set (m_records M). record_id r = n_node_id n \<and> offered D intent p r"
proof -
  obtain n0 where n0: "n0 \<in> set (candidates D intent p M)" "selectable (selection_request p) n0" "n_node_id n = n_node_id n0"
    using assms by (auto simp: discover_selection_def dest!: select_and_rank_member)
  obtain r where r: "r \<in> set (m_records M)" "n_node_id n0 = record_id r" "n_models n0 = n_models (r_node r)"
      "n_health_models n0 = n_health_models (r_node r)" "n_routing_policy n0 = n_routing_policy (r_node r)"
      "intent \<in> set (r_intents r)" "n_available (r_node r)"
      "\<forall>least. dp_min_reputation p = Some least \<longrightarrow> least \<le> n_reputation_score (r_node r)"
    using candidates_member(1) [OF n0(1)] by auto
  have "offered D intent p r"
    using r(3-8) selectable_facts [OF n0(2)] candidates_member(2) [OF n0(1)] r(2)
    by (auto simp: offered_def selection_request_def)
  then show ?thesis using r(1,2) n0(3) by metis
qed

lemma discover_selection_length:
  "length (discover_selection X D intent p M) \<le> min (max (unwrap_or 10 (dp_limit p)) 1) 50"
proof -
  have "length (discover_selection X D intent p M) \<le> sr_limit (selection_request p)"
    by (simp add: discover_selection_def select_and_rank_def)
  then show ?thesis by (simp add: selection_request_def)
qed

lemma discover_refusal_None:
  assumes "discover_refusal p = None"
  shows "\<exists>intent. dp_intent p = Some intent \<and> intent \<noteq> [] \<and> public_mesh_refusal intent = None"
  using assms by (auto simp: discover_refusal_def nonempty_def split: if_splits option.splits)

lemma discover_refusal_status: "discover_refusal p = Some resp \<Longrightarrow> fst resp = 422"
  by (auto simp: discover_refusal_def reject_def policy_reject_def err_json_def split: if_splits option.splits sum.splits)


lemma discover_nodes_dispatch:
  "discover_nodes C E False nodes = Some (map (\<lambda>n. JObj (live_node_value C E n)) nodes)"
  unfolding discover_nodes_def Let_def by (induction nodes) auto

text \<open>A handler that slices node ids of ASCII characters does not panic.\<close>

lemma discover_nodes_ascii:
  assumes "\<forall>n \<in> set nodes. \<forall>c \<in> set (n_node_id n). code c < 128"
  shows "\<exists>shown. discover_nodes C E public_view nodes = Some shown \<and> length shown = length nodes"
proof -
  have "\<exists>v. public_discover_node (JObj (live_node_value C E n)) = Some v" if "n \<in> set nodes" for n
    using assms that by (simp add: public_discover_node_def live_node_id slice_to_ascii)
  then show ?thesis
    unfolding discover_nodes_def Let_def by (induction nodes) (auto, fastforce)
qed

definition demo_discovery_env :: discovery_env where
  "demo_discovery_env =
     \<lparr>de_manifest = demo_manifest_env, de_query_ms = 0, de_show_date = show_int, de_today = 7, de_members = None\<rparr>"

definition demo_params :: DiscoverParams where
  "demo_params =
     \<lparr>dp_intent = Some ''urn:iicp:intent:llm:chat:v1'', dp_region = None, dp_limit = Some 3, dp_min_reputation = None,
      dp_cip_capable = None, dp_model = None, dp_qos = None, dp_profile_id = None, dp_profile_version = None,
      dp_profile_fixture_sha256 = None, dp_profile_required = None, dp_view = None\<rparr>"

definition serving_record :: "string \<Rightarrow> NodeRecord" where
  "serving_record i = (demo_node_record i ''t'')\<lparr>r_intents := [''urn:iicp:intent:llm:chat:v1'']\<rparr>"


section \<open>What a ticket says\<close>

lemma select_dispatch_ticket_node_Inr:
  assumes "select_dispatch_ticket_node nodes req = Inr n"
  shows "n \<in> set nodes" and "dt_node_id req = Some i \<Longrightarrow> n_node_id n = i"
    and "dt_node_id req = None \<Longrightarrow> dt_node_id_prefix req = Some p \<Longrightarrow> filter (\<lambda>n. starts_with (n_node_id n) p) nodes = [n]"
proof -
  show "n \<in> set nodes"
  proof (cases "dt_node_id req")
    case None
    then show ?thesis
      using assms
      by (auto simp: select_dispatch_ticket_node_def split: option.splits list.splits dest!: arg_cong [where f = set])
  next
    case (Some i)
    then show ?thesis
      using assms by (auto simp: select_dispatch_ticket_node_def split: option.splits dest: find_Some_set)
  qed
  show "n_node_id n = i" if "dt_node_id req = Some i"
    using assms that by (auto simp: select_dispatch_ticket_node_def split: option.splits dest: find_Some_set)
  show "filter (\<lambda>n. starts_with (n_node_id n) p) nodes = [n]" if "dt_node_id req = None" "dt_node_id_prefix req = Some p"
    using assms that by (auto simp: select_dispatch_ticket_node_def split: list.splits)
qed

lemma ticket_refusal_None:
  assumes "ticket_refusal req = None"
  shows "\<not> dispatch_ticket_contains_payload req" "validate_intent (dt_intent req)" "public_mesh_refusal (dt_intent req) = None"
    "dispatch_ticket_selector_error req = None"
  using assms by (auto simp: ticket_refusal_def split: if_splits option.splits)

lemma ticket_refusal_status: "ticket_refusal req = Some resp \<Longrightarrow> fst resp = 422"
  by (auto simp: ticket_refusal_def reject_def policy_reject_def err_json_def split: if_splits option.splits)

text \<open>A record may be disclosed to the caller of a ticket request.\<close>

definition ticketed :: "DispatchTicketRequest \<Rightarrow> NodeRecord \<Rightarrow> bool" where
  "ticketed req r \<longleftrightarrow>
     dt_intent req \<in> set (r_intents r) \<and> n_available (r_node r)
     \<and> (\<forall>least. dt_min_reputation req = Some least \<longrightarrow> least \<le> n_reputation_score (r_node r))
     \<and> ticket_match req (r_node r)"

lemma ticket_match_cong:
  assumes "n_node_id n = n_node_id n'" "n_models n = n_models n'" "n_health_models n = n_health_models n'"
    "n_relay_capable n = n_relay_capable n'"
  shows "ticket_match req n = ticket_match req n'"
  unfolding ticket_match_def relays_def assms ..

lemma ticket_candidates_member:
  assumes "n \<in> set (ticket_candidates X req M)"
  shows "\<exists>r \<in> set (m_records M). record_id r = n_node_id n \<and> ticketed req r"
proof -
  obtain q n0 where n0: "n0 \<in> set (discover M q)" "ticket_match req n0" "n = enrich (cx_crypto X) M n0"
      "q_intent q = dt_intent req" "q_min_reputation q = dt_min_reputation req"
    using assms by (auto simp: ticket_candidates_def Let_def split: if_splits)
  obtain r where r: "r \<in> set (m_records M)" "discover_match q r" "n0 = discover_view q r"
    using discover_member [OF n0(1)] by blast
  have "ticket_match req (r_node r)" using n0(2) r(3) ticket_match_cong [of n0 "r_node r" req] by simp
  then have "ticketed req r" using r(2) n0(4,5) by (auto simp: ticketed_def discover_match_def)
  then show ?thesis using r n0(3) by (auto intro!: bexI [of _ r])
qed

lemma dispatch_ticket_issue_201:
  assumes "dispatch_ticket_issue X D req S = (Some (201, body), S')"
  obtains n secret ticket where "ticket_refusal req = None"
    and "select_dispatch_ticket_node (ticket_candidates X req (st_repo S)) req = Inr n"
    and "st_signing_key S = Some secret"
    and "sign_domain_token X secret DISPATCH_TICKET_DOMAIN (ticket_claims X (n_node_id n) req) = Some ticket"
    and "body = ticket_body X D req n ticket (take 8 (n_node_id n))"
    and "S' = S\<lparr>st_repo := record_dispatch_usage (de_show_date D) (de_today D) ''ticketed_dispatch'' (st_repo S)\<rparr>"
proof -
  have none: "ticket_refusal req = None"
    using assms ticket_refusal_status by (cases "ticket_refusal req") (fastforce simp: dispatch_ticket_issue_def)+
  have "\<exists>n. select_dispatch_ticket_node (ticket_candidates X req (st_repo S)) req = Inr n"
  proof (cases "select_dispatch_ticket_node (ticket_candidates X req (st_repo S)) req")
    case (Inl e)
    then have "fst e = 201" using assms none by (auto simp: dispatch_ticket_issue_def err_json_def split: prod.splits)
    moreover have "fst e \<in> {404, 409}"
      using Inl by (auto simp: select_dispatch_ticket_node_def no_route_available_def split: option.splits list.splits)
    ultimately show ?thesis by auto
  qed blast
  then obtain n where n: "select_dispatch_ticket_node (ticket_candidates X req (st_repo S)) req = Inr n" ..
  let ?sign = "\<lambda>secret. sign_domain_token X secret DISPATCH_TICKET_DOMAIN (ticket_claims X (n_node_id n) req)"
  obtain ticket where t: "Option.bind (st_signing_key S) ?sign = Some ticket"
    using assms none n
    by (cases "Option.bind (st_signing_key S) ?sign") (auto simp: dispatch_ticket_issue_def ticket_not_configured_def err_json_def)
  obtain node_prefix where pre: "slice_to 8 (n_node_id n) = Some node_prefix"
    using assms none n t by (cases "slice_to 8 (n_node_id n)") (auto simp: dispatch_ticket_issue_def)
  obtain secret where "st_signing_key S = Some secret" "?sign secret = Some ticket" using t by (auto simp: bind_eq_Some_conv)
  then show ?thesis
    using that assms none n t pre slice_to_Some [OF pre] by (auto simp: dispatch_ticket_issue_def)
qed


definition demo_ticket_request :: DispatchTicketRequest where
  "demo_ticket_request =
     \<lparr>dt_intent = ''urn:iicp:intent:llm:chat:v1'', dt_region = None, dt_model = None, dt_min_reputation = None, dt_limit = None,
      dt_relay_capable = None, dt_node_id = None, dt_node_id_prefix = Some ''node'', dt_exclude_node_id_prefixes = [''spam''],
      dt_prompt = None, dt_messages = None, dt_payload = None, dt_input = None, dt_chat = None, dt_content = None, dt_response = None\<rparr>"

lemma demo_discover:
  "discover (st_repo (demo_state [serving_record i]))
     \<lparr>q_intent = ''urn:iicp:intent:llm:chat:v1'', q_region = a, q_limit = 50, q_min_reputation = None\<rparr>
   = [discover_view \<lparr>q_intent = ''urn:iicp:intent:llm:chat:v1'', q_region = a, q_limit = 50, q_min_reputation = None\<rparr> (serving_record i)]"
proof -
  have "MIN_SCORE \<le> 1 / 2" by code_simp
  then show ?thesis
    by (simp add: discover_def demo_state_def new_with_token_verification_def new_repo_def discover_match_def serving_record_def
        demo_node_record_def blank_record_def blank_node_def effective_limit_def MAX_LIMIT_def sort_desc_def)
qed


text \<open>
  Membership in a restricted domain hides a node from discovery but not from tickets: with no
  current member, discovery has no candidate, while the answer to a ticket request does not
  depend on who is a current member. A caller may so obtain the route of a node whose membership
  has expired or was revoked.
\<close>

theorem ticket_ignores_membership:
  "candidates (D\<lparr>de_members := Some (\<lambda>_. [])\<rparr>) intent p M = []
   \<and> dispatch_ticket_issue X (D\<lparr>de_members := members\<rparr>) req S = dispatch_ticket_issue X D req S"
proof -
  have "ticket_body X (D\<lparr>de_members := members\<rparr>) = ticket_body X D" by (simp add: ticket_body_def fun_eq_iff)
  moreover have "de_show_date (D\<lparr>de_members := members\<rparr>) = de_show_date D" "de_today (D\<lparr>de_members := members\<rparr>) = de_today D"
    by simp_all
  ultimately have "dispatch_ticket_issue X (D\<lparr>de_members := members\<rparr>) req S = dispatch_ticket_issue X D req S"
    unfolding dispatch_ticket_issue_def by (simp only:)
  then show ?thesis by (simp add: candidates_def)
qed

end
