(* ===== verification/Membership.thy ===== *)
theory Membership
  imports Http
begin

text \<open>
  Membership of a restricted trust domain: the table of \<open>src/restricted_domain_auth.rs\<close> with its
  issuing, revoking, authorising and listing statements, the HTTP gate in front of the protected
  operations, and the signed assertions of \<open>src/restricted_domain_membership.rs\<close>.

  The table \<open>trust_domain_memberships\<close> is the list of its rows, and a statement is the list
  operation that its SQL text says. What is MySQL's or another library's comes with the
  environment: the collation that compares text columns, the clock of the database and the one of the
  process, whether a statement succeeds, fresh UUIDs, base64url and the JCS form of a value. A
  fresh token or row id is taken not to collide with an old one.
\<close>

section \<open>Assertions\<close>

record MembershipSubject =
  ms_kind :: string
  ms_id :: string
  ms_key_id :: string
  ms_public_key_ed25519 :: string

record MembershipIssuer =
  mi_id :: string
  mi_key_id :: string

record MembershipAssertion =
  ma_schema :: string
  ma_profile :: string
  ma_assertion_id :: string
  ma_domain_id :: string
  ma_subject :: MembershipSubject
  ma_issuer :: MembershipIssuer
  ma_issued_at :: i64
  ma_expires_at :: i64
  ma_generation :: u64
  ma_scopes :: "string list"
  ma_audience :: "string list"

record MembershipSignature =
  sg_algorithm :: string
  sg_value :: string

record MembershipEnvelope =
  env_assertion :: MembershipAssertion
  env_signature :: MembershipSignature

record MembershipInput =
  in_domain_id :: string
  in_authority_id :: string
  in_authority_key_id :: string
  in_subject_kind :: string
  in_subject_id :: string
  in_subject_key_id :: string
  in_subject_public_key :: string
  in_generation :: u64
  in_issued_at :: i64
  in_expires_at :: i64
  in_scopes :: "string list"

record membership_env =
  mv_crypto :: crypto
  mv_b64url :: "string \<Rightarrow> string"
  mv_unb64url :: "string \<Rightarrow> string option"
  mv_jcs :: "json \<Rightarrow> string option"
  mv_uuid :: "nat \<Rightarrow> string"
  mv_db_now :: int
  mv_clock :: int
  mv_sql_eq :: "string \<Rightarrow> string \<Rightarrow> bool"
  mv_db_ok :: "string \<Rightarrow> bool"

definition MEMBERSHIP_DOMAIN :: string where
  "MEMBERSHIP_DOMAIN = ''IICP-RTD-MEMBERSHIP-V0'' @ [CHR 10]"

definition assertion_json :: "MembershipAssertion \<Rightarrow> json" where
  "assertion_json a =
     JObj [(''schema'', JStr (ma_schema a)), (''profile'', JStr (ma_profile a)), (''assertion_id'', JStr (ma_assertion_id a)),
           (''domain_id'', JStr (ma_domain_id a)),
           (''subject'', JObj [(''kind'', JStr (ms_kind (ma_subject a))), (''id'', JStr (ms_id (ma_subject a))),
              (''key_id'', JStr (ms_key_id (ma_subject a))), (''public_key_ed25519'', JStr (ms_public_key_ed25519 (ma_subject a)))]),
           (''issuer'', JObj [(''id'', JStr (mi_id (ma_issuer a))), (''key_id'', JStr (mi_key_id (ma_issuer a)))]),
           (''issued_at'', JInt (ma_issued_at a)), (''expires_at'', JInt (ma_expires_at a)),
           (''generation'', JInt (uint (ma_generation a))), (''scopes'', JArr (map JStr (ma_scopes a))),
           (''audience'', JArr (map JStr (ma_audience a)))]"

definition signing_input :: "membership_env \<Rightarrow> MembershipAssertion \<Rightarrow> string + string" where
  "signing_input V a =
     (case mv_jcs V (assertion_json a) of
        None \<Rightarrow> Inl ''membership canonicalization failed'' | Some text \<Rightarrow> Inr (MEMBERSHIP_DOMAIN @ text))"

definition decode_public_key :: "membership_env \<Rightarrow> string \<Rightarrow> string + string" where
  "decode_public_key V v =
     (case mv_unb64url V v of
        Some raw \<Rightarrow> if pk_from_slice (mv_crypto V) raw then Inr raw else Inl ''invalid Ed25519 public key''
      | None \<Rightarrow> Inl ''invalid Ed25519 public key'')"

text \<open>The seed of the secret key.\<close>

definition membership_signing_key :: "membership_env \<Rightarrow> string \<Rightarrow> string + string" where
  "membership_signing_key V secret_key_hex =
     (case hex_decode (mv_crypto V) secret_key_hex of
        Some bytes \<Rightarrow> if 32 \<le> length bytes then Inr (take 32 bytes) else Inl ''invalid directory signing key''
      | None \<Rightarrow> Inl ''invalid directory signing key'')"

definition validate_signing_inputs :: "membership_env \<Rightarrow> string \<Rightarrow> string \<Rightarrow> string list \<Rightarrow> string + string" where
  "validate_signing_inputs V subject_public_key secret_key_hex scopes =
     (case decode_public_key V subject_public_key of
        Inl e \<Rightarrow> Inl e
      | Inr _ \<Rightarrow>
          if scopes = [] then Inl ''a peer-verifiable assertion requires at least one peer operation scope''
          else membership_signing_key V secret_key_hex)"

definition membership_assertion :: "membership_env \<Rightarrow> MembershipInput \<Rightarrow> MembershipAssertion" where
  "membership_assertion V input =
     \<lparr>ma_schema = ''iicp.restricted-trust-domain.membership-assertion.v0'', ma_profile = ''urn:iicp:profile:restricted-trust-domain:v1'',
      ma_assertion_id = mv_uuid V 3, ma_domain_id = in_domain_id input,
      ma_subject = \<lparr>ms_kind = in_subject_kind input, ms_id = in_subject_id input, ms_key_id = in_subject_key_id input,
                    ms_public_key_ed25519 = in_subject_public_key input\<rparr>,
      ma_issuer = \<lparr>mi_id = in_authority_id input, mi_key_id = in_authority_key_id input\<rparr>,
      ma_issued_at = in_issued_at input, ma_expires_at = in_expires_at input, ma_generation = in_generation input,
      ma_scopes = in_scopes input, ma_audience = [in_domain_id input]\<rparr>"

definition sign_membership :: "membership_env \<Rightarrow> MembershipInput \<Rightarrow> string \<Rightarrow> string + MembershipEnvelope" where
  "sign_membership V input secret_key_hex =
     (case validate_signing_inputs V (in_subject_public_key input) secret_key_hex (in_scopes input) of
        Inl e \<Rightarrow> Inl e
      | Inr key \<Rightarrow>
          (let a = membership_assertion V input
           in case signing_input V a of
                Inl e \<Rightarrow> Inl e
              | Inr message \<Rightarrow>
                  Inr \<lparr>env_assertion = a,
                       env_signature = \<lparr>sg_algorithm = ''Ed25519'', sg_value = mv_b64url V (ed_sign (mv_crypto V) key message)\<rparr>\<rparr>))"

definition verify_membership :: "membership_env \<Rightarrow> MembershipEnvelope \<Rightarrow> string \<Rightarrow> bool" where
  "verify_membership V envelope authority_public_key =
     (case (decode_public_key V authority_public_key, mv_unb64url V (sg_value (env_signature envelope)),
             signing_input V (env_assertion envelope)) of
        (Inr public_key, Some raw, Inr message) \<Rightarrow>
          sig_from_slice (mv_crypto V) raw \<and> ed_verify (mv_crypto V) public_key message raw
      | _ \<Rightarrow> False)"

section \<open>Configuration\<close>

record RestrictedDomainConfig =
  rc_enabled :: bool
  rc_domain_id :: string
  rc_authority_id :: string
  rc_authority_key_id :: string
  rc_membership_epoch :: u64
  rc_max_credential_ttl_seconds :: u64

definition flag_from_env :: "(string \<Rightarrow> string option) \<Rightarrow> string \<Rightarrow> bool" where
  "flag_from_env env name =
     (case env name of None \<Rightarrow> False | Some v \<Rightarrow> to_ascii_lowercase v \<in> {''1'', ''true'', ''yes'', ''on''})"

definition number_from_env :: "(string \<Rightarrow> string option) \<Rightarrow> string \<Rightarrow> u64 \<Rightarrow> u64" where
  "number_from_env env name d = (case Option.bind (env name) (parse_uint (2 ^ 64 - 1)) of None \<Rightarrow> d | Some n \<Rightarrow> of_int n)"

definition validate_restricted_config :: "bool \<Rightarrow> RestrictedDomainConfig \<Rightarrow> string + unit" where
  "validate_restricted_config replica_mode cfg =
     (if \<not> rc_enabled cfg then Inr ()
      else if trim (rc_domain_id cfg) = [] \<or> trim (rc_authority_id cfg) = [] \<or> rc_membership_epoch cfg < 1
              \<or> rc_max_credential_ttl_seconds cfg < 60
      then Inl ''restricted trust-domain mode requires domain ID, authority ID, positive membership epoch and credential TTL of at least 60 seconds''
      else if replica_mode
      then Inl ''restricted trust-domain federation is not implemented; replica mode cannot be combined with restricted-domain mode''
      else Inr ())"

definition restricted_from_env :: "(string \<Rightarrow> string option) \<Rightarrow> bool \<Rightarrow> string + RestrictedDomainConfig" where
  "restricted_from_env env replica_mode =
     (let cfg = \<lparr>rc_enabled = flag_from_env env ''IICP_RESTRICTED_DOMAIN_ENABLED'',
                 rc_domain_id = unwrap_or [] (env ''IICP_TRUST_DOMAIN_ID''),
                 rc_authority_id = unwrap_or [] (env ''IICP_TRUST_DOMAIN_AUTHORITY_ID''),
                 rc_authority_key_id = unwrap_or [] (env ''IICP_TRUST_DOMAIN_AUTHORITY_KEY_ID''),
                 rc_membership_epoch = number_from_env env ''IICP_TRUST_DOMAIN_MEMBERSHIP_EPOCH'' 1,
                 rc_max_credential_ttl_seconds = number_from_env env ''IICP_TRUST_DOMAIN_MAX_CREDENTIAL_TTL'' 86400\<rparr>
      in case validate_restricted_config replica_mode cfg of Inl e \<Rightarrow> Inl e | Inr _ \<Rightarrow> Inr cfg)"

section \<open>The membership table\<close>

record membership_row =
  tm_domain_id :: string
  tm_subject_kind :: string
  tm_subject_id :: string
  tm_issuer_id :: string
  tm_token_hash :: string
  tm_scopes :: json
  tm_generation :: u64
  tm_expires_at :: int
  tm_revoked_at :: "int option"
  tm_membership_envelope :: "MembershipEnvelope option"

record RestrictedDomainService =
  rs_config :: RestrictedDomainConfig
  rs_pool :: "membership_row list option"

definition new_service :: "RestrictedDomainConfig \<Rightarrow> membership_row list option \<Rightarrow> string + RestrictedDomainService" where
  "new_service cfg pool =
     (if rc_enabled cfg \<and> pool = None
      then Inl ''restricted trust-domain mode requires DATABASE_URL-backed membership persistence''
      else Inr \<lparr>rs_config = cfg, rs_pool = pool\<rparr>)"

record AuthorizedMembership =
  am_subject_kind :: string
  am_generation :: u64
  am_expires_at :: i64

text \<open>\<open>revoked_at IS NULL AND expires_at > NOW() AND generation >= ?\<close> in the configured domain.\<close>

definition current_row :: "membership_env \<Rightarrow> RestrictedDomainConfig \<Rightarrow> membership_row \<Rightarrow> bool" where
  "current_row V cfg row \<longleftrightarrow>
     mv_sql_eq V (tm_domain_id row) (rc_domain_id cfg) \<and> tm_revoked_at row = None \<and> mv_db_now V < tm_expires_at row
     \<and> rc_membership_epoch cfg \<le> tm_generation row"

definition scope_allows :: "json \<Rightarrow> string \<Rightarrow> bool" where
  "scope_allows scopes operation \<longleftrightarrow>
     (case as_array scopes of
        None \<Rightarrow> False
      | Some values \<Rightarrow> list_ex (\<lambda>v. case as_str v of None \<Rightarrow> False | Some s \<Rightarrow> s = ''*'' \<or> s = operation) values)"

text \<open>\<open>Inl ()\<close> is the database error.\<close>

definition authorize ::
    "membership_env \<Rightarrow> RestrictedDomainService \<Rightarrow> string \<Rightarrow> string \<Rightarrow> string \<Rightarrow> unit + AuthorizedMembership option" where
  "authorize V svc token subject_id operation =
     (if \<not> rc_enabled (rs_config svc) \<or> token = [] \<or> subject_id = [] then Inr None
      else case rs_pool svc of
        None \<Rightarrow> Inr None
      | Some table \<Rightarrow>
          if \<not> mv_db_ok V ''authorize'' then Inl ()
          else case find (\<lambda>row. current_row V (rs_config svc) row
                            \<and> mv_sql_eq V (tm_token_hash row) (sha256_hex (mv_crypto V) token)) table of
            None \<Rightarrow> Inr None
          | Some row \<Rightarrow>
              if tm_subject_id row \<noteq> subject_id \<or> \<not> scope_allows (tm_scopes row) operation then Inr None
              else Inr (Some \<lparr>am_subject_kind = tm_subject_kind row, am_generation = tm_generation row,
                              am_expires_at = tm_expires_at row\<rparr>))"

definition ALLOWED_SCOPES :: "string list" where
  "ALLOWED_SCOPES =
     [''*'', ''registration'', ''discovery'', ''bootstrap'', ''heartbeat'', ''peers'', ''consumer_token'', ''dispatch'', ''relay'']"

definition is_peer_scope :: "string \<Rightarrow> bool" where
  "is_peer_scope scope \<longleftrightarrow> scope \<in> {''bootstrap'', ''peers'', ''relay'', ''execution'', ''cip'', ''federation''}"

record IssuedMembership =
  im_token :: string
  im_generation :: u64
  im_issued_at :: i64
  im_expires_at :: i64
  im_peer_scopes :: "string list"

definition subject_row :: "membership_env \<Rightarrow> RestrictedDomainConfig \<Rightarrow> string \<Rightarrow> string \<Rightarrow> membership_row \<Rightarrow> bool" where
  "subject_row V cfg kind subject row \<longleftrightarrow>
     mv_sql_eq V (tm_domain_id row) (rc_domain_id cfg) \<and> mv_sql_eq V (tm_subject_kind row) kind \<and> mv_sql_eq V (tm_subject_id row) subject"

text \<open>\<open>INSERT ... ON DUPLICATE KEY UPDATE\<close> under the unique key of domain, kind and subject.\<close>

definition renewed_row :: "membership_row \<Rightarrow> membership_row \<Rightarrow> membership_row" where
  "renewed_row row old =
     old\<lparr>tm_issuer_id := tm_issuer_id row, tm_token_hash := tm_token_hash row, tm_scopes := tm_scopes row,
         tm_generation := tm_generation row, tm_expires_at := tm_expires_at row, tm_revoked_at := None\<rparr>"

definition upsert_membership_row :: "(membership_row \<Rightarrow> bool) \<Rightarrow> membership_row \<Rightarrow> membership_row list \<Rightarrow> membership_row list" where
  "upsert_membership_row same row table =
     (if list_ex same table then update_first same (renewed_row row) table else table @ [row])"

definition membership_token :: "membership_env \<Rightarrow> string" where
  "membership_token V = ''iicp_mem_'' @ filter (\<lambda>c. c \<noteq> CHR ''-'') (mv_uuid V 0) @ filter (\<lambda>c. c \<noteq> CHR ''-'') (mv_uuid V 1)"

definition normalized_scopes :: "string list \<Rightarrow> string list" where
  "normalized_scopes scopes = sort_dedup (filter (\<lambda>s. s \<in> set ALLOWED_SCOPES) scopes)"

definition issued_ttl :: "RestrictedDomainConfig \<Rightarrow> u64 \<Rightarrow> u64" where
  "issued_ttl cfg ttl = min (max ttl 60) (rc_max_credential_ttl_seconds cfg)"

definition issued_generation ::
    "membership_env \<Rightarrow> RestrictedDomainConfig \<Rightarrow> string \<Rightarrow> string \<Rightarrow> membership_row list \<Rightarrow> u64" where
  "issued_generation V cfg kind subject table =
     (case find (subject_row V cfg kind subject) table of
        None \<Rightarrow> rc_membership_epoch cfg
      | Some row \<Rightarrow> max (tm_generation row + 1) (rc_membership_epoch cfg))"

definition issued_row ::
    "membership_env \<Rightarrow> RestrictedDomainConfig \<Rightarrow> string \<Rightarrow> string \<Rightarrow> string list \<Rightarrow> u64 \<Rightarrow> membership_row list \<Rightarrow> membership_row" where
  "issued_row V cfg kind subject scopes ttl table =
     \<lparr>tm_domain_id = rc_domain_id cfg, tm_subject_kind = kind, tm_subject_id = subject, tm_issuer_id = rc_authority_id cfg,
      tm_token_hash = sha256_hex (mv_crypto V) (membership_token V), tm_scopes = JArr (map JStr (normalized_scopes scopes)),
      tm_generation = issued_generation V cfg kind subject table, tm_expires_at = mv_db_now V + uint (issued_ttl cfg ttl),
      tm_revoked_at = None, tm_membership_envelope = None\<rparr>"

definition issue_record ::
    "membership_env \<Rightarrow> string \<Rightarrow> string \<Rightarrow> string list \<Rightarrow> u64 \<Rightarrow> RestrictedDomainService
       \<Rightarrow> (string + IssuedMembership) \<times> RestrictedDomainService" where
  "issue_record V kind subject scopes ttl svc =
     (let cfg = rs_config svc
      in if \<not> rc_enabled cfg then (Inl ''restricted trust-domain mode is not enabled'', svc)
         else if kind \<notin> {''node'', ''client''} \<or> trim subject = []
         then (Inl ''subject kind must be node or client and subject ID must be non-empty'', svc)
         else if normalized_scopes scopes = [] then (Inl ''at least one valid membership scope is required'', svc)
         else case rs_pool svc of
           None \<Rightarrow> (Inl ''membership persistence unavailable'', svc)
         | Some table \<Rightarrow>
             if \<not> mv_db_ok V ''issue'' then (Inl ''membership persistence failed'', svc)
             else
               (Inr \<lparr>im_token = membership_token V, im_generation = issued_generation V cfg kind subject table,
                     im_issued_at = mv_clock V, im_expires_at = mv_clock V + sint (issued_ttl cfg ttl),
                     im_peer_scopes = filter is_peer_scope (normalized_scopes scopes)\<rparr>,
                svc\<lparr>rs_pool := Some (upsert_membership_row (subject_row V cfg kind subject)
                      (issued_row V cfg kind subject scopes ttl table) table)\<rparr>))"

definition issue ::
    "membership_env \<Rightarrow> string \<Rightarrow> string \<Rightarrow> string list \<Rightarrow> u64 \<Rightarrow> RestrictedDomainService \<Rightarrow> (string + string) \<times> RestrictedDomainService" where
  "issue V kind subject scopes ttl svc =
     (case issue_record V kind subject scopes ttl svc of (Inl e, svc') \<Rightarrow> (Inl e, svc') | (Inr rec, svc') \<Rightarrow> (Inr (im_token rec), svc'))"

definition authority_key_id :: "RestrictedDomainConfig \<Rightarrow> string" where
  "authority_key_id cfg = (if trim (rc_authority_key_id cfg) = [] then rc_authority_id cfg @ ''#key-1'' else rc_authority_key_id cfg)"

record AssertionKeys =
  ak_subject_key_id :: string
  ak_subject_public_key :: string
  ak_signing_key :: string

definition store_envelope ::
    "membership_env \<Rightarrow> string \<Rightarrow> string \<Rightarrow> u64 \<Rightarrow> MembershipEnvelope \<Rightarrow> RestrictedDomainConfig \<Rightarrow> membership_row list \<Rightarrow> membership_row list" where
  "store_envelope V kind subject generation envelope cfg table =
     map (\<lambda>row. if subject_row V cfg kind subject row \<and> tm_generation row = generation
                then row\<lparr>tm_membership_envelope := Some envelope\<rparr> else row) table"

definition issue_with_assertion ::
    "membership_env \<Rightarrow> string \<Rightarrow> string \<Rightarrow> string list \<Rightarrow> u64 \<Rightarrow> AssertionKeys \<Rightarrow> RestrictedDomainService
       \<Rightarrow> (string + string \<times> MembershipEnvelope) \<times> RestrictedDomainService" where
  "issue_with_assertion V kind subject scopes ttl keys svc =
     (if trim (ak_subject_key_id keys) = [] then (Inl ''subject key identifier is required'', svc)
      else case validate_signing_inputs V (ak_subject_public_key keys) (ak_signing_key keys) (filter is_peer_scope scopes) of
        Inl e \<Rightarrow> (Inl e, svc)
      | Inr _ \<Rightarrow>
          (case issue_record V kind subject scopes ttl svc of
             (Inl e, svc') \<Rightarrow> (Inl e, svc')
           | (Inr rec, svc') \<Rightarrow>
               (let cfg = rs_config svc
                in case sign_membership V
                          \<lparr>in_domain_id = rc_domain_id cfg, in_authority_id = rc_authority_id cfg,
                           in_authority_key_id = authority_key_id cfg, in_subject_kind = kind, in_subject_id = subject,
                           in_subject_key_id = ak_subject_key_id keys, in_subject_public_key = ak_subject_public_key keys,
                           in_generation = im_generation rec, in_issued_at = im_issued_at rec, in_expires_at = im_expires_at rec,
                           in_scopes = im_peer_scopes rec\<rparr> (ak_signing_key keys) of
                     Inl e \<Rightarrow> (Inl e, svc')
                   | Inr envelope \<Rightarrow>
                       (case rs_pool svc' of
                          None \<Rightarrow> (Inl ''membership persistence unavailable'', svc')
                        | Some table \<Rightarrow>
                            if \<not> mv_db_ok V ''envelope'' then (Inl ''membership assertion persistence failed'', svc')
                            else (Inr (im_token rec, envelope),
                                  svc'\<lparr>rs_pool := Some (store_envelope V kind subject (im_generation rec) envelope cfg table)\<rparr>)))))"

definition revoke :: "membership_env \<Rightarrow> string \<Rightarrow> string \<Rightarrow> RestrictedDomainService \<Rightarrow> (string + bool) \<times> RestrictedDomainService" where
  "revoke V kind subject svc =
     (case rs_pool svc of
        None \<Rightarrow> (Inl ''membership persistence unavailable'', svc)
      | Some table \<Rightarrow>
          if \<not> mv_db_ok V ''revoke'' then (Inl ''membership persistence failed'', svc)
          else
            (let hit = (\<lambda>row. subject_row V (rs_config svc) kind subject row \<and> tm_revoked_at row = None)
             in (Inr (length (filter hit table) = 1),
                 svc\<lparr>rs_pool := Some (map (\<lambda>row. if hit row then row\<lparr>tm_revoked_at := Some (mv_db_now V)\<rparr> else row) table)\<rparr>)))"

text \<open>A failed listing is an empty one.\<close>

definition current_nodes :: "membership_env \<Rightarrow> RestrictedDomainService \<Rightarrow> membership_row list" where
  "current_nodes V svc =
     (case rs_pool svc of
        None \<Rightarrow> []
      | Some table \<Rightarrow>
          if mv_db_ok V ''list'' then filter (\<lambda>row. current_row V (rs_config svc) row \<and> mv_sql_eq V (tm_subject_kind row) ''node'') table
          else [])"

definition current_node_members :: "membership_env \<Rightarrow> RestrictedDomainService \<Rightarrow> string list \<Rightarrow> string list" where
  "current_node_members V svc node_ids =
     (if \<not> rc_enabled (rs_config svc) \<or> node_ids = [] then []
      else filter (\<lambda>s. s \<in> set node_ids) (map tm_subject_id (current_nodes V svc)))"

definition bootstrap_memberships ::
    "membership_env \<Rightarrow> RestrictedDomainService \<Rightarrow> string list \<Rightarrow> (string, MembershipEnvelope) hashmap" where
  "bootstrap_memberships V svc node_ids =
     (if \<not> rc_enabled (rs_config svc) \<or> node_ids = [] then []
      else fold (\<lambda>(k, v). hm_insert k v)
             (filter_map
               (\<lambda>row. Option.bind (tm_membership_envelope row)
                  (\<lambda>envelope. if tm_subject_id row \<in> set node_ids
                                 \<and> list_ex (\<lambda>s. s = ''bootstrap'' \<or> s = ''peers'') (ma_scopes (env_assertion envelope))
                                 \<and> ms_id (ma_subject (env_assertion envelope)) = tm_subject_id row
                              then Some (tm_subject_id row, envelope) else None))
               (current_nodes V svc)) [])"

section \<open>The gate\<close>

definition protected_operation :: "string \<Rightarrow> string \<Rightarrow> string option" where
  "protected_operation http_method url_path =
     (let path = unwrap_or url_path (strip_prefix url_path ''/api'')
      in if http_method = ''POST'' \<and> path = ''/v1/register'' then Some ''registration''
         else if http_method = ''GET'' \<and> path = ''/v1/discover'' then Some ''discovery''
         else if http_method = ''GET'' \<and> path = ''/v1/bootstrap'' then Some ''bootstrap''
         else if http_method = ''POST'' \<and> path = ''/v1/heartbeat'' then Some ''heartbeat''
         else if http_method = ''POST'' \<and> path = ''/v1/peers'' then Some ''peers''
         else if http_method = ''POST'' \<and> path = ''/v1/consumer-token'' then Some ''consumer_token''
         else if http_method = ''POST'' \<and> path = ''/v1/dispatch/ticket'' then Some ''dispatch''
         else if http_method = ''POST'' \<and> path = ''/v1/relay/ticket'' then Some ''relay''
         else None)"

definition projected_operation :: "string \<Rightarrow> string option" where
  "projected_operation operation =
     (if operation \<in> {''registration'', ''discovery'', ''bootstrap'', ''consumer_token''} then Some operation
      else if operation = ''dispatch'' then Some ''dispatch_ticket'' else None)"

definition directory_decision :: "RestrictedDomainConfig \<Rightarrow> string \<Rightarrow> AuthorizedMembership \<Rightarrow> json option" where
  "directory_decision cfg operation membership =
     map_option
       (\<lambda>op. JObj [(''schema'', JStr ''iicp.restricted-trust-domain.directory-decision.v0''),
          (''profile'', JStr ''urn:iicp:profile:restricted-trust-domain:v1''), (''decision'', JStr ''eligible''), (''operation'', JStr op),
          (''domain_id'', JStr (rc_domain_id cfg)), (''authority_id'', JStr (rc_authority_id cfg)),
          (''subject_kind'', JStr (am_subject_kind membership)), (''membership_generation'', JInt (uint (am_generation membership))),
          (''membership_expires_at'', JInt (am_expires_at membership))])
       (projected_operation operation)"

definition denied :: response where
  "denied = err_json 401 ''restricted_domain_denied'' ''Restricted trust-domain membership is required''"

definition unavailable :: response where
  "unavailable = err_json 503 ''restricted_domain_unavailable'' ''Restricted trust-domain authorization is unavailable''"

definition projection_failed :: response where
  "projection_failed =
     err_json 500 ''restricted_decision_projection_failed'' ''Restricted authorization evidence could not be produced''"

text \<open>\<open>oversize\<close> says which bodies exceed the limit of 16 MiB.\<close>

definition project_decision :: "(json \<Rightarrow> bool) \<Rightarrow> response \<Rightarrow> json \<Rightarrow> response" where
  "project_decision oversize resp decision =
     (if \<not> (200 \<le> fst resp \<and> fst resp < 300) then resp
      else if oversize (snd resp) then projection_failed
      else case snd resp of
        JObj obj \<Rightarrow> (fst resp, JObj (hm_insert ''restricted_domain_decision'' decision obj))
      | _ \<Rightarrow> projection_failed)"

text \<open>
  A request as the gate sees it: method, path, headers, and its body, which is \<open>None\<close> when it is
  over the limit and \<open>Some None\<close> when it is no JSON text. \<open>next\<close> is the rest of the stack.
\<close>

record gate_request =
  gr_method :: string
  gr_path :: string
  gr_headers :: headers
  gr_body :: "json option option"

definition restricted_domain_gate ::
    "membership_env \<Rightarrow> (json \<Rightarrow> bool) \<Rightarrow> RestrictedDomainService \<Rightarrow> gate_request \<Rightarrow> (AppState \<Rightarrow> response \<times> AppState)
       \<Rightarrow> AppState \<Rightarrow> response \<times> AppState" where
  "restricted_domain_gate V oversize svc req next S =
     (if \<not> rc_enabled (rs_config svc) then next S
      else case protected_operation (gr_method req) (gr_path req) of
        None \<Rightarrow> next S
      | Some operation \<Rightarrow>
          (let token = unwrap_or [] (gr_headers req ''x-iicp-membership'');
               claimed = unwrap_or [] (gr_headers req ''x-iicp-subject-id'')
           in case gr_body req of
                None \<Rightarrow> (denied, S)
              | Some body \<Rightarrow>
                  (let body_subject = Option.bind body (\<lambda>v. get_str v ''node_id'')
                   in if claimed \<noteq> [] \<and> (case body_subject of None \<Rightarrow> False | Some v \<Rightarrow> v \<noteq> claimed) then (denied, S)
                      else case authorize V svc token (unwrap_or claimed body_subject) operation of
                        Inl _ \<Rightarrow> (unavailable, S)
                      | Inr None \<Rightarrow> (denied, S)
                      | Inr (Some membership) \<Rightarrow>
                          (let (resp, S') = next S
                           in (case directory_decision (rs_config svc) operation membership of
                                 None \<Rightarrow> resp
                               | Some decision \<Rightarrow> project_decision oversize resp decision, S')))))"

section \<open>Issuing and verifying an assertion\<close>

text \<open>What the code relies on of base64url, and of the collation of the text columns.\<close>

definition b64url_roundtrip :: "membership_env \<Rightarrow> bool" where
  "b64url_roundtrip V \<longleftrightarrow> (\<forall>b. mv_unb64url V (mv_b64url V b) = Some b)"

definition collation :: "(string \<Rightarrow> string \<Rightarrow> bool) \<Rightarrow> bool" where
  "collation eq \<longleftrightarrow> equivp eq"

lemma collation_refl: "collation eq \<Longrightarrow> eq x x"
  by (simp add: collation_def equivp_reflp)

lemma sign_membership_Inr:
  assumes "sign_membership V input secret = Inr envelope"
  obtains seed message where "membership_signing_key V secret = Inr seed"
    and "signing_input V (membership_assertion V input) = Inr message"
    and "envelope = \<lparr>env_assertion = membership_assertion V input,
           env_signature = \<lparr>sg_algorithm = ''Ed25519'', sg_value = mv_b64url V (ed_sign (mv_crypto V) seed message)\<rparr>\<rparr>"
  using assms
  by (auto simp: sign_membership_def validate_signing_inputs_def Let_def split: sum.splits if_splits)


section \<open>The life of a membership\<close>

text \<open>The unique keys of the table, as the collation sees them.\<close>

definition table_wf :: "membership_env \<Rightarrow> membership_row list \<Rightarrow> bool" where
  "table_wf V table \<longleftrightarrow>
     sorted_wrt (\<lambda>r1 r2. \<not> (mv_sql_eq V (tm_domain_id r1) (tm_domain_id r2) \<and> mv_sql_eq V (tm_subject_kind r1) (tm_subject_kind r2)
                         \<and> mv_sql_eq V (tm_subject_id r1) (tm_subject_id r2))
                    \<and> \<not> mv_sql_eq V (tm_token_hash r1) (tm_token_hash r2)) table"

lemma update_first_split:
  assumes "find p xs = Some x"
  obtains as bs where "xs = as @ x # bs" and "\<forall>a \<in> set as. \<not> p a" and "update_first p f xs = as @ f x # bs"
proof -
  have "\<exists>as bs. xs = as @ x # bs \<and> (\<forall>a \<in> set as. \<not> p a) \<and> update_first p f xs = as @ f x # bs"
    using assms
  proof (induction xs)
    case (Cons y ys)
    show ?case
    proof (cases "p y")
      case True
      then show ?thesis using Cons.prems by (intro exI [of _ "[]"] exI [of _ ys]) simp
    next
      case False
      then obtain as bs where "ys = as @ x # bs \<and> (\<forall>a \<in> set as. \<not> p a) \<and> update_first p f ys = as @ f x # bs"
        using Cons by auto
      then have "y # ys = (y # as) @ x # bs \<and> (\<forall>a \<in> set (y # as). \<not> p a) \<and> update_first p f (y # ys) = (y # as) @ f x # bs"
        using False by auto
      then show ?thesis by blast
    qed
  qed simp
  then show ?thesis using that by blast
qed

lemma list_ex_find: "list_ex p xs \<longleftrightarrow> (\<exists>x. find p xs = Some x)"
  by (induction xs) auto

text \<open>A row that authorises a token, and the answer it gives.\<close>

definition token_row :: "membership_env \<Rightarrow> RestrictedDomainConfig \<Rightarrow> string \<Rightarrow> membership_row \<Rightarrow> bool" where
  "token_row V cfg token row \<longleftrightarrow>
     current_row V cfg row \<and> mv_sql_eq V (tm_token_hash row) (sha256_hex (mv_crypto V) token)"

definition row_answer :: "string \<Rightarrow> string \<Rightarrow> membership_row option \<Rightarrow> AuthorizedMembership option" where
  "row_answer subject operation found =
     (case found of
        None \<Rightarrow> None
      | Some row \<Rightarrow>
          if tm_subject_id row \<noteq> subject \<or> \<not> scope_allows (tm_scopes row) operation then None
          else Some \<lparr>am_subject_kind = tm_subject_kind row, am_generation = tm_generation row, am_expires_at = tm_expires_at row\<rparr>)"

lemma authorize_eq:
  assumes "rc_enabled (rs_config svc)" "rs_pool svc = Some table" "mv_db_ok V ''authorize''" "token \<noteq> []" "subject \<noteq> []"
  shows "authorize V svc token subject operation = Inr (row_answer subject operation (find (token_row V (rs_config svc) token) table))"
proof -
  have "token_row V (rs_config svc) token = (\<lambda>row. current_row V (rs_config svc) row
      \<and> mv_sql_eq V (tm_token_hash row) (sha256_hex (mv_crypto V) token))"
    by (simp add: fun_eq_iff token_row_def)
  then show ?thesis using assms by (simp add: authorize_def row_answer_def split: option.split)
qed

lemma authorize_Some:
  assumes "authorize V svc token subject operation = Inr (Some m)"
  obtains table row where "rc_enabled (rs_config svc)" and "rs_pool svc = Some table" and "row \<in> set table"
    and "token_row V (rs_config svc) token row" and "tm_subject_id row = subject" and "scope_allows (tm_scopes row) operation"
    and "m = \<lparr>am_subject_kind = tm_subject_kind row, am_generation = tm_generation row, am_expires_at = tm_expires_at row\<rparr>"
    and "token \<noteq> []" and "subject \<noteq> []"
proof -
  have c: "rc_enabled (rs_config svc)" "token \<noteq> []" "subject \<noteq> []" using assms by (auto simp: authorize_def split: if_splits)
  obtain table where t: "rs_pool svc = Some table" using assms c by (auto simp: authorize_def split: option.splits)
  have "mv_db_ok V ''authorize''" using assms c t by (auto simp: authorize_def split: if_splits)
  then have "row_answer subject operation (find (token_row V (rs_config svc) token) table) = Some m"
    using assms authorize_eq [OF c(1) t _ c(2,3)] by simp
  then obtain row where "find (token_row V (rs_config svc) token) table = Some row" "tm_subject_id row = subject"
      "scope_allows (tm_scopes row) operation"
      "m = \<lparr>am_subject_kind = tm_subject_kind row, am_generation = tm_generation row, am_expires_at = tm_expires_at row\<rparr>"
    by (auto simp: row_answer_def split: option.splits if_splits)
  then show ?thesis using that c t find_Some_set [of "token_row V (rs_config svc) token" table row] by blast
qed

lemma issue_record_Inr:
  assumes "issue_record V kind subject scopes ttl svc = (Inr rec, svc')"
  obtains table where "rc_enabled (rs_config svc)" and "rs_pool svc = Some table" and "im_token rec = membership_token V"
    and "im_generation rec = issued_generation V (rs_config svc) kind subject table"
    and "svc' = svc\<lparr>rs_pool := Some (upsert_membership_row (subject_row V (rs_config svc) kind subject)
          (issued_row V (rs_config svc) kind subject scopes ttl table) table)\<rparr>"
proof (cases "rs_pool svc")
  case (Some table)
  have "(\<not> rc_enabled (rs_config svc)) = False" "(kind \<notin> {''node'', ''client''} \<or> trim subject = []) = False"
      "(normalized_scopes scopes = []) = False" "(\<not> mv_db_ok V ''issue'') = False"
    using assms Some unfolding issue_record_def Let_def by (auto split: if_splits)
  note c = this
  have e: "rc_enabled (rs_config svc)" using c(1) by simp
  show ?thesis
    using assms that [OF e Some] unfolding issue_record_def Let_def Some option.case c if_False prod.inject sum.inject by auto
qed (use assms in \<open>simp add: issue_record_def Let_def split: if_splits\<close>)

lemma issue_Inr:
  assumes "issue V kind subject scopes ttl svc = (Inr token, svc')"
  obtains table where "rc_enabled (rs_config svc)" and "rs_pool svc = Some table" and "token = membership_token V"
    and "svc' = svc\<lparr>rs_pool := Some (upsert_membership_row (subject_row V (rs_config svc) kind subject)
          (issued_row V (rs_config svc) kind subject scopes ttl table) table)\<rparr>"
proof -
  obtain rec where "issue_record V kind subject scopes ttl svc = (Inr rec, svc')" "token = im_token rec"
    using assms by (auto simp: issue_def split: prod.splits sum.splits)
  then show ?thesis using issue_record_Inr that by metis
qed

lemma scope_allows_issued:
  "scope_allows (JArr (map JStr (normalized_scopes scopes))) operation
     \<longleftrightarrow> ''*'' \<in> set scopes \<or> operation \<in> set scopes \<and> operation \<in> set ALLOWED_SCOPES"
proof -
  have "set (normalized_scopes scopes) = {s \<in> set scopes. s \<in> set ALLOWED_SCOPES}" by (auto simp: normalized_scopes_def)
  moreover have "''*'' \<in> set ALLOWED_SCOPES" by (simp add: ALLOWED_SCOPES_def)
  moreover have "scope_allows (JArr (map JStr (normalized_scopes scopes))) operation
      \<longleftrightarrow> (\<exists>s \<in> set (normalized_scopes scopes). s = ''*'' \<or> s = operation)"
    by (simp add: scope_allows_def list_ex_iff)
  ultimately show ?thesis by blast
qed

text \<open>The subject under which the table files what is issued to \<open>subject\<close>.\<close>

definition filed_subject :: "membership_env \<Rightarrow> RestrictedDomainConfig \<Rightarrow> string \<Rightarrow> string \<Rightarrow> membership_row list \<Rightarrow> string" where
  "filed_subject V cfg kind subject table =
     (case find (subject_row V cfg kind subject) table of None \<Rightarrow> subject | Some row \<Rightarrow> tm_subject_id row)"

text \<open>What \<open>upsert_membership_row\<close> leaves: the old rows around one row of the new credential.\<close>

lemma upsert_row_split:
  obtains as bs where "upsert_membership_row same row table = as @ (case find same table of None \<Rightarrow> row | Some old \<Rightarrow> renewed_row row old) # bs"
    and "table = as @ (case find same table of None \<Rightarrow> [] | Some old \<Rightarrow> [old]) @ bs"
proof (cases "find same table")
  case None
  then have "\<not> list_ex same table" by (simp add: list_ex_find)
  then show ?thesis using that [of table "[]"] None by (simp add: upsert_membership_row_def)
next
  case (Some old)
  then have "list_ex same table" by (simp add: list_ex_find)
  moreover obtain as bs where "table = as @ old # bs" "update_first same (renewed_row row) table = as @ renewed_row row old # bs"
    by (rule update_first_split [OF Some])
  ultimately show ?thesis using that [of as bs] Some by (simp add: upsert_membership_row_def)
qed

definition fresh_token :: "membership_env \<Rightarrow> membership_row list \<Rightarrow> bool" where
  "fresh_token V table \<longleftrightarrow>
     (\<forall>row \<in> set table. \<not> mv_sql_eq V (tm_token_hash row) (sha256_hex (mv_crypto V) (membership_token V)))"

lemma sql_eq_trans:
  "collation eq \<Longrightarrow> eq x y \<Longrightarrow> eq x z \<Longrightarrow> eq y z"
  unfolding collation_def by (meson equivp_symp equivp_transp)

lemma renewed_row_select [simp]:
  "tm_token_hash (renewed_row row old) = tm_token_hash row" "tm_subject_id (renewed_row row old) = tm_subject_id old"
  "tm_scopes (renewed_row row old) = tm_scopes row" "tm_domain_id (renewed_row row old) = tm_domain_id old"
  "tm_revoked_at (renewed_row row old) = None" "tm_expires_at (renewed_row row old) = tm_expires_at row"
  "tm_generation (renewed_row row old) = tm_generation row"
  "tm_membership_envelope (renewed_row row old) = tm_membership_envelope old"
  by (simp_all add: renewed_row_def)

lemma issued_ttl_pos:
  assumes "validate_restricted_config r cfg = Inr ()" "rc_enabled cfg"
  shows "0 < uint (issued_ttl cfg ttl)"
proof -
  have "60 \<le> rc_max_credential_ttl_seconds cfg"
    using assms by (auto simp: validate_restricted_config_def not_less split: if_splits)
  then have "60 \<le> issued_ttl cfg ttl" by (simp add: issued_ttl_def)
  then show ?thesis by (simp add: word_le_def)
qed

lemma issued_generation_epoch: "rc_membership_epoch cfg \<le> issued_generation V cfg kind subject table"
  by (simp add: issued_generation_def split: option.split)

text \<open>The row that holds the new credential, and the rows around it.\<close>

lemma issue_table:
  assumes "issue V kind subject scopes ttl svc = (Inr token, svc')" and "rs_pool svc = Some table"
    and "validate_restricted_config False (rs_config svc) = Inr ()" and "collation (mv_sql_eq V)"
  obtains as bs row where "rs_pool svc' = Some (as @ row # bs)" and "rs_config svc' = rs_config svc"
    and "table = as @ (case find (subject_row V (rs_config svc) kind subject) table of None \<Rightarrow> [] | Some old \<Rightarrow> [old]) @ bs"
    and "tm_token_hash row = sha256_hex (mv_crypto V) token" and "tm_subject_id row = filed_subject V (rs_config svc) kind subject table"
    and "tm_scopes row = JArr (map JStr (normalized_scopes scopes))" and "current_row V (rs_config svc) row"
    and "tm_membership_envelope row = Option.bind (find (subject_row V (rs_config svc) kind subject) table) tm_membership_envelope"
    and "rc_enabled (rs_config svc)" and "token = membership_token V"
proof -
  let ?cfg = "rs_config svc"
  let ?same = "subject_row V ?cfg kind subject"
  let ?new = "issued_row V ?cfg kind subject scopes ttl table"
  have i: "rc_enabled ?cfg" "token = membership_token V" "svc' = svc\<lparr>rs_pool := Some (upsert_membership_row ?same ?new table)\<rparr>"
    using issue_Inr [OF assms(1)] assms(2) by (metis option.inject)+
  obtain as bs where ab: "upsert_membership_row ?same ?new table = as @ (case find ?same table of None \<Rightarrow> ?new | Some old \<Rightarrow> renewed_row ?new old) # bs"
      "table = as @ (case find ?same table of None \<Rightarrow> [] | Some old \<Rightarrow> [old]) @ bs"
    by (rule upsert_row_split)
  let ?row = "case find ?same table of None \<Rightarrow> ?new | Some old \<Rightarrow> renewed_row ?new old"
  have new: "tm_token_hash ?new = sha256_hex (mv_crypto V) token" "tm_scopes ?new = JArr (map JStr (normalized_scopes scopes))"
      "tm_subject_id ?new = subject" "tm_membership_envelope ?new = None" "tm_revoked_at ?new = None"
      "mv_db_now V < tm_expires_at ?new" "rc_membership_epoch ?cfg \<le> tm_generation ?new" "tm_domain_id ?new = rc_domain_id ?cfg"
    using issued_ttl_pos [OF assms(3) i(1)] issued_generation_epoch by (simp_all add: issued_row_def i(2))
  have dom: "mv_sql_eq V (tm_domain_id ?row) (rc_domain_id ?cfg)"
  proof (cases "find ?same table")
    case None
    then show ?thesis using new(8) collation_refl [OF assms(4)] by simp
  next
    case (Some old)
    then have "?same old" using find_Some_set by fastforce
    then show ?thesis using Some by (simp add: subject_row_def)
  qed
  show ?thesis
  proof (rule that [of as ?row bs])
    show "current_row V ?cfg ?row" using dom new(5-7) by (auto simp: current_row_def split: option.splits)
  qed (use i ab new in \<open>auto simp: filed_subject_def split: option.split\<close>)
qed

text \<open>
  An issued membership is effective, exact and supersedes its predecessor. The new token authorises
  the subject under which the table files the membership, for the scopes asked for that exist
  (all operations for the scope \<open>*\<close>), and nobody else; a token that the subject had before
  stops working; and a token of another subject works as before.
\<close>

theorem membership_issue_exact:
  assumes issued: "issue V kind subject scopes ttl svc = (Inr token, svc')" and pool: "rs_pool svc = Some table"
    and valid: "validate_restricted_config False (rs_config svc) = Inr ()" and db: "mv_db_ok V ''authorize''"
    and eq: "collation (mv_sql_eq V)" and wf: "table_wf V table" and fresh: "fresh_token V table" and s: "s \<noteq> []"
  shows "((\<exists>m. authorize V svc' token s operation = Inr (Some m)) \<longleftrightarrow>
      s = filed_subject V (rs_config svc) kind subject table
      \<and> (''*'' \<in> set scopes \<or> operation \<in> set scopes \<and> operation \<in> set ALLOWED_SCOPES))
    \<and> (tok \<noteq> [] \<and> \<not> mv_sql_eq V (sha256_hex (mv_crypto V) token) (sha256_hex (mv_crypto V) tok) \<longrightarrow>
      authorize V svc' tok s operation =
        (case find (subject_row V (rs_config svc) kind subject) table of
           Some old \<Rightarrow> if mv_sql_eq V (tm_token_hash old) (sha256_hex (mv_crypto V) tok) then Inr None
                       else authorize V svc tok s operation
         | None \<Rightarrow> authorize V svc tok s operation))"
proof -
  let ?cfg = "rs_config svc"
  let ?h = "\<lambda>t. sha256_hex (mv_crypto V) t"
  let ?old = "find (subject_row V ?cfg kind subject) table"
  obtain as bs row where r: "rs_pool svc' = Some (as @ row # bs)" "rs_config svc' = ?cfg"
      "table = as @ (case ?old of None \<Rightarrow> [] | Some old \<Rightarrow> [old]) @ bs"
      "tm_token_hash row = ?h token" "tm_subject_id row = filed_subject V ?cfg kind subject table"
      "tm_scopes row = JArr (map JStr (normalized_scopes scopes))" "current_row V ?cfg row"
      "rc_enabled ?cfg" "token = membership_token V"
    by (rule issue_table [OF issued pool valid eq])
  have auth': "t \<noteq> [] \<Longrightarrow> authorize V svc' t s operation = Inr (row_answer s operation (find (token_row V ?cfg t) (as @ row # bs)))" for t
    using authorize_eq [of svc' "as @ row # bs" V t s operation] r db s by simp
  have auth: "t \<noteq> [] \<Longrightarrow> authorize V svc t s operation = Inr (row_answer s operation (find (token_row V ?cfg t) table))" for t
    using authorize_eq [of svc table V t s operation] r(8) pool db s by simp
  have token: "token \<noteq> []" by (simp add: r(9) membership_token_def)
  have "set as \<subseteq> set table" by (subst r(3)) auto
  then have "find (token_row V ?cfg token) as = None"
    using fresh r(9) by (auto simp: find_None_set token_row_def fresh_token_def)
  moreover have "token_row V ?cfg token row" using r(4,7) collation_refl [OF eq] by (simp add: token_row_def)
  ultimately have "find (token_row V ?cfg token) (as @ row # bs) = Some row" by (simp add: find_append)
  then have new: "(\<exists>m. authorize V svc' token s operation = Inr (Some m)) \<longleftrightarrow>
      s = tm_subject_id row \<and> scope_allows (tm_scopes row) operation"
    using auth' [OF token] by (auto simp: row_answer_def)
  have old: "authorize V svc' tok s operation =
        (case ?old of Some old \<Rightarrow> if mv_sql_eq V (tm_token_hash old) (?h tok) then Inr None else authorize V svc tok s operation
         | None \<Rightarrow> authorize V svc tok s operation)"
    if t: "tok \<noteq> []" "\<not> mv_sql_eq V (?h token) (?h tok)"
  proof -
    have "\<not> token_row V ?cfg tok row" using t(2) r(4) by (simp add: token_row_def)
    then have rest: "find (token_row V ?cfg tok) (as @ row # bs) = find (token_row V ?cfg tok) (as @ bs)"
      by (simp add: find_append split: option.split)
    show ?thesis
    proof (cases ?old)
      case None
      then show ?thesis using r(3) rest auth [OF t(1)] auth' [OF t(1)] by simp
    next
      case (Some old)
      then have tbl: "table = as @ old # bs" using r(3) by simp
      have uniq: "\<not> mv_sql_eq V (tm_token_hash x) (?h tok)" if "x \<in> set (as @ bs)" "mv_sql_eq V (tm_token_hash old) (?h tok)" for x
      proof
        assume x: "mv_sql_eq V (tm_token_hash x) (?h tok)"
        have "mv_sql_eq V (tm_token_hash x) (tm_token_hash old)" "mv_sql_eq V (tm_token_hash old) (tm_token_hash x)"
          using eq that(2) x unfolding collation_def by (meson equivp_symp equivp_transp)+
        then show False using wf that(1) unfolding tbl table_wf_def by (auto simp: sorted_wrt_append)
      qed
      show ?thesis
      proof (cases "mv_sql_eq V (tm_token_hash old) (?h tok)")
        case True
        then have "find (token_row V ?cfg tok) (as @ bs) = None" using uniq by (auto simp: find_None_set token_row_def)
        then show ?thesis using rest auth' [OF t(1)] Some True by (simp add: row_answer_def)
      next
        case False
        then have "find (token_row V ?cfg tok) table = find (token_row V ?cfg tok) (as @ bs)"
          by (simp add: tbl find_append token_row_def split: option.split)
        then show ?thesis using rest auth [OF t(1)] auth' [OF t(1)] Some False by simp
      qed
    qed
  qed
  show ?thesis using new old unfolding r(5,6) scope_allows_issued by blast
qed

text \<open>
  A sample domain whose text columns compare without regard to case, with one member \<open>n\<close>. What is
  then issued to \<open>N\<close> is filed under \<open>n\<close>: the new token works for \<open>n\<close>, whose own token stops
  working, and not for \<open>N\<close>.
\<close>

definition demo_membership_env :: membership_env where
  "demo_membership_env =
     \<lparr>mv_crypto = demo_crypto, mv_b64url = (\<lambda>s. s), mv_unb64url = Some, mv_jcs = (\<lambda>j. Some (demo_text j)), mv_uuid = show_nat,
      mv_db_now = 100, mv_clock = 100, mv_sql_eq = (\<lambda>a b. to_ascii_lowercase a = to_ascii_lowercase b), mv_db_ok = (\<lambda>_. True)\<rparr>"

definition demo_domain :: RestrictedDomainConfig where
  "demo_domain =
     \<lparr>rc_enabled = True, rc_domain_id = ''d'', rc_authority_id = ''a'', rc_authority_key_id = [], rc_membership_epoch = 1,
      rc_max_credential_ttl_seconds = 3600\<rparr>"

definition demo_member :: membership_row where
  "demo_member =
     \<lparr>tm_domain_id = ''d'', tm_subject_kind = ''node'', tm_subject_id = ''n'', tm_issuer_id = ''a'', tm_token_hash = demo_hex ''tok'',
      tm_scopes = JArr [JStr ''*''], tm_generation = 1, tm_expires_at = 200, tm_revoked_at = None, tm_membership_envelope = None\<rparr>"

definition demo_service :: RestrictedDomainService where
  "demo_service = \<lparr>rs_config = demo_domain, rs_pool = Some [demo_member]\<rparr>"

lemma demo_collation: "collation (mv_sql_eq demo_membership_env)"
  unfolding collation_def demo_membership_env_def by (auto intro!: equivpI reflpI sympI transpI)

section \<open>Memberships only lapse\<close>

lemma token_row_unique:
  assumes "collation (mv_sql_eq V)" "table_wf V table" "row \<in> set table" "token_row V cfg token row"
  shows "find (token_row V cfg token) table = Some row"
proof -
  obtain found where f: "find (token_row V cfg token) table = Some found"
    using assms(3,4) by (metis find_None_set not_None_eq)
  then have found: "found \<in> set table" "token_row V cfg token found" using find_Some_set by fastforce+
  have "mv_sql_eq V (tm_token_hash found) (tm_token_hash row)" "mv_sql_eq V (tm_token_hash row) (tm_token_hash found)"
    using assms(1,4) found(2) unfolding token_row_def collation_def by (meson equivp_symp equivp_transp)+
  moreover have "found = row \<or> \<not> mv_sql_eq V (tm_token_hash found) (tm_token_hash row)
      \<or> \<not> mv_sql_eq V (tm_token_hash row) (tm_token_hash found)"
  proof -
    obtain i j where ij: "i < length table" "j < length table" "found = table ! i" "row = table ! j"
      using assms(3) found(1) by (metis in_set_conv_nth)
    have apart: "\<not> mv_sql_eq V (tm_token_hash (table ! k)) (tm_token_hash (table ! l))" if "k < l" "l < length table" for k l
      using assms(2) that unfolding table_wf_def sorted_wrt_iff_nth_less by blast
    show ?thesis using apart [of i j] apart [of j i] ij by (cases i j rule: linorder_cases) auto
  qed
  ultimately show ?thesis using f by blast
qed

lemma authorize_iff:
  assumes "collation (mv_sql_eq V)" "rs_pool svc = Some table" "table_wf V table" "mv_db_ok V ''authorize''"
  shows "authorize V svc token subject operation = Inr (Some m) \<longleftrightarrow>
     rc_enabled (rs_config svc) \<and> token \<noteq> [] \<and> subject \<noteq> []
     \<and> (\<exists>row \<in> set table. token_row V (rs_config svc) token row \<and> tm_subject_id row = subject \<and> scope_allows (tm_scopes row) operation
          \<and> m = \<lparr>am_subject_kind = tm_subject_kind row, am_generation = tm_generation row, am_expires_at = tm_expires_at row\<rparr>)"
    (is "?a \<longleftrightarrow> ?b")
proof
  assume ?a
  then show ?b by (rule authorize_Some) (use assms(2) in auto)
next
  assume b: ?b
  then obtain row where row: "row \<in> set table" "token_row V (rs_config svc) token row" "tm_subject_id row = subject"
      "scope_allows (tm_scopes row) operation"
      "m = \<lparr>am_subject_kind = tm_subject_kind row, am_generation = tm_generation row, am_expires_at = tm_expires_at row\<rparr>" by blast
  have "find (token_row V (rs_config svc) token) table = Some row" by (rule token_row_unique [OF assms(1,3) row(1,2)])
  then show ?a using authorize_eq [OF _ assms(2,4)] b row(3-5) by (simp add: row_answer_def)
qed

lemma table_wf_map:
  assumes "table_wf V table" "\<And>row. tm_domain_id (f row) = tm_domain_id row \<and> tm_subject_kind (f row) = tm_subject_kind row
      \<and> tm_subject_id (f row) = tm_subject_id row \<and> tm_token_hash (f row) = tm_token_hash row"
  shows "table_wf V (map f table)"
  using assms by (simp add: table_wf_def sorted_wrt_map)

text \<open>
  Nothing but issuing brings a membership back. After a revocation, whatever a token still
  authorises it authorised before, and never for the revoked subject; and as time passes and the
  membership epoch advances, whatever a token authorises it authorised before.
\<close>

theorem membership_only_lapses:
  assumes eq: "collation (mv_sql_eq V)" and pool: "rs_pool svc = Some table" and wf: "table_wf V table" and db: "mv_db_ok V ''authorize''"
  shows "(revoke V kind subject svc = (Inr b, svc') \<and> authorize V svc' token s operation = Inr (Some m) \<longrightarrow>
      authorize V svc token s operation = Inr (Some m) \<and> \<not> (mv_sql_eq V (am_subject_kind m) kind \<and> mv_sql_eq V s subject))
    \<and> (mv_db_now V \<le> later \<and> rc_membership_epoch (rs_config svc) \<le> epoch
        \<and> authorize (V\<lparr>mv_db_now := later\<rparr>) (svc\<lparr>rs_config := (rs_config svc)\<lparr>rc_membership_epoch := epoch\<rparr>\<rparr>) token s operation
            = Inr (Some m) \<longrightarrow>
      authorize V svc token s operation = Inr (Some m))"
proof (intro conjI impI)
  let ?hit = "\<lambda>row. subject_row V (rs_config svc) kind subject row \<and> tm_revoked_at row = None"
  let ?f = "\<lambda>row. if ?hit row then row\<lparr>tm_revoked_at := Some (mv_db_now V)\<rparr> else row"
  assume r: "revoke V kind subject svc = (Inr b, svc') \<and> authorize V svc' token s operation = Inr (Some m)"
  then have svc': "svc' = svc\<lparr>rs_pool := Some (map ?f table)\<rparr>"
    using pool by (auto simp: revoke_def Let_def split: if_splits)
  have wf': "table_wf V (map ?f table)" by (rule table_wf_map [OF wf]) simp
  obtain row where row: "row \<in> set table" "token_row V (rs_config svc) token (?f row)" "tm_subject_id (?f row) = s"
      "scope_allows (tm_scopes (?f row)) operation" "rc_enabled (rs_config svc)" "token \<noteq> []" "s \<noteq> []"
      "m = \<lparr>am_subject_kind = tm_subject_kind (?f row), am_generation = tm_generation (?f row), am_expires_at = tm_expires_at (?f row)\<rparr>"
  proof -
    have p': "rs_pool svc' = Some (map ?f table)" "rs_config svc' = rs_config svc" by (simp_all add: svc')
    show thesis
      using r [THEN conjunct2, unfolded authorize_iff [OF eq p'(1) wf' db] p'(2)] that unfolding set_map by blast
  qed
  have same: "?f row = row" using row(2) by (auto simp: token_row_def current_row_def split: if_splits)
  have live: "tm_revoked_at row = None" "mv_sql_eq V (tm_domain_id row) (rc_domain_id (rs_config svc))"
    using row(2) unfolding same by (auto simp: token_row_def current_row_def)
  have "\<not> ?hit row"
  proof
    assume h: "?hit row"
    then have "tm_revoked_at (?f row) = Some (mv_db_now V)" by simp
    then show False using live(1) unfolding same by simp
  qed
  then have "\<not> (mv_sql_eq V (am_subject_kind m) kind \<and> mv_sql_eq V s subject)"
    using live row(3,8) unfolding same by (auto simp: subject_row_def)
  moreover have "authorize V svc token s operation = Inr (Some m)"
    using authorize_iff [OF eq pool wf db] row unfolding same by blast
  ultimately show "authorize V svc token s operation = Inr (Some m)" "\<not> (mv_sql_eq V (am_subject_kind m) kind \<and> mv_sql_eq V s subject)"
    by blast+
next
  let ?V = "V\<lparr>mv_db_now := later\<rparr>"
  let ?svc = "svc\<lparr>rs_config := (rs_config svc)\<lparr>rc_membership_epoch := epoch\<rparr>\<rparr>"
  assume l: "mv_db_now V \<le> later \<and> rc_membership_epoch (rs_config svc) \<le> epoch \<and> authorize ?V ?svc token s operation = Inr (Some m)"
  have weaker: "token_row V (rs_config svc) token row" if "token_row ?V (rs_config ?svc) token row" for row
    using that l by (auto simp: token_row_def current_row_def)
  have wf': "table_wf ?V table" using wf by (simp add: table_wf_def)
  have "\<exists>row \<in> set table. token_row ?V (rs_config ?svc) token row \<and> tm_subject_id row = s \<and> scope_allows (tm_scopes row) operation
      \<and> m = \<lparr>am_subject_kind = tm_subject_kind row, am_generation = tm_generation row, am_expires_at = tm_expires_at row\<rparr>"
    and "rc_enabled (rs_config svc)" "token \<noteq> []" "s \<noteq> []"
    using l authorize_iff [of ?V ?svc table token s operation m] eq pool wf' db by simp_all
  then show "authorize V svc token s operation = Inr (Some m)"
    using authorize_iff [OF eq pool wf db] weaker by blast
qed

theorem membership_only_lapses_witness:
  "let V = demo_membership_env; (revoked, svc') = revoke V ''node'' ''n'' demo_service
   in revoked = Inr True \<and> table_wf V [demo_member] \<and> (\<forall>m. authorize V svc' ''tok'' ''n'' ''peers'' = Inr (Some m) \<longrightarrow>
        \<not> (mv_sql_eq V (am_subject_kind m) ''node'' \<and> mv_sql_eq V ''n'' ''n''))"
proof -
  let ?V = demo_membership_env
  have pool: "rs_pool demo_service = Some [demo_member]" by (simp add: demo_service_def)
  have db: "mv_db_ok ?V ''authorize''" by (simp add: demo_membership_env_def)
  have wf: "table_wf ?V [demo_member]" by (simp add: table_wf_def)
  have "fst (revoke ?V ''node'' ''n'' demo_service) = Inr True" by code_simp
  then obtain svc' where r: "revoke ?V ''node'' ''n'' demo_service = (Inr True, svc')" by (cases "revoke ?V ''node'' ''n'' demo_service") simp
  show ?thesis
    unfolding Let_def r prod.case using wf membership_only_lapses [OF demo_collation pool wf db] r by blast
qed

section \<open>The gate fails closed\<close>

text \<open>
  C21. In a restricted domain no protected operation runs without a current membership. If the state
  changes, or the answer is neither the refusal nor the outage notice, then the request carries a
  token that authorises, for this operation, the subject it acts for; that subject is the
  \<open>node_id\<close> of the body when there is one, and then equals the claimed subject when one is
  claimed. A success answer to an operation with a projected decision carries that decision.
\<close>

theorem gate_fails_closed:
  assumes on: "rc_enabled (rs_config svc)" and op: "protected_operation (gr_method req) (gr_path req) = Some operation"
    and ran: "restricted_domain_gate V oversize svc req next S = (resp, S')" "S' \<noteq> S \<or> resp \<notin> {denied, unavailable}"
  shows "\<exists>body subject m. gr_body req = Some body
      \<and> authorize V svc (unwrap_or [] (gr_headers req ''x-iicp-membership'')) subject operation = Inr (Some m)
      \<and> (case Option.bind body (\<lambda>v. get_str v ''node_id'') of
           Some i \<Rightarrow> subject = i \<and> unwrap_or i (nonempty (gr_headers req ''x-iicp-subject-id'')) = i
         | None \<Rightarrow> gr_headers req ''x-iicp-subject-id'' = Some subject)
      \<and> S' = snd (next S)
      \<and> (\<forall>decision. directory_decision (rs_config svc) operation m = Some decision \<and> 200 \<le> fst resp \<and> fst resp < 300 \<longrightarrow>
           json_get (snd resp) ''restricted_domain_decision'' = Some decision)"
proof -
  let ?token = "unwrap_or [] (gr_headers req ''x-iicp-membership'')"
  let ?claimed = "unwrap_or [] (gr_headers req ''x-iicp-subject-id'')"
  note g = ran(1) [unfolded restricted_domain_gate_def Let_def]
  obtain body where body: "gr_body req = Some body" using g on op ran(2) by (cases "gr_body req") auto
  let ?bs = "Option.bind body (\<lambda>v. get_str v ''node_id'')"
  have clash: "\<not> (?claimed \<noteq> [] \<and> (case ?bs of None \<Rightarrow> False | Some v \<Rightarrow> v \<noteq> ?claimed))"
    using g on op body ran(2) by auto
  obtain m where m: "authorize V svc ?token (unwrap_or ?claimed ?bs) operation = Inr (Some m)"
  proof (cases "authorize V svc ?token (unwrap_or ?claimed ?bs) operation")
    case (Inl u)
    then show ?thesis using g [unfolded op body option.case if_not_P [OF clash]] on ran(2) by auto
  next
    case (Inr a)
    then show ?thesis using that g [unfolded op body option.case if_not_P [OF clash]] on ran(2) by (cases a) auto
  qed
  have fin: "S' = snd (next S)" "resp = (case directory_decision (rs_config svc) operation m of
      None \<Rightarrow> fst (next S) | Some decision \<Rightarrow> project_decision oversize (fst (next S)) decision)"
    using g [unfolded op body option.case if_not_P [OF clash] m] on by (simp_all add: case_prod_unfold)
  have "unwrap_or ?claimed ?bs \<noteq> []" using m by (auto simp: authorize_def split: if_splits)
  then have who: "case ?bs of Some i \<Rightarrow> unwrap_or ?claimed ?bs = i \<and> unwrap_or i (nonempty (gr_headers req ''x-iicp-subject-id'')) = i
      | None \<Rightarrow> gr_headers req ''x-iicp-subject-id'' = Some (unwrap_or ?claimed ?bs)"
    using clash by (cases "gr_headers req ''x-iicp-subject-id''"; cases ?bs) (auto simp: nonempty_def)
  have "json_get (snd resp) ''restricted_domain_decision'' = Some decision"
    if "directory_decision (rs_config svc) operation m = Some decision" "200 \<le> fst resp \<and> fst resp < 300" for decision
    using that fin(2) by (auto simp: project_decision_def projection_failed_def err_json_def split: if_splits json.splits)
  then show ?thesis using body m who fin(1) by blast
qed

definition demo_gate_request :: gate_request where
  "demo_gate_request =
     \<lparr>gr_method = ''POST'', gr_path = ''/api/v1/peers'',
      gr_headers = [''x-iicp-membership'' \<mapsto> ''tok'', ''x-iicp-subject-id'' \<mapsto> ''n''],
      gr_body = Some (Some (JObj [(''node_id'', JStr ''n'')]))\<rparr>"

theorem gate_fails_closed_witness:
  "let run = restricted_domain_gate demo_membership_env (\<lambda>_. False) demo_service demo_gate_request (\<lambda>S. ((200, JObj []), S)) (demo_state [])
   in fst run = (200, JObj [])
      \<and> (\<exists>subject m. authorize demo_membership_env demo_service ''tok'' subject ''peers'' = Inr (Some m))"
proof -
  let ?run = "restricted_domain_gate demo_membership_env (\<lambda>_. False) demo_service demo_gate_request (\<lambda>S. ((200, JObj []), S)) (demo_state [])"
  have resp: "fst ?run = (200, JObj [])" by code_simp
  then obtain S' where run: "?run = ((200, JObj []), S')" by (cases ?run) simp
  have on: "rc_enabled (rs_config demo_service)" "protected_operation (gr_method demo_gate_request) (gr_path demo_gate_request) = Some ''peers''"
      "unwrap_or [] (gr_headers demo_gate_request ''x-iicp-membership'') = ''tok''"
    by code_simp+
  have "S' \<noteq> demo_state [] \<or> (200, JObj []) \<notin> {denied, unavailable}" by (simp add: denied_def unavailable_def err_json_def)
  from gate_fails_closed [OF on(1,2) run this] resp show ?thesis unfolding on(3) Let_def by blast
qed

text \<open>
  A renewal without an assertion keeps the old one. The row's signed envelope stays when a new
  credential is issued, so bootstrap goes on serving an assertion of an earlier generation, with
  its own scopes and expiry, for as long as the new credential is current.
\<close>

lemma issue_keeps_envelope:
  assumes "issue V kind subject scopes ttl svc = (Inr token, svc')" and "rs_pool svc = Some table"
    and "validate_restricted_config False (rs_config svc) = Inr ()" and "collation (mv_sql_eq V)"
    and "find (subject_row V (rs_config svc) kind subject) table = Some old" and "tm_membership_envelope old = Some envelope"
  shows "\<exists>table' row. rs_pool svc' = Some table' \<and> row \<in> set table' \<and> current_row V (rs_config svc) row
      \<and> tm_token_hash row = sha256_hex (mv_crypto V) token \<and> tm_membership_envelope row = Some envelope"
  by (rule issue_table [OF assms(1-4)]) (use assms(5,6) in auto)

section \<open>Sample assertion\<close>

definition demo_membership_input :: MembershipInput where
  "demo_membership_input =
     \<lparr>in_domain_id = ''d'', in_authority_id = ''a'', in_authority_key_id = ''a#1'', in_subject_kind = ''node'', in_subject_id = ''n'',
      in_subject_key_id = ''n#1'', in_subject_public_key = ''pk'', in_generation = 1, in_issued_at = 100, in_expires_at = 160,
      in_scopes = [''peers'']\<rparr>"


end
