(* ===== verification/Replication.thy ===== *)
theory Replication
  imports Heartbeat Replica
begin

text \<open>
  From a request at the seed to a record at a replica: the events that the registration,
  deregistration and heartbeat handlers of the seed append to its log, replayed by the replica's
  \<open>apply_event\<close>, lead to a table that mirrors the seed's. The composition of
  \<open>src/node_lifecycle.rs\<close>, \<open>src/main.rs\<close>, \<open>src/repo.rs\<close> and \<open>src/replica.rs\<close>.

  What is assumed of third-party code: serde's decoder of a capability reads back what the
  registration event writes, and iterating a hash set yields its elements.
\<close>

section \<open>Mirrors\<close>

definition decodes_capabilities :: "decoders \<Rightarrow> bool" where
  "decodes_capabilities E \<longleftrightarrow> (\<forall>c. d_capability E (event_capability c) = Some c)"

definition iterates :: "register_env \<Rightarrow> bool" where
  "iterates L \<longleftrightarrow> (\<forall>xs. mset (re_iter L xs) = mset xs)"

text \<open>What a replica's record has in common with the seed's.\<close>

definition replicated :: "NodeRecord \<Rightarrow> NodeRecord \<Rightarrow> bool" where
  "replicated r r' \<longleftrightarrow>
     record_id r' = record_id r \<and> n_endpoint (r_node r') = n_endpoint (r_node r) \<and> n_region (r_node r') = n_region (r_node r)
     \<and> n_backend (r_node r') = n_backend (r_node r)
     \<and> n_consumer_cosignature_ready (r_node r') = n_consumer_cosignature_ready (r_node r)
     \<and> set (n_models (r_node r')) = set (n_models (r_node r))
     \<and> r_intents r' = r_intents r \<and> r_capabilities r' = r_capabilities r \<and> r_capability_profiles r' = r_capability_profiles r"

definition mirrors :: "InMemoryRepo \<Rightarrow> InMemoryRepo \<Rightarrow> bool" where
  "mirrors M R \<longleftrightarrow> (\<forall>i. rel_option replicated (find_record M i) (find_record R i))"

lemma mirrors_insert:
  assumes "mirrors M R" "find_record M' = (find_record M)(i \<mapsto> r)" "find_record R' = (find_record R)(i \<mapsto> r')" "replicated r r'"
  shows "mirrors M' R'"
  using assms by (auto simp: mirrors_def)

lemma mirrors_remove:
  assumes "mirrors M R" "find_record M' = (find_record M)(i := None)" "find_record R' = (find_record R)(i := None)"
  shows "mirrors M' R'"
  using assms by (auto simp: mirrors_def)

lemma mirrors_cong: "mirrors M R \<Longrightarrow> find_record M' = find_record M \<Longrightarrow> mirrors M' R"
  by (simp add: mirrors_def)

section \<open>Reading a registration event\<close>

lemma filter_map_map: "filter_map f (map g xs) = filter_map (\<lambda>x. f (g x)) xs"
  by (simp add: filter_map_def o_def)

lemma filter_map_Some: "filter_map (\<lambda>x. Some (g x)) xs = map g xs"
  by (induction xs) (auto simp: filter_map_def)

lemma event_capability_fields:
  "get_str (event_capability c) ''intent'' = Some (c_intent c)"
  "get_array (event_capability c) ''models'' = Some (map JStr (c_models c))"
  "get_array (event_capability c) ''supported_profiles'' = Some (map JStr (c_supported_profiles c))"
  by (simp_all add: event_capability_def get_str_def get_array_def strings_json_def)

lemma register_payload_fields:
  "get_str (register_payload req) ''endpoint'' = Some (rq_endpoint req)"
  "get_str (register_payload req) ''region'' = rq_region req"
  "get_str (register_payload req) ''backend'' = rq_backend req"
  "get_array (register_payload req) ''supported_receipt_profiles'' = Some (map JStr (rq_supported_receipt_profiles req))"
  "payload_capabilities (register_payload req) = map event_capability (rq_capabilities req)"
  by (simp_all add: register_payload_def get_str_def get_array_def strings_json_def opt_string_def payload_capabilities_def
      split: option.split)

lemma register_payload_omits:
  assumes "k \<in> {''pricing'', ''exposure_mode'', ''public_reachable'', ''cip_policy'', ''policy_manifest'', ''cip_conformance_level'',
     ''reputation_model'', ''reputation_epoch''}"
  shows "json_get (register_payload req) k = None"
  using assms by (auto simp: register_payload_def)

lemma read_register_payload:
  assumes "decodes_capabilities E"
  shows "intents_from_payload (register_payload req) = map c_intent (rq_capabilities req)"
    and "capabilities_from_payload E (register_payload req) = rq_capabilities req"
    and "capability_profiles_from_payload (register_payload req) =
           hm_collect (map (\<lambda>c. (c_intent c, c_supported_profiles c)) (rq_capabilities req))"
    and "filter_map as_str (concat (filter_map (\<lambda>c. get_array c ''models'') (payload_capabilities (register_payload req))))
           = concat (map c_models (rq_capabilities req))"
proof -
  have strs: "filter_map as_str (map JStr ss) = ss" for ss by (simp add: filter_map_map filter_map_Some)
  show "intents_from_payload (register_payload req) = map c_intent (rq_capabilities req)"
    by (simp add: intents_from_payload_def register_payload_fields filter_map_map event_capability_fields filter_map_Some)
  show "capabilities_from_payload E (register_payload req) = rq_capabilities req"
    using assms by (simp add: capabilities_from_payload_def register_payload_fields filter_map_map decodes_capabilities_def filter_map_Some)
  show "capability_profiles_from_payload (register_payload req) =
      hm_collect (map (\<lambda>c. (c_intent c, c_supported_profiles c)) (rq_capabilities req))"
    by (simp add: capability_profiles_from_payload_def register_payload_fields filter_map_map event_capability_fields profiles_of_def
        strs filter_map_Some)
  have "concat (map (\<lambda>x. map JStr (c_models x)) cs) = map JStr (concat (map c_models cs))"
    for cs :: "EffectiveCapability list" by (induction cs) simp_all
  then show "filter_map as_str (concat (filter_map (\<lambda>c. get_array c ''models'') (payload_capabilities (register_payload req))))
      = concat (map c_models (rq_capabilities req))"
    by (simp add: register_payload_fields filter_map_map event_capability_fields filter_map_Some strs)
qed

section \<open>One request\<close>

datatype seed_request =
    Register RequestContext register_env headers RegisterRequest
  | Deregister RequestContext headers string
  | Beat RequestContext headers HeartbeatRequest

fun seed_step :: "seed_request \<Rightarrow> AppState \<Rightarrow> AppState" where
  "seed_step (Register X L h req) S = snd (register_handler X L h req S)"
| "seed_step (Deregister X h i) S = snd (deregister_handler X h i S)"
| "seed_step (Beat X h req) S = snd (heartbeat_handler X h req S)"

definition seed_run :: "seed_request list \<Rightarrow> AppState \<Rightarrow> AppState" where
  "seed_run reqs S = fold seed_step reqs S"

fun request_ok :: "seed_request \<Rightarrow> bool" where
  "request_ok (Register X L h req) = iterates L"
| "request_ok _ = True"

definition log_of :: "AppState \<Rightarrow> EventRow list" where
  "log_of S = m_events (st_repo S)"

text \<open>The rows a request adds to the log, and what a replica that mirrors the seed does with them.\<close>

definition follows :: "decoders \<Rightarrow> i64 \<Rightarrow> string \<Rightarrow> AppState \<Rightarrow> AppState \<Rightarrow> bool" where
  "follows E now did S S' \<longleftrightarrow>
     st_signing_key S' = st_signing_key S
     \<and> (\<exists>rows. log_of S' = log_of S @ rows \<and> (\<forall>R. mirrors (st_repo S) R \<longrightarrow> mirrors (st_repo S') (replay E now did rows R)))"

lemma follows_silent:
  "st_signing_key S' = st_signing_key S \<Longrightarrow> log_of S' = log_of S \<Longrightarrow> find_record (st_repo S') = find_record (st_repo S) \<Longrightarrow> follows E now did S S'"
  unfolding follows_def by (intro conjI exI [of _ "[]"]) (auto simp: replay_def intro: mirrors_cong)

lemma emit_event_log:
  assumes "st_signing_key S = Some key"
  obtains row where "log_of (emit_event X e t i payload S) = log_of S @ [row]" "e_event_type row = t" "e_node_id row = i" "e_payload row = payload"
    "st_signing_key (emit_event X e t i payload S) = st_signing_key S"
    "find_record (st_repo (emit_event X e t i payload S)) = find_record (st_repo S)"
  using assms by (simp add: emit_event_def append_signed_event_def log_of_def Let_def find_record_def fun_eq_iff)

lemma replay_register:
  assumes "decodes_capabilities E" "e_event_type row = ''REGISTER''" "e_node_id row = i" "e_payload row = register_payload req"
  shows "\<exists>rec. find_record (replay E now did [row] R) = (find_record R)(i \<mapsto> keep_reputation (find_record R i) rec)
      \<and> record_id rec = i \<and> n_endpoint (r_node rec) = rq_endpoint req \<and> n_region (r_node rec) = unwrap_or [] (rq_region req)
      \<and> n_backend (r_node rec) = rq_backend req
      \<and> n_consumer_cosignature_ready (r_node rec) = list_ex (\<lambda>p. p = ''consumer_cosignature_v1'') (rq_supported_receipt_profiles req)
      \<and> n_models (r_node rec) = concat (map c_models (rq_capabilities req))
      \<and> r_intents rec = map c_intent (rq_capabilities req) \<and> r_capabilities rec = rq_capabilities req
      \<and> r_capability_profiles rec = hm_collect (map (\<lambda>c. (c_intent c, c_supported_profiles c)) (rq_capabilities req))
      \<and> n_pricing (r_node rec) = None \<and> n_exposure_mode (r_node rec) = None \<and> n_policy_manifest (r_node rec) = None
      \<and> n_public_key (r_node rec) = None \<and> n_relay_capable (r_node rec) = None \<and> n_transport_endpoint (r_node rec) = None"
proof -
  let ?p = "register_payload req"
  note omits = register_payload_omits [of _ req]
  have none: "json_get ?p ''pricing'' = None" "get_str ?p ''exposure_mode'' = None" "json_get ?p ''policy_manifest'' = None"
    by (simp_all add: get_str_def omits)
  obtain n where some: "node_from_register E i ?p = Some n"
    by (simp add: node_from_register_def register_payload_fields(1))
  note eq = some [unfolded node_from_register_def register_payload_fields(1) option.map Let_def option.inject, symmetric]
  have n: "n_node_id n = i" "n_endpoint n = rq_endpoint req" "n_region n = unwrap_or [] (rq_region req)" "n_backend n = rq_backend req"
      "n_consumer_cosignature_ready n = list_ex (\<lambda>p. p = ''consumer_cosignature_v1'') (rq_supported_receipt_profiles req)"
      "n_models n = concat (map c_models (rq_capabilities req))" "n_pricing n = None" "n_exposure_mode n = None" "n_policy_manifest n = None"
      "n_public_key n = None" "n_relay_capable n = None" "n_transport_endpoint n = None"
    unfolding eq by (simp_all only: Node.select_convs register_payload_fields(2-4) read_register_payload(4) [OF assms(1)] none option.case)
      (simp add: list_ex_iff)
  let ?rec = "\<lparr>r_node = n, r_intents = intents_from_payload ?p, r_capabilities = capabilities_from_payload E ?p,
      r_capability_profiles = capability_profiles_from_payload ?p, r_availability = [], r_node_token = None,
      r_node_hmac_key = None, r_proxy_token = None\<rparr>"
  have "replay E now did [row] R = register ?rec R"
    using some assms(2-4) by (simp add: replay_def apply_event_def row_event_def apply_register_def)
  then have "find_record (replay E now did [row] R) = (find_record R)(i \<mapsto> keep_reputation (find_record R i) ?rec)"
    using n(1) by (simp add: find_record_register)
  then show ?thesis
    using n by (intro exI [of _ ?rec]) (simp add: read_register_payload [OF assms(1)])
qed

lemma replicated_keep: "replicated r r' \<Longrightarrow> replicated (keep_reputation o1 r) (keep_reputation o2 r')"
  by (simp add: replicated_def keep_reputation_def split: option.split)

lemma emit_event_key [simp]: "st_signing_key (emit_event X e t i payload S) = st_signing_key S"
  by (simp add: emit_event_def split: option.split)

lemma handlers_keep_key:
  "st_signing_key (snd (register_handler X L h req S)) = st_signing_key S"
  "st_signing_key (snd (deregister_handler X h i S)) = st_signing_key S"
  "st_signing_key (snd (heartbeat_handler X h hreq S)) = st_signing_key S"
proof -
  have rate: "st_signing_key (snd (registration_rate_rejection X h S)) = st_signing_key S"
    by (simp add: registration_rate_rejection_def Let_def case_prod_beta)
  then show "st_signing_key (snd (register_handler X L h req S)) = st_signing_key S"
    by (auto simp: register_handler_def commit_registration_def Let_def split: prod.splits option.splits sum.splits)
  show "st_signing_key (snd (deregister_handler X h i S)) = st_signing_key S"
    by (simp add: deregister_handler_def split: option.split prod.split bool.split)
  show "st_signing_key (snd (heartbeat_handler X h hreq S)) = st_signing_key S"
    by (simp add: heartbeat_handler_def Let_def split: option.split prod.split sum.split)
qed

lemma log_of_upsert_operator [simp]:
  "m_events (upsert_operator_from_register now pk d c ih M) = m_events M" "m_events (register rec M) = m_events M"
  by (simp_all add: upsert_operator_from_register_def upsert_operator_def put_operator_def register_def update_record_def
      split: option.split)

lemma commit_row:
  assumes key: "st_signing_key S = Some secret" and p: "p = make_pending X L req i op"
  obtains row where "log_of (snd (commit_registration X h p S)) = log_of S @ [row]" and "e_event_type row = ''REGISTER''"
    and "e_node_id row = i" and "e_payload row = register_payload req"
    and "st_signing_key (snd (commit_registration X h p S)) = st_signing_key S"
proof -
  let ?S1 = "S\<lparr>st_repo := upsert_operator_from_register (cx_now_ms X) (pe_operator_pubkey_for_upsert p) (rq_operator_display_name req)
      (rq_operator_created_at req) (rq_operator_integrity_hash req) (register (pending_record p) (st_repo S))\<rparr>"
  have S': "snd (commit_registration X h p S) = emit_event X (cx_uuid X 4) ''REGISTER'' i (register_payload req) ?S1"
    by (simp add: commit_registration_def Let_def observe_address_def p make_pending_def)
  have key1: "st_signing_key ?S1 = Some secret" and log1: "log_of ?S1 = log_of S" using key by (simp_all add: log_of_def)
  show ?thesis
    by (rule emit_event_log [OF key1, of X "cx_uuid X 4" "''REGISTER''" i "register_payload req"], rule that)
      (simp_all add: S' log1)
qed

lemma commit_follows:
  assumes E: "decodes_capabilities E" and L: "iterates L" and key: "st_signing_key S = Some secret"
    and p: "p = make_pending X L req i op"
  shows "follows E now did S (snd (commit_registration X h p S))"
proof -
  let ?S' = "snd (commit_registration X h p S)"
  obtain row where row: "log_of ?S' = log_of S @ [row]" "e_event_type row = ''REGISTER''" "e_node_id row = i" "e_payload row = register_payload req"
      "st_signing_key ?S' = st_signing_key S"
    by (rule commit_row [OF key p])
  have pend: "record_id (pending_record p) = i" by (simp add: p make_pending_def pending_record_def registered_node_def)
  have "mirrors (st_repo ?S') (replay E now did [row] R)" if m: "mirrors (st_repo S) R" for R
  proof -
    obtain rec where rec: "find_record (replay E now did [row] R) = (find_record R)(i \<mapsto> keep_reputation (find_record R i) rec)"
        "record_id rec = i" "n_endpoint (r_node rec) = rq_endpoint req" "n_region (r_node rec) = unwrap_or [] (rq_region req)"
        "n_backend (r_node rec) = rq_backend req"
        "n_consumer_cosignature_ready (r_node rec) = list_ex (\<lambda>p. p = ''consumer_cosignature_v1'') (rq_supported_receipt_profiles req)"
        "n_models (r_node rec) = concat (map c_models (rq_capabilities req))"
        "r_intents rec = map c_intent (rq_capabilities req)" "r_capabilities rec = rq_capabilities req"
        "r_capability_profiles rec = hm_collect (map (\<lambda>c. (c_intent c, c_supported_profiles c)) (rq_capabilities req))"
      using replay_register [OF E row(2-4)] by blast
    have models: "set (request_models L req) = set (concat (map c_models (rq_capabilities req)))"
      using L advertised_models_set [of "re_iter L" "map c_models (rq_capabilities req)"] by (simp add: iterates_def request_models_def)
    have "replicated (pending_record p) rec"
      using rec models by (simp add: replicated_def p make_pending_def pending_record_def registered_node_def)
    then show ?thesis
      using mirrors_insert [OF m _ rec(1)] commit_records [of X h p S] replicated_keep unfolding pend by blast
  qed
  then show ?thesis unfolding follows_def using row(1,5) by blast
qed

lemma follows_same: "st_repo S1 = st_repo S \<Longrightarrow> st_signing_key S1 = st_signing_key S \<Longrightarrow> follows E now did S1 S' \<Longrightarrow> follows E now did S S'"
  by (simp add: follows_def log_of_def)

lemma register_follows:
  assumes E: "decodes_capabilities E" and L: "iterates L" and key: "st_signing_key S = Some secret"
  shows "follows E now did S (snd (register_handler X L h req S))"
proof -
  obtain resp S' where run: "register_handler X L h req S = (resp, S')" by fastforce
  then have S': "S' = snd (register_handler X L h req S)" by simp
  have "follows E now did S S'"
    using run
  proof (cases rule: register_handler_cases)
    case refused
    then show ?thesis using handlers_keep_key(1) S' by (intro follows_silent) (simp_all add: log_of_def)
  next
    case (created p)
    let ?S1 = "snd (registration_rate_rejection X h S)"
    have S1: "st_repo ?S1 = st_repo S" "st_signing_key ?S1 = st_signing_key S"
      by (simp_all add: registration_rate_rejection_def Let_def case_prod_beta)
    obtain i op where "p = make_pending X L req i op" using created(1) unfolding prepare_registration_Inr by blast
    then have "follows E now did ?S1 S'" unfolding created(4) using S1 key by (intro commit_follows [OF E L]) simp
    then show ?thesis using follows_same [OF S1] by blast
  qed
  then show ?thesis using S' by simp
qed

lemma deregister_follows:
  assumes key: "st_signing_key S = Some secret"
  shows "follows E now did S (snd (deregister_handler X h i S))"
proof -
  obtain b M' where d: "deregister i (st_repo S) = (b, M')" by fastforce
  show ?thesis
  proof (cases "authorised h (Some i) S \<and> b")
    case False
    have "deregister_handler X h i S = (fst (deregister_handler X h i S), S) \<or> (\<not> b \<and> snd (deregister_handler X h i S) = S\<lparr>st_repo := M'\<rparr>)"
      using False d by (auto simp: deregister_handler_def authorised_iff split: option.split)
    moreover have "find_record M' = find_record (st_repo S)" "m_events M' = m_events (st_repo S)" if "\<not> b"
    proof -
      have "filter (\<lambda>r. record_id r \<noteq> i) (m_records (st_repo S)) = m_records (st_repo S)"
        using d that by (auto simp: deregister_def Let_def) (metis length_filter_less filter_id_conv nat_neq_iff)
      then show "find_record M' = find_record (st_repo S)" "m_events M' = m_events (st_repo S)"
        using d by (auto simp: deregister_def Let_def find_record_def fun_eq_iff)
    qed
    ultimately show ?thesis
      using handlers_keep_key(2) [of X h i S] by (intro follows_silent) (auto simp: log_of_def dest!: arg_cong [where f = snd])
  next
    case True
    then have run: "snd (deregister_handler X h i S) = emit_event X (cx_uuid X 0) ''DEREGISTER'' i (JObj []) (S\<lparr>st_repo := M'\<rparr>)"
      using d by (auto simp: deregister_handler_def authorised_iff)
    have M': "find_record M' = (find_record (st_repo S))(i := None)" "m_events M' = m_events (st_repo S)"
      using d find_record_deregister [of i "st_repo S"] by (auto simp: deregister_def Let_def)
    have key1: "st_signing_key (S\<lparr>st_repo := M'\<rparr>) = Some secret" using key by simp
    obtain row where row: "log_of (snd (deregister_handler X h i S)) = log_of S @ [row]" "e_event_type row = ''DEREGISTER''" "e_node_id row = i"
        "find_record (st_repo (snd (deregister_handler X h i S))) = (find_record (st_repo S))(i := None)"
      using emit_event_log [OF key1, of X "cx_uuid X 0" "''DEREGISTER''" i "JObj []"] M' run by (auto simp: log_of_def)
    have "replay E now did [row] R = snd (deregister i R)" for R
      using row(2,3) by (simp add: replay_def apply_event_def row_event_def accepted_def)
    then have "mirrors (st_repo (snd (deregister_handler X h i S))) (replay E now did [row] R)" if "mirrors (st_repo S) R" for R
      using mirrors_remove [OF that row(4)] find_record_deregister [of i R] by simp
    then show ?thesis unfolding follows_def using row(1) handlers_keep_key(2) by blast
  qed
qed

lemma replicated_heartbeat: "replicated (update_node (heartbeat_node hb b) r) r' = replicated r r'"
  by (simp add: replicated_def heartbeat_node_def Let_def split: option.split)

lemma heartbeat_follows: "follows E now did S (snd (heartbeat_handler X h req S))"
proof -
  obtain resp S' where run: "heartbeat_handler X h req S = (resp, S')" by fastforce
  then have S': "S' = snd (heartbeat_handler X h req S)" and key: "st_signing_key S' = st_signing_key S"
    using handlers_keep_key(3) [of X h req S] by simp_all
  have "follows E now did S S'"
    using run
  proof (cases rule: heartbeat_handler_cases)
    case (beaten outcome r)
    let ?M = "snd (heartbeat (hq_node_id req) (heartbeat_input req) (st_repo S))"
    have log: "log_of S' = log_of S"
      unfolding beaten(3) log_of_def
      by (simp add: verify_and_rotate_liveness_challenge_def Let_def heartbeat_def update_record_def metrics_batch_def
          case_prod_beta split: option.split)
    have find: "find_record (st_repo S') = find_record ?M" unfolding beaten(3) by (rule find_record_rotate)
    obtain b where fnd: "find_record ?M = (find_record (st_repo S))(hq_node_id req \<mapsto> update_node (heartbeat_node (heartbeat_input req) b) r)"
      using find_record_heartbeat [of "hq_node_id req" "heartbeat_input req" "st_repo S"] beaten(1) by simp
    have "mirrors (st_repo S') R" if "mirrors (st_repo S) R" for R
    proof -
      have "rel_option replicated (Some (update_node (heartbeat_node (heartbeat_input req) b) r)) (find_record R (hq_node_id req))"
        using that beaten(1) unfolding mirrors_def by (metis option_rel_Some1 replicated_heartbeat)
      then show ?thesis using that find fnd by (simp add: mirrors_def)
    qed
    then show ?thesis
      unfolding follows_def using key log by (intro conjI exI [of _ "[]"]) (auto simp: replay_def)
  qed (use key in \<open>auto intro!: follows_silent simp: log_of_def\<close>)
  then show ?thesis using S' by simp
qed

section \<open>Runs\<close>

lemma seed_step_follows:
  assumes "decodes_capabilities E" "st_signing_key S = Some secret" "request_ok r"
  shows "follows E now did S (seed_step r S)"
  using assms by (cases r) (auto intro: register_follows deregister_follows heartbeat_follows)

lemma follows_run:
  assumes "decodes_capabilities E" "st_signing_key S = Some secret" "list_all request_ok reqs"
  shows "follows E now did S (seed_run reqs S)"
  using assms
proof (induction reqs arbitrary: S)
  case Nil
  then show ?case by (auto simp: seed_run_def intro: follows_silent)
next
  case (Cons r reqs)
  have one: "follows E now did S (seed_step r S)" using Cons.prems by (intro seed_step_follows) auto
  then have "st_signing_key (seed_step r S) = Some secret" using Cons.prems(2) by (simp add: follows_def)
  then have rest: "follows E now did (seed_step r S) (seed_run reqs (seed_step r S))" using Cons.IH Cons.prems by simp
  obtain xs ys where "log_of (seed_step r S) = log_of S @ xs" "log_of (seed_run reqs (seed_step r S)) = log_of (seed_step r S) @ ys"
      "\<forall>R. mirrors (st_repo S) R \<longrightarrow> mirrors (st_repo (seed_step r S)) (replay E now did xs R)"
      "\<forall>R. mirrors (st_repo (seed_step r S)) R \<longrightarrow> mirrors (st_repo (seed_run reqs (seed_step r S))) (replay E now did ys R)"
    using one rest unfolding follows_def by blast
  moreover have "st_signing_key (seed_run reqs (seed_step r S)) = st_signing_key S" using one rest by (simp add: follows_def)
  ultimately show ?case
    unfolding follows_def seed_run_def fold_simps o_apply
    by (intro conjI exI [of _ "xs @ ys"]) (simp_all add: seed_run_def replay_append)
qed


text \<open>
  What a registration event does not carry, a replica does not know: after a successful
  registration the row replayed at a replica gives a node without key, price, exposure mode,
  transport endpoint, relay flag and policy manifest, whatever was registered at the seed.
\<close>

theorem registration_event_omits:
  assumes "decodes_capabilities E" and "st_signing_key S = Some secret"
    and "register_handler X L h req S = (resp, S')" and "fst resp = 201"
  shows "\<exists>i row r'. log_of S' = log_of S @ [row] \<and> find_record (st_repo S') i \<noteq> None
      \<and> find_record (replay E now did [row] R) i = Some r' \<and> n_endpoint (r_node r') = rq_endpoint req
      \<and> n_public_key (r_node r') = None \<and> n_pricing (r_node r') = None \<and> n_exposure_mode (r_node r') = None
      \<and> n_transport_endpoint (r_node r') = None \<and> n_relay_capable (r_node r') = None \<and> n_policy_manifest (r_node r') = None"
  using assms(3)
proof (cases rule: register_handler_cases)
  case refused
  then show ?thesis using assms(4) by simp
next
  case (created p)
  let ?S1 = "snd (registration_rate_rejection X h S)"
  obtain i op where p: "p = make_pending X L req i op" using created(1) unfolding prepare_registration_Inr by blast
  have S1: "st_signing_key ?S1 = Some secret" "log_of ?S1 = log_of S"
    using assms(2) by (simp_all add: registration_rate_rejection_def log_of_def Let_def case_prod_beta)
  obtain row where row: "log_of S' = log_of S @ [row]" "e_event_type row = ''REGISTER''" "e_node_id row = i" "e_payload row = register_payload req"
    unfolding created(4) by (rule commit_row [OF S1(1) p]) (simp_all add: S1(2))
  have "find_record (st_repo S') i \<noteq> None"
    unfolding created(4) commit_records by (simp add: p make_pending_def pending_record_def registered_node_def)
  moreover obtain rec where "find_record (replay E now did [row] R) = (find_record R)(i \<mapsto> keep_reputation (find_record R i) rec)"
      "n_endpoint (r_node rec) = rq_endpoint req" "n_pricing (r_node rec) = None" "n_exposure_mode (r_node rec) = None"
      "n_policy_manifest (r_node rec) = None" "n_public_key (r_node rec) = None" "n_relay_capable (r_node rec) = None"
      "n_transport_endpoint (r_node rec) = None"
    using replay_register [OF assms(1) row(2-4)] by blast
  ultimately show ?thesis using row(1) by (intro exI [of _ i] exI [of _ row]) (auto simp: keep_reputation_def split: option.split)
qed

section \<open>Sample requests\<close>

text \<open>A decoder that reads back what the event writes.\<close>

definition strings_at :: "json \<Rightarrow> string \<Rightarrow> string list" where
  "strings_at j k = filter_map as_str (unwrap_or [] (get_array j k))"

definition u32_at :: "json \<Rightarrow> string \<Rightarrow> u32 option" where
  "u32_at j k = map_option of_int (Option.bind (json_get j k) as_u64)"

definition object_at :: "json \<Rightarrow> string \<Rightarrow> (string \<times> json) list" where
  "object_at j k = unwrap_or [] (Option.bind (json_get j k) as_object)"

definition read_limit :: "json \<Rightarrow> CapabilityLimit" where
  "read_limit v = \<lparr>l_value = unwrap_or 0 (get_f64 v ''value''), l_unit = unwrap_or [] (get_str v ''unit'')\<rparr>"

definition read_extension :: "json \<Rightarrow> CapabilityExtension" where
  "read_extension v = \<lparr>x_required = unwrap_or False (get_bool v ''required''), x_value = json_index v ''value''\<rparr>"

definition read_claim :: "json \<Rightarrow> CapabilityClaimProvenance option" where
  "read_claim v =
     map_option (\<lambda>src. \<lparr>p_source = src, p_observed_at = get_str v ''observed_at'', p_valid_until = get_str v ''valid_until'',
                       p_evidence_ref = get_str v ''evidence_ref''\<rparr>) (get_str v ''source'')"

definition read_capability :: "json \<Rightarrow> EffectiveCapability option" where
  "read_capability j =
     Some \<lparr>c_intent = unwrap_or [] (get_str j ''intent''), c_version = get_str j ''version'', c_phase = u32_at j ''phase'',
           c_variant_id = get_str j ''variant_id'', c_models = strings_at j ''models'', c_max_tokens = u32_at j ''max_tokens'',
           c_quantization = get_str j ''quantization'', c_inference_engine = get_str j ''inference_engine'',
           c_input_modalities = strings_at j ''input_modalities'', c_output_modalities = strings_at j ''output_modalities'',
           c_features = strings_at j ''features'', c_execution_capabilities = strings_at j ''execution_capabilities'',
           c_limits = map (\<lambda>(k, v). (k, read_limit v)) (object_at j ''limits''),
           c_supported_profiles = strings_at j ''supported_profiles'',
           c_claim_provenance = read_claim (json_index j ''claim_provenance''),
           c_extensions = map (\<lambda>(k, v). (k, read_extension v)) (object_at j ''extensions'')\<rparr>"

definition reading_decoders :: decoders where
  "reading_decoders = \<lparr>d_capability = read_capability, d_rfc3339_ms = (\<lambda>_. None), d_b64url = (\<lambda>_. None)\<rparr>"

lemma reading_decoders_ok: "decodes_capabilities reading_decoders"
proof -
  have strs: "filter_map as_str (map JStr ss) = ss" for ss by (simp add: filter_map_map filter_map_Some)
  have s: "strings_at (event_capability c) ''models'' = c_models c" "strings_at (event_capability c) ''input_modalities'' = c_input_modalities c"
      "strings_at (event_capability c) ''output_modalities'' = c_output_modalities c"
      "strings_at (event_capability c) ''features'' = c_features c"
      "strings_at (event_capability c) ''execution_capabilities'' = c_execution_capabilities c"
      "strings_at (event_capability c) ''supported_profiles'' = c_supported_profiles c" for c
    by (simp_all add: strings_at_def get_array_def event_capability_def strings_json_def strs)
  have o1: "get_str (event_capability c) ''version'' = c_version c" "get_str (event_capability c) ''variant_id'' = c_variant_id c"
      "get_str (event_capability c) ''quantization'' = c_quantization c"
      "get_str (event_capability c) ''inference_engine'' = c_inference_engine c" for c
    by (simp_all add: get_str_def event_capability_def opt_string_def split: option.split)
  have u: "u32_at (event_capability c) ''phase'' = c_phase c" "u32_at (event_capability c) ''max_tokens'' = c_max_tokens c" for c
    by (simp_all add: u32_at_def event_capability_def opt_u32_def u32_json_def split: option.splits)
  have eta: "\<lparr>l_value = l_value l, l_unit = l_unit l\<rparr> = l" "\<lparr>x_required = x_required x, x_value = x_value x\<rparr> = x"
    for l :: CapabilityLimit and x :: CapabilityExtension by (cases l, simp) (cases x, simp)
  have lim: "map (\<lambda>(k, v). (k, read_limit v)) (object_at (event_capability c) ''limits'') = c_limits c" for c
    by (simp add: object_at_def event_capability_def read_limit_def limit_value_def get_f64_def get_str_def case_prod_beta o_def eta)
  have ext: "map (\<lambda>(k, v). (k, read_extension v)) (object_at (event_capability c) ''extensions'') = c_extensions c" for c
    by (simp add: object_at_def event_capability_def read_extension_def extension_value_def get_bool_def json_index_def
        case_prod_beta o_def eta)
  have claim: "read_claim (json_index (event_capability c) ''claim_provenance'') = c_claim_provenance c" for c
    by (auto simp: read_claim_def json_index_def event_capability_def claim_value_def get_str_def opt_str_entry_def skip_none_def
        split: option.splits)
  show ?thesis
    by (simp add: decodes_capabilities_def reading_decoders_def read_capability_def event_capability_fields(1) s o1 u lim ext claim)
qed

lemma sample_created:
  "fst (fst (register_handler demo_context sample_register_env (\<lambda>_. None) (sample_register ''https://node.example.org'') (demo_state []))) = 201"
proof -
  have "find_record (st_repo (demo_state [])) = (\<lambda>_. None)"
    by (simp add: demo_state_def new_with_token_verification_def new_repo_def find_record_def fun_eq_iff)
  then have "registration_ownership_rejection sample_register_env (demo_state []) (sample_register ''https://node.example.org'') ''a'' = None"
    by (simp add: registration_ownership_rejection_def get_node_def)
  then show ?thesis by (intro sample_registered) (simp_all add: demo_state_def)
qed


theorem registration_event_omits_witness:
  "let S' = snd (register_handler demo_context sample_register_env (\<lambda>_. None) (sample_register ''https://node.example.org'') (demo_state []))
   in \<exists>i row r'. log_of S' = [row] \<and> find_record (replay reading_decoders 0 [] [row] (new_repo [])) i = Some r'
        \<and> n_endpoint (r_node r') = ''https://node.example.org'' \<and> n_public_key (r_node r') = None"
proof -
  let ?run = "register_handler demo_context sample_register_env (\<lambda>_. None) (sample_register ''https://node.example.org'') (demo_state [])"
  have S: "st_signing_key (demo_state []) = Some demo_secret" "log_of (demo_state []) = []"
    "rq_endpoint (sample_register ''https://node.example.org'') = ''https://node.example.org''"
    by (simp_all add: demo_state_def log_of_def new_with_token_verification_def new_repo_def sample_register_def)
  from registration_event_omits [OF reading_decoders_ok S(1) prod.collapse [of ?run, symmetric] sample_created, of 0 "[]" "new_repo []"]
  show ?thesis unfolding Let_def S(2,3) append_Nil by blast
qed

end
