(* ===== verification/Server.thy ===== *)
theory Server
  imports Heartbeat Operator_Service Credits Seed Dispatch
begin

text \<open>
  The directory as a whole: the routes of \<open>src/router.rs\<close> that reach a handler of the other
  theories, one request after the other, on the shared state. Handlers that run concurrently
  take the repository's mutex for each of its methods; here a request is one step.
\<close>

section \<open>Requests\<close>

datatype request =
    ReqRegister register_env headers RegisterRequest
  | ReqDeregister headers string
  | ReqHeartbeat headers HeartbeatRequest
  | ReqPeers headers "PeersRequest option"
  | ReqMe headers
  | ReqConsumerToken headers ConsumerTokenRequest
  | ReqRelayTicket headers "string option"
  | ReqAudit headers AuditReportRequest
  | ReqTelemetryProbe headers "TelemetryProbeRequest option"
  | ReqTelemetryProxy headers "ProxyObservation option"
  | ReqBalance headers
  | ReqSummary headers
  | ReqAward headers "CreditAwardRequest option"
  | ReqTransactions headers LedgerPageParams
  | ReqQuote headers QuoteParams
  | ReqReplicaRegister ReplicaRegisterRequest
  | ReqReplicaDeregister headers
  | ReqDiscover discovery_env DiscoverParams
  | ReqTicket discovery_env DispatchTicketRequest
  | ReqNode discovery_env string
  | ReqRename operator_env RenameRequest
  | ReqChallenge operator_env string
  | ReqSelfService operator_env SelfServiceRoute OperatorKeyRequest

definition on_app :: "(AppState \<Rightarrow> response \<times> AppState) \<Rightarrow> OperatorState \<Rightarrow> response option \<times> OperatorState" where
  "on_app f Q = (Some (fst (f (os_app Q))), Q\<lparr>os_app := snd (f (os_app Q))\<rparr>)"

definition on_app_opt :: "(AppState \<Rightarrow> response option \<times> AppState) \<Rightarrow> OperatorState \<Rightarrow> response option \<times> OperatorState" where
  "on_app_opt f Q = (fst (f (os_app Q)), Q\<lparr>os_app := snd (f (os_app Q))\<rparr>)"

definition on_operators :: "(OperatorState \<Rightarrow> response \<times> OperatorState) \<Rightarrow> OperatorState \<Rightarrow> response option \<times> OperatorState" where
  "on_operators f Q = (Some (fst (f Q)), snd (f Q))"

fun serve :: "RequestContext \<Rightarrow> request \<Rightarrow> OperatorState \<Rightarrow> response option \<times> OperatorState" where
  "serve X (ReqRegister L h req) = on_app (register_handler X L h req)"
| "serve X (ReqDeregister h i) = on_app (deregister_handler X h i)"
| "serve X (ReqHeartbeat h req) = on_app (heartbeat_handler X h req)"
| "serve X (ReqPeers h req) = on_app (peers h req)"
| "serve X (ReqMe h) = on_app (me X h ())"
| "serve X (ReqConsumerToken h req) = on_app (consumer_token_issue X h req)"
| "serve X (ReqRelayTicket h req) = on_app (relay_ticket_issue X h req)"
| "serve X (ReqAudit h req) = on_app (audit_report h req)"
| "serve X (ReqTelemetryProbe h req) = on_app (telemetry_probe X h req)"
| "serve X (ReqTelemetryProxy h req) = on_app (telemetry_proxy h req)"
| "serve X (ReqBalance h) = on_app (credits_balance X h ())"
| "serve X (ReqSummary h) = on_app (credits_summary X h ())"
| "serve X (ReqAward h req) = on_app (credits_award X h req)"
| "serve X (ReqTransactions h p) = on_app (credits_transactions X h p)"
| "serve X (ReqQuote h p) = on_app (credits_quote X h p)"
| "serve X (ReqReplicaRegister req) = on_app (replicas_register X req)"
| "serve X (ReqReplicaDeregister h) = on_app (replicas_deregister X h)"
| "serve X (ReqDiscover D p) = on_app_opt (discover_handler X D p)"
| "serve X (ReqTicket D req) = on_app_opt (dispatch_ticket_issue X D req)"
| "serve X (ReqNode D i) = on_app (\<lambda>S. (node_detail X D i S, S))"
| "serve X (ReqRename V req) = on_app (operator_rename X V req)"
| "serve X (ReqChallenge V pk) = on_operators (operator_challenge X V pk)"
| "serve X (ReqSelfService V route req) = on_operators (self_service X V route req)"

definition serve_all :: "(RequestContext \<times> request) list \<Rightarrow> OperatorState \<Rightarrow> OperatorState" where
  "serve_all reqs Q = fold (\<lambda>(X, req) Q. snd (serve X req Q)) reqs Q"

section \<open>Changes of the repository\<close>

text \<open>The writing methods of the repository that a handler may call.\<close>

inductive repo_change :: "crypto \<Rightarrow> string option \<Rightarrow> InMemoryRepo \<Rightarrow> InMemoryRepo \<Rightarrow> bool" for C key where
  registered: "n_reputation_score (r_node rec) = STARTING_SCORE \<Longrightarrow> repo_change C key M (register rec M)"
| beaten: "repo_change C key M (snd (heartbeat i hb M))"
| removed: "repo_change C key M (snd (deregister i M))"
| challenged: "repo_change C key M (snd (verify_and_rotate_liveness_challenge C hv i response next_challenge M))"
| operated: "operator_step C M M' \<Longrightarrow> repo_change C key M M'"
| counted: "repo_change C key M (record_dispatch_usage show_date today mode M)"
| probed: "repo_change C key M (snd (record_probe_batch probes M))"
| replica_upserted: "repo_change C key M (upsert_replica now rid did endpoint tier M)"
| replica_token: "repo_change C key M (snd (set_replica_token_hash rid h M))"
| replica_removed: "repo_change C key M (snd (decommission_replica rid M))"
| logged: "key = Some sk \<Longrightarrow> repo_change C key M (snd (append_signed_event C eid ts sk ty nid payload M))"

definition changes :: "crypto \<Rightarrow> AppState \<Rightarrow> AppState \<Rightarrow> bool" where
  "changes C S S' \<longleftrightarrow> st_signing_key S' = st_signing_key S \<and> (repo_change C (st_signing_key S))\<^sup>*\<^sup>* (st_repo S) (st_repo S')"

lemma changes_refl: "st_signing_key S' = st_signing_key S \<Longrightarrow> st_repo S' = st_repo S \<Longrightarrow> changes C S S'"
  by (simp add: changes_def)

lemma changes_same [simp]: "changes C S S"
  by (simp add: changes_def)

lemma changes_trans: "changes C S S' \<Longrightarrow> changes C S' S'' \<Longrightarrow> changes C S S''"
  by (auto simp: changes_def intro: rtranclp_trans)

lemma changes_one: "repo_change C (st_signing_key S) (st_repo S) M \<Longrightarrow> changes C S (S\<lparr>st_repo := M\<rparr>)"
  by (simp add: changes_def)

lemma changes_emit: "changes (cx_crypto X) S (emit_event X e t i payload S)"
  by (auto simp: changes_def emit_event_def split: option.split intro: logged)

lemmas changesI = changes_one [OF repo_change.registered] changes_one [OF repo_change.removed] changes_one [OF repo_change.operated]

text \<open>The handlers that only read.\<close>

lemma read_only:
  "snd (peers h pr S) = S" "snd (me X h () S) = S" "snd (consumer_token_issue X h ct S) = S" "snd (relay_ticket_issue X h rt S) = S"
  "snd (audit_report h ar S) = S" "snd (telemetry_proxy h po S) = S" "snd (credits_balance X h () S) = S"
  "snd (credits_summary X h () S) = S" "snd (credits_transactions X h lp S) = S" "snd (credits_quote X h qp S) = S"
  by (simp_all add: peers_def me_def consumer_token_issue_def relay_ticket_issue_def audit_report_def telemetry_proxy_def
      credits_balance_def credits_summary_def credits_transactions_def credits_quote_def Let_def case_prod_beta split: option.split)

lemma commit_changes:
  assumes "p = make_pending X L req i op"
  shows "changes (cx_crypto X) S (snd (commit_registration X h p S))"
proof -
  let ?M1 = "register (pending_record p) (st_repo S)"
  let ?M3 = "upsert_operator_from_register (cx_now_ms X) (pe_operator_pubkey_for_upsert p) (rq_operator_display_name (pe_request p))
      (rq_operator_created_at (pe_request p)) (rq_operator_integrity_hash (pe_request p)) ?M1"
  have "n_reputation_score (r_node (pending_record p)) = STARTING_SCORE"
    by (simp add: assms make_pending_def pending_record_def registered_node_def)
  then have 1: "changes (cx_crypto X) S (S\<lparr>st_repo := ?M1\<rparr>)" by (intro changes_one registered)
  have 2: "changes (cx_crypto X) (S\<lparr>st_repo := ?M1\<rparr>) (S\<lparr>st_repo := ?M3\<rparr>)"
    by (auto simp: upsert_operator_from_register_def changes_def split: option.split intro: repo_change.operated operator_step.upsert)
  show ?thesis
    using changes_trans [OF changes_trans [OF 1 2] changes_emit [of X]] by (simp add: commit_registration_def Let_def observe_address_def)
qed

lemma register_changes: "changes (cx_crypto X) S (snd (register_handler X L h req S))"
proof -
  obtain resp S' where run: "register_handler X L h req S = (resp, S')" by fastforce
  let ?S1 = "snd (registration_rate_rejection X h S)"
  have S1: "changes (cx_crypto X) S ?S1"
    by (rule changes_refl) (simp_all add: registration_rate_rejection_def Let_def case_prod_beta)
  have key: "st_signing_key S' = st_signing_key S"
    using run by (auto simp: register_handler_def registration_rate_rejection_def commit_registration_def emit_event_def Let_def
        split: prod.splits option.splits sum.splits)
  have "changes (cx_crypto X) S S'"
    using run
  proof (cases rule: register_handler_cases)
    case refused
    then show ?thesis using key by (intro changes_refl)
  next
    case (created p)
    then obtain i op where "p = make_pending X L req i op" unfolding prepare_registration_Inr by blast
    then show ?thesis unfolding created(4) using changes_trans [OF S1 commit_changes] by blast
  qed
  then show ?thesis using run by simp
qed

lemma deregister_changes: "changes (cx_crypto X) S (snd (deregister_handler X h i S))"
proof -
  obtain b M' where d: "deregister i (st_repo S) = (b, M')" by fastforce
  then have 1: "changes (cx_crypto X) S (S\<lparr>st_repo := M'\<rparr>)"
    using changes_one [OF repo_change.removed, of "cx_crypto X" S i] by simp
  show ?thesis
    using d 1 changes_trans [OF 1 changes_emit [of X]] by (simp add: deregister_handler_def split: option.split bool.split)
qed

lemma heartbeat_changes: "changes (cx_crypto X) S (snd (heartbeat_handler X h req S))"
proof -
  obtain resp S' where run: "heartbeat_handler X h req S = (resp, S')" by fastforce
  have key: "st_signing_key S' = st_signing_key S"
    using run by (auto simp: heartbeat_handler_def Let_def split: option.splits prod.splits sum.splits if_splits)
  have "changes (cx_crypto X) S S'"
    using run
  proof (cases rule: heartbeat_handler_cases)
    case (beaten outcome r)
    let ?M = "snd (heartbeat (hq_node_id req) (heartbeat_input req) (st_repo S))"
    have "changes (cx_crypto X) S (S\<lparr>st_repo := ?M\<rparr>)" by (intro changes_one repo_change.beaten)
    moreover have "changes (cx_crypto X) (S\<lparr>st_repo := ?M\<rparr>) S'"
      using key beaten(3) by (auto simp: changes_def intro!: r_into_rtranclp repo_change.challenged)
    ultimately show ?thesis by (rule changes_trans)
  qed (use key in \<open>auto intro!: changes_refl\<close>)
  then show ?thesis using run by simp
qed

lemma telemetry_changes: "changes C S (snd (telemetry_probe X h req S))"
proof -
  have "\<exists>probes. snd (telemetry_probe X h req S) \<in> {S, S\<lparr>st_repo := snd (record_probe_batch probes (st_repo S))\<rparr>}"
    by (simp add: telemetry_probe_def Let_def case_prod_beta split: option.split) blast
  then obtain probes where "snd (telemetry_probe X h req S) = S
      \<or> snd (telemetry_probe X h req S) = S\<lparr>st_repo := snd (record_probe_batch probes (st_repo S))\<rparr>" by blast
  then show ?thesis by (elim disjE) (simp_all only: changes_same changes_one [OF repo_change.probed])
qed

lemma award_changes: "changes (cx_crypto X) S (snd (credits_award X h req S))"
  unfolding credits_award_def Let_def
  by (simp only: snd_conv changes_same changes_emit simp_thms split: option.split if_split sum.split prod.split CreditError.split)

lemma replica_changes:
  "changes (cx_crypto X) S (snd (replicas_register X rr S))" "changes (cx_crypto X) S (snd (replicas_deregister X h S))"
proof -
  show "changes (cx_crypto X) S (snd (replicas_register X rr S))"
  proof -
    let ?rid = "unwrap_or (cx_uuid X 0) (replica_id_by_did (st_repo S) (rr_did rr))"
    let ?M1 = "upsert_replica (cx_now_ms X) ?rid (rr_did rr) (trim_end_matches CHR ''/'' (rr_endpoint rr)) ''low'' (st_repo S)"
    have 1: "changes (cx_crypto X) S (S\<lparr>st_repo := ?M1\<rparr>)" by (intro changes_one repo_change.replica_upserted)
    have 2: "changes (cx_crypto X) S (S\<lparr>st_repo := M2\<rparr>)" if "set_replica_token_hash ?rid hash ?M1 = (b, M2)" for hash b M2
      using changes_trans [OF 1 changes_one [OF repo_change.replica_token, of "cx_crypto X" "S\<lparr>st_repo := ?M1\<rparr>" ?rid hash]] that by simp
    then have 3: "changes (cx_crypto X) S (emit_event X e t i pl (S\<lparr>st_repo := M2\<rparr>))" if "set_replica_token_hash ?rid hash ?M1 = (b, M2)" for hash e t i pl b M2
      using changes_trans [OF _ changes_emit] that by blast
    show ?thesis
      using 1 2 3 by (simp add: replicas_register_def Let_def split: option.split prod.split bool.split)
  qed
  show "changes (cx_crypto X) S (snd (replicas_deregister X h S))"
  proof -
    have "changes (cx_crypto X) S (S\<lparr>st_repo := M2\<rparr>)"
      if key: "st_signing_key S = Some key" and run: "decommission_replica_with_event (cx_crypto X) eid ts rid did key (st_repo S) = (b2, M2)"
      for eid ts rid did key b2 M2
    proof -
      obtain b M1 where d: "decommission_replica rid (st_repo S) = (b, M1)" by fastforce
      then have 1: "changes (cx_crypto X) S (S\<lparr>st_repo := M1\<rparr>)"
        using changes_one [OF repo_change.replica_removed, of "cx_crypto X" S rid] by simp
      have 2: "changes (cx_crypto X) (S\<lparr>st_repo := M1\<rparr>) (S\<lparr>st_repo := snd (append_signed_event (cx_crypto X) eid ts key ty rid pl M1)\<rparr>)" for ty pl
        using changes_one [OF repo_change.logged, of "S\<lparr>st_repo := M1\<rparr>" key "cx_crypto X"] key by simp
      show ?thesis
        using run d 1 changes_trans [OF 1 2] by (auto simp: decommission_replica_with_event_def case_prod_beta split: bool.splits)
    qed
    then show ?thesis
      by (simp add: replicas_deregister_def Let_def split: option.split sum.split prod.split bool.split)
  qed
qed

lemma discovery_changes:
  "changes C S (snd (discover_handler X D p S))" "changes C S (snd (dispatch_ticket_issue X D req S))"
proof -
  have count: "changes C S (S\<lparr>st_repo := record_dispatch_usage sd today mode (st_repo S)\<rparr>)" for sd today mode
    by (intro changes_one repo_change.counted)
  show "changes C S (snd (discover_handler X D p S))"
    using count by (simp add: discover_handler_def build_discover_response_def Let_def split: option.split)
  show "changes C S (snd (dispatch_ticket_issue X D req S))"
    using count by (simp add: dispatch_ticket_issue_def split: option.split sum.split)
qed

text \<open>What an operator request may do.\<close>

lemma operator_change: "operator_step C (st_repo S) M \<Longrightarrow> changes C S (S\<lparr>st_repo := M\<rparr>)"
  by (intro changes_one repo_change.operated)

lemma rename_changes: "changes (cx_crypto X) S (snd (operator_rename X V req S))"
proof -
  have "snd (operator_rename X V req S) \<in> {S, S\<lparr>st_repo := snd (rename_operator (rn_operator_pub req) (rn_display_name req) (st_repo S))\<rparr>}"
    by (simp add: operator_rename_def Let_def case_prod_beta split: prod.split bool.split)
  then show ?thesis using operator_change [OF operator_step.rename, of "cx_crypto X" S] by auto
qed

lemma validated_changes:
  assumes "\<And>Q1. os_app Q1 = os_app Q \<Longrightarrow> changes C (os_app Q) (os_app (snd (act Q1)))"
  shows "changes C (os_app Q)
    (os_app (snd (case validate_operator_key_request X V req action succ Q of (Some r, Q1) \<Rightarrow> (r, Q1) | (None, Q1) \<Rightarrow> act Q1)))"
proof -
  obtain r Q1 where v: "validate_operator_key_request X V req action succ Q = (r, Q1)" by fastforce
  show ?thesis
    using v validate_refusal(2) [of X V req action succ Q _ Q1] validate_authentic(2) [of X V req action succ Q Q1] assms [of Q1]
    by (cases r) auto
qed

lemma with_repo_changes:
  assumes "os_app Q1 = os_app Q" and "operator_step C (st_repo (os_app Q)) M"
  shows "changes C (os_app Q) (os_app (with_repo Q1 M))"
  using operator_change [OF assms(2)] assms(1) by (simp add: with_repo_def)

lemma if_changes:
  "changes C S (os_app (snd x)) \<Longrightarrow> changes C S (os_app (snd y)) \<Longrightarrow> changes C S (os_app (snd (if b then x else y)))"
  by simp

lemma operator_stepI:
  "accept_operator_governance at_text pk terms dpa nonce N = (v, M) \<Longrightarrow> operator_step C N M"
  "operator_dsr C at_text pk action tracking N = (w, M) \<Longrightarrow> operator_step C N M"
  "rotate_operator_identity old_pk new_pk epoch N = (l, M) \<Longrightarrow> operator_step C N M"
  "revoke_operator_identity now pk N = (l, M) \<Longrightarrow> operator_step C N M"
  by (metis operator_step.accept snd_conv, metis operator_step.dsr snd_conv, metis operator_step.rotate snd_conv,
      metis operator_step.revoke snd_conv)

lemma self_service_changes: "changes (cx_crypto X) (os_app Q) (os_app (snd (self_service X V route req Q)))"
proof -
  have accept: "changes (cx_crypto X) (os_app Q) (os_app (snd (operator_acceptance X V req Q)))"
    unfolding operator_acceptance_def
    by (auto split: option.split if_split simp del: split_paired_All intro!: validated_changes)
      (auto split: prod.split sum.split intro: with_repo_changes operator_stepI)
  have dsr: "changes (cx_crypto X) (os_app Q) (os_app (snd (operator_dsr_action X V action req Q)))" for action
    unfolding operator_dsr_action_def
    by (intro if_changes validated_changes) (auto simp: Let_def split: prod.split sum.split intro: with_repo_changes operator_stepI)
  have rotate: "changes (cx_crypto X) (os_app Q) (os_app (snd (operator_key_rotate X V req Q)))"
    unfolding operator_key_rotate_def
    by (rule validated_changes) (auto split: prod.split sum.split option.split intro: with_repo_changes operator_stepI)
  have revoke: "changes (cx_crypto X) (os_app Q) (os_app (snd (operator_key_revoke X V req Q)))"
    unfolding operator_key_revoke_def
    by (intro if_changes validated_changes) (auto split: prod.split sum.split intro: with_repo_changes operator_stepI)
  show ?thesis by (cases route) (simp_all add: accept dsr rotate revoke)
qed

lemma challenge_app [simp]: "os_app (snd (operator_challenge X V pk Q)) = os_app Q"
  by (simp add: operator_challenge_def Let_def split: option.split bool.split)

text \<open>Every request, whatever its answer, changes the repository by methods of the list alone.\<close>

lemma serve_changes: "changes (cx_crypto X) (os_app Q) (os_app (snd (serve X req Q)))"
  by (cases req)
    (simp_all add: on_app_def on_app_opt_def on_operators_def read_only register_changes deregister_changes heartbeat_changes
      telemetry_changes award_changes replica_changes discovery_changes rename_changes self_service_changes)

section \<open>Invariants of the running directory\<close>

text \<open>
  What the repository's methods keep, the directory keeps: an invariant of the methods holds after
  any sequence of requests, from any clients and with any answers.
\<close>

definition same_crypto :: "crypto \<Rightarrow> (RequestContext \<times> request) list \<Rightarrow> bool" where
  "same_crypto C reqs \<longleftrightarrow> list_all (\<lambda>(X, req). cx_crypto X = C) reqs"

locale repo_invariant =
  fixes C :: crypto and key :: "string option" and Inv :: "InMemoryRepo \<Rightarrow> bool"
  assumes kept: "repo_change C key M M' \<Longrightarrow> Inv M \<Longrightarrow> Inv M'"
begin

lemma kept_run: "(repo_change C key)\<^sup>*\<^sup>* M M' \<Longrightarrow> Inv M \<Longrightarrow> Inv M'"
  by (induction rule: rtranclp_induct) (auto intro: kept)

lemma serve_keeps:
  assumes "cx_crypto X = C" "st_signing_key (os_app Q) = key" "Inv (st_repo (os_app Q))"
  shows "st_signing_key (os_app (snd (serve X req Q))) = key \<and> Inv (st_repo (os_app (snd (serve X req Q))))"
  using serve_changes [of X Q req] assms kept_run by (auto simp: changes_def)

lemma directory_keeps:
  assumes "same_crypto C reqs" "st_signing_key (os_app Q) = key" "Inv (st_repo (os_app Q))"
  shows "Inv (st_repo (os_app (serve_all reqs Q)))"
  using assms
proof (induction reqs arbitrary: Q)
  case (Cons r reqs)
  obtain X req where r: "r = (X, req)" by fastforce
  have "st_signing_key (os_app (snd (serve X req Q))) = key \<and> Inv (st_repo (os_app (snd (serve X req Q))))"
    using Cons.prems r by (intro serve_keeps) (simp_all add: same_crypto_def)
  then show ?case using Cons r by (simp add: serve_all_def same_crypto_def)
qed (simp add: serve_all_def)

end

subsection \<open>Shape of the tables\<close>

definition scored :: "NodeRecord \<Rightarrow> bool" where
  "scored r \<longleftrightarrow> 0 \<le> n_reputation_score (r_node r) \<and> n_reputation_score (r_node r) \<le> 1"

definition well_typed :: "InMemoryRepo \<Rightarrow> bool" where
  "well_typed M \<longleftrightarrow> distinct (map record_id (m_records M)) \<and> list_all scored (m_records M) \<and> dids_distinct M
     \<and> hm_wf (m_operators M) \<and> hm_wf (m_liveness_challenges M) \<and> hm_wf (m_last_metrics_batches M)
     \<and> hm_wf (m_replica_token_hashes M) \<and> hm_wf (m_dispatch_usage M)"

lemma list_all_update_first:
  "list_all P xs \<Longrightarrow> (\<And>x. P x \<Longrightarrow> p x \<Longrightarrow> P (f x)) \<Longrightarrow> list_all P (update_first p f xs)"
  by (induction xs) auto

lemma scored_heartbeat: "scored r \<Longrightarrow> scored (update_node (heartbeat_node hb b) r)"
  using apply_delta_bounds by (simp add: scored_def heartbeat_node_def Let_def split: option.split)

lemma starting_score: "0 \<le> STARTING_SCORE" "STARTING_SCORE \<le> 1"
  using round64_mono [of 0 "1 / 2"] round64_mono [of "1 / 2" 1] round64_of_int [of 1] by (simp_all add: STARTING_SCORE_def)

lemma well_typed_register:
  assumes "well_typed M" and "n_reputation_score (r_node rec) = STARTING_SCORE"
  shows "well_typed (register rec M)"
proof (cases "find_record M (record_id rec)")
  case None
  then have "record_id rec \<notin> record_id ` set (m_records M)" by (auto simp: find_record_def find_None_set)
  then show ?thesis using assms None starting_score
    by (simp add: well_typed_def register_def dids_distinct_def scored_def)
next
  case (Some old)
  let ?new = "update_node (\<lambda>n. n\<lparr>n_reputation_score := n_reputation_score (r_node old)\<rparr>) rec"
  have "scored old" using Some assms(1) by (auto simp: well_typed_def find_record_def list_all_iff dest: find_Some_set)
  then have "list_all scored (update_first (\<lambda>r. record_id r = record_id rec) (\<lambda>_. ?new) (m_records M))"
    using assms(1) by (intro list_all_update_first) (simp_all add: well_typed_def scored_def)
  moreover have "map record_id (update_first (\<lambda>r. record_id r = record_id rec) (\<lambda>_. ?new) (m_records M)) = map record_id (m_records M)"
    by (rule map_update_first) simp
  ultimately show ?thesis using Some assms(1) by (simp add: well_typed_def register_def update_record_def dids_distinct_def)
qed

lemma well_typed_heartbeat:
  assumes "well_typed M"
  shows "well_typed (snd (heartbeat i hb M))"
proof -
  have "map record_id (update_first (\<lambda>r. record_id r = i) (update_node (heartbeat_node hb b)) rs) = map record_id rs" for b rs
    by (rule map_update_first) simp
  moreover have "list_all scored (update_first (\<lambda>r. record_id r = i) (update_node (heartbeat_node hb b)) (m_records M))" for b
    using assms by (intro list_all_update_first) (auto simp: well_typed_def scored_heartbeat)
  ultimately show ?thesis
    using assms by (simp add: heartbeat_def metrics_batch_def update_record_def well_typed_def dids_distinct_def Let_def
        split: option.split)
qed

lemma map_bound_shape:
  assumes "\<And>n. n_node_id (f n) = n_node_id n" "\<And>n. n_reputation_score (f n) = n_reputation_score n"
  shows "map record_id (map_bound pk f rs) = map record_id rs" "list_all scored (map_bound pk f rs) = list_all scored rs"
  using assms by (induction rs) (simp_all add: map_bound_def scored_def)

lemma well_typed_operator: "operator_step C M M' \<Longrightarrow> well_typed M \<Longrightarrow> well_typed M'"
  by (induction rule: operator_step.induct)
    (simp_all add: well_typed_def dids_distinct_def map_bound_shape put_operator_def upsert_operator_def rename_operator_def
      rotate_operator_identity_def revoke_operator_identity_def accept_operator_governance_def operator_dsr_def
      apply_in_memory_dsr_def clear_in_memory_operator_subject_def clear_in_memory_node_subjects_def
      anonymize_in_memory_operator_def set_operator_recognition_def Let_def split: option.split sum.split prod.split)

interpretation tables: repo_invariant C key well_typed for C key
proof
  fix M M' assume "repo_change C key M M'" and wt: "well_typed M"
  then show "well_typed M'"
  proof cases
    case (removed i)
    then show ?thesis using wt by (simp add: deregister_def well_typed_def dids_distinct_def distinct_map_filter list_all_iff Let_def)
  next
    case (replica_upserted now rid did endpoint tier)
    then show ?thesis using wt dids_distinct_upsert [of M now rid did endpoint tier] by (simp add: well_typed_def upsert_replica_def Let_def)
  qed (use wt in \<open>simp_all add: well_typed_register well_typed_heartbeat well_typed_operator\<close>,
      simp_all add: well_typed_def dids_distinct_def verify_and_rotate_liveness_challenge_def record_dispatch_usage_def
        record_probe_batch_def set_replica_token_hash_def decommission_replica_def append_signed_event_def Let_def split: option.split)
qed

subsection \<open>The log\<close>

lemma operator_step_events: "operator_step C M M' \<Longrightarrow> m_events M' = m_events M"
  by (induction rule: operator_step.induct)
    (simp_all add: put_operator_def upsert_operator_def rename_operator_def
      rotate_operator_identity_def revoke_operator_identity_def accept_operator_governance_def operator_dsr_def
      apply_in_memory_dsr_def clear_in_memory_operator_subject_def clear_in_memory_node_subjects_def
      anonymize_in_memory_operator_def set_operator_recognition_def Let_def split: option.split sum.split prod.split)

definition sealed :: "crypto \<Rightarrow> string \<Rightarrow> InMemoryRepo \<Rightarrow> bool" where
  "sealed C sk M \<longleftrightarrow> (signatures_verify C \<longrightarrow>
     (\<forall>seed. signing_seed C sk = Some seed \<longrightarrow> chained C (hex_encode C (ed_public C seed)) 0 None (m_events M)))"

lemma sealed_same: "sealed C sk M \<Longrightarrow> m_events M' = m_events M \<Longrightarrow> sealed C sk M'"
  by (simp add: sealed_def)

interpretation log_chain: repo_invariant C "Some sk" "sealed C sk" for C sk
proof
  fix M M' assume "repo_change C (Some sk) M M'" and inv: "sealed C sk M"
  then show "sealed C sk M'"
  proof cases
    case (logged sk' eid ts ty nid payload)
    then show ?thesis using inv append_signed_event_chained by (auto simp: sealed_def)
  next
    case operated
    then show ?thesis using inv by (auto intro: sealed_same operator_step_events)
  qed (auto intro!: sealed_same [OF inv] simp: register_def update_record_def heartbeat_def metrics_batch_def deregister_def
      verify_and_rotate_liveness_challenge_def record_dispatch_usage_def record_probe_batch_def upsert_replica_def
      set_replica_token_hash_def decommission_replica_def Let_def split: option.split prod.split)
qed

subsection \<open>Retired operator keys\<close>

lemma inactive_same: "inactive M pk \<Longrightarrow> m_operators M' = m_operators M \<Longrightarrow> inactive M' pk"
  by (simp add: inactive_row)

interpretation retired: repo_invariant C key "\<lambda>M. inactive M pk" for C key pk
proof
  fix M M' assume "repo_change C key M M'" and inv: "inactive M pk"
  then show "inactive M' pk"
  proof cases
    case operated
    then show ?thesis using inv by (rule inactive_step)
  qed (auto intro!: inactive_same [OF inv] simp: register_def update_record_def heartbeat_def metrics_batch_def deregister_def
      verify_and_rotate_liveness_challenge_def record_dispatch_usage_def record_probe_batch_def upsert_replica_def
      set_replica_token_hash_def decommission_replica_def append_signed_event_def Let_def split: option.split prod.split)
qed

section \<open>Who may change a record\<close>

text \<open>
  The requests that are entitled to change the record of node \<open>i\<close>: an accepted registration of that
  id, a deregistration or heartbeat of that node with its token, and a self-service request that is
  authentic for the operator to whom the node is bound.
\<close>

fun entitled :: "RequestContext \<Rightarrow> request \<Rightarrow> OperatorState \<Rightarrow> string \<Rightarrow> bool" where
  "entitled X (ReqRegister L h req) Q i \<longleftrightarrow>
     fst (fst (register_handler X L h req (os_app Q))) = 201 \<and> resolve_node_id (cx_uuid X 0) (rq_node_id req) = Inr i"
| "entitled X (ReqDeregister h j) Q i \<longleftrightarrow> j = i \<and> authorised h (Some i) (os_app Q)"
| "entitled X (ReqHeartbeat h req) Q i \<longleftrightarrow> hq_node_id req = i \<and> authorised h (Some i) (os_app Q)"
| "entitled X (ReqSelfService V route req) Q i \<longleftrightarrow>
     Operator_Service.authentic X V req (signed_action route) (route = KeyRotate) Q
     \<and> (\<exists>r. find_record (st_repo (os_app Q)) i = Some r \<and> bound_to (ok_operator_pub req) r)"
| "entitled X _ Q i \<longleftrightarrow> False"

lemma find_map_bound:
  assumes "\<And>n. n_node_id (f n) = n_node_id n"
  shows "find (\<lambda>r. record_id r = i) (map_bound pk f rs) =
    map_option (\<lambda>r. if bound_to pk r then update_node f r else r) (find (\<lambda>r. record_id r = i) rs)"
  using assms by (induction rs) (auto simp: map_bound_def)

definition only_bound :: "string \<Rightarrow> InMemoryRepo \<Rightarrow> InMemoryRepo \<Rightarrow> bool" where
  "only_bound pk M M' \<longleftrightarrow> (\<forall>i. find_record M' i \<noteq> find_record M i \<longrightarrow> (\<exists>r. find_record M i = Some r \<and> bound_to pk r))"

lemma only_bound_same: "m_records M' = m_records M \<Longrightarrow> only_bound pk M M'"
  by (simp add: only_bound_def find_record_def)

lemma only_bound_map:
  assumes "m_records M' = map_bound pk f (m_records M)" "\<And>n. n_node_id (f n) = n_node_id n"
  shows "only_bound pk M M'"
  unfolding only_bound_def
proof (intro allI impI)
  fix i assume "find_record M' i \<noteq> find_record M i"
  then show "\<exists>r. find_record M i = Some r \<and> bound_to pk r"
    using assms find_map_bound [of f i pk "m_records M"] by (cases "find_record M i") (auto simp: find_record_def split: if_splits)
qed

lemma operator_only_bound:
  "only_bound pk M (snd (accept_operator_governance a pk terms dpa nonce M))"
  "only_bound pk M (snd (rotate_operator_identity pk new_pk epoch M))"
  "only_bound pk M (snd (revoke_operator_identity now pk M))"
  "only_bound pk M (snd (operator_dsr C a pk action tracking M))"
  by (auto simp: accept_operator_governance_def rotate_operator_identity_def revoke_operator_identity_def operator_dsr_def
      apply_in_memory_dsr_def clear_in_memory_operator_subject_def clear_in_memory_node_subjects_def anonymize_in_memory_operator_def
      Let_def only_bound_same split: option.split sum.split prod.split)
    (rule only_bound_map, simp, simp)+


lemma stepped_bound:
  "accept_operator_governance a pk terms dpa nonce M = (v, M') \<Longrightarrow> only_bound pk M M'"
  "operator_dsr C a pk action tracking M = (w, M') \<Longrightarrow> only_bound pk M M'"
  "rotate_operator_identity pk new_pk epoch M = (l, M') \<Longrightarrow> only_bound pk M M'"
  "revoke_operator_identity now pk M = (l, M') \<Longrightarrow> only_bound pk M M'"
  using operator_only_bound by (metis snd_conv)+

abbreviation keeps_unbound :: "string \<Rightarrow> OperatorState \<Rightarrow> OperatorState \<Rightarrow> bool" where
  "keeps_unbound pk Q Q' \<equiv> only_bound pk (st_repo (os_app Q)) (st_repo (os_app Q'))"

lemma only_bound_refl [simp]: "only_bound pk M M"
  by (simp add: only_bound_def)

lemma only_bound_with_repo: "os_app Q1 = os_app Q \<Longrightarrow> only_bound pk (st_repo (os_app Q)) M \<Longrightarrow> keeps_unbound pk Q (with_repo Q1 M)"
  by (simp add: with_repo_def)

lemma validated_bound:
  assumes "\<And>Q1. os_app Q1 = os_app Q \<Longrightarrow> keeps_unbound pk Q (snd (act Q1))"
  shows "keeps_unbound pk Q
    (snd (case validate_operator_key_request X V req action succ Q of (Some r, Q1) \<Rightarrow> (r, Q1) | (None, Q1) \<Rightarrow> act Q1))"
proof -
  obtain r Q1 where v: "validate_operator_key_request X V req action succ Q = (r, Q1)" by fastforce
  show ?thesis
    using v validate_refusal(2) [of X V req action succ Q _ Q1] validate_authentic(2) [of X V req action succ Q Q1] assms [of Q1]
    by (cases r) auto
qed

lemma if_bound: "keeps_unbound pk Q (snd x) \<Longrightarrow> keeps_unbound pk Q (snd y) \<Longrightarrow> keeps_unbound pk Q (snd (if b then x else y))"
  by simp

lemma self_service_bound: "keeps_unbound (ok_operator_pub req) Q (snd (self_service X V route req Q))"
proof -
  have accept: "keeps_unbound (ok_operator_pub req) Q (snd (operator_acceptance X V req Q))"
    unfolding operator_acceptance_def
    by (auto split: option.split if_split simp del: split_paired_All intro!: validated_bound)
      (auto split: prod.split sum.split intro: only_bound_with_repo stepped_bound)
  have dsr: "keeps_unbound (ok_operator_pub req) Q (snd (operator_dsr_action X V action req Q))" for action
    unfolding operator_dsr_action_def
    by (intro if_bound validated_bound) (auto simp: Let_def split: prod.split sum.split intro: only_bound_with_repo stepped_bound)
  have rotate: "keeps_unbound (ok_operator_pub req) Q (snd (operator_key_rotate X V req Q))"
    unfolding operator_key_rotate_def
    by (rule validated_bound) (auto split: prod.split sum.split option.split intro: only_bound_with_repo stepped_bound)
  have revoke: "keeps_unbound (ok_operator_pub req) Q (snd (operator_key_revoke X V req Q))"
    unfolding operator_key_revoke_def
    by (intro if_bound validated_bound) (auto split: prod.split sum.split intro: only_bound_with_repo stepped_bound)
  show ?thesis by (cases route) (simp_all add: accept dsr rotate revoke)
qed

text \<open>The requests that leave every record alone.\<close>

lemma find_record_records: "m_records M' = m_records M \<Longrightarrow> find_record M' = find_record M"
  by (simp add: find_record_def fun_eq_iff)

lemma replica_records:
  "find_record (st_repo (snd (replicas_register X rr S))) = find_record (st_repo S)"
  "find_record (st_repo (snd (replicas_deregister X h S))) = find_record (st_repo S)"
  by (auto simp: replicas_register_def replicas_deregister_def emit_event_def append_signed_event_def upsert_replica_def
      set_replica_token_hash_def decommission_replica_with_event_def decommission_replica_def Let_def
      intro!: find_record_records split: option.split sum.split prod.split bool.split)

lemma usage_records [simp]: "find_record (record_dispatch_usage sd today mode M) = find_record M"
  by (rule find_record_records) (simp add: record_dispatch_usage_def)

lemma discovery_records:
  "find_record (st_repo (snd (discover_handler X D p S))) = find_record (st_repo S)"
  "find_record (st_repo (snd (dispatch_ticket_issue X D tr S))) = find_record (st_repo S)"
  by (simp_all add: discover_handler_def build_discover_response_def dispatch_ticket_issue_def Let_def split: option.split sum.split)

lemma other_records:
  "find_record (st_repo (snd (telemetry_probe X h tp S))) = find_record (st_repo S)"
  "find_record (st_repo (snd (operator_rename X V rn S))) = find_record (st_repo S)"
  "find_record (st_repo (snd (credits_award X h ca S))) = find_record (st_repo S)"
proof -
  show "find_record (st_repo (snd (telemetry_probe X h tp S))) = find_record (st_repo S)"
    by (rule find_record_records) (simp add: telemetry_probe_def record_probe_batch_def Let_def case_prod_beta split: option.split)
  have "snd (operator_rename X V rn S) \<in> {S, S\<lparr>st_repo := snd (rename_operator (rn_operator_pub rn) (rn_display_name rn) (st_repo S))\<rparr>}"
    by (simp add: operator_rename_def Let_def case_prod_beta split: prod.split bool.split)
  then show "find_record (st_repo (snd (operator_rename X V rn S))) = find_record (st_repo S)"
    by (auto intro!: find_record_records simp: rename_operator_def split: option.split)
  show "find_record (st_repo (snd (credits_award X h ca S))) = find_record (st_repo S)"
    unfolding credits_award_def Let_def
    by (simp only: snd_conv find_record_emit simp_thms split: option.split if_split sum.split prod.split CreditError.split)
qed

lemma serve_entitled:
  assumes "find_record (st_repo (os_app (snd (serve X req Q)))) i \<noteq> find_record (st_repo (os_app Q)) i"
  shows "entitled X req Q i"
proof (cases req)
  case (ReqRegister L h rq)
  obtain resp S' where run: "register_handler X L h rq (os_app Q) = (resp, S')" by fastforce
  show ?thesis
    using run
  proof (cases rule: register_handler_cases)
    case (created p)
    then obtain j op where j: "resolve_node_id (cx_uuid X 0) (rq_node_id rq) = Inr j" "p = make_pending X L rq j op"
      unfolding prepare_registration_Inr by blast
    have "find_record (st_repo S') i = find_record (st_repo (os_app Q)) i" if "i \<noteq> j"
      using created(4) j(2) that commit_records [of X h p "snd (registration_rate_rejection X h (os_app Q))"] by simp
    then show ?thesis using assms run created(2) j(1) by (auto simp: ReqRegister on_app_def)
  qed (use assms run in \<open>simp add: ReqRegister on_app_def\<close>)
next
  case (ReqDeregister h j)
  then show ?thesis
    using assms find_record_deregister [of j "st_repo (os_app Q)"]
    by (auto simp: on_app_def deregister_handler_def authorised_iff split: option.splits if_splits prod.splits bool.splits)
next
  case (ReqHeartbeat h rq)
  obtain resp S' where run: "heartbeat_handler X h rq (os_app Q) = (resp, S')" by fastforce
  show ?thesis
    using run
  proof (cases rule: heartbeat_handler_cases)
    case (beaten outcome r)
    have "find_record (st_repo S') j = find_record (st_repo (os_app Q)) j" if "j \<noteq> hq_node_id rq" for j
      using that beaten(1,3) find_record_heartbeat [of "hq_node_id rq" "heartbeat_input rq" "st_repo (os_app Q)"] by simp
    then have "i = hq_node_id rq" using assms run by (auto simp: ReqHeartbeat on_app_def)
    moreover have "authorised h (Some (hq_node_id rq)) (os_app Q)"
      using beat.refuses [of h rq "os_app Q" X] assms run by (auto simp: ReqHeartbeat on_app_def)
    ultimately show ?thesis by (simp add: ReqHeartbeat)
  qed (use assms run in \<open>simp_all add: ReqHeartbeat on_app_def\<close>)
next
  case (ReqSelfService V route rq)
  then have "os_app (snd (self_service X V route rq Q)) \<noteq> os_app Q" using assms by (auto simp: on_operators_def)
  then show ?thesis
    using service.effect_is_authentic [of X V route rq Q] self_service_bound [of rq Q X V route] assms
    by (simp add: ReqSelfService on_operators_def only_bound_def)
qed (use assms in \<open>simp_all add: on_app_def on_app_opt_def on_operators_def read_only replica_records discovery_records other_records\<close>)

end
