(* ===== verification/Runtime_Health.thy ===== *)
theory Runtime_Health
  imports Json
begin

text \<open>
  Local process health, \<open>src/runtime_health.rs\<close>, with its consumers: the notification decision of
  \<open>src/systemd_notify.rs\<close> and the exit code of the health check in \<open>src/runtime.rs\<close>.

  Time is the monotonic clock in milliseconds and an argument of the operations that read it; it is
  taken past the thresholds where an injected fault subtracts them, as an underflow panics.
  The snapshot file is one cell of a file system that may fail at any step of the atomic
  write; its JSON text, its permissions and the notification socket are not modelled.
\<close>

section \<open>States\<close>

datatype RuntimeLifecycle = LifeStarting | LifeRunning | LifeStopping

datatype Liveness = LivenessStarting | Live | NotLive | Indeterminate

datatype Readiness = ReadinessReady | ReadinessDegraded | NotReady

datatype SubsystemState =
  SubHealthy | SubDegraded | SubRecovering | SubUnavailable | SubNotApplicable | SubUnknown

datatype ReasonCode =
    ReasonStarting | ReasonStopping | RuntimeProgressStale | SupervisorProgressStale | ProviderUnavailable | NoCapacity
  | RoutingUnavailable | TunnelRecovering | DirectoryUnavailable | DnsUnavailable | InternetUnavailable | StateUnknown

definition RUNTIME_STALE_AFTER :: nat where
  "RUNTIME_STALE_AFTER = 30000"

definition SUPERVISOR_STALE_AFTER :: nat where
  "SUPERVISOR_STALE_AFTER = 120000"

record ClassificationInput =
  ci_lifecycle :: RuntimeLifecycle
  ci_runtime_age_ms :: u64
  ci_runtime_stale_after_ms :: u64
  ci_supervisor_required :: bool
  ci_supervisor_age_ms :: u64
  ci_supervisor_stale_after_ms :: u64
  ci_provider :: SubsystemState
  ci_capacity_available :: bool
  ci_routing :: SubsystemState
  ci_directory :: SubsystemState
  ci_dns :: SubsystemState
  ci_internet :: SubsystemState
  ci_tunnel :: SubsystemState

record ClassificationOutput =
  co_liveness :: Liveness
  co_readiness :: Readiness
  co_reason_codes :: "ReasonCode list"

definition running_reasons :: "ClassificationInput \<Rightarrow> ReasonCode list" where
  "running_reasons i =
     (if ci_provider i = SubUnavailable then [ProviderUnavailable] else [])
     @ (if \<not> ci_capacity_available i then [NoCapacity] else [])
     @ (if ci_routing i = SubUnavailable then [RoutingUnavailable] else [])
     @ (if ci_tunnel i = SubRecovering then [TunnelRecovering] else [])
     @ (if ci_directory i = SubUnavailable then [DirectoryUnavailable] else [])
     @ (if ci_dns i = SubUnavailable then [DnsUnavailable] else [])
     @ (if ci_internet i = SubUnavailable then [InternetUnavailable] else [])"

definition classify_input :: "ClassificationInput \<Rightarrow> ClassificationOutput" where
  "classify_input i =
     (if ci_lifecycle i = LifeStarting
      then \<lparr>co_liveness = LivenessStarting, co_readiness = NotReady, co_reason_codes = [ReasonStarting]\<rparr>
      else if ci_runtime_age_ms i > ci_runtime_stale_after_ms i
      then \<lparr>co_liveness = NotLive, co_readiness = NotReady, co_reason_codes = [RuntimeProgressStale]\<rparr>
      else if ci_supervisor_required i \<and> ci_supervisor_age_ms i > ci_supervisor_stale_after_ms i
      then \<lparr>co_liveness = NotLive, co_readiness = NotReady, co_reason_codes = [SupervisorProgressStale]\<rparr>
      else if ci_lifecycle i = LifeStopping
      then \<lparr>co_liveness = Live, co_readiness = NotReady, co_reason_codes = [ReasonStopping]\<rparr>
      else
        (let reasons = running_reasons i;
             not_ready = list_ex (\<lambda>r. r = ProviderUnavailable \<or> r = NoCapacity \<or> r = RoutingUnavailable) reasons
         in \<lparr>co_liveness = Live,
             co_readiness = (if not_ready then NotReady else if reasons = [] then ReadinessReady else ReadinessDegraded),
             co_reason_codes = reasons\<rparr>))"

section \<open>The health of the process\<close>

record HealthState =
  hs_lifecycle :: RuntimeLifecycle
  hs_runtime_sequence :: u64
  hs_supervisor_sequence :: u64
  hs_last_runtime :: nat
  hs_last_supervisor :: nat
  hs_supervisor_required :: bool
  hs_capacity_available :: bool
  hs_subsystems :: "(string, SubsystemState) hashmap"
  hs_external :: "(string, SubsystemState) hashmap"
  hs_snapshot_sequence :: u64

definition new_health :: "nat \<Rightarrow> bool \<Rightarrow> HealthState" where
  "new_health now supervisor_required =
     \<lparr>hs_lifecycle = LifeStarting, hs_runtime_sequence = 0, hs_supervisor_sequence = 0, hs_last_runtime = now,
      hs_last_supervisor = now, hs_supervisor_required = supervisor_required, hs_capacity_available = False,
      hs_subsystems = map (\<lambda>n. (n, SubUnknown)) [''provider'', ''routing'', ''tunnel''],
      hs_external = map (\<lambda>n. (n, SubUnknown)) [''directory'', ''dns'', ''internet''], hs_snapshot_sequence = 0\<rparr>"

definition set_subsystem :: "string \<Rightarrow> SubsystemState \<Rightarrow> HealthState \<Rightarrow> HealthState" where
  "set_subsystem name v H = H\<lparr>hs_subsystems := hm_insert name v (hs_subsystems H)\<rparr>"

definition set_external :: "string \<Rightarrow> SubsystemState \<Rightarrow> HealthState \<Rightarrow> HealthState" where
  "set_external name v H = H\<lparr>hs_external := hm_insert name v (hs_external H)\<rparr>"

definition mark_running :: "HealthState \<Rightarrow> HealthState" where
  "mark_running H =
     set_subsystem ''routing'' SubHealthy (set_subsystem ''provider'' SubHealthy
       (H\<lparr>hs_lifecycle := LifeRunning, hs_capacity_available := True\<rparr>))"

definition mark_stopping :: "HealthState \<Rightarrow> HealthState" where
  "mark_stopping H = H\<lparr>hs_lifecycle := LifeStopping\<rparr>"

definition advance_runtime :: "nat \<Rightarrow> HealthState \<Rightarrow> HealthState" where
  "advance_runtime now H = H\<lparr>hs_runtime_sequence := hs_runtime_sequence H + 1, hs_last_runtime := now\<rparr>"

definition advance_supervisor :: "nat \<Rightarrow> HealthState \<Rightarrow> HealthState" where
  "advance_supervisor now H = H\<lparr>hs_supervisor_sequence := hs_supervisor_sequence H + 1, hs_last_supervisor := now\<rparr>"

definition set_supervisor_required :: "bool \<Rightarrow> HealthState \<Rightarrow> HealthState" where
  "set_supervisor_required required H = H\<lparr>hs_supervisor_required := required\<rparr>"

datatype RuntimeHealthFault =
    FaultRuntimeStale | FaultSupervisorStale | FaultDirectory | FaultDns | FaultInternet | FaultTunnel | FaultProvider | FaultClear

fun inject_fault :: "nat \<Rightarrow> RuntimeHealthFault \<Rightarrow> HealthState \<Rightarrow> HealthState" where
  "inject_fault now FaultRuntimeStale H = H\<lparr>hs_last_runtime := now - RUNTIME_STALE_AFTER - 1\<rparr>"
| "inject_fault now FaultSupervisorStale H =
     H\<lparr>hs_supervisor_required := True, hs_last_supervisor := now - SUPERVISOR_STALE_AFTER - 1\<rparr>"
| "inject_fault now FaultDirectory H = set_external ''directory'' SubUnavailable H"
| "inject_fault now FaultDns H = set_external ''dns'' SubUnavailable H"
| "inject_fault now FaultInternet H = set_external ''internet'' SubUnavailable H"
| "inject_fault now FaultTunnel H = set_subsystem ''tunnel'' SubRecovering H"
| "inject_fault now FaultProvider H = (set_subsystem ''provider'' SubUnavailable H)\<lparr>hs_capacity_available := False\<rparr>"
| "inject_fault now FaultClear H =
     fold (\<lambda>n. set_external n SubHealthy) [''directory'', ''dns'', ''internet'']
       (fold (\<lambda>n. set_subsystem n SubHealthy) [''provider'', ''routing'', ''tunnel'']
          (H\<lparr>hs_last_runtime := now, hs_last_supervisor := now, hs_capacity_available := True\<rparr>))"

text \<open>\<open>u64::try_from(d.as_millis()).unwrap_or(u64::MAX)\<close>.\<close>

definition ms :: "nat \<Rightarrow> u64" where
  "ms d = (if d < 2 ^ 64 then of_nat d else - 1)"

definition HEALTH_SCHEMA_VERSION :: u8 where
  "HEALTH_SCHEMA_VERSION = 1"

record ProgressSnapshot =
  pg_sequence :: u64
  pg_age_ms :: u64
  pg_stale_after_ms :: u64
  pg_required :: bool

record ProgressSet =
  ps_runtime :: ProgressSnapshot
  ps_supervisor :: ProgressSnapshot

record HealthSnapshot =
  sn_health_schema_version :: u8
  sn_process_epoch :: string
  sn_pid :: u32
  sn_sequence :: u64
  sn_emitted_at :: string
  sn_lifecycle :: RuntimeLifecycle
  sn_liveness :: Liveness
  sn_readiness :: Readiness
  sn_progress :: ProgressSet
  sn_subsystems :: "(string, SubsystemState) hashmap"
  sn_external_connectivity :: "(string, SubsystemState) hashmap"
  sn_reason_codes :: "ReasonCode list"

text \<open>The identity of the process: the epoch drawn at start, its process id and the wall clock as text.\<close>

record ProcessIdentity =
  pi_epoch :: string
  pi_pid :: u32
  pi_wall_clock :: "nat \<Rightarrow> string"

definition state_of :: "(string, SubsystemState) hashmap \<Rightarrow> string \<Rightarrow> SubsystemState" where
  "state_of m name = unwrap_or SubUnknown (map_of m name)"

definition snapshot_input :: "nat \<Rightarrow> HealthState \<Rightarrow> ClassificationInput" where
  "snapshot_input now H =
     \<lparr>ci_lifecycle = hs_lifecycle H, ci_runtime_age_ms = ms (now - hs_last_runtime H),
      ci_runtime_stale_after_ms = ms RUNTIME_STALE_AFTER, ci_supervisor_required = hs_supervisor_required H,
      ci_supervisor_age_ms = ms (now - hs_last_supervisor H), ci_supervisor_stale_after_ms = ms SUPERVISOR_STALE_AFTER,
      ci_provider = state_of (hs_subsystems H) ''provider'', ci_capacity_available = hs_capacity_available H,
      ci_routing = state_of (hs_subsystems H) ''routing'', ci_directory = state_of (hs_external H) ''directory'',
      ci_dns = state_of (hs_external H) ''dns'', ci_internet = state_of (hs_external H) ''internet'',
      ci_tunnel = state_of (hs_subsystems H) ''tunnel''\<rparr>"

definition health_snapshot :: "ProcessIdentity \<Rightarrow> nat \<Rightarrow> HealthState \<Rightarrow> HealthSnapshot \<times> HealthState" where
  "health_snapshot P now H =
     (let H1 = H\<lparr>hs_snapshot_sequence := hs_snapshot_sequence H + 1\<rparr>;
          result = classify_input (snapshot_input now H1)
      in (\<lparr>sn_health_schema_version = HEALTH_SCHEMA_VERSION, sn_process_epoch = pi_epoch P, sn_pid = pi_pid P,
           sn_sequence = hs_snapshot_sequence H1, sn_emitted_at = pi_wall_clock P now, sn_lifecycle = hs_lifecycle H1,
           sn_liveness = co_liveness result, sn_readiness = co_readiness result,
           sn_progress =
             \<lparr>ps_runtime = \<lparr>pg_sequence = hs_runtime_sequence H1, pg_age_ms = ms (now - hs_last_runtime H1),
                              pg_stale_after_ms = ms RUNTIME_STALE_AFTER, pg_required = True\<rparr>,
              ps_supervisor = \<lparr>pg_sequence = hs_supervisor_sequence H1, pg_age_ms = ms (now - hs_last_supervisor H1),
                                 pg_stale_after_ms = ms SUPERVISOR_STALE_AFTER,
                                 pg_required = hs_supervisor_required H1\<rparr>\<rparr>,
           sn_subsystems = hs_subsystems H1, sn_external_connectivity = hs_external H1,
           sn_reason_codes = co_reason_codes result\<rparr>, H1))"

section \<open>Consumers\<close>

text \<open>\<open>systemd_notify::decision\<close> and one turn of its loop, which sends the ready message once.\<close>

record NotificationDecision =
  nd_ready :: bool
  nd_watchdog :: bool

definition decision :: "RuntimeLifecycle \<Rightarrow> Liveness \<Rightarrow> Readiness \<Rightarrow> bool \<Rightarrow> bool \<Rightarrow> NotificationDecision" where
  "decision lifecycle liveness readiness ready_sent watchdog_configured =
     (let live_running = (lifecycle = LifeRunning \<and> liveness = Live)
      in \<lparr>nd_ready = (live_running \<and> \<not> ready_sent), nd_watchdog = (live_running \<and> watchdog_configured)\<rparr>)"

definition notify_turn :: "ProcessIdentity \<Rightarrow> bool \<Rightarrow> nat \<Rightarrow> bool \<times> HealthState \<Rightarrow> NotificationDecision \<times> bool \<times> HealthState" where
  "notify_turn P watchdog now = (\<lambda>(ready_sent, H).
     (let (snap, H1) = health_snapshot P now H;
          action = decision (sn_lifecycle snap) (sn_liveness snap) (sn_readiness snap) ready_sent watchdog
      in (action, ready_sent \<or> nd_ready action, H1)))"

text \<open>
  \<open>runtime_health_path\<close> chooses the file, \<open>write_atomic_with\<close> replaces it: the bytes go to a
  temporary file, which is synced and renamed over the target, and is removed when a step
  fails. The steps that may fail are the arguments: creating the directory, opening, writing, syncing
  and renaming. A file is its contents; an interrupted write leaves some prefix in the
  temporary file.
\<close>

definition runtime_health_path :: "string option \<Rightarrow> (string \<Rightarrow> string option) \<Rightarrow> string" where
  "runtime_health_path explicit env =
     (case explicit of Some p \<Rightarrow> p
      | None \<Rightarrow> (case env ''IICP_RUNTIME_HEALTH_FILE'' of Some p \<Rightarrow> p
      | None \<Rightarrow> (case env ''XDG_RUNTIME_DIR'' of Some base \<Rightarrow> base @ ''/iicp-directory-rs/health.json''
      | None \<Rightarrow> (case env ''HOME'' of Some base \<Rightarrow> base @ ''/.local/state/iicp-directory-rs/health.json''
      | None \<Rightarrow> ''/tmp/iicp-directory-rs-health.json''))))"

datatype WriteFault = FaultDirectoryCreate | FaultOpen | FaultWrite nat | FaultSync | FaultRename

type_synonym file_system = "(string, string) hashmap"

definition write_atomic :: "WriteFault option \<Rightarrow> string \<Rightarrow> string \<Rightarrow> string \<Rightarrow> file_system \<Rightarrow> bool \<times> file_system" where
  "write_atomic fault tmp path content fs =
     (case fault of
        Some FaultDirectoryCreate \<Rightarrow> (False, fs)
      | Some FaultOpen \<Rightarrow> (False, hm_remove tmp fs)
      | Some (FaultWrite n) \<Rightarrow> (False, hm_remove tmp (hm_insert tmp (take n content) fs))
      | Some FaultSync \<Rightarrow> (False, hm_remove tmp (hm_insert tmp content fs))
      | Some FaultRename \<Rightarrow> (False, hm_remove tmp (hm_insert tmp content fs))
      | None \<Rightarrow> (True, hm_insert path content (hm_remove tmp (hm_insert tmp content fs))))"

text \<open>One turn of \<open>run_runtime_progress_loop\<close>, with the text of a snapshot as parameter.\<close>

definition progress_turn ::
  "ProcessIdentity \<Rightarrow> (HealthSnapshot \<Rightarrow> string) \<Rightarrow> string \<Rightarrow> string \<Rightarrow> WriteFault option \<Rightarrow> nat
   \<Rightarrow> HealthState \<times> file_system \<Rightarrow> HealthState \<times> file_system" where
  "progress_turn P print tmp path fault now = (\<lambda>(H, fs).
     (let (snap, H1) = health_snapshot P now (advance_runtime now H)
      in (H1, snd (write_atomic fault tmp path (print snap) fs))))"

text \<open>The exit code of \<open>run_healthcheck\<close> for a snapshot file of the given age.\<close>

definition healthcheck_code :: "nat \<Rightarrow> bool \<Rightarrow> HealthSnapshot \<Rightarrow> int" where
  "healthcheck_code age require_ready snap =
     (if age > unat (pg_stale_after_ms (ps_runtime (sn_progress snap))) then 1
      else if require_ready then (if sn_readiness snap \<noteq> ReadinessReady then 1 else 0)
      else (case sn_liveness snap of Live \<Rightarrow> 0 | NotLive \<Rightarrow> 1 | _ \<Rightarrow> 2))"

section \<open>Classification\<close>

definition stale :: "ClassificationInput \<Rightarrow> bool" where
  "stale i \<longleftrightarrow> ci_runtime_age_ms i > ci_runtime_stale_after_ms i
     \<or> ci_supervisor_required i \<and> ci_supervisor_age_ms i > ci_supervisor_stale_after_ms i"

definition serving :: "ClassificationInput \<Rightarrow> bool" where
  "serving i \<longleftrightarrow> ci_provider i \<noteq> SubUnavailable \<and> ci_capacity_available i \<and> ci_routing i \<noteq> SubUnavailable"

definition connected :: "ClassificationInput \<Rightarrow> bool" where
  "connected i \<longleftrightarrow> ci_tunnel i \<noteq> SubRecovering \<and> ci_directory i \<noteq> SubUnavailable \<and> ci_dns i \<noteq> SubUnavailable
     \<and> ci_internet i \<noteq> SubUnavailable"

text \<open>
  The classification, on every input: a starting process is starting; a process whose runtime, or
  required supervisor, made no progress in time is dead and not ready; every other one is live,
  and ready exactly when it runs with a provider, capacity and a route and all its
  connections, degraded when only a connection is missing. There is always a
  reason unless it is ready.
\<close>

theorem classify_exact:
  "(co_liveness (classify_input i) = LivenessStarting \<longleftrightarrow> ci_lifecycle i = LifeStarting)
   \<and> (co_liveness (classify_input i) = NotLive \<longleftrightarrow> ci_lifecycle i \<noteq> LifeStarting \<and> stale i)
   \<and> (co_liveness (classify_input i) = Live \<longleftrightarrow> ci_lifecycle i \<noteq> LifeStarting \<and> \<not> stale i)
   \<and> (co_readiness (classify_input i) = ReadinessReady \<longleftrightarrow>
        ci_lifecycle i = LifeRunning \<and> \<not> stale i \<and> serving i \<and> connected i)
   \<and> (co_readiness (classify_input i) = ReadinessDegraded \<longleftrightarrow>
        ci_lifecycle i = LifeRunning \<and> \<not> stale i \<and> serving i \<and> \<not> connected i)
   \<and> (co_reason_codes (classify_input i) = [] \<longleftrightarrow> co_readiness (classify_input i) = ReadinessReady)"
  by (cases "ci_lifecycle i") (auto simp: classify_input_def running_reasons_def stale_def serving_def connected_def Let_def)

lemma ms_le: "k < 2 ^ 64 - 1 \<Longrightarrow> ms d \<le> ms k \<longleftrightarrow> d \<le> k"
  by (auto simp: ms_def word_le_nat_alt unsigned_of_nat take_bit_nat_eq_self unsigned_minus_1_eq_mask mask_eq_exp_minus_1)

lemma stale_now:
  "stale (snapshot_input now H) \<longleftrightarrow> now - hs_last_runtime H > RUNTIME_STALE_AFTER
     \<or> hs_supervisor_required H \<and> now - hs_last_supervisor H > SUPERVISOR_STALE_AFTER"
  using ms_le [of RUNTIME_STALE_AFTER "now - hs_last_runtime H"] ms_le [of SUPERVISOR_STALE_AFTER "now - hs_last_supervisor H"]
  by (auto simp: stale_def snapshot_input_def RUNTIME_STALE_AFTER_def SUPERVISOR_STALE_AFTER_def not_le [symmetric])

text \<open>
  The service manager is told the truth. A watchdog pulse leaves the process exactly when a watchdog
  is configured, the process is running, its runtime made progress within the last thirty
  seconds and its required supervisor within the last two minutes; neither a lost
  connection nor a missing provider withholds it. The ready message is sent at most once.
\<close>

theorem watchdog_exact:
  "nd_watchdog (fst (notify_turn P watchdog now (sent, H))) \<longleftrightarrow>
     watchdog \<and> hs_lifecycle H = LifeRunning \<and> now - hs_last_runtime H \<le> RUNTIME_STALE_AFTER
     \<and> (hs_supervisor_required H \<longrightarrow> now - hs_last_supervisor H \<le> SUPERVISOR_STALE_AFTER)"
proof -
  let ?i = "snapshot_input now (H\<lparr>hs_snapshot_sequence := hs_snapshot_sequence H + 1\<rparr>)"
  have w: "nd_watchdog (fst (notify_turn P watchdog now (sent, H))) \<longleftrightarrow>
      watchdog \<and> hs_lifecycle H = LifeRunning \<and> co_liveness (classify_input ?i) = Live"
    by (auto simp: notify_turn_def health_snapshot_def decision_def Let_def)
  have "ci_lifecycle ?i = hs_lifecycle H" by (simp add: snapshot_input_def)
  then have "co_liveness (classify_input ?i) = Live \<longleftrightarrow> hs_lifecycle H \<noteq> LifeStarting \<and> \<not> stale ?i"
    using classify_exact [of ?i] by metis
  moreover have "stale ?i \<longleftrightarrow> now - hs_last_runtime H > RUNTIME_STALE_AFTER
      \<or> hs_supervisor_required H \<and> now - hs_last_supervisor H > SUPERVISOR_STALE_AFTER"
    unfolding stale_now by simp
  ultimately show ?thesis unfolding w by (auto simp: not_less)
qed

lemma ready_once:
  "nd_ready (fst (notify_turn P watchdog now (sent, H))) \<longrightarrow>
     \<not> sent \<and> fst (snd (notify_turn P watchdog now (sent, H)))"
  by (simp add: notify_turn_def health_snapshot_def decision_def Let_def)

text \<open>A fresh process that is marked running is ready as soon as its runtime has made progress, and a fault of any kind is lifted by clearing it.\<close>

lemma running_is_ready:
  "sn_readiness (fst (health_snapshot P now (advance_runtime now (mark_running (new_health now required))))) = ReadinessReady"
  by (simp add: health_snapshot_def classify_input_def snapshot_input_def running_reasons_def advance_runtime_def mark_running_def
      set_subsystem_def new_health_def state_of_def ms_def RUNTIME_STALE_AFTER_def SUPERVISOR_STALE_AFTER_def hm_insert_def Let_def)

lemma clear_is_ready:
  "hs_lifecycle H = LifeRunning \<Longrightarrow> sn_readiness (fst (health_snapshot P now (inject_fault now FaultClear H))) = ReadinessReady"
  by (simp add: health_snapshot_def classify_input_def snapshot_input_def running_reasons_def set_subsystem_def set_external_def
      state_of_def ms_def RUNTIME_STALE_AFTER_def SUPERVISOR_STALE_AFTER_def Let_def)

text \<open>
  A reader of the snapshot file never sees a torn one: after any sequence of turns, with any fault in
  each, the file holds either what it held before or the whole text of a snapshot some turn took,
  and no temporary file is left behind.
\<close>

lemma write_atomic_cases:
  assumes "tmp \<noteq> path" "map_of fs tmp = None"
  shows "map_of (snd (write_atomic fault tmp path content fs)) tmp = None"
    "map_of (snd (write_atomic fault tmp path content fs)) path \<in> {map_of fs path, Some content}"
  using assms by (auto simp: write_atomic_def split: option.splits WriteFault.splits)

theorem snapshot_never_torn:
  assumes "tmp \<noteq> path" "map_of fs tmp = None"
  shows "map_of (snd (fold (\<lambda>(fault, now). progress_turn P print tmp path fault now) turns (H, fs))) tmp = None
    \<and> (map_of (snd (fold (\<lambda>(fault, now). progress_turn P print tmp path fault now) turns (H, fs))) path = map_of fs path
       \<or> (\<exists>snap. map_of (snd (fold (\<lambda>(fault, now). progress_turn P print tmp path fault now) turns (H, fs))) path
             = Some (print snap)))"
  using assms(2)
proof (induction turns arbitrary: H fs)
  case (Cons turn turns)
  obtain fault now where turn: "turn = (fault, now)" by (cases turn)
  obtain snap H1 where step: "progress_turn P print tmp path fault now (H, fs)
      = (H1, snd (write_atomic fault tmp path (print snap) fs))"
    by (cases "health_snapshot P now (advance_runtime now H)") (simp add: progress_turn_def)
  note w = write_atomic_cases [OF assms(1) Cons.prems, of fault "print snap"]
  show ?case using Cons.IH [OF w(1), of H1] w(2) by (auto simp: turn step)
qed simp

end
