(* ===== verification/Sql.thy ===== *)
theory Sql
  imports Prelude
begin

text \<open>
  What the persistent repository of \<open>src/db.rs\<close> relies on of the database, and the pattern its
  operations share: a transaction whose statements may fail, tried again while the failure is a
  lock conflict.

  The database is a parameter, the record \<open>sql_env\<close>: the weights by which the collation of the
  text columns compares strings, the clock, how a \<open>DOUBLE\<close> is stored in a \<open>DECIMAL(15,4)\<close>
  column, and which statement of an attempt fails. A decimal column holds an integer, its value
  in ten-thousandths. The statements of a transaction run on locked rows, so an attempt is one step
  on the tables; a transaction that is dropped before it commits leaves no trace.
\<close>

section \<open>The environment\<close>

datatype sqlx_error = MySqlError nat | OtherError

definition is_transient_transaction_error :: "sqlx_error \<Rightarrow> bool" where
  "is_transient_transaction_error e \<longleftrightarrow> e = MySqlError 1205 \<or> e = MySqlError 1213"

definition is_unique_violation :: "sqlx_error \<Rightarrow> bool" where
  "is_unique_violation e \<longleftrightarrow> e = MySqlError 1062"

record sql_env =
  sq_weight :: "string \<Rightarrow> string"
  sq_now :: nat
  sq_decimal :: "f64 \<Rightarrow> int"
  sq_fails :: "nat \<Rightarrow> sqlx_error option"

definition sq_eq :: "sql_env \<Rightarrow> string \<Rightarrow> string \<Rightarrow> bool" where
  "sq_eq E a b \<longleftrightarrow> sq_weight E a = sq_weight E b"

lemma sq_eq_refl [simp]: "sq_eq E a a"
  and sq_eq_sym: "sq_eq E a b \<longleftrightarrow> sq_eq E b a"
  and sq_eq_trans: "sq_eq E a b \<Longrightarrow> sq_eq E b c \<Longrightarrow> sq_eq E a c"
  by (auto simp: sq_eq_def)

text \<open>\<open>CAST(column AS DOUBLE)\<close> of a \<open>DECIMAL(15,4)\<close> column.\<close>

definition sql_double :: "int \<Rightarrow> f64" where
  "sql_double k = round64 (of_int k / 10000)"

text \<open>What is documented of storing a \<open>DOUBLE\<close> in such a column: it holds the nearest value.\<close>

definition nearest_decimal :: "(f64 \<Rightarrow> int) \<Rightarrow> bool" where
  "nearest_decimal d \<longleftrightarrow> (\<forall>x. \<bar>of_int (d x) - 10000 * x\<bar> \<le> 1 / 2)"

section \<open>Transactions and attempts\<close>

text \<open>Statement \<open>k\<close> of an attempt runs, or the attempt returns its error.\<close>

definition statement :: "sql_env \<Rightarrow> (sqlx_error \<Rightarrow> 'e) \<Rightarrow> nat \<Rightarrow> 'e + 'a \<Rightarrow> 'e + 'a" where
  "statement E err k r = (case sq_fails E k of Some e \<Rightarrow> Inl (err e) | None \<Rightarrow> r)"

text \<open>The rows after a transaction: those it wrote when it commits, the ones before when it is dropped.\<close>

definition transaction :: "'s \<Rightarrow> 'e + 'a \<times> 's \<Rightarrow> ('e + 'a) \<times> 's" where
  "transaction s r = (case r of Inl e \<Rightarrow> (Inl e, s) | Inr (a, s') \<Rightarrow> (Inr a, s'))"

lemma transaction_simps [simp]:
  "transaction s (Inl e) = (Inl e, s)" "transaction s (Inr (a, s')) = (Inr a, s')"
  by (simp_all add: transaction_def)

lemma transaction_failed: "fst (transaction s r) = Inl e \<Longrightarrow> snd (transaction s r) = s"
  by (auto simp: transaction_def split: sum.splits)

lemma statement_Inr: "statement E err k r = Inr x \<longleftrightarrow> sq_fails E k = None \<and> r = Inr x"
  by (simp add: statement_def split: option.split)

text \<open>
  The loop \<open>for attempt in 0..ATTEMPTS\<close>: attempt number \<open>k\<close>, with \<open>n\<close> more to come, is repeated
  on a transient failure and its result returned otherwise.
\<close>

fun retry :: "(nat \<Rightarrow> 's \<Rightarrow> ('e + 'a) \<times> 's) \<Rightarrow> ('e \<Rightarrow> bool) \<Rightarrow> nat \<Rightarrow> nat \<Rightarrow> 's \<Rightarrow> ('e + 'a) \<times> 's" where
  "retry once transient 0 k s = once k s"
| "retry once transient (Suc n) k s =
     (case once k s of
        (Inl e, s') \<Rightarrow> if transient e then retry once transient n (Suc k) s' else (Inl e, s')
      | r \<Rightarrow> r)"

text \<open>
  What every operation of the repository promises of one attempt: it writes nothing when it fails. Then
  so does the loop, and a loop that succeeds is a single successful attempt: nothing is
  applied twice.
\<close>

locale attempt =
  fixes once :: "nat \<Rightarrow> 's \<Rightarrow> ('e + 'a) \<times> 's"
    and transient :: "'e \<Rightarrow> bool"
  assumes failed: "fst (once k s) = Inl e \<Longrightarrow> snd (once k s) = s"
begin

lemma retry_once: "\<exists>j \<ge> k. j \<le> k + n \<and> retry once transient n k s = once j s"
proof (induction n arbitrary: k)
  case (Suc n)
  show ?case
  proof (cases "\<exists>e s'. once k s = (Inl e, s') \<and> transient e")
    case True
    then obtain e s' where o: "once k s = (Inl e, s')" "transient e" by blast
    then have "s' = s" using failed [of k s e] by simp
    obtain j where "Suc k \<le> j" "j \<le> Suc k + n" "retry once transient n (Suc k) s = once j s" using Suc [of "Suc k"] by blast
    with o \<open>s' = s\<close> show ?thesis by (intro exI [of _ j]) simp
  next
    case False
    then have "retry once transient (Suc n) k s = once k s" by (auto split: prod.splits sum.splits)
    then show ?thesis by (intro exI [of _ k]) simp
  qed
qed auto

lemma retry_failed: "fst (retry once transient n k s) = Inl e \<Longrightarrow> snd (retry once transient n k s) = s"
  using retry_once [of k n s] failed by metis

lemma retry_invariant:
  assumes "\<And>j. I (snd (once j s))"
  shows "I (snd (retry once transient n k s))"
  using retry_once [of k n s] assms by metis

text \<open>Enough attempts get past conflicts that end: the result is that of the first attempt that meets none.\<close>

lemma retry_succeeds:
  assumes "\<And>j. j < m \<Longrightarrow> \<exists>e. fst (once (k + j) s) = Inl e \<and> transient e"
    and "\<And>e. fst (once (k + m) s) = Inl e \<Longrightarrow> \<not> transient e" and "m \<le> n"
  shows "retry once transient n k s = once (k + m) s"
  using assms
proof (induction m arbitrary: k n)
  case 0
  then show ?case by (cases n) (auto split: prod.splits sum.splits)
next
  case (Suc m)
  obtain n' where n: "n = Suc n'" using Suc.prems(3) by (cases n) auto
  obtain e where e: "fst (once k s) = Inl e" "transient e" using Suc.prems(1) [of 0] by auto
  then have "once k s = (Inl e, s)" using failed [OF e(1)] by (metis prod.collapse)
  moreover have "retry once transient n' (Suc k) s = once (Suc k + m) s"
    by (rule Suc.IH) (use Suc.prems(1) [of "Suc _"] Suc.prems(2,3) n in simp_all)
  ultimately show ?case using e(2) n by simp
qed

end

section \<open>Decimal columns and floating point\<close>

text \<open>The error of one rounding, in terms of the magnitude of what is rounded.\<close>

lemma round_even_error: "\<bar>of_int (round_even x) - x\<bar> \<le> 1 / 2"
proof -
  have "of_int (floor x) \<le> x" "x < of_int (floor x) + 1" by linarith+
  then show ?thesis unfolding round_even_def Let_def by (auto simp: abs_le_iff not_less split: if_splits)
qed

lemma round64_error_ulp: "\<bar>round64 x - x\<bar> \<le> 2 powi ulp_exp x / 2"
proof (cases "x = 0")
  case False
  let ?u = "(2::rat) powi ulp_exp x"
  have "round64 x - x = (of_int (round_even (x / ?u)) - x / ?u) * ?u"
    using False by (simp add: round64_cases left_diff_distrib)
  then have "\<bar>round64 x - x\<bar> = \<bar>of_int (round_even (x / ?u)) - x / ?u\<bar> * ?u" by (simp add: abs_mult)
  also have "\<dots> \<le> 1 / 2 * ?u" by (intro mult_right_mono round_even_error) simp
  finally show ?thesis by simp
qed simp

lemma round64_error:
  assumes "\<bar>x\<bar> \<le> 2 powi n" and "-1021 \<le> n"
  shows "\<bar>round64 x - x\<bar> \<le> 2 powi (n - 53)"
proof (cases "x = 0")
  case False
  have "2 powi ilog2 \<bar>x\<bar> \<le> \<bar>x\<bar>" using False by (intro ilog2_bounds) simp
  then have "(2::rat) powi ilog2 \<bar>x\<bar> \<le> 2 powi n" using assms(1) by linarith
  then have "ilog2 \<bar>x\<bar> \<le> n" by (rule powi_2_le_imp)
  then have "ulp_exp x \<le> n - 52" using assms(2) by (simp add: ulp_exp_def)
  then have "(2::rat) powi ulp_exp x \<le> 2 powi (1 + (n - 53))" by (intro powi_2_mono) simp
  then have "(2::rat) powi ulp_exp x \<le> 2 * 2 powi (n - 53)" by (simp only: powi_2_add power_int_1_right)
  with round64_error_ulp [of x] show ?thesis by linarith
qed simp

text \<open>
  \<open>near d x k\<close>: the float is within \<open>d\<close> of the decimal. Sums and differences of amounts up to
  \<open>2 ^ 26\<close> credits, in floats, stay near the exact sums and differences.
\<close>

definition near :: "rat \<Rightarrow> f64 \<Rightarrow> int \<Rightarrow> bool" where
  "near d x k \<longleftrightarrow> \<bar>x - of_int k / 10000\<bar> \<le> d"

definition float_error :: rat where
  "float_error = 1 / 2 ^ 27"

definition amount_bound :: int where
  "amount_bound = 10000 * 2 ^ 25"

lemma near_round:
  assumes "\<bar>x\<bar> \<le> 67108864"
  shows "\<bar>round64 x - x\<bar> \<le> float_error"
proof -
  have "\<bar>x\<bar> \<le> 2 powi 26" using assms by (simp add: power_int_def)
  then have "\<bar>round64 x - x\<bar> \<le> 2 powi (26 - 53)" by (rule round64_error) simp
  then show ?thesis by (simp add: float_error_def power_int_def field_simps)
qed

lemma abs_decimal: "\<bar>k\<bar> \<le> amount_bound \<Longrightarrow> \<bar>of_int k / 10000 :: rat\<bar> \<le> 33554432"
proof -
  assume "\<bar>k\<bar> \<le> amount_bound"
  then have "(of_int \<bar>k\<bar> :: rat) \<le> of_int (10000 * 2 ^ 25)" unfolding amount_bound_def by (simp only: of_int_le_iff)
  then show ?thesis by (simp add: abs_divide)
qed

lemma near_double: "\<bar>k\<bar> \<le> amount_bound \<Longrightarrow> near float_error (sql_double k) k"
  unfolding near_def sql_double_def by (intro near_round) (use abs_decimal [of k] in simp)

lemma near_mono: "near d x k \<Longrightarrow> d \<le> d' \<Longrightarrow> near d' x k"
  by (simp add: near_def)

lemma near_fadd:
  assumes "near d x k" "near d' y l" "\<bar>k + l\<bar> \<le> amount_bound" "d + d' \<le> 1"
  shows "near (d + d' + float_error) (fadd x y) (k + l)"
proof -
  have s: "\<bar>(x + y) - of_int (k + l) / 10000\<bar> \<le> d + d'"
    using assms(1,2) by (simp add: near_def add_divide_distrib)
  then have "\<bar>x + y\<bar> \<le> 67108864" using abs_decimal [OF assms(3)] assms(4) by linarith
  from near_round [OF this] s show ?thesis unfolding near_def fadd_def by linarith
qed

lemma near_fsub:
  assumes "near d x k" "near d' y l" "\<bar>k - l\<bar> \<le> amount_bound" "d + d' \<le> 1"
  shows "near (d + d' + float_error) (fsub x y) (k - l)"
proof -
  have s: "\<bar>(x - y) - of_int (k - l) / 10000\<bar> \<le> d + d'"
    using assms(1,2) by (simp add: near_def diff_divide_distrib)
  then have "\<bar>x - y\<bar> \<le> 67108864" using abs_decimal [OF assms(3)] assms(4) by linarith
  from near_round [OF this] s show ?thesis unfolding near_def fsub_def by linarith
qed

text \<open>A float near a decimal is stored as that decimal, and compares with floats near others as the decimals do.\<close>

lemma near_stored:
  assumes "nearest_decimal dec" "near d x k" "d < 1 / 20000"
  shows "dec x = k"
proof -
  have "\<bar>of_int (dec x) - 10000 * x\<bar> \<le> 1 / 2" using assms(1) by (simp add: nearest_decimal_def)
  moreover have "\<bar>10000 * x - of_int k\<bar> < 1 / 2" using assms(2,3) unfolding near_def by linarith
  ultimately have "\<bar>of_int (dec x) - of_int k :: rat\<bar> < 1" by linarith
  then have "of_int \<bar>dec x - k\<bar> < (of_int 1 :: rat)" by simp
  then have "\<bar>dec x - k\<bar> < 1" by (simp only: of_int_less_iff)
  then show ?thesis by simp
qed

lemma near_less:
  assumes "near d x k" "near d' y l" "d + d' < 1 / 10000" "k < l"
  shows "x < y"
proof -
  have "of_int (k + 1) \<le> (of_int l :: rat)" using assms(4) by (simp only: of_int_le_iff)
  then have "of_int k / 10000 + 1 / 10000 \<le> (of_int l / 10000 :: rat)" by simp
  then show ?thesis using assms(1-3) unfolding near_def by linarith
qed

lemma near_literal: "near float_error (round64 (1 / 10000)) 1"
  using near_double [of 1] by (simp add: sql_double_def amount_bound_def)

lemma sql_double_less:
  assumes "\<bar>k\<bar> \<le> amount_bound" "\<bar>l\<bar> \<le> amount_bound" "k < l"
  shows "sql_double k < sql_double l"
  by (rule near_less [OF near_double [OF assms(1)] near_double [OF assms(2)] _ assms(3)]) (simp add: float_error_def)

lemma sql_double_le_iff:
  assumes "\<bar>k\<bar> \<le> amount_bound" "\<bar>l\<bar> \<le> amount_bound"
  shows "sql_double k \<le> sql_double l \<longleftrightarrow> k \<le> l"
  using sql_double_less [OF assms] sql_double_less [OF assms(2,1)] by (cases k l rule: linorder_cases) auto

lemma sql_double_inject:
  assumes "\<bar>k\<bar> \<le> amount_bound" "\<bar>l\<bar> \<le> amount_bound"
  shows "sql_double k = sql_double l \<longleftrightarrow> k = l"
  using sql_double_le_iff [OF assms] sql_double_le_iff [OF assms(2,1)] by (auto simp: antisym)

section \<open>A database without failures\<close>

definition demo_sql :: sql_env where
  "demo_sql = \<lparr>sq_weight = id, sq_now = 1000, sq_decimal = (\<lambda>x. round_even (10000 * x)), sq_fails = (\<lambda>_. None)\<rparr>"

lemma demo_decimal: "nearest_decimal (sq_decimal demo_sql)"
  unfolding nearest_decimal_def demo_sql_def using round_even_error by simp

end
