(* ===== verification/Node_Table.thy ===== *)
theory Node_Table
  imports Sql Event_Log
begin

text \<open>
  The life of a node in the persistent repository, \<open>src/db.rs\<close>: heartbeats with the hourly cap on
  reputation gains, expiry to dormancy and archiving, the route state that the directory's own
  probes set, liveness challenges, audit reports, and the signed event log with its chain head.

  The tables are lists of rows; of \<open>nodes\<close> the columns that these operations read or write. Times of the
  database are seconds, the clock of the process is in milliseconds. A statement may fail, also
  because a counter no longer fits its column.
\<close>

section \<open>Single precision\<close>

text \<open>\<open>as f32\<close> on a finite value: to nearest, ties to even, 24 bit significand.\<close>

definition round32 :: "f64 \<Rightarrow> f64" where
  "round32 x =
     (if x = 0 then 0
      else (let u = max (ilog2 \<bar>x\<bar> - 23) (-149) in of_int (round_even (x / 2 powi u)) * 2 powi u))"

section \<open>Tables\<close>

record node_row =
  nr_id :: string
  nr_endpoint :: string
  nr_load :: f64
  nr_available :: bool
  nr_active_jobs :: u32
  nr_reputation_score :: f64
  nr_reputation_model :: string
  nr_reputation_epoch :: "string option"
  nr_rep_hourly_gain :: int
  nr_rep_hourly_window_start :: "nat option"
  nr_tasks_total :: nat
  nr_tasks_failed :: nat
  nr_tasks_total_recent :: nat
  nr_tasks_failed_recent :: nat
  nr_avg_latency_ms_recent :: f64
  nr_recent_window_start :: "nat option"
  nr_health_models :: "string list option"
  nr_last_metrics_batch_id :: "string option"
  nr_status :: string
  nr_dormant_since :: "nat option"
  nr_last_seen :: "nat option"
  nr_liveness_challenge :: "string option"
  nr_liveness_verified_at :: "nat option"
  nr_node_hmac_key :: "string option"
  nr_public_reachable :: bool
  nr_endpoint_verified_dead_at :: "nat option"
  nr_created_at :: "nat option"

record probe_row =
  pr_node_id :: string
  pr_run_id :: string
  pr_test_id :: string
  pr_passed :: bool
  pr_probed_at :: nat

record node_db =
  nd_nodes :: "node_row list"
  nd_events :: "EventRow list"
  nd_last_seq :: i64
  nd_last_signature :: "string option"
  nd_probes :: "probe_row list"

text \<open>What an operation takes from the process: its crypto library, signing key, fresh identifiers and clock.\<close>

record process_env =
  pe_crypto :: crypto
  pe_signing_key :: "string option"
  pe_uuid :: string
  pe_now_ms :: i64

definition find_node :: "sql_env \<Rightarrow> node_db \<Rightarrow> string \<Rightarrow> node_row option" where
  "find_node E D i = find (\<lambda>n. sq_eq E (nr_id n) i) (nd_nodes D)"

definition update_row :: "sql_env \<Rightarrow> string \<Rightarrow> (node_row \<Rightarrow> node_row) \<Rightarrow> node_db \<Rightarrow> node_db" where
  "update_row E i f D = D\<lparr>nd_nodes := update_first (\<lambda>n. sq_eq E (nr_id n) i) f (nd_nodes D)\<rparr>"

text \<open>\<open>column < NOW() - INTERVAL s SECOND\<close>, false for a NULL column.\<close>

definition before_now :: "sql_env \<Rightarrow> nat \<Rightarrow> nat option \<Rightarrow> bool" where
  "before_now E s t \<longleftrightarrow> (case t of None \<Rightarrow> False | Some x \<Rightarrow> int x < int (sq_now E) - int s)"

section \<open>The signed event log\<close>

definition unique_event :: "sql_env \<Rightarrow> EventRow \<Rightarrow> EventRow list \<Rightarrow> bool" where
  "unique_event E e rows \<longleftrightarrow> \<not> list_ex (\<lambda>r. e_seq r = e_seq e \<or> sq_eq E (e_event_id r) (e_event_id e)) rows"

text \<open>The three statements from number \<open>k\<close>: lock the head, insert the row, move the head.\<close>

definition append_signed_event_in_tx ::
  "sql_env \<Rightarrow> process_env \<Rightarrow> nat \<Rightarrow> string \<Rightarrow> string \<Rightarrow> string \<Rightarrow> json \<Rightarrow> node_db \<Rightarrow> sqlx_error + i64 \<times> node_db" where
  "append_signed_event_in_tx E X k secret_key_hex event_type node_id payload D =
     statement E id k
       (let seq = nd_last_seq D + 1;
            prev_hash = prev_hash_from (pe_crypto X) (nd_last_signature D)
        in case sign_event (pe_crypto X) secret_key_hex (pe_uuid X) event_type seq (pe_now_ms X) payload prev_hash of
             None \<Rightarrow> Inl OtherError
           | Some signature \<Rightarrow>
               (let e = \<lparr>e_seq = seq, e_event_id = pe_uuid X, e_event_type = event_type, e_node_id = node_id, e_ts_ms = pe_now_ms X,
                         e_payload = payload, e_prev_hash = Some prev_hash, e_sig = Some signature\<rparr>
                in statement E id (k + 1)
                     (if \<not> unique_event E e (nd_events D) then Inl (MySqlError 1062)
                      else statement E id (k + 2)
                        (Inr (seq, D\<lparr>nd_events := nd_events D @ [e], nd_last_seq := seq, nd_last_signature := Some signature\<rparr>)))))"

text \<open>A transaction that cannot start is not tried again, whatever the error.\<close>

datatype append_error = NotStarted | NotAppended sqlx_error

fun transient_append :: "append_error \<Rightarrow> bool" where
  "transient_append NotStarted \<longleftrightarrow> False"
| "transient_append (NotAppended e) \<longleftrightarrow> is_transient_transaction_error e"

definition append_attempt ::
  "sql_env \<Rightarrow> process_env \<Rightarrow> (nat \<Rightarrow> nat \<Rightarrow> sqlx_error option) \<Rightarrow> string \<Rightarrow> string \<Rightarrow> string \<Rightarrow> json \<Rightarrow> nat \<Rightarrow> node_db
   \<Rightarrow> (append_error + i64) \<times> node_db" where
  "append_attempt E X fails secret_key_hex event_type node_id payload n D =
     (let E' = E\<lparr>sq_fails := fails n\<rparr>
      in transaction D
           (if sq_fails E' 0 \<noteq> None then Inl NotStarted
            else (case append_signed_event_in_tx E' X 1 secret_key_hex event_type node_id payload D of
                    Inl e \<Rightarrow> Inl (NotAppended e)
                  | Inr r \<Rightarrow> statement E' NotAppended 4 (Inr r))))"

definition mysql_append_signed_event ::
  "sql_env \<Rightarrow> process_env \<Rightarrow> (nat \<Rightarrow> nat \<Rightarrow> sqlx_error option) \<Rightarrow> string \<Rightarrow> string \<Rightarrow> string \<Rightarrow> json \<Rightarrow> node_db
   \<Rightarrow> i64 option \<times> node_db" where
  "mysql_append_signed_event E X fails secret_key_hex event_type node_id payload D =
     (case retry (append_attempt E X fails secret_key_hex event_type node_id payload) transient_append 2 0 D of
        (Inr seq, D1) \<Rightarrow> (Some seq, D1)
      | (Inl e, D1) \<Rightarrow> (None, D1))"

definition mysql_log_event ::
  "sql_env \<Rightarrow> process_env \<Rightarrow> (nat \<Rightarrow> nat \<Rightarrow> sqlx_error option) \<Rightarrow> string \<Rightarrow> string \<Rightarrow> json option \<Rightarrow> node_db \<Rightarrow> node_db" where
  "mysql_log_event E X fails node_id event_type payload D =
     (case pe_signing_key X of
        None \<Rightarrow> D
      | Some key \<Rightarrow>
          snd (mysql_append_signed_event E X fails key event_type node_id
                 (unwrap_or (JObj [(''reason'', JStr ''invalid_internal_event_payload'')]) payload) D))"

definition mysql_events_since :: "sql_env \<Rightarrow> node_db \<Rightarrow> i64 \<Rightarrow> u32 \<Rightarrow> EventRow list" where
  "mysql_events_since E D since_seq limit =
     (if sq_fails E 0 \<noteq> None then []
      else take (unat limit) (sort_key e_seq (filter (\<lambda>e. e_seq e > since_seq) (nd_events D))))"

section \<open>Heartbeats\<close>

definition MAX_HOURLY_GAIN :: f64 where
  "MAX_HOURLY_GAIN = round64 (20 / 100)"

text \<open>The part of a gain that the hourly budget admits, the budget used afterwards and whether a new window opens.\<close>

definition capped_delta :: "process_env \<Rightarrow> f64 \<Rightarrow> nat option \<Rightarrow> f64 \<Rightarrow> f64 \<times> f64 \<times> bool" where
  "capped_delta X hourly_gain window_start delta =
     (if delta > 0 then
        (let window_expired = (case window_start of None \<Rightarrow> True | Some ws \<Rightarrow> pe_now_ms X div 1000 - int ws \<ge> 3600);
             current_gain = (if window_expired then 0 else hourly_gain);
             capped = min delta (max (fsub MAX_HOURLY_GAIN current_gain) 0)
         in (capped, fadd current_gain capped, window_expired \<or> window_start = None))
      else (delta, hourly_gain, False))"

definition heartbeat_row :: "sql_env \<Rightarrow> process_env \<Rightarrow> HeartbeatInput \<Rightarrow> node_row \<Rightarrow> HeartbeatOutcome \<times> node_row" where
  "heartbeat_row E X hb n =
     (let metrics_applied = (case hb_metrics_batch_id hb of None \<Rightarrow> True | Some b \<Rightarrow> nr_last_metrics_batch_id n \<noteq> Some b);
          tasks_delta = (if metrics_applied then hb_tasks_delta hb else 0);
          tasks_failed_delta = (if metrics_applied then hb_tasks_failed_delta hb else 0);
          delta = (if metrics_applied then hb_delta hb else 0);
          (effective_delta, new_hourly_gain, reset_window) =
            capped_delta X (sql_double (nr_rep_hourly_gain n)) (nr_rep_hourly_window_start n) delta;
          new_score = apply_delta (nr_reputation_score n) effective_delta
      in (\<lparr>h_score = new_score, h_metrics_applied = metrics_applied, h_reputation_model = nr_reputation_model n,
           h_reputation_epoch = nr_reputation_epoch n\<rparr>,
          n\<lparr>nr_load := round32 (hb_load hb), nr_available := hb_available hb, nr_active_jobs := hb_active_jobs hb,
            nr_reputation_score := round32 new_score, nr_tasks_total := nr_tasks_total n + unat tasks_delta,
            nr_tasks_failed := nr_tasks_failed n + unat tasks_failed_delta,
            nr_rep_hourly_gain := sq_decimal E (round32 new_hourly_gain),
            nr_rep_hourly_window_start := (if reset_window then Some (sq_now E) else nr_rep_hourly_window_start n),
            nr_health_models := (case hb_health_models hb of None \<Rightarrow> nr_health_models n | Some ms \<Rightarrow> Some ms),
            nr_last_metrics_batch_id :=
              (case hb_metrics_batch_id hb of None \<Rightarrow> nr_last_metrics_batch_id n | Some b \<Rightarrow> Some b),
            nr_status := ''active'', nr_dormant_since := None, nr_last_seen := Some (sq_now E)\<rparr>))"

definition reactivation_payload :: "process_env \<Rightarrow> nat option \<Rightarrow> json" where
  "reactivation_payload X dormant_since =
     JObj [(''dormant_since_ms'', case dormant_since of None \<Rightarrow> JNull | Some t \<Rightarrow> JInt (int t * 1000)),
           (''dormancy_duration_seconds'',
              case dormant_since of None \<Rightarrow> JNull | Some t \<Rightarrow> JInt (max (pe_now_ms X div 1000 - int t) 0))]"

definition heartbeat_once ::
  "sql_env \<Rightarrow> process_env \<Rightarrow> string \<Rightarrow> HeartbeatInput \<Rightarrow> node_db \<Rightarrow> (sqlx_error + HeartbeatOutcome option) \<times> node_db" where
  "heartbeat_once E X node_id hb D =
     transaction D
       (statement E id 0 (statement E id 1
         (case find_node E D node_id of
            None \<Rightarrow> Inr (None, D)
          | Some row \<Rightarrow>
              statement E id 2
                (let D1 = update_row E node_id (snd \<circ> heartbeat_row E X hb) D;
                     recorded =
                       (if nr_status row = ''dormant'' then
                          (case pe_signing_key X of
                             None \<Rightarrow> Inr D1
                           | Some key \<Rightarrow>
                               map_sum id snd (append_signed_event_in_tx E X 3 key ''REACTIVATE'' node_id
                                 (reactivation_payload X (nr_dormant_since row)) D1))
                        else Inr D1)
                 in case recorded of
                      Inl e \<Rightarrow> Inl e
                    | Inr D2 \<Rightarrow> statement E id 6 (Inr (Some (fst (heartbeat_row E X hb row)), D2))))))"

definition heartbeat_attempt ::
  "sql_env \<Rightarrow> process_env \<Rightarrow> (nat \<Rightarrow> nat \<Rightarrow> sqlx_error option) \<Rightarrow> string \<Rightarrow> HeartbeatInput \<Rightarrow> nat \<Rightarrow> node_db
   \<Rightarrow> (sqlx_error + HeartbeatOutcome option) \<times> node_db" where
  "heartbeat_attempt E X fails node_id hb n = heartbeat_once (E\<lparr>sq_fails := fails n\<rparr>) X node_id hb"

definition mysql_heartbeat ::
  "sql_env \<Rightarrow> process_env \<Rightarrow> (nat \<Rightarrow> nat \<Rightarrow> sqlx_error option) \<Rightarrow> string \<Rightarrow> HeartbeatInput \<Rightarrow> node_db
   \<Rightarrow> HeartbeatOutcome option \<times> node_db" where
  "mysql_heartbeat E X fails node_id hb D =
     (case retry (heartbeat_attempt E X fails node_id hb) is_transient_transaction_error 2 0 D of
        (Inr outcome, D1) \<Rightarrow> (outcome, D1)
      | (Inl e, D1) \<Rightarrow> (None, D1))"

section \<open>Dormancy and archiving\<close>

text \<open>\<open>expire_stale\<close> is two statements outside a transaction: others may come between them.\<close>

definition stale_ids :: "sql_env \<Rightarrow> node_db \<Rightarrow> string list" where
  "stale_ids E D =
     (if sq_fails E 0 \<noteq> None then []
      else map nr_id (filter (\<lambda>n. sq_eq E (nr_status n) ''active'' \<and> before_now E 90 (nr_last_seen n)) (nd_nodes D)))"

definition mark_dormant :: "sql_env \<Rightarrow> string list \<Rightarrow> node_db \<Rightarrow> node_db" where
  "mark_dormant E ids D =
     (if ids = [] \<or> sq_fails E 1 \<noteq> None then D
      else D\<lparr>nd_nodes := map (\<lambda>n. if list_ex (sq_eq E (nr_id n)) ids
               then n\<lparr>nr_available := False, nr_status := ''dormant'', nr_dormant_since := Some (sq_now E)\<rparr> else n) (nd_nodes D)\<rparr>)"

definition mysql_expire_stale :: "sql_env \<Rightarrow> node_db \<Rightarrow> string list \<times> node_db" where
  "mysql_expire_stale E D = (stale_ids E D, mark_dormant E (stale_ids E D) D)"

definition archivable :: "sql_env \<Rightarrow> nat \<Rightarrow> node_row \<Rightarrow> bool" where
  "archivable E days n \<longleftrightarrow> sq_eq E (nr_status n) ''dormant'' \<and> before_now E (days * 86400) (nr_dormant_since n)"

definition mysql_archive_dormant :: "sql_env \<Rightarrow> nat \<Rightarrow> node_db \<Rightarrow> u32 \<times> node_db" where
  "mysql_archive_dormant E days D =
     (if sq_fails E 0 \<noteq> None then (0, D)
      else (of_nat (length (filter (archivable E days) (nd_nodes D))),
            D\<lparr>nd_nodes := map (\<lambda>n. if archivable E days n then n\<lparr>nr_status := ''archived''\<rparr> else n) (nd_nodes D)\<rparr>))"

definition mysql_rotate_reputation_windows :: "sql_env \<Rightarrow> node_db \<Rightarrow> u32 \<times> node_db" where
  "mysql_rotate_reputation_windows E D =
     (if sq_fails E 0 \<noteq> None then (0, D)
      else (let old = (\<lambda>n. before_now E (90 * 86400) (nr_recent_window_start n))
            in (of_nat (length (filter old (nd_nodes D))),
                D\<lparr>nd_nodes := map (\<lambda>n. if old n then n\<lparr>nr_tasks_total_recent := 0, nr_tasks_failed_recent := 0,
                     nr_avg_latency_ms_recent := 0, nr_recent_window_start := Some (sq_now E)\<rparr> else n) (nd_nodes D)\<rparr>)))"

definition mysql_prune_heartbeat_events :: "sql_env \<Rightarrow> nat \<Rightarrow> node_db \<Rightarrow> u32 \<times> node_db" where
  "mysql_prune_heartbeat_events E retain_days D =
     (if sq_fails E 0 \<noteq> None then (0, D)
      else (let old = (\<lambda>e. sq_eq E (e_event_type e) ''HEARTBEAT''
                         \<and> e_ts_ms e < (int (sq_now E) - int retain_days * 86400) * 1000)
            in (of_nat (length (filter old (nd_events D))), D\<lparr>nd_events := filter (\<lambda>e. \<not> old e) (nd_events D)\<rparr>)))"

definition mysql_deregister :: "sql_env \<Rightarrow> string \<Rightarrow> node_db \<Rightarrow> bool \<times> node_db" where
  "mysql_deregister E node_id D =
     (if sq_fails E 0 \<noteq> None then (False, D)
      else (find_node E D node_id \<noteq> None, D\<lparr>nd_nodes := filter (\<lambda>n. \<not> sq_eq E (nr_id n) node_id) (nd_nodes D)\<rparr>))"

section \<open>Liveness challenges\<close>

definition mysql_verify_and_rotate_liveness_challenge ::
  "sql_env \<Rightarrow> crypto \<Rightarrow> (string \<Rightarrow> string \<Rightarrow> string \<Rightarrow> bool) \<Rightarrow> string \<Rightarrow> string option \<Rightarrow> string \<Rightarrow> node_db \<Rightarrow> bool option \<times> node_db" where
  "mysql_verify_and_rotate_liveness_challenge E C hmac_verify node_id response next_challenge D =
     (if list_ex (\<lambda>k. sq_fails E k \<noteq> None) [0, 1] then (None, D)
      else (case find_node E D node_id of
              None \<Rightarrow> (None, D)
            | Some n \<Rightarrow>
                (let verified = (case (nr_liveness_challenge n, nr_node_hmac_key n, response) of
                        (Some challenge, Some key, Some candidate) \<Rightarrow> verify_liveness_response C hmac_verify key challenge candidate
                      | _ \<Rightarrow> False)
                 in if list_ex (\<lambda>k. sq_fails E k \<noteq> None) [2, 3] then (None, D)
                    else (Some verified, update_row E node_id (\<lambda>n. n\<lparr>nr_liveness_challenge := Some next_challenge,
                            nr_liveness_verified_at := (if verified then Some (sq_now E) else nr_liveness_verified_at n)\<rparr>) D))))"

section \<open>Probes of the directory\<close>

definition get_probeable_nodes :: "sql_env \<Rightarrow> nat \<Rightarrow> node_db \<Rightarrow> (string \<times> string) list" where
  "get_probeable_nodes E limit D =
     (if sq_fails E 0 \<noteq> None then []
      else take limit (map (\<lambda>n. (nr_id n, nr_endpoint n))
             (sort_key (\<lambda>n. - int (unwrap_or 0 (nr_last_seen n)))
                (filter (\<lambda>n. nr_available n \<and> nr_last_seen n \<noteq> None) (nd_nodes D)))))"

definition record_probe_result :: "sql_env \<Rightarrow> process_env \<Rightarrow> string \<Rightarrow> bool \<Rightarrow> string \<Rightarrow> node_db \<Rightarrow> node_db" where
  "record_probe_result E X node_id passed test_id D =
     (if sq_fails E 0 \<noteq> None then D
      else D\<lparr>nd_probes := nd_probes D @
        [\<lparr>pr_node_id = node_id, pr_run_id = ''dir-probe-'' @ take 8 (pe_uuid X), pr_test_id = test_id, pr_passed = passed,
          pr_probed_at = sq_now E\<rparr>]\<rparr>)"

datatype ProbeRouteTransition = Unchanged | Demoted | Restored

definition route_transition :: "bool \<Rightarrow> node_row \<Rightarrow> ProbeRouteTransition" where
  "route_transition passed n =
     (if passed \<and> (\<not> nr_public_reachable n \<or> nr_endpoint_verified_dead_at n \<noteq> None) then Restored
      else if \<not> passed \<and> nr_public_reachable n then Demoted
      else Unchanged)"

definition route_update :: "sql_env \<Rightarrow> ProbeRouteTransition \<Rightarrow> string \<Rightarrow> node_db \<Rightarrow> node_db" where
  "route_update E t node_id D =
     (case t of
        Restored \<Rightarrow> update_row E node_id (\<lambda>n. n\<lparr>nr_public_reachable := True, nr_endpoint_verified_dead_at := None\<rparr>) D
      | Demoted \<Rightarrow> update_row E node_id
          (\<lambda>n. if nr_public_reachable n then n\<lparr>nr_public_reachable := False, nr_endpoint_verified_dead_at := Some (sq_now E)\<rparr> else n) D
      | Unchanged \<Rightarrow> D)"

definition route_evidence :: "ProbeRouteTransition \<Rightarrow> node_row \<Rightarrow> string \<times> json" where
  "route_evidence t n =
     (case t of
        Restored \<Rightarrow>
          (''REACHABILITY_RESTORE'',
           JObj [(''from'', JBool (nr_public_reachable n)), (''to'', JBool True), (''reason'', JStr ''probe_success''),
                 (''probe_source'', JStr ''directory_active_probe''),
                 (''endpoint_verified_dead_at_cleared'', JBool (nr_endpoint_verified_dead_at n \<noteq> None))])
      | _ \<Rightarrow>
          (''REACHABILITY_DEMOTE'',
           JObj [(''from'', JBool True), (''to'', JBool False), (''reason'', JStr ''confirmed_probe_failure''),
                 (''probe_source'', JStr ''directory_active_probe''), (''endpoint_verified_dead_at_set'', JBool True)]))"

definition apply_probe_route_state ::
  "sql_env \<Rightarrow> process_env \<Rightarrow> string \<Rightarrow> bool \<Rightarrow> node_db \<Rightarrow> ProbeRouteTransition \<times> node_db" where
  "apply_probe_route_state E X node_id passed D =
     (if list_ex (\<lambda>k. sq_fails E k \<noteq> None) [0, 1] then (Unchanged, D)
      else (case find_node E D node_id of
              None \<Rightarrow> (Unchanged, D)
            | Some n \<Rightarrow>
                (let t = route_transition passed n
                 in if t = Unchanged \<or> sq_fails E 2 \<noteq> None then (Unchanged, D)
                    else (case pe_signing_key X of
                            None \<Rightarrow> (Unchanged, D)
                          | Some key \<Rightarrow>
                              (case append_signed_event_in_tx E X 3 key (fst (route_evidence t n)) node_id (snd (route_evidence t n))
                                      (route_update E t node_id D) of
                                 Inl e \<Rightarrow> (Unchanged, D)
                               | Inr (seq, D1) \<Rightarrow> if sq_fails E 6 \<noteq> None then (Unchanged, D) else (t, D1))))))"

section \<open>Audit reports\<close>

definition reporter_eligible :: "sql_env \<Rightarrow> process_env \<Rightarrow> node_db \<Rightarrow> string \<Rightarrow> bool" where
  "reporter_eligible E X D reporter =
     (case (if sq_fails E 0 \<noteq> None then None else find_node E D reporter) of
        None \<Rightarrow> False
      | Some n \<Rightarrow>
          round32 (nr_reputation_score n) \<ge> round64 (55 / 100)
          \<and> (case nr_created_at n of None \<Rightarrow> False | Some c \<Rightarrow> (pe_now_ms X div 1000 - int c) div 86400 \<ge> 3))"

definition score_of :: "sql_env \<Rightarrow> nat \<Rightarrow> node_db \<Rightarrow> string \<Rightarrow> f64 option" where
  "score_of E k D i = (if sq_fails E k \<noteq> None then None else map_option (\<lambda>n. round32 (nr_reputation_score n)) (find_node E D i))"

definition audit_reporters :: "sql_env \<Rightarrow> node_db \<Rightarrow> string \<Rightarrow> string list" where
  "audit_reporters E D target =
     remdups (List.map_filter (\<lambda>e. case json_get (e_payload e) ''reporter_node_id'' of Some (JStr r) \<Rightarrow> Some r | _ \<Rightarrow> None)
       (filter (\<lambda>e. sq_eq E (e_node_id e) target \<and> sq_eq E (e_event_type e) ''AUDIT_REPORT''
                  \<and> e_ts_ms e \<ge> (int (sq_now E) - 86400) * 1000) (nd_events D)))"

definition audit_event :: "sql_env \<Rightarrow> process_env \<Rightarrow> string \<Rightarrow> string \<Rightarrow> EventRow" where
  "audit_event E X target reporter =
     \<lparr>e_seq = 0, e_event_id = pe_uuid X, e_event_type = ''AUDIT_REPORT'', e_node_id = target, e_ts_ms = int (sq_now E) * 1000,
      e_payload = JObj [(''reporter_node_id'', JStr reporter)], e_prev_hash = None, e_sig = None\<rparr>"

definition mysql_apply_audit_report ::
  "sql_env \<Rightarrow> process_env \<Rightarrow> string \<Rightarrow> string \<Rightarrow> node_db \<Rightarrow> AuditResult \<times> node_db" where
  "mysql_apply_audit_report E X target reporter D =
     (if \<not> reporter_eligible E X D reporter then
        (\<lparr>a_applied = False, a_new_score = unwrap_or 0 (score_of E 1 D target), a_reason = ''reporter_ineligible''\<rparr>, D)
      else if (if sq_fails E 2 \<noteq> None then 0 else length (audit_reporters E D target)) \<ge> 2 then
        (\<lparr>a_applied = False, a_new_score = unwrap_or 0 (score_of E 3 D target), a_reason = ''reporter_cap_reached''\<rparr>, D)
      else (case score_of E 4 D target of
              None \<Rightarrow> (\<lparr>a_applied = False, a_new_score = 0, a_reason = ''target_not_found''\<rparr>, D)
            | Some s \<Rightarrow>
                (\<lparr>a_applied = True, a_new_score = s, a_reason = ''integrity_evidence_accepted''\<rparr>,
                 if sq_fails E 5 \<noteq> None \<or> \<not> unique_event E (audit_event E X target reporter) (nd_events D) then D
                 else D\<lparr>nd_events := nd_events D @ [audit_event E X target reporter]\<rparr>)))"

end
