(* ===== verification/Node_Runs.thy ===== *)
theory Node_Runs
  imports Node_Table
begin

text \<open>
  What the node table and the event log of the database promise: the log refines the in-memory one under
  every failure and retry, a probe of the directory moves the route state exactly when it has
  something to record, and the table keeps its shape in every run. Two theorems state how the code
  departs from its intent: audit reports are never capped, and the expiry pass overtakes
  heartbeats.
\<close>

section \<open>The log refines the in-memory log\<close>

text \<open>The signed rows are those with a positive sequence number; the head is where they end.\<close>

definition signed_rows :: "node_db \<Rightarrow> EventRow list" where
  "signed_rows D = filter (\<lambda>e. e_seq e > 0) (nd_events D)"

definition headed :: "node_db \<Rightarrow> bool" where
  "headed D \<longleftrightarrow> nd_last_seq D = int (length (signed_rows D)) \<and> nd_last_signature D = last_sig (signed_rows D)
     \<and> map e_seq (signed_rows D) = map (\<lambda>k. int k + 1) [0..<length (signed_rows D)]"

text \<open>The abstraction: the in-memory repository with the same log.\<close>

definition logs :: "node_db \<Rightarrow> InMemoryRepo \<Rightarrow> bool" where
  "logs D M \<longleftrightarrow> headed D \<and> signed_rows D = m_events M"

lemma append_in_tx_refines:
  assumes "append_signed_event_in_tx E X k sk event_type node_id payload D = Inr (seq, D')" "logs D M"
  shows "append_signed_event (pe_crypto X) (pe_uuid X) (pe_now_ms X) sk event_type node_id payload M
      = (Some seq, M\<lparr>m_events := signed_rows D'\<rparr>)"
    and "headed D'" and "nd_nodes D' = nd_nodes D" and "nd_probes D' = nd_probes D"
proof -
  have h: "nd_last_seq D = int (length (m_events M))" "nd_last_signature D = last_sig (m_events M)" "signed_rows D = m_events M"
    "map e_seq (m_events M) = map (\<lambda>k. int k + 1) [0..<length (m_events M)]"
    using assms(2) unfolding logs_def headed_def by metis+
  let ?p = "prev_hash_from (pe_crypto X) (nd_last_signature D)" and ?q = "nd_last_seq D + 1"
  obtain sg where sg: "sign_event (pe_crypto X) sk (pe_uuid X) event_type ?q (pe_now_ms X) payload ?p = Some sg"
    using assms(1) by (auto simp: append_signed_event_in_tx_def statement_Inr Let_def split: option.splits)
  define e where "e = \<lparr>e_seq = ?q, e_event_id = pe_uuid X, e_event_type = event_type, e_node_id = node_id, e_ts_ms = pe_now_ms X,
      e_payload = payload, e_prev_hash = Some ?p, e_sig = Some sg\<rparr>"
  have e: "D' = D\<lparr>nd_events := nd_events D @ [e], nd_last_seq := seq, nd_last_signature := e_sig e\<rparr>" "e_seq e = seq"
      "seq = nd_last_seq D + 1"
    using assms(1) by (auto simp: append_signed_event_in_tx_def statement_Inr Let_def sg e_def split: if_splits)
  have "append_signed_event (pe_crypto X) (pe_uuid X) (pe_now_ms X) sk event_type node_id payload M
      = (Some seq, M\<lparr>m_events := m_events M @ [e]\<rparr>)"
    using sg by (simp add: append_signed_event_def Let_def e_def e(3) h(1,2))
  note e = e this
  have rows: "signed_rows D' = m_events M @ [e]" using h(1,3) e(1-3) by (simp add: signed_rows_def)
  show "append_signed_event (pe_crypto X) (pe_uuid X) (pe_now_ms X) sk event_type node_id payload M
      = (Some seq, M\<lparr>m_events := signed_rows D'\<rparr>)" using e(4) rows by simp
  show "headed D'" unfolding headed_def rows using e(1-3) h(1,4) by (simp add: last_sig_def)
  show "nd_nodes D' = nd_nodes D" "nd_probes D' = nd_probes D" using e(1) by simp_all
qed

interpretation appends: attempt "append_attempt E X fails sk event_type node_id payload" transient_append
  for E X fails sk event_type node_id payload
  by unfold_locales (auto simp: append_attempt_def Let_def dest: transaction_failed)

interpretation heartbeats: attempt "heartbeat_attempt E X fails node_id hb" is_transient_transaction_error for E X fails node_id hb
  by unfold_locales (auto simp: heartbeat_attempt_def heartbeat_once_def dest: transaction_failed)

text \<open>
  The persistent log implements the in-memory one: an append that returns a sequence number did exactly
  what the in-memory append does, once, however many attempts it took, and an append that returns
  none changed nothing.
\<close>

lemma append_refines:
  assumes "logs D M"
  shows "(case mysql_append_signed_event E X fails sk event_type node_id payload D of
            (Some seq, D') \<Rightarrow> \<exists>M'. append_signed_event (pe_crypto X) (pe_uuid X) (pe_now_ms X) sk event_type node_id payload M = (Some seq, M')
               \<and> logs D' M' \<and> nd_nodes D' = nd_nodes D
          | (None, D') \<Rightarrow> D' = D)"
proof -
  let ?once = "append_attempt E X fails sk event_type node_id payload"
  obtain j where j: "retry ?once transient_append 2 0 D = ?once j D" using appends.retry_once by blast
  show ?thesis
  proof (cases "fst (?once j D)")
    case (Inl e)
    then have "?once j D = (Inl e, D)" using appends.failed [OF Inl] by (metis prod.collapse)
    then show ?thesis unfolding mysql_append_signed_event_def j by simp
  next
    case (Inr seq)
    then obtain D' where t: "append_signed_event_in_tx (E\<lparr>sq_fails := fails j\<rparr>) X 1 sk event_type node_id payload D = Inr (seq, D')"
        "?once j D = (Inr seq, D')"
      by (auto simp: append_attempt_def Let_def transaction_def statement_Inr split: sum.splits if_splits)
    note r = append_in_tx_refines [OF t(1) assms]
    show ?thesis unfolding mysql_append_signed_event_def j t(2) using r by (simp add: logs_def)
  qed
qed

text \<open>One append as the seed's handlers make it, with what may fail in it.\<close>

record append_call =
  pc_env :: process_env
  pc_fails :: "nat \<Rightarrow> nat \<Rightarrow> sqlx_error option"
  pc_type :: string
  pc_node :: string
  pc_payload :: json

definition append_step :: "sql_env \<Rightarrow> string \<Rightarrow> append_call \<Rightarrow> node_db \<Rightarrow> i64 option \<times> node_db" where
  "append_step E sk c D = mysql_append_signed_event E (pc_env c) (pc_fails c) sk (pc_type c) (pc_node c) (pc_payload c) D"

text \<open>The calls of a sequence that returned a number, and the sequence in memory.\<close>

fun acknowledged :: "sql_env \<Rightarrow> string \<Rightarrow> append_call list \<Rightarrow> node_db \<Rightarrow> append_call list" where
  "acknowledged E sk [] D = []"
| "acknowledged E sk (c # cs) D =
     (case append_step E sk c D of
        (Some seq, D') \<Rightarrow> c # acknowledged E sk cs D'
      | (None, D') \<Rightarrow> acknowledged E sk cs D')"

definition memory_append :: "string \<Rightarrow> append_call \<Rightarrow> InMemoryRepo \<Rightarrow> InMemoryRepo" where
  "memory_append sk c M =
     snd (append_signed_event (pe_crypto (pc_env c)) (pe_uuid (pc_env c)) (pe_now_ms (pc_env c)) sk (pc_type c) (pc_node c) (pc_payload c) M)"

lemma appends_refine:
  "logs D M \<Longrightarrow> logs (fold (\<lambda>c D. snd (append_step E sk c D)) cs D) (fold (memory_append sk) (acknowledged E sk cs D) M)"
proof (induction cs arbitrary: D M)
  case (Cons c cs)
  show ?case
  proof (cases "append_step E sk c D")
    case (Pair r D')
    note a = append_refines [OF Cons.prems, where E = E and X = "pc_env c" and fails = "pc_fails c" and sk = sk and event_type = "pc_type c" and node_id = "pc_node c"
          and payload = "pc_payload c", folded append_step_def]
    show ?thesis
    proof (cases r)
      case None
      then have "D' = D" using a Pair by simp
      then show ?thesis using Cons.IH [OF Cons.prems] Pair None by simp
    next
      case (Some seq)
      then obtain M' where "memory_append sk c M = M'" "logs D' M'" using a Pair by (auto simp: memory_append_def)
      then show ?thesis using Cons.IH [of D' M'] Pair Some by simp
    qed
  qed
qed simp

lemma sorted_signed_rows: "headed D \<Longrightarrow> sorted (map e_seq (signed_rows D))"
  unfolding headed_def by (auto simp: sorted_map sorted_iff_nth_mono)

lemma events_since_tail:
  assumes "logs D M" "sq_fails E 0 = None" "0 \<le> k"
  shows "mysql_events_since E D k limit = events_since M k limit"
proof -
  have "sorted (map e_seq (filter (\<lambda>e. e_seq e > k) (signed_rows D)))"
    using sorted_signed_rows [of D] assms(1) by (auto simp: logs_def sorted_filter)
  then have "sort_key e_seq (filter (\<lambda>e. e_seq e > k) (signed_rows D)) = filter (\<lambda>e. e_seq e > k) (signed_rows D)"
    by (simp add: sort_key_id_if_sorted)
  moreover have "filter (\<lambda>e. e_seq e > k) (signed_rows D) = filter (\<lambda>e. e_seq e > k) (nd_events D)"
    using assms(3) by (auto simp: signed_rows_def intro: filter_cong)
  ultimately show ?thesis using assms(1,2) by (simp add: mysql_events_since_def events_since_def logs_def)
qed


section \<open>Audit reports are never capped\<close>

definition audit_rows_unnumbered :: "sql_env \<Rightarrow> node_db \<Rightarrow> bool" where
  "audit_rows_unnumbered E D \<longleftrightarrow>
     distinct (map e_seq (nd_events D)) \<and> (\<forall>e \<in> set (nd_events D). sq_eq E (e_event_type e) ''AUDIT_REPORT'' \<longrightarrow> e_seq e = 0)"

lemma distinct_key_single:
  assumes "distinct (map f xs)" "\<forall>x \<in> set xs. p x \<longrightarrow> f x = c"
  shows "length (filter p xs) \<le> 1"
  using assms
proof (induction xs)
  case (Cons x xs)
  then show ?case by (cases "p x") (auto simp: filter_empty_conv image_iff)
qed simp

lemma filter_conj_le: "length (filter (\<lambda>x. p x \<and> q x \<and> r x) xs) \<le> length (filter q xs)"
  by (induction xs) auto

lemma length_map_filter_le: "length (List.map_filter f xs) \<le> length xs"
  by (induction xs) (auto simp: List.map_filter_simps split: option.split)

lemma audit_reporters_single:
  assumes "audit_rows_unnumbered E D"
  shows "length (audit_reporters E D target) \<le> 1"
proof -
  let ?p = "\<lambda>e. sq_eq E (e_event_type e) ''AUDIT_REPORT''"
  have "length (filter (\<lambda>e. sq_eq E (e_node_id e) target \<and> ?p e \<and> e_ts_ms e \<ge> (int (sq_now E) - 86400) * 1000) (nd_events D))
      \<le> length (filter ?p (nd_events D))" by (rule filter_conj_le)
  also have "\<dots> \<le> 1" using assms distinct_key_single [of e_seq "nd_events D" ?p 0] by (simp add: audit_rows_unnumbered_def)
  finally show ?thesis unfolding audit_reporters_def
    by (rule le_trans [OF le_trans [OF length_remdups_leq length_map_filter_le]])
qed

lemma audit_keeps:
  assumes "audit_rows_unnumbered E D"
  shows "audit_rows_unnumbered E (snd (mysql_apply_audit_report E X target reporter D))"
proof -
  let ?e = "audit_event E X target reporter"
  have "snd (mysql_apply_audit_report E X target reporter D) = D
      \<or> unique_event E ?e (nd_events D) \<and> snd (mysql_apply_audit_report E X target reporter D) = D\<lparr>nd_events := nd_events D @ [?e]\<rparr>"
    unfolding mysql_apply_audit_report_def by (auto split: option.split)
  moreover have "audit_rows_unnumbered E (D\<lparr>nd_events := nd_events D @ [?e]\<rparr>)" if "unique_event E ?e (nd_events D)"
  proof -
    have "e_seq ?e = 0" by (simp add: audit_event_def)
    moreover have "e_seq ?e \<notin> e_seq ` set (nd_events D)" using that by (auto simp: unique_event_def list_ex_iff)
    ultimately show ?thesis using assms by (simp add: audit_rows_unnumbered_def)
  qed
  ultimately show ?thesis using assms by metis
qed

lemma audit_env [simp]:
  "audit_rows_unnumbered (E\<lparr>sq_now := t, sq_fails := f\<rparr>) = audit_rows_unnumbered E"
  by (simp add: audit_rows_unnumbered_def fun_eq_iff sq_eq_def)

text \<open>One report: when, which statements fail, the process, the target and the reporter.\<close>

definition audit_step :: "sql_env \<Rightarrow> nat \<times> (nat \<Rightarrow> sqlx_error option) \<times> process_env \<times> string \<times> string \<Rightarrow> node_db \<Rightarrow> AuditResult \<times> node_db" where
  "audit_step E = (\<lambda>(now, fails, X, target, reporter). mysql_apply_audit_report (E\<lparr>sq_now := now, sq_fails := fails\<rparr>) X target reporter)"

text \<open>
  The cap on audit reports, at most two reporters per target and day, is never reached. Every report is
  stored under sequence number 0, which the table requires to be unique, so after any number of
  reports by any number of reporters at most one is on record, and no report is ever refused for
  the cap.
\<close>

theorem audit_cap_never_reached:
  assumes "audit_rows_unnumbered E D"
  shows "a_reason (fst (audit_step E call (fold (\<lambda>c D. snd (audit_step E c D)) calls D))) \<noteq> ''reporter_cap_reached''"
proof -
  have keep: "audit_rows_unnumbered E (fold (\<lambda>c D. snd (audit_step E c D)) cs D)" if "audit_rows_unnumbered E D" for cs D
    using that
  proof (induction cs arbitrary: D)
    case (Cons c cs)
    then show ?case using audit_keeps [of "E\<lparr>sq_now := fst c, sq_fails := fst (snd c)\<rparr>"] by (simp add: audit_step_def case_prod_beta)
  qed simp
  have "a_reason (fst (mysql_apply_audit_report E' X target reporter D')) \<noteq> ''reporter_cap_reached''"
    if "audit_rows_unnumbered E' D'" for E' X target reporter D'
    using audit_reporters_single [OF that, of target] by (auto simp: mysql_apply_audit_report_def split: option.split)
  then show ?thesis using keep [OF assms] by (simp add: audit_step_def case_prod_beta)
qed

section \<open>What a probe of the directory does\<close>

lemma find_node_update:
  "(\<And>n. nr_id (f n) = nr_id n) \<Longrightarrow> find_node E (update_row E i f D) i = map_option f (find_node E D i)"
  by (simp add: find_node_def update_row_def find_update_first)

lemma append_in_tx_shape:
  assumes "append_signed_event_in_tx E X k sk event_type node_id payload D = Inr (seq, D')"
  obtains e where "nd_nodes D' = nd_nodes D" "nd_events D' = nd_events D @ [e]" "e_event_type e = event_type" "e_node_id e = node_id"
    "e_payload e = payload"
  using assms by (auto simp: append_signed_event_in_tx_def statement_Inr Let_def split: option.splits if_splits)

lemma find_node_cong: "nd_nodes D' = nd_nodes D \<Longrightarrow> find_node E D' i = find_node E D i"
  by (simp add: find_node_def)

lemma probe_route_unchanged: "apply_probe_route_state E X i passed D = (Unchanged, D') \<Longrightarrow> D' = D"
  by (auto simp: apply_probe_route_state_def Let_def split: option.splits sum.splits if_splits)

lemma probe_route_moved:
  assumes "apply_probe_route_state E X i passed D = (t, D')" "t \<noteq> Unchanged"
  shows "nd_nodes D' = nd_nodes (route_update E t i D)"
    and "t = (if passed then Restored else Demoted)"
    and "\<exists>n. find_node E D i = Some n \<and> find_node E D' i =
             Some (n\<lparr>nr_public_reachable := passed, nr_endpoint_verified_dead_at := (if passed then None else Some (sq_now E))\<rparr>)"
    and "\<exists>e. nd_events D' = nd_events D @ [e] \<and> e_node_id e = i
             \<and> e_event_type e = (if passed then ''REACHABILITY_RESTORE'' else ''REACHABILITY_DEMOTE'')"
proof -
  obtain n key seq where n: "find_node E D i = Some n" "t = route_transition passed n"
      and a: "append_signed_event_in_tx E X 3 key (fst (route_evidence t n)) i (snd (route_evidence t n)) (route_update E t i D) = Inr (seq, D')"
    using assms by (auto simp: apply_probe_route_state_def Let_def split: option.splits sum.splits if_splits)
  obtain e where e: "nd_nodes D' = nd_nodes (route_update E t i D)" "nd_events D' = nd_events (route_update E t i D) @ [e]"
      "e_event_type e = fst (route_evidence t n)" "e_node_id e = i" by (rule append_in_tx_shape [OF a])
  show "nd_nodes D' = nd_nodes (route_update E t i D)" by (rule e(1))
  show t: "t = (if passed then Restored else Demoted)" using assms(2) n(2) by (auto simp: route_transition_def split: if_splits)
  have "passed \<or> nr_public_reachable n" using assms(2) n(2) by (auto simp: route_transition_def split: if_splits)
  then show "\<exists>n. find_node E D i = Some n \<and> find_node E D' i =
             Some (n\<lparr>nr_public_reachable := passed, nr_endpoint_verified_dead_at := (if passed then None else Some (sq_now E))\<rparr>)"
    unfolding find_node_cong [OF e(1)] using t n(1) by (auto simp: route_update_def find_node_update)
  have "nd_events D' = nd_events D @ [e]" using e(2) t by (simp add: route_update_def update_row_def)
  then show "\<exists>e. nd_events D' = nd_events D @ [e] \<and> e_node_id e = i
             \<and> e_event_type e = (if passed then ''REACHABILITY_RESTORE'' else ''REACHABILITY_DEMOTE'')"
    using e(3,4) t by (auto simp: route_evidence_def)
qed

text \<open>
  An observation of the directory's own probe moves the route state and records it, or does nothing: an
  outcome other than unchanged means that the node's row says what was observed, with the time of
  death set or cleared and every other column as before, that exactly one signed event about
  it was added, and that observing the same again changes nothing more.
\<close>

theorem probe_route_exact:
  assumes "apply_probe_route_state E X i passed D = (t, D')"
  shows "(t = Unchanged \<longrightarrow> D' = D)
    \<and> (t \<noteq> Unchanged \<longrightarrow>
        t = (if passed then Restored else Demoted)
        \<and> (\<exists>n. find_node E D i = Some n \<and> find_node E D' i =
             Some (n\<lparr>nr_public_reachable := passed, nr_endpoint_verified_dead_at := (if passed then None else Some (sq_now E))\<rparr>))
        \<and> (\<exists>e. nd_events D' = nd_events D @ [e] \<and> e_node_id e = i
             \<and> e_event_type e = (if passed then ''REACHABILITY_RESTORE'' else ''REACHABILITY_DEMOTE''))
        \<and> apply_probe_route_state E X' i passed D' = (Unchanged, D'))"
proof (cases "t = Unchanged")
  case True
  then show ?thesis using assms probe_route_unchanged by simp
next
  case False
  note m = probe_route_moved [OF assms False]
  obtain n where "find_node E D' i =
      Some (n\<lparr>nr_public_reachable := passed, nr_endpoint_verified_dead_at := (if passed then None else Some (sq_now E))\<rparr>)"
    using m(3) by blast
  then have "apply_probe_route_state E X' i passed D' = (Unchanged, D')" by (simp add: apply_probe_route_state_def route_transition_def)
  then show ?thesis using False m(2-4) by blast
qed

section \<open>Expiry and heartbeats\<close>

lemma heartbeat_once_shape:
  assumes "heartbeat_once E X i hb D = (Inr (Some outcome), D')"
  shows "\<exists>n. find_node E D i = Some n \<and> outcome = fst (heartbeat_row E X hb n)
    \<and> nd_nodes D' = nd_nodes (update_row E i (snd \<circ> heartbeat_row E X hb) D)"
proof -
  let ?D1 = "update_row E i (snd \<circ> heartbeat_row E X hb) D"
  obtain n where n: "find_node E D i = Some n"
    using assms by (auto simp: heartbeat_once_def statement_def transaction_def split: option.splits)
  have "outcome = fst (heartbeat_row E X hb n) \<and> nd_nodes D' = nd_nodes ?D1"
  proof (cases "nr_status n = ''dormant''")
    case False
    then show ?thesis using assms n
      by (auto simp: heartbeat_once_def transaction_def statement_Inr Let_def simp del: comp_apply split: sum.splits)
  next
    case True
    show ?thesis
    proof (cases "pe_signing_key X")
      case None
      then show ?thesis using assms n True
        by (auto simp: heartbeat_once_def transaction_def statement_Inr Let_def simp del: comp_apply split: sum.splits)
    next
      case (Some key)
      let ?a = "append_signed_event_in_tx E X 3 key ''REACTIVATE'' i (reactivation_payload X (nr_dormant_since n)) ?D1"
      show ?thesis
      proof (cases ?a)
        case (Inl e)
        then show ?thesis using assms n True Some
          by (auto simp: heartbeat_once_def transaction_def statement_def Let_def split: option.splits)
      next
        case (Inr r)
        obtain seq D2 where r: "r = (seq, D2)" by (cases r)
        have "nd_nodes D2 = nd_nodes ?D1" by (rule append_in_tx_shape [OF Inr [unfolded r]])
        then show ?thesis using assms n True Some Inr r
          by (auto simp: heartbeat_once_def transaction_def statement_def Let_def split: option.splits)
      qed
    qed
  qed
  then show ?thesis using n by simp
qed

lemma heartbeat_effect:
  assumes "mysql_heartbeat E X fails i hb D = (Some outcome, D')"
  obtains n where "find_node E D i = Some n" "outcome = fst (heartbeat_row E X hb n)"
    "find_node E D' i = Some (snd (heartbeat_row E X hb n))"
proof -
  let ?once = "heartbeat_attempt E X fails i hb"
  obtain j where j: "retry ?once is_transient_transaction_error 2 0 D = ?once j D" using heartbeats.retry_once by blast
  then have o: "?once j D = (Inr (Some outcome), D')"
    using assms by (auto simp: mysql_heartbeat_def split: prod.splits sum.splits)
  let ?E = "E\<lparr>sq_fails := fails j\<rparr>"
  have f: "find_node ?E = find_node E" by (simp add: fun_eq_iff find_node_def sq_eq_def)
  have hr: "heartbeat_row ?E = heartbeat_row E" by (simp add: fun_eq_iff heartbeat_row_def Let_def case_prod_beta)
  have id: "nr_id ((snd \<circ> heartbeat_row E X hb) n) = nr_id n" for n by (simp add: heartbeat_row_def Let_def split: prod.split)
  obtain n where n: "find_node E D i = Some n" "outcome = fst (heartbeat_row E X hb n)"
      "nd_nodes D' = nd_nodes (update_row ?E i (snd \<circ> heartbeat_row E X hb) D)"
    using heartbeat_once_shape [of ?E X i hb D outcome D'] o unfolding heartbeat_attempt_def f hr by blast
  have "find_node E D' i = map_option (snd \<circ> heartbeat_row E X hb) (find_node E D i)"
    using find_node_update [OF id, of ?E i D] unfolding f find_node_cong [OF n(3)] by (simp add: comp_def)
  then show thesis using that n by simp
qed

lemma marked_dormant:
  assumes "find_node E D i = Some n" "list_ex (sq_eq E i) ids" "sq_fails E 1 = None"
  shows "find_node E (mark_dormant E ids D) i
    = Some (n\<lparr>nr_available := False, nr_status := ''dormant'', nr_dormant_since := Some (sq_now E)\<rparr>)"
proof -
  let ?f = "\<lambda>n. if list_ex (sq_eq E (nr_id n)) ids
      then n\<lparr>nr_available := False, nr_status := ''dormant'', nr_dormant_since := Some (sq_now E)\<rparr> else n"
  have "ids \<noteq> []" using assms(2) by auto
  moreover have "find (\<lambda>n. sq_eq E (nr_id n) i) (map ?f xs) = map_option ?f (find (\<lambda>n. sq_eq E (nr_id n) i) xs)" for xs
    by (induction xs) auto
  moreover have "list_ex (sq_eq E (nr_id n)) ids"
  proof -
    have "sq_eq E (nr_id n) i" using assms(1) by (auto simp: find_node_def dest!: find_Some_set)
    then show ?thesis using assms(2) by (auto simp: list_ex_iff sq_eq_def)
  qed
  ultimately have "find_node E (mark_dormant E ids D) i = map_option ?f (find_node E D i)" and "list_ex (sq_eq E (nr_id n)) ids"
    unfolding mark_dormant_def find_node_def using assms(3) by simp_all
  then show ?thesis using assms(1) by simp
qed

text \<open>
  The expiry pass can overtake a heartbeat. It reads which nodes are stale and then marks those ids dormant
  without looking again; a node whose heartbeat is accepted between the two statements ends up
  dormant and unavailable although it was seen this very second.
\<close>

theorem expiry_overtakes_heartbeat:
  assumes "i \<in> set (stale_ids E D)" "sq_fails E 1 = None"
    and "mysql_heartbeat E X fails i hb D = (Some outcome, D1)"
  shows "\<exists>n. find_node E (mark_dormant E (stale_ids E D) D1) i = Some n
    \<and> nr_last_seen n = Some (sq_now E) \<and> nr_status n = ''dormant'' \<and> \<not> nr_available n"
proof -
  obtain n where "find_node E D1 i = Some (snd (heartbeat_row E X hb n))" by (rule heartbeat_effect [OF assms(3)])
  moreover have "list_ex (sq_eq E i) (stale_ids E D)" using assms(1) by (auto simp: list_ex_iff intro!: bexI [of _ i])
  moreover have "nr_last_seen (snd (heartbeat_row E X hb n)) = Some (sq_now E)"
    by (simp add: heartbeat_row_def Let_def case_prod_beta)
  ultimately show ?thesis using marked_dormant [OF _ _ assms(2)] by fastforce
qed

section \<open>The shape of the table\<close>

lemma round32_bounds:
  assumes "0 \<le> x" "x \<le> 1"
  shows "0 \<le> round32 x" "round32 x \<le> 1"
proof -
  define u where "u = max (ilog2 \<bar>x\<bar> - 23) (-149)"
  have r: "round32 x = (if x = 0 then 0 else of_int (round_even (x / 2 powi u)) * 2 powi u)"
    by (simp add: round32_def u_def Let_def)
  have "0 \<le> round_even (x / 2 powi u)" using assms(1) by (intro round_even_ge_int) simp
  then show "0 \<le> round32 x" unfolding r by simp
  show "round32 x \<le> 1"
  proof (cases "x = 0")
    case False
    then have "2 powi ilog2 \<bar>x\<bar> \<le> \<bar>x\<bar>" by (intro ilog2_bounds) simp
    then have "(2::rat) powi ilog2 \<bar>x\<bar> \<le> 2 powi 0" using assms by simp
    then have "ilog2 \<bar>x\<bar> \<le> 0" by (rule powi_2_le_imp)
    then have u: "u \<le> 0" by (simp add: u_def)
    then have p: "(2::rat) powi (- u) = of_int (2 ^ nat (- u))" by (intro powi_2_nat) simp
    have "x / 2 powi u \<le> 1 / 2 powi u" using assms(2) by (intro divide_right_mono) simp_all
    also have "\<dots> = of_int (2 ^ nat (- u))" using p by (simp add: power_int_minus field_simps)
    finally have "round_even (x / 2 powi u) \<le> 2 ^ nat (- u)" by (rule round_even_le_int)
    then have "of_int (round_even (x / 2 powi u)) \<le> (of_int (2 ^ nat (- u)) :: rat)" by (simp only: of_int_le_iff)
    then have "of_int (round_even (x / 2 powi u)) * 2 powi u \<le> 2 powi (- u) * (2 powi u :: rat)"
      unfolding p by (intro mult_right_mono) simp_all
    then show ?thesis using False unfolding r by (simp flip: powi_2_add)
  qed (simp add: round32_def)
qed

text \<open>
  What holds of every row: a status of the life cycle; only a node that is not active has been dormant
  since a time, and then it is not available; the reputation is between 0 and 1.
\<close>

definition row_ok :: "node_row \<Rightarrow> bool" where
  "row_ok n \<longleftrightarrow>
     (nr_status n = ''active'' \<and> nr_dormant_since n = None
      \<or> nr_status n \<in> {''dormant'', ''archived''} \<and> nr_dormant_since n \<noteq> None \<and> \<not> nr_available n)
     \<and> 0 \<le> nr_reputation_score n \<and> nr_reputation_score n \<le> 1"

text \<open>The collation tells the three statuses apart.\<close>

definition status_collation :: "sql_env \<Rightarrow> bool" where
  "status_collation E \<longleftrightarrow> distinct (map (sq_weight E) [''active'', ''dormant'', ''archived''])"

lemma row_ok_heartbeat: "row_ok (snd (heartbeat_row E X hb n))"
  using round32_bounds [OF apply_delta_bounds] by (simp add: row_ok_def heartbeat_row_def Let_def case_prod_beta)

lemma row_ok_dormant: "row_ok n \<Longrightarrow> row_ok (n\<lparr>nr_available := False, nr_status := ''dormant'', nr_dormant_since := Some t\<rparr>)"
  by (auto simp: row_ok_def)

lemma row_ok_archived: "row_ok n \<Longrightarrow> archivable E days n \<Longrightarrow> status_collation E \<Longrightarrow> row_ok (n\<lparr>nr_status := ''archived''\<rparr>)"
  by (auto simp: row_ok_def archivable_def status_collation_def sq_eq_def)

datatype node_op =
    Beat string HeartbeatInput
  | Expire
  | Archive nat
  | Rotate
  | Remove string
  | RouteProbe string bool
  | Challenge string "string option" string
  | Audit string string
  | Append string string json

record node_event =
  ne_now :: nat
  ne_fails :: "nat \<Rightarrow> sqlx_error option"
  ne_attempts :: "nat \<Rightarrow> nat \<Rightarrow> sqlx_error option"
  ne_env :: process_env
  ne_hmac :: "string \<Rightarrow> string \<Rightarrow> string \<Rightarrow> bool"
  ne_op :: node_op

definition node_step :: "sql_env \<Rightarrow> node_event \<Rightarrow> node_db \<Rightarrow> node_db" where
  "node_step E ev D =
     (let E' = E\<lparr>sq_now := ne_now ev, sq_fails := ne_fails ev\<rparr>; X = ne_env ev
      in case ne_op ev of
           Beat i hb \<Rightarrow> snd (mysql_heartbeat E' X (ne_attempts ev) i hb D)
         | Expire \<Rightarrow> snd (mysql_expire_stale E' D)
         | Archive days \<Rightarrow> snd (mysql_archive_dormant E' days D)
         | Rotate \<Rightarrow> snd (mysql_rotate_reputation_windows E' D)
         | Remove i \<Rightarrow> snd (mysql_deregister E' i D)
         | RouteProbe i passed \<Rightarrow> snd (apply_probe_route_state E' X i passed D)
         | Challenge i response next_challenge \<Rightarrow>
             snd (mysql_verify_and_rotate_liveness_challenge E' (pe_crypto X) (ne_hmac ev) i response next_challenge D)
         | Audit target reporter \<Rightarrow> snd (mysql_apply_audit_report E' X target reporter D)
         | Append i event_type payload \<Rightarrow> mysql_log_event E' X (ne_attempts ev) i event_type (Some payload) D)"

lemma heartbeat_call:
  "nd_nodes (snd (mysql_heartbeat E X fails i hb D)) = nd_nodes D
   \<or> nd_nodes (snd (mysql_heartbeat E X fails i hb D))
       = update_first (\<lambda>n. sq_eq E (nr_id n) i) (snd \<circ> heartbeat_row E X hb) (nd_nodes D)"
proof -
  let ?once = "heartbeat_attempt E X fails i hb"
  obtain j where j: "retry ?once is_transient_transaction_error 2 0 D = ?once j D" using heartbeats.retry_once by blast
  let ?E = "E\<lparr>sq_fails := fails j\<rparr>"
  have s: "snd (mysql_heartbeat E X fails i hb D) = snd (?once j D)"
    unfolding mysql_heartbeat_def j by (auto split: prod.splits sum.splits)
  have hr: "heartbeat_row ?E = heartbeat_row E" by (simp add: fun_eq_iff heartbeat_row_def Let_def case_prod_beta)
  have eq: "sq_eq ?E = sq_eq E" by (simp add: fun_eq_iff sq_eq_def)
  show ?thesis
  proof (cases "fst (?once j D)")
    case (Inl err)
    then show ?thesis using heartbeats.failed [OF Inl] s by simp
  next
    case (Inr r)
    show ?thesis
    proof (cases r)
      case None
      then have "snd (?once j D) = D" using Inr
        by (auto simp: heartbeat_attempt_def heartbeat_once_def transaction_def statement_def Let_def split: option.splits sum.splits if_splits)
      then show ?thesis using s by simp
    next
      case (Some out)
      then have "heartbeat_once ?E X i hb D = (Inr (Some out), snd (?once j D))"
        using Inr by (simp add: heartbeat_attempt_def prod_eq_iff)
      then have "nd_nodes (snd (?once j D)) = nd_nodes (update_row ?E i (snd \<circ> heartbeat_row ?E X hb) D)"
        using heartbeat_once_shape by blast
      then show ?thesis using s unfolding hr update_row_def eq by simp
    qed
  qed
qed

lemma route_call:
  "nd_nodes (snd (apply_probe_route_state E X i passed D)) = nd_nodes D
   \<or> (\<exists>t. nd_nodes (snd (apply_probe_route_state E X i passed D)) = nd_nodes (route_update E t i D))"
  using probe_route_unchanged [of E X i passed D] probe_route_moved(1) [of E X i passed D]
  by (cases "apply_probe_route_state E X i passed D") auto

lemma append_call_nodes: "nd_nodes (mysql_log_event E X fails i event_type payload D) = nd_nodes D"
proof (cases "pe_signing_key X")
  case (Some key)
  let ?p = "unwrap_or (JObj [(''reason'', JStr ''invalid_internal_event_payload'')]) payload"
  let ?once = "append_attempt E X fails key event_type i ?p"
  obtain j where j: "retry ?once transient_append 2 0 D = ?once j D" using appends.retry_once by blast
  have "nd_nodes (snd (?once j D)) = nd_nodes D"
    by (auto simp: append_attempt_def Let_def transaction_def statement_Inr split: sum.splits if_splits elim!: append_in_tx_shape)
  moreover have "snd (mysql_append_signed_event E X fails key event_type i ?p D) = snd (?once j D)"
    unfolding mysql_append_signed_event_def j by (auto split: prod.splits sum.splits)
  ultimately show ?thesis using Some by (simp add: mysql_log_event_def)
qed (simp add: mysql_log_event_def)

lemma set_update_rows: "\<forall>n \<in> set xs. P n \<Longrightarrow> (\<And>n. P n \<Longrightarrow> P (f n)) \<Longrightarrow> \<forall>n \<in> set (update_first q f xs). P n"
  by (induction xs) auto

text \<open>
  C36. The node table keeps its shape: whatever heartbeats, expiry, archiving, rotation, removals, probes,
  challenges, audit reports and log entries follow each other, at whatever times and with whatever
  failures, every row has a status of the life cycle, a node that is dormant or archived is not
  available and has been so since a known time, and every reputation is between 0 and 1.
\<close>

theorem node_table_well_formed:
  assumes "status_collation E" and "\<forall>n \<in> set (nd_nodes D). row_ok n"
  shows "\<forall>n \<in> set (nd_nodes (fold (node_step E) evs D)). row_ok n"
  using assms(2)
proof (induction evs arbitrary: D)
  case (Cons ev evs)
  let ?E = "E\<lparr>sq_now := ne_now ev, sq_fails := ne_fails ev\<rparr>"
  have c: "status_collation ?E" using assms(1) by (simp add: status_collation_def)
  note ok = Cons.prems
  have upd: "\<forall>n \<in> set (nd_nodes (update_row ?E i f D)). row_ok n" if "\<And>n. row_ok n \<Longrightarrow> row_ok (f n)" for i f
    unfolding update_row_def using set_update_rows [OF ok that] by simp
  have route: "\<forall>n \<in> set (nd_nodes (route_update ?E t i D)). row_ok n" for t i
  proof (cases t)
    case Demoted
    show ?thesis unfolding route_update_def Demoted ProbeRouteTransition.case by (rule upd) (simp add: row_ok_def)
  next
    case Restored
    show ?thesis unfolding route_update_def Restored ProbeRouteTransition.case by (rule upd) (simp add: row_ok_def)
  qed (use ok in \<open>simp add: route_update_def\<close>)
  have "\<forall>n \<in> set (nd_nodes (node_step E ev D)). row_ok n"
  proof (cases "ne_op ev")
    case (Beat i hb)
    then show ?thesis using heartbeat_call [of ?E "ne_env ev" "ne_attempts ev" i hb D] ok
        set_update_rows [OF ok, of "snd \<circ> heartbeat_row ?E (ne_env ev) hb"] row_ok_heartbeat
      by (auto simp: node_step_def Let_def)
  next
    case Expire
    then show ?thesis using ok row_ok_dormant by (auto simp: node_step_def Let_def mysql_expire_stale_def mark_dormant_def)
  next
    case (Archive days)
    then show ?thesis using ok row_ok_archived [OF _ _ c] by (auto simp: node_step_def Let_def mysql_archive_dormant_def)
  next
    case Rotate
    then show ?thesis using ok by (auto simp: node_step_def mysql_rotate_reputation_windows_def Let_def row_ok_def)
  next
    case (Remove i)
    then show ?thesis using ok by (auto simp: node_step_def Let_def mysql_deregister_def)
  next
    case (RouteProbe i passed)
    then show ?thesis using route_call [of ?E "ne_env ev" i passed D] ok route by (auto simp: node_step_def Let_def)
  next
    case (Challenge i response next_challenge)
    have "\<forall>n \<in> set (nd_nodes (update_row ?E i (\<lambda>n. n\<lparr>nr_liveness_challenge := Some next_challenge,
        nr_liveness_verified_at := (if v then Some (sq_now ?E) else nr_liveness_verified_at n)\<rparr>) D)). row_ok n" for v
      by (rule upd) (simp add: row_ok_def)
    then show ?thesis using ok Challenge
      by (simp add: node_step_def mysql_verify_and_rotate_liveness_challenge_def Let_def split: option.split)
  next
    case (Audit target reporter)
    then show ?thesis using ok by (auto simp: node_step_def Let_def mysql_apply_audit_report_def split: option.split)
  next
    case (Append i event_type payload)
    then show ?thesis using ok by (simp add: node_step_def append_call_nodes)
  qed
  then show ?case using Cons.IH by simp
qed simp

section \<open>A node at work\<close>

definition demo_process :: process_env where
  "demo_process = \<lparr>pe_crypto = demo_crypto, pe_signing_key = Some demo_secret, pe_uuid = ''u1'', pe_now_ms = 1000000\<rparr>"

definition demo_row :: node_row where
  "demo_row = \<lparr>nr_id = ''n1'', nr_endpoint = ''https://n1'', nr_load = 0, nr_available = True, nr_active_jobs = 0,
     nr_reputation_score = 1 / 2, nr_reputation_model = ''v1'', nr_reputation_epoch = None, nr_rep_hourly_gain = 0,
     nr_rep_hourly_window_start = None, nr_tasks_total = 0, nr_tasks_failed = 0, nr_tasks_total_recent = 0,
     nr_tasks_failed_recent = 0, nr_avg_latency_ms_recent = 0, nr_recent_window_start = None, nr_health_models = None,
     nr_last_metrics_batch_id = None, nr_status = ''active'', nr_dormant_since = None, nr_last_seen = Some 10,
     nr_liveness_challenge = None, nr_liveness_verified_at = None, nr_node_hmac_key = None, nr_public_reachable = True,
     nr_endpoint_verified_dead_at = None, nr_created_at = Some 0\<rparr>"

definition demo_nodes :: node_db where
  "demo_nodes = \<lparr>nd_nodes = [demo_row], nd_events = [], nd_last_seq = 0, nd_last_signature = None, nd_probes = []\<rparr>"

text \<open>An append whose first attempt is a deadlock victim, and one that finds no connection.\<close>

definition demo_appends :: "append_call list" where
  "demo_appends =
     [\<lparr>pc_env = demo_process, pc_fails = (\<lambda>n k. if n = 0 \<and> k = 2 then Some (MySqlError 1213) else None),
       pc_type = ''REGISTER'', pc_node = ''n1'', pc_payload = JObj []\<rparr>,
      \<lparr>pc_env = demo_process\<lparr>pe_uuid := ''u2''\<rparr>, pc_fails = (\<lambda>n k. Some OtherError),
       pc_type = ''HEARTBEAT'', pc_node = ''n1'', pc_payload = JNull\<rparr>]"

lemma demo_logs: "logs demo_nodes (new_repo [])"
  by (simp add: logs_def headed_def signed_rows_def demo_nodes_def new_repo_def last_sig_def)

lemma demo_signs: "\<exists>sg. sign_event demo_crypto demo_secret i ty seq ts p ph = Some sg"
  by (simp add: sign_event_def demo_seed)

lemmas demo_append_simps = append_step_def mysql_append_signed_event_def append_attempt_def append_signed_event_in_tx_def
  statement_def transaction_def Let_def unique_event_def is_transient_transaction_error_def numeral_2_eq_2


text \<open>Three eligible reporters in turn: the third report is accepted although the cap is two.\<close>

definition demo_reporters :: node_db where
  "demo_reporters = demo_nodes\<lparr>nd_nodes := demo_row # map (\<lambda>i. demo_row\<lparr>nr_id := i, nr_reputation_score := 1\<rparr>) [''r1'', ''r2'', ''r3'']\<rparr>"

definition demo_report :: "string \<Rightarrow> nat \<times> (nat \<Rightarrow> sqlx_error option) \<times> process_env \<times> string \<times> string" where
  "demo_report r = (300000, \<lambda>_. None, demo_process\<lparr>pe_uuid := r, pe_now_ms := 300000000\<rparr>, ''n1'', r)"

theorem audit_cap_never_reached_witness:
  "a_reason (fst (audit_step demo_sql (demo_report ''r3'')
     (fold (\<lambda>c D. snd (audit_step demo_sql c D)) [demo_report ''r1'', demo_report ''r2''] demo_reporters))) \<noteq> ''reporter_cap_reached''"
proof -
  have "audit_rows_unnumbered demo_sql demo_reporters" by (simp add: audit_rows_unnumbered_def demo_reporters_def demo_nodes_def)
  then show ?thesis by (rule audit_cap_never_reached)
qed

lemma demo_demoted:
  assumes "nd_nodes D = [demo_row]" "nd_events D = []" "nd_last_seq D = 0" "nd_last_signature D = None"
  shows "fst (apply_probe_route_state demo_sql demo_process ''n1'' False D) = Demoted"
proof -
  obtain sg where sg: "sign_event demo_crypto demo_secret ''u1'' ''REACHABILITY_DEMOTE'' 1 1000000
      (snd (route_evidence Demoted demo_row)) (prev_hash_from demo_crypto None) = Some sg"
    using demo_signs by blast
  have n: "find_node demo_sql D ''n1'' = Some demo_row" and t: "route_transition False demo_row = Demoted"
    using assms(1) by (simp_all add: find_node_def sq_eq_def demo_row_def route_transition_def)
  have e: "fst (route_evidence Demoted demo_row) = ''REACHABILITY_DEMOTE''" by (simp add: route_evidence_def)
  have f: "sq_fails demo_sql k = None" for k by (simp add: demo_sql_def)
  have d: "nd_last_seq (route_update demo_sql t i D) = 0" "nd_last_signature (route_update demo_sql t i D) = None"
      "nd_events (route_update demo_sql t i D) = []" for t i
    using assms by (cases t; simp add: route_update_def update_row_def)+
  show ?thesis
    unfolding apply_probe_route_state_def
    by (simp add: f n t e d sg demo_process_def append_signed_event_in_tx_def statement_def Let_def unique_event_def)
qed

theorem probe_route_exact_witness:
  "\<exists>n. find_node demo_sql (snd (apply_probe_route_state demo_sql demo_process ''n1'' False demo_nodes)) ''n1'' = Some n
     \<and> \<not> nr_public_reachable n \<and> nr_endpoint_verified_dead_at n = Some (sq_now demo_sql)"
proof -
  let ?r = "apply_probe_route_state demo_sql demo_process ''n1'' False demo_nodes"
  have "\<exists>n. find_node demo_sql (snd ?r) ''n1''
      = Some (n\<lparr>nr_public_reachable := False, nr_endpoint_verified_dead_at := Some (sq_now demo_sql)\<rparr>)"
    using probe_route_exact [where t = "fst ?r" and D' = "snd ?r" and X' = demo_process, OF prod.collapse [symmetric]] demo_demoted [of demo_nodes]
    by (auto simp: demo_nodes_def)
  then show ?thesis by auto
qed

definition demo_beat :: HeartbeatInput where
  "demo_beat = \<lparr>hb_load = 0, hb_available = True, hb_active_jobs = 0, hb_tasks_delta = 0, hb_tasks_failed_delta = 0, hb_delta = 0,
     hb_metrics_batch_id = None, hb_health_models = None\<rparr>"

theorem expiry_overtakes_heartbeat_witness:
  "\<exists>outcome D1 n. mysql_heartbeat demo_sql demo_process (\<lambda>_ _. None) ''n1'' demo_beat demo_nodes = (Some outcome, D1)
     \<and> find_node demo_sql (mark_dormant demo_sql (stale_ids demo_sql demo_nodes) D1) ''n1'' = Some n
     \<and> nr_last_seen n = Some (sq_now demo_sql) \<and> nr_status n = ''dormant'' \<and> \<not> nr_available n"
proof -
  have s: "''n1'' \<in> set (stale_ids demo_sql demo_nodes)"
    by (simp add: stale_ids_def demo_sql_def demo_nodes_def demo_row_def sq_eq_def before_now_def)
  have f: "sq_fails demo_sql k = None" for k by (simp add: demo_sql_def)
  have n: "find_node demo_sql demo_nodes ''n1'' = Some demo_row"
    by (simp add: find_node_def demo_nodes_def sq_eq_def demo_row_def)
  have env: "demo_sql\<lparr>sq_fails := \<lambda>_. None\<rparr> = demo_sql" by (simp add: demo_sql_def)
  have a: "nr_status demo_row \<noteq> ''dormant''" by (simp add: demo_row_def)
  obtain outcome D1 where h: "mysql_heartbeat demo_sql demo_process (\<lambda>_ _. None) ''n1'' demo_beat demo_nodes = (Some outcome, D1)"
    using a by (simp add: mysql_heartbeat_def numeral_2_eq_2 heartbeat_attempt_def env heartbeat_once_def n f statement_def Let_def)
  then show ?thesis using expiry_overtakes_heartbeat [OF s f h] by blast
qed

theorem node_table_well_formed_witness:
  "list_all row_ok (nd_nodes (fold (node_step demo_sql)
     [\<lparr>ne_now = 2000, ne_fails = \<lambda>_. None, ne_attempts = \<lambda>_ _. None, ne_env = demo_process, ne_hmac = \<lambda>_ _ _. False, ne_op = Expire\<rparr>,
      \<lparr>ne_now = 9000000, ne_fails = \<lambda>_. None, ne_attempts = \<lambda>_ _. None, ne_env = demo_process, ne_hmac = \<lambda>_ _ _. False, ne_op = Archive 30\<rparr>]
     demo_nodes))"
  unfolding list_all_iff
  by (rule node_table_well_formed) (simp_all add: status_collation_def demo_sql_def demo_nodes_def demo_row_def row_ok_def)

end
