(* ===== verification/Ledger.thy ===== *)
theory Ledger
  imports Sql Repo Health
begin

text \<open>
  The credit ledger of the persistent repository, \<open>src/db.rs\<close>: awards against a nonce, debits of a
  node and of an operator's wallet, the sweep of credits nobody earned on for ninety days, the free
  allocation, and the balance views.

  The tables are lists of rows: \<open>nodes\<close> (the columns the ledger uses), \<open>credits\<close>,
  \<open>credit_transactions\<close> and \<open>credit_ip_gates\<close>. A balance is kept twice, in \<open>nodes\<close> and in
  \<open>credits\<close>, and once more as the sum of the transactions; what the theorems show is that the three
  agree after every operation. Decimal columns hold ten-thousandths of a credit. A
  statement of a transaction may fail, also because a value is too long for its column.
  Identifiers of nodes are ASCII, so cutting one at a byte is cutting it at a character.
\<close>

section \<open>Tables\<close>

record account =
  ac_id :: string
  ac_operator_pubkey :: "string option"
  ac_status :: string
  ac_credit_balance :: int
  ac_free_credit_last_allocation_at :: "nat option"

record credit_row =
  cr_node_id :: string
  cr_balance :: int
  cr_free_credit_last_allocation_at :: "nat option"

datatype tx_type = TxCredit | TxDebit

record credit_transaction =
  ct_node_id :: string
  ct_amount :: int
  ct_type :: tx_type
  ct_task_id :: "string option"
  ct_nonce :: "string option"
  ct_reason :: "string option"
  ct_expires_at :: "nat option"
  ct_created_at :: "nat option"

record ip_gate =
  ig_ip_address :: string
  ig_last_allocation_at :: "nat option"
  ig_allocation_count :: u32

record ledger =
  lg_nodes :: "account list"
  lg_credits :: "credit_row list"
  lg_transactions :: "credit_transaction list"
  lg_ip_gates :: "ip_gate list"

definition find_account :: "sql_env \<Rightarrow> ledger \<Rightarrow> string \<Rightarrow> account option" where
  "find_account E L i = find (\<lambda>a. sq_eq E (ac_id a) i) (lg_nodes L)"

definition find_credit :: "sql_env \<Rightarrow> ledger \<Rightarrow> string \<Rightarrow> credit_row option" where
  "find_credit E L i = find (\<lambda>c. sq_eq E (cr_node_id c) i) (lg_credits L)"

definition transactions_of :: "sql_env \<Rightarrow> ledger \<Rightarrow> string \<Rightarrow> credit_transaction list" where
  "transactions_of E L i = filter (\<lambda>t. sq_eq E (ct_node_id t) i) (lg_transactions L)"

text \<open>The two statements that write balances: the updates of \<open>nodes\<close> and \<open>credits\<close>, by primary key.\<close>

definition set_account_balance :: "sql_env \<Rightarrow> string \<Rightarrow> int \<Rightarrow> ledger \<Rightarrow> ledger" where
  "set_account_balance E i k L =
     L\<lparr>lg_nodes := update_first (\<lambda>a. sq_eq E (ac_id a) i) (\<lambda>a. a\<lparr>ac_credit_balance := k\<rparr>) (lg_nodes L)\<rparr>"

definition set_credit_row :: "sql_env \<Rightarrow> string \<Rightarrow> int \<Rightarrow> ledger \<Rightarrow> ledger" where
  "set_credit_row E i k L =
     L\<lparr>lg_credits := update_first (\<lambda>c. sq_eq E (cr_node_id c) i) (\<lambda>c. c\<lparr>cr_balance := k\<rparr>) (lg_credits L)\<rparr>"

definition insert_transaction :: "credit_transaction \<Rightarrow> ledger \<Rightarrow> ledger" where
  "insert_transaction t L = L\<lparr>lg_transactions := lg_transactions L @ [t]\<rparr>"

text \<open>
  \<open>UPDATE nodes n JOIN credits c \<dots> WHERE n.id = ? AND p\<close>: the rows when the condition holds of the
  joined pair, none otherwise.
\<close>

definition joined :: "sql_env \<Rightarrow> ledger \<Rightarrow> string \<Rightarrow> (account \<times> credit_row) option" where
  "joined E L i =
     (case find_account E L i of
        None \<Rightarrow> None
      | Some a \<Rightarrow> (case find_credit E L (ac_id a) of None \<Rightarrow> None | Some c \<Rightarrow> Some (a, c)))"

definition update_joined ::
  "sql_env \<Rightarrow> string \<Rightarrow> (account \<Rightarrow> credit_row \<Rightarrow> bool) \<Rightarrow> (int \<Rightarrow> int) \<Rightarrow> ledger \<Rightarrow> ledger option" where
  "update_joined E i p f L =
     (case joined E L i of
        None \<Rightarrow> None
      | Some (a, c) \<Rightarrow>
          if p a c then Some (set_credit_row E i (f (cr_balance c)) (set_account_balance E i (f (ac_credit_balance a)) L))
          else None)"

definition agrees :: "account \<Rightarrow> credit_row \<Rightarrow> bool" where
  "agrees a c \<longleftrightarrow> \<bar>ac_credit_balance a - cr_balance c\<bar> \<le> 1"

text \<open>\<open>column - ?\<close> with a \<open>DOUBLE\<close> argument, stored back in the column.\<close>

definition minus_double :: "sql_env \<Rightarrow> f64 \<Rightarrow> int \<Rightarrow> int" where
  "minus_double E x k = sq_decimal E (fsub (sql_double k) x)"

definition debit_tx :: "sql_env \<Rightarrow> string \<Rightarrow> f64 \<Rightarrow> string option \<Rightarrow> string \<Rightarrow> credit_transaction" where
  "debit_tx E i amount task_id reason =
     \<lparr>ct_node_id = i, ct_amount = sq_decimal E amount, ct_type = TxDebit, ct_task_id = task_id, ct_nonce = None,
      ct_reason = Some reason, ct_expires_at = None, ct_created_at = None\<rparr>"

section \<open>Debits\<close>

datatype DebitMutationError = Insufficient string | DebitDatabase string sqlx_error

definition failed_debit :: "string \<Rightarrow> string \<Rightarrow> WalletDebitResult" where
  "failed_debit scope reason =
     \<lparr>wd_debited = False, wd_spent = 0, wd_scope = scope, wd_reason = Some reason, wd_debit_count = 0\<rparr>"

definition debit_node_once ::
  "sql_env \<Rightarrow> string \<Rightarrow> f64 \<Rightarrow> string \<Rightarrow> string \<Rightarrow> ledger \<Rightarrow> (DebitMutationError + WalletDebitResult) \<times> ledger" where
  "debit_node_once E consumer_node_id amount task_id reason L =
     transaction L
       (statement E (DebitDatabase ''node'') 0 (statement E (DebitDatabase ''node'') 1
         (case update_joined E consumer_node_id
                 (\<lambda>a c. amount \<le> sql_double (ac_credit_balance a + 1) \<and> amount \<le> sql_double (cr_balance c + 1) \<and> agrees a c)
                 (minus_double E amount) L of
            None \<Rightarrow> Inl (Insufficient ''insufficient_balance'')
          | Some L1 \<Rightarrow>
              statement E (DebitDatabase ''node'') 2 (statement E (DebitDatabase ''node'') 3
                (Inr (\<lparr>wd_debited = True, wd_spent = amount, wd_scope = ''node'', wd_reason = None, wd_debit_count = 1\<rparr>,
                      insert_transaction (debit_tx E consumer_node_id amount (Some task_id) reason) L1))))))"

text \<open>The wallet: which of the operator's nodes may be spent from, the soonest to expire first.\<close>

definition expiries :: "sql_env \<Rightarrow> ledger \<Rightarrow> string \<Rightarrow> nat list" where
  "expiries E L i = List.map_filter ct_expires_at (filter (\<lambda>t. ct_type t = TxCredit) (transactions_of E L i))"

definition max_expiry :: "sql_env \<Rightarrow> ledger \<Rightarrow> string \<Rightarrow> nat option" where
  "max_expiry E L i = (case expiries E L i of [] \<Rightarrow> None | x # xs \<Rightarrow> Some (fold max xs x))"

definition horizon :: "sql_env \<Rightarrow> ledger \<Rightarrow> string \<Rightarrow> nat option" where
  "horizon E L i =
     (case filter (\<lambda>x. x > sq_now E) (expiries E L i) of [] \<Rightarrow> None | x # xs \<Rightarrow> Some (fold min xs x))"

definition unexpired :: "sql_env \<Rightarrow> ledger \<Rightarrow> string \<Rightarrow> bool" where
  "unexpired E L i \<longleftrightarrow>
     list_ex (\<lambda>t. ct_type t = TxCredit \<and> ct_expires_at t = None) (transactions_of E L i)
     \<or> (case max_expiry E L i of None \<Rightarrow> True | Some x \<Rightarrow> x > sq_now E)"

definition spendable :: "sql_env \<Rightarrow> ledger \<Rightarrow> string \<Rightarrow> account \<Rightarrow> bool" where
  "spendable E L p a \<longleftrightarrow>
     (case ac_operator_pubkey a of None \<Rightarrow> False | Some q \<Rightarrow> sq_eq E q p)
     \<and> \<not> sq_eq E (ac_status a) ''archived'' \<and> ac_credit_balance a > 0 \<and> unexpired E L (ac_id a)"

definition wallet_candidates :: "sql_env \<Rightarrow> ledger \<Rightarrow> string \<Rightarrow> (string \<times> f64) list" where
  "wallet_candidates E L p =
     map (\<lambda>a. (ac_id a, sql_double (ac_credit_balance a)))
       (sort_key (\<lambda>a. (horizon E L (ac_id a) = None, unwrap_or 0 (horizon E L (ac_id a)), sq_weight E (ac_id a)))
          (filter (spendable E L p) (lg_nodes L)))"

definition wallet_reason :: "string \<Rightarrow> string \<Rightarrow> string \<Rightarrow> string" where
  "wallet_reason reason consumer_node_id node_id =
     (if node_id = consumer_node_id then reason
      else reason @ '':operator_wallet:consumer='' @ take (min (length consumer_node_id) 8) consumer_node_id)"

text \<open>The loop over the candidates: what remains to be taken, the debits made, the next statement, the rows.\<close>

fun wallet_loop ::
  "sql_env \<Rightarrow> string \<Rightarrow> string \<Rightarrow> string \<Rightarrow> (string \<times> f64) list \<Rightarrow> f64 \<times> u32 \<times> nat \<times> ledger
   \<Rightarrow> DebitMutationError + f64 \<times> u32 \<times> nat \<times> ledger" where
  "wallet_loop E consumer task_id reason [] st = Inr st"
| "wallet_loop E consumer task_id reason ((node_id, balance) # rest) (remaining, debits, k, L) =
     (if remaining \<le> round64 (5 / 100000) then Inr (remaining, debits, k, L)
      else
        (let take_amount = min remaining balance
         in statement E (DebitDatabase ''operator_wallet'') k
              (if (case find_credit E L node_id of None \<Rightarrow> True
                   | Some c \<Rightarrow> \<bar>fsub (sql_double (cr_balance c)) balance\<bar> > round64 (1 / 10000))
               then Inl (DebitDatabase ''operator_wallet'' OtherError)
               else
                 statement E (DebitDatabase ''operator_wallet'') (k + 1)
                   (case update_joined E node_id agrees (minus_double E take_amount) L of
                      None \<Rightarrow> Inl (DebitDatabase ''operator_wallet'' OtherError)
                    | Some L1 \<Rightarrow>
                        statement E (DebitDatabase ''operator_wallet'') (k + 2)
                          (wallet_loop E consumer task_id reason rest
                             (fsub remaining take_amount, debits + 1, k + 3,
                              insert_transaction
                                (debit_tx E node_id take_amount (Some task_id) (wallet_reason reason consumer node_id)) L1))))))"

definition debit_operator_wallet_once ::
  "sql_env \<Rightarrow> string \<Rightarrow> string \<Rightarrow> f64 \<Rightarrow> string \<Rightarrow> string \<Rightarrow> ledger
   \<Rightarrow> (DebitMutationError + WalletDebitResult) \<times> ledger" where
  "debit_operator_wallet_once E consumer_node_id operator_pubkey amount task_id reason L =
     transaction L
       (statement E (DebitDatabase ''operator_wallet'') 0 (statement E (DebitDatabase ''operator_wallet'') 1
         (let candidates = wallet_candidates E L operator_pubkey;
              available = fsum (map snd candidates)
          in if fadd available (round64 (1 / 10000)) < amount
             then Inl (Insufficient ''insufficient_operator_wallet_balance'')
             else
               (case wallet_loop E consumer_node_id task_id reason candidates (amount, 0, 2, L) of
                  Inl e \<Rightarrow> Inl e
                | Inr (remaining, debit_count, k, L1) \<Rightarrow>
                    if remaining > round64 (1 / 10000) then Inl (DebitDatabase ''operator_wallet'' OtherError)
                    else
                      statement E (DebitDatabase ''operator_wallet'') k
                        (Inr (\<lparr>wd_debited = True, wd_spent = amount, wd_scope = ''operator_wallet'', wd_reason = None,
                               wd_debit_count = debit_count\<rparr>, L1))))))"

text \<open>The operator a node is bound to.\<close>

definition account_operator :: "sql_env \<Rightarrow> ledger \<Rightarrow> string \<Rightarrow> string option" where
  "account_operator E L i =
     (case find_account E L i of
        None \<Rightarrow> None
      | Some a \<Rightarrow> (case ac_operator_pubkey a of None \<Rightarrow> None | Some p \<Rightarrow> if p \<noteq> [] then Some p else None))"

definition debit_attempt ::
  "sql_env \<Rightarrow> (nat \<Rightarrow> nat \<Rightarrow> sqlx_error option) \<Rightarrow> string option \<Rightarrow> string \<Rightarrow> f64 \<Rightarrow> string \<Rightarrow> string \<Rightarrow> nat \<Rightarrow> ledger
   \<Rightarrow> (DebitMutationError + WalletDebitResult) \<times> ledger" where
  "debit_attempt E fails operator_pubkey consumer amount task_id reason n =
     (case operator_pubkey of
        Some p \<Rightarrow> debit_operator_wallet_once (E\<lparr>sq_fails := fails n\<rparr>) consumer p amount task_id reason
      | None \<Rightarrow> debit_node_once (E\<lparr>sq_fails := fails n\<rparr>) consumer amount task_id reason)"

fun transient_debit :: "DebitMutationError \<Rightarrow> bool" where
  "transient_debit (Insufficient reason) \<longleftrightarrow> False"
| "transient_debit (DebitDatabase scope e) \<longleftrightarrow> is_transient_transaction_error e"

text \<open>\<open>debit_for_consumer\<close>: the failure of the scope lookup is the one of statement 0 of \<open>E\<close>.\<close>

definition mysql_debit_for_consumer ::
  "sql_env \<Rightarrow> (nat \<Rightarrow> nat \<Rightarrow> sqlx_error option) \<Rightarrow> string \<Rightarrow> f64 \<Rightarrow> string \<Rightarrow> string \<Rightarrow> ledger \<Rightarrow> WalletDebitResult \<times> ledger" where
  "mysql_debit_for_consumer E fails consumer amount task_id reason L =
     (if sq_fails E 0 \<noteq> None then (failed_debit ''node'' ''db_error'', L)
      else
        (let operator_pubkey = account_operator E L consumer
         in case retry (debit_attempt E fails operator_pubkey consumer amount task_id reason) transient_debit 2 0 L of
              (Inr result, L1) \<Rightarrow> (result, L1)
            | (Inl (Insufficient why), L1) \<Rightarrow>
                (failed_debit (if operator_pubkey \<noteq> None then ''operator_wallet'' else ''node'') why, L1)
            | (Inl (DebitDatabase scope e), L1) \<Rightarrow> (failed_debit scope ''db_error'', L1)))"

section \<open>Awards\<close>

datatype CreditMutationError = AwardReplay | AwardUnknownNode | AwardDatabase sqlx_error

definition NINETY_DAYS :: nat where
  "NINETY_DAYS = 90 * 86400"

definition award_tx :: "sql_env \<Rightarrow> string \<Rightarrow> f64 \<Rightarrow> string \<Rightarrow> string \<Rightarrow> credit_transaction" where
  "award_tx E i amount task_id nonce =
     \<lparr>ct_node_id = i, ct_amount = sq_decimal E amount, ct_type = TxCredit, ct_task_id = Some task_id, ct_nonce = Some nonce,
      ct_reason = Some ''cip_award'', ct_expires_at = Some (sq_now E + NINETY_DAYS), ct_created_at = None\<rparr>"

definition nonce_stored :: "sql_env \<Rightarrow> string \<Rightarrow> ledger \<Rightarrow> bool" where
  "nonce_stored E nonce L \<longleftrightarrow>
     list_ex (\<lambda>t. case ct_nonce t of None \<Rightarrow> False | Some m \<Rightarrow> sq_eq E m nonce) (lg_transactions L)"

text \<open>\<open>INSERT INTO credits \<dots> ON DUPLICATE KEY UPDATE node_id = VALUES(node_id)\<close>: the row exists afterwards.\<close>

definition ensure_credit_row :: "sql_env \<Rightarrow> string \<Rightarrow> int \<Rightarrow> ledger \<Rightarrow> ledger" where
  "ensure_credit_row E i k L =
     (if find_credit E L i = None
      then L\<lparr>lg_credits := lg_credits L @ [\<lparr>cr_node_id = i, cr_balance = k, cr_free_credit_last_allocation_at = None\<rparr>]\<rparr>
      else L\<lparr>lg_credits := update_first (\<lambda>c. sq_eq E (cr_node_id c) i) (\<lambda>c. c\<lparr>cr_node_id := i\<rparr>) (lg_credits L)\<rparr>)"

definition record_credit_award_once ::
  "sql_env \<Rightarrow> string \<Rightarrow> f64 \<Rightarrow> string \<Rightarrow> string \<Rightarrow> ledger \<Rightarrow> (CreditMutationError + f64) \<times> ledger" where
  "record_credit_award_once E node_id amount task_id nonce L =
     transaction L
       (statement E AwardDatabase 0 (statement E AwardDatabase 1
         (case find_account E L node_id of
            None \<Rightarrow> Inl AwardUnknownNode
          | Some a \<Rightarrow>
              (let node_balance = sql_double (ac_credit_balance a)
               in statement E AwardDatabase 2
                    (let L1 = ensure_credit_row E node_id (sq_decimal E node_balance) L
                     in statement E AwardDatabase 3
                          (case find_credit E L1 node_id of
                             None \<Rightarrow> Inl (AwardDatabase OtherError)
                           | Some c \<Rightarrow>
                               (let ledger_balance = sql_double (cr_balance c)
                                in if \<bar>fsub ledger_balance node_balance\<bar> > round64 (1 / 10000)
                                   then Inl (AwardDatabase OtherError)
                                   else
                                     (case (if sq_fails E 4 \<noteq> None then sq_fails E 4
                                            else if nonce_stored E nonce L1 then Some (MySqlError 1062) else None) of
                                        Some e \<Rightarrow> if is_unique_violation e then Inl AwardReplay else Inl (AwardDatabase e)
                                      | None \<Rightarrow>
                                          (let new_balance =
                                             fdiv (of_int (f64_round (fmul (fadd ledger_balance amount) 10000))) 10000;
                                               L2 = insert_transaction (award_tx E node_id amount task_id nonce) L1;
                                               L3 = set_account_balance E node_id (sq_decimal E new_balance)
                                                      (set_credit_row E node_id (sq_decimal E new_balance) L2)
                                           in statement E AwardDatabase 5 (statement E AwardDatabase 6
                                                (statement E AwardDatabase 7 (Inr (new_balance, L3)))))))))))))"

fun transient_award :: "CreditMutationError \<Rightarrow> bool" where
  "transient_award (AwardDatabase e) \<longleftrightarrow> is_transient_transaction_error e"
| "transient_award _ \<longleftrightarrow> False"

definition award_attempt ::
  "sql_env \<Rightarrow> (nat \<Rightarrow> nat \<Rightarrow> sqlx_error option) \<Rightarrow> string \<Rightarrow> f64 \<Rightarrow> string \<Rightarrow> string \<Rightarrow> nat \<Rightarrow> ledger
   \<Rightarrow> (CreditMutationError + f64) \<times> ledger" where
  "award_attempt E fails node_id amount task_id nonce n =
     record_credit_award_once (E\<lparr>sq_fails := fails n\<rparr>) node_id amount task_id nonce"

definition mysql_record_credit_award ::
  "sql_env \<Rightarrow> (nat \<Rightarrow> nat \<Rightarrow> sqlx_error option) \<Rightarrow> string \<Rightarrow> f64 \<Rightarrow> string \<Rightarrow> string \<Rightarrow> ledger
   \<Rightarrow> (CreditError + f64) \<times> ledger" where
  "mysql_record_credit_award E fails node_id amount task_id nonce L =
     (case retry (award_attempt E fails node_id amount task_id nonce) transient_award 2 0 L of
        (Inr balance, L1) \<Rightarrow> (Inr balance, L1)
      | (Inl AwardReplay, L1) \<Rightarrow> (Inl NonceReplay, L1)
      | (Inl AwardUnknownNode, L1) \<Rightarrow> (Inl NodeNotFound, L1)
      | (Inl (AwardDatabase e), L1) \<Rightarrow> (Inl DbError, L1))"

section \<open>Expiry\<close>

definition credit_ttl_idle :: "nat option \<Rightarrow> f64 \<Rightarrow> nat \<Rightarrow> bool" where
  "credit_ttl_idle max_earn_expires_at_unix balance now_unix \<longleftrightarrow>
     (case max_earn_expires_at_unix of None \<Rightarrow> False | Some x \<Rightarrow> x < now_unix) \<and> balance > 0"

definition expire_idle_credit_once :: "sql_env \<Rightarrow> string \<Rightarrow> f64 \<Rightarrow> ledger \<Rightarrow> (sqlx_error + f64 option) \<times> ledger" where
  "expire_idle_credit_once E node_id expected_balance L =
     transaction L
       (statement E id 0 (statement E id 1
         (case update_joined E node_id (\<lambda>a c. sql_double (ac_credit_balance a) = expected_balance \<and> agrees a c) (\<lambda>_. 0) L of
            None \<Rightarrow> Inr (None, L)
          | Some L1 \<Rightarrow>
              statement E id 2 (statement E id 3
                (Inr (Some expected_balance, insert_transaction (debit_tx E node_id expected_balance None ''ttl_expire'') L1))))))"

definition expiry_attempt ::
  "sql_env \<Rightarrow> (nat \<Rightarrow> nat \<Rightarrow> sqlx_error option) \<Rightarrow> string \<Rightarrow> f64 \<Rightarrow> nat \<Rightarrow> ledger \<Rightarrow> (sqlx_error + f64 option) \<times> ledger" where
  "expiry_attempt E fails node_id expected_balance n = expire_idle_credit_once (E\<lparr>sq_fails := fails n\<rparr>) node_id expected_balance"

text \<open>The candidates of the sweep, as one query reads them: node, balance, newest expiry and the clock.\<close>

definition expiry_candidates :: "sql_env \<Rightarrow> ledger \<Rightarrow> (string \<times> f64 \<times> nat option \<times> nat) list" where
  "expiry_candidates E L =
     (if sq_fails E 0 \<noteq> None then []
      else map (\<lambda>a. (ac_id a, sql_double (ac_credit_balance a), max_expiry E L (ac_id a), sq_now E))
             (filter (\<lambda>a. ac_credit_balance a > 0) (lg_nodes L)))"

definition expire_step ::
  "sql_env \<Rightarrow> (string \<Rightarrow> nat \<Rightarrow> nat \<Rightarrow> sqlx_error option) \<Rightarrow> string \<times> f64 \<times> nat option \<times> nat
   \<Rightarrow> (u64 \<times> f64) \<times> ledger \<Rightarrow> (u64 \<times> f64) \<times> ledger" where
  "expire_step E fails = (\<lambda>(node_id, balance, newest, now) ((nodes, credits), L).
     if \<not> credit_ttl_idle newest balance now then ((nodes, credits), L)
     else
       (case retry (expiry_attempt E (fails node_id) node_id balance) is_transient_transaction_error 2 0 L of
          (Inr (Some x), L1) \<Rightarrow> ((nodes + 1, fadd credits x), L1)
        | (_, L1) \<Rightarrow> ((nodes, credits), L1)))"

definition mysql_expire_idle_node_credits ::
  "sql_env \<Rightarrow> (string \<Rightarrow> nat \<Rightarrow> nat \<Rightarrow> sqlx_error option) \<Rightarrow> ledger \<Rightarrow> (u64 \<times> f64) \<times> ledger" where
  "mysql_expire_idle_node_credits E fails L = fold (expire_step E fails) (expiry_candidates E L) ((0, 0), L)"

section \<open>The free allocation\<close>

definition SIX_HOURS :: nat where
  "SIX_HOURS = 6 * 3600"

definition recently :: "sql_env \<Rightarrow> nat option \<Rightarrow> bool" where
  "recently E t \<longleftrightarrow> (case t of None \<Rightarrow> False | Some x \<Rightarrow> int x > int (sq_now E) - int SIX_HOURS)"

definition find_gate :: "sql_env \<Rightarrow> ledger \<Rightarrow> string \<Rightarrow> ip_gate option" where
  "find_gate E L ip = find (\<lambda>g. sq_eq E (ig_ip_address g) ip) (lg_ip_gates L)"

definition ensure_gate :: "sql_env \<Rightarrow> string \<Rightarrow> ledger \<Rightarrow> ledger" where
  "ensure_gate E ip L =
     (if find_gate E L ip = None
      then L\<lparr>lg_ip_gates := lg_ip_gates L @ [\<lparr>ig_ip_address = ip, ig_last_allocation_at = None, ig_allocation_count = 0\<rparr>]\<rparr>
      else L\<lparr>lg_ip_gates := update_first (\<lambda>g. sq_eq E (ig_ip_address g) ip) (\<lambda>g. g\<lparr>ig_ip_address := ip\<rparr>) (lg_ip_gates L)\<rparr>)"

definition free_tx :: "sql_env \<Rightarrow> string \<Rightarrow> credit_transaction" where
  "free_tx E i =
     \<lparr>ct_node_id = i, ct_amount = sq_decimal E 100, ct_type = TxCredit, ct_task_id = None, ct_nonce = None,
      ct_reason = Some ''free_allocation'', ct_expires_at = Some (sq_now E + NINETY_DAYS), ct_created_at = Some (sq_now E)\<rparr>"

text \<open>The four writes: the ledger row, the transaction (whose node must exist), the node's row, the gate of the address.\<close>

definition write_free_allocation :: "sql_env \<Rightarrow> string \<Rightarrow> string \<Rightarrow> int \<Rightarrow> ledger \<Rightarrow> ledger" where
  "write_free_allocation E i ip k L =
     L\<lparr>lg_credits := update_first (\<lambda>c. sq_eq E (cr_node_id c) i)
                       (\<lambda>c. c\<lparr>cr_balance := k, cr_free_credit_last_allocation_at := Some (sq_now E)\<rparr>) (lg_credits L),
       lg_transactions := lg_transactions L @ [free_tx E i],
       lg_nodes := update_first (\<lambda>a. sq_eq E (ac_id a) i)
                     (\<lambda>a. a\<lparr>ac_credit_balance := k, ac_free_credit_last_allocation_at := Some (sq_now E)\<rparr>) (lg_nodes L),
       lg_ip_gates := update_first (\<lambda>g. sq_eq E (ig_ip_address g) ip)
                        (\<lambda>g. g\<lparr>ig_last_allocation_at := Some (sq_now E), ig_allocation_count := ig_allocation_count g + 1\<rparr>)
                        (lg_ip_gates L)\<rparr>"

definition mysql_maybe_allocate_free_credits :: "sql_env \<Rightarrow> string \<Rightarrow> string \<Rightarrow> ledger \<Rightarrow> f64 \<times> ledger" where
  "mysql_maybe_allocate_free_credits E node_id ip L =
     (if list_ex (\<lambda>k. sq_fails E k \<noteq> None) [0, 1, 2, 3] then (0, L)
      else
        (let L1 = ensure_gate E ip (ensure_credit_row E node_id 0 L)
         in case find_credit E L1 node_id of
              None \<Rightarrow> (0, L)
            | Some c \<Rightarrow>
                (let balance = sql_double (cr_balance c);
                     ip_blocked = (if sq_fails E 4 \<noteq> None then True
                                   else (case find_gate E L1 ip of None \<Rightarrow> True | Some g \<Rightarrow> recently E (ig_last_allocation_at g)))
                 in if balance > 0 \<or> recently E (cr_free_credit_last_allocation_at c) \<or> ip_blocked then (0, L)
                    else if list_ex (\<lambda>k. sq_fails E k \<noteq> None) [5, 6, 7, 8, 9] \<or> find_account E L1 node_id = None then (0, L)
                    else (100, write_free_allocation E node_id ip (sq_decimal E (fadd balance 100)) L1))))"

section \<open>Views\<close>

definition mysql_credit_balance :: "sql_env \<Rightarrow> ledger \<Rightarrow> string \<Rightarrow> f64 option" where
  "mysql_credit_balance E L i =
     (if sq_fails E 0 \<noteq> None then None else map_option (\<lambda>a. sql_double (ac_credit_balance a)) (find_account E L i))"

definition sum_of_type :: "tx_type \<Rightarrow> credit_transaction list \<Rightarrow> int" where
  "sum_of_type t txs = sum_list (map ct_amount (filter (\<lambda>x. ct_type x = t) txs))"

definition or_default :: "sql_env \<Rightarrow> nat \<Rightarrow> 'a \<Rightarrow> 'a \<Rightarrow> 'a" where
  "or_default E k x r = (if sq_fails E k \<noteq> None then x else r)"

definition mysql_credit_summary :: "sql_env \<Rightarrow> ledger \<Rightarrow> string \<Rightarrow> CreditSummary option" where
  "mysql_credit_summary E L i =
     map_option (\<lambda>balance.
       \<lparr>cs_balance = balance,
        cs_total_earned = or_default E 1 0 (sql_double (sum_of_type TxCredit (transactions_of E L i))),
        cs_total_spent = or_default E 2 0 (sql_double (sum_of_type TxDebit (transactions_of E L i))),
        cs_tx_count = or_default E 3 0 (of_nat (length (transactions_of E L i)))\<rparr>)
       (mysql_credit_balance E L i)"

definition operator_accounts :: "sql_env \<Rightarrow> ledger \<Rightarrow> string \<Rightarrow> account list" where
  "operator_accounts E L p =
     filter (\<lambda>a. (case ac_operator_pubkey a of None \<Rightarrow> False | Some q \<Rightarrow> sq_eq E q p) \<and> \<not> sq_eq E (ac_status a) ''archived'')
       (lg_nodes L)"

definition mysql_operator_wallet :: "sql_env \<Rightarrow> ledger \<Rightarrow> string \<Rightarrow> (f64 \<times> u32) option" where
  "mysql_operator_wallet E L i =
     (if sq_fails E 0 \<noteq> None then None
      else map_option (\<lambda>p. or_default E 1 (0, 0)
             (sql_double (sum_list (map ac_credit_balance (operator_accounts E L p))),
              of_nat (length (operator_accounts E L p)))) (account_operator E L i))"

definition wallet_transactions :: "sql_env \<Rightarrow> ledger \<Rightarrow> string \<Rightarrow> credit_transaction list" where
  "wallet_transactions E L p = concat (map (\<lambda>a. transactions_of E L (ac_id a)) (operator_accounts E L p))"

definition mysql_operator_wallet_summary :: "crypto \<Rightarrow> sql_env \<Rightarrow> ledger \<Rightarrow> string \<Rightarrow> OperatorWalletSummary option" where
  "mysql_operator_wallet_summary C E L i =
     (if sq_fails E 0 \<noteq> None then None
      else map_option (\<lambda>p.
        (let (total, nodes) = or_default E 1 (0, 0)
               (sql_double (sum_list (map ac_credit_balance (operator_accounts E L p))), of_nat (length (operator_accounts E L p)));
             earned = or_default E 2 0 (sql_double (sum_of_type TxCredit (wallet_transactions E L p)));
             spent = or_default E 3 0 (sql_double (sum_of_type TxDebit (wallet_transactions E L p)));
             n = or_default E 4 0 (of_nat (length (wallet_transactions E L p)))
         in \<lparr>ws_total_balance = total, ws_total_earned = earned, ws_total_spent = spent, ws_tx_count = n, ws_node_count = nodes,
             ws_reconciles = (\<bar>fsub total (fsub earned spent)\<bar> < round64 (1 / 10000)),
             ws_operator_fingerprint = operator_fingerprint C p\<rparr>)) (account_operator E L i))"

definition mysql_effective_credit_balance :: "sql_env \<Rightarrow> ledger \<Rightarrow> string \<Rightarrow> EffectiveCreditBalance option" where
  "mysql_effective_credit_balance E L i =
     (case mysql_credit_balance E L i of
        None \<Rightarrow> None
      | Some consumer_balance \<Rightarrow>
          (case (if sq_fails E 1 \<noteq> None then None else account_operator E L i) of
             None \<Rightarrow>
               Some \<lparr>eb_consumer_balance = consumer_balance, eb_effective_balance = consumer_balance, eb_balance_scope = ''node'',
                     eb_operator_wallet_balance = None\<rparr>
           | Some p \<Rightarrow>
               (let wallet = or_default E 2 0
                      (sql_double (sum_list (map ac_credit_balance (filter (spendable E L p) (lg_nodes L)))))
                in Some \<lparr>eb_consumer_balance = consumer_balance, eb_effective_balance = wallet,
                         eb_balance_scope = ''operator_wallet'', eb_operator_wallet_balance = Some wallet\<rparr>)))"

definition is_nonce_used :: "sql_env \<Rightarrow> ledger \<Rightarrow> string \<Rightarrow> bool" where
  "is_nonce_used E L nonce \<longleftrightarrow> sq_fails E 0 = None \<and> nonce_stored E nonce L"

text \<open>\<open>set_credit_balance\<close>, the absolute balance a replica takes over from the seed's event.\<close>

definition mysql_set_credit_balance :: "sql_env \<Rightarrow> string \<Rightarrow> f64 \<Rightarrow> ledger \<Rightarrow> bool \<times> ledger" where
  "mysql_set_credit_balance E i balance L =
     (if sq_fails E 0 \<noteq> None \<or> find_account E L i = None then (False, L)
      else (True, set_account_balance E i (sq_decimal E balance) L))"

end
