(* ===== verification/Ledger_Exact.thy ===== *)
theory Ledger_Exact
  imports Ledger
begin

text \<open>
  The operations of the credit ledger, one attempt at a time: what they leave in the three places a balance
  is kept, and that their floating-point arithmetic is exact within the numeric range. The central
  result is that the wallet debit computes the exact decimal allocation.
\<close>

section \<open>What the tables say of a node\<close>

definition node_balance :: "sql_env \<Rightarrow> ledger \<Rightarrow> string \<Rightarrow> int option" where
  "node_balance E L i = map_option ac_credit_balance (find_account E L i)"

definition credit_of :: "sql_env \<Rightarrow> ledger \<Rightarrow> string \<Rightarrow> int option" where
  "credit_of E L i = map_option cr_balance (find_credit E L i)"

definition signed :: "credit_transaction \<Rightarrow> int" where
  "signed t = (case ct_type t of TxCredit \<Rightarrow> ct_amount t | TxDebit \<Rightarrow> - ct_amount t)"

definition net :: "sql_env \<Rightarrow> ledger \<Rightarrow> string \<Rightarrow> int" where
  "net E L i = sum_list (map signed (transactions_of E L i))"

text \<open>
  The ledger reconciles: the balance of every node is the sum of its transactions, the row in
  \<open>credits\<close> says the same (a node without one has none), and no balance is overdrawn by
  more than the tolerance of one ten-thousandth.
\<close>

definition reconciled :: "sql_env \<Rightarrow> ledger \<Rightarrow> bool" where
  "reconciled E L \<longleftrightarrow>
     (\<forall>i k. node_balance E L i = Some k \<longrightarrow>
        k = net E L i \<and> - 1 \<le> k \<and> (credit_of E L i = Some k \<or> credit_of E L i = None \<and> k = 0))"

named_theorems ledger_views

lemma find_by_weight:
  assumes "\<And>x. w (f x) = w x"
  shows "find (\<lambda>x. sq_eq E (w x) j) (update_first (\<lambda>x. sq_eq E (w x) i) f xs)
    = (if sq_eq E i j then map_option f (find (\<lambda>x. sq_eq E (w x) j) xs) else find (\<lambda>x. sq_eq E (w x) j) xs)"
proof (cases "sq_eq E i j")
  case True
  then have "sq_eq E x i \<longleftrightarrow> sq_eq E x j" for x by (auto simp: sq_eq_def)
  then show ?thesis using True by (simp add: find_update_first assms)
next
  case False
  then show ?thesis by (auto simp: sq_eq_def assms intro: find_update_first_other)
qed

lemma env_fields [simp]:
  "sq_eq (E\<lparr>sq_fails := f\<rparr>) = sq_eq E" "sq_eq (E\<lparr>sq_now := t\<rparr>) = sq_eq E"
  by (simp_all add: sq_eq_def fun_eq_iff)

lemma env_lookups [simp]:
  "find_account (E\<lparr>sq_fails := f\<rparr>) = find_account E" "find_account (E\<lparr>sq_now := t\<rparr>) = find_account E"
  "find_credit (E\<lparr>sq_fails := f\<rparr>) = find_credit E" "find_credit (E\<lparr>sq_now := t\<rparr>) = find_credit E"
  "transactions_of (E\<lparr>sq_fails := f\<rparr>) = transactions_of E" "transactions_of (E\<lparr>sq_now := t\<rparr>) = transactions_of E"
  by (simp_all add: find_account_def find_credit_def transactions_of_def fun_eq_iff)

lemma env_views [simp]:
  "node_balance (E\<lparr>sq_fails := f\<rparr>) = node_balance E" "node_balance (E\<lparr>sq_now := t\<rparr>) = node_balance E"
  "credit_of (E\<lparr>sq_fails := f\<rparr>) = credit_of E" "credit_of (E\<lparr>sq_now := t\<rparr>) = credit_of E"
  "net (E\<lparr>sq_fails := f\<rparr>) = net E" "net (E\<lparr>sq_now := t\<rparr>) = net E"
  "reconciled (E\<lparr>sq_fails := f\<rparr>) = reconciled E" "reconciled (E\<lparr>sq_now := t\<rparr>) = reconciled E"
  by (simp_all add: node_balance_def credit_of_def net_def reconciled_def fun_eq_iff)

lemma view_set_account [ledger_views]:
  "node_balance E (set_account_balance E i k L) j = (if sq_eq E i j \<and> node_balance E L j \<noteq> None then Some k else node_balance E L j)"
  "credit_of E (set_account_balance E i k L) = credit_of E L"
  "net E (set_account_balance E i k L) = net E L"
  by (auto simp: node_balance_def credit_of_def net_def find_account_def find_credit_def transactions_of_def set_account_balance_def
      find_by_weight option.map_comp comp_def fun_eq_iff)

lemma view_set_credit [ledger_views]:
  "node_balance E (set_credit_row E i k L) = node_balance E L"
  "credit_of E (set_credit_row E i k L) j = (if sq_eq E i j \<and> credit_of E L j \<noteq> None then Some k else credit_of E L j)"
  "net E (set_credit_row E i k L) = net E L"
  by (auto simp: node_balance_def credit_of_def net_def find_account_def find_credit_def transactions_of_def set_credit_row_def
      find_by_weight option.map_comp comp_def fun_eq_iff)

lemma view_insert [ledger_views]:
  "node_balance E (insert_transaction t L) = node_balance E L"
  "credit_of E (insert_transaction t L) = credit_of E L"
  "net E (insert_transaction t L) j = net E L j + (if sq_eq E (ct_node_id t) j then signed t else 0)"
  by (auto simp: node_balance_def credit_of_def net_def find_account_def find_credit_def transactions_of_def insert_transaction_def
      fun_eq_iff)

lemma view_cong:
  "sq_eq E i j \<Longrightarrow> node_balance E L i = node_balance E L j" "sq_eq E i j \<Longrightarrow> credit_of E L i = credit_of E L j"
  "sq_eq E i j \<Longrightarrow> net E L i = net E L j"
  by (auto simp: sq_eq_def node_balance_def credit_of_def net_def find_account_def find_credit_def transactions_of_def)

lemma joined_views:
  "joined E L i = Some (a, c) \<Longrightarrow> node_balance E L i = Some (ac_credit_balance a) \<and> credit_of E L i = Some (cr_balance c)"
  "joined E L i = None \<longleftrightarrow> node_balance E L i = None \<or> credit_of E L i = None"
proof -
  have c: "find_credit E L (ac_id a) = find_credit E L i" if "find_account E L i = Some a" for a
    using that by (auto simp: find_account_def find_credit_def sq_eq_def dest!: find_Some_set)
  show "joined E L i = Some (a, c) \<Longrightarrow> node_balance E L i = Some (ac_credit_balance a) \<and> credit_of E L i = Some (cr_balance c)"
    by (auto simp: joined_def node_balance_def credit_of_def c split: option.splits)
  show "joined E L i = None \<longleftrightarrow> node_balance E L i = None \<or> credit_of E L i = None"
    by (auto simp: joined_def node_balance_def credit_of_def c split: option.splits)
qed

lemma reconciled_joined:
  assumes "reconciled E L" "joined E L i = Some (a, c)"
  shows "ac_credit_balance a = net E L i" "cr_balance c = net E L i" "agrees a c" "- 1 \<le> net E L i"
proof -
  note v = joined_views(1) [OF assms(2)]
  then have "ac_credit_balance a = net E L i \<and> - 1 \<le> ac_credit_balance a \<and> cr_balance c = ac_credit_balance a"
    using assms(1) unfolding reconciled_def by force
  then show "ac_credit_balance a = net E L i" "cr_balance c = net E L i" "agrees a c" "- 1 \<le> net E L i"
    by (simp_all add: agrees_def)
qed

text \<open>The one lemma behind every operation: move both balances by what a transaction says.\<close>

definition posted :: "sql_env \<Rightarrow> string \<Rightarrow> credit_transaction \<Rightarrow> ledger \<Rightarrow> ledger" where
  "posted E i t L =
     insert_transaction t (set_credit_row E i (net E L i + signed t) (set_account_balance E i (net E L i + signed t) L))"

lemma reconciled_moved:
  assumes "reconciled E L" "credit_of E L i \<noteq> None" "- 1 \<le> net E L i + d"
    and "\<And>j. node_balance E L' j = (if sq_eq E i j \<and> node_balance E L j \<noteq> None then Some (net E L i + d) else node_balance E L j)"
    and "\<And>j. credit_of E L' j = (if sq_eq E i j \<and> credit_of E L j \<noteq> None then Some (net E L i + d) else credit_of E L j)"
    and "\<And>j. net E L' j = net E L j + (if sq_eq E i j then d else 0)"
  shows "reconciled E L'"
  unfolding reconciled_def
proof (intro allI impI)
  fix j k assume k: "node_balance E L' j = Some k"
  show "k = net E L' j \<and> - 1 \<le> k \<and> (credit_of E L' j = Some k \<or> credit_of E L' j = None \<and> k = 0)"
  proof (cases "sq_eq E i j")
    case True
    then show ?thesis using k assms(2-6) view_cong(2,3) [OF True, of L] by (auto split: if_splits)
  next
    case False
    then show ?thesis using k assms(1,4-6) by (auto simp: reconciled_def)
  qed
qed

lemma reconciled_posted:
  assumes "reconciled E L" "credit_of E L i \<noteq> None" "sq_eq E (ct_node_id t) i" "- 1 \<le> net E L i + signed t"
  shows "reconciled E (posted E i t L)"
  using assms(3) by (intro reconciled_moved [OF assms(1,2,4)]) (auto simp: posted_def ledger_views sq_eq_def)

section \<open>Exact amounts\<close>

text \<open>
  The numeric range of the theorems: up to a thousand nodes that hold at most ten million credits
  together, and amounts that are multiples of a ten-thousandth up to as much. There every
  float of the code is near its decimal and every stored value exact.
\<close>

definition MAX_CREDIT :: int where
  "MAX_CREDIT = 10 ^ 11"

definition in_range :: "sql_env \<Rightarrow> ledger \<Rightarrow> bool" where
  "in_range E L \<longleftrightarrow>
     distinct (map (\<lambda>a. sq_weight E (ac_id a)) (lg_nodes L)) \<and> length (lg_nodes L) \<le> 1000
     \<and> sum_list (map (\<lambda>a. \<bar>ac_credit_balance a\<bar>) (lg_nodes L)) \<le> MAX_CREDIT"

lemma in_range_env [simp]: "in_range (E\<lparr>sq_fails := f\<rparr>) = in_range E" "in_range (E\<lparr>sq_now := t\<rparr>) = in_range E"
  by (simp_all add: in_range_def fun_eq_iff)

lemma in_range_balance:
  assumes "in_range E L" "node_balance E L i = Some k"
  shows "\<bar>k\<bar> \<le> MAX_CREDIT"
proof -
  obtain a where "a \<in> set (lg_nodes L)" "k = ac_credit_balance a"
    using assms(2) by (auto simp: node_balance_def find_account_def dest!: find_Some_set)
  then have "\<bar>k\<bar> \<le> sum_list (map (\<lambda>a. \<bar>ac_credit_balance a\<bar>) (lg_nodes L))"
    by (intro member_le_sum_list) auto
  then show ?thesis using assms(1) by (simp add: in_range_def)
qed

lemma minus_exact:
  assumes "nearest_decimal (sq_decimal E)" "near d x t" "d \<le> 1 / 40000" "\<bar>k\<bar> \<le> MAX_CREDIT" "\<bar>t\<bar> \<le> MAX_CREDIT"
  shows "minus_double E x k = k - t"
proof -
  have "near (float_error + d + float_error) (fsub (sql_double k) x) (k - t)"
    using assms(2-5) by (intro near_fsub near_double) (simp_all add: MAX_CREDIT_def amount_bound_def float_error_def)
  then show ?thesis unfolding minus_double_def
    by (rule near_stored [OF assms(1)]) (use assms(3) in \<open>simp add: float_error_def\<close>)
qed

lemma exact_stored:
  assumes "nearest_decimal dec" "near d x t" "d \<le> 1 / 40000"
  shows "dec x = t"
  by (rule near_stored [OF assms(1,2)]) (use assms(3) in simp)

lemma near_exact: "\<bar>k\<bar> \<le> MAX_CREDIT \<Longrightarrow> near float_error (sql_double k) k"
  by (rule near_double) (simp add: MAX_CREDIT_def amount_bound_def)

lemma update_joined_posted:
  assumes "reconciled E L" "update_joined E i p f L = Some L1" "f (net E L i) = net E L i + signed t"
  shows "insert_transaction t L1 = posted E i t L" "credit_of E L i \<noteq> None" "node_balance E L i = Some (net E L i)"
    "\<exists>a c. p a c \<and> ac_credit_balance a = net E L i \<and> cr_balance c = net E L i"
proof -
  obtain a c where j: "joined E L i = Some (a, c)" "p a c"
      "L1 = set_credit_row E i (f (cr_balance c)) (set_account_balance E i (f (ac_credit_balance a)) L)"
    using assms(2) by (auto simp: update_joined_def split: option.splits if_splits)
  note r = reconciled_joined [OF assms(1) j(1)]
  show "insert_transaction t L1 = posted E i t L" by (simp add: j(3) r posted_def assms(3))
  show "credit_of E L i \<noteq> None" "node_balance E L i = Some (net E L i)" using joined_views(1) [OF j(1)] r by simp_all
  show "\<exists>a c. p a c \<and> ac_credit_balance a = net E L i \<and> cr_balance c = net E L i" using j(2) r by blast
qed

lemma debit_node_posts:
  assumes "nearest_decimal (sq_decimal E)" "reconciled E L" "in_range E L" "0 \<le> k" "k \<le> MAX_CREDIT"
  shows "reconciled E (snd (debit_node_once E i (sql_double k) task_id reason L))"
proof (cases "snd (debit_node_once E i (sql_double k) task_id reason L) = L")
  case False
  let ?t = "debit_tx E i (sql_double k) (Some task_id) reason"
  let ?p = "\<lambda>a c. sql_double k \<le> sql_double (ac_credit_balance a + 1) \<and> sql_double k \<le> sql_double (cr_balance c + 1) \<and> agrees a c"
  have nk: "near float_error (sql_double k) k" by (rule near_exact) (use assms(4,5) in simp)
  obtain L1 where u: "update_joined E i ?p (minus_double E (sql_double k)) L = Some L1"
      and L': "snd (debit_node_once E i (sql_double k) task_id reason L) = insert_transaction ?t L1"
    using False by (auto simp: debit_node_once_def transaction_def statement_def split: option.splits)
  have st: "signed ?t = - k"
    using exact_stored [OF assms(1) nk] by (simp add: debit_tx_def signed_def float_error_def)
  have "node_balance E L i = Some (net E L i)"
    using u reconciled_joined [OF assms(2)] joined_views(1) by (fastforce simp: update_joined_def split: option.splits if_splits)
  then have b: "\<bar>net E L i\<bar> \<le> MAX_CREDIT" by (rule in_range_balance [OF assms(3)])
  have "minus_double E (sql_double k) (net E L i) = net E L i + signed ?t"
    unfolding st using minus_exact [OF assms(1) nk _ b] assms(4,5) by (simp add: float_error_def)
  note post = update_joined_posted [OF assms(2) u this]
  have "sql_double k \<le> sql_double (net E L i + 1)" using post(4) by auto
  then have "k \<le> net E L i + 1"
    by (subst (asm) sql_double_le_iff) (use b assms(4,5) in \<open>simp_all add: MAX_CREDIT_def amount_bound_def\<close>)
  then show ?thesis unfolding L' post(1)
    by (intro reconciled_posted assms(2) post(2)) (use st in \<open>simp_all add: debit_tx_def\<close>)
qed (use assms(2) in simp)

section \<open>The wallet, exactly\<close>

text \<open>The allocation in exact decimals: take from each node in turn what is still needed, at most what it has.\<close>

fun allot :: "int \<Rightarrow> (string \<times> int) list \<Rightarrow> (string \<times> int) list" where
  "allot r [] = []"
| "allot r ((i, b) # rest) = (if r \<le> 0 then [] else (i, min r b) # allot (r - min r b) rest)"

definition wallet_tx :: "string \<Rightarrow> string \<Rightarrow> string \<Rightarrow> string \<Rightarrow> int \<Rightarrow> credit_transaction" where
  "wallet_tx consumer task_id reason i k =
     \<lparr>ct_node_id = i, ct_amount = k, ct_type = TxDebit, ct_task_id = Some task_id, ct_nonce = None,
      ct_reason = Some (wallet_reason reason consumer i), ct_expires_at = None, ct_created_at = None\<rparr>"

definition exact_debits :: "sql_env \<Rightarrow> string \<Rightarrow> string \<Rightarrow> string \<Rightarrow> (string \<times> int) list \<Rightarrow> ledger \<Rightarrow> ledger" where
  "exact_debits E consumer task_id reason takes L =
     fold (\<lambda>(i, k). posted E i (wallet_tx consumer task_id reason i k)) takes L"

definition taken :: "(string \<times> int) list \<Rightarrow> int" where
  "taken takes = sum_list (map snd takes)"

lemma allot_taken: "0 \<le> r \<Longrightarrow> \<forall>(i, b) \<in> set cs. 0 \<le> b \<Longrightarrow> taken (allot r cs) = min r (taken cs)"
proof (induction r cs rule: allot.induct)
  case (2 r i b rest)
  have "0 \<le> taken rest" using 2(3) unfolding taken_def by (intro sum_list_nonneg) auto
  with 2 show ?case by (auto simp: taken_def min_def)
qed (simp add: taken_def)

lemma node_balance_posted: "\<not> sq_eq E i j \<Longrightarrow> node_balance E (posted E i t L) j = node_balance E L j"
  by (simp add: posted_def ledger_views)

text \<open>One turn of the loop: what it compares, takes and stores.\<close>

lemma float_error_value: "float_error = 1 / 134217728"
  by (simp add: float_error_def)

lemma near_bounds: "near d x k \<Longrightarrow> of_int k / 10000 - d \<le> x \<and> x \<le> of_int k / 10000 + d"
  unfolding near_def by linarith

lemma loop_stops:
  assumes "near d remaining r" "d \<le> 1 / 40000" "0 \<le> r"
  shows "remaining \<le> round64 (5 / 100000) \<longleftrightarrow> r \<le> 0"
proof -
  have "\<bar>round64 (5 / 100000) - 5 / 100000\<bar> \<le> float_error" by (rule near_round) simp
  then have lit: "4 / 100000 \<le> round64 (5 / 100000)" "round64 (5 / 100000) \<le> 6 / 100000"
    unfolding float_error_value by linarith+
  note b = near_bounds [OF assms(1)]
  show ?thesis
  proof (cases "r \<le> 0")
    case True
    then have "r = 0" using assms(3) by simp
    then show ?thesis using True b lit assms(2) by simp
  next
    case False
    then have "of_int 1 \<le> (of_int r :: rat)" by (simp only: of_int_le_iff)
    then show ?thesis using False b lit assms(2) by simp
  qed
qed

lemma loop_take:
  assumes "near d remaining r" "near float_error balance b" "float_error \<le> d" "d \<le> 1 / 40000" "0 \<le> r" "0 \<le> b" "r \<le> MAX_CREDIT" "b \<le> MAX_CREDIT"
  shows "near d (min remaining balance) (min r b)"
    and "near (d + 2 * float_error) (fsub remaining (min remaining balance)) (r - min r b)"
proof -
  have m: "near d balance b" by (rule near_mono [OF assms(2,3)])
  have lt: "r < b \<Longrightarrow> remaining < balance" "b < r \<Longrightarrow> balance < remaining"
    using near_less [OF assms(1) m] near_less [OF m assms(1)] assms(4) by simp_all
  show "near d (min remaining balance) (min r b)"
    using assms(1) m lt by (cases r b rule: linorder_cases) (auto simp: min_def)
  consider "min remaining balance = remaining" "r \<le> b" | "min remaining balance = balance" "b \<le> r"
    using lt by (cases "remaining \<le> balance") (force simp: min_def not_le)+
  then show "near (d + 2 * float_error) (fsub remaining (min remaining balance)) (r - min r b)"
  proof cases
    case 1
    have "(0::rat) \<le> float_error" by (simp add: float_error_def)
    moreover have "fsub remaining remaining = 0" by (simp add: fsub_def)
    ultimately show ?thesis unfolding 1(1) using 1(2) assms(3) by (simp add: near_def min_def)
  next
    case 2
    have "near (d + float_error + float_error) (fsub remaining balance) (r - b)"
      using assms(4-8) by (intro near_fsub assms(1,2)) (simp_all add: MAX_CREDIT_def amount_bound_def float_error_def abs_le_iff)
    then have "near (d + 2 * float_error) (fsub remaining balance) (r - b)" by (rule near_mono) simp
    then show ?thesis unfolding 2(1) min_absorb2 [OF 2(2)] .
  qed
qed

lemma wallet_turn:
  assumes "nearest_decimal (sq_decimal E)" "reconciled E L" "node_balance E L i = Some b" "0 < b" "b \<le> MAX_CREDIT"
    and "near d x t" "d \<le> 1 / 40000" "0 \<le> t" "t \<le> b"
  shows "update_joined E i agrees (minus_double E x) L
      = Some (set_credit_row E i (b - t) (set_account_balance E i (b - t) L))"
    and "\<exists>c. find_credit E L i = Some c \<and> cr_balance c = b" and "net E L i = b"
    and "debit_tx E i x (Some task_id) (wallet_reason reason consumer i) = wallet_tx consumer task_id reason i t"
proof -
  have "b = net E L i \<and> (credit_of E L i = Some b \<or> credit_of E L i = None \<and> b = 0)"
    using assms(2,3) unfolding reconciled_def by blast
  then have r: "net E L i = b" "credit_of E L i = Some b" using assms(4) by auto
  then show "net E L i = b" by simp
  show "\<exists>c. find_credit E L i = Some c \<and> cr_balance c = b" using r(2) by (auto simp: credit_of_def)
  obtain a c where j: "joined E L i = Some (a, c)" using joined_views(2) [of E L i] assms(3) r(2) by fastforce
  note v = reconciled_joined [OF assms(2) j]
  have "minus_double E x b = b - t"
    using assms(4,5,8,9) by (intro minus_exact [OF assms(1,6,7)]) simp_all
  then show "update_joined E i agrees (minus_double E x) L
      = Some (set_credit_row E i (b - t) (set_account_balance E i (b - t) L))"
    using j v r(1) by (simp add: update_joined_def)
  show "debit_tx E i x (Some task_id) (wallet_reason reason consumer i) = wallet_tx consumer task_id reason i t"
    using exact_stored [OF assms(1,6,7)] by (simp add: debit_tx_def wallet_tx_def)
qed

lemma wallet_loop_turn:
  fixes consumer task_id reason :: string
  assumes "nearest_decimal (sq_decimal E)" "reconciled E L" "near d remaining r" "0 < r" "r \<le> MAX_CREDIT"
    and "float_error \<le> d" "d \<le> 1 / 40000" "node_balance E L i = Some b" "0 < b" "b \<le> MAX_CREDIT"
  defines "x \<equiv> min remaining (sql_double b)" and "t \<equiv> min r b"
  defines "L' \<equiv> posted E i (wallet_tx consumer task_id reason i t) L"
  shows "wallet_loop E consumer task_id reason ((i, sql_double b) # rest) (remaining, n, k, L)
      = statement E (DebitDatabase ''operator_wallet'') k (statement E (DebitDatabase ''operator_wallet'') (k + 1)
          (statement E (DebitDatabase ''operator_wallet'') (k + 2)
            (wallet_loop E consumer task_id reason rest (fsub remaining x, n + 1, k + 3, L'))))"
    and "reconciled E L'" and "near (d + 2 * float_error) (fsub remaining x) (r - t)"
proof -
  have stop: "\<not> remaining \<le> round64 (5 / 100000)" using loop_stops [OF assms(3,7)] assms(4) by simp
  have nb: "near float_error (sql_double b) b" by (rule near_exact) (use assms(9,10) in simp)
  have tx: "near d x t" and x2: "near (d + 2 * float_error) (fsub remaining x) (r - t)"
    using loop_take [OF assms(3) nb assms(6,7)] assms(4,5,9,10) unfolding x_def t_def by simp_all
  then show "near (d + 2 * float_error) (fsub remaining x) (r - t)" by simp
  have t: "0 \<le> t" "t \<le> b" using assms(4,9) unfolding t_def by simp_all
  note turn = wallet_turn [OF assms(1,2,8-10) tx assms(7) t]
  obtain c where c: "find_credit E L i = Some c" "cr_balance c = b" using turn(2) by blast
  have L1: "insert_transaction (wallet_tx consumer task_id reason i t) (set_credit_row E i (b - t) (set_account_balance E i (b - t) L)) = L'"
    using turn(3) by (simp add: L'_def posted_def signed_def wallet_tx_def)
  show "reconciled E L'" unfolding L'_def
    by (rule reconciled_posted [OF assms(2)]) (use c t turn(3) in \<open>simp_all add: credit_of_def wallet_tx_def signed_def\<close>)
  show "wallet_loop E consumer task_id reason ((i, sql_double b) # rest) (remaining, n, k, L)
      = statement E (DebitDatabase ''operator_wallet'') k (statement E (DebitDatabase ''operator_wallet'') (k + 1)
          (statement E (DebitDatabase ''operator_wallet'') (k + 2)
            (wallet_loop E consumer task_id reason rest (fsub remaining x, n + 1, k + 3, L'))))"
    using stop c turn(1) L1 turn(4) [of task_id reason consumer] f64.rnd_nonneg [of "1 / 10000"]
    by (simp add: Let_def fsub_def x_def)
qed

text \<open>
  The loop computes the exact allocation: unless a statement fails, it ends with exactly the rows the
  decimal allocation leaves, and what remains in the float is what remains in decimals.
\<close>

lemma wallet_loop_exact:
  assumes "nearest_decimal (sq_decimal E)" "reconciled E L" "near d remaining r" "0 \<le> r" "r \<le> MAX_CREDIT"
    and "float_error \<le> d" "d + 2 * of_nat (length cs) * float_error \<le> 1 / 40000"
    and "\<forall>(i, b) \<in> set cs. 0 < b \<and> b \<le> MAX_CREDIT \<and> node_balance E L i = Some b"
    and "distinct (map (\<lambda>(i, _). sq_weight E i) cs)"
  shows "(\<exists>e. wallet_loop E consumer task_id reason (map (\<lambda>(i, b). (i, sql_double b)) cs) (remaining, n, k, L) = Inl e
            \<and> (\<exists>k. sq_fails E k \<noteq> None))
      \<or> (\<exists>rem k'. wallet_loop E consumer task_id reason (map (\<lambda>(i, b). (i, sql_double b)) cs) (remaining, n, k, L)
              = Inr (rem, n + of_nat (length (allot r cs)), k', exact_debits E consumer task_id reason (allot r cs) L)
            \<and> near (1 / 40000) rem (r - taken (allot r cs))
            \<and> reconciled E (exact_debits E consumer task_id reason (allot r cs) L))"
  using assms(2-9)
proof (induction cs arbitrary: L d remaining r n k)
  case Nil
  then show ?case by (auto simp: exact_debits_def taken_def near_def)
next
  case (Cons c cs)
  obtain i b where c: "c = (i, b)" by (cases c)
  have fe: "(0::rat) \<le> float_error" by (simp add: float_error_def)
  have "0 \<le> 2 * of_nat (length (c # cs)) * float_error" using fe by simp
  then have d: "d \<le> 1 / 40000" using Cons.prems(6) by linarith
  have b: "0 < b" "b \<le> MAX_CREDIT" "node_balance E L i = Some b" using Cons.prems(7) by (auto simp: c)
  show ?case
  proof (cases "r \<le> 0")
    case True
    then have "remaining \<le> round64 (5 / 100000)" using loop_stops [OF Cons.prems(2) d Cons.prems(3)] by simp
    then show ?thesis using True Cons.prems(1) near_mono [OF Cons.prems(2) d] by (simp add: c exact_debits_def taken_def)
  next
    case False
    let ?x = "min remaining (sql_double b)" and ?t = "min r b"
    let ?L = "posted E i (wallet_tx consumer task_id reason i ?t) L"
    note turn = wallet_loop_turn [OF assms(1) Cons.prems(1,2) _ Cons.prems(4,5) d b(3,1,2)]
    have rec: "reconciled E ?L" and tx2: "near (d + 2 * float_error) (fsub remaining ?x) (r - ?t)"
      using turn(2,3) False by simp_all
    have others: "\<forall>(j, b') \<in> set cs. 0 < b' \<and> b' \<le> MAX_CREDIT \<and> node_balance E ?L j = Some b'"
    proof (clarify)
      fix j b' assume jb: "(j, b') \<in> set cs"
      then have "sq_weight E i \<noteq> sq_weight E j" using Cons.prems(8) by (force simp: c)
      then have "\<not> sq_eq E i j" by (simp add: sq_eq_def)
      from node_balance_posted [OF this] show "0 < b' \<and> b' \<le> MAX_CREDIT \<and> node_balance E ?L j = Some b'"
        using jb Cons.prems(7) by auto
    qed
    have IH: "(\<exists>e. wallet_loop E consumer task_id reason (map (\<lambda>(i, b). (i, sql_double b)) cs)
                  (fsub remaining ?x, n + 1, k + 3, ?L) = Inl e \<and> (\<exists>k. sq_fails E k \<noteq> None))
        \<or> (\<exists>rem k'. wallet_loop E consumer task_id reason (map (\<lambda>(i, b). (i, sql_double b)) cs) (fsub remaining ?x, n + 1, k + 3, ?L)
              = Inr (rem, n + 1 + of_nat (length (allot (r - ?t) cs)), k', exact_debits E consumer task_id reason (allot (r - ?t) cs) ?L)
            \<and> near (1 / 40000) rem (r - ?t - taken (allot (r - ?t) cs))
            \<and> reconciled E (exact_debits E consumer task_id reason (allot (r - ?t) cs) ?L))"
      using Cons.prems(3-6,8) b(1) fe
      by (intro Cons.IH [OF rec tx2 _ _ _ _ others]) (auto simp: c algebra_simps)
    have step: "wallet_loop E consumer task_id reason (map (\<lambda>(i, b). (i, sql_double b)) (c # cs)) (remaining, n, k, L)
        = statement E (DebitDatabase ''operator_wallet'') k (statement E (DebitDatabase ''operator_wallet'') (k + 1)
            (statement E (DebitDatabase ''operator_wallet'') (k + 2)
              (wallet_loop E consumer task_id reason (map (\<lambda>(i, b). (i, sql_double b)) cs) (fsub remaining ?x, n + 1, k + 3, ?L))))"
      using turn(1) False by (simp add: c)
    show ?thesis
    proof (cases "sq_fails E k = None \<and> sq_fails E (k + 1) = None \<and> sq_fails E (k + 2) = None")
      case True
      then show ?thesis using IH False unfolding step
        by (auto simp: statement_def c exact_debits_def taken_def algebra_simps)
    next
      case f: False
      then show ?thesis unfolding step by (auto simp: statement_def split: option.splits)
    qed
  qed
qed

section \<open>The wallet debit as a whole\<close>

definition wallet_rows :: "sql_env \<Rightarrow> ledger \<Rightarrow> string \<Rightarrow> (string \<times> int) list" where
  "wallet_rows E L p =
     map (\<lambda>a. (ac_id a, ac_credit_balance a))
       (sort_key (\<lambda>a. (horizon E L (ac_id a) = None, unwrap_or 0 (horizon E L (ac_id a)), sq_weight E (ac_id a)))
          (filter (spendable E L p) (lg_nodes L)))"

lemma wallet_candidates_rows: "wallet_candidates E L p = map (\<lambda>(i, b). (i, sql_double b)) (wallet_rows E L p)"
  by (simp add: wallet_candidates_def wallet_rows_def comp_def)

lemma distinct_find:
  "distinct (map w xs) \<Longrightarrow> x \<in> set xs \<Longrightarrow> find (\<lambda>y. w y = w x) xs = Some x"
  by (induction xs) (auto simp: image_iff)

lemma abs_sum_filter: "sum_list (map f (filter p xs)) \<le> sum_list (map (\<lambda>x. \<bar>f x\<bar> :: int) xs)"
  by (induction xs) auto

lemma wallet_rows_ok:
  assumes "in_range E L"
  shows "\<forall>(i, b) \<in> set (wallet_rows E L p). 0 < b \<and> b \<le> MAX_CREDIT \<and> node_balance E L i = Some b"
    and "distinct (map (\<lambda>(i, _). sq_weight E i) (wallet_rows E L p))"
    and "length (wallet_rows E L p) \<le> 1000" and "taken (wallet_rows E L p) \<le> MAX_CREDIT"
proof -
  let ?s = "sort_key (\<lambda>a. (horizon E L (ac_id a) = None, unwrap_or 0 (horizon E L (ac_id a)), sq_weight E (ac_id a)))
      (filter (spendable E L p) (lg_nodes L))"
  have d: "distinct (map (\<lambda>a. sq_weight E (ac_id a)) (lg_nodes L))" and len: "length (lg_nodes L) \<le> 1000"
    and total: "sum_list (map (\<lambda>a. \<bar>ac_credit_balance a\<bar>) (lg_nodes L)) \<le> MAX_CREDIT"
    using assms by (simp_all add: in_range_def)
  have nb: "node_balance E L (ac_id a) = Some (ac_credit_balance a)" if "a \<in> set (lg_nodes L)" for a
    using distinct_find [OF d that] by (simp add: node_balance_def find_account_def sq_eq_def)
  show "\<forall>(i, b) \<in> set (wallet_rows E L p). 0 < b \<and> b \<le> MAX_CREDIT \<and> node_balance E L i = Some b"
    using nb in_range_balance [OF assms] by (fastforce simp: wallet_rows_def spendable_def)
  have "distinct (map (\<lambda>a. sq_weight E (ac_id a)) (filter (spendable E L p) (lg_nodes L)))"
    using d by (simp add: distinct_map inj_on_def)
  then have "distinct (map (\<lambda>a. sq_weight E (ac_id a)) ?s)" by (simp add: distinct_map)
  then show "distinct (map (\<lambda>(i, _). sq_weight E i) (wallet_rows E L p))" by (simp add: wallet_rows_def comp_def)
  show "length (wallet_rows E L p) \<le> 1000" using len by (simp add: wallet_rows_def le_trans [OF length_filter_le])
  have "taken (wallet_rows E L p) = sum_list (map ac_credit_balance ?s)" by (simp add: taken_def wallet_rows_def comp_def)
  also have "\<dots> = sum_list (map ac_credit_balance (filter (spendable E L p) (lg_nodes L)))"
    by (simp flip: sum_mset_sum_list)
  also have "\<dots> \<le> sum_list (map (\<lambda>a. \<bar>ac_credit_balance a\<bar>) (lg_nodes L))" by (rule abs_sum_filter)
  finally show "taken (wallet_rows E L p) \<le> MAX_CREDIT" using total by simp
qed

lemma fsum_near:
  assumes "near d s k" "0 \<le> k" "\<forall>b \<in> set bs. 0 \<le> b" "k + sum_list bs \<le> MAX_CREDIT"
    and "0 \<le> d" "d + 2 * of_nat (length bs) * float_error \<le> 1 / 40000"
  shows "near (d + 2 * of_nat (length bs) * float_error) (foldl fadd s (map sql_double bs)) (k + sum_list bs)"
  using assms
proof (induction bs arbitrary: s k d)
  case (Cons b bs)
  have fe: "(0::rat) \<le> float_error" by (simp add: float_error_def)
  have pos: "0 \<le> sum_list bs" using Cons.prems(3) by (intro sum_list_nonneg) auto
  have "0 \<le> 2 * of_nat (length (b # bs)) * float_error" using fe by simp
  then have d: "d \<le> 1 / 40000" using Cons.prems(6) by linarith
  have "near float_error (sql_double b) b" using Cons.prems(2-4) pos by (intro near_exact) simp
  then have "near (d + float_error + float_error) (fadd s (sql_double b)) (k + b)"
    using Cons.prems(1-4) pos d
    by (intro near_fadd) (simp_all add: MAX_CREDIT_def amount_bound_def float_error_def)
  then have "near (d + 2 * float_error) (fadd s (sql_double b)) (k + b)" by (rule near_mono) simp
  from Cons.IH [OF this] Cons.prems(2-6) fe show ?case by (simp add: algebra_simps)
qed simp

lemma available_near:
  assumes "in_range E L"
  shows "near (1 / 50000) (fsum (map snd (wallet_candidates E L p))) (taken (wallet_rows E L p))"
proof -
  let ?bs = "map snd (wallet_rows E L p)"
  note w = wallet_rows_ok [OF assms, of p]
  have "2 * of_nat (length ?bs) * float_error \<le> (1 / 50000 :: rat)"
    using w(3) unfolding float_error_value by (simp add: field_simps)
  moreover have "near (0 + 2 * of_nat (length ?bs) * float_error) (foldl fadd 0 (map sql_double ?bs)) (0 + sum_list ?bs)"
    by (rule fsum_near) (use w calculation in \<open>force simp: near_def taken_def\<close>)+
  ultimately show ?thesis
    by (simp add: fsum_def taken_def wallet_candidates_rows comp_def case_prod_beta near_mono)
qed

lemma wallet_loop_whole:
  assumes "nearest_decimal (sq_decimal E)" "reconciled E L" "in_range E L" "0 \<le> k" "k \<le> MAX_CREDIT"
  shows "(\<exists>e. wallet_loop E consumer task_id reason (wallet_candidates E L p) (sql_double k, 0, 2, L) = Inl e
            \<and> (\<exists>j. sq_fails E j \<noteq> None))
      \<or> (\<exists>rem k'. wallet_loop E consumer task_id reason (wallet_candidates E L p) (sql_double k, 0, 2, L)
              = Inr (rem, of_nat (length (allot k (wallet_rows E L p))), k',
                     exact_debits E consumer task_id reason (allot k (wallet_rows E L p)) L)
            \<and> near (1 / 40000) rem (k - taken (allot k (wallet_rows E L p)))
            \<and> reconciled E (exact_debits E consumer task_id reason (allot k (wallet_rows E L p)) L))"
proof -
  note w = wallet_rows_ok [OF assms(3), of p]
  have len: "float_error + 2 * of_nat (length (wallet_rows E L p)) * float_error \<le> 1 / 40000"
    using w(3) unfolding float_error_value by (simp add: field_simps)
  have "near float_error (sql_double k) k" by (rule near_exact) (use assms(4,5) in simp)
  from wallet_loop_exact [OF assms(1,2) this assms(4,5) order_refl len w(1,2), of consumer task_id reason 0 2]
  show ?thesis unfolding wallet_candidates_rows by simp
qed

lemma wallet_debit_outcome:
  assumes "nearest_decimal (sq_decimal E)" "reconciled E L" "in_range E L" "0 \<le> k" "k \<le> MAX_CREDIT"
  shows "debit_operator_wallet_once E consumer p (sql_double k) task_id reason L
      = (Inr \<lparr>wd_debited = True, wd_spent = sql_double k, wd_scope = ''operator_wallet'', wd_reason = None,
              wd_debit_count = of_nat (length (allot k (wallet_rows E L p)))\<rparr>,
         exact_debits E consumer task_id reason (allot k (wallet_rows E L p)) L)
      \<or> (\<exists>e. debit_operator_wallet_once E consumer p (sql_double k) task_id reason L = (Inl e, L)
            \<and> ((\<exists>j. sq_fails E j \<noteq> None) \<or> taken (wallet_rows E L p) < k))"
proof -
  let ?w = "taken (wallet_rows E L p)"
  have av: "near (1 / 50000 + float_error + float_error) (fadd (fsum (map snd (wallet_candidates E L p))) (round64 (1 / 10000))) (?w + 1)"
  proof (rule near_fadd [OF available_near [OF assms(3)] near_literal])
    have "0 \<le> ?w" using wallet_rows_ok(1) [OF assms(3), of p] unfolding taken_def by (intro sum_list_nonneg) auto
    then show "\<bar>?w + 1\<bar> \<le> amount_bound" using wallet_rows_ok(4) [OF assms(3), of p] by (simp add: MAX_CREDIT_def amount_bound_def)
  qed (simp add: float_error_def)
  have nk: "near float_error (sql_double k) k" by (rule near_exact) (use assms(4,5) in simp)
  have enough: "\<not> fadd (fsum (map snd (wallet_candidates E L p))) (round64 (1 / 10000)) < sql_double k" if "k \<le> ?w"
    using near_less [OF nk av] that by (simp add: float_error_def)
  have rest: "\<not> rem > round64 (1 / 10000)" if "k \<le> ?w" "near (1 / 40000) rem (k - taken (allot k (wallet_rows E L p)))" for rem
  proof -
    have "taken (allot k (wallet_rows E L p)) = k"
      using that(1) wallet_rows_ok(1) [OF assms(3), of p] allot_taken [OF assms(4), of "wallet_rows E L p"] by fastforce
    then show ?thesis using near_less [OF _ near_literal, of "1 / 40000" rem 0] that(2) by (simp add: float_error_def)
  qed
  show ?thesis
  proof (cases "sq_fails E 0 \<noteq> None \<or> sq_fails E 1 \<noteq> None
      \<or> fadd (fsum (map snd (wallet_candidates E L p))) (round64 (1 / 10000)) < sql_double k")
    case True
    then show ?thesis using enough by (auto simp: debit_operator_wallet_once_def statement_def Let_def not_le split: option.split)
  next
    case run: False
    from wallet_loop_whole [OF assms, of consumer task_id reason p] show ?thesis
    proof (elim disjE exE conjE)
      fix e j assume "wallet_loop E consumer task_id reason (wallet_candidates E L p) (sql_double k, 0, 2, L) = Inl e" "sq_fails E j \<noteq> None"
      then show ?thesis using run by (auto simp: debit_operator_wallet_once_def statement_def Let_def)
    next
      fix rem k'
      assume l: "wallet_loop E consumer task_id reason (wallet_candidates E L p) (sql_double k, 0, 2, L)
          = Inr (rem, of_nat (length (allot k (wallet_rows E L p))), k',
                 exact_debits E consumer task_id reason (allot k (wallet_rows E L p)) L)"
        and n: "near (1 / 40000) rem (k - taken (allot k (wallet_rows E L p)))"
      have "k \<le> ?w \<Longrightarrow> \<not> rem > round64 (1 / 10000)" using rest [OF _ n] .
      then show ?thesis using run l
        by (cases "rem > round64 (1 / 10000)"; cases "sq_fails E k'")
          (auto simp: debit_operator_wallet_once_def statement_def Let_def not_le)
    qed
  qed
qed

text \<open>
  C11. The wallet debit is exact although it computes in floats. From a reconciled ledger within the numeric
  range, an amount the operator's spendable nodes cover is taken exactly, from the nodes whose credits
  expire first, each down to zero before the next is touched, with one transaction per
  node, when no statement fails; an amount above what they hold by more than one ten-thousandth is
  refused; and whatever happens the rows are either those of the exact allocation or untouched.
\<close>

theorem wallet_debit_exact:
  assumes "nearest_decimal (sq_decimal E)" "reconciled E L" "in_range E L" "0 \<le> k" "k \<le> MAX_CREDIT"
  shows "(k \<le> taken (wallet_rows E L p) \<and> (\<forall>j. sq_fails E j = None) \<longrightarrow>
           debit_operator_wallet_once E consumer p (sql_double k) task_id reason L
             = (Inr \<lparr>wd_debited = True, wd_spent = sql_double k, wd_scope = ''operator_wallet'', wd_reason = None,
                     wd_debit_count = of_nat (length (allot k (wallet_rows E L p)))\<rparr>,
                exact_debits E consumer task_id reason (allot k (wallet_rows E L p)) L)
           \<and> taken (allot k (wallet_rows E L p)) = k)
    \<and> (taken (wallet_rows E L p) + 1 < k \<and> (\<forall>j. sq_fails E j = None) \<longrightarrow>
           debit_operator_wallet_once E consumer p (sql_double k) task_id reason L
             = (Inl (Insufficient ''insufficient_operator_wallet_balance''), L))
    \<and> snd (debit_operator_wallet_once E consumer p (sql_double k) task_id reason L)
        \<in> {L, exact_debits E consumer task_id reason (allot k (wallet_rows E L p)) L}"
proof (intro conjI impI)
  let ?w = "taken (wallet_rows E L p)"
  note o = wallet_debit_outcome [OF assms, of consumer p task_id reason]
  show "snd (debit_operator_wallet_once E consumer p (sql_double k) task_id reason L)
      \<in> {L, exact_debits E consumer task_id reason (allot k (wallet_rows E L p)) L}" using o by auto
  assume c: "k \<le> ?w \<and> (\<forall>j. sq_fails E j = None)"
  then show "debit_operator_wallet_once E consumer p (sql_double k) task_id reason L
      = (Inr \<lparr>wd_debited = True, wd_spent = sql_double k, wd_scope = ''operator_wallet'', wd_reason = None,
              wd_debit_count = of_nat (length (allot k (wallet_rows E L p)))\<rparr>,
         exact_debits E consumer task_id reason (allot k (wallet_rows E L p)) L)" using o by auto
  show "taken (allot k (wallet_rows E L p)) = k"
    using c wallet_rows_ok(1) [OF assms(3), of p] allot_taken [OF assms(4), of "wallet_rows E L p"] by fastforce
next
  let ?w = "taken (wallet_rows E L p)"
  assume c: "?w + 1 < k \<and> (\<forall>j. sq_fails E j = None)"
  have "0 \<le> ?w" using wallet_rows_ok(1) [OF assms(3), of p] unfolding taken_def by (intro sum_list_nonneg) auto
  then have "near (1 / 50000 + float_error + float_error) (fadd (fsum (map snd (wallet_candidates E L p))) (round64 (1 / 10000))) (?w + 1)"
    using wallet_rows_ok(4) [OF assms(3), of p]
    by (intro near_fadd [OF available_near [OF assms(3)] near_literal]) (simp_all add: MAX_CREDIT_def amount_bound_def float_error_def)
  then have "fadd (fsum (map snd (wallet_candidates E L p))) (round64 (1 / 10000)) < sql_double k"
    by (rule near_less [OF _ near_exact]) (use assms(4,5) c in \<open>simp_all add: float_error_def\<close>)
  then show "debit_operator_wallet_once E consumer p (sql_double k) task_id reason L
      = (Inl (Insufficient ''insufficient_operator_wallet_balance''), L)"
    using c by (simp add: debit_operator_wallet_once_def statement_def)
qed

section \<open>Awards, exactly\<close>

lemma f64_round_near: "\<bar>x - of_int m\<bar> < 1 / 2 \<Longrightarrow> f64_round x = m"
proof -
  assume "\<bar>x - of_int m\<bar> < 1 / 2"
  then have "x - of_int m < 1 / 2" "of_int m - x < 1 / 2" by linarith+
  then show ?thesis unfolding f64_round_def by (auto simp: floor_eq_iff ceiling_eq_iff)
qed

lemma near_scaled: "near d x m \<Longrightarrow> \<bar>x * 10000 - of_int m\<bar> \<le> 10000 * d"
  unfolding near_def by (simp add: abs_le_iff field_simps)

lemma award_sum_exact:
  assumes "\<bar>k\<bar> \<le> MAX_CREDIT" "\<bar>l\<bar> \<le> MAX_CREDIT"
  shows "fdiv (of_int (f64_round (fmul (fadd (sql_double k) (sql_double l)) 10000))) 10000 = sql_double (k + l)"
proof -
  let ?s = "fadd (sql_double k) (sql_double l)"
  have "near (float_error + float_error + float_error) ?s (k + l)"
    using assms by (intro near_fadd near_exact) (simp_all add: MAX_CREDIT_def amount_bound_def float_error_def)
  then have s: "\<bar>?s * 10000 - of_int (k + l)\<bar> \<le> 1 / 1000"
    by (rule order_trans [OF near_scaled]) (simp add: float_error_value)
  have "\<bar>k + l\<bar> \<le> 2 * MAX_CREDIT" using assms by simp
  then have "of_int \<bar>k + l\<bar> \<le> (of_int (2 * MAX_CREDIT) :: rat)" by (simp only: of_int_le_iff)
  then have "\<bar>of_int (k + l) :: rat\<bar> \<le> 200000000000" by (simp add: MAX_CREDIT_def)
  then have "\<bar>?s * 10000\<bar> \<le> 274877906944" using s by linarith
  then have "\<bar>?s * 10000\<bar> \<le> 2 powi 38" by (simp add: power_int_def)
  then have "\<bar>round64 (?s * 10000) - ?s * 10000\<bar> \<le> 2 powi (38 - 53)" by (rule round64_error) simp
  then have "\<bar>fmul ?s 10000 - ?s * 10000\<bar> \<le> 1 / 32768" by (simp add: fmul_def power_int_def power_one_over)
  then have "\<bar>fmul ?s 10000 - of_int (k + l)\<bar> < 1 / 2" using s by linarith
  then have "f64_round (fmul ?s 10000) = k + l" by (rule f64_round_near)
  then show ?thesis by (simp add: fdiv_def sql_double_def)
qed

lemma view_ensure [ledger_views]:
  "node_balance E (ensure_credit_row E i k L) = node_balance E L"
  "net E (ensure_credit_row E i k L) = net E L"
  "credit_of E (ensure_credit_row E i k L) j = (if sq_eq E i j \<and> credit_of E L j = None then Some k else credit_of E L j)"
proof -
  show "node_balance E (ensure_credit_row E i k L) = node_balance E L" "net E (ensure_credit_row E i k L) = net E L"
    by (auto simp: ensure_credit_row_def node_balance_def net_def find_account_def transactions_of_def)
  have w: "find (\<lambda>c. sq_eq E (cr_node_id c) j) (update_first (\<lambda>c. sq_eq E (cr_node_id c) i) (\<lambda>c. c\<lparr>cr_node_id := i\<rparr>) xs)
      = (if sq_eq E i j then map_option (\<lambda>c. c\<lparr>cr_node_id := i\<rparr>) (find (\<lambda>c. sq_eq E (cr_node_id c) j) xs)
         else find (\<lambda>c. sq_eq E (cr_node_id c) j) xs)" for xs
    by (induction xs) (auto simp: sq_eq_def)
  have c: "find_credit E L i = None \<longleftrightarrow> credit_of E L j = None" if "sq_eq E i j"
    using that by (auto simp: credit_of_def find_credit_def sq_eq_def)
  show "credit_of E (ensure_credit_row E i k L) j = (if sq_eq E i j \<and> credit_of E L j = None then Some k else credit_of E L j)"
    using c by (auto simp: ensure_credit_row_def credit_of_def find_credit_def find_append w option.map_comp comp_def split: option.splits)
qed

lemma reconciled_ensure:
  assumes "reconciled E L" "node_balance E L i = Some k"
  shows "reconciled E (ensure_credit_row E i k L)" "credit_of E (ensure_credit_row E i k L) i = Some k"
proof -
  have k: "node_balance E L j = Some k" if "sq_eq E i j" for j using assms(2) view_cong(1) [OF that] by simp
  then show "reconciled E (ensure_credit_row E i k L)" using assms(1) unfolding reconciled_def by (auto simp: ledger_views)
  show "credit_of E (ensure_credit_row E i k L) i = Some k"
    using assms unfolding reconciled_def by (force simp: ledger_views)
qed

definition bounded :: "sql_env \<Rightarrow> ledger \<Rightarrow> bool" where
  "bounded E L \<longleftrightarrow> (\<forall>i k. node_balance E L i = Some k \<longrightarrow> \<bar>k\<bar> \<le> MAX_CREDIT)"

lemma bounded_env [simp]: "bounded (E\<lparr>sq_fails := f\<rparr>) = bounded E" "bounded (E\<lparr>sq_now := t\<rparr>) = bounded E"
  by (simp_all add: bounded_def fun_eq_iff)

lemma in_range_bounded: "in_range E L \<Longrightarrow> bounded E L"
  unfolding bounded_def using in_range_balance by blast

text \<open>A successful award posts the amount once, under its nonce, and answers with the new balance.\<close>

lemma award_outcome:
  assumes "nearest_decimal (sq_decimal E)" "reconciled E L" "bounded E L" "0 \<le> k" "k \<le> MAX_CREDIT"
  shows "(\<exists>e. record_credit_award_once E i (sql_double k) task_id nonce L = (Inl e, L))
    \<or> (\<not> nonce_stored E nonce L \<and> node_balance E L i = Some (net E L i)
       \<and> record_credit_award_once E i (sql_double k) task_id nonce L
           = (Inr (sql_double (net E L i + k)),
              posted E i (award_tx E i (sql_double k) task_id nonce) (ensure_credit_row E i (net E L i) L)))"
proof (cases "\<exists>e. record_credit_award_once E i (sql_double k) task_id nonce L = (Inl e, L)")
  case False
  obtain a where a: "find_account E L i = Some a"
    using False by (auto simp: record_credit_award_once_def statement_def split: option.splits)
  have nb: "node_balance E L i = Some (ac_credit_balance a)" by (simp add: node_balance_def a)
  then have net: "ac_credit_balance a = net E L i" using assms(2) unfolding reconciled_def by blast
  have b: "\<bar>net E L i\<bar> \<le> MAX_CREDIT" using nb assms(3) unfolding bounded_def net by blast
  have st: "sq_decimal E (sql_double m) = m" if "\<bar>m\<bar> \<le> amount_bound" for m
    using near_stored [OF assms(1) near_double [OF that]] by (simp add: float_error_def)
  have stn: "sq_decimal E (sql_double (net E L i)) = net E L i" "sq_decimal E (sql_double k) = k"
    "sq_decimal E (sql_double (net E L i + k)) = net E L i + k"
    using b assms(4,5) by (auto intro!: st simp: MAX_CREDIT_def amount_bound_def)
  let ?L1 = "ensure_credit_row E i (net E L i) L"
  obtain c where c: "find_credit E ?L1 i = Some c" "cr_balance c = net E L i"
    using reconciled_ensure(2) [OF assms(2) nb] by (auto simp: net credit_of_def)
  have new: "fdiv (of_int (f64_round (fmul (fadd (sql_double (net E L i)) (sql_double k)) 10000))) 10000 = sql_double (net E L i + k)"
    by (rule award_sum_exact) (use b assms(4,5) in simp_all)
  have ns: "nonce_stored E nonce ?L1 = nonce_stored E nonce L" by (simp add: nonce_stored_def ensure_credit_row_def)
  have s: "signed (award_tx E i (sql_double k) task_id nonce) = k" by (simp add: signed_def award_tx_def stn)
  have "set_account_balance E i (net E L i + k) (set_credit_row E i (net E L i + k)
      (insert_transaction (award_tx E i (sql_double k) task_id nonce) ?L1))
      = posted E i (award_tx E i (sql_double k) task_id nonce) ?L1"
    by (simp add: posted_def ledger_views s set_account_balance_def set_credit_row_def insert_transaction_def)
  moreover have "sq_fails E 4 = None \<and> \<not> nonce_stored E nonce L \<and> (\<forall>j \<in> {0, 1, 2, 3, 5, 6, 7}. sq_fails E j = None)"
    using False a c ns by (auto simp: record_credit_award_once_def statement_def net stn Let_def split: option.splits if_splits)
  ultimately show ?thesis using a c ns new nb net f64.rnd_nonneg [of "1 / 10000"]
    by (simp add: record_credit_award_once_def statement_def stn Let_def fsub_def)
qed simp

lemma award_reconciles:
  assumes "nearest_decimal (sq_decimal E)" "reconciled E L" "bounded E L" "0 \<le> k" "k \<le> MAX_CREDIT"
  shows "reconciled E (snd (record_credit_award_once E i (sql_double k) task_id nonce L))"
proof -
  let ?t = "award_tx E i (sql_double k) task_id nonce" and ?L = "ensure_credit_row E i (net E L i) L"
  have k: "sq_decimal E (sql_double k) = k"
    by (rule exact_stored [OF assms(1) near_exact]) (use assms(4,5) in \<open>simp_all add: float_error_def\<close>)
  have "reconciled E (posted E i ?t ?L)" if nb: "node_balance E L i = Some (net E L i)"
  proof (rule reconciled_posted)
    show "reconciled E ?L" "credit_of E ?L i \<noteq> None" using reconciled_ensure [OF assms(2) nb] by simp_all
    have "- 1 \<le> net E L i" using nb assms(2) unfolding reconciled_def by blast
    then show "- 1 \<le> net E ?L i + signed ?t" using assms(4) k by (simp add: ledger_views signed_def award_tx_def)
  qed (simp add: award_tx_def)
  then show ?thesis using award_outcome [OF assms, of i task_id nonce] assms(2) by auto
qed

section \<open>Expiry, exactly\<close>

lemma expiry_outcome:
  assumes "nearest_decimal (sq_decimal E)" "reconciled E L" "bounded E L"
  shows "snd (expire_idle_credit_once E i x L) = L
    \<or> (x = sql_double (net E L i) \<and> credit_of E L i \<noteq> None
       \<and> snd (expire_idle_credit_once E i x L) = posted E i (debit_tx E i x None ''ttl_expire'') L
       \<and> signed (debit_tx E i x None ''ttl_expire'') = - net E L i)"
proof (cases "snd (expire_idle_credit_once E i x L) = L")
  case False
  let ?t = "debit_tx E i x None ''ttl_expire''"
  let ?p = "\<lambda>a c. sql_double (ac_credit_balance a) = x \<and> agrees a c"
  obtain L1 where u: "update_joined E i ?p (\<lambda>_. 0) L = Some L1"
      and L': "snd (expire_idle_credit_once E i x L) = insert_transaction ?t L1"
    using False by (auto simp: expire_idle_credit_once_def transaction_def statement_def split: option.splits)
  then obtain a c where j: "joined E L i = Some (a, c)" "sql_double (ac_credit_balance a) = x"
    by (auto simp: update_joined_def split: option.splits if_splits)
  have x: "x = sql_double (net E L i)" using j reconciled_joined [OF assms(2)] by metis
  have "\<bar>net E L i\<bar> \<le> MAX_CREDIT"
    using joined_views(1) [OF j(1)] reconciled_joined(1) [OF assms(2) j(1)] assms(3) unfolding bounded_def by metis
  then have s: "signed ?t = - net E L i"
    using exact_stored [OF assms(1) near_exact] by (simp add: x signed_def debit_tx_def float_error_def)
  then have "0 = net E L i + signed ?t" by simp
  from update_joined_posted(1,2) [OF assms(2) u this] show ?thesis using x s L' by simp
qed simp

lemma expiry_keeps:
  assumes "nearest_decimal (sq_decimal E)" "reconciled E L \<and> bounded E L"
  shows "reconciled E (snd (expire_idle_credit_once E i x L)) \<and> bounded E (snd (expire_idle_credit_once E i x L))"
proof -
  let ?t = "debit_tx E i x None ''ttl_expire''"
  have "reconciled E (posted E i ?t L) \<and> bounded E (posted E i ?t L)"
    if "credit_of E L i \<noteq> None" "signed ?t = - net E L i"
  proof
    show "reconciled E (posted E i ?t L)"
      by (rule reconciled_posted) (use assms that in \<open>simp_all add: debit_tx_def\<close>)
    show "bounded E (posted E i ?t L)"
      using assms(2) that unfolding bounded_def by (auto simp: posted_def ledger_views MAX_CREDIT_def)
  qed
  then show ?thesis using expiry_outcome [OF assms(1), of L i x] assms(2) by auto
qed

section \<open>The free allocation, exactly\<close>

lemma view_gate [ledger_views]:
  "node_balance E (ensure_gate E ip L) = node_balance E L" "credit_of E (ensure_gate E ip L) = credit_of E L"
  "net E (ensure_gate E ip L) = net E L"
  by (auto simp: ensure_gate_def node_balance_def credit_of_def net_def find_account_def find_credit_def transactions_of_def)

lemma view_free [ledger_views]:
  "node_balance E (write_free_allocation E i ip k L) j = (if sq_eq E i j \<and> node_balance E L j \<noteq> None then Some k else node_balance E L j)"
  "credit_of E (write_free_allocation E i ip k L) j = (if sq_eq E i j \<and> credit_of E L j \<noteq> None then Some k else credit_of E L j)"
  "net E (write_free_allocation E i ip k L) j = net E L j + (if sq_eq E i j then sq_decimal E 100 else 0)"
  by (auto simp: node_balance_def credit_of_def net_def find_account_def find_credit_def transactions_of_def write_free_allocation_def
      find_by_weight option.map_comp comp_def free_tx_def signed_def)

lemma allocation_reconciles:
  assumes "nearest_decimal (sq_decimal E)" "reconciled E L" "bounded E L"
  shows "reconciled E (snd (mysql_maybe_allocate_free_credits E i ip L))"
proof (cases "snd (mysql_maybe_allocate_free_credits E i ip L) = L")
  case False
  let ?L1 = "ensure_gate E ip (ensure_credit_row E i 0 L)"
  obtain c where c: "find_credit E ?L1 i = Some c" "\<not> sql_double (cr_balance c) > 0" "find_account E ?L1 i \<noteq> None"
      and L': "snd (mysql_maybe_allocate_free_credits E i ip L)
        = write_free_allocation E i ip (sq_decimal E (fadd (sql_double (cr_balance c)) 100)) ?L1"
    using False by (auto simp: mysql_maybe_allocate_free_credits_def Let_def split: option.splits if_splits)
  have "node_balance E L i \<noteq> None" using c(3) ledger_views unfolding node_balance_def by (metis option.map_disc_iff)
  then obtain k where k: "node_balance E L i = Some k" by blast
  then have kn: "k = net E L i" "- 1 \<le> k" "credit_of E L i = Some k \<or> credit_of E L i = None \<and> k = 0" "\<bar>k\<bar> \<le> MAX_CREDIT"
    using assms(2,3) unfolding reconciled_def bounded_def by blast+
  have "credit_of E ?L1 i = Some k" using kn(3) by (auto simp: ledger_views)
  then have cb: "cr_balance c = k" using c(1) by (simp add: credit_of_def)
  have same: "credit_of E (ensure_credit_row E i 0 L) = credit_of E L" if "credit_of E L i \<noteq> None"
    using that view_cong(2) by (fastforce simp: ledger_views fun_eq_iff)
  have "reconciled E (ensure_credit_row E i 0 L)"
  proof (cases "credit_of E L i = None")
    case True
    then have "k = 0" using kn(3) by simp
    then show ?thesis using reconciled_ensure(1) [OF assms(2) k] by simp
  next
    case False
    from assms(2) show ?thesis unfolding reconciled_def same [OF False] view_ensure(1,2) .
  qed
  then have L1: "reconciled E ?L1" by (simp add: reconciled_def ledger_views)
  have "k \<le> 0" using c(2) sql_double_le_iff [of k 0] kn(4) unfolding cb by (simp add: sql_double_def MAX_CREDIT_def amount_bound_def)
  moreover have "near 0 100 1000000" by (simp add: near_def)
  ultimately have "near (float_error + 0 + float_error) (fadd (sql_double k) 100) (k + 1000000)"
    using kn(2) by (intro near_fadd near_exact) (simp_all add: MAX_CREDIT_def amount_bound_def float_error_def)
  then have "sq_decimal E (fadd (sql_double k) 100) = k + 1000000"
    by (rule exact_stored [OF assms(1)]) (simp add: float_error_def)
  moreover have "sq_decimal E 100 = 1000000"
    by (rule exact_stored [OF assms(1) \<open>near 0 100 1000000\<close>]) simp
  moreover have "credit_of E ?L1 i \<noteq> None" using c(1) by (simp add: credit_of_def)
  moreover have "net E ?L1 i = k" using kn(1) by (simp add: ledger_views)
  ultimately show ?thesis unfolding L' cb
    using kn(2) by (intro reconciled_moved [OF L1, of i 1000000]) (simp_all add: view_free)
qed (use assms(2) in simp)

section \<open>A ledger at work\<close>

text \<open>An operator with two nodes, three and two credits, the second to expire first, and a node of nobody.\<close>

definition sample_tx :: "string \<Rightarrow> int \<Rightarrow> nat \<Rightarrow> credit_transaction" where
  "sample_tx i k x =
     \<lparr>ct_node_id = i, ct_amount = k, ct_type = TxCredit, ct_task_id = None, ct_nonce = None, ct_reason = None,
      ct_expires_at = Some x, ct_created_at = None\<rparr>"

definition sample_account :: "string \<Rightarrow> string option \<Rightarrow> int \<Rightarrow> account" where
  "sample_account i p k =
     \<lparr>ac_id = i, ac_operator_pubkey = p, ac_status = ''active'', ac_credit_balance = k, ac_free_credit_last_allocation_at = None\<rparr>"

definition sample_credit :: "string \<Rightarrow> int \<Rightarrow> credit_row" where
  "sample_credit i k = \<lparr>cr_node_id = i, cr_balance = k, cr_free_credit_last_allocation_at = None\<rparr>"

definition sample_ledger :: ledger where
  "sample_ledger =
     \<lparr>lg_nodes = [sample_account ''n1'' (Some ''op'') 30000, sample_account ''n2'' (Some ''op'') 20000, sample_account ''n3'' None 0],
      lg_credits = [sample_credit ''n1'' 30000, sample_credit ''n2'' 20000],
      lg_transactions = [sample_tx ''n1'' 30000 3000, sample_tx ''n2'' 20000 2000], lg_ip_gates = []\<rparr>"

lemmas sample_simps = sample_ledger_def sample_tx_def sample_account_def sample_credit_def demo_sql_def

lemmas lookup_simps = find_account_def find_credit_def find_gate_def transactions_of_def sq_eq_def

lemma sample_reconciled: "reconciled demo_sql sample_ledger"
  by (auto simp: reconciled_def node_balance_def credit_of_def net_def signed_def lookup_simps sample_simps split: if_splits)

lemma sample_in_range: "in_range demo_sql sample_ledger"
  by (simp add: in_range_def sample_simps MAX_CREDIT_def)

lemma sample_wallet: "wallet_rows demo_sql sample_ledger ''op'' = [(''n2'', 20000), (''n1'', 30000)]"
  by (simp add: wallet_rows_def spendable_def unexpired_def max_expiry_def horizon_def expiries_def lookup_simps sample_simps
      List.map_filter_simps unwrap_or_def)

theorem wallet_debit_exact_witness:
  "snd (debit_operator_wallet_once demo_sql ''n1'' ''op'' (sql_double 40000) ''task'' ''spend'' sample_ledger)
     = exact_debits demo_sql ''n1'' ''task'' ''spend'' [(''n2'', 20000), (''n1'', 20000)] sample_ledger
   \<and> snd (debit_operator_wallet_once demo_sql ''n1'' ''op'' (sql_double 60000) ''task'' ''spend'' sample_ledger) = sample_ledger"
  using wallet_debit_exact [OF demo_decimal sample_reconciled sample_in_range, of 40000 "''op''" "''n1''" "''task''" "''spend''"]
    wallet_debit_exact [OF demo_decimal sample_reconciled sample_in_range, of 60000 "''op''" "''n1''" "''task''" "''spend''"]
  by (simp add: sample_wallet taken_def MAX_CREDIT_def) (simp add: demo_sql_def)

end
