(* ===== verification/Ledger_Runs.thy ===== *)
theory Ledger_Runs
  imports Ledger_Exact
begin

text \<open>
  Sequences of calls on the credit ledger, with retries and failures: the ledger reconciles after any of
  them, a receipt is paid once, and free credits are given at most once in six hours.
\<close>

section \<open>Runs of the ledger\<close>

datatype ledger_op =
    Award string f64 string string
  | Debit string f64 string string
  | Sweep
  | Allocate string string

text \<open>One call: when it happens, which statements fail outside and inside its attempts, and what is asked.\<close>

record ledger_event =
  le_now :: nat
  le_lookup :: "nat \<Rightarrow> sqlx_error option"
  le_fails :: "string \<Rightarrow> nat \<Rightarrow> nat \<Rightarrow> sqlx_error option"
  le_op :: ledger_op

definition ledger_step :: "sql_env \<Rightarrow> ledger_event \<Rightarrow> ledger \<Rightarrow> ledger" where
  "ledger_step E ev L =
     (let E' = E\<lparr>sq_now := le_now ev, sq_fails := le_lookup ev\<rparr>
      in case le_op ev of
           Award i x task nonce \<Rightarrow> snd (mysql_record_credit_award E' (le_fails ev []) i x task nonce L)
         | Debit i x task reason \<Rightarrow> snd (mysql_debit_for_consumer E' (le_fails ev []) i x task reason L)
         | Sweep \<Rightarrow> snd (mysql_expire_idle_node_credits E' (le_fails ev) L)
         | Allocate i ip \<Rightarrow> snd (mysql_maybe_allocate_free_credits E' i ip L))"

text \<open>Every attempt is all or nothing, so the retry loops are.\<close>

interpretation debits: attempt "debit_attempt E fails p i x task_id reason" transient_debit for E fails p i x task_id reason
  by unfold_locales
    (auto simp: debit_attempt_def debit_node_once_def debit_operator_wallet_once_def dest: transaction_failed split: option.splits)

interpretation awards: attempt "award_attempt E fails i x task_id nonce" transient_award for E fails i x task_id nonce
  by unfold_locales (auto simp: award_attempt_def record_credit_award_once_def dest: transaction_failed)

interpretation expiry: attempt "expiry_attempt E fails i x" is_transient_transaction_error for E fails i x
  by unfold_locales (auto simp: expiry_attempt_def expire_idle_credit_once_def dest: transaction_failed)

lemma debit_call:
  "snd (mysql_debit_for_consumer E fails i x task_id reason L) = L
   \<or> snd (mysql_debit_for_consumer E fails i x task_id reason L)
       = snd (retry (debit_attempt E fails (account_operator E L i) i x task_id reason) transient_debit 2 0 L)"
  by (auto simp: mysql_debit_for_consumer_def Let_def split: prod.splits sum.splits DebitMutationError.splits)

lemma award_call:
  "snd (mysql_record_credit_award E fails i x task_id nonce L)
     = snd (retry (award_attempt E fails i x task_id nonce) transient_award 2 0 L)"
  by (auto simp: mysql_record_credit_award_def split: prod.splits sum.splits CreditMutationError.splits)

lemma expire_call:
  "snd (expire_step E fails (i, x, newest, now) st) = snd st
   \<or> snd (expire_step E fails (i, x, newest, now) st)
       = snd (retry (expiry_attempt E (fails i) i x) is_transient_transaction_error 2 0 (snd st))"
  by (cases st) (auto simp: expire_step_def split: prod.splits sum.splits option.splits)

lemma sweep_keeps:
  assumes "I L" and "\<And>L fs i x n. I L \<Longrightarrow> I (snd (expiry_attempt E fs i x n L))"
  shows "I (snd (mysql_expire_idle_node_credits E fails L))"
proof -
  have "I (snd (fold (expire_step E fails) cs st))" if "I (snd st)" for cs st
    using that
  proof (induction cs arbitrary: st)
    case (Cons c cs)
    obtain i x newest now where c: "c = (i, x, newest, now)" by (cases c)
    have "I (snd (retry (expiry_attempt E (fails i) i x) is_transient_transaction_error 2 0 (snd st)))"
      by (rule expiry.retry_invariant) (rule assms(2) [OF Cons.prems])
    then have "I (snd (expire_step E fails c st))" using expire_call [of E fails i x newest now st] Cons.prems unfolding c by metis
    then show ?case using Cons.IH by simp
  qed simp
  then show ?thesis using assms(1) by (simp add: mysql_expire_idle_node_credits_def)
qed

text \<open>The amounts of a call: multiples of a ten-thousandth within the range.\<close>

definition exact_amount :: "f64 \<Rightarrow> bool" where
  "exact_amount x \<longleftrightarrow> (\<exists>k. x = sql_double k \<and> 0 \<le> k \<and> k \<le> MAX_CREDIT)"

fun exact_op :: "ledger_op \<Rightarrow> bool" where
  "exact_op (Award i x task nonce) \<longleftrightarrow> exact_amount x"
| "exact_op (Debit i x task reason) \<longleftrightarrow> exact_amount x"
| "exact_op _ \<longleftrightarrow> True"

lemma debit_attempt_reconciles:
  assumes "nearest_decimal (sq_decimal E)" "reconciled E L" "in_range E L" "0 \<le> k" "k \<le> MAX_CREDIT"
  shows "reconciled E (snd (debit_attempt E fails p i (sql_double k) task_id reason n L))"
proof (cases p)
  case None
  then show ?thesis using debit_node_posts [of "E\<lparr>sq_fails := fails n\<rparr>"] assms by (simp add: debit_attempt_def)
next
  case (Some q)
  let ?E = "E\<lparr>sq_fails := fails n\<rparr>"
  have a: "nearest_decimal (sq_decimal ?E)" "reconciled ?E L" "in_range ?E L" using assms(1-3) by simp_all
  from wallet_loop_whole [OF a assms(4,5), of i task_id reason q] wallet_debit_outcome [OF a assms(4,5), of i q task_id reason]
  show ?thesis using assms(2) Some by (auto simp: debit_attempt_def debit_operator_wallet_once_def statement_def transaction_def Let_def
        split: option.splits if_splits)
qed

lemma ledger_step_reconciles:
  assumes "nearest_decimal (sq_decimal E)" "reconciled E L" "in_range E L" "exact_op (le_op ev)"
  shows "reconciled E (ledger_step E ev L)"
proof -
  let ?E = "E\<lparr>sq_now := le_now ev, sq_fails := le_lookup ev\<rparr>"
  have a: "nearest_decimal (sq_decimal ?E)" "reconciled ?E L" "in_range ?E L" "bounded ?E L"
    using assms(1-3) in_range_bounded by simp_all
  show ?thesis
  proof (cases "le_op ev")
    case (Award i x task nonce)
    then obtain k where k: "x = sql_double k" "0 \<le> k" "k \<le> MAX_CREDIT" using assms(4) by (auto simp: exact_amount_def)
    have "reconciled ?E (snd (award_attempt ?E (le_fails ev []) i x task nonce j L))" for j
      using award_reconciles [of "?E\<lparr>sq_fails := le_fails ev [] j\<rparr>" L k i task nonce] a k by (simp add: award_attempt_def)
    then have "reconciled ?E (snd (mysql_record_credit_award ?E (le_fails ev []) i x task nonce L))"
      unfolding award_call by (rule awards.retry_invariant)
    then show ?thesis using Award by (simp add: ledger_step_def)
  next
    case (Debit i x task reason)
    then obtain k where k: "x = sql_double k" "0 \<le> k" "k \<le> MAX_CREDIT" using assms(4) by (auto simp: exact_amount_def)
    have "reconciled ?E (snd (retry (debit_attempt ?E (le_fails ev []) (account_operator ?E L i) i x task reason) transient_debit 2 0 L))"
      unfolding k(1) by (rule debits.retry_invariant) (rule debit_attempt_reconciles [OF a(1-3) k(2,3)])
    then have "reconciled ?E (snd (mysql_debit_for_consumer ?E (le_fails ev []) i x task reason L))"
      using debit_call [of ?E "le_fails ev []" i x task reason L] a(2) by metis
    then show ?thesis using Debit by (simp add: ledger_step_def)
  next
    case Sweep
    have "reconciled ?E (snd (mysql_expire_idle_node_credits ?E (le_fails ev) L))
        \<and> bounded ?E (snd (mysql_expire_idle_node_credits ?E (le_fails ev) L))"
    proof (rule sweep_keeps)
      fix L fs i x n assume "reconciled ?E L \<and> bounded ?E L"
      then show "reconciled ?E (snd (expiry_attempt ?E fs i x n L)) \<and> bounded ?E (snd (expiry_attempt ?E fs i x n L))"
        using expiry_keeps [of "?E\<lparr>sq_fails := fs n\<rparr>" L i x] a(1) by (simp add: expiry_attempt_def)
    qed (use a in simp)
    then show ?thesis using Sweep by (simp add: ledger_step_def)
  next
    case (Allocate i ip)
    then show ?thesis using allocation_reconciles [OF a(1,2,4), of i ip] by (simp add: ledger_step_def)
  qed
qed

text \<open>The ledgers that calls lead to, while the nodes stay within the numeric range.\<close>

inductive ledger_run :: "sql_env \<Rightarrow> ledger \<Rightarrow> ledger \<Rightarrow> bool" for E L where
  here: "ledger_run E L L"
| call: "ledger_run E L L' \<Longrightarrow> in_range E L' \<Longrightarrow> exact_op (le_op ev) \<Longrightarrow> ledger_run E L (ledger_step E ev L')"


section \<open>What no call undoes\<close>

text \<open>The elementary writes that every call is made of, at or after a time.\<close>

inductive writes :: "nat \<Rightarrow> sql_env \<Rightarrow> ledger \<Rightarrow> ledger \<Rightarrow> bool" for t E L where
  nothing: "writes t E L L"
| account: "writes t E L L' \<Longrightarrow> writes t E L (set_account_balance E i k L')"
| credit: "writes t E L L' \<Longrightarrow> writes t E L (set_credit_row E i k L')"
| inserted: "writes t E L L' \<Longrightarrow> writes t E L (insert_transaction x L')"
| ensured: "writes t E L L' \<Longrightarrow> writes t E L (ensure_credit_row E i k L')"
| gate: "writes t E L L' \<Longrightarrow> writes t E L (ensure_gate E ip L')"
| allocated: "writes t E L L' \<Longrightarrow> sq_weight E' = sq_weight E \<Longrightarrow> t \<le> sq_now E' \<Longrightarrow>
    writes t E L (write_free_allocation E' i ip k L')"

lemma writes_trans: "writes t E L' L'' \<Longrightarrow> writes t E L L' \<Longrightarrow> writes t E L L''"
  by (induction rule: writes.induct) (auto intro: writes.intros)

lemma update_joined_writes: "update_joined E i p f L = Some L' \<Longrightarrow> writes t E L0 L \<Longrightarrow> writes t E L0 L'"
  by (auto simp: update_joined_def intro!: writes.intros split: option.splits if_splits)

lemma wallet_loop_writes:
  "wallet_loop E consumer task_id reason cs (rem, n, k, L) = Inr (rem', n', k', L') \<Longrightarrow> writes t E L0 L \<Longrightarrow> writes t E L0 L'"
proof (induction cs arbitrary: rem n k L)
  case (Cons c cs)
  obtain i b where c: "c = (i, b)" by (cases c)
  show ?case
  proof (cases "rem \<le> round64 (5 / 100000)")
    case True
    then show ?thesis using Cons.prems by (simp add: c)
  next
    case False
    then obtain L1 x where "update_joined E i agrees (minus_double E (min rem b)) L = Some L1"
        "wallet_loop E consumer task_id reason cs (fsub rem (min rem b), n + 1, k + 3, insert_transaction x L1) = Inr (rem', n', k', L')"
      using Cons.prems(1) by (auto simp: c Let_def statement_Inr split: if_splits option.splits)
    then show ?thesis using Cons.IH Cons.prems(2) update_joined_writes writes.inserted by metis
  qed
qed simp

lemma debit_attempt_writes: "writes t (E\<lparr>sq_fails := fails n\<rparr>) L (snd (debit_attempt E fails p i x task_id reason n L))"
proof (cases p)
  case None
  then show ?thesis
    by (auto simp: debit_attempt_def debit_node_once_def transaction_def statement_def split: option.splits
        intro: update_joined_writes writes.inserted writes.nothing)
next
  case (Some q)
  have "writes t E' L (snd (debit_operator_wallet_once E' i q x task_id reason L))" for E'
    using wallet_loop_writes [of E' i task_id reason _ x 0 2 L, OF _ writes.nothing, of _ _ _ _ _ t]
    by (auto simp: debit_operator_wallet_once_def transaction_def Let_def statement_Inr writes.nothing split: sum.splits if_splits)
  then show ?thesis using Some by (simp add: debit_attempt_def)
qed

lemma award_attempt_writes: "writes t (E\<lparr>sq_fails := fails n\<rparr>) L (snd (award_attempt E fails i x task_id nonce n L))"
proof -
  have "writes t E' L (snd (record_credit_award_once E' i x task_id nonce L))" for E'
    by (auto simp: record_credit_award_once_def transaction_def Let_def statement_Inr split: sum.splits if_splits option.splits
        intro!: writes.intros)
  then show ?thesis by (simp add: award_attempt_def)
qed

lemma expiry_attempt_writes: "writes t (E\<lparr>sq_fails := fails n\<rparr>) L (snd (expiry_attempt E fails i x n L))"
  by (auto simp: expiry_attempt_def expire_idle_credit_once_def transaction_def statement_def split: option.splits
      intro: update_joined_writes writes.inserted writes.nothing)

lemma allocation_writes: "t \<le> sq_now E \<Longrightarrow> writes t E L (snd (mysql_maybe_allocate_free_credits E i ip L))"
  by (auto simp: mysql_maybe_allocate_free_credits_def Let_def split: option.splits intro!: writes.intros)

lemma primitive_cong:
  assumes "sq_weight E' = sq_weight E"
  shows "set_account_balance E' = set_account_balance E" "set_credit_row E' = set_credit_row E"
    "ensure_credit_row E' = ensure_credit_row E" "ensure_gate E' = ensure_gate E"
proof -
  have "sq_eq E' = sq_eq E" by (simp add: fun_eq_iff sq_eq_def assms)
  then show "set_account_balance E' = set_account_balance E" "set_credit_row E' = set_credit_row E"
    "ensure_credit_row E' = ensure_credit_row E" "ensure_gate E' = ensure_gate E"
    by (simp_all add: fun_eq_iff set_account_balance_def set_credit_row_def ensure_credit_row_def ensure_gate_def find_credit_def find_gate_def)
qed

lemma writes_env:
  assumes "writes t E' L L'" "sq_weight E' = sq_weight E"
  shows "writes t E L L'"
  using assms(1)
proof (induction rule: writes.induct)
  case (allocated L' E'' i ip k)
  then show ?case using assms(2) by (intro writes.allocated) simp_all
qed (use writes.intros primitive_cong [OF assms(2)] in \<open>simp_all only:\<close>)

lemma ledger_step_writes:
  assumes "t \<le> le_now ev"
  shows "writes t E L (ledger_step E ev L)"
proof -
  let ?E = "E\<lparr>sq_now := le_now ev, sq_fails := le_lookup ev\<rparr>"
  have w: "writes t E L L' \<longleftrightarrow> writes t (?E\<lparr>sq_fails := f\<rparr>) L L'" "writes t ?E L L' \<longleftrightarrow> writes t E L L'" for L L' f
    by (auto intro: writes_env)
  show ?thesis
  proof (cases "le_op ev")
    case (Award i x task nonce)
    have "writes t E L (snd (mysql_record_credit_award ?E (le_fails ev []) i x task nonce L))"
      unfolding award_call by (rule awards.retry_invariant) (subst w(1), rule award_attempt_writes)
    then show ?thesis using Award by (simp add: ledger_step_def)
  next
    case (Debit i x task reason)
    have "writes t E L (snd (retry (debit_attempt ?E (le_fails ev []) (account_operator ?E L i) i x task reason) transient_debit 2 0 L))"
      by (rule debits.retry_invariant) (subst w(1), rule debit_attempt_writes)
    then have "writes t E L (snd (mysql_debit_for_consumer ?E (le_fails ev []) i x task reason L))"
      using debit_call [of ?E "le_fails ev []" i x task reason L] writes.nothing [of t E L] by metis
    then show ?thesis using Debit by (simp add: ledger_step_def)
  next
    case Sweep
    have "writes t E L (snd (mysql_expire_idle_node_credits ?E (le_fails ev) L))"
    proof (rule sweep_keeps [OF writes.nothing])
      fix L' fs i x n assume "writes t E L L'"
      moreover have "writes t E L' (snd (expiry_attempt ?E fs i x n L'))" by (subst w(1), rule expiry_attempt_writes)
      ultimately show "writes t E L (snd (expiry_attempt ?E fs i x n L'))" by (rule writes_trans [rotated])
    qed
    then show ?thesis using Sweep by (simp add: ledger_step_def)
  next
    case (Allocate i ip)
    then show ?thesis using allocation_writes [of t ?E L i ip] assms by (simp add: ledger_step_def w(2))
  qed
qed

lemma ledger_steps_write: "\<forall>ev \<in> set evs. t \<le> le_now ev \<Longrightarrow> writes t E L (fold (ledger_step E) evs L)"
proof (induction evs arbitrary: L)
  case (Cons ev evs)
  then show ?case using writes_trans ledger_step_writes by (metis fold_simps(2) list.set_intros)
qed (simp add: writes.nothing)

lemma nonce_primitives:
  "nonce_stored E nonce (set_account_balance E i k L) = nonce_stored E nonce L"
  "nonce_stored E nonce (set_credit_row E i k L) = nonce_stored E nonce L"
  "nonce_stored E nonce (ensure_credit_row E i k L) = nonce_stored E nonce L"
  "nonce_stored E nonce (ensure_gate E ip L) = nonce_stored E nonce L"
  "nonce_stored E nonce (insert_transaction t L) \<longleftrightarrow>
     nonce_stored E nonce L \<or> (case ct_nonce t of None \<Rightarrow> False | Some m \<Rightarrow> sq_eq E m nonce)"
  "nonce_stored E nonce (write_free_allocation E' i ip k L) = nonce_stored E nonce L"
  by (auto simp: nonce_stored_def set_account_balance_def set_credit_row_def insert_transaction_def ensure_credit_row_def
      ensure_gate_def write_free_allocation_def free_tx_def)

lemma writes_keep_nonce: "writes t E L L' \<Longrightarrow> nonce_stored E nonce L \<Longrightarrow> nonce_stored E nonce L'"
  by (induction rule: writes.induct) (auto simp: nonce_primitives)

lemma award_writes:
  assumes "fst (record_credit_award_once E i x task_id nonce L) = Inr b"
  obtains k m where "\<not> nonce_stored E nonce L"
    "snd (record_credit_award_once E i x task_id nonce L) = set_account_balance E i k (set_credit_row E i k
       (insert_transaction (award_tx E i x task_id nonce) (ensure_credit_row E i m L)))"
  using assms
  by (auto simp: record_credit_award_once_def transaction_def Let_def statement_Inr nonce_primitives
      split: sum.splits if_splits option.splits)

lemma award_stores_nonce:
  assumes "fst (record_credit_award_once E i x task_id nonce L) = Inr b"
  shows "\<not> nonce_stored E nonce L \<and> nonce_stored E nonce (snd (record_credit_award_once E i x task_id nonce L))"
  by (rule award_writes [OF assms]) (simp add: nonce_primitives award_tx_def)

lemma nonce_stored_env [simp]:
  "nonce_stored (E\<lparr>sq_fails := f\<rparr>) = nonce_stored E" "nonce_stored (E\<lparr>sq_now := t\<rparr>) = nonce_stored E"
  unfolding fun_eq_iff nonce_stored_def env_fields by simp_all

lemma award_call_nonce:
  assumes "fst (mysql_record_credit_award E fails i x task_id nonce L) = Inr b"
  shows "\<not> nonce_stored E nonce L \<and> nonce_stored E nonce (snd (mysql_record_credit_award E fails i x task_id nonce L))"
proof -
  let ?r = "retry (award_attempt E fails i x task_id nonce) transient_award 2 0 L"
  obtain b' where "fst ?r = Inr b'"
    using assms by (auto simp: mysql_record_credit_award_def split: prod.splits sum.splits CreditMutationError.splits)
  moreover obtain j where j: "?r = award_attempt E fails i x task_id nonce j L" using awards.retry_once by blast
  ultimately show ?thesis using award_stores_nonce [of "E\<lparr>sq_fails := fails j\<rparr>" i x task_id nonce L b']
    unfolding award_call j by (simp add: award_attempt_def)
qed

lemma award_call_failed:
  assumes "\<And>b. fst (mysql_record_credit_award E fails i x task_id nonce L) \<noteq> Inr b"
  shows "snd (mysql_record_credit_award E fails i x task_id nonce L) = L"
proof -
  let ?r = "retry (award_attempt E fails i x task_id nonce) transient_award 2 0 L"
  have "\<exists>e. fst ?r = Inl e"
  proof (cases "fst ?r")
    case (Inr b)
    then have "fst (mysql_record_credit_award E fails i x task_id nonce L) = Inr b"
      by (cases ?r) (simp add: mysql_record_credit_award_def)
    then show ?thesis using assms by blast
  qed simp
  then show ?thesis unfolding award_call using awards.retry_failed by blast
qed

text \<open>
  C15. A receipt is paid once. After a successful award, whatever awards, debits, sweeps and allocations follow,
  an award under the same nonce, for any node and any amount, is refused and changes nothing.
\<close>

theorem award_spent_once:
  assumes "fst (mysql_record_credit_award (E\<lparr>sq_now := t, sq_fails := f\<rparr>) fails i x task_id nonce L) = Inr b"
    and "L' = fold (ledger_step E) evs (snd (mysql_record_credit_award (E\<lparr>sq_now := t, sq_fails := f\<rparr>) fails i x task_id nonce L))"
  shows "(\<forall>b. fst (mysql_record_credit_award (E\<lparr>sq_now := t', sq_fails := f'\<rparr>) fails' j y task_id' nonce L') \<noteq> Inr b)
    \<and> snd (mysql_record_credit_award (E\<lparr>sq_now := t', sq_fails := f'\<rparr>) fails' j y task_id' nonce L') = L'"
proof -
  have "nonce_stored E nonce L'"
    using award_call_nonce [OF assms(1)] writes_keep_nonce [OF ledger_steps_write [of evs 0 E]] unfolding assms(2) by simp
  then have n: "\<forall>b. fst (mysql_record_credit_award (E\<lparr>sq_now := t', sq_fails := f'\<rparr>) fails' j y task_id' nonce L') \<noteq> Inr b"
    using award_call_nonce [of "E\<lparr>sq_now := t', sq_fails := f'\<rparr>" fails' j y task_id' nonce L'] by auto
  then show ?thesis using award_call_failed [of "E\<lparr>sq_now := t', sq_fails := f'\<rparr>" fails' j y task_id' nonce L'] by blast
qed

section \<open>How often free credits are given\<close>

definition free_at :: "sql_env \<Rightarrow> ledger \<Rightarrow> string \<Rightarrow> nat option" where
  "free_at E L i = Option.bind (find_credit E L i) cr_free_credit_last_allocation_at"

definition gate_at :: "sql_env \<Rightarrow> ledger \<Rightarrow> string \<Rightarrow> nat option" where
  "gate_at E L ip = Option.bind (find_gate E L ip) ig_last_allocation_at"

definition gated :: "nat \<Rightarrow> sql_env \<Rightarrow> string \<Rightarrow> string \<Rightarrow> ledger \<Rightarrow> bool" where
  "gated t E i ip L \<longleftrightarrow> (\<exists>s \<ge> t. free_at E L i = Some s) \<and> (\<exists>s \<ge> t. gate_at E L ip = Some s)"

lemma find_ensured:
  assumes "find (\<lambda>x. sq_eq E (w x) j) xs = Some y" "\<And>x. w (f x) = i" "\<And>x. g (f x) = g x"
  shows "\<exists>z. find (\<lambda>x. sq_eq E (w x) j) (update_first (\<lambda>x. sq_eq E (w x) i) f xs) = Some z \<and> g z = g y"
  using assms(1)
proof (induction xs)
  case (Cons x xs)
  then show ?case using assms(2,3) by (auto simp: sq_eq_def split: if_splits)
qed simp

lemma bind_map: "Option.bind (map_option f o') g = Option.bind o' (\<lambda>x. g (f x))"
  by (cases o') simp_all

lemma gates_plain:
  "free_at E (set_account_balance E i k L) = free_at E L" "gate_at E (set_account_balance E i k L) = gate_at E L"
  "free_at E (set_credit_row E i k L) = free_at E L" "gate_at E (set_credit_row E i k L) = gate_at E L"
  "free_at E (insert_transaction x L) = free_at E L" "gate_at E (insert_transaction x L) = gate_at E L"
  "gate_at E (ensure_credit_row E i k L) = gate_at E L" "free_at E (ensure_gate E ip L) = free_at E L"
  by (auto simp: fun_eq_iff free_at_def gate_at_def find_credit_def find_gate_def set_account_balance_def set_credit_row_def
      insert_transaction_def ensure_credit_row_def ensure_gate_def find_by_weight bind_map)

lemma gates_ensured:
  "free_at E L j = Some s \<Longrightarrow> free_at E (ensure_credit_row E i k L) j = Some s"
  "gate_at E L ip' = Some s \<Longrightarrow> gate_at E (ensure_gate E ip L) ip' = Some s"
proof -
  assume "free_at E L j = Some s"
  then obtain c where c: "find (\<lambda>x. sq_eq E (cr_node_id x) j) (lg_credits L) = Some c" "cr_free_credit_last_allocation_at c = Some s"
    by (auto simp: free_at_def find_credit_def bind_eq_Some_conv)
  from find_ensured [OF c(1), of "\<lambda>x. x\<lparr>cr_node_id := i\<rparr>" i cr_free_credit_last_allocation_at]
  show "free_at E (ensure_credit_row E i k L) j = Some s"
    using c by (auto simp: free_at_def find_credit_def ensure_credit_row_def find_append)
next
  assume "gate_at E L ip' = Some s"
  then obtain g where g: "find (\<lambda>x. sq_eq E (ig_ip_address x) ip') (lg_ip_gates L) = Some g" "ig_last_allocation_at g = Some s"
    by (auto simp: gate_at_def find_gate_def bind_eq_Some_conv)
  from find_ensured [OF g(1), of "\<lambda>x. x\<lparr>ig_ip_address := ip\<rparr>" ip ig_last_allocation_at]
  show "gate_at E (ensure_gate E ip L) ip' = Some s"
    using g by (auto simp: gate_at_def find_gate_def ensure_gate_def find_append)
qed

lemma gates_free:
  assumes "sq_weight E' = sq_weight E"
  shows "free_at E (write_free_allocation E' i ip k L) j
      = (if sq_eq E i j \<and> find_credit E L j \<noteq> None then Some (sq_now E') else free_at E L j)"
    and "gate_at E (write_free_allocation E' i ip k L) ip'
      = (if sq_eq E ip ip' \<and> find_gate E L ip' \<noteq> None then Some (sq_now E') else gate_at E L ip')"
proof -
  have e: "sq_eq E' = sq_eq E" by (simp add: fun_eq_iff sq_eq_def assms)
  show "free_at E (write_free_allocation E' i ip k L) j
      = (if sq_eq E i j \<and> find_credit E L j \<noteq> None then Some (sq_now E') else free_at E L j)"
    by (cases "find_credit E L j")
      (auto simp: free_at_def find_credit_def write_free_allocation_def e find_by_weight)
  show "gate_at E (write_free_allocation E' i ip k L) ip'
      = (if sq_eq E ip ip' \<and> find_gate E L ip' \<noteq> None then Some (sq_now E') else gate_at E L ip')"
    by (cases "find_gate E L ip'")
      (auto simp: gate_at_def find_gate_def write_free_allocation_def e find_by_weight)
qed

lemma writes_keep_gate: "writes t E L L' \<Longrightarrow> gated t E i ip L \<Longrightarrow> gated t E i ip L'"
proof (induction rule: writes.induct)
  case (allocated L' E' j ip' k)
  then show ?case unfolding gated_def gates_free [OF allocated.hyps(2)] by auto
next
  case (ensured L' j k)
  then show ?case unfolding gated_def gates_plain(7) using gates_ensured(1) by blast
next
  case (gate L' ip')
  then show ?case unfolding gated_def gates_plain(8) using gates_ensured(2) by blast
qed (auto simp: gated_def gates_plain)

lemma find_gate_env [simp]: "find_gate (E\<lparr>sq_fails := f\<rparr>) = find_gate E" "find_gate (E\<lparr>sq_now := t\<rparr>) = find_gate E"
  by (simp_all add: find_gate_def fun_eq_iff)

lemma allocation_opens_gate:
  assumes "fst (mysql_maybe_allocate_free_credits E i ip L) \<noteq> 0"
  shows "gated (sq_now E) E i ip (snd (mysql_maybe_allocate_free_credits E i ip L))"
proof -
  let ?L1 = "ensure_gate E ip (ensure_credit_row E i 0 L)"
  obtain c g k where c: "find_credit E ?L1 i = Some c" "find_gate E ?L1 ip = Some g"
      and L': "snd (mysql_maybe_allocate_free_credits E i ip L) = write_free_allocation E i ip k ?L1"
    using assms by (auto simp: mysql_maybe_allocate_free_credits_def Let_def split: option.splits if_splits)
  then show ?thesis unfolding gated_def L' gates_free [OF refl] by simp
qed

lemma gate_refuses:
  assumes "gated t E i ip L" "sq_now E' < t + SIX_HOURS" "sq_weight E' = sq_weight E" "sq_eq E j i \<or> sq_eq E ip' ip"
  shows "mysql_maybe_allocate_free_credits E' j ip' L = (0, L)"
proof -
  let ?L1 = "ensure_gate E ip' (ensure_credit_row E j 0 L)"
  have e: "sq_eq E' = sq_eq E" by (simp add: fun_eq_iff sq_eq_def assms(3))
  have f: "find_credit E' = find_credit E" "find_gate E' = find_gate E" by (simp_all add: fun_eq_iff find_credit_def find_gate_def e)
  note p = primitive_cong [OF assms(3)]
  obtain s s' where s: "t \<le> s" "free_at E L i = Some s" "t \<le> s'" "gate_at E L ip = Some s'" using assms(1) unfolding gated_def by blast
  have late: "recently E' (Some x)" if "t \<le> x" for x using that assms(2) by (simp add: recently_def)
  have "free_at E ?L1 j = Some s" if "sq_eq E j i"
    using s(2) gates_ensured(1) [of E L j s j 0] that unfolding gates_plain(8)
    by (auto simp: free_at_def find_credit_def sq_eq_def)
  then have a: "recently E' (cr_free_credit_last_allocation_at c)" if "find_credit E ?L1 j = Some c" "sq_eq E j i" for c
    using that late [OF s(1)] by (auto simp: free_at_def)
  have "gate_at E ?L1 ip' = Some s'" if "sq_eq E ip' ip"
    using s(4) gates_ensured(2) [of E "ensure_credit_row E j 0 L" ip' s' ip'] that
    by (auto simp: gates_plain(7)) (auto simp: gate_at_def find_gate_def sq_eq_def)
  then have b: "recently E' (ig_last_allocation_at g)" if "find_gate E ?L1 ip' = Some g" "sq_eq E ip' ip" for g
    using that late [OF s(3)] by (auto simp: gate_at_def)
  show ?thesis unfolding mysql_maybe_allocate_free_credits_def Let_def p f using assms(4) a b by (auto split: option.split)
qed

text \<open>
  C16. Free credits are given at most once in six hours, to a node and to an address. After an allocation,
  whatever calls follow it, another one for the same node from anywhere, or from the same address
  for any node, is refused without a trace until six hours have passed.
\<close>

theorem free_allocation_rate:
  assumes "fst (mysql_maybe_allocate_free_credits (E\<lparr>sq_now := t, sq_fails := f\<rparr>) i ip L) \<noteq> 0"
    and "\<forall>ev \<in> set evs. t \<le> le_now ev" and "t' < t + SIX_HOURS" and "sq_eq E j i \<or> sq_eq E ip' ip"
    and "L' = fold (ledger_step E) evs (snd (mysql_maybe_allocate_free_credits (E\<lparr>sq_now := t, sq_fails := f\<rparr>) i ip L))"
  shows "mysql_maybe_allocate_free_credits (E\<lparr>sq_now := t', sq_fails := f'\<rparr>) j ip' L' = (0, L')"
proof -
  let ?E = "E\<lparr>sq_now := t, sq_fails := f\<rparr>"
  have g: "gated t' ?E i' ip'' M = gated t' E i' ip'' M" for t' i' ip'' M by (simp add: gated_def free_at_def gate_at_def)
  have "gated t E i ip (snd (mysql_maybe_allocate_free_credits ?E i ip L))"
    using allocation_opens_gate [OF assms(1)] by (simp add: g)
  then have "gated t E i ip L'" unfolding assms(5) by (rule writes_keep_gate [OF ledger_steps_write [OF assms(2)]])
  then show ?thesis by (rule gate_refuses) (use assms(3,4) in simp_all)
qed

section \<open>Calls on the sample ledger\<close>

lemma small_floats: "round64 1 = 1" "round64 100 = 100" "round64 10000 = 10000"
  using round64_of_int [of 1] round64_of_int [of 100] round64_of_int [of 10000] by simp_all

lemma small_decimals: "round_even 10000 = 10000" "round_even 1000000 = 1000000" "round_even 0 = 0"
  "f64_round 10000 = 10000"
  using round_even_of_int [of 10000] round_even_of_int [of 1000000] round_even_of_int [of 0] f64_round_of_int [of 10000] by simp_all

definition sample_allocation :: ledger_event where
  "sample_allocation = \<lparr>le_now = 1000, le_lookup = (\<lambda>_. None), le_fails = (\<lambda>_ _ _. None), le_op = Allocate ''n3'' ''198.51.100.7''\<rparr>"

lemma sample_allocated:
  "mysql_maybe_allocate_free_credits (demo_sql\<lparr>sq_now := 1000, sq_fails := \<lambda>_. None\<rparr>) ''n3'' ''198.51.100.7'' sample_ledger
     = (100, write_free_allocation demo_sql ''n3'' ''198.51.100.7'' 1000000
          (ensure_gate demo_sql ''198.51.100.7'' (ensure_credit_row demo_sql ''n3'' 0 sample_ledger)))"
  by (simp add: mysql_maybe_allocate_free_credits_def lookup_simps sample_simps ensure_gate_def ensure_credit_row_def recently_def
      sql_double_def fadd_def small_floats small_decimals Let_def)


lemma sample_awarded:
  "fst (mysql_record_credit_award (demo_sql\<lparr>sq_now := 1000, sq_fails := \<lambda>_. None\<rparr>) (\<lambda>_ _. None) ''n3'' 1 ''task'' ''nonce'' sample_ledger)
     = Inr 1"
proof -
  have "round64 (1 / 10000) \<ge> 0" by (rule f64.rnd_nonneg) simp
  then show ?thesis
    by (simp add: mysql_record_credit_award_def numeral_2_eq_2 award_attempt_def record_credit_award_once_def statement_def lookup_simps
        sample_simps ensure_credit_row_def nonce_stored_def sql_double_def fsub_def fadd_def fmul_def fdiv_def small_floats small_decimals
        Let_def)
qed

theorem award_spent_once_witness:
  "fst (mysql_record_credit_award (demo_sql\<lparr>sq_now := 2000, sq_fails := \<lambda>_. None\<rparr>) (\<lambda>_ _. None) ''n1'' 5 ''other'' ''nonce''
     (fold (ledger_step demo_sql) [sample_allocation] (snd (mysql_record_credit_award (demo_sql\<lparr>sq_now := 1000, sq_fails := \<lambda>_. None\<rparr>)
        (\<lambda>_ _. None) ''n3'' 1 ''task'' ''nonce'' sample_ledger)))) \<noteq> Inr 35"
  using award_spent_once [where evs = "[sample_allocation]", OF sample_awarded refl] by blast

theorem free_allocation_rate_witness:
  "fst (mysql_maybe_allocate_free_credits (demo_sql\<lparr>sq_now := 22599, sq_fails := \<lambda>_. None\<rparr>) ''n1'' ''198.51.100.7''
     (fold (ledger_step demo_sql) [sample_allocation] (snd (mysql_maybe_allocate_free_credits
        (demo_sql\<lparr>sq_now := 1000, sq_fails := \<lambda>_. None\<rparr>) ''n3'' ''198.51.100.7'' sample_ledger)))) = 0"
  using free_allocation_rate [where E = demo_sql and t = 1000 and f = "\<lambda>_. None" and i = "''n3''" and ip = "''198.51.100.7''"
      and L = sample_ledger and evs = "[sample_allocation]" and t' = 22599 and j = "''n1''" and ip' = "''198.51.100.7''"
      and f' = "\<lambda>_. None", OF _ _ _ _ refl] sample_allocated
  by (simp add: SIX_HOURS_def sample_allocation_def)

end
