(* ===== verification/Maintenance.thy ===== *)
theory Maintenance
  imports Sql
begin

text \<open>
  Retention of telemetry, \<open>src/maintenance.rs\<close>: the policy read from the environment, the bounded
  deletion of expired rows, the status report and the readiness report for strict registration.

  Times are in microseconds. The tables are a function from their name to their rows, \<open>None\<close> for a
  table that does not exist; a row has its id and its date columns. The statements of a pass do not form
  a transaction: what a pass deleted before a statement fails stays deleted. Text formats of
  times and what the database says of the size of a table are parameters.
\<close>

section \<open>Policy\<close>

definition DEFAULT_BATCH_SIZE :: u32 where
  "DEFAULT_BATCH_SIZE = 1000"

definition DEFAULT_MAX_BATCHES :: u32 where
  "DEFAULT_MAX_BATCHES = 5"

record RetentionPolicy =
  rp_probe_days :: u32
  rp_aggregate_days :: u32
  rp_proxy_days :: u32
  rp_dispatch_days :: u32
  rp_heartbeat_event_days :: u32

definition default_policy :: RetentionPolicy where
  "default_policy = \<lparr>rp_probe_days = 14, rp_aggregate_days = 30, rp_proxy_days = 30, rp_dispatch_days = 30, rp_heartbeat_event_days = 1\<rparr>"

definition positive_env :: "(string \<Rightarrow> string option) \<Rightarrow> string \<Rightarrow> u32 \<Rightarrow> u32" where
  "positive_env env name fallback =
     (case Option.bind (env name) (parse_uint 4294967295) of
        Some value \<Rightarrow> if value > 0 then of_int value else fallback
      | None \<Rightarrow> fallback)"

definition policy_from_env :: "(string \<Rightarrow> string option) \<Rightarrow> RetentionPolicy" where
  "policy_from_env env =
     \<lparr>rp_probe_days = positive_env env ''IICP_TELEMETRY_PROBE_RETENTION_DAYS'' (rp_probe_days default_policy),
      rp_aggregate_days = positive_env env ''IICP_TELEMETRY_AGGREGATE_RETENTION_DAYS'' (rp_aggregate_days default_policy),
      rp_proxy_days = positive_env env ''IICP_PROXY_TELEMETRY_RETENTION_DAYS'' (rp_proxy_days default_policy),
      rp_dispatch_days = positive_env env ''IICP_DISPATCH_USAGE_RETENTION_DAYS'' (rp_dispatch_days default_policy),
      rp_heartbeat_event_days = positive_env env ''IICP_HEARTBEAT_EVENT_RETENTION_DAYS'' (rp_heartbeat_event_days default_policy)\<rparr>"

record RetentionTarget =
  rt_name :: string
  rt_table :: string
  rt_column :: string
  rt_days :: u32

definition targets :: "RetentionPolicy \<Rightarrow> RetentionTarget list" where
  "targets policy =
     [\<lparr>rt_name = ''raw_probe_telemetry'', rt_table = ''iicp_telemetry_probes'', rt_column = ''probed_at'', rt_days = rp_probe_days policy\<rparr>,
      \<lparr>rt_name = ''probe_aggregates'', rt_table = ''iicp_telemetry_aggregates'', rt_column = ''computed_at'', rt_days = rp_aggregate_days policy\<rparr>,
      \<lparr>rt_name = ''proxy_telemetry'', rt_table = ''proxy_telemetry'', rt_column = ''created_at'', rt_days = rp_proxy_days policy\<rparr>,
      \<lparr>rt_name = ''dispatch_usage_aggregates'', rt_table = ''dispatch_usage_daily'', rt_column = ''usage_date'', rt_days = rp_dispatch_days policy\<rparr>]"

section \<open>Tables\<close>

record dated_row =
  dr_id :: nat
  dr_dates :: "string \<Rightarrow> int option"

type_synonym dated_db = "string \<Rightarrow> dated_row list option"

definition day_us :: int where
  "day_us = 86400000000"

text \<open>\<open>now - Duration::days(days)\<close> panics below the earliest time of the library, \<open>min_time\<close>.\<close>

datatype prune_error = DbError sqlx_error | DateOverflow

definition cutoff_at :: "int \<Rightarrow> int \<Rightarrow> u32 \<Rightarrow> int option" where
  "cutoff_at min_time now days = (if now - uint days * day_us < min_time then None else Some (now - uint days * day_us))"

definition expired_row :: "string \<Rightarrow> int \<Rightarrow> dated_row \<Rightarrow> bool" where
  "expired_row column cutoff r \<longleftrightarrow> (case dr_dates r column of None \<Rightarrow> False | Some t \<Rightarrow> t < cutoff)"

definition eligible_count :: "string \<Rightarrow> int \<Rightarrow> dated_row list \<Rightarrow> nat" where
  "eligible_count column cutoff rows = length (filter (expired_row column cutoff) rows)"

definition expired_ids :: "string \<Rightarrow> int \<Rightarrow> nat \<Rightarrow> dated_row list \<Rightarrow> nat list" where
  "expired_ids column cutoff limit rows = take limit (map dr_id (sort_key dr_id (filter (expired_row column cutoff) rows)))"

section \<open>Bounded deletion\<close>

text \<open>\<open>fails\<close> says which statement fails, numbered from \<open>k\<close>; \<open>m\<close> batches are left.\<close>

fun delete_bounded ::
  "(nat \<Rightarrow> sqlx_error option) \<Rightarrow> nat \<Rightarrow> string \<Rightarrow> int \<Rightarrow> nat \<Rightarrow> nat \<Rightarrow> nat \<Rightarrow> dated_row list \<Rightarrow> (prune_error + nat) \<times> dated_row list" where
  "delete_bounded fails k column cutoff batch_size 0 deleted rows = (Inr deleted, rows)"
| "delete_bounded fails k column cutoff batch_size (Suc m) deleted rows =
     (case fails k of
        Some e \<Rightarrow> (Inl (DbError e), rows)
      | None \<Rightarrow>
          (let ids = expired_ids column cutoff batch_size rows
           in if ids = [] then (Inr deleted, rows)
              else (case fails (k + 1) of
                      Some e \<Rightarrow> (Inl (DbError e), rows)
                    | None \<Rightarrow>
                        (let rows1 = filter (\<lambda>r. dr_id r \<notin> set ids) rows;
                             deleted1 = deleted + length (filter (\<lambda>r. dr_id r \<in> set ids) rows)
                         in if length ids < batch_size then (Inr deleted1, rows1)
                            else delete_bounded fails (k + 2) column cutoff batch_size m deleted1 rows1))))"

record PruneTableResult =
  pt_name :: string
  pt_table :: string
  pt_exists :: bool
  pt_retention_days :: u32
  pt_cutoff :: "string option"
  pt_eligible_before :: nat
  pt_deleted :: nat
  pt_eligible_after :: nat

definition process_target ::
  "int \<Rightarrow> (int \<Rightarrow> string) \<Rightarrow> (nat \<Rightarrow> sqlx_error option) \<Rightarrow> RetentionTarget \<Rightarrow> int \<Rightarrow> nat \<Rightarrow> nat \<Rightarrow> bool \<Rightarrow> dated_db
   \<Rightarrow> (prune_error + PruneTableResult) \<times> dated_db" where
  "process_target min_time fmt fails target now batch_size max_batches apply_it db =
     (case fails 0 of
        Some e \<Rightarrow> (Inl (DbError e), db)
      | None \<Rightarrow>
          (case db (rt_table target) of
             None \<Rightarrow>
               (Inr \<lparr>pt_name = rt_name target, pt_table = rt_table target, pt_exists = False, pt_retention_days = rt_days target,
                     pt_cutoff = None, pt_eligible_before = 0, pt_deleted = 0, pt_eligible_after = 0\<rparr>, db)
           | Some rows \<Rightarrow>
               (case cutoff_at min_time now (rt_days target) of
                  None \<Rightarrow> (Inl DateOverflow, db)
                | Some cutoff \<Rightarrow>
                    (case fails 1 of
                       Some e \<Rightarrow> (Inl (DbError e), db)
                     | None \<Rightarrow>
                         (let before = eligible_count (rt_column target) cutoff rows;
                              result = (\<lambda>deleted after.
                                \<lparr>pt_name = rt_name target, pt_table = rt_table target, pt_exists = True, pt_retention_days = rt_days target,
                                 pt_cutoff = Some (fmt cutoff), pt_eligible_before = before, pt_deleted = deleted, pt_eligible_after = after\<rparr>)
                          in if \<not> apply_it then (Inr (result 0 before), db)
                             else (case delete_bounded fails 2 (rt_column target) cutoff batch_size max_batches 0 rows of
                                     (Inl e, rows1) \<Rightarrow> (Inl e, db(rt_table target := Some rows1))
                                   | (Inr deleted, rows1) \<Rightarrow>
                                       (case fails (2 + 2 * max_batches) of
                                          Some e \<Rightarrow> (Inl (DbError e), db(rt_table target := Some rows1))
                                        | None \<Rightarrow> (Inr (result deleted (eligible_count (rt_column target) cutoff rows1)),
                                                    db(rt_table target := Some rows1)))))))))"

record PruneSafety =
  ps_drops_tables :: bool
  ps_touches_credits :: bool
  ps_touches_reputation :: bool
  ps_touches_nodes_or_operators :: bool
  ps_prod_backup_required :: bool

record PruneReport =
  pp_schema :: string
  pp_generated_at :: string
  pp_dry_run :: bool
  pp_batch_size :: u32
  pp_max_batches :: u32
  pp_tables :: "PruneTableResult list"
  pp_safety :: PruneSafety

text \<open>The loop over the targets: \<open>fails\<close> has the failures of each, and the first one ends the pass.\<close>

fun prune_targets ::
  "int \<Rightarrow> (int \<Rightarrow> string) \<Rightarrow> (string \<Rightarrow> nat \<Rightarrow> sqlx_error option) \<Rightarrow> int \<Rightarrow> nat \<Rightarrow> nat \<Rightarrow> bool \<Rightarrow> RetentionTarget list \<Rightarrow> dated_db
   \<Rightarrow> (prune_error + PruneTableResult list) \<times> dated_db" where
  "prune_targets min_time fmt fails now b m apply_it [] db = (Inr [], db)"
| "prune_targets min_time fmt fails now b m apply_it (t # ts) db =
     (case process_target min_time fmt (fails (rt_table t)) t now b m apply_it db of
        (Inl e, db1) \<Rightarrow> (Inl e, db1)
      | (Inr r, db1) \<Rightarrow>
          (case prune_targets min_time fmt fails now b m apply_it ts db1 of
             (Inl e, db2) \<Rightarrow> (Inl e, db2)
           | (Inr rs, db2) \<Rightarrow> (Inr (r # rs), db2)))"

definition prune_telemetry ::
  "int \<Rightarrow> (int \<Rightarrow> string) \<Rightarrow> (int \<Rightarrow> string) \<Rightarrow> (string \<Rightarrow> nat \<Rightarrow> sqlx_error option) \<Rightarrow> int \<Rightarrow> RetentionPolicy \<Rightarrow> u32 \<Rightarrow> u32 \<Rightarrow> bool \<Rightarrow> dated_db
   \<Rightarrow> (prune_error + PruneReport) \<times> dated_db" where
  "prune_telemetry min_time fmt rfc3339 fails now policy batch_size max_batches apply_it db =
     (let b = max batch_size 1; m = max max_batches 1
      in case prune_targets min_time fmt fails now (unat b) (unat m) apply_it (targets policy) db of
           (Inl e, db1) \<Rightarrow> (Inl e, db1)
         | (Inr rs, db1) \<Rightarrow>
             (Inr \<lparr>pp_schema = ''iicp.db.telemetry_prune.v1'', pp_generated_at = rfc3339 now, pp_dry_run = (\<not> apply_it),
                   pp_batch_size = b, pp_max_batches = m, pp_tables = rs,
                   pp_safety = \<lparr>ps_drops_tables = False, ps_touches_credits = False, ps_touches_reputation = False,
                                ps_touches_nodes_or_operators = False, ps_prod_backup_required = True\<rparr>\<rparr>, db1))"

section \<open>Status\<close>

record MaintenanceTableStatus =
  ms_table :: string
  ms_exists :: bool
  ms_rows :: nat
  ms_estimated_bytes :: "nat option"
  ms_oldest :: "string option"
  ms_newest :: "string option"
  ms_retention_days :: "u32 option"
  ms_eligible_prune_rows :: "nat option"

definition column_dates :: "string \<Rightarrow> dated_row list \<Rightarrow> int list" where
  "column_dates column rows = List.map_filter (\<lambda>r. dr_dates r column) rows"

definition extreme :: "(int set \<Rightarrow> int) \<Rightarrow> int list \<Rightarrow> int option" where
  "extreme f ts = (if ts = [] then None else Some (f (set ts)))"

definition table_status ::
  "int \<Rightarrow> (string \<Rightarrow> nat option) \<Rightarrow> (int \<Rightarrow> string) \<Rightarrow> (nat \<Rightarrow> sqlx_error option) \<Rightarrow> string \<Rightarrow> (string \<times> u32) option \<Rightarrow> int \<Rightarrow> dated_db
   \<Rightarrow> prune_error + MaintenanceTableStatus" where
  "table_status min_time bytes chars fails table dated now db =
     (case fails 0 of
        Some e \<Rightarrow> Inl (DbError e)
      | None \<Rightarrow>
          (case db table of
             None \<Rightarrow> Inr \<lparr>ms_table = table, ms_exists = False, ms_rows = 0, ms_estimated_bytes = None, ms_oldest = None, ms_newest = None,
                      ms_retention_days = map_option snd dated, ms_eligible_prune_rows = None\<rparr>
           | Some rows \<Rightarrow>
               (case (fails 1, fails 2) of
                  (Some e, _) \<Rightarrow> Inl (DbError e)
                | (None, Some e) \<Rightarrow> Inl (DbError e)
                | (None, None) \<Rightarrow>
                    (let result = (\<lambda>oldest newest eligible.
                           \<lparr>ms_table = table, ms_exists = True, ms_rows = length rows, ms_estimated_bytes = bytes table,
                            ms_oldest = oldest, ms_newest = newest, ms_retention_days = map_option snd dated, ms_eligible_prune_rows = eligible\<rparr>)
                     in case dated of
                          None \<Rightarrow> Inr (result None None None)
                        | Some (column, days) \<Rightarrow>
                            (case fails 3 of
                               Some e \<Rightarrow> Inl (DbError e)
                             | None \<Rightarrow>
                                 (case cutoff_at min_time now days of
                                    None \<Rightarrow> Inl DateOverflow
                                  | Some cutoff \<Rightarrow>
                                      (case fails 4 of
                                         Some e \<Rightarrow> Inl (DbError e)
                                       | None \<Rightarrow>
                                           Inr (result (map_option chars (extreme Min (column_dates column rows)))
                                             (map_option chars (extreme Max (column_dates column rows)))
                                             (Some (eligible_count column cutoff rows))))))))))"

record MaintenanceSafety =
  my_dry_run_only :: bool
  my_exports_row_payloads :: bool
  my_drops_tables :: bool
  my_prod_backup_required :: bool

record MaintenanceStatusReport =
  mr_schema :: string
  mr_generated_at :: string
  mr_driver :: string
  mr_database :: string
  mr_retention :: RetentionPolicy
  mr_tables :: "MaintenanceTableStatus list"
  mr_safety :: MaintenanceSafety

fun sequence_status :: "(prune_error + 'a) list \<Rightarrow> prune_error + 'a list" where
  "sequence_status [] = Inr []"
| "sequence_status (r # rs) =
     (case r of Inl e \<Rightarrow> Inl e | Inr x \<Rightarrow> (case sequence_status rs of Inl e \<Rightarrow> Inl e | Inr xs \<Rightarrow> Inr (x # xs)))"

definition maintenance_status ::
  "int \<Rightarrow> (string \<Rightarrow> nat option) \<Rightarrow> (int \<Rightarrow> string) \<Rightarrow> (int \<Rightarrow> string) \<Rightarrow> sqlx_error + string \<Rightarrow> (string \<Rightarrow> nat \<Rightarrow> sqlx_error option)
   \<Rightarrow> int \<Rightarrow> RetentionPolicy \<Rightarrow> dated_db \<Rightarrow> prune_error + MaintenanceStatusReport" where
  "maintenance_status min_time bytes chars rfc3339 database fails now policy db =
     (case database of
        Inl e \<Rightarrow> Inl (DbError e)
      | Inr name \<Rightarrow>
          (case sequence_status
                  (map (\<lambda>t. table_status min_time bytes chars (fails (rt_table t)) (rt_table t) (Some (rt_column t, rt_days t)) now db) (targets policy)
                   @ map (\<lambda>t. table_status min_time bytes chars (fails t) t None now db)
                       [''node_events'', ''node_address_history'', ''credits'', ''credit_transactions'', ''reputations'']) of
             Inl e \<Rightarrow> Inl e
           | Inr tables \<Rightarrow>
               Inr \<lparr>mr_schema = ''iicp.db.maintenance_status.v1'', mr_generated_at = rfc3339 now, mr_driver = ''mysql'', mr_database = name,
                    mr_retention = policy, mr_tables = tables,
                    mr_safety = \<lparr>my_dry_run_only = True, my_exports_row_payloads = False, my_drops_tables = False,
                                 my_prod_backup_required = True\<rparr>\<rparr>))"

section \<open>Readiness for strict registration\<close>

record heartbeating_row =
  hv_available :: bool
  hv_status :: string
  hv_last_seen :: "nat option"
  hv_sdk_version :: "string option"
  hv_sdk_compatibility_version :: "string option"
  hv_operator_pubkey :: "string option"
  hv_cx_public_key :: "string option"

definition text_present :: "string option \<Rightarrow> bool" where
  "text_present v \<longleftrightarrow> (case v of None \<Rightarrow> False | Some s \<Rightarrow> trim s \<noteq> [])"

text \<open>The first three parts, each by its leading digits; \<open>None\<close> for a part that is missing or no number.\<close>

definition capable_version_part :: "string list \<Rightarrow> nat \<Rightarrow> int option" where
  "capable_version_part parts k = (if k < length parts then parse_uint 4294967295 (takeWhile is_ascii_digit (parts ! k)) else None)"

definition token_capable :: "string option \<Rightarrow> bool" where
  "token_capable version =
     (case version of
        None \<Rightarrow> False
      | Some v \<Rightarrow>
          (let parts = split_char CHR ''.'' (dropWhile (\<lambda>c. c = CHR ''v'') v)
           in case (capable_version_part parts 0, capable_version_part parts 1, capable_version_part parts 2) of
                (Some major, Some minor, Some patch) \<Rightarrow>
                  major > 0 \<or> major = 0 \<and> (minor > 7 \<or> minor = 7 \<and> patch \<ge> 59)
              | _ \<Rightarrow> False))"

record E050ReadinessReport =
  er_schema :: string
  er_basis :: string
  er_strict_mode_enabled :: bool
  er_token_capability_floor :: string
  er_total_heartbeating :: nat
  er_token_capable :: nat
  er_token_capable_share :: f64
  er_secured_nodes :: nat
  er_hypothetical_rejections :: nat
  er_content_free :: bool
  er_mutates_state :: bool
  er_authorizes_cutover :: bool

definition heartbeating :: "sql_env \<Rightarrow> heartbeating_row list \<Rightarrow> heartbeating_row list" where
  "heartbeating E rows =
     filter (\<lambda>r. hv_available r \<and> sq_eq E (hv_status r) ''active''
       \<and> (case hv_last_seen r of None \<Rightarrow> False | Some t \<Rightarrow> int t \<ge> int (sq_now E) - 90)) rows"

definition e050_readiness :: "sql_env \<Rightarrow> bool \<Rightarrow> heartbeating_row list \<Rightarrow> sqlx_error + E050ReadinessReport" where
  "e050_readiness E strict_mode_enabled nodes =
     statement E id 0
       (let rows = heartbeating E nodes;
            total = length rows;
            capable = length (filter (\<lambda>r. token_capable
              (case hv_sdk_compatibility_version r of None \<Rightarrow> hv_sdk_version r | Some v \<Rightarrow> Some v)) rows);
            secured = length (filter (\<lambda>r. text_present (hv_operator_pubkey r) \<or> text_present (hv_cx_public_key r)) rows)
        in Inr \<lparr>er_schema = ''iicp.e050_readiness.v1'', er_basis = ''heartbeating_nodes'', er_strict_mode_enabled = strict_mode_enabled,
                er_token_capability_floor = ''0.7.59'', er_total_heartbeating = total, er_token_capable = capable,
                er_token_capable_share =
                  (if total = 0 then 0
                   else fdiv (of_int (f64_round (fmul (fdiv (round64 (of_nat capable)) (round64 (of_nat total))) 1000000))) 1000000),
                er_secured_nodes = secured, er_hypothetical_rejections = secured, er_content_free = True, er_mutates_state = False,
                er_authorizes_cutover = False\<rparr>)"

section \<open>What a pass deletes\<close>

text \<open>The reference: the table without the first \<open>n\<close> expired rows in the order of their ids.\<close>

definition survivors :: "string \<Rightarrow> int \<Rightarrow> nat \<Rightarrow> dated_row list \<Rightarrow> dated_row list" where
  "survivors column cutoff n rows = filter (\<lambda>r. dr_id r \<notin> set (expired_ids column cutoff n rows)) rows"

abbreviation distinct_ids :: "dated_row list \<Rightarrow> bool" where
  "distinct_ids rows \<equiv> distinct (map dr_id rows)"

lemma distinct_expired: "distinct_ids rows \<Longrightarrow> distinct (map dr_id (sort_key dr_id (filter p rows)))"
  by (simp add: distinct_map_filter distinct_map inj_on_def)

lemma filter_not_taken: "distinct (map f xs) \<Longrightarrow> filter (\<lambda>x. f x \<notin> set (take n (map f xs))) xs = drop n xs"
proof (induction xs arbitrary: n)
  case (Cons x xs)
  show ?case
  proof (cases n)
    case (Suc m)
    have "f y \<noteq> f x" if "y \<in> set xs" for y using Cons.prems that by (auto simp: image_iff)
    then have "filter (\<lambda>y. f y \<notin> insert (f x) (set (take m (map f xs)))) xs = filter (\<lambda>y. f y \<notin> set (take m (map f xs))) xs"
      by (intro filter_cong) auto
    then show ?thesis using Cons Suc by simp
  qed simp
qed simp

lemma expired_survivors:
  assumes "distinct_ids rows"
  shows "sort_key dr_id (filter (expired_row c t) (survivors c t n rows)) = drop n (sort_key dr_id (filter (expired_row c t) rows))"
proof -
  let ?L = "sort_key dr_id (filter (expired_row c t) rows)"
  have "sort_key dr_id (filter (expired_row c t) (survivors c t n rows)) = filter (\<lambda>r. dr_id r \<notin> set (take n (map dr_id ?L))) ?L"
    by (simp add: survivors_def expired_ids_def filter_sort conj_commute)
  then show ?thesis using filter_not_taken [OF distinct_expired [OF assms]] by simp
qed

lemma survivors_add:
  assumes "distinct_ids rows"
  shows "survivors c t n (survivors c t b rows) = survivors c t (b + n) rows"
proof -
  have "expired_ids c t (b + n) rows = expired_ids c t b rows @ expired_ids c t n (survivors c t b rows)"
    unfolding expired_ids_def expired_survivors [OF assms] by (simp add: take_add drop_map)
  then show ?thesis by (auto simp: survivors_def [of c t n] survivors_def [of c t "b + n"] survivors_def [of c t b] intro: filter_cong)
qed

lemma survivors_few:
  assumes "eligible_count c t rows \<le> n" "eligible_count c t rows \<le> n'"
  shows "survivors c t n rows = survivors c t n' rows"
  using assms by (simp add: survivors_def expired_ids_def eligible_count_def)

lemma eligible_survivors: "distinct_ids rows \<Longrightarrow> eligible_count c t (survivors c t n rows) = eligible_count c t rows - n"
  using arg_cong [OF expired_survivors, of rows length c t n] by (simp add: eligible_count_def)

lemma distinct_survivors: "distinct_ids rows \<Longrightarrow> distinct_ids (survivors c t n rows)"
  by (simp add: survivors_def distinct_map_filter)

lemma survivors_keep:
  assumes "distinct_ids rows" "r \<in> set rows" "\<not> expired_row c t r"
  shows "r \<in> set (survivors c t n rows)"
proof -
  have "r' = r" if "r' \<in> set rows" "dr_id r' = dr_id r" for r' using assms(1,2) that by (auto simp: distinct_map inj_on_def)
  then show ?thesis using assms(2,3) by (auto simp: survivors_def expired_ids_def dest!: in_set_takeD)
qed

lemma count_deleted:
  assumes "distinct_ids rows"
  shows "length (filter (\<lambda>r. dr_id r \<in> set (expired_ids c t n rows)) rows) = min n (eligible_count c t rows)"
proof -
  let ?ids = "expired_ids c t n rows"
  have sub: "set ?ids \<subseteq> dr_id ` set rows" by (auto simp: expired_ids_def dest!: in_set_takeD)
  have "length (filter (\<lambda>r. dr_id r \<in> set ?ids) rows) = card (dr_id ` set (filter (\<lambda>r. dr_id r \<in> set ?ids) rows))"
    using assms by (metis distinct_card distinct_map_filter length_map set_map)
  also have "dr_id ` set (filter (\<lambda>r. dr_id r \<in> set ?ids) rows) = set ?ids" using sub by auto
  also have "card (set ?ids) = length ?ids" using distinct_expired [OF assms] by (intro distinct_card) (simp add: expired_ids_def)
  finally show ?thesis by (simp add: expired_ids_def eligible_count_def min.commute)
qed

lemma delete_bounded_survivors:
  assumes "distinct_ids rows" "0 < b"
  shows "case delete_bounded fails k c t b m d rows of
      (Inr d', rows') \<Rightarrow> d' = d + min (b * m) (eligible_count c t rows) \<and> rows' = survivors c t (b * m) rows
    | (Inl e, rows') \<Rightarrow> \<exists>n \<le> b * m. rows' = survivors c t n rows"
  using assms(1)
proof (induction m arbitrary: k d rows)
  case 0
  then show ?case by (simp add: survivors_def expired_ids_def)
next
  case (Suc m)
  let ?ids = "expired_ids c t b rows" and ?r = "survivors c t b rows" and ?d = "d + min b (eligible_count c t rows)"
  have none: "survivors c t 0 rows = rows" by (simp add: survivors_def expired_ids_def)
  have len: "length ?ids = min b (eligible_count c t rows)" by (simp add: expired_ids_def eligible_count_def min.commute)
  have step: "delete_bounded fails k c t b (Suc m) d rows =
      (case fails k of Some e \<Rightarrow> (Inl (DbError e), rows) | None \<Rightarrow>
         if ?ids = [] then (Inr d, rows)
         else case fails (k + 1) of Some e \<Rightarrow> (Inl (DbError e), rows) | None \<Rightarrow>
           if length ?ids < b then (Inr ?d, ?r) else delete_bounded fails (k + 2) c t b m ?d ?r)"
    by (simp only: delete_bounded.simps Let_def count_deleted [OF Suc.prems] survivors_def)
  have stop: "\<exists>n \<le> b * Suc m. rows = survivors c t n rows" using none [symmetric] by blast
  show ?case
  proof (cases "fails k")
    case None
    show ?thesis
    proof (cases "?ids = []")
      case True
      then have "eligible_count c t rows = 0" using len assms(2) by simp
      then show ?thesis unfolding step using None True none survivors_few [of c t rows 0 "b * Suc m"] by simp
    next
      case False
      show ?thesis
      proof (cases "fails (k + 1)")
        case ok: None
        show ?thesis
        proof (cases "length ?ids < b")
          case True
          then have e: "eligible_count c t rows < b" using len by simp
          then show ?thesis unfolding step using None False ok True survivors_few [of c t rows b "b * Suc m"] by simp
        next
          case full: False
          then have e: "b \<le> eligible_count c t rows" using len by simp
          have "delete_bounded fails k c t b (Suc m) d rows = delete_bounded fails (k + 2) c t b m ?d ?r"
            unfolding step using None False ok full by simp
          moreover have "\<exists>n \<le> b * Suc m. x = survivors c t n rows" if "\<exists>n \<le> b * m. x = survivors c t n ?r" for x
          proof -
            from that obtain n where "n \<le> b * m" "x = survivors c t (b + n) rows" by (auto simp: survivors_add [OF Suc.prems])
            then show ?thesis by (intro exI [of _ "b + n"]) simp
          qed
          ultimately show ?thesis
            using Suc.IH [where rows = ?r and k = "k + 2" and d = ?d, OF distinct_survivors [OF Suc.prems]] e
            by (auto simp: survivors_add [OF Suc.prems] eligible_survivors [OF Suc.prems] split: prod.splits sum.splits)
        qed
      qed (use None False stop step in simp)
    qed
  qed (use stop step in simp)
qed

section \<open>A whole pass\<close>

text \<open>The table of a target after at most \<open>n\<close> deletions, and what the report says of it.\<close>

definition pruned_table :: "int \<Rightarrow> nat \<Rightarrow> RetentionTarget \<Rightarrow> dated_row list option \<Rightarrow> dated_row list option" where
  "pruned_table now n t = map_option (survivors (rt_column t) (now - uint (rt_days t) * day_us) n)"

definition prune_bound :: "u32 \<Rightarrow> u32 \<Rightarrow> nat" where
  "prune_bound batch_size max_batches = unat (max batch_size 1) * unat (max max_batches 1)"

definition reported :: "int \<Rightarrow> nat \<Rightarrow> RetentionTarget \<Rightarrow> dated_row list option \<Rightarrow> PruneTableResult \<Rightarrow> bool" where
  "reported now n t rows r \<longleftrightarrow>
     (let eligible = (case rows of None \<Rightarrow> 0 | Some rs \<Rightarrow> eligible_count (rt_column t) (now - uint (rt_days t) * day_us) rs)
      in pt_table r = rt_table t \<and> pt_exists r = (rows \<noteq> None) \<and> pt_retention_days r = rt_days t
         \<and> pt_eligible_before r = eligible \<and> pt_deleted r = min n eligible \<and> pt_eligible_after r = eligible - pt_deleted r)"

definition ids_unique :: "dated_db \<Rightarrow> bool" where
  "ids_unique db \<longleftrightarrow> (\<forall>table rows. db table = Some rows \<longrightarrow> distinct_ids rows)"

lemma survivors_none: "survivors c t 0 rows = rows"
  by (simp add: survivors_def expired_ids_def)

lemma process_target_exact:
  assumes "ids_unique db" "0 < b"
  shows "case process_target min_time fmt fails t now b m True db of
      (Inr r, db') \<Rightarrow> reported now (b * m) t (db (rt_table t)) r \<and> db' = db(rt_table t := pruned_table now (b * m) t (db (rt_table t)))
    | (Inl e, db') \<Rightarrow> \<exists>n \<le> b * m. db' = db(rt_table t := pruned_table now n t (db (rt_table t)))"
proof (cases "db (rt_table t)")
  case None
  then show ?thesis by (auto simp: process_target_def reported_def pruned_table_def fun_upd_idem split: option.split)
next
  case (Some rows)
  let ?c = "now - uint (rt_days t) * day_us"
  have rows: "distinct_ids rows" using assms(1) Some by (simp add: ids_unique_def)
  have same: "\<exists>n \<le> b * m. db = db(rt_table t := pruned_table now n t (db (rt_table t)))"
    using Some by (intro exI [of _ 0]) (simp add: pruned_table_def survivors_none fun_upd_idem)
  show ?thesis
  proof (cases "fails 0 = None \<and> cutoff_at min_time now (rt_days t) = Some ?c \<and> fails 1 = None")
    case True
    obtain res rows' where d: "delete_bounded fails 2 (rt_column t) ?c b m 0 rows = (res, rows')" by fastforce
    note db = delete_bounded_survivors [OF rows assms(2), where fails = fails and k = 2 and c = "rt_column t" and t = ?c and m = m and d = 0,
        unfolded d]
    show ?thesis
    proof (cases res)
      case (Inl e)
      then show ?thesis using True Some d db by (auto simp: process_target_def Let_def pruned_table_def)
    next
      case (Inr k)
      then have k: "k = min (b * m) (eligible_count (rt_column t) ?c rows)" "rows' = survivors (rt_column t) ?c (b * m) rows"
        using db by simp_all
      show ?thesis using True Some d Inr k
        by (auto simp: process_target_def Let_def pruned_table_def reported_def eligible_survivors [OF rows] split: option.split)
    qed
  next
    case False
    then show ?thesis using same Some
      by (auto simp: process_target_def Let_def cutoff_at_def split: option.splits if_splits)
  qed
qed

lemma ids_unique_pruned: "ids_unique db \<Longrightarrow> ids_unique (db(rt_table t := pruned_table now n t (db (rt_table t))))"
  by (auto simp: ids_unique_def pruned_table_def distinct_survivors)

lemma prune_targets_exact:
  assumes "ids_unique db" "0 < b" "distinct (map rt_table ts)"
  shows "case prune_targets min_time fmt fails now b m True ts db of
      (Inr rs, db') \<Rightarrow> list_all2 (\<lambda>t r. reported now (b * m) t (db (rt_table t)) r \<and> db' (rt_table t) = pruned_table now (b * m) t (db (rt_table t))) ts rs
         \<and> (\<forall>table. table \<notin> rt_table ` set ts \<longrightarrow> db' table = db table)
    | (Inl e, db') \<Rightarrow> (\<forall>t \<in> set ts. \<exists>n \<le> b * m. db' (rt_table t) = pruned_table now n t (db (rt_table t)))
         \<and> (\<forall>table. table \<notin> rt_table ` set ts \<longrightarrow> db' table = db table)"
  using assms(1,3)
proof (induction ts arbitrary: db)
  case (Cons t ts)
  obtain res db1 where p: "process_target min_time fmt (fails (rt_table t)) t now b m True db = (res, db1)" by fastforce
  note pt = process_target_exact [OF Cons.prems(1) assms(2), where min_time = min_time and fmt = fmt and fails = "fails (rt_table t)" and t = t
      and now = now and m = m, unfolded p]
  have zero: "\<exists>n \<le> b * m. db (rt_table u) = pruned_table now n u (db (rt_table u))" for u
    by (intro exI [of _ 0]) (cases "db (rt_table u)"; simp add: pruned_table_def survivors_none)
  show ?case
  proof (cases res)
    case (Inl e)
    then obtain n where n: "n \<le> b * m" "db1 = db(rt_table t := pruned_table now n t (db (rt_table t)))" using pt by auto
    have "\<exists>n \<le> b * m. db1 (rt_table u) = pruned_table now n u (db (rt_table u))" if "u \<in> set (t # ts)" for u
      using that n zero [of u] Cons.prems(2) by (cases "rt_table u = rt_table t") (auto simp: image_iff)
    moreover have "db1 table = db table" if "table \<notin> rt_table ` set (t # ts)" for table using that n(2) by simp
    ultimately show ?thesis unfolding prune_targets.simps p Inl by simp
  next
    case (Inr r)
    then have r: "reported now (b * m) t (db (rt_table t)) r" "db1 = db(rt_table t := pruned_table now (b * m) t (db (rt_table t)))"
      using pt by simp_all
    have other: "db1 (rt_table u) = db (rt_table u)" if "u \<in> set ts" for u using that r(2) Cons.prems(2) by (auto simp: image_iff)
    obtain res2 db2 where q: "prune_targets min_time fmt fails now b m True ts db1 = (res2, db2)" by fastforce
    have u: "ids_unique db1" using ids_unique_pruned [OF Cons.prems(1)] r(2) by simp
    note ih = Cons.IH [OF u, unfolded q] and d = Cons.prems(2)
    show ?thesis
    proof (cases res2)
      case (Inl e)
      then show ?thesis using Inr p q ih d r(2) other by (auto simp: image_iff)
    next
      case (Inr rs)
      then have "list_all2 (\<lambda>t r. reported now (b * m) t (db (rt_table t)) r \<and> db2 (rt_table t) = pruned_table now (b * m) t (db (rt_table t))) ts rs"
        using ih d other by (auto elim!: list.rel_mono_strong)
      then show ?thesis using Inr \<open>res = Inr r\<close> p q ih d r by auto
    qed
  qed
qed simp

text \<open>
  C34. Retention deletes what it should and no more. A pass that succeeds leaves each of the four tables
  without its first expired rows in id order, as many as the batches admit, and its report counts them
  exactly; a pass that stops at any failing statement has deleted a shorter prefix of them; no
  other table is touched, and rows that have not expired are never deleted.
\<close>

theorem telemetry_pruned_exact:
  assumes "ids_unique db"
    and "prune_telemetry min_time fmt rfc3339 fails now policy batch_size max_batches True db = (res, db')"
  shows "(case res of
      Inr rep \<Rightarrow> list_all2 (\<lambda>t r. reported now (prune_bound batch_size max_batches) t (db (rt_table t)) r
          \<and> db' (rt_table t) = pruned_table now (prune_bound batch_size max_batches) t (db (rt_table t)))
        (targets policy) (pp_tables rep)
    | Inl e \<Rightarrow> \<forall>t \<in> set (targets policy). \<exists>n \<le> prune_bound batch_size max_batches. db' (rt_table t) = pruned_table now n t (db (rt_table t)))
   \<and> (\<forall>table. table \<notin> rt_table ` set (targets policy) \<longrightarrow> db' table = db table)
   \<and> (\<forall>table rows row. db table = Some rows \<and> row \<in> set rows
        \<and> (\<forall>t \<in> set (targets policy). rt_table t = table \<longrightarrow> \<not> expired_row (rt_column t) (now - uint (rt_days t) * day_us) row)
        \<longrightarrow> (\<exists>rows'. db' table = Some rows' \<and> row \<in> set rows'))"
proof -
  have b: "0 < unat (max batch_size 1)" by (cases "batch_size = 0") (auto simp: unat_gt_0 max_def)
  have d: "distinct (map rt_table (targets policy))" by (simp add: targets_def)
  note e = prune_targets_exact [OF assms(1) b d, where min_time = min_time and fmt = fmt and fails = fails and now = now and m = "unat (max max_batches 1)",
      folded prune_bound_def]
  let ?n = "prune_bound batch_size max_batches"
  have main: "case res of
      Inr rep \<Rightarrow> list_all2 (\<lambda>t r. reported now ?n t (db (rt_table t)) r \<and> db' (rt_table t) = pruned_table now ?n t (db (rt_table t)))
        (targets policy) (pp_tables rep)
    | Inl e \<Rightarrow> \<forall>t \<in> set (targets policy). \<exists>n \<le> ?n. db' (rt_table t) = pruned_table now n t (db (rt_table t))"
    using assms(2) e by (auto simp: prune_telemetry_def Let_def split: prod.splits sum.splits)
  have other: "db' table = db table" if "table \<notin> rt_table ` set (targets policy)" for table
    using assms(2) e that by (auto simp: prune_telemetry_def Let_def split: prod.splits sum.splits)
  have kept: "\<exists>rows'. db' table = Some rows' \<and> row \<in> set rows'"
    if r: "db table = Some rows" "row \<in> set rows"
      "\<forall>t \<in> set (targets policy). rt_table t = table \<longrightarrow> \<not> expired_row (rt_column t) (now - uint (rt_days t) * day_us) row"
    for table rows row
  proof (cases "table \<in> rt_table ` set (targets policy)")
    case True
    then obtain t where t: "t \<in> set (targets policy)" "rt_table t = table" by auto
    have "\<exists>n. db' table = pruned_table now n t (db table)"
    proof (cases res)
      case (Inr rep)
      then show ?thesis using main t by (auto simp: list_all2_conv_all_nth in_set_conv_nth)
    qed (use main t in auto)
    then show ?thesis using r t assms(1) survivors_keep [of rows row] by (auto simp: pruned_table_def ids_unique_def)
  qed (use other r in auto)
  show ?thesis using main other kept by blast
qed

lemma prune_targets_dry: "snd (prune_targets min_time fmt fails now b m False ts db) = db"
  by (induction ts) (auto simp: process_target_def Let_def split: prod.splits sum.splits option.splits)

lemma dry_run_deletes_nothing: "snd (prune_telemetry min_time fmt rfc3339 fails now policy batch_size max_batches False db) = db"
  using prune_targets_dry [of min_time fmt fails now "unat (max batch_size 1)" "unat (max max_batches 1)" "targets policy" db]
  by (auto simp: prune_telemetry_def Let_def split: prod.splits sum.splits)

section \<open>The policy\<close>

lemma positive_env_positive: "0 < fallback \<Longrightarrow> 0 < positive_env env name fallback"
proof -
  assume f: "0 < fallback"
  have "(of_int v :: u32) \<noteq> 0" if "0 < v" "v \<le> 4294967295" for v :: int
  proof
    assume "(of_int v :: u32) = 0"
    then have "uint (of_int v :: u32) = 0" by simp
    then show False using that by (simp add: uint_word_of_int take_bit_eq_mod)
  qed
  then show ?thesis using f by (auto simp: positive_env_def word_neq_0_conv dest: parse_uint_bound split: option.split Option.bind_split)
qed

text \<open>No setting of the environment makes a table expire at once.\<close>

lemma policy_from_env_positive:
  "t \<in> set (targets (policy_from_env env)) \<Longrightarrow> 0 < rt_days t" "0 < rp_heartbeat_event_days (policy_from_env env)"
  by (auto simp: targets_def policy_from_env_def default_policy_def intro!: positive_env_positive)

text \<open>
  A retention that the setting accepts can be too long for the date arithmetic: with the largest one the
  pass ends in a panic before it deletes anything, and with it the task that runs it.
\<close>

lemma longest_retention_panics:
  assumes "env ''IICP_TELEMETRY_PROBE_RETENTION_DAYS'' = Some ''4294967295''" "db ''iicp_telemetry_probes'' = Some rows"
    and "now \<le> 10 ^ 17" "- (10 ^ 19) \<le> min_time" "fails ''iicp_telemetry_probes'' 0 = None"
  shows "prune_telemetry min_time fmt rfc3339 fails now (policy_from_env env) b m apply_it db = (Inl DateOverflow, db)"
proof -
  have "parse_uint 4294967295 ''4294967295'' = Some 4294967295" by (simp add: parse_uint_def digits_value_def digit_value_def is_ascii_digit_def code_def Let_def)
  then have p: "rp_probe_days (policy_from_env env) = - 1" using assms(1) by (simp add: policy_from_env_def positive_env_def)
  have "uint (- 1 :: u32) = 4294967295" by (simp add: uint_word_ariths)
  then have "cutoff_at min_time now (- 1) = None" using assms(3,4) by (simp add: cutoff_at_def day_us_def)
  then show ?thesis using assms(2,5) p by (simp add: prune_telemetry_def targets_def process_target_def Let_def)
qed

section \<open>A table at work\<close>

definition demo_telemetry :: dated_db where
  "demo_telemetry = [''iicp_telemetry_probes'' \<mapsto>
     [\<lparr>dr_id = 1, dr_dates = [''probed_at'' \<mapsto> 0]\<rparr>, \<lparr>dr_id = 2, dr_dates = [''probed_at'' \<mapsto> 19 * day_us]\<rparr>]]"

theorem telemetry_pruned_exact_witness:
  "\<exists>rows'. snd (prune_telemetry 0 (\<lambda>_. []) (\<lambda>_. []) (\<lambda>_ _. None) (20 * day_us) default_policy 1000 5 True demo_telemetry) ''iicp_telemetry_probes''
     = Some rows' \<and> \<lparr>dr_id = 2, dr_dates = [''probed_at'' \<mapsto> 19 * day_us]\<rparr> \<in> set rows'"
proof -
  have "ids_unique demo_telemetry" by (auto simp: ids_unique_def demo_telemetry_def split: if_splits)
  note e = telemetry_pruned_exact [OF this prod.collapse [symmetric], THEN conjunct2, THEN conjunct2, rule_format]
  show ?thesis
    by (rule e [where table = "''iicp_telemetry_probes''"])
      (auto simp: demo_telemetry_def targets_def expired_row_def default_policy_def day_us_def)
qed

end
