(* ===== verification/Background.thy ===== *)
theory Background
  imports Node_Runs Ledger_Runs Maintenance Runtime_Health "HOL-Library.Sublist"
begin

text \<open>
  The periodic tasks of the directory, \<open>src/background.rs\<close>, over the persistent repository: the probes of
  the nodes' endpoints, the expiry of nodes that no longer send heartbeats, and the daily passes.

  A task runs its pass at every tick of its interval but the first. A pass is a function of what it
  meets at that tick: the clock and the failures of each statement, and for a probe whether a connection
  to an address is accepted within five seconds. Messages on standard error are left out.
\<close>

section \<open>Which endpoints are probed\<close>

definition extract_host :: "string \<Rightarrow> string" where
  "extract_host url =
     (let after = (case strip_prefix url ''https://'' of
                     Some r \<Rightarrow> r
                   | None \<Rightarrow> unwrap_or url (strip_prefix url ''http://''));
          host_port = hd (split_char CHR ''/'' after)
      in case strip_prefix host_port ''['' of
           Some inner \<Rightarrow> hd (split_char CHR '']'' inner)
         | None \<Rightarrow> (case rsplit_once CHR '':'' host_port of Some (h, _) \<Rightarrow> h | None \<Rightarrow> host_port))"

definition extract_port :: "string \<Rightarrow> u16" where
  "extract_port url = (if starts_with url ''https://'' then 443 else 80)"

definition PRIVATE_PREFIXES :: "string list" where
  "PRIVATE_PREFIXES =
     [''10.'', ''172.16.'', ''172.17.'', ''172.18.'', ''172.19.'', ''172.20.'', ''172.21.'', ''172.22.'', ''172.23.'',
      ''172.24.'', ''172.25.'', ''172.26.'', ''172.27.'', ''172.28.'', ''172.29.'', ''172.30.'', ''172.31.'',
      ''192.168.'', ''127.'', ''169.254.'']"

definition private_host :: "string \<Rightarrow> bool" where
  "private_host host \<longleftrightarrow>
     (let h = to_ascii_lowercase host
      in h = [] \<or> h = ''localhost'' \<or> h = ''::1'' \<or> list_ex (starts_with h) PRIVATE_PREFIXES)"

definition should_probe :: "string \<Rightarrow> bool \<Rightarrow> bool" where
  "should_probe host ipv6_egress \<longleftrightarrow> \<not> private_host host \<and> \<not> (CHR '':'' \<in> set host \<and> \<not> ipv6_egress)"

definition ipv6_egress_from_env :: "(string \<Rightarrow> string option) \<Rightarrow> bool" where
  "ipv6_egress_from_env env \<longleftrightarrow>
     (case env ''IICP_PROBE_IPV6_EGRESS'' of None \<Rightarrow> False | Some v \<Rightarrow> v = ''1'' \<or> to_ascii_lowercase v = ''true'')"

section \<open>Probes\<close>

definition probe_address :: "string \<Rightarrow> string" where
  "probe_address endpoint = extract_host endpoint @ '':'' @ show_nat (unat (extract_port endpoint))"

text \<open>Whether a connection is accepted is \<open>connect\<close>; the latency that is measured with it is not used.\<close>

definition tcp_probe :: "(string \<Rightarrow> bool) \<Rightarrow> string \<Rightarrow> bool" where
  "tcp_probe connect endpoint \<longleftrightarrow> \<not> private_host (extract_host endpoint) \<and> connect (probe_address endpoint)"

text \<open>\<open>probe k\<close> is the result of call number \<open>k\<close>.\<close>

definition confirmed_probe :: "(nat \<Rightarrow> bool) \<Rightarrow> bool" where
  "confirmed_probe probe = (if probe 0 then True else probe 1)"

text \<open>What a pass meets at one node: the clock, failures and process of its two repository calls, and the two connections.\<close>

record probe_visit =
  pv_now :: nat
  pv_record_fails :: "nat \<Rightarrow> sqlx_error option"
  pv_record_env :: process_env
  pv_apply_fails :: "nat \<Rightarrow> sqlx_error option"
  pv_apply_env :: process_env
  pv_connect :: "nat \<Rightarrow> string \<Rightarrow> bool"

definition visit_result :: "probe_visit \<Rightarrow> string \<Rightarrow> bool" where
  "visit_result v endpoint = confirmed_probe (\<lambda>k. tcp_probe (pv_connect v k) endpoint)"

definition probe_node_row :: "sql_env \<Rightarrow> probe_visit \<Rightarrow> string \<times> string \<Rightarrow> node_db \<Rightarrow> node_db" where
  "probe_node_row E v = (\<lambda>(node_id, endpoint) D.
     (let reachable = visit_result v endpoint;
          D1 = record_probe_result (E\<lparr>sq_now := pv_now v, sq_fails := pv_record_fails v\<rparr>) (pv_record_env v) node_id reachable
                 ''DIR-PROBE-NODE-01'' D
      in snd (apply_probe_route_state (E\<lparr>sq_now := pv_now v, sq_fails := pv_apply_fails v\<rparr>) (pv_apply_env v) node_id reachable D1)))"

fun probe_each :: "sql_env \<Rightarrow> bool \<Rightarrow> (nat \<Rightarrow> probe_visit) \<Rightarrow> nat \<Rightarrow> (string \<times> string) list \<Rightarrow> u32 \<Rightarrow> node_db \<Rightarrow> u32 \<times> node_db" where
  "probe_each E egress visits k [] probed D = (probed, D)"
| "probe_each E egress visits k (n # ns) probed D =
     (if \<not> should_probe (extract_host (snd n)) egress then probe_each E egress visits (k + 1) ns probed D
      else probe_each E egress visits (k + 1) ns (probed + 1) (probe_node_row E (visits k) n D))"

definition probe_nodes_pass :: "sql_env \<Rightarrow> bool \<Rightarrow> (nat \<Rightarrow> probe_visit) \<Rightarrow> node_db \<Rightarrow> u32 \<times> node_db" where
  "probe_nodes_pass E egress visits D = probe_each E egress visits 0 (get_probeable_nodes E 50 D) 0 D"

section \<open>Expiry of nodes\<close>

definition evict_payload :: "i64 \<Rightarrow> json" where
  "evict_payload now_ms = JObj [(''reason'', JStr ''heartbeat_expiry''), (''dormant_since_ms'', JInt now_ms)]"

text \<open>One event per expired node; call number \<open>k\<close> has the process and failures \<open>calls k\<close>.\<close>

fun evict_each ::
  "sql_env \<Rightarrow> (nat \<Rightarrow> process_env \<times> (nat \<Rightarrow> nat \<Rightarrow> sqlx_error option)) \<Rightarrow> i64 \<Rightarrow> nat \<Rightarrow> string list \<Rightarrow> node_db \<Rightarrow> node_db" where
  "evict_each E calls now_ms k [] D = D"
| "evict_each E calls now_ms k (i # ids) D =
     evict_each E calls now_ms (k + 1) ids
       (mysql_log_event E (fst (calls k)) (snd (calls k)) i ''EVICT'' (Some (evict_payload now_ms)) D)"

definition expire_nodes_pass ::
  "sql_env \<Rightarrow> nat \<Rightarrow> i64 \<Rightarrow> (nat \<Rightarrow> process_env \<times> (nat \<Rightarrow> nat \<Rightarrow> sqlx_error option)) \<Rightarrow> node_db \<times> HealthState \<Rightarrow> node_db \<times> HealthState" where
  "expire_nodes_pass E now now_ms calls = (\<lambda>(D, H).
     (let (expired_ids, D1) = mysql_expire_stale E D
      in (evict_each E calls now_ms 0 expired_ids D1, advance_supervisor now H)))"

section \<open>Daily passes\<close>

definition prune_heartbeat_pass :: "RetentionPolicy \<Rightarrow> sql_env \<Rightarrow> node_db \<Rightarrow> node_db" where
  "prune_heartbeat_pass policy E D = snd (mysql_prune_heartbeat_events E (unat (rp_heartbeat_event_days policy)) D)"

definition prune_telemetry_pass ::
  "RetentionPolicy \<Rightarrow> int \<Rightarrow> (int \<Rightarrow> string) \<Rightarrow> (int \<Rightarrow> string) \<Rightarrow> (string \<Rightarrow> nat \<Rightarrow> sqlx_error option) \<Rightarrow> int \<Rightarrow> dated_db \<Rightarrow> dated_db" where
  "prune_telemetry_pass policy min_time fmt rfc3339 fails now db =
     snd (prune_telemetry min_time fmt rfc3339 fails now policy DEFAULT_BATCH_SIZE DEFAULT_MAX_BATCHES True db)"

definition node_lifecycle_pass :: "sql_env \<Rightarrow> node_db \<Rightarrow> node_db" where
  "node_lifecycle_pass E D = snd (mysql_archive_dormant E 90 D)"

definition expire_credits_pass :: "sql_env \<Rightarrow> (string \<Rightarrow> nat \<Rightarrow> nat \<Rightarrow> sqlx_error option) \<Rightarrow> ledger \<Rightarrow> ledger" where
  "expire_credits_pass E fails L = snd (mysql_expire_idle_node_credits E fails L)"

definition rotate_reputation_window_pass :: "sql_env \<Rightarrow> node_db \<Rightarrow> node_db" where
  "rotate_reputation_window_pass E D = snd (mysql_rotate_reputation_windows E D)"

text \<open>A task skips the first tick of its interval.\<close>

fun run_interval :: "('tick \<Rightarrow> 's \<Rightarrow> 's) \<Rightarrow> 'tick list \<Rightarrow> 's \<Rightarrow> 's" where
  "run_interval pass [] s = s"
| "run_interval pass (first # ticks) s = fold pass ticks s"

section \<open>What a probe pass changes\<close>

lemma find_node_env [simp]: "find_node (E\<lparr>sq_now := t, sq_fails := f\<rparr>) = find_node E"
  by (simp add: fun_eq_iff find_node_def sq_eq_def)

lemma record_probe_keeps: "find_node E (record_probe_result E' X i passed test D) = find_node E D"
  by (simp add: fun_eq_iff find_node_def record_probe_result_def)

lemma find_node_other:
  assumes "\<not> sq_eq E i j" "\<And>n. nr_id (f n) = nr_id n"
  shows "find_node E (update_row E i f D) j = find_node E D j"
proof -
  have "find (\<lambda>n. sq_eq E (nr_id n) j) (update_first (\<lambda>n. sq_eq E (nr_id n) i) f xs) = find (\<lambda>n. sq_eq E (nr_id n) j) xs" for xs
    using assms by (induction xs) (auto simp: sq_eq_def)
  then show ?thesis by (simp add: find_node_def update_row_def)
qed

lemma find_node_same: "sq_eq E i j \<Longrightarrow> find_node E D j = find_node E D i"
  by (simp add: find_node_def sq_eq_def)

definition reachable_of :: "sql_env \<Rightarrow> node_db \<Rightarrow> string \<Rightarrow> bool option" where
  "reachable_of E D j = map_option nr_public_reachable (find_node E D j)"

lemma route_state_moves:
  assumes "reachable_of E (snd (apply_probe_route_state (E\<lparr>sq_now := t, sq_fails := f\<rparr>) X i passed D)) j \<noteq> reachable_of E D j"
  shows "sq_eq E i j" "reachable_of E (snd (apply_probe_route_state (E\<lparr>sq_now := t, sq_fails := f\<rparr>) X i passed D)) j = Some passed"
proof -
  let ?E = "E\<lparr>sq_now := t, sq_fails := f\<rparr>"
  obtain tr D' where a: "apply_probe_route_state ?E X i passed D = (tr, D')" by fastforce
  have eq: "sq_eq ?E = sq_eq E" by (simp add: fun_eq_iff sq_eq_def)
  have "tr \<noteq> Unchanged"
  proof
    assume "tr = Unchanged"
    then have "D' = D" using probe_route_unchanged a by blast
    then show False using a assms by simp
  qed
  note m = probe_route_moved [OF a this]
  show s: "sq_eq E i j"
  proof (rule ccontr)
    assume "\<not> sq_eq E i j"
    then have o: "find_node ?E (update_row ?E i g D) j = find_node ?E D j" if "\<And>n. nr_id (g n) = nr_id n" for g
      using that eq by (intro find_node_other) simp_all
    have "find_node ?E (route_update ?E tr i D) j = find_node ?E D j"
    proof (cases tr)
      case Demoted
      show ?thesis unfolding route_update_def Demoted ProbeRouteTransition.case by (rule o) simp
    next
      case Restored
      show ?thesis unfolding route_update_def Restored ProbeRouteTransition.case by (rule o) simp
    qed (simp add: route_update_def)
    then have "find_node E D' j = find_node E D j" using find_node_cong [OF m(1), of ?E j] by simp
    then show False using assms a by (simp add: reachable_of_def)
  qed
  show "reachable_of E (snd (apply_probe_route_state ?E X i passed D)) j = Some passed"
    using m(3) a find_node_same [OF s] by (auto simp: reachable_of_def)
qed


text \<open>
  The probe does not connect where the node listens: whatever port an endpoint names, the address is
  the host with port 443 or 80 of the scheme. A node on another port is demoted while it is up, and one
  that is down is restored by whatever else listens on its host.
\<close>

lemma probe_ignores_port:
  assumes "CHR ''/'' \<notin> set (host @ port)" "CHR '':'' \<notin> set (host @ port)" "CHR ''['' \<notin> set host"
  shows "probe_address (''https://'' @ host @ '':'' @ port) = host @ '':443''"
    and "probe_address (''http://'' @ host @ '':'' @ port) = host @ '':80''"
proof -
  let ?hp = "host @ '':'' @ port"
  have h: "hd (split_char CHR ''/'' ?hp) = ?hp" using assms(1) split_char_single [of "CHR ''/''" ?hp] by simp
  have b: "strip_prefix ?hp ''['' = None" using assms(3) by (cases host) (auto simp: strip_prefix_def starts_with_def)
  have t: "takeWhile (\<lambda>x. x \<noteq> CHR '':'') (rev port @ '':'' @ rev host) = rev port"
    and d: "dropWhile (\<lambda>x. x \<noteq> CHR '':'') (rev port @ '':'' @ rev host) = CHR '':'' # rev host"
    using assms(2) by (auto simp: takeWhile_append dropWhile_append)
  then have r: "rsplit_once CHR '':'' ?hp = Some (host, port)" by (simp add: rsplit_once_def)
  have n: "show_nat 443 = ''443''" "show_nat 80 = ''80''" by code_simp+
  have s: "strip_prefix (''https://'' @ x) ''https://'' = Some x" "strip_prefix (''http://'' @ x) ''http://'' = Some x"
      "strip_prefix (''http://'' @ x) ''https://'' = None" "starts_with (''https://'' @ x) ''https://''" "\<not> starts_with (''http://'' @ x) ''https://''" for x
    by (simp_all add: strip_prefix_def starts_with_def)
  show "probe_address (''https://'' @ ?hp) = host @ '':443''"
    unfolding probe_address_def extract_host_def extract_port_def s Let_def option.case h b r prod.case using n s by simp
  show "probe_address (''http://'' @ ?hp) = host @ '':80''"
    unfolding probe_address_def extract_host_def extract_port_def s Let_def option.case unwrap_or_def h b r prod.case using n s by simp
qed

text \<open>The guard knows no private range of IPv6, no mapped address and not the unspecified address.\<close>

lemma private_addresses_probed:
  "should_probe (extract_host ''http://[fd00::1]:9484'') True" "should_probe (extract_host ''http://[fe80::1]'') True"
  "should_probe (extract_host ''http://[::ffff:127.0.0.1]'') True" "should_probe (extract_host ''http://0.0.0.0:9484'') False"
  by code_simp+

section \<open>What an expiry pass changes\<close>

lemma log_event_shape:
  "mysql_log_event E X fails i ty p D = D \<or>
   (\<exists>e. nd_nodes (mysql_log_event E X fails i ty p D) = nd_nodes D \<and> nd_events (mysql_log_event E X fails i ty p D) = nd_events D @ [e]
        \<and> e_node_id e = i \<and> e_event_type e = ty)"
proof (cases "pe_signing_key X")
  case (Some key)
  let ?p = "unwrap_or (JObj [(''reason'', JStr ''invalid_internal_event_payload'')]) p"
  let ?once = "append_attempt E X fails key ty i ?p"
  obtain j where j: "retry ?once transient_append 2 0 D = ?once j D" using appends.retry_once by blast
  have "snd (?once j D) = D \<or> (\<exists>e. nd_nodes (snd (?once j D)) = nd_nodes D \<and> nd_events (snd (?once j D)) = nd_events D @ [e]
        \<and> e_node_id e = i \<and> e_event_type e = ty)"
  proof (cases "fst (?once j D)")
    case (Inl err)
    then show ?thesis using appends.failed by blast
  next
    case (Inr seq)
    then obtain D' where D': "append_signed_event_in_tx (E\<lparr>sq_fails := fails j\<rparr>) X 1 key ty i ?p D = Inr (seq, D')" "snd (?once j D) = D'"
      by (auto simp: append_attempt_def Let_def transaction_def statement_Inr split: sum.splits if_splits)
    obtain e where "nd_nodes D' = nd_nodes D" "nd_events D' = nd_events D @ [e]" "e_event_type e = ty" "e_node_id e = i"
      by (rule append_in_tx_shape [OF D'(1)])
    then show ?thesis using D'(2) by blast
  qed
  moreover have "mysql_log_event E X fails i ty p D = snd (?once j D)"
    using Some unfolding mysql_log_event_def mysql_append_signed_event_def by (simp add: j) (auto split: prod.splits sum.splits)
  ultimately show ?thesis by simp
qed (simp add: mysql_log_event_def)

lemma evict_each_shape:
  "\<exists>new. nd_events (evict_each E calls now_ms k ids D) = nd_events D @ new \<and> subseq (map e_node_id new) ids
     \<and> list_all (\<lambda>e. e_event_type e = ''EVICT'') new \<and> nd_nodes (evict_each E calls now_ms k ids D) = nd_nodes D"
proof (induction ids arbitrary: k D)
  case (Cons i ids)
  let ?D1 = "mysql_log_event E (fst (calls k)) (snd (calls k)) i ''EVICT'' (Some (evict_payload now_ms)) D"
  obtain new where new: "nd_events (evict_each E calls now_ms (k + 1) ids ?D1) = nd_events ?D1 @ new" "subseq (map e_node_id new) ids"
      "list_all (\<lambda>e. e_event_type e = ''EVICT'') new" "nd_nodes (evict_each E calls now_ms (k + 1) ids ?D1) = nd_nodes ?D1"
    using Cons.IH [of "k + 1" ?D1] by blast
  consider "?D1 = D" | e where "nd_nodes ?D1 = nd_nodes D" "nd_events ?D1 = nd_events D @ [e]" "e_node_id e = i" "e_event_type e = ''EVICT''"
    using log_event_shape [of E "fst (calls k)" "snd (calls k)" i "''EVICT''" "Some (evict_payload now_ms)" D] by blast
  then show ?case
  proof cases
    case 1
    then show ?thesis using new by (intro exI [of _ new]) auto
  next
    case 2
    then show ?thesis using new by (intro exI [of _ "e # new"]) auto
  qed
qed simp

text \<open>
  An expiry pass marks exactly the nodes that have been silent for more than 90 seconds, logs at most one
  signed eviction for each of them and in that order, for no other node, whatever
  statement fails, and counts as one step of the supervisor.
\<close>

theorem expiry_pass_exact:
  assumes "expire_nodes_pass E now now_ms calls (D, H) = (D', H')"
  shows "nd_nodes D' = nd_nodes (mark_dormant E (stale_ids E D) D)
    \<and> (\<exists>new. nd_events D' = nd_events D @ new \<and> subseq (map e_node_id new) (stale_ids E D) \<and> list_all (\<lambda>e. e_event_type e = ''EVICT'') new)
    \<and> H' = advance_supervisor now H"
proof -
  have "nd_events (mark_dormant E (stale_ids E D) D) = nd_events D" by (simp add: mark_dormant_def)
  then show ?thesis using assms evict_each_shape [of E calls now_ms 0 "stale_ids E D" "mark_dormant E (stale_ids E D) D"]
    by (auto simp: expire_nodes_pass_def mysql_expire_stale_def)
qed

section \<open>Passes at work\<close>

definition demo_visit :: probe_visit where
  "demo_visit = \<lparr>pv_now = 1000, pv_record_fails = \<lambda>_. None, pv_record_env = demo_process, pv_apply_fails = \<lambda>_. None,
     pv_apply_env = demo_process, pv_connect = \<lambda>_ _. False\<rparr>"

lemma demo_probeable: "get_probeable_nodes demo_sql 50 demo_nodes = [(''n1'', ''https://n1'')]"
  by (simp add: get_probeable_nodes_def demo_sql_def demo_nodes_def demo_row_def)

lemma demo_pass: "probe_nodes_pass demo_sql False (\<lambda>_. demo_visit) demo_nodes
    = (1, probe_node_row demo_sql demo_visit (''n1'', ''https://n1'') demo_nodes)"
proof -
  have "should_probe (extract_host ''https://n1'') False" by code_simp
  then show ?thesis by (simp add: probe_nodes_pass_def demo_probeable)
qed

lemma demo_pass_demotes:
  "reachable_of demo_sql (probe_node_row demo_sql demo_visit (''n1'', ''https://n1'') demo_nodes) ''n1'' \<noteq> reachable_of demo_sql demo_nodes ''n1''"
proof -
  let ?D = "record_probe_result demo_sql demo_process ''n1'' False ''DIR-PROBE-NODE-01'' demo_nodes"
  have env: "demo_sql\<lparr>sq_now := 1000, sq_fails := \<lambda>_. None\<rparr> = demo_sql" by (simp add: demo_sql_def)
  have v: "\<not> visit_result demo_visit ''https://n1''" by (simp add: visit_result_def confirmed_probe_def tcp_probe_def demo_visit_def)
  have n: "find_node demo_sql demo_nodes ''n1'' = Some demo_row" "nr_public_reachable demo_row"
    by (simp_all add: find_node_def demo_nodes_def sq_eq_def demo_row_def)
  have "fst (apply_probe_route_state demo_sql demo_process ''n1'' False ?D) = Demoted"
    by (rule demo_demoted) (simp_all add: record_probe_result_def demo_nodes_def)
  then have "reachable_of demo_sql (snd (apply_probe_route_state demo_sql demo_process ''n1'' False ?D)) ''n1'' = Some False"
    using probe_route_moved(3) [where t = Demoted and D' = "snd (apply_probe_route_state demo_sql demo_process ''n1'' False ?D)",
        of demo_sql demo_process "''n1''" False ?D] by (auto simp: reachable_of_def prod_eq_iff)
  moreover have "probe_node_row demo_sql demo_visit (''n1'', ''https://n1'') demo_nodes
      = snd (apply_probe_route_state demo_sql demo_process ''n1'' False ?D)"
  proof -
    have "pv_now demo_visit = 1000" "pv_record_fails demo_visit = (\<lambda>_. None)" "pv_apply_fails demo_visit = (\<lambda>_. None)"
        "pv_record_env demo_visit = demo_process" "pv_apply_env demo_visit = demo_process" "visit_result demo_visit ''https://n1'' = False"
      using v by (simp_all add: demo_visit_def)
    then show ?thesis by (simp only: probe_node_row_def Let_def prod.case env)
  qed
  moreover have "reachable_of demo_sql demo_nodes ''n1'' = Some True" using n by (simp add: reachable_of_def)
  ultimately show ?thesis by simp
qed


theorem expiry_pass_exact_witness:
  "\<forall>H. nd_nodes (fst (expire_nodes_pass demo_sql 5 7 (\<lambda>_. (demo_process, \<lambda>_ _. Some OtherError)) (demo_nodes, H)))
     = nd_nodes (mark_dormant demo_sql (stale_ids demo_sql demo_nodes) demo_nodes)"
  using expiry_pass_exact [OF prod.collapse [symmetric]] by blast

end
