(* ===== verification/Operator_Table.thy ===== *)
theory Operator_Table
  imports Sql Operators
begin

text \<open>
  Operator identities in the persistent repository, \<open>src/db.rs\<close>: creation, renaming, rotation,
  revocation, governance acceptance, recognition and the data-subject actions, over the tables
  \<open>operators\<close>, \<open>nodes\<close> (the columns bound to an operator), \<open>policy_key_lifecycle_records\<close> and
  \<open>data_subject_actions\<close>. Of the tables that are only counted or deleted from by node, the list of
  their \<open>node_id\<close> values is kept.

  An update that matches a row counts it, as the driver asks the server to. The columns of the
  acceptance times hold their text, \<open>ov_text\<close> of the clock. The base64 decoder is third-party
  code and a parameter, as are the random values of the database.
\<close>

section \<open>Tables\<close>

record operator_rec =
  oq_pubkey :: string
  oq_row :: OperatorRow
  oq_successor :: "string option"
  oq_revoked_at :: "nat option"
  oq_reason_class :: "string option"
  oq_provenance :: "json option"

record bound_node =
  bn_id :: string
  bn_endpoint :: string
  bn_available :: bool
  bn_public_reachable :: bool
  bn_public_listing :: bool
  bn_operator_url :: "string option"
  bn_operator_contact :: "string option"
  bn_operator_pubkey :: "string option"
  bn_operator_verified :: bool
  bn_operator_trust_tier :: "string option"
  bn_policy_manifest :: "json option"
  bn_status :: string
  bn_dormant_since :: "nat option"
  bn_last_seen :: "nat option"
  bn_transport_endpoint :: "string option"
  bn_endpoint_verified_dead_at :: "nat option"
  bn_observed_source_ip :: "string option"
  bn_identity_key :: "string option"
  bn_liveness_challenge :: "string option"
  bn_liveness_verified_at :: "nat option"
  bn_cx_public_key :: "json option"
  bn_gossip_public_key :: "string option"
  bn_node_token_hash :: string
  bn_proxy_token_hash :: "string option"
  bn_node_hmac_key :: "string option"

record policy_key_rec =
  pq_sha256 :: string
  pq_status :: string
  pq_rotation_epoch :: "u32 option"
  pq_revoked_at :: "nat option"
  pq_reason_class :: "string option"
  pq_superseded_by :: "string option"

record subject_action =
  sa_tracking_id :: string
  sa_action :: string
  sa_subject_hash :: string
  sa_selector :: json
  sa_affected_counts :: json
  sa_applied_at :: nat

record operator_db =
  od_operators :: "operator_rec list"
  od_nodes :: "bound_node list"
  od_policy_keys :: "policy_key_rec list"
  od_actions :: "subject_action list"
  od_node_rows :: "string \<Rightarrow> string list"

text \<open>What the operations take from outside: base64, hashing, the process clock, the text of a database time, random values.\<close>

record operator_sql_env =
  ov_crypto :: crypto
  ov_base64 :: "string \<Rightarrow> string option"
  ov_now_ms :: i64
  ov_text :: "nat \<Rightarrow> string"
  ov_random :: "nat \<Rightarrow> string \<Rightarrow> string"

definition find_operator :: "sql_env \<Rightarrow> operator_db \<Rightarrow> string \<Rightarrow> operator_rec option" where
  "find_operator E D pk = find (\<lambda>r. sq_eq E (oq_pubkey r) pk) (od_operators D)"

definition find_active_operator :: "sql_env \<Rightarrow> operator_db \<Rightarrow> string \<Rightarrow> operator_rec option" where
  "find_active_operator E D pk =
     find (\<lambda>r. sq_eq E (oq_pubkey r) pk \<and> sq_eq E (o_identity_status (oq_row r)) ''active'') (od_operators D)"

definition update_operators :: "sql_env \<Rightarrow> string \<Rightarrow> (operator_rec \<Rightarrow> operator_rec) \<Rightarrow> operator_db \<Rightarrow> operator_db" where
  "update_operators E pk f D = D\<lparr>od_operators := map (\<lambda>r. if sq_eq E (oq_pubkey r) pk then f r else r) (od_operators D)\<rparr>"

definition bound_in :: "sql_env \<Rightarrow> string \<Rightarrow> bound_node \<Rightarrow> bool" where
  "bound_in E pk n \<longleftrightarrow> (case bn_operator_pubkey n of None \<Rightarrow> False | Some k \<Rightarrow> sq_eq E k pk)"

definition update_bound :: "sql_env \<Rightarrow> string \<Rightarrow> (bound_node \<Rightarrow> bound_node) \<Rightarrow> operator_db \<Rightarrow> operator_db" where
  "update_bound E pk f D = D\<lparr>od_nodes := map (\<lambda>n. if bound_in E pk n then f n else n) (od_nodes D)\<rparr>"

definition linked_nodes :: "sql_env \<Rightarrow> string \<Rightarrow> operator_db \<Rightarrow> u32" where
  "linked_nodes E pk D = of_nat (length (filter (bound_in E pk) (od_nodes D)))"

section \<open>Creation and names\<close>

definition mysql_upsert_operator ::
  "sql_env \<Rightarrow> operator_sql_env \<Rightarrow> string \<Rightarrow> string option \<Rightarrow> string option \<Rightarrow> string option \<Rightarrow> operator_db \<Rightarrow> operator_db" where
  "mysql_upsert_operator E X pk display_name attested_created_at integrity_hash D =
     (if sq_fails E 0 = None \<and> find_operator E D pk \<noteq> None then
        (case display_name of
           None \<Rightarrow> D
         | Some dn \<Rightarrow> if sq_fails E 1 \<noteq> None then D else update_operators E pk (\<lambda>r. r\<lparr>oq_row := (oq_row r)\<lparr>o_display_name := Some dn\<rparr>\<rparr>) D)
      else if sq_fails E 1 \<noteq> None \<or> find_operator E D pk \<noteq> None then D
      else D\<lparr>od_operators := od_operators D @
        [\<lparr>oq_pubkey = pk,
          oq_row = default_operator_row\<lparr>o_display_name := display_name, o_attested_created_at := attested_created_at,
            o_integrity_hash := integrity_hash, o_first_seen_ms := ov_now_ms X, o_identity_status := ''active''\<rparr>,
          oq_successor = None, oq_revoked_at = None, oq_reason_class = None, oq_provenance = None\<rparr>]\<rparr>)"

definition mysql_operator_display_name :: "sql_env \<Rightarrow> operator_db \<Rightarrow> string \<Rightarrow> string option" where
  "mysql_operator_display_name E D pk =
     (if sq_fails E 0 \<noteq> None then None else Option.bind (find_operator E D pk) (\<lambda>r. o_display_name (oq_row r)))"

definition mysql_rename_operator :: "sql_env \<Rightarrow> string \<Rightarrow> string \<Rightarrow> operator_db \<Rightarrow> bool \<times> operator_db" where
  "mysql_rename_operator E pk display_name D =
     (if sq_fails E 0 \<noteq> None \<or> find_active_operator E D pk = None then (False, D)
      else (True, if sq_fails E 1 \<noteq> None then D
                  else update_operators E pk (\<lambda>r. r\<lparr>oq_row := (oq_row r)\<lparr>o_display_name := Some display_name\<rparr>\<rparr>) D))"

definition mysql_operator_identity_active :: "sql_env \<Rightarrow> nat \<Rightarrow> operator_db \<Rightarrow> string \<Rightarrow> bool option" where
  "mysql_operator_identity_active E k D pk =
     (if sq_fails E k \<noteq> None then None
      else map_option (\<lambda>r. o_identity_status (oq_row r) = ''active'') (find_operator E D pk))"

definition mysql_set_operator_recognition ::
  "sql_env \<Rightarrow> string \<Rightarrow> i64 \<Rightarrow> string option \<Rightarrow> string option \<Rightarrow> operator_db \<Rightarrow> operator_db" where
  "mysql_set_operator_recognition E pk ordinal tier badge D =
     (if sq_fails E 0 \<noteq> None then D
      else update_operators E pk (\<lambda>r. r\<lparr>oq_row := (oq_row r)\<lparr>o_ordinal := Some ordinal, o_tier := tier, o_badge := badge\<rparr>\<rparr>) D)"

definition mysql_list_founders :: "sql_env \<Rightarrow> u32 \<Rightarrow> operator_db \<Rightarrow> FounderEntry list" where
  "mysql_list_founders E limit D =
     (if sq_fails E 0 \<noteq> None then []
      else take (unat limit) (sort_key f_ordinal
        (List.map_filter (\<lambda>r. map_option (\<lambda>ord. \<lparr>f_display_name = o_display_name (oq_row r), f_ordinal = ord,
             f_tier = o_tier (oq_row r), f_badge = o_badge (oq_row r)\<rparr>) (o_ordinal (oq_row r))) (od_operators D))))"

definition served_by :: "sql_env \<Rightarrow> operator_rec \<Rightarrow> bound_node \<Rightarrow> bool" where
  "served_by E r n \<longleftrightarrow>
     bound_in E (oq_pubkey r) n \<and> bn_public_reachable n \<and> bn_operator_verified n
     \<and> (sq_eq E (bn_status n) ''active'' \<and> bn_available n
        \<or> (case bn_last_seen n of None \<Rightarrow> False | Some t \<Rightarrow> int t \<ge> int (sq_now E) - 86400))"

definition mysql_list_pending_founders :: "sql_env \<Rightarrow> u32 \<Rightarrow> operator_db \<Rightarrow> (string option \<times> i64) list" where
  "mysql_list_pending_founders E limit D =
     (if sq_fails E 0 \<noteq> None then []
      else take (unat limit) (sort_key snd
        (map (\<lambda>r. (o_display_name (oq_row r), o_first_seen_ms (oq_row r)))
          (filter (\<lambda>r. o_ordinal (oq_row r) = None \<and> list_ex (served_by E r) (od_nodes D)) (od_operators D)))))"

definition mysql_policy_key_lifecycle_status :: "sql_env \<Rightarrow> operator_db \<Rightarrow> string \<Rightarrow> string option" where
  "mysql_policy_key_lifecycle_status E D h =
     (if sq_fails E 0 \<noteq> None then None else map_option pq_status (find (\<lambda>r. sq_eq E (pq_sha256 r) h) (od_policy_keys D)))"

section \<open>Rotation and revocation\<close>

abbreviation storage :: "sqlx_error \<Rightarrow> OperatorLifecycleError" where
  "storage \<equiv> \<lambda>_. LifecycleStorage"

definition policy_key_hash :: "operator_sql_env \<Rightarrow> string \<Rightarrow> string option" where
  "policy_key_hash X pk =
     (case ov_base64 X pk of
        None \<Rightarrow> None
      | Some raw \<Rightarrow> if length raw = 32 then Some (sha256_hex (ov_crypto X) raw) else None)"

definition missing_operator :: "sql_env \<Rightarrow> operator_db \<Rightarrow> string \<Rightarrow> OperatorLifecycleError" where
  "missing_operator E D pk = (if find_operator E D pk \<noteq> None then LifecycleInactive else LifecycleUnknown)"

text \<open>\<open>INSERT ... ON DUPLICATE KEY UPDATE\<close> of a policy key record.\<close>

definition put_policy_key :: "sql_env \<Rightarrow> policy_key_rec \<Rightarrow> (policy_key_rec \<Rightarrow> policy_key_rec) \<Rightarrow> operator_db \<Rightarrow> operator_db" where
  "put_policy_key E new f D =
     (if list_ex (\<lambda>r. sq_eq E (pq_sha256 r) (pq_sha256 new)) (od_policy_keys D)
      then D\<lparr>od_policy_keys := map (\<lambda>r. if sq_eq E (pq_sha256 r) (pq_sha256 new) then f r else r) (od_policy_keys D)\<rparr>
      else D\<lparr>od_policy_keys := od_policy_keys D @ [new]\<rparr>)"

definition successor_rec :: "string \<Rightarrow> operator_rec \<Rightarrow> operator_rec" where
  "successor_rec new_pk old =
     \<lparr>oq_pubkey = new_pk,
      oq_row = default_operator_row\<lparr>o_identity_status := ''active'', o_display_name := o_display_name (oq_row old),
        o_attested_created_at := o_attested_created_at (oq_row old), o_integrity_hash := o_integrity_hash (oq_row old),
        o_first_seen_ms := o_first_seen_ms (oq_row old), o_ordinal := o_ordinal (oq_row old), o_tier := o_tier (oq_row old),
        o_badge := o_badge (oq_row old)\<rparr>,
      oq_successor = None, oq_revoked_at = None, oq_reason_class = None, oq_provenance = oq_provenance old\<rparr>"

definition superseded_key :: "string \<Rightarrow> u32 \<Rightarrow> string \<Rightarrow> string \<Rightarrow> policy_key_rec" where
  "superseded_key h epoch reason_class successor_hash =
     \<lparr>pq_sha256 = h, pq_status = ''superseded'', pq_rotation_epoch = Some epoch, pq_revoked_at = None,
      pq_reason_class = Some reason_class, pq_superseded_by = Some successor_hash\<rparr>"

text \<open>The writes of a rotation, once it is decided.\<close>

definition rotated_tables ::
  "sql_env \<Rightarrow> string \<Rightarrow> string \<Rightarrow> operator_rec \<Rightarrow> u32 \<Rightarrow> string \<Rightarrow> string \<Rightarrow> string \<Rightarrow> operator_db \<Rightarrow> operator_db" where
  "rotated_tables E old_pk new_pk old epoch reason_class successor_hash predecessor_hash D =
     (let D1 = D\<lparr>od_operators := od_operators D @ [successor_rec new_pk old]\<rparr>;
          D2 = update_bound E old_pk (\<lambda>n. n\<lparr>bn_operator_pubkey := Some new_pk, bn_operator_verified := True, bn_policy_manifest := None\<rparr>) D1;
          D3 = put_policy_key E (superseded_key predecessor_hash epoch reason_class successor_hash)
                 (\<lambda>r. r\<lparr>pq_status := ''superseded'', pq_rotation_epoch := Some epoch, pq_reason_class := Some reason_class,
                        pq_superseded_by := Some successor_hash\<rparr>) D2
      in update_operators E old_pk
           (\<lambda>r. r\<lparr>oq_row := (oq_row r)\<lparr>o_identity_status := ''rotated'', o_rotation_epoch := Some epoch\<rparr>,
                  oq_successor := Some successor_hash, oq_reason_class := Some reason_class\<rparr>) D3)"

definition mysql_rotate_operator_identity ::
  "sql_env \<Rightarrow> operator_sql_env \<Rightarrow> string \<Rightarrow> string \<Rightarrow> u32 option \<Rightarrow> string \<Rightarrow> operator_db
   \<Rightarrow> (OperatorLifecycleError + OperatorLifecycleResult) \<times> operator_db" where
  "mysql_rotate_operator_identity E X old_pk new_pk requested_epoch reason_class D =
     (if old_pk = new_pk then (Inl LifecycleInvalid, D)
      else transaction D (statement E storage 0 (statement E storage 1
        (case find_active_operator E D old_pk of
           None \<Rightarrow> statement E storage 2 (Inl (missing_operator E D old_pk))
         | Some old \<Rightarrow> statement E storage 3
             (if find_operator E D new_pk \<noteq> None then Inl LifecycleSuccessorExists
              else (let epoch = max (saturating_add (unwrap_or 0 (o_rotation_epoch (oq_row old))) 1) (unwrap_or 0 requested_epoch)
                    in statement E storage 4 (statement E storage 5
                         (case (policy_key_hash X new_pk, policy_key_hash X old_pk) of
                            (Some successor_hash, Some predecessor_hash) \<Rightarrow>
                              statement E storage 6 (statement E storage 7 (statement E storage 8
                                (Inr (\<lparr>lr_linked_nodes = linked_nodes E old_pk D, lr_rotation_epoch = Some epoch, lr_revoked_at_unix = None\<rparr>,
                                      rotated_tables E old_pk new_pk old epoch reason_class successor_hash predecessor_hash D))))
                          | _ \<Rightarrow> Inl LifecycleInvalid))))))))"

definition revoked_key :: "sql_env \<Rightarrow> string \<Rightarrow> string \<Rightarrow> policy_key_rec" where
  "revoked_key E h reason_class =
     \<lparr>pq_sha256 = h, pq_status = ''revoked'', pq_rotation_epoch = None, pq_revoked_at = Some (sq_now E),
      pq_reason_class = Some reason_class, pq_superseded_by = None\<rparr>"

definition revoked_tables :: "sql_env \<Rightarrow> string \<Rightarrow> string \<Rightarrow> string \<Rightarrow> operator_db \<Rightarrow> operator_db" where
  "revoked_tables E pk reason_class h D =
     (let D1 = update_bound E pk (\<lambda>n. n\<lparr>bn_operator_verified := False, bn_operator_trust_tier := None, bn_policy_manifest := None\<rparr>) D;
          D2 = put_policy_key E (revoked_key E h reason_class)
                 (\<lambda>r. r\<lparr>pq_status := ''revoked'', pq_revoked_at := Some (sq_now E), pq_reason_class := Some reason_class\<rparr>) D1
      in update_operators E pk
           (\<lambda>r. r\<lparr>oq_row := (oq_row r)\<lparr>o_identity_status := ''revoked''\<rparr>, oq_revoked_at := Some (sq_now E),
                  oq_reason_class := Some reason_class\<rparr>) D2)"

definition mysql_revoke_operator_identity ::
  "sql_env \<Rightarrow> operator_sql_env \<Rightarrow> string \<Rightarrow> string \<Rightarrow> operator_db
   \<Rightarrow> (OperatorLifecycleError + OperatorLifecycleResult) \<times> operator_db" where
  "mysql_revoke_operator_identity E X pk reason_class D =
     transaction D (statement E storage 0 (statement E storage 1
       (case find_active_operator E D pk of
          None \<Rightarrow> statement E storage 2 (Inl (missing_operator E D pk))
        | Some r \<Rightarrow> statement E storage 3
            (case policy_key_hash X pk of
               None \<Rightarrow> Inl LifecycleInvalid
             | Some h \<Rightarrow> statement E storage 4 (statement E storage 5 (statement E storage 6
                 (Inr (\<lparr>lr_linked_nodes = linked_nodes E pk D, lr_rotation_epoch = None, lr_revoked_at_unix = Some (ov_now_ms X div 1000)\<rparr>,
                       revoked_tables E pk reason_class h D))))))))"

section \<open>Governance acceptance\<close>

definition mysql_accept_operator_governance ::
  "sql_env \<Rightarrow> operator_sql_env \<Rightarrow> string \<Rightarrow> string \<Rightarrow> string \<Rightarrow> string \<Rightarrow> operator_db
   \<Rightarrow> (OperatorSelfServiceError + string) \<times> operator_db" where
  "mysql_accept_operator_governance E X pk terms_version dpa_version nonce_sha256 D =
     (if sq_fails E 0 \<noteq> None then (Inl SelfStorage, D)
      else if find_active_operator E D pk = None then
        (Inl (case mysql_operator_identity_active E 1 D pk of None \<Rightarrow> SelfUnknown | Some False \<Rightarrow> SelfInactive | Some True \<Rightarrow> SelfStorage), D)
      else (let at_text = ov_text X (sq_now E);
                D1 = D\<lparr>od_operators := map (\<lambda>r. if sq_eq E (oq_pubkey r) pk \<and> sq_eq E (o_identity_status (oq_row r)) ''active''
                   then r\<lparr>oq_row := (oq_row r)\<lparr>o_terms_version := Some terms_version, o_terms_accepted_at := Some at_text,
                          o_dpa_version := Some dpa_version, o_dpa_accepted_at := Some at_text,
                          o_acceptance_method := Some ''operator_key_challenge'', o_acceptance_nonce_sha256 := Some nonce_sha256\<rparr>\<rparr>
                   else r) (od_operators D)\<rparr>
            in (if sq_fails E 2 \<noteq> None then Inl SelfStorage
                else (case Option.bind (find_operator E D1 pk) (\<lambda>r. o_terms_accepted_at (oq_row r)) of
                        None \<Rightarrow> Inl SelfStorage | Some t \<Rightarrow> Inr t), D1)))"

section \<open>Data-subject actions\<close>

record MysqlDsrSubject =
  mq_operator_pubkey :: string
  mq_node_ids :: "string list"
  mq_fingerprint :: string
  mq_pubkey_sha256 :: string
  mq_selector :: json
  mq_subject_hash :: string

text \<open>The selector text is built by hand, so that its hash does not depend on the order of a map.\<close>

definition load_mysql_dsr_subject ::
  "sql_env \<Rightarrow> operator_sql_env \<Rightarrow> string \<Rightarrow> operator_db \<Rightarrow> OperatorSelfServiceError + MysqlDsrSubject" where
  "load_mysql_dsr_subject E X pk D =
     (let storage = (\<lambda>_. SelfStorage); C = ov_crypto X
      in statement E storage 0
           (case find_active_operator E D pk of
              None \<Rightarrow> statement E storage 1 (Inl (if find_operator E D pk \<noteq> None then SelfInactive else SelfUnknown))
            | Some r \<Rightarrow>
                (let fingerprint = operator_fingerprint C pk; pubkey_sha256 = sha256_hex C pk;
                     selector_json = ''{'' @ json_text C (JStr ''operator_pubkey'') @ '':{'' @ json_text C (JStr ''sha256'') @ '':''
                       @ json_text C (JStr pubkey_sha256) @ '','' @ json_text C (JStr ''fingerprint'') @ '':''
                       @ json_text C (JStr fingerprint) @ ''}}''
                 in statement E storage 2
                      (Inr \<lparr>mq_operator_pubkey = pk, mq_node_ids = map bn_id (sort_key (sq_weight E \<circ> bn_id) (filter (bound_in E pk) (od_nodes D))),
                            mq_fingerprint = fingerprint, mq_pubkey_sha256 = pubkey_sha256,
                            mq_selector = JObj [(''operator_pubkey'', JObj [(''sha256'', JStr pubkey_sha256), (''fingerprint'', JStr fingerprint)])],
                            mq_subject_hash = sha256_hex C selector_json\<rparr>))))"

definition of_nodes :: "sql_env \<Rightarrow> string list \<Rightarrow> string \<Rightarrow> bool" where
  "of_nodes E node_ids i \<longleftrightarrow> list_ex (sq_eq E i) node_ids"

definition mysql_dsr_count :: "sql_env \<Rightarrow> string \<Rightarrow> string list \<Rightarrow> operator_db \<Rightarrow> nat" where
  "mysql_dsr_count E table node_ids D = length (filter (of_nodes E node_ids) (od_node_rows D table))"

definition counted_tables :: "(string \<times> string) list" where
  "counted_tables =
     [(''credits'', ''credits''), (''credit_transactions'', ''credit_transactions''), (''node_events_retained'', ''node_events''),
      (''node_address_history'', ''node_address_history''), (''telemetry_probes'', ''iicp_telemetry_probes''), (''proxy_telemetry'', ''proxy_telemetry'')]"

definition mysql_dsr_affected_counts :: "sql_env \<Rightarrow> string list \<Rightarrow> operator_db \<Rightarrow> (string \<times> json) list" where
  "mysql_dsr_affected_counts E node_ids D =
     [(''nodes'', JInt (int (length node_ids))), (''operators'', JInt 1)]
     @ map (\<lambda>(name, table). (name, JInt (int (mysql_dsr_count E table node_ids D)))) counted_tables"

definition apply_mysql_dsr_restriction :: "sql_env \<Rightarrow> string \<Rightarrow> string \<Rightarrow> operator_db \<Rightarrow> operator_db" where
  "apply_mysql_dsr_restriction E pk action D =
     update_operators E pk
       (\<lambda>r. r\<lparr>oq_row := (oq_row r)\<lparr>o_identity_status := ''restricted'', o_display_name := None, o_attested_created_at := None,
                o_integrity_hash := None, o_terms_version := None, o_terms_accepted_at := None, o_dpa_version := None,
                o_dpa_accepted_at := None, o_acceptance_method := None, o_acceptance_nonce_sha256 := None, o_tier := None, o_badge := None\<rparr>,
              oq_provenance := Some (JObj [(''dsr'', JStr (if action = ''anonymize'' then ''anonymized'' else ''restricted''))])\<rparr>)
       (update_bound E pk
         (\<lambda>n. n\<lparr>bn_available := False, bn_public_reachable := False, bn_public_listing := False, bn_operator_url := None,
                bn_operator_contact := None, bn_status := ''archived'', bn_dormant_since := Some (sq_now E),
                bn_transport_endpoint := None, bn_endpoint_verified_dead_at := Some (sq_now E)\<rparr>) D)"

definition anonymized_node :: "operator_sql_env \<Rightarrow> string \<Rightarrow> bound_node \<Rightarrow> bound_node" where
  "anonymized_node X tracking_id n =
     n\<lparr>bn_endpoint := ''https://dsr-anonymized.invalid/node-'' @ take 8 (bn_id n), bn_observed_source_ip := None, bn_operator_pubkey := None,
       bn_operator_verified := False, bn_operator_trust_tier := None,
       bn_identity_key := Some (sha256_hex (ov_crypto X) (''dsr:'' @ tracking_id @ '':'' @ bn_id n)), bn_liveness_challenge := None,
       bn_liveness_verified_at := None, bn_policy_manifest := None, bn_cx_public_key := None, bn_gossip_public_key := None,
       bn_node_token_hash := sha256_hex (ov_crypto X) (ov_random X 0 (bn_id n)),
       bn_proxy_token_hash := Some (take 60 (sha256_hex (ov_crypto X) (ov_random X 1 (bn_id n)))),
       bn_node_hmac_key := Some (sha256_hex (ov_crypto X) (ov_random X 2 (bn_id n)))\<rparr>"

definition telemetry_tables :: "string list" where
  "telemetry_tables = [''node_address_history'', ''iicp_telemetry_probes'', ''proxy_telemetry'']"

definition delete_mysql_dsr_telemetry :: "sql_env \<Rightarrow> string list \<Rightarrow> operator_db \<Rightarrow> nat list \<times> operator_db" where
  "delete_mysql_dsr_telemetry E node_ids D =
     (map (\<lambda>t. mysql_dsr_count E t node_ids D) telemetry_tables,
      D\<lparr>od_node_rows := (\<lambda>t. if t \<in> set telemetry_tables then filter (\<lambda>i. \<not> of_nodes E node_ids i) (od_node_rows D t) else od_node_rows D t)\<rparr>)"

definition anonymous_pubkey :: "operator_sql_env \<Rightarrow> string \<Rightarrow> string \<Rightarrow> string" where
  "anonymous_pubkey X tracking_id pk = ''dsr_'' @ take 60 (sha256_hex (ov_crypto X) (''operator:'' @ tracking_id @ '':'' @ pk))"

text \<open>The operator is renamed to its anonymous key; \<open>UNIQUE\<close> makes the update fail when that key is taken.\<close>

definition apply_mysql_dsr_anonymization ::
  "sql_env \<Rightarrow> operator_sql_env \<Rightarrow> string \<Rightarrow> string \<Rightarrow> string list \<Rightarrow> operator_db \<Rightarrow> OperatorSelfServiceError + nat list \<times> operator_db" where
  "apply_mysql_dsr_anonymization E X pk tracking_id node_ids D =
     (let D1 = update_bound E pk (anonymized_node X tracking_id) D;
          (deleted, D2) = delete_mysql_dsr_telemetry E node_ids D1;
          anonymous = anonymous_pubkey X tracking_id pk
      in if list_ex (\<lambda>r. sq_eq E (oq_pubkey r) anonymous \<and> \<not> sq_eq E (oq_pubkey r) pk) (od_operators D2) then Inl SelfStorage
         else Inr (deleted, update_operators E pk (\<lambda>r. r\<lparr>oq_pubkey := anonymous, oq_row := (oq_row r)\<lparr>o_identity_status := ''restricted''\<rparr>\<rparr>) D2))"

definition insert_mysql_dsr_action :: "sql_env \<Rightarrow> subject_action \<Rightarrow> operator_db \<Rightarrow> OperatorSelfServiceError + operator_db" where
  "insert_mysql_dsr_action E a D =
     (if list_ex (\<lambda>b. sq_eq E (sa_tracking_id b) (sa_tracking_id a)) (od_actions D) then Inl SelfDuplicateTrackingId
      else Inr (D\<lparr>od_actions := od_actions D @ [a]\<rparr>))"

text \<open>
  The statements of the transaction: 0 to 6 its start and the counts, 7 and 8 the restriction, 9 to 13
  the anonymisation, 14 the audit row, 15 the commit. Statements that are skipped cannot fail: the
  counts and deletions of an operator without nodes, and the anonymisation of a restriction.
\<close>

definition mutate_statements :: "string \<Rightarrow> string list \<Rightarrow> nat list" where
  "mutate_statements action node_ids =
     [0] @ (if node_ids = [] then [] else [1..<7]) @ [7, 8]
     @ (if action = ''anonymize'' then [9] @ (if node_ids = [] then [] else [10..<13]) @ [13] else [])"

definition mutate_mysql_dsr ::
  "sql_env \<Rightarrow> operator_sql_env \<Rightarrow> string \<Rightarrow> string \<Rightarrow> string \<Rightarrow> MysqlDsrSubject \<Rightarrow> operator_db
   \<Rightarrow> (OperatorSelfServiceError + json) \<times> operator_db" where
  "mutate_mysql_dsr E X pk action tracking_id S D =
     transaction D
       (if list_ex (\<lambda>k. sq_fails E k \<noteq> None) (mutate_statements action (mq_node_ids S)) then Inl SelfStorage
        else (let counts = mysql_dsr_affected_counts E (mq_node_ids S) D;
                  D1 = apply_mysql_dsr_restriction E pk action D;
                  changed = (if action = ''anonymize''
                     then map_sum id (\<lambda>(deleted, D2). (counts @ zip [''deleted_node_address_history'', ''deleted_telemetry_probes'',
                              ''deleted_proxy_telemetry''] (map (JInt \<circ> int) deleted), D2))
                            (apply_mysql_dsr_anonymization E X pk tracking_id (mq_node_ids S) D1)
                     else Inr (counts, D1))
              in case changed of
                   Inl e \<Rightarrow> Inl e
                 | Inr (counts, D2) \<Rightarrow>
                     statement E (\<lambda>e. if is_unique_violation e then SelfDuplicateTrackingId else SelfStorage) 14
                       (case insert_mysql_dsr_action E \<lparr>sa_tracking_id = tracking_id, sa_action = action, sa_subject_hash = mq_subject_hash S,
                               sa_selector = mq_selector S, sa_affected_counts = JObj counts, sa_applied_at = sq_now E\<rparr> D2 of
                          Inl e \<Rightarrow> Inl e
                        | Inr D3 \<Rightarrow>
                            statement E (\<lambda>_. SelfStorage) 15
                              (Inr (JObj [(''action'', JStr action), (''dry_run'', JBool False), (''tracking_id'', JStr tracking_id),
                                 (''selector'', mq_selector S), (''subject_hash'', JStr (mq_subject_hash S)),
                                 (''affected_counts'', JObj counts), (''retention_reason'', JStr DSR_RETENTION_REASON)], D3)))))"

text \<open>The subject is read before the transaction starts: \<open>between\<close> is what others do to the tables meanwhile.\<close>

definition mysql_operator_dsr_mutate ::
  "sql_env \<Rightarrow> sql_env \<Rightarrow> operator_sql_env \<Rightarrow> (operator_db \<Rightarrow> operator_db) \<Rightarrow> string \<Rightarrow> string \<Rightarrow> string \<Rightarrow> operator_db
   \<Rightarrow> (OperatorSelfServiceError + json) \<times> operator_db" where
  "mysql_operator_dsr_mutate E0 E X between pk action tracking_id D =
     (case load_mysql_dsr_subject E0 X pk D of
        Inl e \<Rightarrow> (Inl e, D)
      | Inr S \<Rightarrow> mutate_mysql_dsr E X pk action tracking_id S (between D))"

end
