(* ===== verification/Operator_Runs.thy ===== *)
theory Operator_Runs
  imports Operator_Table
begin

text \<open>
  What the operator tables of the database promise: a rotation moves everything or nothing, an identity
  that is no longer active never becomes active again, and an anonymised operator leaves no trace of its
  key. The statuses and keys are compared by the collation of the database throughout.
\<close>

section \<open>Looking up after an update\<close>

lemma sq_eq_env [simp]: "sq_eq (E\<lparr>sq_now := t\<rparr>) = sq_eq E" "sq_eq (E\<lparr>sq_fails := f\<rparr>) = sq_eq E"
  by (simp_all add: fun_eq_iff sq_eq_def)

lemma lookup_env [simp]:
  "find_operator (E\<lparr>sq_now := t\<rparr>) = find_operator E" "find_operator (E\<lparr>sq_fails := f\<rparr>) = find_operator E"
  "find_active_operator (E\<lparr>sq_now := t\<rparr>) = find_active_operator E" "find_active_operator (E\<lparr>sq_fails := f\<rparr>) = find_active_operator E"
  "bound_in (E\<lparr>sq_fails := f\<rparr>) = bound_in E"
  by (simp_all add: fun_eq_iff find_operator_def find_active_operator_def bound_in_def split: option.split)

lemma find_update_operators:
  assumes "\<And>r. oq_pubkey (f r) = oq_pubkey r"
  shows "find_operator E (update_operators E pk f D) k = map_option (\<lambda>r. if sq_eq E (oq_pubkey r) pk then f r else r) (find_operator E D k)"
proof -
  have "find (\<lambda>r. sq_eq E (oq_pubkey r) k) (map (\<lambda>r. if sq_eq E (oq_pubkey r) pk then f r else r) xs)
      = map_option (\<lambda>r. if sq_eq E (oq_pubkey r) pk then f r else r) (find (\<lambda>r. sq_eq E (oq_pubkey r) k) xs)" for xs
    using assms by (induction xs) auto
  then show ?thesis by (simp add: find_operator_def update_operators_def)
qed

lemma find_operator_cong: "od_operators D' = od_operators D \<Longrightarrow> find_operator E D' k = find_operator E D k"
  by (simp add: find_operator_def)

lemma find_operator_key: "find_operator E D k = Some r \<Longrightarrow> sq_eq E (oq_pubkey r) k"
  by (auto simp: find_operator_def find_Some_iff)

lemma find_active_key:
  assumes "find_active_operator E D k = Some r"
  shows "sq_eq E (oq_pubkey r) k" "sq_eq E (o_identity_status (oq_row r)) ''active''" "r \<in> set (od_operators D)"
  using assms by (auto simp: find_active_operator_def find_Some_iff)

lemma other_tables [simp]:
  "od_nodes (update_operators E pk f D) = od_nodes D" "od_policy_keys (update_operators E pk f D) = od_policy_keys D"
  "od_actions (update_operators E pk f D) = od_actions D" "od_node_rows (update_operators E pk f D) = od_node_rows D"
  "od_operators (update_bound E pk g D) = od_operators D" "od_policy_keys (update_bound E pk g D) = od_policy_keys D"
  "od_actions (update_bound E pk g D) = od_actions D" "od_node_rows (update_bound E pk g D) = od_node_rows D"
  "od_operators (put_policy_key E new h D) = od_operators D" "od_nodes (put_policy_key E new h D) = od_nodes D"
  "od_actions (put_policy_key E new h D) = od_actions D" "od_node_rows (put_policy_key E new h D) = od_node_rows D"
  by (simp_all add: update_operators_def update_bound_def put_policy_key_def)

text \<open>The collation tells the statuses apart.\<close>

definition identity_collation :: "sql_env \<Rightarrow> bool" where
  "identity_collation E \<longleftrightarrow> distinct (map (sq_weight E) [''active'', ''rotated'', ''revoked'', ''restricted''])"

lemma not_active:
  assumes "identity_collation E"
  shows "\<not> sq_eq E ''rotated'' ''active''" "\<not> sq_eq E ''revoked'' ''active''" "\<not> sq_eq E ''restricted'' ''active''"
  using assms by (auto simp: identity_collation_def sq_eq_def)

text \<open>\<open>operator_pubkey\<close> is unique.\<close>

definition unique_keys :: "sql_env \<Rightarrow> operator_db \<Rightarrow> bool" where
  "unique_keys E D \<longleftrightarrow> distinct (map (sq_weight E \<circ> oq_pubkey) (od_operators D))"

definition retired :: "sql_env \<Rightarrow> string \<Rightarrow> operator_db \<Rightarrow> bool" where
  "retired E k D \<longleftrightarrow> (\<exists>r. find_operator E D k = Some r \<and> \<not> sq_eq E (o_identity_status (oq_row r)) ''active'')"

lemma unique_row:
  assumes "unique_keys E D" "r \<in> set (od_operators D)" "sq_eq E (oq_pubkey r) k"
  shows "find_operator E D k = Some r"
proof -
  have "distinct (map (sq_weight E \<circ> oq_pubkey) xs) \<Longrightarrow> r \<in> set xs \<Longrightarrow> find (\<lambda>r. sq_eq E (oq_pubkey r) k) xs = Some r" for xs
  proof (induction xs)
    case (Cons x xs)
    then show ?case using assms(3) by (cases "x = r") (auto simp: sq_eq_def image_iff)
  qed simp
  then show ?thesis using assms(1,2) by (simp add: unique_keys_def find_operator_def)
qed

lemma active_is_found: "unique_keys E D \<Longrightarrow> find_active_operator E D k = Some r \<Longrightarrow> find_operator E D k = Some r"
  using unique_row find_active_key by metis

lemma retired_not_active: "unique_keys E D \<Longrightarrow> retired E k D \<Longrightarrow> sq_eq E k k' \<Longrightarrow> find_active_operator E D k' = None"
proof -
  assume u: "unique_keys E D" and r: "retired E k D" and k: "sq_eq E k k'"
  have "find_operator E D k' = find_operator E D k" using k by (simp add: find_operator_def sq_eq_def)
  then show ?thesis using active_is_found [OF u, of k'] r find_active_key(2) [of E D k'] by (cases "find_active_operator E D k'") (auto simp: retired_def)
qed

section \<open>What a rotation does\<close>

lemma rotate_shape:
  assumes "mysql_rotate_operator_identity E X old_pk new_pk epoch reason D = (r, D')"
  shows "(\<exists>e. r = Inl e \<and> D' = D)
    \<or> (\<exists>res old ep sh ph. r = Inr res \<and> find_active_operator E D old_pk = Some old \<and> find_operator E D new_pk = None
        \<and> policy_key_hash X new_pk = Some sh \<and> policy_key_hash X old_pk = Some ph
        \<and> ep = max (saturating_add (unwrap_or 0 (o_rotation_epoch (oq_row old))) 1) (unwrap_or 0 epoch)
        \<and> res = \<lparr>lr_linked_nodes = linked_nodes E old_pk D, lr_rotation_epoch = Some ep, lr_revoked_at_unix = None\<rparr>
        \<and> D' = rotated_tables E old_pk new_pk old ep reason sh ph D)"
proof (cases "find_active_operator E D old_pk")
  case None
  then show ?thesis using assms
    by (auto simp: mysql_rotate_operator_identity_def transaction_def statement_def split: if_splits option.splits)
next
  case (Some old)
  show ?thesis
  proof (cases "find_operator E D new_pk = None \<and> policy_key_hash X new_pk \<noteq> None \<and> policy_key_hash X old_pk \<noteq> None")
    case False
    then show ?thesis using assms Some
      by (auto simp: mysql_rotate_operator_identity_def transaction_def statement_def Let_def split: if_splits option.splits)
  next
    case True
    then show ?thesis using assms Some
      by (auto simp: mysql_rotate_operator_identity_def transaction_def statement_def Let_def split: if_splits option.splits)
  qed
qed

lemma find_rotated:
  assumes "find_operator E D new_pk = None"
  shows "find_operator E (rotated_tables E old_pk new_pk old ep reason sh ph D) k
    = (let f = (\<lambda>r. r\<lparr>oq_row := (oq_row r)\<lparr>o_identity_status := ''rotated'', o_rotation_epoch := Some ep\<rparr>,
                  oq_successor := Some sh, oq_reason_class := Some reason\<rparr>)
       in map_option (\<lambda>r. if sq_eq E (oq_pubkey r) old_pk then f r else r)
            (case find_operator E D k of Some r \<Rightarrow> Some r | None \<Rightarrow> if sq_eq E new_pk k then Some (successor_rec new_pk old) else None))"
proof -
  have "find_operator E (put_policy_key E new h (update_bound E old_pk g (D\<lparr>od_operators := od_operators D @ [successor_rec new_pk old]\<rparr>))) k
      = (case find_operator E D k of Some r \<Rightarrow> Some r | None \<Rightarrow> if sq_eq E new_pk k then Some (successor_rec new_pk old) else None)" for new h g
    by (simp add: find_operator_def find_append successor_rec_def split: option.split)
  then show ?thesis unfolding rotated_tables_def Let_def by (subst find_update_operators) simp_all
qed

lemma put_policy_key_status:
  assumes "pq_sha256 new = h" "pq_status new = s" "\<And>r. pq_sha256 (f r) = pq_sha256 r" "\<And>r. pq_status (f r) = s"
  shows "\<exists>p. find (\<lambda>p. sq_eq E (pq_sha256 p) h) (od_policy_keys (put_policy_key E new f D)) = Some p \<and> pq_status p = s"
proof (cases "list_ex (\<lambda>r. sq_eq E (pq_sha256 r) (pq_sha256 new)) (od_policy_keys D)")
  case True
  have "list_ex (\<lambda>r. sq_eq E (pq_sha256 r) h) xs \<Longrightarrow>
      \<exists>p. find (\<lambda>p. sq_eq E (pq_sha256 p) h) (map (\<lambda>r. if sq_eq E (pq_sha256 r) h then f r else r) xs) = Some p \<and> pq_status p = s" for xs
    using assms(3,4) by (induction xs) auto
  then show ?thesis using True assms(1) by (simp add: put_policy_key_def)
next
  case False
  then have "find (\<lambda>p. sq_eq E (pq_sha256 p) h) (od_policy_keys D) = None" using assms(1) by (auto simp: find_None_iff list_ex_iff)
  then show ?thesis using False assms(1,2) by (simp add: put_policy_key_def find_append)
qed

text \<open>
  C20. A rotation is all or nothing. When it fails, at whatever statement, the tables are as before. When it
  succeeds, the key was active and the new one unknown; the new key is active with the history of the
  old one, the old key is rotated, exactly the nodes bound to the old key are bound to the new one,
  verified and without their old policy manifest, and the old policy key counts as superseded.
\<close>

theorem mysql_rotation_exact:
  assumes "mysql_rotate_operator_identity E X old_pk new_pk epoch reason D = (r, D')" and "identity_collation E"
  shows "case r of
      Inl e \<Rightarrow> D' = D
    | Inr res \<Rightarrow>
        \<exists>old ph. find_active_operator E D old_pk = Some old \<and> find_operator E D new_pk = None \<and> policy_key_hash X old_pk = Some ph
        \<and> find_operator E D' new_pk = Some (successor_rec new_pk old) \<and> retired E old_pk D'
        \<and> filter (bound_in E old_pk) (od_nodes D') = []
        \<and> od_nodes D' = map (\<lambda>n. if bound_in E old_pk n
             then n\<lparr>bn_operator_pubkey := Some new_pk, bn_operator_verified := True, bn_policy_manifest := None\<rparr> else n) (od_nodes D)
        \<and> lr_linked_nodes res = linked_nodes E old_pk D
        \<and> (\<exists>p. find (\<lambda>p. sq_eq E (pq_sha256 p) ph) (od_policy_keys D') = Some p \<and> pq_status p = ''superseded'')"
proof -
  consider e where "r = Inl e" "D' = D"
    | res old ep sh ph where "r = Inr res" "find_active_operator E D old_pk = Some old" "find_operator E D new_pk = None"
        "policy_key_hash X old_pk = Some ph" "lr_linked_nodes res = linked_nodes E old_pk D"
        "D' = rotated_tables E old_pk new_pk old ep reason sh ph D"
    using rotate_shape [OF assms(1)] by (auto simp: unwrap_or_def)
  then show ?thesis
  proof cases
    case 1
    then show ?thesis by simp
  next
    case 2
    note f = find_rotated [OF 2(3), of old_pk old ep reason sh ph, folded 2(6)]
    have keys: "sq_eq E (oq_pubkey old) old_pk" "old \<in> set (od_operators D)" using find_active_key [OF 2(2)] by simp_all
    have found: "\<exists>r. find_operator E D old_pk = Some r"
      using keys by (cases "find_operator E D old_pk") (auto simp: find_operator_def find_None_iff)
    have diff: "\<not> sq_eq E new_pk old_pk" using found 2(3) by (auto simp: find_operator_def sq_eq_def)
    have new: "find_operator E D' new_pk = Some (successor_rec new_pk old)"
      using f [of new_pk] 2(3) diff by (simp add: Let_def successor_rec_def)
    obtain r0 where r0: "find_operator E D old_pk = Some r0" using found by blast
    have old: "retired E old_pk D'"
      using f [of old_pk] r0 find_operator_key [OF r0] not_active(1) [OF assms(2)] by (simp add: retired_def Let_def)
    have nodes: "od_nodes D' = map (\<lambda>n. if bound_in E old_pk n
             then n\<lparr>bn_operator_pubkey := Some new_pk, bn_operator_verified := True, bn_policy_manifest := None\<rparr> else n) (od_nodes D)"
      unfolding 2(6) rotated_tables_def Let_def by (simp add: update_bound_def)
    have unbound: "filter (bound_in E old_pk) (od_nodes D') = []"
      unfolding nodes using diff by (auto simp: filter_empty_conv bound_in_def)
    have "\<exists>p. find (\<lambda>p. sq_eq E (pq_sha256 p) ph) (od_policy_keys D') = Some p \<and> pq_status p = ''superseded''"
      unfolding 2(6) rotated_tables_def Let_def by (simp only: other_tables) (rule put_policy_key_status, simp_all add: superseded_key_def)
    then show ?thesis using 2(1-5) new old nodes unbound by auto
  qed
qed

section \<open>Retired identities\<close>

datatype operator_op =
    Upsert string "string option" "string option" "string option"
  | Rename string string
  | Rotate string string "u32 option" string
  | Revoke string string
  | Accept string string string string
  | Recognise string i64 "string option" "string option"
  | SubjectAction string string string

record operator_event =
  ow_now :: nat
  ow_fails :: "nat \<Rightarrow> sqlx_error option"
  ow_load_fails :: "nat \<Rightarrow> sqlx_error option"
  ow_env :: operator_sql_env
  ow_op :: operator_op

definition operator_db_step :: "sql_env \<Rightarrow> operator_event \<Rightarrow> operator_db \<Rightarrow> operator_db" where
  "operator_db_step E ev D =
     (let E' = E\<lparr>sq_now := ow_now ev, sq_fails := ow_fails ev\<rparr>; X = ow_env ev
      in case ow_op ev of
           Upsert pk name created ihash \<Rightarrow> mysql_upsert_operator E' X pk name created ihash D
         | Rename pk name \<Rightarrow> snd (mysql_rename_operator E' pk name D)
         | Rotate old_pk new_pk epoch reason \<Rightarrow> snd (mysql_rotate_operator_identity E' X old_pk new_pk epoch reason D)
         | Revoke pk reason \<Rightarrow> snd (mysql_revoke_operator_identity E' X pk reason D)
         | Accept pk terms dpa nonce \<Rightarrow> snd (mysql_accept_operator_governance E' X pk terms dpa nonce D)
         | Recognise pk ordinal tier badge \<Rightarrow> mysql_set_operator_recognition E' pk ordinal tier badge D
         | SubjectAction pk action tracking_id \<Rightarrow>
             snd (mysql_operator_dsr_mutate (E'\<lparr>sq_fails := ow_load_fails ev\<rparr>) E' X id pk action tracking_id D))"

text \<open>What every operation does to the operator table: it changes rows in place, and may add one under a key that is free.\<close>

definition keeps_retired :: "sql_env \<Rightarrow> operator_db \<Rightarrow> operator_db \<Rightarrow> bool" where
  "keeps_retired E D D' \<longleftrightarrow> unique_keys E D' \<and> (\<forall>k. retired E k D \<longrightarrow> retired E k D')"

lemma keeps_refl: "unique_keys E D \<Longrightarrow> keeps_retired E D D"
  by (simp add: keeps_retired_def)

lemma keeps_trans: "keeps_retired E D D' \<Longrightarrow> keeps_retired E D' D'' \<Longrightarrow> keeps_retired E D D''"
  by (simp add: keeps_retired_def)

lemma keeps_cong: "od_operators D'' = od_operators D' \<Longrightarrow> keeps_retired E D D' \<Longrightarrow> keeps_retired E D D''"
  by (simp add: keeps_retired_def unique_keys_def retired_def find_operator_def)

lemma keeps_map:
  assumes "unique_keys E D" "\<And>r. oq_pubkey (f r) = oq_pubkey r"
    and "\<And>r. \<not> sq_eq E (o_identity_status (oq_row r)) ''active'' \<Longrightarrow> \<not> sq_eq E (o_identity_status (oq_row (f r))) ''active''"
  shows "keeps_retired E D (D\<lparr>od_operators := map f (od_operators D)\<rparr>)"
proof -
  have u: "unique_keys E (D\<lparr>od_operators := map f (od_operators D)\<rparr>)"
    using assms(1,2) by (simp add: unique_keys_def comp_def)
  have "find (\<lambda>r. sq_eq E (oq_pubkey r) k) (map f xs) = map_option f (find (\<lambda>r. sq_eq E (oq_pubkey r) k) xs)" for k xs
    using assms(2) by (induction xs) auto
  then show ?thesis using u assms(3) by (auto simp: keeps_retired_def retired_def find_operator_def)
qed

lemma keeps_update:
  assumes "unique_keys E D" "\<And>r. oq_pubkey (f r) = oq_pubkey r"
    and "\<And>r. \<not> sq_eq E (o_identity_status (oq_row r)) ''active'' \<Longrightarrow> \<not> sq_eq E (o_identity_status (oq_row (f r))) ''active''"
  shows "keeps_retired E D (update_operators E pk f D)"
  unfolding update_operators_def using assms by (intro keeps_map) auto

lemma keeps_insert:
  assumes "unique_keys E D" "find_operator E D (oq_pubkey new) = None"
  shows "keeps_retired E D (D\<lparr>od_operators := od_operators D @ [new]\<rparr>)"
proof -
  have "sq_weight E (oq_pubkey new) \<notin> (sq_weight E \<circ> oq_pubkey) ` set (od_operators D)"
    using assms(2) by (auto simp: find_operator_def find_None_iff sq_eq_def)
  then have "unique_keys E (D\<lparr>od_operators := od_operators D @ [new]\<rparr>)" using assms(1) by (simp add: unique_keys_def)
  then show ?thesis by (auto simp: keeps_retired_def retired_def find_operator_def find_append)
qed

lemma keeps_rotate:
  assumes "unique_keys E D" "identity_collation E"
  shows "keeps_retired E D (snd (mysql_rotate_operator_identity E X old_pk new_pk epoch reason D))"
proof -
  obtain r D' where m: "mysql_rotate_operator_identity E X old_pk new_pk epoch reason D = (r, D')" by fastforce
  consider "D' = D" | old ep sh ph where "find_operator E D new_pk = None" "D' = rotated_tables E old_pk new_pk old ep reason sh ph D"
    using rotate_shape [OF m] by blast
  then show ?thesis
  proof cases
    case 1
    then show ?thesis using m assms(1) keeps_refl by simp
  next
    case 2
    let ?D1 = "D\<lparr>od_operators := od_operators D @ [successor_rec new_pk old]\<rparr>"
    have 1: "keeps_retired E D ?D1" using 2(1) by (intro keeps_insert [OF assms(1)]) (simp add: successor_rec_def)
    define D3 where "D3 = put_policy_key E (superseded_key ph ep reason sh)
                 (\<lambda>r. r\<lparr>pq_status := ''superseded'', pq_rotation_epoch := Some ep, pq_reason_class := Some reason,
                        pq_superseded_by := Some sh\<rparr>)
          (update_bound E old_pk (\<lambda>n. n\<lparr>bn_operator_pubkey := Some new_pk, bn_operator_verified := True, bn_policy_manifest := None\<rparr>) ?D1)"
    have 3: "keeps_retired E D D3" using 1 by (rule keeps_cong [rotated]) (simp add: D3_def)
    then have "unique_keys E D3" by (simp add: keeps_retired_def)
    then have "keeps_retired E D3 D'"
      unfolding 2(2) rotated_tables_def Let_def D3_def [symmetric] using not_active(1) [OF assms(2)] by (intro keeps_update) simp_all
    then show ?thesis using keeps_trans [OF 3] m by simp
  qed
qed

lemma keeps_revoke:
  assumes "unique_keys E D" "identity_collation E"
  shows "keeps_retired E D (snd (mysql_revoke_operator_identity E X pk reason D))"
proof -
  let ?f = "\<lambda>r. r\<lparr>oq_row := (oq_row r)\<lparr>o_identity_status := ''revoked''\<rparr>, oq_revoked_at := Some (sq_now E), oq_reason_class := Some reason\<rparr>"
  have "snd (mysql_revoke_operator_identity E X pk reason D) = D
      \<or> (\<exists>h. snd (mysql_revoke_operator_identity E X pk reason D) = revoked_tables E pk reason h D)"
    by (auto simp: mysql_revoke_operator_identity_def transaction_def statement_def split: option.split)
  moreover have "keeps_retired E D (revoked_tables E pk reason h D)" for h
  proof -
    have "keeps_retired E D (update_operators E pk ?f D)"
      using not_active(2) [OF assms(2)] by (intro keeps_update [OF assms(1)]) simp_all
    then show ?thesis by (rule keeps_cong [rotated]) (simp add: revoked_tables_def Let_def update_operators_def)
  qed
  ultimately show ?thesis using keeps_refl [OF assms(1)] by metis
qed

lemma keeps_accept:
  assumes "unique_keys E D"
  shows "keeps_retired E D (snd (mysql_accept_operator_governance E X pk terms dpa nonce D))"
  using keeps_refl [OF assms] by (auto simp: mysql_accept_operator_governance_def Let_def intro!: keeps_map [OF assms])

text \<open>The two ways a data-subject action changes the operator table.\<close>

lemma mutate_failed:
  "fst (mutate_mysql_dsr E X pk action tracking_id S D) = Inl e \<Longrightarrow> snd (mutate_mysql_dsr E X pk action tracking_id S D) = D"
  unfolding mutate_mysql_dsr_def by (rule transaction_failed)

lemma dsr_mutate_operators:
  assumes "mutate_mysql_dsr E X pk action tracking_id S D = (r, D')"
  shows "od_operators D' = od_operators D \<and> D' = D
    \<or> od_operators D' = od_operators (apply_mysql_dsr_restriction E pk action D)
    \<or> (let D1 = apply_mysql_dsr_restriction E pk action D; anonymous = anonymous_pubkey X tracking_id pk
        in \<not> list_ex (\<lambda>r. sq_eq E (oq_pubkey r) anonymous \<and> \<not> sq_eq E (oq_pubkey r) pk) (od_operators D1)
           \<and> od_operators D' = od_operators (update_operators E pk
               (\<lambda>r. r\<lparr>oq_pubkey := anonymous, oq_row := (oq_row r)\<lparr>o_identity_status := ''restricted''\<rparr>\<rparr>) D1))"
proof (cases r)
  case (Inl e)
  then have "D' = D" using mutate_failed [of E X pk action tracking_id S D e] assms by simp
  then show ?thesis by simp
next
  case (Inr j)
  show ?thesis
  proof (cases "action = ''anonymize''")
    case False
    then show ?thesis using assms Inr
      by (auto simp: mutate_mysql_dsr_def transaction_def statement_def Let_def insert_mysql_dsr_action_def split: if_splits option.splits sum.splits)
  next
    case True
    then show ?thesis using assms Inr
      by (auto simp: mutate_mysql_dsr_def transaction_def statement_def Let_def insert_mysql_dsr_action_def apply_mysql_dsr_anonymization_def
          delete_mysql_dsr_telemetry_def update_operators_def split: if_splits option.splits sum.splits)
  qed
qed

lemma keeps_restriction:
  assumes "unique_keys E D" "identity_collation E"
  shows "keeps_retired E D (apply_mysql_dsr_restriction E pk action D)"
proof -
  let ?f = "\<lambda>r. r\<lparr>oq_row := (oq_row r)\<lparr>o_identity_status := ''restricted'', o_display_name := None, o_attested_created_at := None,
                o_integrity_hash := None, o_terms_version := None, o_terms_accepted_at := None, o_dpa_version := None,
                o_dpa_accepted_at := None, o_acceptance_method := None, o_acceptance_nonce_sha256 := None, o_tier := None, o_badge := None\<rparr>,
              oq_provenance := Some (JObj [(''dsr'', JStr (if action = ''anonymize'' then ''anonymized'' else ''restricted''))])\<rparr>"
  have "keeps_retired E D (update_operators E pk ?f D)"
    using not_active(3) [OF assms(2)] by (intro keeps_update [OF assms(1)]) simp_all
  moreover have "od_operators (apply_mysql_dsr_restriction E pk action D) = od_operators (update_operators E pk ?f D)"
    by (simp add: apply_mysql_dsr_restriction_def update_operators_def)
  ultimately show ?thesis using keeps_cong by blast
qed

lemma anonymous_retired:
  assumes "\<not> list_ex (\<lambda>r. sq_eq E (oq_pubkey r) a \<and> \<not> sq_eq E (oq_pubkey r) pk) (od_operators D)"
    and "\<And>r. oq_pubkey (f r) = a" "retired E k D" "\<not> sq_eq E k pk"
  shows "retired E k (update_operators E pk f D)"
proof -
  have apart: "\<not> sq_eq E a k"
  proof
    assume e: "sq_eq E a k"
    obtain r where "r \<in> set (od_operators D)" "sq_eq E (oq_pubkey r) k"
      using assms(3) by (auto simp: retired_def find_operator_def dest!: find_Some_set)
    then show False using assms(1,4) e by (auto simp: list_ex_iff sq_eq_def)
  qed
  have "find (\<lambda>r. sq_eq E (oq_pubkey r) k) (map (\<lambda>r. if sq_eq E (oq_pubkey r) pk then f r else r) xs) = find (\<lambda>r. sq_eq E (oq_pubkey r) k) xs" for xs
    using assms(2,4) apart by (induction xs) (auto simp: sq_eq_def)
  then show ?thesis using assms(3) by (simp add: retired_def find_operator_def update_operators_def)
qed

lemma anonymous_unique:
  assumes "unique_keys E D" "\<not> list_ex (\<lambda>r. sq_eq E (oq_pubkey r) a \<and> \<not> sq_eq E (oq_pubkey r) pk) (od_operators D)"
    and "\<And>r. oq_pubkey (f r) = a"
  shows "unique_keys E (update_operators E pk f D)"
proof -
  have "distinct (map (\<lambda>r. sq_weight E (oq_pubkey (if sq_eq E (oq_pubkey r) pk then f r else r))) xs)"
    if "distinct (map (\<lambda>r. sq_weight E (oq_pubkey r)) xs)" "\<forall>r \<in> set xs. sq_eq E (oq_pubkey r) a \<longrightarrow> sq_eq E (oq_pubkey r) pk" for xs
    using that
  proof (induction xs)
    case (Cons x xs)
    have "sq_weight E (oq_pubkey (if sq_eq E (oq_pubkey x) pk then f x else x))
        \<noteq> sq_weight E (oq_pubkey (if sq_eq E (oq_pubkey r) pk then f r else r))" if "r \<in> set xs" for r
    proof -
      have "sq_weight E (oq_pubkey x) \<noteq> sq_weight E (oq_pubkey r)" using Cons.prems(1) that by auto
      moreover have "sq_eq E (oq_pubkey x) a \<longrightarrow> sq_eq E (oq_pubkey x) pk" "sq_eq E (oq_pubkey r) a \<longrightarrow> sq_eq E (oq_pubkey r) pk"
        using Cons.prems(2) that by simp_all
      ultimately show ?thesis using assms(3) by (simp add: sq_eq_def split: if_splits) metis
    qed
    then have "sq_weight E (oq_pubkey (if sq_eq E (oq_pubkey x) pk then f x else x))
        \<notin> (\<lambda>r. sq_weight E (oq_pubkey (if sq_eq E (oq_pubkey r) pk then f r else r))) ` set xs" by blast
    then show ?case using Cons.IH Cons.prems by simp
  qed simp
  then show ?thesis using assms(1,2) by (simp add: unique_keys_def update_operators_def list_ex_iff comp_def)
qed

lemma keeps_subject_action:
  assumes "unique_keys E D" "identity_collation E"
  shows "keeps_retired E D (snd (mysql_operator_dsr_mutate (E\<lparr>sq_fails := fl\<rparr>) E X id pk action tracking_id D))"
proof (cases "load_mysql_dsr_subject (E\<lparr>sq_fails := fl\<rparr>) X pk D")
  case (Inl e)
  then show ?thesis using keeps_refl [OF assms(1)] by (simp add: mysql_operator_dsr_mutate_def)
next
  case (Inr S)
  obtain r D' where m: "mutate_mysql_dsr E X pk action tracking_id S D = (r, D')" by fastforce
  have active: "find_active_operator E D pk \<noteq> None"
    using Inr by (auto simp: load_mysql_dsr_subject_def statement_def Let_def split: option.splits)
  then have apart: "\<not> sq_eq E k pk" if "retired E k D" for k using retired_not_active [OF assms(1) that] by auto
  let ?R = "apply_mysql_dsr_restriction E pk action D" and ?a = "anonymous_pubkey X tracking_id pk"
  note kr = keeps_restriction [OF assms, of pk action]
  have goal: "keeps_retired E D D'"
  proof -
    consider "D' = D" | "od_operators D' = od_operators ?R"
      | "\<not> list_ex (\<lambda>r. sq_eq E (oq_pubkey r) ?a \<and> \<not> sq_eq E (oq_pubkey r) pk) (od_operators ?R)"
        "od_operators D' = od_operators (update_operators E pk (\<lambda>r. r\<lparr>oq_pubkey := ?a, oq_row := (oq_row r)\<lparr>o_identity_status := ''restricted''\<rparr>\<rparr>) ?R)"
      using dsr_mutate_operators [OF m] unfolding Let_def by blast
    then show ?thesis
    proof cases
      case 1
      then show ?thesis using keeps_refl [OF assms(1)] by simp
    next
      case 2
      then show ?thesis using keeps_cong kr by blast
    next
      case 3
      let ?f = "\<lambda>r. r\<lparr>oq_pubkey := ?a, oq_row := (oq_row r)\<lparr>o_identity_status := ''restricted''\<rparr>\<rparr>"
      have u: "unique_keys E ?R" using kr by (simp add: keeps_retired_def)
      have "unique_keys E (update_operators E pk ?f ?R)" by (rule anonymous_unique [OF u 3(1)]) simp
      moreover have "retired E k (update_operators E pk ?f ?R)" if "retired E k D" for k
        by (rule anonymous_retired [OF 3(1)]) (use kr apart that in \<open>auto simp: keeps_retired_def\<close>)
      ultimately have "keeps_retired E D (update_operators E pk ?f ?R)" by (simp add: keeps_retired_def)
      then show ?thesis using keeps_cong 3(2) by blast
    qed
  qed
  then show ?thesis using Inr m by (simp add: mysql_operator_dsr_mutate_def)
qed

lemma env_congs [simp]:
  "unique_keys (E\<lparr>sq_now := t, sq_fails := f\<rparr>) D = unique_keys E D"
  "identity_collation (E\<lparr>sq_now := t, sq_fails := f\<rparr>) = identity_collation E"
  "retired (E\<lparr>sq_now := t, sq_fails := f\<rparr>) k D = retired E k D"
  by (simp_all add: unique_keys_def comp_def identity_collation_def retired_def)

lemma keeps_env [simp]: "keeps_retired (E\<lparr>sq_now := t, sq_fails := f\<rparr>) D D' = keeps_retired E D D'"
  by (simp add: keeps_retired_def)

lemma operator_db_step_keeps:
  assumes "unique_keys E D" "identity_collation E"
  shows "keeps_retired E D (operator_db_step E ev D)"
proof -
  let ?E = "E\<lparr>sq_now := ow_now ev, sq_fails := ow_fails ev\<rparr>"
  have u: "unique_keys ?E D" and c: "identity_collation ?E" using assms by simp_all
  note refl = keeps_refl [OF u]
  have "keeps_retired ?E D (operator_db_step E ev D)"
  proof (cases "ow_op ev")
    case (Upsert pk name created ihash)
    have "keeps_retired ?E D (mysql_upsert_operator ?E (ow_env ev) pk name created ihash D)"
    proof (cases "find_operator ?E D pk")
      case None
      then show ?thesis unfolding mysql_upsert_operator_def using keeps_insert [OF u] refl by simp
    next
      case (Some r)
      have "keeps_retired ?E D (update_operators ?E pk (\<lambda>r. r\<lparr>oq_row := (oq_row r)\<lparr>o_display_name := Some dn\<rparr>\<rparr>) D)" for dn
        by (rule keeps_update [OF u]) simp_all
      then show ?thesis unfolding mysql_upsert_operator_def using refl Some by (simp split: option.split)
    qed
    then show ?thesis using Upsert by (simp add: operator_db_step_def Let_def)
  next
    case (Rename pk name)
    have "keeps_retired ?E D (update_operators ?E pk (\<lambda>r. r\<lparr>oq_row := (oq_row r)\<lparr>o_display_name := Some name\<rparr>\<rparr>) D)"
      by (rule keeps_update [OF u]) simp_all
    then show ?thesis using Rename refl by (simp add: operator_db_step_def Let_def mysql_rename_operator_def)
  next
    case (Recognise pk ordinal tier badge)
    have "keeps_retired ?E D (update_operators ?E pk (\<lambda>r. r\<lparr>oq_row := (oq_row r)\<lparr>o_ordinal := Some ordinal, o_tier := tier, o_badge := badge\<rparr>\<rparr>) D)"
      by (rule keeps_update [OF u]) simp_all
    then show ?thesis using Recognise refl by (simp add: operator_db_step_def Let_def mysql_set_operator_recognition_def)
  next
    case (Rotate old_pk new_pk epoch reason)
    then show ?thesis using keeps_rotate [OF u c] by (simp add: operator_db_step_def Let_def)
  next
    case (Revoke pk reason)
    then show ?thesis using keeps_revoke [OF u c] by (simp add: operator_db_step_def Let_def)
  next
    case (Accept pk terms dpa nonce)
    then show ?thesis using keeps_accept [OF u] by (simp add: operator_db_step_def Let_def)
  next
    case (SubjectAction pk action tracking_id)
    then show ?thesis using keeps_subject_action [OF u c, of "ow_load_fails ev"] by (simp add: operator_db_step_def Let_def)
  qed
  then show ?thesis by simp
qed

text \<open>
  A retired identity stays retired. A key that was rotated, revoked or restricted is not active after any
  sequence of operator operations, at whatever times and with whatever failing statements.
\<close>

theorem mysql_retired_stays_retired:
  assumes "identity_collation E" and "unique_keys E D" and "retired E k D"
  shows "retired E k (fold (operator_db_step E) evs D) \<and> find_active_operator E (fold (operator_db_step E) evs D) k = None"
proof -
  have "unique_keys E (fold (operator_db_step E) evs D) \<and> retired E k (fold (operator_db_step E) evs D)"
    using assms(2,3)
  proof (induction evs arbitrary: D)
    case (Cons ev evs)
    then show ?case using operator_db_step_keeps [OF Cons.prems(1) assms(1), of ev] by (simp add: keeps_retired_def)
  qed simp
  then show ?thesis using retired_not_active [OF _ _ sq_eq_refl] by blast
qed

section \<open>Anonymisation\<close>

text \<open>The node columns after a restriction and an anonymisation.\<close>

definition forgotten_node :: "sql_env \<Rightarrow> operator_sql_env \<Rightarrow> string \<Rightarrow> bound_node \<Rightarrow> bound_node" where
  "forgotten_node E X tracking_id n =
     anonymized_node X tracking_id
       (n\<lparr>bn_available := False, bn_public_reachable := False, bn_public_listing := False, bn_operator_url := None,
          bn_operator_contact := None, bn_status := ''archived'', bn_dormant_since := Some (sq_now E),
          bn_transport_endpoint := None, bn_endpoint_verified_dead_at := Some (sq_now E)\<rparr>)"

lemma anonymize_shape:
  assumes "mutate_mysql_dsr E X pk ''anonymize'' tracking_id S D = (Inr j, D')"
  shows "od_nodes D' = map (\<lambda>n. if bound_in E pk n then forgotten_node E X tracking_id n else n) (od_nodes D)"
    and "\<forall>r \<in> set (od_operators D'). sq_eq E (oq_pubkey r) pk \<longrightarrow> oq_pubkey r = anonymous_pubkey X tracking_id pk"
    and "t \<in> set telemetry_tables \<Longrightarrow> od_node_rows D' t = filter (\<lambda>i. \<not> of_nodes E (mq_node_ids S) i) (od_node_rows D t)"
    and "\<exists>a. od_actions D' = od_actions D @ [a] \<and> sa_tracking_id a = tracking_id \<and> sa_action a = ''anonymize'' \<and> sa_subject_hash a = mq_subject_hash S"
proof -
  let ?R = "apply_mysql_dsr_restriction E pk ''anonymize'' D" and ?a = "anonymous_pubkey X tracking_id pk"
  let ?N = "update_bound E pk (anonymized_node X tracking_id) ?R"
  let ?f = "\<lambda>r. r\<lparr>oq_pubkey := ?a, oq_row := (oq_row r)\<lparr>o_identity_status := ''restricted''\<rparr>\<rparr>"
  define D2 where "D2 = update_operators E pk ?f (snd (delete_mysql_dsr_telemetry E (mq_node_ids S) ?N))"
  have an: "apply_mysql_dsr_anonymization E X pk tracking_id (mq_node_ids S) ?R = Inr (d, x) \<Longrightarrow> x = D2" for d x
    by (auto simp: apply_mysql_dsr_anonymization_def Let_def case_prod_beta D2_def split: if_splits)
  have acts: "od_actions D2 = od_actions D" by (simp add: D2_def delete_mysql_dsr_telemetry_def apply_mysql_dsr_restriction_def)
  obtain d x where an1: "apply_mysql_dsr_anonymization E X pk tracking_id (mq_node_ids S) ?R = Inr (d, x)"
  proof (cases "apply_mysql_dsr_anonymization E X pk tracking_id (mq_node_ids S) ?R")
    case (Inl e)
    then show ?thesis using assms by (simp add: mutate_mysql_dsr_def Let_def split: if_splits)
  next
    case (Inr y)
    then show ?thesis using that by (cases y) simp
  qed
  obtain c where c: "D' = x\<lparr>od_actions := od_actions x @ [\<lparr>sa_tracking_id = tracking_id, sa_action = ''anonymize'',
      sa_subject_hash = mq_subject_hash S, sa_selector = mq_selector S, sa_affected_counts = JObj c, sa_applied_at = sq_now E\<rparr>]\<rparr>"
    using assms an1 by (auto simp: mutate_mysql_dsr_def transaction_def statement_def Let_def insert_mysql_dsr_action_def
        split: if_splits option.splits)
  define a where "a = \<lparr>sa_tracking_id = tracking_id, sa_action = ''anonymize'',
      sa_subject_hash = mq_subject_hash S, sa_selector = mq_selector S, sa_affected_counts = JObj c, sa_applied_at = sq_now E\<rparr>"
  have a: "sa_tracking_id a = tracking_id" "sa_action a = ''anonymize''" "sa_subject_hash a = mq_subject_hash S"
      "D' = D2\<lparr>od_actions := od_actions D @ [a]\<rparr>"
    using c acts an [OF an1] by (simp_all add: a_def)
  have b: "bound_in E pk (n\<lparr>bn_available := False, bn_public_reachable := False, bn_public_listing := False, bn_operator_url := None,
          bn_operator_contact := None, bn_status := ''archived'', bn_dormant_since := Some (sq_now E),
          bn_transport_endpoint := None, bn_endpoint_verified_dead_at := Some (sq_now E)\<rparr>) = bound_in E pk n" for n
    by (simp add: bound_in_def)
  show "od_nodes D' = map (\<lambda>n. if bound_in E pk n then forgotten_node E X tracking_id n else n) (od_nodes D)"
    unfolding a(4) D2_def by (simp add: delete_mysql_dsr_telemetry_def apply_mysql_dsr_restriction_def update_bound_def forgotten_node_def b)
  show "\<forall>r \<in> set (od_operators D'). sq_eq E (oq_pubkey r) pk \<longrightarrow> oq_pubkey r = ?a"
    unfolding a(4) D2_def by (auto simp: update_operators_def split: if_splits)
  show "t \<in> set telemetry_tables \<Longrightarrow> od_node_rows D' t = filter (\<lambda>i. \<not> of_nodes E (mq_node_ids S) i) (od_node_rows D t)"
    unfolding a(4) D2_def by (simp add: delete_mysql_dsr_telemetry_def apply_mysql_dsr_restriction_def)
  show "\<exists>a. od_actions D' = od_actions D @ [a] \<and> sa_tracking_id a = tracking_id \<and> sa_action a = ''anonymize'' \<and> sa_subject_hash a = mq_subject_hash S"
    using a by auto
qed

lemma subject_nodes:
  assumes "load_mysql_dsr_subject (E\<lparr>sq_fails := fl\<rparr>) X pk D = Inr S"
  shows "set (mq_node_ids S) = bn_id ` set (filter (bound_in E pk) (od_nodes D))"
  using assms by (auto simp: load_mysql_dsr_subject_def statement_def Let_def split: option.splits)

text \<open>
  C35. Anonymisation forgets the operator: once it is answered, no operator row and no node carries the key,
  every node that did is offline with its addresses, keys and credentials replaced, the addresses and
  telemetry kept of these nodes are gone, no other node changed, and exactly one action is on
  record. When it is refused nothing has changed.
\<close>

theorem mysql_anonymize_exact:
  assumes "mysql_operator_dsr_mutate (E\<lparr>sq_fails := fl\<rparr>) E X id pk ''anonymize'' tracking_id D = (r, D')"
    and "\<not> sq_eq E (anonymous_pubkey X tracking_id pk) pk"
  shows "case r of
      Inl e \<Rightarrow> D' = D
    | Inr j \<Rightarrow>
        list_all (\<lambda>r. \<not> sq_eq E (oq_pubkey r) pk) (od_operators D') \<and> list_all (\<lambda>n. \<not> bound_in E pk n) (od_nodes D')
        \<and> od_nodes D' = map (\<lambda>n. if bound_in E pk n then forgotten_node E X tracking_id n else n) (od_nodes D)
        \<and> (\<forall>t \<in> set telemetry_tables. \<forall>n \<in> set (od_nodes D). bound_in E pk n \<longrightarrow> list_all (\<lambda>i. \<not> sq_eq E i (bn_id n)) (od_node_rows D' t))
        \<and> (\<exists>a. od_actions D' = od_actions D @ [a] \<and> sa_tracking_id a = tracking_id \<and> sa_action a = ''anonymize'')"
proof (cases "load_mysql_dsr_subject (E\<lparr>sq_fails := fl\<rparr>) X pk D")
  case (Inl e)
  then show ?thesis using assms(1) by (auto simp: mysql_operator_dsr_mutate_def)
next
  case (Inr S)
  then have m: "mutate_mysql_dsr E X pk ''anonymize'' tracking_id S D = (r, D')" using assms(1) by (simp add: mysql_operator_dsr_mutate_def)
  show ?thesis
  proof (cases r)
    case (Inl e)
    then show ?thesis using mutate_failed [of E X pk "''anonymize''" tracking_id S D e] m by simp
  next
    case ok: (Inr j)
    note s = anonymize_shape [OF m [unfolded ok]]
    have gone: "list_all (\<lambda>i. \<not> sq_eq E i (bn_id n)) (od_node_rows D' t)"
      if "t \<in> set telemetry_tables" "n \<in> set (od_nodes D)" "bound_in E pk n" for t n
    proof -
      have "bn_id n \<in> set (mq_node_ids S)" using subject_nodes [OF Inr] that by auto
      then show ?thesis unfolding s(3) [OF that(1)] by (auto simp: list_all_iff of_nodes_def list_ex_iff)
    qed
    have "\<not> bound_in E pk (forgotten_node E X tracking_id n)" for n by (simp add: forgotten_node_def anonymized_node_def bound_in_def)
    then have "list_all (\<lambda>n. \<not> bound_in E pk n) (od_nodes D')" unfolding s(1) by (auto simp: list_all_iff)
    moreover have "list_all (\<lambda>r. \<not> sq_eq E (oq_pubkey r) pk) (od_operators D')" using s(2) assms(2) by (auto simp: list_all_iff)
    ultimately show ?thesis using s(1,4) gone ok by auto
  qed
qed

text \<open>
  The node list is read before the transaction: a node that binds itself to the operator in between is
  anonymised, but the addresses and telemetry recorded of it stay.
\<close>

lemma late_node_keeps_telemetry:
  assumes "mysql_operator_dsr_mutate (E\<lparr>sq_fails := fl\<rparr>) E X between pk ''anonymize'' tracking_id D = (Inr j, D')"
    and "i \<in> set (od_node_rows (between D) t)" "t \<in> set telemetry_tables"
    and "\<forall>n \<in> set (od_nodes D). bound_in E pk n \<longrightarrow> \<not> sq_eq E i (bn_id n)"
  shows "i \<in> set (od_node_rows D' t)"
proof -
  obtain S where S: "load_mysql_dsr_subject (E\<lparr>sq_fails := fl\<rparr>) X pk D = Inr S"
      "mutate_mysql_dsr E X pk ''anonymize'' tracking_id S (between D) = (Inr j, D')"
    using assms(1) by (auto simp: mysql_operator_dsr_mutate_def split: sum.splits)
  show ?thesis unfolding anonymize_shape(3) [OF S(2) assms(3)]
    using assms(2,4) subject_nodes [OF S(1)] by (auto simp: of_nodes_def list_ex_iff)
qed

section \<open>An operator at work\<close>

definition demo_operator_env :: operator_sql_env where
  "demo_operator_env = \<lparr>ov_crypto = demo_crypto, ov_base64 = (\<lambda>s. Some (replicate 32 CHR ''k'')), ov_now_ms = 1000000,
     ov_text = (\<lambda>_. ''now''), ov_random = (\<lambda>_ i. i)\<rparr>"

definition demo_operator :: "string \<Rightarrow> operator_rec" where
  "demo_operator status = \<lparr>oq_pubkey = ''op1'', oq_row = default_operator_row\<lparr>o_identity_status := status\<rparr>, oq_successor = None,
     oq_revoked_at = None, oq_reason_class = None, oq_provenance = None\<rparr>"

definition demo_bound_node :: bound_node where
  "demo_bound_node = \<lparr>bn_id = ''n1'', bn_endpoint = ''https://n1'', bn_available = True, bn_public_reachable = True, bn_public_listing = True,
     bn_operator_url = None, bn_operator_contact = None, bn_operator_pubkey = Some ''op1'', bn_operator_verified = True,
     bn_operator_trust_tier = None, bn_policy_manifest = None, bn_status = ''active'', bn_dormant_since = None, bn_last_seen = Some 900,
     bn_transport_endpoint = None, bn_endpoint_verified_dead_at = None, bn_observed_source_ip = Some ''192.0.2.1'', bn_identity_key = None,
     bn_liveness_challenge = None, bn_liveness_verified_at = None, bn_cx_public_key = None, bn_gossip_public_key = None,
     bn_node_token_hash = [], bn_proxy_token_hash = None, bn_node_hmac_key = None\<rparr>"

definition demo_operators :: "string \<Rightarrow> operator_db" where
  "demo_operators status = \<lparr>od_operators = [demo_operator status], od_nodes = [demo_bound_node], od_policy_keys = [], od_actions = [],
     od_node_rows = (\<lambda>t. [''n1'', ''n2''])\<rparr>"

lemmas demo_operator_simps = demo_sql_def demo_operator_env_def demo_operators_def demo_operator_def demo_bound_node_def sq_eq_def

lemma demo_sql_collation: "identity_collation demo_sql"
  by (simp add: identity_collation_def demo_sql_def)

lemma demo_active: "find_active_operator demo_sql (demo_operators ''active'') ''op1'' = Some (demo_operator ''active'')"
  by (simp add: find_active_operator_def demo_operator_simps)

lemma demo_no_failure: "sq_fails demo_sql k = None"
  by (simp add: demo_sql_def)

theorem mysql_rotation_exact_witness:
  "retired demo_sql ''op1'' (snd (mysql_rotate_operator_identity demo_sql demo_operator_env ''op1'' ''op2'' None ''routine'' (demo_operators ''active'')))"
proof -
  let ?r = "mysql_rotate_operator_identity demo_sql demo_operator_env ''op1'' ''op2'' None ''routine'' (demo_operators ''active'')"
  have "find_operator demo_sql (demo_operators ''active'') ''op2'' = None" by (simp add: find_operator_def demo_operator_simps)
  moreover have "\<exists>h. policy_key_hash demo_operator_env k = Some h" for k by (simp add: policy_key_hash_def demo_operator_env_def)
  then have "\<exists>h. policy_key_hash demo_operator_env ''op1'' = Some h" "\<exists>h. policy_key_hash demo_operator_env ''op2'' = Some h" by blast+
  ultimately obtain res where "fst ?r = Inr res"
    by (auto simp: mysql_rotate_operator_identity_def statement_def demo_no_failure demo_active Let_def)
  then show ?thesis using mysql_rotation_exact [OF prod.collapse [symmetric] demo_sql_collation,
      of demo_operator_env "''op1''" "''op2''" None "''routine''" "demo_operators ''active''"] by auto
qed

theorem mysql_retired_stays_retired_witness:
  "retired demo_sql ''op1'' (fold (operator_db_step demo_sql)
     [\<lparr>ow_now = 2000, ow_fails = \<lambda>_. None, ow_load_fails = \<lambda>_. None, ow_env = demo_operator_env, ow_op = Upsert ''op1'' (Some ''again'') None None\<rparr>,
      \<lparr>ow_now = 2001, ow_fails = \<lambda>_. None, ow_load_fails = \<lambda>_. None, ow_env = demo_operator_env, ow_op = SubjectAction ''op1'' ''anonymize'' ''t1''\<rparr>]
     (demo_operators ''revoked''))"
  by (rule mysql_retired_stays_retired [OF demo_sql_collation, THEN conjunct1])
    (simp_all add: unique_keys_def retired_def find_operator_def demo_operator_simps)

theorem mysql_anonymize_exact_witness:
  "list_all (\<lambda>n. \<not> bound_in demo_sql ''op1'' n)
     (od_nodes (snd (mysql_operator_dsr_mutate demo_sql demo_sql demo_operator_env id ''op1'' ''anonymize'' ''t1'' (demo_operators ''active''))))"
proof -
  let ?r = "mysql_operator_dsr_mutate demo_sql demo_sql demo_operator_env id ''op1'' ''anonymize'' ''t1'' (demo_operators ''active'')"
  have env: "demo_sql\<lparr>sq_fails := \<lambda>_. None\<rparr> = demo_sql" by (simp add: demo_sql_def)
  have a: "\<not> sq_eq demo_sql (anonymous_pubkey demo_operator_env ''t1'' ''op1'') ''op1''"
    by (simp add: anonymous_pubkey_def demo_sql_def sq_eq_def)
  let ?R = "apply_mysql_dsr_restriction demo_sql ''op1'' ''anonymize'' (demo_operators ''active'')"
  have "\<not> list_ex (\<lambda>r. sq_eq demo_sql (oq_pubkey r) x \<and> \<not> sq_eq demo_sql (oq_pubkey r) ''op1'') (od_operators ?R)" for x
    by (simp add: apply_mysql_dsr_restriction_def update_operators_def demo_operator_simps)
  moreover have "od_actions ?R = []" by (simp add: apply_mysql_dsr_restriction_def demo_operators_def)
  ultimately have an: "\<exists>d x. apply_mysql_dsr_anonymization demo_sql demo_operator_env ''op1'' ''t1'' ids ?R = Inr (d, x) \<and> od_actions x = []" for ids
    by (simp add: apply_mysql_dsr_anonymization_def delete_mysql_dsr_telemetry_def Let_def)
  have nf: "\<not> list_ex (\<lambda>k. sq_fails demo_sql k \<noteq> None) xs" for xs by (simp add: list_ex_iff demo_no_failure)
  obtain S where S: "load_mysql_dsr_subject demo_sql demo_operator_env ''op1'' (demo_operators ''active'') = Inr S"
    by (simp add: load_mysql_dsr_subject_def demo_active demo_no_failure statement_def Let_def)
  obtain d x where "apply_mysql_dsr_anonymization demo_sql demo_operator_env ''op1'' ''t1'' (mq_node_ids S) ?R = Inr (d, x)" "od_actions x = []"
    using an by blast
  then have "\<exists>j. fst (mutate_mysql_dsr demo_sql demo_operator_env ''op1'' ''anonymize'' ''t1'' S (demo_operators ''active'')) = Inr j"
    using nf by (simp add: mutate_mysql_dsr_def Let_def statement_def demo_no_failure insert_mysql_dsr_action_def)
  then have "\<exists>j. fst ?r = Inr j" using S by (simp add: mysql_operator_dsr_mutate_def)
  then show ?thesis using mysql_anonymize_exact [where E = demo_sql and X = demo_operator_env and pk = "''op1''" and tracking_id = "''t1''"
      and D = "demo_operators ''active''" and fl = "\<lambda>_. None" and r = "fst ?r" and D' = "snd ?r", unfolded env, OF prod.collapse [symmetric] a]
    by auto
qed

end
