(* ===== verification/Redaction.thy ===== *)
theory Redaction
  imports Operator_Table
begin

text \<open>
  The export of what the database holds about an operator, \<open>src/db.rs\<close>: the related rows, and the
  removal of credentials and keys from the JSON columns among them.

  The rows come from the database as JSON, a parameter: for each table the pairs of node id and row in the
  order of its query. Objects are lists of entries with distinct keys, in the order of their map.
\<close>

section \<open>Redaction\<close>

definition SECRET_KEYS :: "string list" where
  "SECRET_KEYS = [''node_token'', ''node_token_hash'', ''proxy_token'', ''proxy_token_hash'', ''node_hmac_key'', ''current_node_token'']"

definition PUBKEY_KEYS :: "string list" where
  "PUBKEY_KEYS = [''operator_pubkey'', ''public_key'', ''did_public_key'']"

definition redacted :: json where
  "redacted = JStr ''[redacted]''"

definition digest_entry :: "crypto \<Rightarrow> string \<Rightarrow> string \<Rightarrow> string \<times> json" where
  "digest_entry C key raw =
     (if key = ''operator_pubkey'' then (''operator_fingerprint'', JStr (operator_fingerprint C raw))
      else (key @ ''_sha256'', JStr (sha256_hex C raw)))"

text \<open>
  One turn of the loop, for the key \<open>key\<close> whose item was \<open>v\<close> when the keys were collected; \<open>v'\<close> is the item
  with what is inside it redacted. The item may have been overwritten by a digest since.
\<close>

definition redact_turn :: "crypto \<Rightarrow> string \<times> json \<times> json \<Rightarrow> (string \<times> json) list \<Rightarrow> (string \<times> json) list" where
  "redact_turn C = (\<lambda>(key, v, v') object.
     if key \<in> set SECRET_KEYS then hm_insert key redacted object
     else if key \<in> set PUBKEY_KEYS then
       (case map_of object key of
          Some (JStr raw) \<Rightarrow> hm_insert key redacted (hm_insert (fst (digest_entry C key raw)) (snd (digest_entry C key raw)) object)
        | _ \<Rightarrow> object)
     else if map_of object key = Some v then hm_insert key v' object
     else object)"

lemma size_entry: "(k, v) \<in> set kvs \<Longrightarrow> size v < size (JObj kvs)"
  by (induction kvs) auto

lemma size_element: "v \<in> set vs \<Longrightarrow> size v < size (JArr vs)"
  by (induction vs) auto

function redact_dsr_payload :: "crypto \<Rightarrow> json \<Rightarrow> json" where
  "redact_dsr_payload C (JObj kvs) =
     JObj (fold (redact_turn C)
       (map (\<lambda>(k, v). (k, v, case v of
            JObj inner \<Rightarrow> redact_dsr_payload C (JObj inner)
          | JArr vs \<Rightarrow> JArr (map (redact_dsr_payload C) vs)
          | _ \<Rightarrow> v)) kvs) kvs)"
| "redact_dsr_payload C JNull = JNull"
| "redact_dsr_payload C (JBool b) = JBool b"
| "redact_dsr_payload C (JInt i) = JInt i"
| "redact_dsr_payload C (JFloat x) = JFloat x"
| "redact_dsr_payload C (JStr s) = JStr s"
| "redact_dsr_payload C (JArr vs) = JArr vs"
  by pat_completeness auto

termination
  by (relation "measure (size \<circ> snd)") (auto dest!: size_entry size_element simp del: json.size)

definition normalize_mysql_bool :: "string \<Rightarrow> (string \<times> json) list \<Rightarrow> (string \<times> json) list" where
  "normalize_mysql_bool field object =
     (case map_of object field of
        Some (JInt n) \<Rightarrow> hm_insert field (JBool (n \<noteq> 0)) object
      | _ \<Rightarrow> object)"

section \<open>The export\<close>

record export_source =
  xs_operator :: "string \<Rightarrow> json option"
  xs_rows :: "string \<Rightarrow> (string \<times> json) list"
  xs_actions :: "(string \<times> json) list"

definition mysql_dsr_node_table_rows :: "sql_env \<Rightarrow> nat \<Rightarrow> export_source \<Rightarrow> string \<Rightarrow> string list \<Rightarrow> OperatorSelfServiceError + json list" where
  "mysql_dsr_node_table_rows E k Q table node_ids =
     (if node_ids = [] then Inr []
      else statement E (\<lambda>_. SelfStorage) k (Inr (take 500 (map snd (filter (\<lambda>(i, row). of_nodes E node_ids i) (xs_rows Q table))))))"

definition insert_in_object :: "string \<Rightarrow> json \<Rightarrow> json \<Rightarrow> json" where
  "insert_in_object key v row = (case row of JObj object \<Rightarrow> JObj (hm_insert key v object) | _ \<Rightarrow> row)"

definition in_field :: "string \<Rightarrow> (json \<Rightarrow> json) \<Rightarrow> (string \<times> json) list \<Rightarrow> (string \<times> json) list" where
  "in_field key f object = (case map_of object key of Some v \<Rightarrow> hm_insert key (f v) object | None \<Rightarrow> object)"

definition in_object :: "((string \<times> json) list \<Rightarrow> (string \<times> json) list) \<Rightarrow> json \<Rightarrow> json" where
  "in_object f row = (case row of JObj object \<Rightarrow> JObj (f object) | _ \<Rightarrow> row)"

definition mysql_dsr_operator_rows :: "sql_env \<Rightarrow> export_source \<Rightarrow> MysqlDsrSubject \<Rightarrow> OperatorSelfServiceError + json list" where
  "mysql_dsr_operator_rows E Q S =
     statement E (\<lambda>_. SelfStorage) 0
       (Inr (case xs_operator Q (mq_operator_pubkey S) of
               None \<Rightarrow> []
             | Some row \<Rightarrow> [insert_in_object ''operator_pubkey_sha256'' (JStr (mq_pubkey_sha256 S))
                             (insert_in_object ''operator_fingerprint'' (JStr (mq_fingerprint S)) row)]))"

definition present_node_row :: "crypto \<Rightarrow> MysqlDsrSubject \<Rightarrow> json \<Rightarrow> json" where
  "present_node_row C S =
     in_object (\<lambda>object.
       in_field ''policy_manifest'' (redact_dsr_payload C)
         (in_field ''secret_fields_present'' (in_object (fold normalize_mysql_bool [''node_token_hash'', ''proxy_token_hash'', ''node_hmac_key'']))
           (fold normalize_mysql_bool [''available'', ''public_listing'', ''operator_verified'']
             (hm_insert ''operator_fingerprint'' (JStr (mq_fingerprint S)) object))))"

definition mysql_dsr_node_rows :: "sql_env \<Rightarrow> crypto \<Rightarrow> export_source \<Rightarrow> MysqlDsrSubject \<Rightarrow> OperatorSelfServiceError + json list" where
  "mysql_dsr_node_rows E C Q S = map_sum id (map (present_node_row C S)) (mysql_dsr_node_table_rows E 1 Q ''nodes'' (mq_node_ids S))"

definition present_event_row :: "crypto \<Rightarrow> json \<Rightarrow> json" where
  "present_event_row C =
     in_object (\<lambda>object. in_field ''payload'' (redact_dsr_payload C) (normalize_mysql_bool ''signature_present'' object))"

definition mysql_dsr_node_event_rows :: "sql_env \<Rightarrow> crypto \<Rightarrow> export_source \<Rightarrow> string list \<Rightarrow> OperatorSelfServiceError + json list" where
  "mysql_dsr_node_event_rows E C Q node_ids =
     map_sum id (map (present_event_row C)) (mysql_dsr_node_table_rows E 9 Q ''node_events'' node_ids)"

definition mysql_dsr_prior_actions :: "sql_env \<Rightarrow> export_source \<Rightarrow> string \<Rightarrow> OperatorSelfServiceError + json list" where
  "mysql_dsr_prior_actions E Q subject_hash =
     statement E (\<lambda>_. SelfStorage) 10 (Inr (take 500 (map snd (filter (\<lambda>(h, row). sq_eq E h subject_hash) (xs_actions Q)))))"

definition exported_tables :: "(string \<times> string \<times> nat) list" where
  "exported_tables =
     [(''capabilities'', ''capabilities'', 2), (''credits'', ''credits'', 3), (''credit_transactions'', ''credit_transactions'', 4),
      (''reputations'', ''reputations'', 5), (''node_address_history'', ''node_address_history'', 6),
      (''telemetry_probes'', ''iicp_telemetry_probes'', 7), (''proxy_telemetry'', ''proxy_telemetry'', 8)]"

fun collect_records :: "(string \<times> (OperatorSelfServiceError + json list)) list \<Rightarrow> OperatorSelfServiceError + (string \<times> json) list" where
  "collect_records [] = Inr []"
| "collect_records ((name, r) # rs) =
     (case r of Inl e \<Rightarrow> Inl e
      | Inr rows \<Rightarrow> (case collect_records rs of Inl e \<Rightarrow> Inl e | Inr xs \<Rightarrow> Inr ((name, JArr rows) # xs)))"

definition mysql_dsr_export ::
  "sql_env \<Rightarrow> operator_sql_env \<Rightarrow> string \<Rightarrow> export_source \<Rightarrow> MysqlDsrSubject \<Rightarrow> string \<Rightarrow> OperatorSelfServiceError + json" where
  "mysql_dsr_export E X generated_at Q S tracking_id =
     (let C = ov_crypto X
      in map_sum id (\<lambda>records.
           JObj [(''schema'', JStr ''iicp.dsr.export.v1''), (''generated_at'', JStr generated_at), (''tracking_id'', JStr tracking_id),
                 (''selector'', mq_selector S), (''subject_hash'', JStr (mq_subject_hash S)), (''retention_notice'', JStr DSR_RETENTION_REASON),
                 (''records'', JObj records)])
         (collect_records
           ([(''operators'', mysql_dsr_operator_rows E Q S), (''nodes'', mysql_dsr_node_rows E C Q S)]
            @ map (\<lambda>(name, table, k). (name, mysql_dsr_node_table_rows E k Q table (mq_node_ids S))) exported_tables
            @ [(''node_events'', mysql_dsr_node_event_rows E C Q (mq_node_ids S)),
               (''data_subject_actions'', mysql_dsr_prior_actions E Q (mq_subject_hash S))])))"

definition mysql_operator_dsr ::
  "sql_env \<Rightarrow> sql_env \<Rightarrow> operator_sql_env \<Rightarrow> (operator_db \<Rightarrow> operator_db) \<Rightarrow> string \<Rightarrow> export_source \<Rightarrow> string \<Rightarrow> string \<Rightarrow> string \<Rightarrow> operator_db
   \<Rightarrow> (OperatorSelfServiceError + json) \<times> operator_db" where
  "mysql_operator_dsr E0 E X between generated_at Q pk action tracking_id D =
     (if action = ''export'' then
        (case load_mysql_dsr_subject E0 X pk D of
           Inl e \<Rightarrow> (Inl e, D)
         | Inr S \<Rightarrow> (mysql_dsr_export E X generated_at Q S tracking_id, D))
      else mysql_operator_dsr_mutate E0 E X between pk action tracking_id D)"

section \<open>What redaction leaves\<close>

text \<open>
  The entries that redaction reaches: those of the object, of the objects in it, and of the objects in its
  arrays, but not through a key that is itself replaced and not through an array inside an array.
\<close>

inductive reaches :: "json \<Rightarrow> string \<Rightarrow> json \<Rightarrow> bool" where
  entry: "(k, v) \<in> set kvs \<Longrightarrow> reaches (JObj kvs) k v"
| object: "(k', JObj inner) \<in> set kvs \<Longrightarrow> k' \<notin> set (SECRET_KEYS @ PUBKEY_KEYS) \<Longrightarrow> reaches (JObj inner) k v \<Longrightarrow> reaches (JObj kvs) k v"
| element: "(k', JArr vs) \<in> set kvs \<Longrightarrow> k' \<notin> set (SECRET_KEYS @ PUBKEY_KEYS) \<Longrightarrow> w \<in> set vs \<Longrightarrow> reaches w k v \<Longrightarrow> reaches (JObj kvs) k v"

inductive_simps reaches_simps [simp]:
  "reaches JNull k v" "reaches (JBool b) k v" "reaches (JInt i) k v" "reaches (JFloat x) k v" "reaches (JStr s) k v" "reaches (JArr vs) k v"

text \<open>A map has each key once, at every depth.\<close>

fun proper :: "json \<Rightarrow> bool" where
  "proper (JObj kvs) \<longleftrightarrow> distinct (map fst kvs) \<and> list_all (\<lambda>v. v) (map (\<lambda>(k, v). proper v) kvs)"
| "proper (JArr vs) \<longleftrightarrow> list_all (\<lambda>v. v) (map proper vs)"
| "proper _ \<longleftrightarrow> True"

abbreviation inside :: "crypto \<Rightarrow> json \<Rightarrow> json" where
  "inside C v \<equiv> (case v of JObj inner \<Rightarrow> redact_dsr_payload C (JObj inner) | JArr vs \<Rightarrow> JArr (map (redact_dsr_payload C) vs) | _ \<Rightarrow> v)"

definition clean :: "crypto \<Rightarrow> (string \<times> json) list \<Rightarrow> string \<Rightarrow> json \<Rightarrow> bool" where
  "clean C kvs k v \<longleftrightarrow>
     (k \<in> set SECRET_KEYS \<longrightarrow> v = redacted)
     \<and> (k \<in> set PUBKEY_KEYS \<longrightarrow> v = redacted \<or> (\<forall>s. v \<noteq> JStr s))
     \<and> (k \<notin> set (SECRET_KEYS @ PUBKEY_KEYS) \<longrightarrow> (\<exists>s. v = JStr s) \<or> (\<exists>v0. (k, v0) \<in> set kvs \<and> v = inside C v0))"

lemma keys_apart: "k \<in> set PUBKEY_KEYS \<Longrightarrow> k \<notin> set SECRET_KEYS" "fst (digest_entry C k raw) \<notin> set (SECRET_KEYS @ PUBKEY_KEYS) \<or> k \<notin> set PUBKEY_KEYS"
  by (auto simp: SECRET_KEYS_def PUBKEY_KEYS_def digest_entry_def)

lemma redact_turn_clean:
  assumes "\<And>k v. map_of m k = Some v \<Longrightarrow> clean C kvs k v \<or> (k, v) \<in> set ((k0, v0) # rest)" "distinct (map fst ((k0, v0) # rest))"
    and "(k0, v0) \<in> set kvs" "map_of (redact_turn C (k0, v0, inside C v0) m) k = Some v"
  shows "clean C kvs k v \<or> (k, v) \<in> set rest"
proof (cases "k = k0")
  case False
  consider "map_of m k = Some v" | raw where "k0 \<in> set PUBKEY_KEYS" "(k, v) = digest_entry C k0 raw"
    using assms(4) False by (auto simp: redact_turn_def split: if_splits option.splits json.splits)
  then show ?thesis
  proof cases
    case 1
    then show ?thesis using assms(1) False by auto
  next
    case 2
    then have "k \<notin> set (SECRET_KEYS @ PUBKEY_KEYS)" "\<exists>s. v = JStr s"
      using keys_apart(2) [of C k0 raw] by (auto simp: digest_entry_def split: if_splits)
    then show ?thesis by (simp add: clean_def)
  qed
next
  case True
  have old: "w = v0 \<or> clean C kvs k0 w" if "map_of m k0 = Some w" for w using assms(1) [OF that] assms(2) by force
  show ?thesis
  proof (cases "k0 \<in> set (SECRET_KEYS @ PUBKEY_KEYS)")
    case secret: True
    then show ?thesis using assms(4) True keys_apart(1) [of k0]
      by (auto simp: redact_turn_def clean_def split: if_splits option.splits json.splits)
  next
    case False
    then show ?thesis using assms(3,4) True old by (auto simp: redact_turn_def clean_def split: if_splits)
  qed
qed

lemma redact_turn_wf: "hm_wf m \<Longrightarrow> hm_wf (redact_turn C t m)"
  by (auto simp: redact_turn_def split: prod.splits option.splits json.splits)

lemma fold_redact_clean:
  assumes "\<And>k v. map_of m k = Some v \<Longrightarrow> clean C kvs k v \<or> (k, v) \<in> set rest" "distinct (map fst rest)" "set rest \<subseteq> set kvs" "hm_wf m"
  shows "hm_wf (fold (redact_turn C) (map (\<lambda>(k, v). (k, v, inside C v)) rest) m)
    \<and> (\<forall>k v. map_of (fold (redact_turn C) (map (\<lambda>(k, v). (k, v, inside C v)) rest) m) k = Some v \<longrightarrow> clean C kvs k v)"
  using assms
proof (induction rest arbitrary: m)
  case (Cons e rest)
  obtain k0 v0 where e: "e = (k0, v0)" by (cases e)
  let ?m = "redact_turn C (k0, v0, inside C v0) m"
  have "clean C kvs k v \<or> (k, v) \<in> set rest" if "map_of ?m k = Some v" for k v
  proof (rule redact_turn_clean)
    show "map_of m k = Some v \<Longrightarrow> clean C kvs k v \<or> (k, v) \<in> set ((k0, v0) # rest)" for k v using Cons.prems(1) e by simp
    show "distinct (map fst ((k0, v0) # rest))" "(k0, v0) \<in> set kvs" using Cons.prems(2,3) e by simp_all
    show "map_of ?m k = Some v" by (rule that)
  qed
  then show ?case using Cons.IH [of ?m] Cons.prems(2-4) e redact_turn_wf by simp
qed auto

lemma redact_entries:
  assumes "distinct (map fst kvs)" "redact_dsr_payload C (JObj kvs) = JObj kvs'" "(k, v) \<in> set kvs'"
  shows "clean C kvs k v"
proof -
  have kvs': "kvs' = fold (redact_turn C) (map (\<lambda>(k, v). (k, v, inside C v)) kvs) kvs" using assms(2) by simp
  have start: "clean C kvs k v \<or> (k, v) \<in> set kvs" if "map_of kvs k = Some v" for k v using that by (simp add: map_of_SomeD)
  have w: "hm_wf kvs" using assms(1) by (simp add: hm_wf_def)
  note f = fold_redact_clean [OF start assms(1) order_refl w, folded kvs']
  have "map_of kvs' k = Some v" using f assms(3) by (simp add: hm_wf_def)
  then show ?thesis using f by blast
qed


text \<open>What lies in an array inside an array is exported as it is.\<close>

lemma nested_array_not_redacted:
  "redact_dsr_payload C (JObj [(''batches'', JArr [JArr [JObj [(''node_token'', JStr s)]]])])
     = JObj [(''batches'', JArr [JArr [JObj [(''node_token'', JStr s)]]])]"
  by (simp add: redact_turn_def SECRET_KEYS_def PUBKEY_KEYS_def hm_insert_def)

text \<open>The export keeps 500 rows of a table and says nothing of the others.\<close>

lemma export_truncated:
  "mysql_dsr_node_table_rows E k Q table node_ids = Inr rows \<Longrightarrow> length rows \<le> 500"
  by (auto simp: mysql_dsr_node_table_rows_def statement_Inr split: if_splits)


end
