(* ===== verification/Replica_Table.thy ===== *)
theory Replica_Table
  imports Node_Table
begin

text \<open>
  The replicas of the directory in the persistent repository, \<open>src/db.rs\<close>: registration by DID,
  credentials, decommissioning with its signed event, and the listing.

  A replica has two unique keys, its id and its DID; an insert that meets either updates the row it
  meets, by id first as the index of the id comes first.
\<close>

record replica_rec =
  rq_id :: string
  rq_did :: string
  rq_endpoint :: string
  rq_trust_tier :: string
  rq_status :: string
  rq_token_hash :: string
  rq_expires_at :: nat
  rq_created_at :: "nat option"

record replica_db =
  rd_log :: node_db
  rd_replicas :: "replica_rec list"

definition ninety_days :: nat where
  "ninety_days = 90 * 86400"

definition by_id :: "sql_env \<Rightarrow> string \<Rightarrow> replica_rec \<Rightarrow> bool" where
  "by_id E i r \<longleftrightarrow> sq_eq E (rq_id r) i"

definition by_did :: "sql_env \<Rightarrow> string \<Rightarrow> replica_rec \<Rightarrow> bool" where
  "by_did E did r \<longleftrightarrow> sq_eq E (rq_did r) did"

definition renewed_replica :: "sql_env \<Rightarrow> string \<Rightarrow> string \<Rightarrow> replica_rec \<Rightarrow> replica_rec" where
  "renewed_replica E i endpoint r =
     r\<lparr>rq_id := i, rq_endpoint := endpoint, rq_trust_tier := ''low'', rq_status := ''active'', rq_expires_at := sq_now E + ninety_days\<rparr>"

definition mysql_upsert_replica :: "sql_env \<Rightarrow> string \<Rightarrow> string \<Rightarrow> string \<Rightarrow> string \<Rightarrow> replica_db \<Rightarrow> bool \<times> replica_db" where
  "mysql_upsert_replica E i did endpoint trust_tier R =
     (if sq_fails E 0 \<noteq> None then (False, R)
      else (True, R\<lparr>rd_replicas :=
        (if list_ex (by_id E i) (rd_replicas R) then update_first (by_id E i) (renewed_replica E i endpoint) (rd_replicas R)
         else if list_ex (by_did E did) (rd_replicas R) then update_first (by_did E did) (renewed_replica E i endpoint) (rd_replicas R)
         else rd_replicas R @ [\<lparr>rq_id = i, rq_did = did, rq_endpoint = endpoint, rq_trust_tier = trust_tier, rq_status = ''active'',
           rq_token_hash = [], rq_expires_at = sq_now E + ninety_days, rq_created_at = Some (sq_now E)\<rparr>])\<rparr>))"

definition mysql_set_replica_token_hash :: "sql_env \<Rightarrow> string \<Rightarrow> string \<Rightarrow> replica_db \<Rightarrow> bool \<times> replica_db" where
  "mysql_set_replica_token_hash E i token_hash R =
     (if sq_fails E 0 \<noteq> None then (False, R)
      else (list_ex (by_id E i) (rd_replicas R),
            R\<lparr>rd_replicas := update_first (by_id E i) (\<lambda>r. r\<lparr>rq_token_hash := token_hash, rq_expires_at := sq_now E + ninety_days\<rparr>) (rd_replicas R)\<rparr>))"

definition mysql_replica_token_hash :: "sql_env \<Rightarrow> string \<Rightarrow> replica_db \<Rightarrow> string option" where
  "mysql_replica_token_hash E i R = (if sq_fails E 0 \<noteq> None then None else map_option rq_token_hash (find (by_id E i) (rd_replicas R)))"

definition unexpired_replica :: "sql_env \<Rightarrow> replica_rec \<Rightarrow> bool" where
  "unexpired_replica E r \<longleftrightarrow> rq_expires_at r > sq_now E"

definition mysql_replica_is_active :: "sql_env \<Rightarrow> string \<Rightarrow> replica_db \<Rightarrow> bool" where
  "mysql_replica_is_active E i R \<longleftrightarrow>
     sq_fails E 0 = None \<and> list_ex (\<lambda>r. by_id E i r \<and> sq_eq E (rq_status r) ''active'' \<and> unexpired_replica E r) (rd_replicas R)"

definition decommissioned :: "sql_env \<Rightarrow> string \<Rightarrow> replica_rec \<Rightarrow> replica_rec" where
  "decommissioned E tombstone r = r\<lparr>rq_status := ''decommissioned'', rq_expires_at := sq_now E, rq_token_hash := tombstone\<rparr>"

definition mysql_decommission_replica :: "sql_env \<Rightarrow> string \<Rightarrow> string \<Rightarrow> replica_db \<Rightarrow> bool \<times> replica_db" where
  "mysql_decommission_replica E tombstone i R =
     (if sq_fails E 0 \<noteq> None then (False, R)
      else (list_ex (by_id E i) (rd_replicas R), R\<lparr>rd_replicas := update_first (by_id E i) (decommissioned E tombstone) (rd_replicas R)\<rparr>))"

text \<open>The event of a decommissioning: unlike the other events it is stored also when it cannot be signed.\<close>

definition deregistered_event :: "process_env \<Rightarrow> string \<Rightarrow> string \<Rightarrow> string \<Rightarrow> node_db \<Rightarrow> EventRow" where
  "deregistered_event X secret_key_hex i did D =
     (let seq = nd_last_seq D + 1;
          prev_hash = prev_hash_from (pe_crypto X) (nd_last_signature D);
          payload = JObj [(''did'', JStr did)]
      in \<lparr>e_seq = seq, e_event_id = pe_uuid X, e_event_type = ''REPLICA_DEREGISTERED'', e_node_id = i, e_ts_ms = pe_now_ms X, e_payload = payload,
          e_prev_hash = Some prev_hash,
          e_sig = sign_event (pe_crypto X) secret_key_hex (pe_uuid X) ''REPLICA_DEREGISTERED'' seq (pe_now_ms X) payload prev_hash\<rparr>)"

definition mysql_decommission_replica_with_event ::
  "sql_env \<Rightarrow> process_env \<Rightarrow> string \<Rightarrow> string \<Rightarrow> string \<Rightarrow> string \<Rightarrow> replica_db \<Rightarrow> bool \<times> replica_db" where
  "mysql_decommission_replica_with_event E X tombstone i did secret_key_hex R =
     (let e = deregistered_event X secret_key_hex i did (rd_log R)
      in if sq_fails E 0 \<noteq> None \<or> sq_fails E 1 \<noteq> None then (False, R)
         else (case find (by_id E i) (rd_replicas R) of
                 None \<Rightarrow> (False, R)
               | Some r \<Rightarrow>
                   if \<not> (rq_status r = ''active'' \<and> unexpired_replica E r) then (False, R)
                   else if list_ex (\<lambda>k. sq_fails E k \<noteq> None) [2, 3, 4, 5, 6] \<or> \<not> unique_event E e (nd_events (rd_log R)) then (False, R)
                   else (True, R\<lparr>rd_replicas := update_first (by_id E i) (decommissioned E tombstone) (rd_replicas R),
                        rd_log := (rd_log R)\<lparr>nd_events := nd_events (rd_log R) @ [e], nd_last_seq := e_seq e, nd_last_signature := e_sig e\<rparr>\<rparr>)))"

definition mysql_all_replicas :: "sql_env \<Rightarrow> replica_db \<Rightarrow> (string \<times> string \<times> string \<times> string \<times> i64) list" where
  "mysql_all_replicas E R =
     (if sq_fails E 0 \<noteq> None then []
      else map (\<lambda>r. (rq_id r, rq_did r, rq_endpoint r, rq_trust_tier r, case rq_created_at r of None \<Rightarrow> 0 | Some t \<Rightarrow> int t * 1000))
             (filter (\<lambda>r. sq_eq E (rq_status r) ''active'' \<and> unexpired_replica E r) (rd_replicas R)))"

definition mysql_replica_id_by_did :: "sql_env \<Rightarrow> string \<Rightarrow> replica_db \<Rightarrow> string option" where
  "mysql_replica_id_by_did E did R = (if sq_fails E 0 \<noteq> None then None else map_option rq_id (find (by_did E did) (rd_replicas R)))"

section \<open>Decommissioning\<close>

text \<open>
  A decommissioning happens once and leaves its event: when it returns true, the replica was active, its
  row is decommissioned with a token nobody knows, exactly one event was appended at the head of the
  log, and a second call at any time returns false; when it returns false nothing changed.
\<close>

lemma replica_decommission_exact:
  assumes "mysql_decommission_replica_with_event E X tombstone i did sk R = (ok, R')"
  shows "if ok then
      (\<exists>r. find (by_id E i) (rd_replicas R) = Some r \<and> rq_status r = ''active'' \<and> unexpired_replica E r
        \<and> find (by_id E i) (rd_replicas R') = Some (decommissioned E tombstone r))
      \<and> nd_events (rd_log R') = nd_events (rd_log R) @ [deregistered_event X sk i did (rd_log R)]
      \<and> nd_last_seq (rd_log R') = nd_last_seq (rd_log R) + 1
      \<and> \<not> fst (mysql_decommission_replica_with_event (E\<lparr>sq_now := t, sq_fails := f\<rparr>) X' tombstone' i did' sk' R')
    else R' = R"
proof (cases ok)
  case False
  then show ?thesis using assms
    by (auto simp: mysql_decommission_replica_with_event_def Let_def split: if_splits option.splits)
next
  case True
  obtain r where r: "find (by_id E i) (rd_replicas R) = Some r" "rq_status r = ''active''" "unexpired_replica E r"
      and R': "R' = R\<lparr>rd_replicas := update_first (by_id E i) (decommissioned E tombstone) (rd_replicas R),
        rd_log := (rd_log R)\<lparr>nd_events := nd_events (rd_log R) @ [deregistered_event X sk i did (rd_log R)],
          nd_last_seq := e_seq (deregistered_event X sk i did (rd_log R)), nd_last_signature := e_sig (deregistered_event X sk i did (rd_log R))\<rparr>\<rparr>"
    using assms True by (auto simp: mysql_decommission_replica_with_event_def Let_def split: if_splits option.splits)
  have row: "find (by_id E i) (rd_replicas R') = Some (decommissioned E tombstone r)"
  proof -
    have "find (by_id E i) (update_first (by_id E i) (decommissioned E tombstone) xs) = map_option (decommissioned E tombstone) (find (by_id E i) xs)" for xs
      by (induction xs) (auto simp: by_id_def decommissioned_def)
    then show ?thesis using r(1) by (simp add: R')
  qed
  have "by_id (E\<lparr>sq_now := t, sq_fails := f\<rparr>) i = by_id E i" by (simp add: fun_eq_iff by_id_def sq_eq_def)
  then have "\<not> fst (mysql_decommission_replica_with_event (E\<lparr>sq_now := t, sq_fails := f\<rparr>) X' tombstone' i did' sk' R')"
    using row by (simp add: mysql_decommission_replica_with_event_def decommissioned_def Let_def)
  then show ?thesis using True r row by (auto simp: R' deregistered_event_def Let_def)
qed

text \<open>
  With a signing key that does not parse, the event is stored without a signature and the head forgets the
  signature before it: the next event starts a new chain. The other events are refused then.
\<close>

lemma unsigned_decommission:
  assumes "mysql_decommission_replica_with_event E X tombstone i did sk R = (True, R')" "signing_seed (pe_crypto X) sk = None"
  shows "e_sig (last (nd_events (rd_log R'))) = None \<and> nd_last_signature (rd_log R') = None"
    and "append_signed_event_in_tx E X k sk event_type i payload D \<noteq> Inr r"
  using assms
  by (auto simp: mysql_decommission_replica_with_event_def deregistered_event_def sign_event_def append_signed_event_in_tx_def statement_def Let_def
      split: if_splits option.splits)

end
