(* ===== verification/Disclosure.thy ===== *)
theory Disclosure
  imports Access
begin

text \<open>
  The disclosure of policy details, \<open>src/policy_detail_disclosure.rs\<close>: which request context is answered
  with which details, and the verification of the consumer tokens of \<open>src/token_issuance.rs\<close>.

  The decoder of base64url without padding and the JSON parser are parameters. What the round trip relies
  on of them: they invert the encoder and the printer, base64url text has no dot, and a signature is 64
  bytes, so 128 hex digits.
\<close>

section \<open>The decision\<close>

definition ALLOWED_DETAIL_FIELDS :: "string list" where
  "ALLOWED_DETAIL_FIELDS =
     [''retention_intervals'', ''subprocessor_references'', ''approval_evidence_references'', ''operational_evidence_references'']"

definition disclosure_refusal :: "int \<Rightarrow> string \<Rightarrow> json" where
  "disclosure_refusal status reason = JObj [(''status'', JInt status), (''reason'', JStr reason)]"

definition index_str :: "json \<Rightarrow> string \<Rightarrow> string option" where
  "index_str v key = as_str (json_index v key)"

definition disclosure_bound :: "json \<Rightarrow> bool" where
  "disclosure_bound context1 =
     (let provider = nonempty (index_str context1 ''provider_node_id'');
          intent = nonempty (index_str context1 ''consumer_intent'');
          digest = nonempty (index_str context1 ''manifest_sha256'')
      in provider \<noteq> None \<and> provider = index_str context1 ''consumer_target_node_id''
         \<and> provider = index_str context1 ''ticket_target_node_id''
         \<and> intent \<noteq> None \<and> intent = index_str context1 ''ticket_intent''
         \<and> digest \<noteq> None \<and> digest = index_str context1 ''ticket_manifest_sha256'')"

definition disclosed_details :: "json \<Rightarrow> (string \<times> json) list" where
  "disclosed_details context1 =
     (case as_object (json_index context1 ''details'') of
        None \<Rightarrow> []
      | Some source \<Rightarrow> filter_map (\<lambda>field. map_option (Pair field) (map_of source field)) ALLOWED_DETAIL_FIELDS)"

definition disclosure_body :: "json \<Rightarrow> json" where
  "disclosure_body context1 =
     JObj [(''status'', JInt 200), (''reason'', JStr ''compatible''),
           (''body'', JObj [(''profile'', JStr ''urn:iicp:profile:policy-detail-disclosure:v0''),
                            (''manifest_sha256'', json_index context1 ''manifest_sha256''),
                            (''details'', JObj (disclosed_details context1)),
                            (''claim_status'', JStr ''provider_declared'')])]"

definition evaluate :: "json \<Rightarrow> json" where
  "evaluate context1 =
     (let auth = index_str context1 ''consumer_auth'';
          ticket = index_str context1 ''dispatch_ticket''
      in if auth = Some ''missing'' then disclosure_refusal 401 ''consumer_auth_required''
         else if \<not> (auth = Some ''valid'' \<or> auth = Some ''expired'' \<or> auth = Some ''revoked'')
         then disclosure_refusal 401 ''consumer_auth_invalid''
         else if auth = Some ''expired'' then disclosure_refusal 401 ''consumer_auth_expired''
         else if auth = Some ''revoked'' then disclosure_refusal 401 ''consumer_auth_revoked''
         else if ticket = Some ''expired'' then disclosure_refusal 401 ''dispatch_ticket_expired''
         else if ticket = Some ''revoked'' then disclosure_refusal 401 ''dispatch_ticket_revoked''
         else if \<not> (ticket = Some ''valid'' \<or> ticket = None) then disclosure_refusal 401 ''dispatch_ticket_invalid''
         else if as_bool (json_index context1 ''disclosure_allowed'') \<noteq> Some True then disclosure_refusal 403 ''disclosure_forbidden''
         else if \<not> disclosure_bound context1 then disclosure_refusal 404 ''resource_concealed''
         else disclosure_body context1)"

section \<open>Consumer tokens\<close>

record token_codec =
  tc_b64url :: "string \<Rightarrow> string option"
  tc_json :: "string \<Rightarrow> json option"

definition token_invalid :: json where
  "token_invalid = JObj [(''status'', JStr ''invalid'')]"

definition token_claims :: "string \<Rightarrow> json \<Rightarrow> json" where
  "token_claims status claims = JObj [(''status'', JStr status), (''claims'', claims)]"

definition consumer_signature_ok :: "crypto \<Rightarrow> string \<Rightarrow> string \<Rightarrow> string \<Rightarrow> bool" where
  "consumer_signature_ok C public_key_hex signature_hex payload =
     (length signature_hex = 128 \<and> verify_event C public_key_hex signature_hex (CONSUMER_TOKEN_DOMAIN @ payload))"

definition claims_match :: "json \<Rightarrow> string \<Rightarrow> string \<Rightarrow> bool" where
  "claims_match claims target intent \<longleftrightarrow>
     json_index claims ''v'' = JInt 1 \<and> index_str claims ''aud'' = Some target \<and> index_str claims ''intent'' = Some intent
     \<and> index_str claims ''sub'' \<noteq> None"

definition verify_consumer_token ::
    "token_codec \<Rightarrow> crypto \<Rightarrow> string \<Rightarrow> string \<Rightarrow> string \<Rightarrow> string \<Rightarrow> i64 \<Rightarrow> json" where
  "verify_consumer_token D C token public_key_hex target intent now =
     (case split_once CHR ''.'' token of
        None \<Rightarrow> token_invalid
      | Some (payload, signature_hex) \<Rightarrow>
          if \<not> consumer_signature_ok C public_key_hex signature_hex payload then token_invalid
          else (case Option.bind (tc_b64url D payload) (tc_json D) of
                  None \<Rightarrow> token_invalid
                | Some claims \<Rightarrow>
                    if \<not> claims_match claims target intent then token_invalid
                    else (case as_i64 (json_index claims ''exp'') of
                            None \<Rightarrow> token_claims ''expired'' claims
                          | Some exp1 \<Rightarrow> if exp1 \<le> now then token_claims ''expired'' claims else token_claims ''valid'' claims)))"

section \<open>Lemmas\<close>

lemma nonempty_eq: "nonempty v = Some s \<longleftrightarrow> v = Some s \<and> s \<noteq> []"
  by (auto simp: nonempty_def split: option.split)

lemma filter_map_keys: "map fst (filter_map (\<lambda>k. map_option (Pair k) (g k)) ks) = filter (\<lambda>k. g k \<noteq> None) ks"
  by (induction ks) (auto simp: filter_map_def)

lemma map_of_filter_map:
  "map_of (filter_map (\<lambda>k. map_option (Pair k) (g k)) ks) k = (if k \<in> set ks then g k else None)"
  by (induction ks) (auto simp: filter_map_def split: option.split)

text \<open>The details of an answer: the allowed fields that the provider declared, with the declared values, once each.\<close>

lemma disclosed_details_exact:
  "map_of (disclosed_details v) k =
     (if k \<in> set ALLOWED_DETAIL_FIELDS then json_get (json_index v ''details'') k else None)"
  "distinct (map fst (disclosed_details v))"
proof -
  show "map_of (disclosed_details v) k =
      (if k \<in> set ALLOWED_DETAIL_FIELDS then json_get (json_index v ''details'') k else None)"
    by (cases "json_index v ''details''") (simp_all add: disclosed_details_def map_of_filter_map)
  have "distinct ALLOWED_DETAIL_FIELDS" by (simp add: ALLOWED_DETAIL_FIELDS_def)
  then show "distinct (map fst (disclosed_details v))"
    by (simp add: disclosed_details_def filter_map_keys split: option.split)
qed

lemma status_of_refusal [simp]: "json_get (disclosure_refusal s r) ''status'' = Some (JInt s)"
  by (simp add: disclosure_refusal_def)

lemma status_of_body [simp]: "json_get (disclosure_body v) ''status'' = Some (JInt 200)"
  by (simp add: disclosure_body_def)

lemma evaluate_cases:
  "evaluate v = disclosure_body v \<and> index_str v ''consumer_auth'' = Some ''valid''
     \<and> index_str v ''dispatch_ticket'' \<in> {None, Some ''valid''}
     \<and> json_index v ''disclosure_allowed'' = JBool True \<and> disclosure_bound v
   \<or> (\<exists>s r. s \<in> {401, 403, 404} \<and> evaluate v = disclosure_refusal s r
     \<and> \<not> (index_str v ''consumer_auth'' = Some ''valid'' \<and> index_str v ''dispatch_ticket'' \<in> {None, Some ''valid''}
         \<and> json_index v ''disclosure_allowed'' = JBool True \<and> disclosure_bound v))"
proof -
  have b: "as_bool w = Some True \<longleftrightarrow> w = JBool True" for w by (cases w) auto
  show ?thesis unfolding evaluate_def Let_def b by (auto simp: b)
qed

text \<open>
  Details are disclosed to one request only: an authenticated consumer whose provider allows it, whose target,
  intent and manifest digest are those of the ticket. Everything else gets a refusal without a body. What is
  disclosed are the four allowed fields as declared. A ticket status that is absent or not a text
  counts like a valid one.
\<close>

theorem disclosure_exact:
  "(json_get (evaluate v) ''status'' = Some (JInt 200) \<longleftrightarrow>
      index_str v ''consumer_auth'' = Some ''valid'' \<and> index_str v ''dispatch_ticket'' \<in> {None, Some ''valid''}
      \<and> json_index v ''disclosure_allowed'' = JBool True \<and> disclosure_bound v)
   \<and> (json_get (evaluate v) ''status'' \<noteq> Some (JInt 200) \<longleftrightarrow> json_get (evaluate v) ''body'' = None)"
  using evaluate_cases [of v]
proof
  assume "evaluate v = disclosure_body v \<and> index_str v ''consumer_auth'' = Some ''valid''
     \<and> index_str v ''dispatch_ticket'' \<in> {None, Some ''valid''}
     \<and> json_index v ''disclosure_allowed'' = JBool True \<and> disclosure_bound v"
  then show ?thesis by (simp add: disclosure_body_def)
next
  assume "\<exists>s r. s \<in> {401, 403, 404} \<and> evaluate v = disclosure_refusal s r
     \<and> \<not> (index_str v ''consumer_auth'' = Some ''valid'' \<and> index_str v ''dispatch_ticket'' \<in> {None, Some ''valid''}
         \<and> json_index v ''disclosure_allowed'' = JBool True \<and> disclosure_bound v)"
  then show ?thesis by (auto simp: disclosure_refusal_def)
qed

section \<open>An issued token is accepted\<close>

definition token_codec_ok :: "token_codec \<Rightarrow> RequestContext \<Rightarrow> ConsumerTokenRequest \<Rightarrow> bool" where
  "token_codec_ok D X req \<longleftrightarrow>
     (\<forall>s. tc_b64url D (cx_b64url X s) = Some s \<and> CHR ''.'' \<notin> set (cx_b64url X s))
     \<and> (\<forall>caller. tc_json D (json_text (cx_crypto X) (consumer_payload X caller req)) = Some (consumer_payload X caller req))
     \<and> (\<forall>seed m. length (hex_encode (cx_crypto X) (ed_sign (cx_crypto X) seed m)) = 128)"

lemma split_once_first: "c \<notin> set a \<Longrightarrow> split_once c (a @ c # b) = Some (a, b)"
  by (induction a) (auto simp: split_once_def split: list.splits)

lemma consumer_payload_claims:
  "json_index (consumer_payload X caller req) ''v'' = JInt 1"
  "index_str (consumer_payload X caller req) ''aud'' = Some (ct_target_node_id req)"
  "index_str (consumer_payload X caller req) ''intent'' = Some (ct_intent req)"
  "index_str (consumer_payload X caller req) ''sub'' = Some caller"
  "json_index (consumer_payload X caller req) ''exp'' = JInt (uint (cx_now X) + 300)"
  by (simp_all add: consumer_payload_def json_index_def index_str_def)

lemma claims_match_payload:
  "claims_match (consumer_payload X caller req) target intent \<longleftrightarrow> target = ct_target_node_id req \<and> intent = ct_intent req"
  by (auto simp: claims_match_def consumer_payload_claims)

lemma issued_token:
  assumes "consumer_token_issue X h req S = ((201, body), S')"
  obtains token caller secret issued where "bearer_token h = Some token" "node_id_from_auth X h token = Some caller"
    "verify_node_token (st_repo S) caller token" "st_signing_key S = Some secret"
    "sign_domain_token X secret CONSUMER_TOKEN_DOMAIN (consumer_payload X caller req) = Some issued"
    "get_str body ''token'' = Some issued"
  using assms
  by (auto simp: consumer_token_issue_def missing_node_token_def identity_required_def invalid_node_token_def err_json_def
      get_str_def bind_eq_Some_conv split: if_splits option.splits)

text \<open>
  C40. A consumer token does what it was issued for, and nothing else. The token that an authenticated caller is
  handed verifies under the key the directory publishes, as valid for the target and the intent of the request
  until five minutes after the issue, with the caller as its subject; from then on it is reported
  as expired, and for any other target or intent it is invalid at any time.
\<close>

theorem consumer_token_accepted:
  assumes "signatures_verify (cx_crypto X)" and "token_codec_ok D X req" and "uint (cx_now X) + 300 < 2 ^ 63"
    and "libsodium_key (cx_crypto X) secret seed" and "st_signing_key S = Some secret"
    and "consumer_token_issue X h req S = ((201, body), S')"
  shows "\<exists>issued pk t caller. get_str body ''token'' = Some issued
    \<and> directory_key X S = (200, JObj [(''public_key'', JStr pk), (''algorithm'', JStr ''ed25519'')])
    \<and> bearer_token h = Some t \<and> verify_node_token (st_repo S) caller t
    \<and> verify_consumer_token D (cx_crypto X) issued pk target intent now =
        (if target \<noteq> ct_target_node_id req \<or> intent \<noteq> ct_intent req then token_invalid
         else token_claims (if now < uint (cx_now X) + 300 then ''valid'' else ''expired'') (consumer_payload X caller req))"
proof -
  let ?C = "cx_crypto X"
  obtain t caller issued where a: "bearer_token h = Some t" "node_id_from_auth X h t = Some caller"
      "verify_node_token (st_repo S) caller t"
      "sign_domain_token X secret CONSUMER_TOKEN_DOMAIN (consumer_payload X caller req) = Some issued"
      "get_str body ''token'' = Some issued"
    using issued_token [OF assms(6)] assms(5) by (metis option.inject)
  let ?pay = "b64url_json X (consumer_payload X caller req)"
  let ?sg = "hex_encode ?C (ed_sign ?C seed (CONSUMER_TOKEN_DOMAIN @ ?pay))"
  let ?pk = "hex_encode ?C (ed_public ?C seed)"
  have i: "issued = ?pay @ CHR ''.'' # ?sg"
    using a(4) libsodium_parts(1) [OF assms(4)] by (simp add: sign_domain_token_def ed25519_sign_hex_def Let_def)
  have dot: "CHR ''.'' \<notin> set ?pay" using assms(2) by (simp add: token_codec_ok_def b64url_json_def)
  have ok: "consumer_signature_ok ?C ?pk ?sg ?pay"
    using assms(1,2) by (simp add: consumer_signature_ok_def token_codec_ok_def verify_event_def signatures_verify_def)
  have dec: "Option.bind (tc_b64url D ?pay) (tc_json D) = Some (consumer_payload X caller req)"
    using assms(2) by (simp add: token_codec_ok_def b64url_json_def)
  have exp1: "as_i64 (json_index (consumer_payload X caller req) ''exp'') = Some (uint (cx_now X) + 300)"
    using assms(3) by (simp add: consumer_payload_claims add_nonneg_nonneg order_trans [of _ 0])
  have "directory_key X S = (200, JObj [(''public_key'', JStr ?pk), (''algorithm'', JStr ''ed25519'')])"
    using libsodium_parts(2) [OF assms(4)] assms(5) by (simp add: directory_key_def directory_public_key_hex_def)
  moreover have "verify_consumer_token D ?C issued ?pk target intent now =
        (if target \<noteq> ct_target_node_id req \<or> intent \<noteq> ct_intent req then token_invalid
         else token_claims (if now < uint (cx_now X) + 300 then ''valid'' else ''expired'') (consumer_payload X caller req))"
    using ok by (simp add: verify_consumer_token_def i split_once_first [OF dot] dec claims_match_payload exp1)
  ultimately show ?thesis using a by blast
qed

section \<open>A sample\<close>

text \<open>A stand-in for the crates with 64 byte signatures; the text of the claims is their subject.\<close>

definition demo_b64url :: "string \<Rightarrow> string" where
  "demo_b64url s = concat (map (\<lambda>c. if c = CHR ''.'' then ''-d'' else if c = CHR ''-'' then ''--'' else [c]) s)"

fun demo_b64url_decode :: "string \<Rightarrow> string option" where
  "demo_b64url_decode [] = Some []"
| "demo_b64url_decode (c # s) =
     (if c = CHR ''-'' then
        (case s of [] \<Rightarrow> None | d # r \<Rightarrow> map_option ((#) (if d = CHR ''d'' then CHR ''.'' else d)) (demo_b64url_decode r))
      else map_option ((#) c) (demo_b64url_decode s))"

fun undouble :: "string \<Rightarrow> string option" where
  "undouble [] = Some []"
| "undouble [c] = None"
| "undouble (c # d # s) = map_option ((#) c) (undouble s)"

definition demo_mac :: "string \<Rightarrow> string \<Rightarrow> string" where
  "demo_mac key m = take 64 (key @ m @ replicate 64 CHR ''k'')"

definition token_crypto :: crypto where
  "token_crypto = demo_crypto\<lparr>hex_encode := (\<lambda>s. concat (map (\<lambda>c. [c, c]) s)), hex_decode := undouble, ed_public := rev,
     ed_sign := (\<lambda>seed. demo_mac (rev seed)), ed_verify := (\<lambda>pk m s. s = demo_mac pk m),
     pk_from_slice := (\<lambda>_. True), sig_from_slice := (\<lambda>s. length s = 64),
     json_text := (\<lambda>v. unwrap_or [] (get_str v ''sub''))\<rparr>"

definition token_context :: RequestContext where
  "token_context = demo_context\<lparr>cx_crypto := token_crypto, cx_b64url := demo_b64url\<rparr>"

definition token_request :: ConsumerTokenRequest where
  "token_request = \<lparr>ct_target_node_id = ''b'', ct_intent = ''urn:x''\<rparr>"

definition token_decoder :: token_codec where
  "token_decoder = \<lparr>tc_b64url = demo_b64url_decode, tc_json = (\<lambda>s. Some (consumer_payload token_context s token_request))\<rparr>"

definition token_state :: AppState where
  "token_state = (demo_state [demo_node_record ''a'' ''ta'', demo_node_record ''b'' ''tb''])
     \<lparr>st_signing_key := Some (replicate 128 CHR ''s'')\<rparr>"

lemma demo_b64url_inverse: "demo_b64url_decode (demo_b64url s) = Some s"
  by (induction s) (auto simp: demo_b64url_def)

lemma demo_b64url_no_dot: "CHR ''.'' \<notin> set (demo_b64url s)"
  by (induction s) (auto simp: demo_b64url_def)

lemma undouble_double: "undouble (concat (map (\<lambda>c. [c, c]) s)) = Some s"
  by (induction s) auto

lemma demo_mac_length: "length (demo_mac key m) = 64"
  by (simp add: demo_mac_def)

lemma length_double: "length (concat (map (\<lambda>c. [c, c]) s)) = 2 * length s"
  by (induction s) auto

lemma token_crypto_ok: "signatures_verify token_crypto"
proof -
  have "concat (map (\<lambda>c. [c, c]) (demo_mac k m)) \<noteq> []" for k m
    using demo_mac_length [of k m] length_double [of "demo_mac k m"] by force
  then show ?thesis by (simp add: signatures_verify_def token_crypto_def demo_crypto_def undouble_double demo_mac_length)
qed

lemma token_codec_demo: "token_codec_ok token_decoder token_context token_request"
  by (simp add: token_codec_ok_def token_decoder_def token_context_def token_crypto_def demo_crypto_def demo_b64url_inverse
      demo_b64url_no_dot length_double demo_mac_length consumer_payload_def get_str_def)

lemma token_key: "libsodium_key token_crypto (replicate 128 CHR ''s'') (replicate 32 CHR ''s'')"
proof -
  have "replicate 128 CHR ''s'' = concat (map (\<lambda>c. [c, c]) (replicate 64 CHR ''s''))" by code_simp
  then have "undouble (replicate 128 CHR ''s'') = Some (replicate 64 CHR ''s'')" using undouble_double by metis
  moreover have "replicate 64 CHR ''s'' = replicate 32 CHR ''s'' @ replicate 32 CHR ''s''" by (simp flip: replicate_add)
  ultimately show ?thesis by (simp add: libsodium_key_def token_crypto_def demo_crypto_def)
qed

lemma token_issue_demo:
  "fst (fst (consumer_token_issue token_context ((demo_bearer ''ta'')(''x-node-id'' \<mapsto> ''a'')) token_request token_state)) = 201"
proof -
  let ?h = "(demo_bearer ''ta'')(''x-node-id'' \<mapsto> ''a'')"
  have t: "trim ''b'' = ''b''" "trim ''urn:x'' = ''urn:x''"
    by (simp_all add: trim_plain plain_char_def code_def)
  have b: "bearer_token ?h = Some ''ta''"
    by (simp add: bearer_token_def demo_bearer_def strip_prefix_def starts_with_def nonempty_def)
  have i: "node_id_from_auth token_context ?h ''ta'' = Some ''a''"
    by (simp add: node_id_from_auth_def verify_jwt_def jwt_decode_def token_context_def demo_context_def demo_jwt_def nonempty_def Let_def)
  have v: "verify_node_token (st_repo token_state) ''a'' ''ta''" "get_node (st_repo token_state) ''b'' \<noteq> None"
      "st_signing_key token_state = Some (replicate 128 CHR ''s'')"
    by (simp_all add: token_state_def demo_state_def new_with_token_verification_def new_repo_def find_record_def demo_node_record_def
        get_node_def blank_record_def blank_node_def verify_node_token_def)
  have "signing_seed (cx_crypto token_context) (replicate 128 CHR ''s'') = Some (replicate 32 CHR ''s'')"
    using libsodium_parts(1) [OF token_key] by (simp add: token_context_def)
  with t b i v show ?thesis
    by (auto simp: consumer_token_issue_def sign_domain_token_def ed25519_sign_hex_def token_request_def Let_def)
qed

theorem consumer_token_accepted_witness:
  "let h = (demo_bearer ''ta'')(''x-node-id'' \<mapsto> ''a'');
       body = snd (fst (consumer_token_issue token_context h token_request token_state))
   in \<exists>issued pk caller. get_str body ''token'' = Some issued
     \<and> verify_consumer_token token_decoder token_crypto issued pk ''b'' ''urn:x'' 5299
         = token_claims ''valid'' (consumer_payload token_context caller token_request)"
proof -
  let ?h = "(demo_bearer ''ta'')(''x-node-id'' \<mapsto> ''a'')"
  let ?r = "consumer_token_issue token_context ?h token_request token_state"
  have X: "cx_crypto token_context = token_crypto" "cx_now token_context = 5000"
    by (simp_all add: token_context_def demo_context_def)
  have r: "?r = ((201, snd (fst ?r)), snd ?r)" using token_issue_demo by (simp add: prod_eq_iff)
  have sk: "st_signing_key token_state = Some (replicate 128 CHR ''s'')" by (simp add: token_state_def)
  have "uint (cx_now token_context) + 300 < 2 ^ 63" by (simp add: X)
  from consumer_token_accepted [OF _ token_codec_demo this _ sk r, of "replicate 32 CHR ''s''" "''b''" "''urn:x''" 5299]
    token_crypto_ok token_key
  obtain issued pk caller where "get_str (snd (fst ?r)) ''token'' = Some issued"
      "verify_consumer_token token_decoder token_crypto issued pk ''b'' ''urn:x'' 5299
         = token_claims ''valid'' (consumer_payload token_context caller token_request)"
    unfolding X by (auto simp: token_request_def)
  then show ?thesis unfolding Let_def by blast
qed

end
