(* ===== verification/Startup.thy ===== *)
theory Startup
  imports Evidence Membership
begin

text \<open>
  Configuration and start of the process: \<open>src/config.rs\<close>, the advertisement and the signed descriptor of
  \<open>src/local_directory_discovery.rs\<close>, the choice of the repository in \<open>src/runtime.rs\<close> and the part of
  \<open>main\<close> in \<open>src/main.rs\<close> that leads to the running server.

  The environment is a function from names to values; a value that is not valid Unicode is absent. The
  database driver (connecting with a pool configuration, then the schema check) and the DNS-SD daemon are
  parameters, and so is \<open>serde_jcs\<close>. A fatal error ends the process with a message: \<open>Inl\<close>.
\<close>

section \<open>Configuration\<close>

record DatabasePoolConfig =
  dp_max_connections :: int
  dp_min_connections :: int
  dp_acquire_timeout_ms :: int
  dp_idle_timeout_ms :: int

record DirectoryIdentity =
  di_did :: string
  di_service_endpoint :: string

definition environment_from_value :: "string option \<Rightarrow> Env" where
  "environment_from_value value1 =
     (if value1 = Some ''local'' then Local
      else if value1 = Some ''testing'' then Testing
      else if value1 = Some ''staging'' then Staging
      else Production)"

definition environment :: "(string \<Rightarrow> string option) \<Rightarrow> Env" where
  "environment env = environment_from_value (env ''APP_ENV'')"

definition strict_e050_secured :: "(string \<Rightarrow> string option) \<Rightarrow> bool" where
  "strict_e050_secured env = flag_from_env env ''IICP_E050_STRICT_SECURED''"

definition allow_insecure_tls :: "(string \<Rightarrow> string option) \<Rightarrow> Env \<Rightarrow> bool" where
  "allow_insecure_tls env e \<longleftrightarrow> e \<noteq> Production \<and> flag_from_env env ''IICP_DEV_ALLOW_INSECURE_TLS''"

definition skip_liveness_check :: "(string \<Rightarrow> string option) \<Rightarrow> Env \<Rightarrow> bool" where
  "skip_liveness_check env e \<longleftrightarrow> (e = Local \<or> e = Testing) \<and> flag_from_env env ''IICP_SKIP_LIVENESS_CHECK''"

definition directory_identity_from_values ::
    "ReplicaConfig option \<Rightarrow> string option \<Rightarrow> string option \<Rightarrow> string + DirectoryIdentity" where
  "directory_identity_from_values replica configured_did configured_endpoint =
     (case replica of
        Some cfg \<Rightarrow>
          (case rc_replica_did cfg of
             None \<Rightarrow> Inl ''replica mode requires a valid IICP_REPLICA_DID''
           | Some did \<Rightarrow>
               if \<not> starts_with did ''did:web:'' then Inl ''replica mode requires a valid IICP_REPLICA_DID''
               else (case rc_replica_endpoint cfg of
                  None \<Rightarrow> Inl ''replica mode requires HTTPS unless the explicit local/testing HTTP testbed flag is active''
                | Some url \<Rightarrow>
                    if \<not> (starts_with url ''https://'' \<or> (rc_allow_http_did cfg \<and> starts_with url ''http://''))
                    then Inl ''replica mode requires HTTPS unless the explicit local/testing HTTP testbed flag is active''
                    else if (case configured_did of None \<Rightarrow> False | Some served \<Rightarrow> served \<noteq> did)
                    then Inl ''IICP_DIRECTORY_DID must equal IICP_REPLICA_DID in replica mode''
                    else Inr \<lparr>di_did = did, di_service_endpoint = trim_end_matches CHR ''/'' url\<rparr>))
      | None \<Rightarrow>
          Inr \<lparr>di_did = unwrap_or DEFAULT_DIRECTORY_DID configured_did,
               di_service_endpoint = unwrap_or ''https://iicp.network/v1'' configured_endpoint\<rparr>)"

definition directory_identity :: "(string \<Rightarrow> string option) \<Rightarrow> ReplicaConfig option \<Rightarrow> string + DirectoryIdentity" where
  "directory_identity env replica =
     directory_identity_from_values replica (env ''IICP_DIRECTORY_DID'') (env ''IICP_DIRECTORY_ENDPOINT'')"

definition signing_key_from_value :: "crypto \<Rightarrow> Env \<Rightarrow> string option \<Rightarrow> string + string option" where
  "signing_key_from_value C e value1 =
     (let key = (case value1 of None \<Rightarrow> None
                 | Some k \<Rightarrow> if length k = 128 \<and> hex_decode C k \<noteq> None then Some k else None)
      in if e = Production \<and> key = None
         then Inl ''IICP_GENESIS_ED25519_SECRET_KEY must be a valid 128-hex Ed25519 secret in production''
         else Inr key)"

definition signing_key :: "crypto \<Rightarrow> (string \<Rightarrow> string option) \<Rightarrow> Env \<Rightarrow> string + string option" where
  "signing_key C env e = signing_key_from_value C e (env ''IICP_GENESIS_ED25519_SECRET_KEY'')"

definition parse_setting :: "int \<Rightarrow> string \<Rightarrow> string option \<Rightarrow> int \<Rightarrow> string + int" where
  "parse_setting mx name value1 d =
     (case value1 of
        None \<Rightarrow> Inr d
      | Some raw \<Rightarrow> (case parse_uint mx raw of None \<Rightarrow> Inl (name @ '' must be an unsigned integer'') | Some n \<Rightarrow> Inr n))"

definition pool_config_checked :: "DatabasePoolConfig \<Rightarrow> string + DatabasePoolConfig" where
  "pool_config_checked cfg =
     (if \<not> (1 \<le> dp_max_connections cfg \<and> dp_max_connections cfg \<le> 1024)
      then Inl ''IICP_DB_POOL_MAX_CONNECTIONS must be between 1 and 1024''
      else if dp_max_connections cfg < dp_min_connections cfg
      then Inl ''IICP_DB_POOL_MIN_CONNECTIONS must not exceed IICP_DB_POOL_MAX_CONNECTIONS''
      else if dp_acquire_timeout_ms cfg = 0 then Inl ''IICP_DB_POOL_ACQUIRE_TIMEOUT_MS must be greater than zero''
      else if dp_idle_timeout_ms cfg = 0 then Inl ''IICP_DB_POOL_IDLE_TIMEOUT_MS must be greater than zero''
      else Inr cfg)"

definition database_pool_config_from_values ::
    "string option \<Rightarrow> string option \<Rightarrow> string option \<Rightarrow> string option \<Rightarrow> string + DatabasePoolConfig" where
  "database_pool_config_from_values max_connections min_connections acquire_timeout_ms idle_timeout_ms =
     (case parse_setting (2 ^ 32 - 1) ''IICP_DB_POOL_MAX_CONNECTIONS'' max_connections 10 of Inl e \<Rightarrow> Inl e | Inr mx \<Rightarrow>
      (case parse_setting (2 ^ 32 - 1) ''IICP_DB_POOL_MIN_CONNECTIONS'' min_connections 0 of Inl e \<Rightarrow> Inl e | Inr mn \<Rightarrow>
       (case parse_setting (2 ^ 64 - 1) ''IICP_DB_POOL_ACQUIRE_TIMEOUT_MS'' acquire_timeout_ms 30000 of Inl e \<Rightarrow> Inl e | Inr acq \<Rightarrow>
        (case parse_setting (2 ^ 64 - 1) ''IICP_DB_POOL_IDLE_TIMEOUT_MS'' idle_timeout_ms 600000 of Inl e \<Rightarrow> Inl e | Inr idle \<Rightarrow>
           pool_config_checked
             \<lparr>dp_max_connections = mx, dp_min_connections = mn, dp_acquire_timeout_ms = acq, dp_idle_timeout_ms = idle\<rparr>))))"

definition database_pool_config :: "(string \<Rightarrow> string option) \<Rightarrow> string + DatabasePoolConfig" where
  "database_pool_config env =
     database_pool_config_from_values (env ''IICP_DB_POOL_MAX_CONNECTIONS'') (env ''IICP_DB_POOL_MIN_CONNECTIONS'')
       (env ''IICP_DB_POOL_ACQUIRE_TIMEOUT_MS'') (env ''IICP_DB_POOL_IDLE_TIMEOUT_MS'')"

section \<open>The repository behind the server\<close>

text \<open>A connected database is the membership table the process sees in it.\<close>

type_synonym driver = "DatabasePoolConfig \<Rightarrow> string \<Rightarrow> string + membership_row list"

definition init_pool :: "driver \<Rightarrow> (string \<Rightarrow> string option) \<Rightarrow> string \<Rightarrow> string + membership_row list" where
  "init_pool connect env url = (case database_pool_config env of Inl e \<Rightarrow> Inl e | Inr cfg \<Rightarrow> connect cfg url)"

definition in_memory_allowed :: "Env \<Rightarrow> string option \<Rightarrow> bool" where
  "in_memory_allowed e value1 \<longleftrightarrow> e \<noteq> Production \<and> env_flag value1"

definition initialize_repository :: "driver \<Rightarrow> (string \<Rightarrow> string option) \<Rightarrow> Env \<Rightarrow> string + membership_row list option" where
  "initialize_repository connect env e =
     (case env ''DATABASE_URL'' of
        Some url \<Rightarrow> (case init_pool connect env url of Inl err \<Rightarrow> Inl err | Inr pool \<Rightarrow> Inr (Some pool))
      | None \<Rightarrow>
          if in_memory_allowed e (env ''IICP_ALLOW_IN_MEMORY'') then Inr None
          else Inl ''DATABASE_URL is required; ephemeral memory requires non-production APP_ENV and IICP_ALLOW_IN_MEMORY=true'')"

section \<open>Local advertisement\<close>

definition DESCRIPTOR_PATH :: string where
  "DESCRIPTOR_PATH = ''/.well-known/iicp-directory.json''"

definition DESCRIPTOR_PROFILE_ID :: string where
  "DESCRIPTOR_PROFILE_ID = ''urn:iicp:profile:local-directory-discovery:v1''"

definition SIGNATURE_DOMAIN :: string where
  "SIGNATURE_DOMAIN = ''IICP-LOCAL-DIRECTORY-DESCRIPTOR-V0'' @ [CHR 10]"

definition MAX_TXT_BYTES :: nat where
  "MAX_TXT_BYTES = 512"

definition DESCRIPTOR_LIFETIME_SECONDS :: i64 where
  "DESCRIPTOR_LIFETIME_SECONDS = 300"

record LocalDirectoryAdvertisement =
  la_enabled :: bool
  la_instance_name :: string
  la_hostname :: string
  la_port :: int
  la_role :: string
  la_did :: string
  la_api_endpoint :: string
  la_signing_key :: "string option"

definition txt_properties :: "LocalDirectoryAdvertisement \<Rightarrow> (string \<times> string) list" where
  "txt_properties A =
     [(''pv'', ''0''), (''path'', DESCRIPTOR_PATH), (''transport'', ''https''), (''did'', la_did A), (''role'', la_role A)]"

definition txt_size :: "(string \<times> string) list \<Rightarrow> nat" where
  "txt_size properties = sum_list (map (\<lambda>(key, value1). 1 + length key + 1 + length value1) properties)"

definition valid_secret :: "crypto \<Rightarrow> string \<Rightarrow> bool" where
  "valid_secret C secret \<longleftrightarrow> length secret = 128 \<and> map_option length (hex_decode C secret) = Some 64"

definition advertised_roles :: "string list" where
  "advertised_roles = [''seed'', ''replica'', ''standalone'']"

definition validate_advertisement :: "crypto \<Rightarrow> (string \<Rightarrow> string option) \<Rightarrow> LocalDirectoryAdvertisement \<Rightarrow> string + unit" where
  "validate_advertisement C env A =
     (if \<not> la_enabled A then Inr ()
      else if env ''IICP_OPERATING_MODE'' = Some ''local_only'' then Inl ''local-only mode forbids multicast directory advertisement''
      else if trim (la_hostname A) = [] \<or> list_ex (str_contains (la_hostname A)) white_space \<or> \<not> ends_with (la_hostname A) ''.local.''
      then Inl ''IICP_LOCAL_DIRECTORY_HOSTNAME must be a non-empty .local. DNS name''
      else if trim (la_instance_name A) = [] \<or> 63 < length (la_instance_name A)
      then Inl ''IICP_LOCAL_DIRECTORY_INSTANCE must contain 1 to 63 bytes''
      else if la_role A \<notin> set advertised_roles then Inl ''IICP_LOCAL_DIRECTORY_ROLE must be seed, replica or standalone''
      else if \<not> starts_with (la_api_endpoint A) ''https://'' then Inl ''local directory advertisement requires an HTTPS API endpoint''
      else if (case la_signing_key A of None \<Rightarrow> True | Some key \<Rightarrow> \<not> valid_secret C key)
      then Inl ''local directory advertisement requires the configured Ed25519 signing identity''
      else if MAX_TXT_BYTES < txt_size (txt_properties A) then Inl ''local directory advertisement TXT data exceeds 512 bytes''
      else Inr ())"

definition advertisement_from_env ::
    "crypto \<Rightarrow> (string \<Rightarrow> string option) \<Rightarrow> AppState \<Rightarrow> bool \<Rightarrow> string + LocalDirectoryAdvertisement" where
  "advertisement_from_env C env S replica =
     (let A = \<lparr>la_enabled = flag_from_env env ''IICP_LOCAL_DIRECTORY_ADVERTISE'',
               la_instance_name = unwrap_or ''IICP Directory'' (env ''IICP_LOCAL_DIRECTORY_INSTANCE''),
               la_hostname = unwrap_or [] (env ''IICP_LOCAL_DIRECTORY_HOSTNAME''),
               la_port = unwrap_or 443 (Option.bind (env ''IICP_LOCAL_DIRECTORY_PORT'') (parse_uint (2 ^ 16 - 1))),
               la_role = unwrap_or (if replica then ''replica'' else ''standalone'') (env ''IICP_LOCAL_DIRECTORY_ROLE''),
               la_did = st_directory_did S, la_api_endpoint = st_directory_service_endpoint S, la_signing_key = st_signing_key S\<rparr>
      in case validate_advertisement C env A of Inl e \<Rightarrow> Inl e | Inr _ \<Rightarrow> Inr A)"

text \<open>The DNS-SD daemon is the parameter \<open>announce\<close>; a disabled advertisement does not reach it.\<close>

definition start_advertiser ::
    "(LocalDirectoryAdvertisement \<Rightarrow> string + unit) \<Rightarrow> LocalDirectoryAdvertisement \<Rightarrow> string + LocalDirectoryAdvertisement option" where
  "start_advertiser announce A =
     (if \<not> la_enabled A then Inr None else case announce A of Inl e \<Rightarrow> Inl e | Inr _ \<Rightarrow> Inr (Some A))"

section \<open>The descriptor\<close>

definition sign_bytes :: "crypto \<Rightarrow> string \<Rightarrow> string \<Rightarrow> string option" where
  "sign_bytes C secret message =
     (case hex_decode C secret of
        None \<Rightarrow> None
      | Some bytes \<Rightarrow> if length bytes < 32 then None else Some (hex_encode C (ed_sign C (take 32 bytes) message)))"

definition unsigned_descriptor :: "string \<Rightarrow> string \<Rightarrow> string \<Rightarrow> i64 \<Rightarrow> (string \<times> json) list" where
  "unsigned_descriptor did endpoint role now =
     [(''schema'', JStr ''iicp.local-directory-descriptor.v0''), (''profile'', JStr DESCRIPTOR_PROFILE_ID), (''profile_version'', JStr ''0''),
      (''directory_id'', JStr did), (''directory_did'', JStr did), (''role'', JStr role), (''api_endpoints'', JArr [JStr endpoint]),
      (''issued_at'', JInt now), (''expires_at'', JInt (now + DESCRIPTOR_LIFETIME_SECONDS)), (''canonicalization'', JStr ''RFC8785'')]"

definition signed_descriptor ::
    "crypto \<Rightarrow> (json \<Rightarrow> string option) \<Rightarrow> string \<Rightarrow> string \<Rightarrow> string \<Rightarrow> string \<Rightarrow> i64 \<Rightarrow> string + json" where
  "signed_descriptor C jcs did endpoint role secret now =
     (if role \<notin> set advertised_roles \<or> \<not> starts_with endpoint ''https://'' then Inl ''invalid descriptor inputs''
      else let descriptor = unsigned_descriptor did endpoint role now
           in case jcs (JObj descriptor) of
                None \<Rightarrow> Inl ''canonicalization''
              | Some canonical \<Rightarrow>
                  (case sign_bytes C secret (SIGNATURE_DOMAIN @ canonical) of
                     None \<Rightarrow> Inl ''invalid signing key''
                   | Some signature \<Rightarrow>
                       Inr (JObj (hm_insert ''signature''
                         (JObj [(''algorithm'', JStr ''Ed25519''), (''key_id'', JStr (did @ ''#key-1'')), (''value'', JStr signature)])
                         descriptor))))"

definition descriptor_unavailable :: "string \<Rightarrow> response" where
  "descriptor_unavailable message = err_json 503 ''local_directory_descriptor_unavailable'' message"

definition directory_descriptor ::
    "crypto \<Rightarrow> (json \<Rightarrow> string option) \<Rightarrow> (string \<Rightarrow> string option) \<Rightarrow> i64 \<Rightarrow> AppState \<Rightarrow> response" where
  "directory_descriptor C jcs env now S =
     (let role = unwrap_or (if st_replica_ready S \<noteq> None then ''replica'' else ''standalone'') (env ''IICP_LOCAL_DIRECTORY_ROLE'')
      in case st_signing_key S of
           None \<Rightarrow> descriptor_unavailable ''Local directory descriptor signing is not configured''
         | Some secret \<Rightarrow>
             (case signed_descriptor C jcs (st_directory_did S) (st_directory_service_endpoint S) role secret now of
                Inr descriptor \<Rightarrow> (200, descriptor)
              | Inl _ \<Rightarrow> descriptor_unavailable ''Local directory descriptor could not be produced''))"

section \<open>Starting the server\<close>

record started =
  sd_state :: AppState
  sd_restricted :: RestrictedDomainService
  sd_replica :: "ReplicaConfig option"
  sd_advertiser :: "LocalDirectoryAdvertisement option"

text \<open>\<open>repo\<close> is the repository that \<open>initialize_repository\<close> has opened, as the handlers see it.\<close>

definition initial_state ::
    "(string \<Rightarrow> string option) \<Rightarrow> InMemoryRepo \<Rightarrow> Env \<Rightarrow> string option \<Rightarrow> DirectoryIdentity \<Rightarrow> ReplicaConfig option \<Rightarrow> AppState" where
  "initial_state env repo e key identity replica =
     \<lparr>st_repo = repo, st_env = e, st_signing_key = key, st_directory_did = di_did identity,
      st_directory_service_endpoint = di_service_endpoint identity, st_register_rate = [],
      st_strict_e050_secured = strict_e050_secured env, st_allow_insecure_tls = allow_insecure_tls env e,
      st_skip_liveness_check = skip_liveness_check env e, st_replica_ready = map_option (\<lambda>_. False) replica\<rparr>"

definition start_server ::
    "crypto \<Rightarrow> driver \<Rightarrow> (LocalDirectoryAdvertisement \<Rightarrow> string + unit) \<Rightarrow> (string \<Rightarrow> string option) \<Rightarrow> InMemoryRepo \<Rightarrow> string + started" where
  "start_server C connect announce env repo =
     (let e = environment env
      in case signing_key C env e of Inl err \<Rightarrow> Inl err | Inr key \<Rightarrow>
        (case initialize_repository connect env e of Inl err \<Rightarrow> Inl err | Inr mysql_pool \<Rightarrow>
        (case from_env env of Inl err \<Rightarrow> Inl err | Inr replica_config \<Rightarrow>
        (case restricted_from_env env (replica_config \<noteq> None) of Inl err \<Rightarrow> Inl err | Inr restricted_config \<Rightarrow>
        (case new_service restricted_config mysql_pool of Inl err \<Rightarrow> Inl err | Inr restricted_domain \<Rightarrow>
        (case directory_identity env replica_config of Inl err \<Rightarrow> Inl err | Inr identity \<Rightarrow>
          (let S = initial_state env repo e key identity replica_config
           in case advertisement_from_env C env S (replica_config \<noteq> None) of Inl err \<Rightarrow> Inl err | Inr A \<Rightarrow>
             (case start_advertiser announce A of Inl err \<Rightarrow> Inl err | Inr advertiser \<Rightarrow>
                Inr \<lparr>sd_state = S, sd_restricted = restricted_domain, sd_replica = replica_config, sd_advertiser = advertiser\<rparr>))))))))"

section \<open>What each guard leaves\<close>

lemma environment_production:
  "environment env = Production \<Longrightarrow> env ''APP_ENV'' \<noteq> Some ''local'' \<and> env ''APP_ENV'' \<noteq> Some ''testing''"
  by (auto simp: environment_def environment_from_value_def split: if_splits)

lemma signing_key_guard:
  assumes "signing_key C env e = Inr key"
  shows "key = None \<and> e \<noteq> Production \<or> (\<exists>k bytes. key = Some k \<and> length k = 128 \<and> hex_decode C k = Some bytes)"
  using assms by (auto simp: signing_key_def signing_key_from_value_def Let_def split: option.splits if_splits)

lemma repository_guard:
  assumes "initialize_repository connect env e = Inr pool"
  shows "pool = None \<and> e \<noteq> Production \<and> env ''DATABASE_URL'' = None
    \<or> (\<exists>rows url cfg. pool = Some rows \<and> env ''DATABASE_URL'' = Some url \<and> database_pool_config env = Inr cfg \<and> connect cfg url = Inr rows)"
  using assms
  by (auto simp: initialize_repository_def init_pool_def in_memory_allowed_def split: option.splits sum.splits if_splits)

lemma replica_guard:
  assumes "from_env env = Inr (Some cfg)"
  shows "\<not> (env ''APP_ENV'' = Some ''local'' \<or> env ''APP_ENV'' = Some ''testing'') \<Longrightarrow> rc_verification_required cfg \<and> \<not> rc_allow_http_did cfg"
  using assms by (auto simp: from_env_def verification_required_def Let_def split: option.splits if_splits)

lemma restricted_guard:
  assumes "restricted_from_env env replica_mode = Inr cfg" and "rc_enabled cfg"
  shows "\<not> replica_mode \<and> trim (rc_domain_id cfg) \<noteq> [] \<and> trim (rc_authority_id cfg) \<noteq> []"
  using assms by (auto simp: restricted_from_env_def validate_restricted_config_def Let_def split: sum.splits if_splits)

lemma service_guard:
  assumes "new_service cfg pool = Inr svc"
  shows "rs_config svc = cfg" and "rs_pool svc = pool" and "rc_enabled cfg \<Longrightarrow> pool \<noteq> None"
  using assms by (auto simp: new_service_def split: if_splits)

lemma identity_guard:
  assumes "directory_identity env (Some cfg) = Inr identity"
  shows "rc_replica_did cfg = Some (di_did identity) \<and> starts_with (di_did identity) ''did:web:''
    \<and> (\<exists>url. rc_replica_endpoint cfg = Some url \<and> di_service_endpoint identity = trim_end_matches CHR ''/'' url
        \<and> (starts_with url ''https://'' \<or> rc_allow_http_did cfg))
    \<and> (\<forall>served. env ''IICP_DIRECTORY_DID'' = Some served \<longrightarrow> served = di_did identity)"
  using assms by (auto simp: directory_identity_def directory_identity_from_values_def split: option.splits if_splits)

lemma advertisement_guard:
  assumes "advertisement_from_env C env S replica = Inr A" and "la_enabled A"
  shows "env ''IICP_OPERATING_MODE'' \<noteq> Some ''local_only'' \<and> la_role A \<in> set advertised_roles
    \<and> starts_with (st_directory_service_endpoint S) ''https://'' \<and> (\<exists>k. st_signing_key S = Some k \<and> valid_secret C k)
    \<and> txt_size (txt_properties A) \<le> MAX_TXT_BYTES \<and> la_did A = st_directory_did S"
proof -
  have A: "validate_advertisement C env A = Inr ()" "la_api_endpoint A = st_directory_service_endpoint S"
      "la_signing_key A = st_signing_key S" "la_did A = st_directory_did S"
    using assms(1) by (auto simp: advertisement_from_env_def Let_def split: sum.splits)
  then show ?thesis using assms(2) by (simp add: validate_advertisement_def split: if_split_asm option.split_asm)
qed

lemma start_server_steps:
  assumes "start_server C connect announce env repo = Inr D"
  obtains key pool replica cfg identity A where "signing_key C env (environment env) = Inr key"
    "initialize_repository connect env (environment env) = Inr pool" "from_env env = Inr replica"
    "restricted_from_env env (replica \<noteq> None) = Inr cfg" "new_service cfg pool = Inr (sd_restricted D)"
    "directory_identity env replica = Inr identity"
    "sd_state D = initial_state env repo (environment env) key identity replica"
    "advertisement_from_env C env (sd_state D) (replica \<noteq> None) = Inr A"
    "start_advertiser announce A = Inr (sd_advertiser D)" "sd_replica D = replica"
  using assms unfolding start_server_def Let_def by (auto split: sum.splits)

text \<open>
  C31. The process starts only on a safe configuration. Outside the named development environments it has a
  signing key of 128 hex digits and a database, checks liveness at registration and verifies TLS, and a
  replica verifies every event. A replica serves under its own DID, over HTTPS unless it is a test bed, is not
  ready yet, and never runs a restricted domain; a restricted domain has a membership table. An
  advertisement goes out only over HTTPS with the signing identity, within its size limit.
\<close>

theorem startup_guards:
  assumes "start_server C connect announce env repo = Inr D"
  shows "(environment env = Production \<longrightarrow>
      (\<exists>k bytes. st_signing_key (sd_state D) = Some k \<and> length k = 128 \<and> hex_decode C k = Some bytes)
      \<and> \<not> st_allow_insecure_tls (sd_state D) \<and> \<not> st_skip_liveness_check (sd_state D) \<and> rs_pool (sd_restricted D) \<noteq> None
      \<and> (\<forall>cfg. sd_replica D = Some cfg \<longrightarrow> rc_verification_required cfg \<and> \<not> rc_allow_http_did cfg))
    \<and> (\<forall>cfg. sd_replica D = Some cfg \<longrightarrow>
         \<not> rc_enabled (rs_config (sd_restricted D)) \<and> st_replica_ready (sd_state D) = Some False
         \<and> rc_replica_did cfg = Some (st_directory_did (sd_state D)) \<and> starts_with (st_directory_did (sd_state D)) ''did:web:''
         \<and> (\<exists>url. rc_replica_endpoint cfg = Some url \<and> st_directory_service_endpoint (sd_state D) = trim_end_matches CHR ''/'' url
              \<and> (starts_with url ''https://'' \<or> rc_allow_http_did cfg)))
    \<and> (rc_enabled (rs_config (sd_restricted D)) \<longrightarrow> rs_pool (sd_restricted D) \<noteq> None \<and> sd_replica D = None)
    \<and> (\<forall>A. sd_advertiser D = Some A \<longrightarrow>
         starts_with (st_directory_service_endpoint (sd_state D)) ''https://'' \<and> txt_size (txt_properties A) \<le> 512
         \<and> (\<exists>k. st_signing_key (sd_state D) = Some k \<and> valid_secret C k))"
proof -
  from start_server_steps [OF assms] obtain key pool replica cfg identity A where
    k: "signing_key C env (environment env) = Inr key" and p: "initialize_repository connect env (environment env) = Inr pool"
    and r: "from_env env = Inr replica" and c: "restricted_from_env env (replica \<noteq> None) = Inr cfg"
    and n: "new_service cfg pool = Inr (sd_restricted D)" and i: "directory_identity env replica = Inr identity"
    and S: "sd_state D = initial_state env repo (environment env) key identity replica"
    and a: "advertisement_from_env C env (sd_state D) (replica \<noteq> None) = Inr A"
    and st: "start_advertiser announce A = Inr (sd_advertiser D)" and R: "sd_replica D = replica" by blast
  note svc = service_guard [OF n]
  have fields: "st_signing_key (sd_state D) = key" "st_directory_did (sd_state D) = di_did identity"
    "st_directory_service_endpoint (sd_state D) = di_service_endpoint identity"
    "st_allow_insecure_tls (sd_state D) = allow_insecure_tls env (environment env)"
    "st_skip_liveness_check (sd_state D) = skip_liveness_check env (environment env)"
    "st_replica_ready (sd_state D) = map_option (\<lambda>_. False) replica"
    by (simp_all add: S initial_state_def)
  have prod: "(\<exists>k bytes. key = Some k \<and> length k = 128 \<and> hex_decode C k = Some bytes)
      \<and> \<not> allow_insecure_tls env Production \<and> \<not> skip_liveness_check env Production \<and> pool \<noteq> None
      \<and> (\<forall>cfg. replica = Some cfg \<longrightarrow> rc_verification_required cfg \<and> \<not> rc_allow_http_did cfg)"
    if e: "environment env = Production"
    using signing_key_guard [OF k] repository_guard [OF p] environment_production [OF e] replica_guard [of env] r e
    by (auto simp: allow_insecure_tls_def skip_liveness_check_def)
  have rep: "\<not> rc_enabled cfg \<and> rc_replica_did cfg1 = Some (di_did identity) \<and> starts_with (di_did identity) ''did:web:''
      \<and> (\<exists>url. rc_replica_endpoint cfg1 = Some url \<and> di_service_endpoint identity = trim_end_matches CHR ''/'' url
           \<and> (starts_with url ''https://'' \<or> rc_allow_http_did cfg1))" if "replica = Some cfg1" for cfg1
    using restricted_guard [OF c] identity_guard [of env cfg1 identity] i that by auto
  have adv: "starts_with (di_service_endpoint identity) ''https://'' \<and> txt_size (txt_properties A1) \<le> 512
      \<and> (\<exists>k. key = Some k \<and> valid_secret C k)" if "sd_advertiser D = Some A1" for A1
  proof -
    have "la_enabled A" "A1 = A" using st that by (auto simp: start_advertiser_def split: if_splits sum.splits)
    then show ?thesis using advertisement_guard [OF a] by (simp add: fields MAX_TXT_BYTES_def)
  qed
  have res: "pool \<noteq> None \<and> replica = None" if "rc_enabled cfg"
    using restricted_guard [OF c that] svc(3) [OF that] by simp
  show ?thesis using prod rep adv res by (simp add: fields svc(1,2) R)
qed

definition startup_crypto :: crypto where
  "startup_crypto = demo_crypto\<lparr>hex_decode := (\<lambda>s. Some (take 64 s))\<rparr>"

definition startup_env :: "string \<Rightarrow> string option" where
  "startup_env = map_of
     [(''IICP_GENESIS_ED25519_SECRET_KEY'', replicate 128 CHR ''s''), (''DATABASE_URL'', ''mysql://db''), (''IICP_REPLICA_MODE'', ''true''),
      (''IICP_SEED_URL'', ''https://seed''), (''IICP_SEED_DID'', ''did:web:seed''), (''IICP_REPLICA_DID'', ''did:web:replica''),
      (''IICP_REPLICA_ENDPOINT'', ''https://replica/''), (''IICP_SKIP_LIVENESS_CHECK'', ''true''),
      (''IICP_LOCAL_DIRECTORY_ADVERTISE'', ''on''), (''IICP_LOCAL_DIRECTORY_HOSTNAME'', ''r.local.''), (''IICP_LOCAL_DIRECTORY_INSTANCE'', ''D'')]"

definition startup_demo :: "string + started" where
  "startup_demo = start_server startup_crypto (\<lambda>_ _. Inr []) (\<lambda>_. Inr ()) startup_env (new_repo [])"

lemma startup_env_values:
  "startup_env ''IICP_GENESIS_ED25519_SECRET_KEY'' = Some (replicate 128 CHR ''s'')" "startup_env ''DATABASE_URL'' = Some ''mysql://db''"
  "startup_env ''IICP_REPLICA_MODE'' = Some ''true''" "startup_env ''IICP_SEED_URL'' = Some ''https://seed''"
  "startup_env ''IICP_SEED_DID'' = Some ''did:web:seed''" "startup_env ''IICP_REPLICA_DID'' = Some ''did:web:replica''"
  "startup_env ''IICP_REPLICA_ENDPOINT'' = Some ''https://replica/''" "startup_env ''IICP_LOCAL_DIRECTORY_ADVERTISE'' = Some ''on''"
  "startup_env ''IICP_LOCAL_DIRECTORY_HOSTNAME'' = Some ''r.local.''" "startup_env ''APP_ENV'' = None"
  "startup_env ''IICP_RESTRICTED_DOMAIN_ENABLED'' = None" "startup_env ''IICP_DIRECTORY_DID'' = None"
  "startup_env ''IICP_OPERATING_MODE'' = None" "startup_env ''IICP_LOCAL_DIRECTORY_INSTANCE'' = Some ''D''"
  "startup_env ''IICP_LOCAL_DIRECTORY_ROLE'' = None" "startup_env ''IICP_DB_POOL_MAX_CONNECTIONS'' = None"
  "startup_env ''IICP_DB_POOL_MIN_CONNECTIONS'' = None" "startup_env ''IICP_DB_POOL_ACQUIRE_TIMEOUT_MS'' = None"
  "startup_env ''IICP_DB_POOL_IDLE_TIMEOUT_MS'' = None"
  "startup_env ''IICP_DEV_ALLOW_HTTP_DID'' = None" "startup_env ''IICP_DEV_ALLOW_UNSIGNED_EVENTS'' = None"
  by (simp_all add: startup_env_def)

lemma startup_env_production: "environment startup_env = Production"
  by (simp add: environment_def environment_from_value_def startup_env_values)

lemma startup_signing_key: "signing_key startup_crypto startup_env Production = Inr (Some (replicate 128 CHR ''s''))"
  by (simp add: signing_key_def signing_key_from_value_def startup_env_values startup_crypto_def)

lemma startup_repository: "initialize_repository (\<lambda>_ _. Inr []) startup_env Production = Inr (Some [])"
  by (simp add: initialize_repository_def init_pool_def database_pool_config_def database_pool_config_from_values_def
      parse_setting_def pool_config_checked_def startup_env_values)

lemma startup_replica:
  "\<exists>cfg. from_env startup_env = Inr (Some cfg) \<and> rc_replica_did cfg = Some ''did:web:replica'' \<and> rc_replica_endpoint cfg = Some ''https://replica/''"
  by (simp add: from_env_def startup_env_values env_flag_def starts_with_def Let_def)

lemma startup_restricted: "\<exists>cfg. restricted_from_env startup_env True = Inr cfg \<and> \<not> rc_enabled cfg"
  by (simp add: restricted_from_env_def flag_from_env_def validate_restricted_config_def startup_env_values Let_def)

lemma startup_identity:
  assumes "rc_replica_did cfg = Some ''did:web:replica''" and "rc_replica_endpoint cfg = Some ''https://replica/''"
  shows "directory_identity startup_env (Some cfg) = Inr \<lparr>di_did = ''did:web:replica'', di_service_endpoint = ''https://replica''\<rparr>"
  using assms by (simp add: directory_identity_def directory_identity_from_values_def startup_env_values starts_with_def trim_end_matches_def)

lemma startup_names: "trim ''r.local.'' = ''r.local.''" "trim ''D'' = ''D''"
  by (simp_all add: trim_plain plain_char_def code_def)

lemma startup_hostname: "ends_with ''r.local.'' ''.local.''"
  by (simp add: ends_with_def starts_with_def)

lemma plain_no_white_space:
  assumes "list_all plain_char s"
  shows "\<not> list_ex (str_contains s) white_space"
proof
  assume "list_ex (str_contains s) white_space"
  then obtain w a b where w: "w \<in> set white_space" "s = a @ w @ b" by (auto simp: list_ex_iff str_contains_append)
  then have "w \<noteq> []" "\<not> plain_char (hd w)" using white_space_ends by (auto simp: list_all_iff)
  then show False using assms w(2) by (cases w) auto
qed

lemma startup_hostname_chars: "\<not> list_ex (str_contains ''r.local.'') white_space"
  by (rule plain_no_white_space) (simp add: plain_char_def code_def)

lemma startup_flag: "flag_from_env startup_env ''IICP_LOCAL_DIRECTORY_ADVERTISE''"
proof -
  have "to_ascii_lowercase ''on'' = ''on''" by code_simp
  then show ?thesis by (simp add: flag_from_env_def startup_env_values)
qed

lemma startup_secret: "valid_secret startup_crypto (replicate 128 CHR ''s'')"
proof -
  have "length (replicate 128 CHR ''s'') = 128" "length (take 64 (replicate 128 CHR ''s'')) = 64"
    by (simp_all only: length_replicate length_take)
  then show ?thesis by (simp add: valid_secret_def startup_crypto_def del: length_replicate length_take take_replicate)
qed

lemma startup_txt: "txt_size [(''pv'', ''0''), (''path'', DESCRIPTOR_PATH), (''transport'', ''https''), (''did'', ''did:web:replica''), (''role'', ''replica'')] \<le> 512"
  by code_simp

lemma startup_advertisement:
  assumes "st_directory_did S = ''did:web:replica''" and "st_directory_service_endpoint S = ''https://replica''"
    and "st_signing_key S = Some (replicate 128 CHR ''s'')"
  shows "\<exists>A. advertisement_from_env startup_crypto startup_env S True = Inr A \<and> la_enabled A"
proof -
  have https: "starts_with ''https://replica'' ''https://''" by (simp add: starts_with_def)
  show ?thesis using startup_txt
    by (simp add: advertisement_from_env_def validate_advertisement_def startup_flag startup_env_values startup_names startup_hostname startup_hostname_chars startup_secret
      advertised_roles_def https assms txt_properties_def MAX_TXT_BYTES_def Let_def)
qed

lemma startup_demo_runs: "\<exists>D. startup_demo = Inr D \<and> sd_advertiser D \<noteq> None \<and> sd_replica D \<noteq> None"
proof -
  obtain cfg where r: "from_env startup_env = Inr (Some cfg)" "rc_replica_did cfg = Some ''did:web:replica''"
      "rc_replica_endpoint cfg = Some ''https://replica/''" using startup_replica by blast
  obtain rd where d: "restricted_from_env startup_env True = Inr rd" "\<not> rc_enabled rd" using startup_restricted by blast
  let ?S = "initial_state startup_env (new_repo []) Production (Some (replicate 128 CHR ''s''))
    \<lparr>di_did = ''did:web:replica'', di_service_endpoint = ''https://replica''\<rparr> (Some cfg)"
  obtain A where "advertisement_from_env startup_crypto startup_env ?S True = Inr A" "la_enabled A"
    using startup_advertisement [of ?S] by (auto simp: initial_state_def)
  then show ?thesis
    using r(1) d startup_identity [OF r(2,3)]
    by (simp add: startup_demo_def start_server_def startup_env_production startup_signing_key startup_repository new_service_def
        start_advertiser_def Let_def)
qed

theorem startup_guards_witness:
  "\<exists>D k A. startup_demo = Inr D \<and> st_signing_key (sd_state D) = Some k \<and> length k = 128 \<and> \<not> st_skip_liveness_check (sd_state D)
     \<and> sd_replica D \<noteq> None \<and> st_replica_ready (sd_state D) = Some False
     \<and> sd_advertiser D = Some A \<and> txt_size (txt_properties A) \<le> 512"
proof -
  obtain D A cfg where d: "startup_demo = Inr D" "sd_advertiser D = Some A" "sd_replica D = Some cfg"
    using startup_demo_runs by auto
  note g = startup_guards [OF d(1) [unfolded startup_demo_def]]
  from g startup_env_production d(2,3) show ?thesis using d by blast
qed

section \<open>The descriptor verifies\<close>

lemma hm_remove_insert_new: "k \<notin> fst ` set m \<Longrightarrow> hm_remove k (hm_insert k v m) = m"
  by (induction m) (auto simp: hm_remove_def hm_insert_def)

text \<open>
  A served descriptor verifies under the directory's published key: its signature is over the canonical text of
  the rest of it, in a domain of its own, and it expires five minutes after its issue.
\<close>

theorem descriptor_verifies:
  assumes "signatures_verify C" and "libsodium_key C secret seed" and "st_signing_key S = Some secret"
    and "directory_descriptor C jcs env now S = (200, d)"
  shows "\<exists>kvs sg canonical. d = JObj kvs \<and> Option.bind (json_get d ''signature'') (\<lambda>s. get_str s ''value'') = Some sg
    \<and> jcs (JObj (hm_remove ''signature'' kvs)) = Some canonical
    \<and> verify_event C (hex_encode C (ed_public C seed)) sg (SIGNATURE_DOMAIN @ canonical)
    \<and> get_str d ''directory_did'' = Some (st_directory_did S)
    \<and> json_get d ''issued_at'' = Some (JInt now) \<and> json_get d ''expires_at'' = Some (JInt (now + 300))"
proof -
  obtain role where sd: "signed_descriptor C jcs (st_directory_did S) (st_directory_service_endpoint S) role secret now = Inr d"
    using assms(3,4) by (auto simp: directory_descriptor_def descriptor_unavailable_def err_json_def Let_def split: sum.splits)
  let ?u = "unsigned_descriptor (st_directory_did S) (st_directory_service_endpoint S) role now"
  have key: "sign_bytes C secret m = Some (hex_encode C (ed_sign C seed m))" for m
    using assms(2) by (simp add: sign_bytes_def libsodium_key_def)
  obtain canonical where c: "jcs (JObj ?u) = Some canonical"
      "d = JObj (hm_insert ''signature'' (JObj [(''algorithm'', JStr ''Ed25519''), (''key_id'', JStr (st_directory_did S @ ''#key-1'')),
         (''value'', JStr (hex_encode C (ed_sign C seed (SIGNATURE_DOMAIN @ canonical))))]) ?u)"
    using sd by (auto simp: signed_descriptor_def key Let_def split: if_splits option.splits)
  have new: "''signature'' \<notin> fst ` set ?u" by (simp add: unsigned_descriptor_def)
  have "verify_event C (hex_encode C (ed_public C seed)) (hex_encode C (ed_sign C seed m)) m" for m
    using assms(1) by (simp add: verify_event_def signatures_verify_def)
  then show ?thesis using c hm_remove_insert_new [OF new]
    by (simp add: get_str_def unsigned_descriptor_def DESCRIPTOR_LIFETIME_SECONDS_def)
qed

end
