(* ===== verification/Provenance.thy ===== *)
theory Provenance
  imports Startup Wire
begin

text \<open>
  The signed record of a deployment, \<open>src/deployment_provenance.rs\<close>, and the endpoint that serves it,
  \<open>deployment_record\<close> of \<open>src/directory_evidence.rs\<close>.

  \<open>serde_jcs\<close>, base64url without padding and chrono's RFC 3339 parser are parameters. Seconds are unbounded
  integers; the difference of two times that chrono can represent is far within 64 bits.
\<close>

section \<open>The configuration\<close>

definition PROVENANCE_DOMAIN :: string where
  "PROVENANCE_DOMAIN = ''IICP-DEPLOYMENT-RECORD-V1'' @ [CHR 0x00]"

definition PROVENANCE_PURPOSE :: string where
  "PROVENANCE_PURPOSE = ''iicp-deployment-record-v1''"

record DeploymentConfig =
  dc_kind :: string
  dc_flavor :: string
  dc_runtime_version :: string
  dc_release_tag :: string
  dc_source_commit :: string
  dc_build_digest :: string
  dc_image_digest :: "string option"
  dc_sbom_digest :: "string option"
  dc_openapi_version :: string
  dc_protocol_min :: string
  dc_protocol_max :: string
  dc_deployed_at :: string
  dc_root_key_id :: string

definition is_ascii_hexdigit :: "char \<Rightarrow> bool" where
  "is_ascii_hexdigit c \<longleftrightarrow> is_ascii_digit c \<or> 97 \<le> code c \<and> code c \<le> 102 \<or> 65 \<le> code c \<and> code c \<le> 70"

definition is_hex :: "string \<Rightarrow> nat \<Rightarrow> bool" where
  "is_hex value1 len \<longleftrightarrow> length value1 = len \<and> list_all is_ascii_hexdigit value1"

definition is_digest :: "string \<Rightarrow> bool" where
  "is_digest value1 \<longleftrightarrow> (case strip_prefix value1 ''sha256:'' of None \<Rightarrow> False | Some digest \<Rightarrow> is_hex digest 64)"

definition required :: "(string \<Rightarrow> string option) \<Rightarrow> string \<Rightarrow> string option" where
  "required env name = nonempty (map_option trim (env name))"

definition env_default :: "(string \<Rightarrow> string option) \<Rightarrow> string \<Rightarrow> string \<Rightarrow> string" where
  "env_default env name d = unwrap_or d (required env name)"

definition digest_env :: "(string \<Rightarrow> string option) \<Rightarrow> string \<Rightarrow> string option" where
  "digest_env env name =
     (case required env name of None \<Rightarrow> None | Some value1 \<Rightarrow> if is_digest value1 then Some value1 else None)"

definition deployment_valid :: "DeploymentConfig \<Rightarrow> bool" where
  "deployment_valid D \<longleftrightarrow>
     dc_kind D \<in> {''shared_hosting'', ''container'', ''native'', ''other''} \<and> dc_flavor D \<in> {''php'', ''rust'', ''other''}
     \<and> is_hex (dc_source_commit D) 40 \<and> is_digest (dc_build_digest D)"

definition deployment_from_env :: "(string \<Rightarrow> string option) \<Rightarrow> string \<Rightarrow> DeploymentConfig option" where
  "deployment_from_env env runtime_version =
     (case (required env ''IICP_DEPLOYMENT_KIND'', required env ''IICP_RELEASE_TAG'', required env ''IICP_SOURCE_COMMIT'',
            required env ''IICP_BUILD_ID'', required env ''IICP_DEPLOYED_AT'', required env ''IICP_ROOT_KEY_ID'') of
        (Some kind, Some release_tag, Some source_commit, Some build_digest, Some deployed_at, Some root_key_id) \<Rightarrow>
          (let D = \<lparr>dc_kind = kind, dc_flavor = ''rust'', dc_runtime_version = runtime_version, dc_release_tag = release_tag,
                    dc_source_commit = source_commit, dc_build_digest = build_digest,
                    dc_image_digest = digest_env env ''IICP_IMAGE_DIGEST'', dc_sbom_digest = digest_env env ''IICP_SBOM_DIGEST'',
                    dc_openapi_version = env_default env ''IICP_OPENAPI_VERSION'' ''1.7.0'',
                    dc_protocol_min = env_default env ''IICP_PROTOCOL_MIN'' ''1.9.0'',
                    dc_protocol_max = env_default env ''IICP_PROTOCOL_MAX'' ''1.9.0'',
                    dc_deployed_at = deployed_at, dc_root_key_id = root_key_id\<rparr>
           in if deployment_valid D then Some D else None)
      | _ \<Rightarrow> None)"

section \<open>Signing and verifying\<close>

definition unsigned_record :: "DeploymentConfig \<Rightarrow> (string \<times> json) list" where
  "unsigned_record D =
     [(''schema'', JStr ''iicp.deployment-record.v1''), (''deployment_kind'', JStr (dc_kind D)),
      (''directory'', JObj [(''flavor'', JStr (dc_flavor D)), (''runtime_version'', JStr (dc_runtime_version D)),
                            (''release_tag'', JStr (dc_release_tag D)), (''source_commit'', JStr (to_ascii_lowercase (dc_source_commit D)))]),
      (''artifact'', JObj [(''build_digest'', JStr (dc_build_digest D)), (''image_digest'', opt_string (dc_image_digest D)),
                           (''sbom_digest'', opt_string (dc_sbom_digest D))]),
      (''compatibility'', JObj [(''openapi_version'', JStr (dc_openapi_version D)), (''protocol_min'', JStr (dc_protocol_min D)),
                                (''protocol_max'', JStr (dc_protocol_max D))]),
      (''deployed_at'', JStr (dc_deployed_at D)), (''root_key_id'', JStr (dc_root_key_id D))]"

record provenance_env =
  pv_crypto :: crypto
  pv_jcs :: "json \<Rightarrow> string option"
  pv_b64url :: "string \<Rightarrow> string"
  pv_unb64url :: "string \<Rightarrow> string option"
  pv_timestamp :: "string \<Rightarrow> int option"

definition record_signature :: "DeploymentConfig \<Rightarrow> string \<Rightarrow> json" where
  "record_signature D encoded =
     JObj [(''algorithm'', JStr ''Ed25519''), (''purpose'', JStr PROVENANCE_PURPOSE), (''key_id'', JStr (dc_root_key_id D)), (''value'', JStr encoded)]"

definition sign_record :: "provenance_env \<Rightarrow> DeploymentConfig \<Rightarrow> string \<Rightarrow> json option" where
  "sign_record E D secret_key_hex =
     (if \<not> deployment_valid D then None
      else case signing_seed (pv_crypto E) secret_key_hex of
             None \<Rightarrow> None
           | Some seed \<Rightarrow>
               (case pv_jcs E (JObj (unsigned_record D)) of
                  None \<Rightarrow> None
                | Some canonical \<Rightarrow>
                    Some (JObj (hm_insert ''signature''
                      (record_signature D (pv_b64url E (ed_sign (pv_crypto E) seed (PROVENANCE_DOMAIN @ canonical))))
                      (unsigned_record D)))))"

text \<open>The two times are given together or the age is not checked.\<close>

definition age_ok :: "provenance_env \<Rightarrow> json \<Rightarrow> int option \<Rightarrow> int option \<Rightarrow> bool" where
  "age_ok E unsigned1 observed_at max_age =
     (case (observed_at, max_age) of
        (Some observed, Some limit) \<Rightarrow>
          (case Option.bind (get_str unsigned1 ''deployed_at'') (pv_timestamp E) of
             None \<Rightarrow> False
           | Some deployed \<Rightarrow> \<not> (observed - deployed < 0 \<or> limit < observed - deployed))
      | _ \<Rightarrow> True)"

definition verify_record :: "provenance_env \<Rightarrow> json \<Rightarrow> string \<Rightarrow> int option \<Rightarrow> int option \<Rightarrow> bool" where
  "verify_record E record1 public_key observed_at max_age =
     (case json_get record1 ''signature'' of
        None \<Rightarrow> False
      | Some signature \<Rightarrow>
          if get_str signature ''algorithm'' \<noteq> Some ''Ed25519'' \<or> get_str signature ''purpose'' \<noteq> Some PROVENANCE_PURPOSE
             \<or> json_get signature ''key_id'' \<noteq> json_get record1 ''root_key_id''
          then False
          else (case Option.bind (get_str signature ''value'') (pv_unb64url E) of
                  None \<Rightarrow> False
                | Some raw \<Rightarrow>
                    if \<not> sig_from_slice (pv_crypto E) raw \<or> \<not> pk_from_slice (pv_crypto E) public_key then False
                    else (case as_object record1 of
                            None \<Rightarrow> False
                          | Some object \<Rightarrow>
                              (let unsigned1 = JObj (hm_remove ''signature'' object)
                               in case pv_jcs E unsigned1 of
                                    None \<Rightarrow> False
                                  | Some canonical \<Rightarrow>
                                      ed_verify (pv_crypto E) public_key (PROVENANCE_DOMAIN @ canonical) raw
                                      \<and> age_ok E unsigned1 observed_at max_age))))"

definition record_unavailable :: response where
  "record_unavailable = (503, JObj [(''error'', JObj [(''code'', JStr ''deployment_record_unavailable'')])])"

definition deployment_record :: "provenance_env \<Rightarrow> (string \<Rightarrow> string option) \<Rightarrow> string \<Rightarrow> AppState \<Rightarrow> response" where
  "deployment_record E env version S =
     (case deployment_from_env env version of
        None \<Rightarrow> record_unavailable
      | Some D \<Rightarrow>
          (case st_signing_key S of
             None \<Rightarrow> record_unavailable
           | Some secret \<Rightarrow> (case sign_record E D secret of Some record1 \<Rightarrow> (200, record1) | None \<Rightarrow> record_unavailable)))"

section \<open>Theorems\<close>

lemma unsigned_record_keys: "''signature'' \<notin> fst ` set (unsigned_record D)"
  by (simp add: unsigned_record_def)

lemma unsigned_record_get:
  "map_of (unsigned_record D) ''root_key_id'' = Some (JStr (dc_root_key_id D))"
  "map_of (unsigned_record D) ''deployed_at'' = Some (JStr (dc_deployed_at D))"
  by (simp_all add: unsigned_record_def)

lemma signature_get:
  "get_str (record_signature D v) ''algorithm'' = Some ''Ed25519''"
  "get_str (record_signature D v) ''purpose'' = Some PROVENANCE_PURPOSE"
  "json_get (record_signature D v) ''key_id'' = Some (JStr (dc_root_key_id D))"
  "get_str (record_signature D v) ''value'' = Some v"
  by (simp_all add: record_signature_def get_str_def)

text \<open>
  A record that the directory serves verifies under its public key, with any age limit that the time since the
  deployment is within, and with no other one; what it says is the configuration, with commit and
  build digest well formed.
\<close>

theorem deployment_record_verifies:
  assumes "signatures_verify (pv_crypto E)" and "\<And>b. pv_unb64url E (pv_b64url E b) = Some b"
    and "libsodium_key (pv_crypto E) secret seed" and "st_signing_key S = Some secret"
    and "deployment_record E env version S = (200, r)"
  shows "\<exists>D. deployment_from_env env version = Some D \<and> is_hex (dc_source_commit D) 40 \<and> is_digest (dc_build_digest D)
    \<and> (\<forall>now limit. verify_record E r (ed_public (pv_crypto E) seed) (Some now) (Some limit) \<longleftrightarrow>
         (\<exists>t. pv_timestamp E (dc_deployed_at D) = Some t \<and> t \<le> now \<and> now - t \<le> limit))
    \<and> verify_record E r (ed_public (pv_crypto E) seed) None None"
proof -
  obtain D where D: "deployment_from_env env version = Some D" and r: "sign_record E D secret = Some r"
    using assms(4,5) by (auto simp: deployment_record_def record_unavailable_def split: option.splits)
  have valid: "deployment_valid D"
    using r by (simp add: sign_record_def split: if_splits)
  obtain canonical where c: "pv_jcs E (JObj (unsigned_record D)) = Some canonical"
      "r = JObj (hm_insert ''signature''
         (record_signature D (pv_b64url E (ed_sign (pv_crypto E) seed (PROVENANCE_DOMAIN @ canonical)))) (unsigned_record D))"
    using r valid libsodium_parts(1) [OF assms(3)] by (auto simp: sign_record_def split: option.splits)
  have v: "verify_record E r (ed_public (pv_crypto E) seed) now limit \<longleftrightarrow> age_ok E (JObj (unsigned_record D)) now limit" for now limit
    using assms(1,2) unfolding c(2)
    by (simp add: verify_record_def signature_get unsigned_record_get hm_remove_insert_new [OF unsigned_record_keys] c(1) signatures_verify_def)
  have "age_ok E (JObj (unsigned_record D)) (Some now) (Some limit) \<longleftrightarrow>
      (\<exists>t. pv_timestamp E (dc_deployed_at D) = Some t \<and> t \<le> now \<and> now - t \<le> limit)" for now limit
    by (auto simp: age_ok_def get_str_def unsigned_record_get split: option.splits)
  then show ?thesis using D valid by (auto simp: v deployment_valid_def age_ok_def)
qed

text \<open>
  A record that verifies was signed for this purpose by the holder of the key, over everything it says: the bytes
  carry the domain of deployment records, so no other signature of the directory passes for one.
\<close>

theorem verified_record_signed:
  assumes "verify_record E r pk observed limit"
  shows "\<exists>kvs sig raw canonical. r = JObj kvs \<and> map_of kvs ''signature'' = Some sig
    \<and> Option.bind (get_str sig ''value'') (pv_unb64url E) = Some raw
    \<and> pv_jcs E (JObj (hm_remove ''signature'' kvs)) = Some canonical
    \<and> ed_verify (pv_crypto E) pk (PROVENANCE_DOMAIN @ canonical) raw
    \<and> get_str sig ''purpose'' = Some PROVENANCE_PURPOSE \<and> json_get sig ''key_id'' = map_of kvs ''root_key_id''
    \<and> (\<forall>m. PROVENANCE_DOMAIN @ canonical \<noteq> SIGNATURE_DOMAIN @ m \<and> PROVENANCE_DOMAIN @ canonical \<noteq> MEMBERSHIP_DOMAIN @ m)"
proof -
  have dom: "PROVENANCE_DOMAIN @ x \<noteq> SIGNATURE_DOMAIN @ m" "PROVENANCE_DOMAIN @ x \<noteq> MEMBERSHIP_DOMAIN @ m" for x m
    by (simp_all add: PROVENANCE_DOMAIN_def SIGNATURE_DOMAIN_def MEMBERSHIP_DOMAIN_def)
  obtain kvs where kvs: "r = JObj kvs" using assms by (cases r) (auto simp: verify_record_def)
  then show ?thesis using assms dom by (auto simp: verify_record_def Let_def split: option.splits if_splits)
qed

end
