(* ===== verification/Spec2Isabelle.thy ===== *)
theory Spec2Isabelle
  imports Reputation Validate Types Federation Repo Event_Log Operators Replica Health Selection Probe
    Capability Recognition Policy Registration Restricted_Domain Credits Seed Heartbeat Operator_Service Dispatch Membership Replication
    Server Runtime_Health Background Operator_Runs Redaction Replica_Table Disclosure Startup Provenance
begin

text \<open>
  A verification development for the IICP directory service, the Rust binary under \<open>src/\<close>. Paths below are
  relative to \<open>src/src/\<close>.

  \<^bold>\<open>The program.\<close> The directory keeps a registry of nodes that serve intents. Nodes register over HTTP, prove that
  they are alive, send heartbeats and earn reputation and credits; clients discover nodes, buy tickets and
  tokens for them, and report on them. Operators own nodes and manage their identity with signed requests.
  A directory with a signing key (a seed) appends every change to a hash-chained, signed event log; replicas
  poll that log, verify it and replay it into a registry of their own. The state is behind the trait
  \<open>NodeRepository\<close>, with an implementation in memory and one on MySQL; periodic tasks expire, probe and prune it.
  Restricted domains put a membership check in front of the handlers.

  \<^bold>\<open>Conventions.\<close> A Rust string is the list of its UTF-8 bytes; a hash map is an association list with one entry
  per key; counters that may wrap are words, other integers that stay in range are \<open>int\<close>; \<open>f64\<close> is the set of
  finite doubles as rationals with rounding after each operation (\<open>Float64\<close>), \<open>f32\<close> columns likewise. A fallible
  operation returns a sum, \<open>Inl\<close> the error. A handler takes a request context (cryptography, clock, fresh ids,
  token library), headers, the decoded request and the state, and returns a response and the new state. Code
  outside the repository (sha2, ed25519, jsonwebtoken, serde_json, serde_jcs, chrono, DNS, TCP, the MySQL server)
  is a parameter; what a theorem needs of it is a named predicate such as \<open>signatures_verify\<close>,
  \<open>jwt_contract\<close>, \<open>collation\<close>, \<open>token_codec_ok\<close>, and every witness instantiates it.

  \<^bold>\<open>Foundations.\<close> \<open>Prelude\<close> has the types, string functions, words, hash maps and the shared lemmas;
  \<open>Float64\<close> the doubles; \<open>Json\<close> the values of serde_json; \<open>Types\<close> and \<open>Wire\<close> the records of \<open>types.rs\<close> and their
  serialised form; \<open>Calendar\<close> the date arithmetic of \<open>directory_evidence.rs\<close>, equal to the Gregorian calendar.

  \<^bold>\<open>Policy and scoring.\<close> \<open>Reputation\<close> (\<open>reputation.rs\<close>), \<open>Validate\<close> (\<open>validate.rs\<close>: intent grammar, routable
  endpoints), \<open>Policy\<close> (\<open>policy.rs\<close>), \<open>Registration\<close> (\<open>registration.rs\<close>), \<open>Selection\<close> (\<open>behavior_contract.rs\<close>,
  \<open>discovery_policy.rs\<close>), \<open>Health\<close> (\<open>health.rs\<close>), \<open>Capability\<close> (\<open>effective_capability.rs\<close>), \<open>Recognition\<close>
  (\<open>recognition.rs\<close>), \<open>Probe\<close> (\<open>probe.rs\<close>), \<open>Restricted_Domain\<close> (\<open>restricted_domain.rs\<close>), \<open>Policy_Manifest\<close>
  (\<open>policy_manifest.rs\<close>), \<open>Delegation\<close> (\<open>delegation.rs\<close>), \<open>Disclosure\<close> (\<open>policy_detail_disclosure.rs\<close>). Their
  lemmas say exactly which inputs are accepted, that scores stay within their bounds, and that signed texts of
  different kinds cannot be confused.

  \<^bold>\<open>The repository in memory\<close>, \<open>repo.rs\<close>. \<open>Repo\<close> has the node table with registration, heartbeats, discovery,
  credits, challenges and probes; \<open>Event_Log\<close> the signed log and the replica table; \<open>Operators\<close> identities,
  data-subject requests and founders. \<open>Repo\<close> states the registry as a locale, an abstract map from ids to records
  with the laws of its operations, and shows that the implementation refines it.

  \<^bold>\<open>The repository on MySQL\<close>, \<open>db.rs\<close> with the tables of \<open>schema/baseline-v1.sql\<close>. \<open>Sql\<close> models what is used of
  the database: a table is a list of rows, text is compared by a collation key, decimals are integers of
  ten-thousandths, each statement of each attempt may fail, a transaction that fails leaves the tables alone,
  and deadlocks are retried, three attempts in all. \<open>Ledger\<close>, \<open>Ledger_Exact\<close> and \<open>Ledger_Runs\<close> are the credit
  ledger: it reconciles after any sequence of calls with any failures, a receipt is paid once, free credits come
  at most once in six hours, and the wallet debit, computed in doubles, is the exact decimal one. Exactness is
  shown for operators with at most 1000 nodes and balances of at most ten million credits, far below \<open>2 ^ 53\<close>
  ten-thousandths. \<open>Node_Table\<close> and \<open>Node_Runs\<close> are the life of a node and the log, which refines the log in
  memory; \<open>Operator_Table\<close> and \<open>Operator_Runs\<close> the identities with rotation, revocation and anonymisation;
  \<open>Redaction\<close> the data-subject export; \<open>Replica_Table\<close> the replicas.

  \<^bold>\<open>HTTP handlers.\<close> \<open>Http\<close> is the shared layer of \<open>main.rs\<close> and \<open>state.rs\<close>, with the locale of an endpoint that is
  guarded by a node token; \<open>Auth\<close> the tokens of \<open>auth.rs\<close>; \<open>Lifecycle\<close> and \<open>Heartbeat\<close> are \<open>node_lifecycle.rs\<close>;
  \<open>Operator_Service\<close> is \<open>operator.rs\<close>; \<open>Credits\<close> is \<open>credits.rs\<close>; \<open>Access\<close> is \<open>peer_access.rs\<close> and
  \<open>token_issuance.rs\<close>; \<open>Discovery\<close>, \<open>Projection\<close> and \<open>Dispatch\<close> are \<open>discovery.rs\<close>; \<open>Evidence\<close> is
  \<open>directory_evidence.rs\<close>; \<open>Provenance\<close> is \<open>deployment_provenance.rs\<close>; \<open>Membership\<close> is \<open>restricted_domain_auth.rs\<close> and
  \<open>restricted_domain_membership.rs\<close>. The theorems say what an accepted request has shown and all that it
  changes, on every branch.

  \<^bold>\<open>Federation.\<close> \<open>Federation\<close> (\<open>federation.rs\<close>, \<open>jcs.rs\<close>) has canonical JSON, the hash chain and the
  signatures; \<open>Seed\<close> (\<open>federation_handlers.rs\<close>) snapshots and replica registration; \<open>Replica\<close> (\<open>replica.rs\<close>) the
  configuration, the verification and application of events and the polling loop. The loop has no bound of its
  own, so it runs on fuel that counts pages; \<open>drain_termination\<close> shows that one page more than the seed has
  sequence numbers left is enough. \<open>Replication\<close> composes the handlers of the seed with the replay of the replica.

  \<^bold>\<open>The process.\<close> \<open>Server\<close> (\<open>router.rs\<close>) makes one step of each request that reaches a handler and states the
  invariants of the whole as a locale, interpreted for the shape of the tables, the log and retired keys;
  \<open>Startup\<close> (\<open>config.rs\<close>, \<open>local_directory_discovery.rs\<close>, \<open>runtime.rs\<close>, \<open>main\<close>) the guards before the first
  request; \<open>Runtime_Health\<close> (\<open>runtime_health.rs\<close>, \<open>systemd_notify.rs\<close>) process health; \<open>Background\<close>
  (\<open>background.rs\<close>) the passes of the periodic tasks; \<open>Maintenance\<close> (\<open>maintenance.rs\<close>) retention, whose passes delete
  at most the batch size times the number of batches. This theory holds the properties of any sequence of
  requests: the tables keep their shape, the log stays a signed chain, retired keys stay retired, and every
  change of a record was made by someone entitled to it.

  \<^bold>\<open>Not modelled.\<close> The discovery, listing and aggregate queries of \<open>db.rs\<close> with \<open>registration_store.rs\<close> and
  \<open>schema.rs\<close>, whose meaning is SQL over joined tables (the interface is modelled by the repository in memory);
  \<open>registry.rs\<close> and \<open>public_surfaces.rs\<close>, read-only views; \<open>cli.rs\<close>, \<open>service.rs\<close>, \<open>updater.rs\<close> and
  \<open>observability.rs\<close>, input and output; HTTP framing, header values that are not text, timings, logging and task
  scheduling. Concurrency inside one handler is not modelled: a request is one step, except where a theorem
  about the database states what happens between two statements.
\<close>

section \<open>The running directory\<close>

text \<open>
  C19. The tables keep their shape under any sequence of requests, accepted or refused: node ids,
  replica DIDs and the keys of every hash map stay unique and every reputation stays between 0 and 1.
\<close>

theorem directory_well_typed:
  assumes "same_crypto C reqs" and "well_typed (st_repo (os_app Q))"
  shows "well_typed (st_repo (os_app (serve_all reqs Q)))"
  using assms by (intro tables.directory_keeps) simp_all

text \<open>
  C7. The log that the directory publishes is a signed hash chain whatever it was asked to do: from
  an empty log, after any sequence of requests, the rows are numbered 1, 2, 3, ..., each
  names the hash of the signature before it, and each signature verifies under the
  directory's public key.
\<close>

theorem directory_log_chained:
  assumes "signatures_verify C" and "signing_seed C sk = Some seed" and "st_signing_key (os_app Q) = Some sk"
    and "m_events (st_repo (os_app Q)) = []" and "same_crypto C reqs"
  shows "chained C (hex_encode C (ed_public C seed)) 0 None (m_events (st_repo (os_app (serve_all reqs Q))))
    \<and> map e_seq (m_events (st_repo (os_app (serve_all reqs Q))))
        = map (\<lambda>k. int k + 1) [0..<length (m_events (st_repo (os_app (serve_all reqs Q))))]"
proof -
  have "sealed C sk (st_repo (os_app Q))" using assms(4) by (simp add: sealed_def)
  then have c: "chained C (hex_encode C (ed_public C seed)) 0 None (m_events (st_repo (os_app (serve_all reqs Q))))"
    using log_chain.directory_keeps [OF assms(5,3)] assms(1,2) by (simp add: sealed_def)
  then show ?thesis using chained_seqs [OF c] by (simp add: add.commute)
qed


text \<open>
  C5. Every change of a node's record has an author. When the record of a node differs after a
  sequence of requests, one of them was entitled to change it in the state it met: an
  accepted registration of that id, a deregistration or heartbeat that carried the
  node's token, or an authentic self-service request of the operator the node was bound to.
\<close>

theorem record_changes_entitled:
  assumes "find_record (st_repo (os_app (serve_all reqs Q))) i \<noteq> find_record (st_repo (os_app Q)) i"
  shows "\<exists>before X req after. reqs = before @ (X, req) # after \<and> entitled X req (serve_all before Q) i"
  using assms
proof (induction reqs arbitrary: Q)
  case (Cons r reqs)
  obtain X req where r: "r = (X, req)" by fastforce
  let ?Q = "snd (serve X req Q)"
  show ?case
  proof (cases "find_record (st_repo (os_app ?Q)) i = find_record (st_repo (os_app Q)) i")
    case True
    then have "find_record (st_repo (os_app (serve_all reqs ?Q))) i \<noteq> find_record (st_repo (os_app ?Q)) i"
      using Cons.prems r by (simp add: serve_all_def)
    from Cons.IH [OF this] obtain before Y rq after where "reqs = before @ (Y, rq) # after" "entitled Y rq (serve_all before ?Q) i"
      by blast
    then show ?thesis
      using r by (intro exI [of _ "(X, req) # before"] exI [of _ Y] exI [of _ rq] exI [of _ after]) (simp add: serve_all_def)
  next
    case False
    then show ?thesis
      using r serve_entitled [OF False] by (intro exI [of _ "[]"] exI [of _ X] exI [of _ req] exI [of _ reqs]) (simp add: serve_all_def)
  qed
qed (simp add: serve_all_def)

section \<open>A sample run\<close>

definition sample_directory :: OperatorState where
  "sample_directory = \<lparr>os_app = demo_state [demo_node_record ''a'' ''ta'', demo_node_record ''b'' ''tb''], os_challenges = []\<rparr>"

definition sample_requests :: "(RequestContext \<times> request) list" where
  "sample_requests = [(demo_context, ReqDeregister (demo_bearer ''ta'') ''a'')]"

lemma sample_run:
  "same_crypto demo_crypto sample_requests" "st_signing_key (os_app sample_directory) = Some demo_secret"
  "m_events (st_repo (os_app sample_directory)) = []" "well_typed (st_repo (os_app sample_directory))"
  "m_records (st_repo (os_app (serve_all sample_requests sample_directory))) = [demo_node_record ''b'' ''tb'']"
  "length (m_events (st_repo (os_app (serve_all sample_requests sample_directory)))) = 1"
  by (simp_all add: sample_directory_def sample_requests_def demo_state_def new_with_token_verification_def new_repo_def same_crypto_def
      demo_context_def well_typed_def dids_distinct_def scored_def demo_node_record_def blank_record_def blank_node_def serve_all_def on_app_def
      deregister_handler_def bearer_token_demo verify_node_token_def find_record_def deregister_def emit_event_def append_signed_event_def Let_def)

theorem directory_well_typed_witness:
  "well_typed (st_repo (os_app (serve_all sample_requests sample_directory)))
    \<and> m_records (st_repo (os_app (serve_all sample_requests sample_directory))) = [demo_node_record ''b'' ''tb'']"
  using directory_well_typed [OF sample_run(1,4)] sample_run(5) by simp

theorem directory_log_chained_witness:
  "chained demo_crypto (hex_encode demo_crypto (ed_public demo_crypto (replicate 32 CHR ''s''))) 0 None
      (m_events (st_repo (os_app (serve_all sample_requests sample_directory))))
    \<and> map e_seq (m_events (st_repo (os_app (serve_all sample_requests sample_directory)))) = [1]"
  using directory_log_chained [OF signatures_verify_demo demo_seed sample_run(2,3,1)] sample_run(6) by simp


theorem record_changes_entitled_witness:
  "find_record (st_repo (os_app (serve_all sample_requests sample_directory))) ''a'' \<noteq> find_record (st_repo (os_app sample_directory)) ''a''
    \<and> (\<exists>before X req after. sample_requests = before @ (X, req) # after \<and> entitled X req (serve_all before sample_directory) ''a'')"
proof -
  have "find_record (st_repo (os_app (serve_all sample_requests sample_directory))) ''a'' \<noteq> find_record (st_repo (os_app sample_directory)) ''a''"
    using sample_run(5) by (simp add: find_record_def sample_directory_def demo_state_def new_with_token_verification_def new_repo_def
        demo_node_record_def blank_record_def blank_node_def)
  with record_changes_entitled [OF this] show ?thesis by blast
qed

end
